(* ===== verification/Prelude.thy ===== *)
theory Prelude
  imports Main "HOL-Library.Code_Target_Nat"
begin

text \<open>
  Shared vocabulary of the development: the stable error codes of
  \<open>domain/errors.py\<close>, exceptions as values of a sum type, the row tables that stand for
  the SQLite tables of \<open>adapters/persistence\<close>, and the interface every durable component
  satisfies (an operation either raises and leaves the state alone, or returns a new state that
  keeps the component's invariant).

  Strings. A Python \<open>str\<close> is represented by its UTF-8 bytes (lone surrogates encoded with
  \<open>surrogatepass\<close>), so a \<^typ>\<open>string\<close> here is a list of bytes. Byte lengths are
  \<^const>\<open>length\<close>; \<open>len\<close> of the \<open>str\<close> is \<open>py_len\<close> below, which
  does not count continuation bytes. All separators the code looks for are ASCII, and no ASCII byte
  occurs inside a multi-byte UTF-8 sequence.

  Time. A \<open>datetime\<close> in UTC is an \<^typ>\<open>int\<close>: microseconds since the epoch.
\<close>

named_theorems res_simps \<open>inversion of results: when does a computation return\<close>
named_theorems table_simps \<open>lookup, update and insertion of rows\<close>

section \<open>Errors\<close>

datatype error_code =
    CONFIG_INVALID | PROJECT_NOT_GIT | PROJECT_NOT_INITIALIZED | PROJECT_DIRTY
  | RUNTIME_UNAVAILABLE | RUNTIME_CAPABILITY_MISSING | RUNTIME_OUTPUT_INVALID | RUNTIME_TIMEOUT
  | RUNTIME_RETRY_EXHAUSTED | RUNTIME_BUDGET_EXCEEDED | PROVIDER_UNSUPPORTED | PROVIDER_FAILED
  | CREDENTIAL_INVALID | CREDENTIAL_MISSING | SANDBOX_UNAVAILABLE | SANDBOX_CAPABILITY_MISSING
  | SANDBOX_CREATION_FAILED | SANDBOX_INSPECTION_FAILED | SANDBOX_EXECUTION_FAILED
  | SANDBOX_TIMEOUT | SANDBOX_OUTPUT_LIMIT | SANDBOX_CLEANUP_FAILED
  | SANDBOX_REMOTE_DAEMON_DENIED | SANDBOX_IMAGE_UNAVAILABLE
  | UNSAFE_LOCAL_CONFIRMATION_REQUIRED | COMMAND_NOT_REVIEWED | COMMAND_OUTCOME_AMBIGUOUS
  | BOOTSTRAP_CANARY_FAILED | BOOTSTRAP_REPORT_INVALID | BOOTSTRAP_TARGET_DRIFTED
  | COMMAND_DENIED | APPROVAL_REQUIRED | APPROVAL_DENIED | APPROVAL_INVALID
  | PATH_OUTSIDE_SCOPE | WORKFLOW_INVALID_TRANSITION | PATCH_TARGET_DIVERGED
  | ARTIFACT_INTEGRITY_FAILED | STATE_SCHEMA_INCOMPATIBLE | STATE_UNAVAILABLE
  | RESOURCE_NOT_FOUND | RECOVERY_REQUIRED | INTERNAL_ERROR

text \<open>
  An exception: a \<open>FleetError\<close> by its stable code (the two subclasses that carry a request
  identifier keep it), the \<open>ValueError\<close> family of pydantic validation, a missing dictionary
  key, an integrity violation reported by SQLite, the cancellation of a task, the use of an
  unassigned local variable, an explicit \<open>RuntimeError\<close>, and the \<open>TypeError\<close> of an
  unhashable value. Message texts are not modelled.
\<close>

datatype exn =
    FleetError error_code
  | ApprovalRequiredError string
  | ApprovalDeniedError string
  | ValueError
  | KeyError
  | IntegrityError
  | CancelledError
  | UnboundLocalError
  | RuntimeError
  | TypeError

type_synonym 'a res = "exn + 'a"

definition bind_res :: "'a res \<Rightarrow> ('a \<Rightarrow> 'b res) \<Rightarrow> 'b res" where
  "bind_res m f = (case m of Inl e \<Rightarrow> Inl e | Inr x \<Rightarrow> f x)"

definition require :: "bool \<Rightarrow> exn \<Rightarrow> unit res" where
  "require b e = (if b then Inr () else Inl e)"

definition some_or :: "exn \<Rightarrow> 'a option \<Rightarrow> 'a res" where
  "some_or e x = (case x of None \<Rightarrow> Inl e | Some y \<Rightarrow> Inr y)"

lemma bind_res_simps [simp]:
  "bind_res (Inl e) f = Inl e"
  "bind_res (Inr x) f = f x"
  by (simp_all add: bind_res_def)

lemma require_simps [simp]:
  "require True e = Inr ()"
  "require False e = Inl e"
  by (simp_all add: require_def)

lemma some_or_simps [simp]:
  "some_or e None = Inl e"
  "some_or e (Some y) = Inr y"
  by (simp_all add: some_or_def)

lemma bind_res_Inr [res_simps]:
  "bind_res m f = Inr y \<longleftrightarrow> (\<exists>x. m = Inr x \<and> f x = Inr y)"
  by (cases m) auto

lemma bind_res_Inl [res_simps]:
  "bind_res m f = Inl e \<longleftrightarrow> m = Inl e \<or> (\<exists>x. m = Inr x \<and> f x = Inl e)"
  by (cases m) auto

lemma require_Inr [res_simps]: "require b e = Inr u \<longleftrightarrow> b"
  by (simp add: require_def)

lemma require_Inl [res_simps]: "require b e = Inl e' \<longleftrightarrow> \<not> b \<and> e' = e"
  by (auto simp: require_def)

lemma some_or_Inr [res_simps]: "some_or e x = Inr y \<longleftrightarrow> x = Some y"
  by (cases x) auto

lemma some_or_Inl [res_simps]: "some_or e x = Inl e' \<longleftrightarrow> x = None \<and> e' = e"
  by (cases x) auto

lemma if_Inl_eq_Inr [res_simps]: "(if b then Inl e else m) = Inr y \<longleftrightarrow> \<not> b \<and> m = Inr y"
  by simp

text \<open>Running a check over a list stops at the first error, as a \<open>for\<close> loop with a raise does.\<close>

fun check_all :: "('a \<Rightarrow> unit res) \<Rightarrow> 'a list \<Rightarrow> unit res" where
  "check_all f [] = Inr ()"
| "check_all f (x # xs) = bind_res (f x) (\<lambda>_. check_all f xs)"

lemma check_all_Inr [res_simps]: "check_all f xs = Inr () \<longleftrightarrow> (\<forall>x \<in> set xs. f x = Inr ())"
  by (induction xs) (auto simp: bind_res_Inr)

section \<open>Strings\<close>

definition is_continuation :: "char \<Rightarrow> bool" where
  "is_continuation c \<longleftrightarrow> 128 \<le> (of_char c :: nat) \<and> (of_char c :: nat) < 192"

definition py_len :: "string \<Rightarrow> nat" where
  "py_len s = length (filter (\<lambda>c. \<not> is_continuation c) s)"

lemma py_len_le: "py_len s \<le> length s"
  by (simp add: py_len_def)

definition starts_with :: "string \<Rightarrow> string \<Rightarrow> bool" where
  "starts_with p s \<longleftrightarrow> take (length p) s = p"

definition ends_with :: "string \<Rightarrow> string \<Rightarrow> bool" where
  "ends_with p s \<longleftrightarrow> drop (length s - length p) s = p"

section \<open>Row tables\<close>

text \<open>
  A SQLite table is the list of its rows in \<open>rowid\<close> order. A \<open>SELECT \<dots> WHERE key = ?\<close>
  on a unique column finds the first matching row, an \<open>UPDATE \<dots> WHERE key = ?\<close> rewrites
  every matching row, an \<open>INSERT\<close> appends.
\<close>

definition row_lookup :: "('r \<Rightarrow> 'k) \<Rightarrow> 'k \<Rightarrow> 'r list \<Rightarrow> 'r option" where
  "row_lookup key k rows = find (\<lambda>r. key r = k) rows"

definition row_update :: "('r \<Rightarrow> 'k) \<Rightarrow> 'k \<Rightarrow> ('r \<Rightarrow> 'r) \<Rightarrow> 'r list \<Rightarrow> 'r list" where
  "row_update key k f rows = map (\<lambda>r. if key r = k then f r else r) rows"

definition row_insert :: "('r \<Rightarrow> 'k) \<Rightarrow> 'r \<Rightarrow> 'r list \<Rightarrow> 'r list res" where
  "row_insert key r rows =
     (if key r \<in> key ` set rows then Inl IntegrityError else Inr (rows @ [r]))"

lemma row_lookup_Nil [simp]: "row_lookup key k [] = None"
  by (simp add: row_lookup_def)

lemma row_lookup_Cons [simp]:
  "row_lookup key k (r # rows) = (if key r = k then Some r else row_lookup key k rows)"
  by (simp add: row_lookup_def)

lemma row_lookup_Some [table_simps]:
  "row_lookup key k rows = Some r \<Longrightarrow> r \<in> set rows \<and> key r = k"
  by (induction rows) (auto split: if_splits)

lemma row_lookup_None [table_simps]:
  "row_lookup key k rows = None \<longleftrightarrow> k \<notin> key ` set rows"
  by (induction rows) auto

lemma row_lookup_append [table_simps]:
  "row_lookup key k (rows @ rows') =
     (case row_lookup key k rows of None \<Rightarrow> row_lookup key k rows' | Some r \<Rightarrow> Some r)"
  by (induction rows) auto

lemma row_lookup_distinct:
  "distinct (map key rows) \<Longrightarrow> r \<in> set rows \<Longrightarrow> row_lookup key (key r) rows = Some r"
  by (induction rows) (auto simp: image_iff)

lemma row_lookup_update_same:
  "row_lookup key k rows = Some r \<Longrightarrow> key (f r) = k \<Longrightarrow>
   row_lookup key k (row_update key k f rows) = Some (f r)"
  by (induction rows) (auto simp: row_update_def split: if_splits)

lemma row_lookup_update_other:
  assumes "k \<noteq> k'" and keep: "\<And>r. key r = k \<Longrightarrow> key (f r) = k"
  shows "row_lookup key k' (row_update key k f rows) = row_lookup key k' rows"
  using assms(1) by (induction rows) (simp_all add: row_update_def keep)

lemma map_key_row_update [table_simps]:
  assumes keep: "\<And>r. key r = k \<Longrightarrow> key (f r) = k"
  shows "map key (row_update key k f rows) = map key rows"
  by (induction rows) (simp_all add: row_update_def keep)

lemma set_row_update_subset:
  "set (row_update key k f rows) \<subseteq> set rows \<union> f ` {r \<in> set rows. key r = k}"
  by (auto simp: row_update_def)

lemma length_row_update [simp]: "length (row_update key k f rows) = length rows"
  by (simp add: row_update_def)

lemma row_insert_Inr [res_simps]:
  "row_insert key r rows = Inr rows' \<longleftrightarrow> key r \<notin> key ` set rows \<and> rows' = rows @ [r]"
  by (auto simp: row_insert_def)

lemma row_lookup_row_update:
  assumes "\<And>r. r \<in> set rows \<Longrightarrow> key' r = k' \<Longrightarrow> key (f r) = key r"
  shows "row_lookup key k (row_update key' k' f rows) =
    map_option (\<lambda>r. if key' r = k' then f r else r) (row_lookup key k rows)"
  using assms by (induction rows) (auto simp: row_update_def)

lemma row_update_cong:
  "(\<And>r. r \<in> set rows \<Longrightarrow> key r = k \<Longrightarrow> f r = g r) \<Longrightarrow> row_update key k f rows = row_update key k g rows"
  by (auto simp: row_update_def)

text \<open>
  A table moves forward: every row that can be looked up can still be looked up, and the two rows are
  related.
\<close>

definition table_le :: "('r \<Rightarrow> 'k) \<Rightarrow> ('r \<Rightarrow> 'r \<Rightarrow> bool) \<Rightarrow> 'r list \<Rightarrow> 'r list \<Rightarrow> bool" where
  "table_le key R rows rows' \<longleftrightarrow>
     (\<forall>k r. row_lookup key k rows = Some r \<longrightarrow> (\<exists>r'. row_lookup key k rows' = Some r' \<and> R r r'))"

lemma table_leD:
  "table_le key R rows rows' \<Longrightarrow> row_lookup key k rows = Some r \<Longrightarrow>
   \<exists>r'. row_lookup key k rows' = Some r' \<and> R r r'"
  by (auto simp: table_le_def)

lemma table_le_refl: "(\<And>r. R r r) \<Longrightarrow> table_le key R rows rows"
  by (auto simp: table_le_def)

lemma table_le_trans:
  assumes "table_le key R s t" and "table_le key R t u"
    and "\<And>x y z. R x y \<Longrightarrow> R y z \<Longrightarrow> R x z"
  shows "table_le key R s u"
  using assms unfolding table_le_def by meson

lemma table_le_append: "(\<And>r. R r r) \<Longrightarrow> table_le key R rows (rows @ new)"
  by (auto simp: table_le_def row_lookup_append)

lemma table_le_update:
  assumes keep: "\<And>r. r \<in> set rows \<Longrightarrow> key' r = k' \<Longrightarrow> key (f r) = key r" and "\<And>r. R r r"
    and "\<And>k r. row_lookup key k rows = Some r \<Longrightarrow> key' r = k' \<Longrightarrow> R r (f r)"
  shows "table_le key R rows (row_update key' k' f rows)"
  unfolding table_le_def
proof (intro allI impI)
  fix k r
  assume "row_lookup key k rows = Some r"
  then show "\<exists>r'. row_lookup key k (row_update key' k' f rows) = Some r' \<and> R r r'"
    using assms(2,3) by (subst row_lookup_row_update) (auto intro: keep)
qed

section \<open>The contract of a durable component\<close>

text \<open>
  Every durable component is a step function on its state: an operation that raises leaves the
  state as it was (the transaction is rolled back), one that returns gives the new state. The
  contract below is what the components promise one another; its lemmas lift a promise about one
  operation to every run of operations.
\<close>

fun run_ops :: "('s \<Rightarrow> 'op \<Rightarrow> exn + 's) \<Rightarrow> 's \<Rightarrow> 'op list \<Rightarrow> 's" where
  "run_ops step s [] = s"
| "run_ops step s (x # xs) =
     run_ops step (case step s x of Inl _ \<Rightarrow> s | Inr s' \<Rightarrow> s') xs"

definition next_state :: "('s \<Rightarrow> 'op \<Rightarrow> exn + 's) \<Rightarrow> 's \<Rightarrow> 'op \<Rightarrow> 's" where
  "next_state step s x = (case step s x of Inl _ \<Rightarrow> s | Inr s' \<Rightarrow> s')"

lemma run_ops_next: "run_ops step s (x # xs) = run_ops step (next_state step s x) xs"
  by (simp add: next_state_def)

text \<open>How often something happens along a run of operations.\<close>

fun count_wins :: "('s \<Rightarrow> 'op \<Rightarrow> exn + 's) \<Rightarrow> ('s \<Rightarrow> 'op \<Rightarrow> bool) \<Rightarrow> 's \<Rightarrow> 'op list \<Rightarrow> nat" where
  "count_wins step wins s [] = 0"
| "count_wins step wins s (x # xs) =
     (if wins s x then 1 else 0) + count_wins step wins (next_state step s x) xs"

lemma run_ops_append: "run_ops step s (xs @ ys) = run_ops step (run_ops step s xs) ys"
  by (induction xs arbitrary: s) auto

locale durable =
  fixes step :: "'s \<Rightarrow> 'op \<Rightarrow> exn + 's"
    and inv :: "'s \<Rightarrow> bool"
  assumes step_inv: "inv s \<Longrightarrow> step s x = Inr s' \<Longrightarrow> inv s'"
begin

lemma run_inv: "inv s \<Longrightarrow> inv (run_ops step s xs)"
  by (induction xs arbitrary: s) (auto split: sum.split intro: step_inv)

end

text \<open>
  A monotone component: besides the invariant, every operation only moves the state forward in
  some preorder (records are never taken back).
\<close>

locale durable_mono = durable +
  fixes le :: "'s \<Rightarrow> 's \<Rightarrow> bool"
  assumes le_refl: "le s s"
    and le_trans: "le s t \<Longrightarrow> le t u \<Longrightarrow> le s u"
    and step_le: "inv s \<Longrightarrow> step s x = Inr s' \<Longrightarrow> le s s'"
begin

lemma run_le: "inv s \<Longrightarrow> le s (run_ops step s xs)"
proof (induction xs arbitrary: s)
  case Nil
  show ?case by (simp add: le_refl)
next
  case (Cons x xs)
  show ?case
  proof (cases "step s x")
    case (Inl e)
    with Cons show ?thesis by simp
  next
    case (Inr s')
    with Cons.prems have "inv s'" and "le s s'" by (auto intro: step_inv step_le)
    with Cons.IH [of s'] Inr show ?thesis by (auto intro: le_trans)
  qed
qed

text \<open>
  Something that needs a condition to be false and makes it true happens at most once, when the
  condition is never withdrawn.
\<close>

lemma at_most_once:
  assumes "inv s"
    and stays: "\<And>s t. inv s \<Longrightarrow> le s t \<Longrightarrow> P s \<Longrightarrow> P t"
    and sets: "\<And>s x. inv s \<Longrightarrow> wins s x \<Longrightarrow> \<not> P s \<and> P (next_state step s x)"
  shows "count_wins step wins s xs \<le> (if P s then 0 else 1)"
  using assms(1)
proof (induction xs arbitrary: s)
  case (Cons x xs)
  have "inv (next_state step s x)" and "le s (next_state step s x)"
    using Cons.prems by (auto simp: next_state_def le_refl split: sum.split intro: step_inv step_le)
  with Cons.IH [of "next_state step s x"] show ?case
    using stays [OF Cons.prems, of "next_state step s x"] sets [OF Cons.prems, of x]
    by (auto split: if_splits)
qed simp

end

end
