(* ===== verification/Domain_Types.thy ===== *)
theory Domain_Types
  imports Prelude
begin

text \<open>
  The enumerations of \<open>domain/models.py\<close>, with the source's members. A \<open>StrEnum\<close>
  member is a constructor; where the code compares a member with its text (a role name, a sandbox
  provider), the function to that text is given.
\<close>

datatype agent_role = COS | ENGINEER | VERIFIER | RESEARCHER | ARCHITECT

fun role_value :: "agent_role \<Rightarrow> string" where
  "role_value COS = ''cos''"
| "role_value ENGINEER = ''engineer''"
| "role_value VERIFIER = ''verifier''"
| "role_value RESEARCHER = ''researcher''"
| "role_value ARCHITECT = ''architect''"

definition all_roles :: "agent_role list" where
  "all_roles = [COS, ENGINEER, VERIFIER, RESEARCHER, ARCHITECT]"

text \<open>\<open>AgentRole(text)\<close>: the member with that value, or a \<open>ValueError\<close>.\<close>

definition role_of_value :: "string \<Rightarrow> agent_role res" where
  "role_of_value s = some_or ValueError (find (\<lambda>r. role_value r = s) all_roles)"

datatype agent_status =
  AgCreated | AgRunning | AgPaused | AgCompleted | AgFailed | AgCancelled

datatype run_status =
    CREATED | RUNNING | WAITING_FOR_CHILDREN | PAUSED_FOR_APPROVAL | PAUSED_FOR_PLAN
  | READY_FOR_REVIEW | APPLYING | COMPLETED | FAILED | CANCELLED | REJECTED | ABANDONED

datatype workflow_stage =
    INTAKE | SCOPING | WORKSPACE_PREPARATION | IMPLEMENTING | VERIFYING | REPAIRING
  | PRESENTING | STAGE_APPLYING | CLEANUP

datatype lease_kind = WORKTREE | SANDBOX | EXECUTION

datatype lease_status =
  LeaseCreating | LeaseActive | LeaseReleasing | LeaseReleased | LeaseRecovered | LeaseFailed

datatype permission_outcome = ALLOW | DENY | REQUIRE_APPROVAL

datatype approval_choice = ChoiceDeny | ALLOW_ONCE | ALLOW_RUN | ALLOW_ALWAYS

datatype approval_status = ApPending | ApApproved | ApDenied

datatype intent_status = PENDING_APPROVAL | RESERVED | EXECUTED | IntentDenied

datatype security_level = LevelFake | ISOLATED | UNSAFE_HOST

datatype workspace_kind = CANDIDATE | VERIFICATION

lemma role_value_inj: "role_value r = role_value r' \<longleftrightarrow> r = r'"
  by (cases r; cases r') simp_all

lemma role_of_value_role_value [simp]: "role_of_value (role_value r) = Inr r"
  by (cases r) (simp_all add: role_of_value_def all_roles_def)

lemma role_of_value_Inr [res_simps]: "role_of_value s = Inr r \<longleftrightarrow> s = role_value r"
proof
  assume "role_of_value s = Inr r"
  then have "find (\<lambda>r. role_value r = s) all_roles = Some r"
    by (simp add: role_of_value_def some_or_Inr)
  then show "s = role_value r" by (auto simp: find_Some_iff)
qed simp

section \<open>The texts of the members\<close>

primrec stage_value :: "workflow_stage \<Rightarrow> string" where
  "stage_value INTAKE = ''intake''"
| "stage_value SCOPING = ''scoping''"
| "stage_value WORKSPACE_PREPARATION = ''workspace_preparation''"
| "stage_value IMPLEMENTING = ''implementing''"
| "stage_value VERIFYING = ''verifying''"
| "stage_value REPAIRING = ''repairing''"
| "stage_value PRESENTING = ''presenting''"
| "stage_value STAGE_APPLYING = ''applying''"
| "stage_value CLEANUP = ''cleanup''"

primrec run_status_value :: "run_status \<Rightarrow> string" where
  "run_status_value CREATED = ''created''"
| "run_status_value RUNNING = ''running''"
| "run_status_value WAITING_FOR_CHILDREN = ''waiting_for_children''"
| "run_status_value PAUSED_FOR_APPROVAL = ''paused_for_approval''"
| "run_status_value PAUSED_FOR_PLAN = ''paused_for_plan''"
| "run_status_value READY_FOR_REVIEW = ''ready_for_review''"
| "run_status_value APPLYING = ''applying''"
| "run_status_value COMPLETED = ''completed''"
| "run_status_value FAILED = ''failed''"
| "run_status_value CANCELLED = ''cancelled''"
| "run_status_value REJECTED = ''rejected''"
| "run_status_value ABANDONED = ''abandoned''"

primrec lease_status_value :: "lease_status \<Rightarrow> string" where
  "lease_status_value LeaseCreating = ''creating''"
| "lease_status_value LeaseActive = ''active''"
| "lease_status_value LeaseReleasing = ''releasing''"
| "lease_status_value LeaseReleased = ''released''"
| "lease_status_value LeaseRecovered = ''recovered''"
| "lease_status_value LeaseFailed = ''failed''"

primrec choice_value :: "approval_choice \<Rightarrow> string" where
  "choice_value ChoiceDeny = ''deny''"
| "choice_value ALLOW_ONCE = ''allow_once''"
| "choice_value ALLOW_RUN = ''allow_run''"
| "choice_value ALLOW_ALWAYS = ''allow_always''"

primrec approval_status_value :: "approval_status \<Rightarrow> string" where
  "approval_status_value ApPending = ''pending''"
| "approval_status_value ApApproved = ''approved''"
| "approval_status_value ApDenied = ''denied''"

primrec error_value :: "error_code \<Rightarrow> string" where
  "error_value CONFIG_INVALID = ''CONFIG_INVALID''"
| "error_value PROJECT_NOT_GIT = ''PROJECT_NOT_GIT''"
| "error_value PROJECT_NOT_INITIALIZED = ''PROJECT_NOT_INITIALIZED''"
| "error_value PROJECT_DIRTY = ''PROJECT_DIRTY''"
| "error_value RUNTIME_UNAVAILABLE = ''RUNTIME_UNAVAILABLE''"
| "error_value RUNTIME_CAPABILITY_MISSING = ''RUNTIME_CAPABILITY_MISSING''"
| "error_value RUNTIME_OUTPUT_INVALID = ''RUNTIME_OUTPUT_INVALID''"
| "error_value RUNTIME_TIMEOUT = ''RUNTIME_TIMEOUT''"
| "error_value RUNTIME_RETRY_EXHAUSTED = ''RUNTIME_RETRY_EXHAUSTED''"
| "error_value RUNTIME_BUDGET_EXCEEDED = ''RUNTIME_BUDGET_EXCEEDED''"
| "error_value PROVIDER_UNSUPPORTED = ''PROVIDER_UNSUPPORTED''"
| "error_value PROVIDER_FAILED = ''PROVIDER_FAILED''"
| "error_value CREDENTIAL_INVALID = ''CREDENTIAL_INVALID''"
| "error_value CREDENTIAL_MISSING = ''CREDENTIAL_MISSING''"
| "error_value SANDBOX_UNAVAILABLE = ''SANDBOX_UNAVAILABLE''"
| "error_value SANDBOX_CAPABILITY_MISSING = ''SANDBOX_CAPABILITY_MISSING''"
| "error_value SANDBOX_CREATION_FAILED = ''SANDBOX_CREATION_FAILED''"
| "error_value SANDBOX_INSPECTION_FAILED = ''SANDBOX_INSPECTION_FAILED''"
| "error_value SANDBOX_EXECUTION_FAILED = ''SANDBOX_EXECUTION_FAILED''"
| "error_value SANDBOX_TIMEOUT = ''SANDBOX_TIMEOUT''"
| "error_value SANDBOX_OUTPUT_LIMIT = ''SANDBOX_OUTPUT_LIMIT''"
| "error_value SANDBOX_CLEANUP_FAILED = ''SANDBOX_CLEANUP_FAILED''"
| "error_value SANDBOX_REMOTE_DAEMON_DENIED = ''SANDBOX_REMOTE_DAEMON_DENIED''"
| "error_value SANDBOX_IMAGE_UNAVAILABLE = ''SANDBOX_IMAGE_UNAVAILABLE''"
| "error_value UNSAFE_LOCAL_CONFIRMATION_REQUIRED = ''UNSAFE_LOCAL_CONFIRMATION_REQUIRED''"
| "error_value COMMAND_NOT_REVIEWED = ''COMMAND_NOT_REVIEWED''"
| "error_value COMMAND_OUTCOME_AMBIGUOUS = ''COMMAND_OUTCOME_AMBIGUOUS''"
| "error_value BOOTSTRAP_CANARY_FAILED = ''BOOTSTRAP_CANARY_FAILED''"
| "error_value BOOTSTRAP_REPORT_INVALID = ''BOOTSTRAP_REPORT_INVALID''"
| "error_value BOOTSTRAP_TARGET_DRIFTED = ''BOOTSTRAP_TARGET_DRIFTED''"
| "error_value COMMAND_DENIED = ''COMMAND_DENIED''"
| "error_value APPROVAL_REQUIRED = ''APPROVAL_REQUIRED''"
| "error_value APPROVAL_DENIED = ''APPROVAL_DENIED''"
| "error_value APPROVAL_INVALID = ''APPROVAL_INVALID''"
| "error_value PATH_OUTSIDE_SCOPE = ''PATH_OUTSIDE_SCOPE''"
| "error_value WORKFLOW_INVALID_TRANSITION = ''WORKFLOW_INVALID_TRANSITION''"
| "error_value PATCH_TARGET_DIVERGED = ''PATCH_TARGET_DIVERGED''"
| "error_value ARTIFACT_INTEGRITY_FAILED = ''ARTIFACT_INTEGRITY_FAILED''"
| "error_value STATE_SCHEMA_INCOMPATIBLE = ''STATE_SCHEMA_INCOMPATIBLE''"
| "error_value STATE_UNAVAILABLE = ''STATE_UNAVAILABLE''"
| "error_value RESOURCE_NOT_FOUND = ''RESOURCE_NOT_FOUND''"
| "error_value RECOVERY_REQUIRED = ''RECOVERY_REQUIRED''"
| "error_value INTERNAL_ERROR = ''INTERNAL_ERROR''"

end
