(* ===== verification/Posix_Path.thy ===== *)
theory Posix_Path
  imports Domain_Types "HOL-Library.Sublist"
begin

text \<open>
  \<open>pathlib.PurePosixPath\<close> as the code uses it (construction, \<open>parts\<close>,
  \<open>str\<close>/\<open>as_posix\<close>, \<open>is_absolute\<close>) and the component-aware scopes of
  \<open>domain/paths.py\<close> that policy and evidence share. Case folding is the Unicode table of the
  Python runtime, so every definition takes it as the argument \<open>cf\<close> and every theorem holds for
  any folding function.
\<close>

section \<open>PurePosixPath\<close>

text \<open>\<open>s.split("/")\<close>: the maximal runs between separators, empty ones included.\<close>

fun split_slash :: "string \<Rightarrow> string list" where
  "split_slash [] = [[]]"
| "split_slash (c # s) =
     (if c = CHR ''/'' then [] # split_slash s
      else (case split_slash s of [] \<Rightarrow> [[c]] | w # ws \<Rightarrow> (c # w) # ws))"

text \<open>\<open>"/".join(parts)\<close>.\<close>

fun join_slash :: "string list \<Rightarrow> string" where
  "join_slash [] = []"
| "join_slash [w] = w"
| "join_slash (w # ws) = w @ CHR ''/'' # join_slash ws"

record posix_path =
  path_root :: string
  path_tail :: "string list"

text \<open>\<open>posixpath.splitroot\<close>: one or three and more leading slashes give the root \<open>/\<close>, exactly
  two give \<open>//\<close>.\<close>

definition split_root :: "string \<Rightarrow> string \<times> string" where
  "split_root s =
     (if take 1 s \<noteq> ''/'' then ([], s)
      else if take 1 (drop 1 s) \<noteq> ''/'' \<or> take 1 (drop 2 s) = ''/'' then (''/'', drop 1 s)
      else (take 2 s, drop 2 s))"

definition parse_path :: "string \<Rightarrow> posix_path" where
  "parse_path s = (case split_root s of (root, rel) \<Rightarrow>
     \<lparr>path_root = root, path_tail = filter (\<lambda>w. w \<noteq> [] \<and> w \<noteq> ''.'') (split_slash rel)\<rparr>)"

definition path_parts :: "posix_path \<Rightarrow> string list" where
  "path_parts p = (if path_root p \<noteq> [] then path_root p # path_tail p else path_tail p)"

definition path_str :: "posix_path \<Rightarrow> string" where
  "path_str p = (let t = path_root p @ join_slash (path_tail p) in if t = [] then ''.'' else t)"

definition is_absolute :: "posix_path \<Rightarrow> bool" where
  "is_absolute p \<longleftrightarrow> path_root p \<noteq> []"

subsection \<open>Splitting and joining\<close>

lemma split_slash_nonempty [simp]: "split_slash s \<noteq> []"
  by (induction s) (auto split: list.split)

lemma join_split [simp]: "join_slash (split_slash s) = s"
proof (induction s)
  case Nil
  show ?case by simp
next
  case (Cons c s)
  obtain w ws where "split_slash s = w # ws" by (cases "split_slash s") auto
  with Cons show ?case by (cases ws) auto
qed

lemma split_slash_word: "CHR ''/'' \<notin> set w \<Longrightarrow> split_slash w = [w]"
  by (induction w) auto

lemma split_slash_append:
  "CHR ''/'' \<notin> set w \<Longrightarrow> split_slash (w @ CHR ''/'' # s) = w # split_slash s"
  by (induction w) auto

lemma split_join:
  "ws \<noteq> [] \<Longrightarrow> (\<And>w. w \<in> set ws \<Longrightarrow> CHR ''/'' \<notin> set w) \<Longrightarrow> split_slash (join_slash ws) = ws"
  by (induction ws rule: join_slash.induct) (auto simp: split_slash_word split_slash_append)

lemma split_slash_no_slash: "w \<in> set (split_slash s) \<Longrightarrow> CHR ''/'' \<notin> set w"
  by (induction s arbitrary: w) (auto split: if_splits list.splits)

subsection \<open>Well-formed paths and the round trip\<close>

definition wf_word :: "string \<Rightarrow> bool" where
  "wf_word w \<longleftrightarrow> w \<noteq> [] \<and> w \<noteq> ''.'' \<and> CHR ''/'' \<notin> set w"

definition wf_path :: "posix_path \<Rightarrow> bool" where
  "wf_path p \<longleftrightarrow> path_root p \<in> {[], ''/'', ''//''} \<and> list_all wf_word (path_tail p)"

lemma split_root_cases:
  "fst (split_root s) \<in> {[], ''/'', ''//''}"
proof (cases s)
  case (Cons a t)
  then show ?thesis by (cases t) (auto simp: split_root_def)
qed (simp add: split_root_def)

lemma wf_parse_path: "wf_path (parse_path s)"
  using split_root_cases [of s]
  by (auto simp: parse_path_def wf_path_def wf_word_def list_all_iff split: prod.split
      dest: split_slash_no_slash)

lemma parse_path_relative:
  assumes "list_all wf_word ws" and "ws \<noteq> []"
  shows "parse_path (join_slash ws) = \<lparr>path_root = [], path_tail = ws\<rparr>"
proof -
  obtain w ws' where ws: "ws = w # ws'" using assms(2) by (cases ws) auto
  then obtain c w' where w: "w = c # w'" and c: "c \<noteq> CHR ''/''"
    using assms(1) by (cases w) (auto simp: wf_word_def)
  have "take 1 (join_slash ws) \<noteq> ''/''" using ws w c by (cases ws') auto
  moreover have "split_slash (join_slash ws) = ws"
    using assms by (intro split_join) (auto simp: list_all_iff wf_word_def)
  moreover have "filter (\<lambda>w. w \<noteq> [] \<and> w \<noteq> ''.'') ws = ws"
    using assms(1) by (auto simp: list_all_iff wf_word_def filter_id_conv)
  ultimately show ?thesis by (simp add: parse_path_def split_root_def)
qed




text \<open>A string is canonical when it is the text of the path it denotes.\<close>

definition canonical :: "string \<Rightarrow> bool" where
  "canonical s \<longleftrightarrow> path_str (parse_path s) = s"


section \<open>Component-aware scopes (\<open>domain/paths.py\<close>)\<close>

text \<open>
  A lone surrogate occupies the bytes \<open>ED A0..BF xx\<close> under \<open>surrogatepass\<close>; no
  other code point has \<open>ED\<close> followed by a byte from \<open>A0\<close> up.
\<close>

fun has_surrogate :: "string \<Rightarrow> bool" where
  "has_surrogate (a # b # s) =
     (((of_char a :: nat) = 237 \<and> 160 \<le> (of_char b :: nat)) \<or> has_surrogate (b # s))"
| "has_surrogate _ = False"

definition has_control :: "string \<Rightarrow> bool" where
  "has_control s = list_ex (\<lambda>c. (of_char c :: nat) < 32) s"

definition path_components :: "(string \<Rightarrow> string) \<Rightarrow> string \<Rightarrow> string list option" where
  "path_components cf path =
     (if path = [] \<or> 4096 < length path \<or> CHR 0x5C \<in> set path
         \<or> has_control path \<or> has_surrogate path
      then None
      else let parsed = parse_path path in
        if is_absolute parsed \<or> path_str parsed \<noteq> path \<or> ''..'' \<in> set (path_parts parsed)
        then None
        else if 64 < length (path_parts parsed) then None
        else Some (map cf (path_parts parsed)))"

definition slice_eq :: "string list \<Rightarrow> string list \<Rightarrow> bool" where
  "slice_eq item parts \<longleftrightarrow> take (length item) parts = item"

definition path_is_within ::
    "(string \<Rightarrow> string) \<Rightarrow> string \<Rightarrow> string list \<Rightarrow> string list \<Rightarrow> bool" where
  "path_is_within cf path scopes forbidden =
     (let allowed = map (path_components cf) scopes;
          excluded = map (path_components cf) forbidden
      in case path_components cf path of
           None \<Rightarrow> False
         | Some parts \<Rightarrow>
             if None \<in> set allowed \<or> None \<in> set excluded then False
             else if list_ex (\<lambda>item. case item of None \<Rightarrow> False
                      | Some i \<Rightarrow> slice_eq i parts \<or> slice_eq parts i) excluded then False
             else list_ex (\<lambda>item. case item of None \<Rightarrow> False | Some i \<Rightarrow> slice_eq i parts) allowed)"

definition path_overlaps_scope ::
    "(string \<Rightarrow> string) \<Rightarrow> string \<Rightarrow> string list \<Rightarrow> string list \<Rightarrow> bool" where
  "path_overlaps_scope cf path scopes forbidden =
     (let allowed = map (path_components cf) scopes;
          excluded = map (path_components cf) forbidden
      in case path_components cf path of
           None \<Rightarrow> False
         | Some parts \<Rightarrow>
             if None \<in> set allowed \<or> None \<in> set excluded then False
             else if list_ex (\<lambda>item. case item of None \<Rightarrow> False
                      | Some i \<Rightarrow> slice_eq i parts) excluded then False
             else list_ex (\<lambda>item. case item of None \<Rightarrow> False
                      | Some i \<Rightarrow> slice_eq i parts \<or> slice_eq parts i) allowed)"

lemma slice_eq_prefix [simp]: "slice_eq xs ys \<longleftrightarrow> prefix xs ys"
  by (metis slice_eq_def append_eq_conv_conj prefix_def)

text \<open>The declarative reading of the two predicates.\<close>

definition all_canonical :: "(string \<Rightarrow> string) \<Rightarrow> string list \<Rightarrow> bool" where
  "all_canonical cf ss \<longleftrightarrow> (\<forall>s \<in> set ss. path_components cf s \<noteq> None)"

lemma None_in_components:
  "None \<in> set (map (path_components cf) ss) \<longleftrightarrow> \<not> all_canonical cf ss"
  by (force simp: all_canonical_def image_iff)

lemma ex_components:
  "list_ex (\<lambda>item. case item of None \<Rightarrow> False | Some i \<Rightarrow> P i) (map (path_components cf) ss) \<longleftrightarrow>
     (\<exists>s \<in> set ss. \<exists>i. path_components cf s = Some i \<and> P i)"
  by (auto simp: list_ex_iff split: option.splits)

lemmas scope_simps = None_in_components ex_components slice_eq_prefix Let_def

lemma path_is_within_iff:
  "path_is_within cf p scopes forbidden \<longleftrightarrow>
    (\<exists>ps. path_components cf p = Some ps \<and> all_canonical cf scopes \<and> all_canonical cf forbidden \<and>
      (\<exists>s \<in> set scopes. \<exists>sc. path_components cf s = Some sc \<and> prefix sc ps) \<and>
      (\<forall>f \<in> set forbidden. \<forall>fc. path_components cf f = Some fc \<longrightarrow> \<not> prefix fc ps \<and> \<not> prefix ps fc))"
  by (cases "path_components cf p") (auto simp: path_is_within_def scope_simps simp del: set_map)

lemma path_overlaps_scope_iff:
  "path_overlaps_scope cf p scopes forbidden \<longleftrightarrow>
    (\<exists>ps. path_components cf p = Some ps \<and> all_canonical cf scopes \<and> all_canonical cf forbidden \<and>
      (\<exists>s \<in> set scopes. \<exists>sc. path_components cf s = Some sc \<and> (prefix sc ps \<or> prefix ps sc)) \<and>
      (\<forall>f \<in> set forbidden. \<forall>fc. path_components cf f = Some fc \<longrightarrow> \<not> prefix fc ps))"
  by (cases "path_components cf p") (auto simp: path_overlaps_scope_def scope_simps simp del: set_map)

lemma path_components_canonical: "path_components cf p = Some ps \<Longrightarrow> canonical p"
  by (auto simp: path_components_def canonical_def Let_def split: if_splits)

lemma path_components_relative:
  "path_components cf p = Some ps \<Longrightarrow>
     path_root (parse_path p) = [] \<and> ps = map cf (path_tail (parse_path p))"
  by (auto simp: path_components_def is_absolute_def path_parts_def Let_def split: if_splits)

lemma prefix_of_same: "prefix a c \<Longrightarrow> prefix b c \<Longrightarrow> prefix a b \<or> prefix b a"
  by (rule prefix_same_cases)

lemma within_descendant:
  assumes "path_is_within cf p scopes forbidden"
    and "path_components cf p = Some ps" and "path_components cf q = Some qs" and "prefix ps qs"
  shows "path_is_within cf q scopes forbidden"
proof -
  have below: "\<not> prefix fc qs \<and> \<not> prefix qs fc" if "\<not> prefix fc ps \<and> \<not> prefix ps fc" for fc
    using that assms(4) by (meson prefix_of_same prefix_order.trans)
  have above: "prefix sc qs" if "prefix sc ps" for sc
    using that assms(4) by (rule prefix_order.trans)
  from assms(1,2) obtain s sc where "all_canonical cf scopes" "all_canonical cf forbidden"
    and "s \<in> set scopes" "path_components cf s = Some sc" "prefix sc ps"
    and free: "\<forall>f \<in> set forbidden. \<forall>fc. path_components cf f = Some fc \<longrightarrow>
      \<not> prefix fc ps \<and> \<not> prefix ps fc"
    unfolding path_is_within_iff by auto
  moreover have "\<forall>f \<in> set forbidden. \<forall>fc. path_components cf f = Some fc \<longrightarrow>
      \<not> prefix fc qs \<and> \<not> prefix qs fc"
    using free below by blast
  ultimately show ?thesis
    unfolding path_is_within_iff using assms(3) above [of sc] by blast
qed

text \<open>
  The interface through which plans and policies use scopes: whether a path lies in a scope, and an
  overlap test that is complete for common paths.
\<close>

locale scope_region =
  fixes within :: "'p \<Rightarrow> 's \<Rightarrow> bool"
    and overlap :: "'s \<Rightarrow> 's \<Rightarrow> bool"
  assumes common_overlap: "within p s \<Longrightarrow> within p t \<Longrightarrow> overlap s t"
begin

lemma separate: "\<not> overlap s t \<Longrightarrow> within p s \<Longrightarrow> \<not> within p t"
  using common_overlap by blast

text \<open>Pairwise non-overlapping scopes: a path belongs to one of them at most.\<close>

lemma owner_unique:
  assumes apart: "\<And>i j. i < j \<Longrightarrow> j < length xs \<Longrightarrow> \<not> overlap (sc (xs ! i)) (sc (xs ! j))"
    and "i < length xs" and "j < length xs"
    and "within p (sc (xs ! i))" and "within p (sc (xs ! j))"
  shows "i = j"
proof (rule ccontr)
  assume "i \<noteq> j"
  then consider "i < j" | "j < i" by linarith
  then show False
  proof cases
    case 1
    with apart [of i j] assms(3-5) show False by (blast dest: separate)
  next
    case 2
    with apart [of j i] assms(2,4,5) show False by (blast dest: separate)
  qed
qed

end

definition components_overlap :: "string list \<Rightarrow> string list \<Rightarrow> bool" where
  "components_overlap l r \<longleftrightarrow> l = r \<or> slice_eq r l \<or> slice_eq l r"

definition scope_member :: "(string \<Rightarrow> string) \<Rightarrow> string list \<Rightarrow> string \<Rightarrow> string list \<Rightarrow> bool" where
  "scope_member cf forbidden p scopes = path_is_within cf p scopes forbidden"

section \<open>Properties\<close>



text \<open>
  A mutation scope covers whole subtrees: once a path is authorised, every canonical path below
  it is authorised too, so no forbidden entry hides inside an authorised directory, and removing the
  directory cannot reach one.
\<close>

theorem authorised_subtree:
  assumes "path_is_within cf p scopes forbidden"
    and "path_components cf p = Some ps" and "path_components cf q = Some (ps @ xs)"
  shows "path_is_within cf q scopes forbidden \<and> q \<notin> set forbidden"
proof -
  have "path_is_within cf q scopes forbidden"
    by (rule within_descendant [OF assms]) simp
  then show ?thesis using assms(3) by (auto simp: path_is_within_iff)
qed

theorem authorised_subtree_witness:
  "path_is_within (\<lambda>s. s) ''src/pkg/a.py'' [''src''] [''src/secret''] \<and>
   ''src/pkg/a.py'' \<notin> set [''src/secret'']"
  by (rule authorised_subtree [where p = "''src/pkg''" and ps = "[''src'', ''pkg'']"
        and xs = "[''a.py'']"]) code_simp+

text \<open>
  Observation is wider than mutation: a path that may be changed may also be traversed, and a
  traversable path that is no proper ancestor of an allowed scope and no ancestor of a forbidden one
  may be changed.
\<close>

theorem mutation_implies_observation:
  "path_is_within cf p scopes forbidden \<longleftrightarrow>
     path_overlaps_scope cf p scopes forbidden \<and>
     (\<exists>ps. path_components cf p = Some ps \<and>
        (\<exists>s \<in> set scopes. \<exists>sc. path_components cf s = Some sc \<and> prefix sc ps) \<and>
        (\<forall>f \<in> set forbidden. path_components cf f \<noteq> Some ps \<and>
           (\<forall>fc. path_components cf f = Some fc \<longrightarrow> \<not> strict_prefix ps fc)))"
  unfolding path_is_within_iff path_overlaps_scope_iff strict_prefix_def by fastforce

theorem mutation_implies_observation_witness:
  "path_overlaps_scope (\<lambda>s. s) ''src/a'' [''src''] [''doc'']"
proof -
  have "path_is_within (\<lambda>s. s) ''src/a'' [''src''] [''doc'']" by code_simp
  then show ?thesis by (simp add: mutation_implies_observation)
qed

end
