(* ===== verification/Task_Contracts.thy ===== *)
theory Task_Contracts
  imports Posix_Path
begin

text \<open>
  The untrusted and validated task contracts of \<open>domain/models.py\<close>: \<open>CommandSpec\<close>,
  \<open>WriterAssignment\<close>, \<open>ScopeDecision\<close> and \<open>TaskSpec\<close>. Constructing a pydantic
  model runs its field constraints and validators and raises one \<open>ValueError\<close> when any of them
  fails, so each model is a record with a \<open>validate\<close> function that returns the record or that
  error. Text fields hold the value after \<open>strip_whitespace\<close>; dictionaries are association
  lists with distinct keys.
\<close>

section \<open>String constraints\<close>

definition byte :: "char \<Rightarrow> nat" where
  "byte c = of_char c"

definition is_lower :: "char \<Rightarrow> bool" where
  "is_lower c \<longleftrightarrow> 97 \<le> byte c \<and> byte c \<le> 122"

definition is_upper :: "char \<Rightarrow> bool" where
  "is_upper c \<longleftrightarrow> 65 \<le> byte c \<and> byte c \<le> 90"

definition is_digit :: "char \<Rightarrow> bool" where
  "is_digit c \<longleftrightarrow> 48 \<le> byte c \<and> byte c \<le> 57"

definition is_hex :: "char \<Rightarrow> bool" where
  "is_hex c \<longleftrightarrow> is_digit c \<or> (97 \<le> byte c \<and> byte c \<le> 102)"

text \<open>The identifier pattern \<open>^[a-z][a-z0-9<extra>]*$\<close> with a length bound.\<close>

definition ident_ok :: "nat \<Rightarrow> string \<Rightarrow> string \<Rightarrow> bool" where
  "ident_ok bound extra s \<longleftrightarrow>
     (case s of [] \<Rightarrow> False
      | c # cs \<Rightarrow> is_lower c \<and> list_all (\<lambda>d. is_lower d \<or> is_digit d \<or> d \<in> set extra) cs)
     \<and> py_len s \<le> bound"

definition node_id_ok :: "string \<Rightarrow> bool" where
  "node_id_ok = ident_ok 64 ''_-''"

definition criterion_id_ok :: "string \<Rightarrow> bool" where
  "criterion_id_ok = ident_ok 100 ''_-''"

definition action_id_ok :: "string \<Rightarrow> bool" where
  "action_id_ok = ident_ok 100 ''_.-''"

text \<open>\<open>^<prefix>_[0-9a-f]{n}$\<close>.\<close>

definition opaque_ok :: "string \<Rightarrow> string \<Rightarrow> bool" where
  "opaque_ok pre s \<longleftrightarrow> starts_with (pre @ ''_'') s \<and> length s = length pre + 33
     \<and> list_all is_hex (drop (length pre + 1) s)"

definition sha256_ok :: "string \<Rightarrow> bool" where
  "sha256_ok s \<longleftrightarrow> length s = 64 \<and> list_all is_hex s"

definition bounded_text :: "nat \<Rightarrow> string \<Rightarrow> bool" where
  "bounded_text bound s \<longleftrightarrow> 1 \<le> py_len s \<and> py_len s \<le> bound"

text \<open>\<open>LogicalRepoPath\<close>: \<open>^[^/\\\x00][^\\\x00]*$\<close>, 1 to 4096 code points.\<close>

definition logical_repo_path :: "string \<Rightarrow> bool" where
  "logical_repo_path s \<longleftrightarrow> bounded_text 4096 s \<and> take 1 s \<noteq> ''/''
     \<and> CHR 0x5C \<notin> set s \<and> CHR 0x00 \<notin> set s"

section \<open>Logical repository paths\<close>

definition fold_path :: "(string \<Rightarrow> string) \<Rightarrow> string \<Rightarrow> string list" where
  "fold_path cf v = map cf (path_parts (parse_path v))"

definition canonical_relative :: "string \<Rightarrow> bool" where
  "canonical_relative v \<longleftrightarrow> v \<noteq> [] \<and> \<not> starts_with ''/'' v \<and> CHR 0x5C \<notin> set v
     \<and> ''..'' \<notin> set (path_parts (parse_path v)) \<and> path_str (parse_path v) = v"

definition validate_logical_paths :: "(string \<Rightarrow> string) \<Rightarrow> string list \<Rightarrow> unit res" where
  "validate_logical_paths cf values =
     bind_res (check_all (\<lambda>v. require (canonical_relative v \<and> path_parts (parse_path v) \<noteq> [])
                 ValueError) values) (\<lambda>_.
     require (distinct (map (fold_path cf) values)) ValueError)"

text \<open>The overlap test the validators share: equal, or one a leading slice of the other.\<close>

definition parts_overlap :: "string list \<Rightarrow> string list \<Rightarrow> bool" where
  "parts_overlap l r \<longleftrightarrow> l = r \<or> take (length r) l = r \<or> take (length l) r = l"

lemma parts_overlap_prefix: "parts_overlap l r \<longleftrightarrow> prefix r l \<or> prefix l r"
  by (metis parts_overlap_def prefix_order.eq_refl slice_eq_def slice_eq_prefix)

text \<open>The loop over the allowed paths of a task: no protected root, no forbidden overlap.\<close>

definition check_write_scope ::
    "(string \<Rightarrow> string) \<Rightarrow> string list \<Rightarrow> string list \<Rightarrow> unit res" where
  "check_write_scope cf allowed forbidden =
     check_all (\<lambda>v. let parts = fold_path cf v in
       bind_res (require (\<not> (parts \<noteq> [] \<and> hd parts \<in> {''.git'', ''.fleet''})) ValueError) (\<lambda>_.
       check_all (\<lambda>blocked. require (\<not> parts_overlap parts blocked) ValueError)
         (map (fold_path cf) forbidden))) allowed"

lemma check_write_scope_Inr:
  "check_write_scope cf allowed forbidden = Inr () \<longleftrightarrow>
     (\<forall>a \<in> set allowed. (fold_path cf a = [] \<or> hd (fold_path cf a) \<notin> {''.git'', ''.fleet''}) \<and>
       (\<forall>f \<in> set forbidden. \<not> parts_overlap (fold_path cf a) (fold_path cf f)))"
  by (auto simp: check_write_scope_def check_all_Inr bind_res_Inr require_Inr Let_def)

lemma path_components_fold: "path_components cf p = Some ps \<Longrightarrow> ps = fold_path cf p"
  by (auto simp: path_components_def fold_path_def Let_def split: if_splits)

lemma canonical_relative_parts:
  "canonical_relative v \<Longrightarrow> path_parts (parse_path v) = path_tail (parse_path v)"
  by (cases v) (auto simp: canonical_relative_def path_parts_def parse_path_def split_root_def
      starts_with_def)

section \<open>Commands\<close>

datatype network_requirement = NetNone | NetRequired

record command_spec =
  command_id :: string
  executable :: string
  argv :: "string list"
  logical_cwd :: string
  environment :: "(string \<times> string) list"
  timeout_seconds :: int
  max_output_bytes :: int
  network_requirement :: network_requirement

text \<open>\<open>^(?:[A-Za-z0-9._+-]+|\./[A-Za-z0-9._+-]+)$\<close>, 1 to 128 characters.\<close>

definition exec_chars :: "string \<Rightarrow> bool" where
  "exec_chars s \<longleftrightarrow> s \<noteq> [] \<and>
     list_all (\<lambda>c. is_lower c \<or> is_upper c \<or> is_digit c \<or> c \<in> set ''._+-'') s"

definition executable_ok :: "string \<Rightarrow> bool" where
  "executable_ok s \<longleftrightarrow> bounded_text 128 s \<and>
     (exec_chars s \<or> (starts_with ''./'' s \<and> exec_chars (drop 2 s)))"

text \<open>\<open>PurePosixPath(value).name\<close>.\<close>

definition path_name :: "posix_path \<Rightarrow> string" where
  "path_name p = (case path_tail p of [] \<Rightarrow> [] | ws \<Rightarrow> last ws)"

definition shell_names :: "string list" where
  "shell_names = [''bash'', ''cmd'', ''dash'', ''env'', ''fish'', ''ksh'', ''powershell'', ''pwsh'',
     ''sh'', ''zsh'']"

definition shell_suffixes :: "string list" where
  "shell_suffixes = [''.bat'', ''.cmd'', ''.ps1'', ''.sh'']"

definition shell_executable :: "(string \<Rightarrow> string) \<Rightarrow> string \<Rightarrow> bool" where
  "shell_executable cf s =
     (let name = cf (path_name (parse_path s)) in
        name \<in> set shell_names \<or> list_ex (\<lambda>suf. ends_with suf name) shell_suffixes)"

definition env_name_ok :: "string \<Rightarrow> bool" where
  "env_name_ok s \<longleftrightarrow> (case s of [] \<Rightarrow> False
     | c # cs \<Rightarrow> is_upper c \<and> length cs \<le> 63
         \<and> list_all (\<lambda>d. is_upper d \<or> is_digit d \<or> d = CHR ''_'') cs)"

definition environment_allowlist :: "string list" where
  "environment_allowlist = [''CI'', ''LANG'', ''LC_ALL'', ''PYTHONDONTWRITEBYTECODE'',
     ''PYTHONPATH'', ''PYTHONUNBUFFERED'']"

definition logical_cwd_ok :: "string \<Rightarrow> bool" where
  "logical_cwd_ok v \<longleftrightarrow> bounded_text 4096 v \<and> (v = ''.'' \<or>
     (let parts = path_parts (parse_path v) in
        \<not> starts_with ''/'' v \<and> CHR 0x5C \<notin> set v \<and> CHR 0x00 \<notin> set v \<and> parts \<noteq> []
        \<and> ''.'' \<notin> set parts \<and> ''..'' \<notin> set parts \<and> path_str (parse_path v) = v))"

definition command_fields_ok :: "command_spec \<Rightarrow> bool" where
  "command_fields_ok c \<longleftrightarrow> action_id_ok (command_id c) \<and> executable_ok (executable c)
     \<and> length (argv c) \<le> 128 \<and> list_all (\<lambda>a. py_len a \<le> 4096) (argv c)
     \<and> length (environment c) \<le> 32
     \<and> list_all (\<lambda>(k, v). env_name_ok k \<and> py_len v \<le> 4096) (environment c)
     \<and> 1 \<le> timeout_seconds c \<and> timeout_seconds c \<le> 3600
     \<and> 1 \<le> max_output_bytes c \<and> max_output_bytes c \<le> 1000000
     \<and> logical_cwd_ok (logical_cwd c)"

text \<open>
  A lone surrogate makes \<open>encode("utf-8")\<close> raise a \<open>UnicodeEncodeError\<close>, a
  \<open>ValueError\<close>, so the byte count of \<open>argv\<close> rejects it.
  \<open>dict(sorted(values.items()))\<close>: the keys are distinct, so sorting the items sorts the keys, by
  code point, which for UTF-8 text is byte order.
\<close>

fun byte_le :: "string \<Rightarrow> string \<Rightarrow> bool" where
  "byte_le [] _ = True"
| "byte_le (_ # _) [] = False"
| "byte_le (a # s) (b # t) = (if byte a = byte b then byte_le s t else byte a < byte b)"

fun insert_by_key :: "string \<times> 'v \<Rightarrow> (string \<times> 'v) list \<Rightarrow> (string \<times> 'v) list" where
  "insert_by_key e [] = [e]"
| "insert_by_key e (f # fs) =
     (if byte_le (fst e) (fst f) then e # f # fs else f # insert_by_key e fs)"

definition sort_by_key :: "(string \<times> 'v) list \<Rightarrow> (string \<times> 'v) list" where
  "sort_by_key es = foldr insert_by_key es []"

definition validate_command :: "(string \<Rightarrow> string) \<Rightarrow> command_spec \<Rightarrow> command_spec res" where
  "validate_command cf c =
     bind_res (require (command_fields_ok c) ValueError) (\<lambda>_.
     bind_res (require (\<not> shell_executable cf (executable c)) ValueError) (\<lambda>_.
     bind_res (require (\<not> list_ex (\<lambda>a. CHR 0x00 \<in> set a) (argv c)) ValueError) (\<lambda>_.
     bind_res (require (\<not> list_ex has_surrogate (argv c)
         \<and> sum_list (map length (argv c)) \<le> 65536) ValueError) (\<lambda>_.
     bind_res (require (set (map fst (environment c)) \<subseteq> set environment_allowlist) ValueError) (\<lambda>_.
     bind_res (require (\<not> list_ex (\<lambda>(k, v). CHR 0x00 \<in> set v) (environment c)) ValueError) (\<lambda>_.
     Inr (c\<lparr>environment := sort_by_key (environment c)\<rparr>)))))))"

section \<open>Criteria, evidence and writer assignments\<close>

datatype evidence_requirement =
  CANONICAL_PATCH | COMMAND_EVIDENCE | CONTROL_PLANE_PLAN | INDEPENDENT_VERIFIER_VERDICT

datatype change_kind = READ_ONLY | CODE_CHANGE

datatype fleet_strategy =
    DIRECT | SINGLE_ENGINEER | ENGINEER_VERIFIER | PARALLEL_ENGINEERS
  | RESEARCH_ARCHITECT_ENGINEER_VERIFIER

record acceptance_criterion =
  criterion_id :: string
  description :: string

definition criterion_ok :: "acceptance_criterion \<Rightarrow> bool" where
  "criterion_ok c \<longleftrightarrow> criterion_id_ok (criterion_id c) \<and> bounded_text 4096 (description c)"

record writer_assignment =
  wa_node_id :: string
  wa_role_id :: "string option"
  wa_goal :: string
  wa_scope :: "string list"
  wa_criterion_ids :: "string list"

definition bounded_list :: "nat \<Rightarrow> nat \<Rightarrow> 'a list \<Rightarrow> bool" where
  "bounded_list lo hi xs \<longleftrightarrow> lo \<le> length xs \<and> length xs \<le> hi"

definition validate_assignment ::
    "(string \<Rightarrow> string) \<Rightarrow> writer_assignment \<Rightarrow> writer_assignment res" where
  "validate_assignment cf w =
     bind_res (require (node_id_ok (wa_node_id w)
         \<and> (case wa_role_id w of None \<Rightarrow> True | Some r \<Rightarrow> node_id_ok r)
         \<and> bounded_text 8192 (wa_goal w)
         \<and> bounded_list 1 128 (wa_scope w) \<and> list_all logical_repo_path (wa_scope w)
         \<and> bounded_list 1 128 (wa_criterion_ids w)
         \<and> list_all criterion_id_ok (wa_criterion_ids w)) ValueError) (\<lambda>_.
     bind_res (validate_logical_paths cf (wa_scope w)) (\<lambda>_.
     bind_res (require (distinct (wa_criterion_ids w)) ValueError) (\<lambda>_. Inr w)))"

section \<open>The scope decision of the chief of staff\<close>

record scope_decision =
  sd_normalized_goal :: string
  sd_response :: "string option"
  sd_workflow :: string
  sd_change_kind :: change_kind
  fleet_strategy :: fleet_strategy
  role_selections :: "(agent_role \<times> string) list"
  writer_assignments :: "writer_assignment list"
  sd_max_parallel_agents :: int
  sd_allowed_paths :: "string list"
  sd_forbidden_paths :: "string list"
  sd_acceptance_criteria :: "acceptance_criterion list"
  sd_required_evidence :: "evidence_requirement list"

definition decision_fields_ok :: "scope_decision \<Rightarrow> bool" where
  "decision_fields_ok d \<longleftrightarrow> bounded_text 8192 (sd_normalized_goal d)
     \<and> (case sd_response d of None \<Rightarrow> True | Some r \<Rightarrow> bounded_text 8192 r)
     \<and> node_id_ok (sd_workflow d)
     \<and> list_all (\<lambda>(k, v). k \<noteq> COS \<and> node_id_ok v) (role_selections d)
     \<and> length (role_selections d) \<le> 4
     \<and> length (writer_assignments d) \<le> 8
     \<and> 1 \<le> sd_max_parallel_agents d \<and> sd_max_parallel_agents d \<le> 8
     \<and> bounded_list 0 128 (sd_allowed_paths d) \<and> list_all logical_repo_path (sd_allowed_paths d)
     \<and> bounded_list 0 128 (sd_forbidden_paths d)
     \<and> list_all logical_repo_path (sd_forbidden_paths d)
     \<and> bounded_list 1 128 (sd_acceptance_criteria d)
     \<and> list_all criterion_ok (sd_acceptance_criteria d)
     \<and> bounded_list 1 32 (sd_required_evidence d)"

definition assignment_coherence :: "scope_decision \<Rightarrow> unit res" where
  "assignment_coherence d =
     (let assignments = writer_assignments d in
      if fleet_strategy d = PARALLEL_ENGINEERS then
        bind_res (require (\<not> (length assignments < 2 \<or> sd_max_parallel_agents d < 2)) ValueError) (\<lambda>_.
        let node_ids = map wa_node_id assignments in
        bind_res (require (distinct node_ids \<and> ''verifier'' \<notin> set node_ids) ValueError) (\<lambda>_.
        require (set (concat (map wa_criterion_ids assignments)) =
            set (map criterion_id (sd_acceptance_criteria d))) ValueError))
      else require (assignments = []) ValueError)"

definition scope_coherence :: "(string \<Rightarrow> string) \<Rightarrow> scope_decision \<Rightarrow> unit res" where
  "scope_coherence cf d =
     bind_res (assignment_coherence d) (\<lambda>_.
     let needed = set (sd_required_evidence d) in
     if sd_change_kind d = READ_ONLY then
       bind_res (require (\<not> (fleet_strategy d \<noteq> DIRECT \<or> sd_allowed_paths d \<noteq> [])) ValueError) (\<lambda>_.
       require (needed = {CONTROL_PLANE_PLAN}) ValueError)
     else
       bind_res (require (\<not> (fleet_strategy d = DIRECT \<or> sd_allowed_paths d = [])) ValueError) (\<lambda>_.
       bind_res (require ({CANONICAL_PATCH, COMMAND_EVIDENCE} \<subseteq> needed) ValueError) (\<lambda>_.
       bind_res (require (\<not> (fleet_strategy d \<in> {ENGINEER_VERIFIER, PARALLEL_ENGINEERS,
             RESEARCH_ARCHITECT_ENGINEER_VERIFIER}
           \<and> INDEPENDENT_VERIFIER_VERDICT \<notin> needed)) ValueError) (\<lambda>_.
       check_write_scope cf (sd_allowed_paths d) (sd_forbidden_paths d)))))"

definition validate_decision :: "(string \<Rightarrow> string) \<Rightarrow> scope_decision \<Rightarrow> scope_decision res" where
  "validate_decision cf d =
     bind_res (require (decision_fields_ok d) ValueError) (\<lambda>_.
     bind_res (check_all (\<lambda>w. bind_res (validate_assignment cf w) (\<lambda>_. Inr ()))
         (writer_assignments d)) (\<lambda>_.
     bind_res (validate_logical_paths cf (sd_allowed_paths d)) (\<lambda>_.
     bind_res (validate_logical_paths cf (sd_forbidden_paths d)) (\<lambda>_.
     bind_res (require (distinct (map criterion_id (sd_acceptance_criteria d))) ValueError) (\<lambda>_.
     bind_res (require (distinct (sd_required_evidence d)) ValueError) (\<lambda>_.
     bind_res (scope_coherence cf d) (\<lambda>_. Inr d)))))))"

section \<open>The task specification\<close>

record task_spec =
  task_id :: string
  task_run_id :: string
  original_goal :: string
  normalized_goal :: string
  workflow :: string
  task_change_kind :: change_kind
  base_revision :: string
  allowed_paths :: "string list"
  forbidden_paths :: "string list"
  acceptance_criteria :: "acceptance_criterion list"
  required_evidence :: "evidence_requirement list"
  max_repair_iterations :: int
  config_snapshot_hash :: string
  verification_commands :: "command_spec list"
  required_verification_command_ids :: "string list"
  task_created_at :: int

definition task_fields_ok :: "task_spec \<Rightarrow> bool" where
  "task_fields_ok t \<longleftrightarrow> opaque_ok ''task'' (task_id t) \<and> opaque_ok ''run'' (task_run_id t)
     \<and> node_id_ok (workflow t)
     \<and> bounded_list 1 128 (acceptance_criteria t) \<and> list_all criterion_ok (acceptance_criteria t)
     \<and> bounded_list 1 32 (required_evidence t)
     \<and> 0 \<le> max_repair_iterations t \<and> max_repair_iterations t \<le> 5
     \<and> sha256_ok (config_snapshot_hash t)
     \<and> bounded_list 0 32 (verification_commands t)
     \<and> bounded_list 0 32 (required_verification_command_ids t)
     \<and> list_all action_id_ok (required_verification_command_ids t)"

definition task_write_scope :: "(string \<Rightarrow> string) \<Rightarrow> task_spec \<Rightarrow> unit res" where
  "task_write_scope cf t =
     bind_res (require (\<not> (task_change_kind t = CODE_CHANGE
         \<and> \<not> {CANONICAL_PATCH, COMMAND_EVIDENCE} \<subseteq> set (required_evidence t))) ValueError) (\<lambda>_.
     bind_res (require (\<not> (task_change_kind t = CODE_CHANGE \<and> allowed_paths t = [])) ValueError) (\<lambda>_.
     bind_res (check_write_scope cf (allowed_paths t) (forbidden_paths t)) (\<lambda>_.
     let command_ids = map command_id (verification_commands t) in
     bind_res (require (distinct command_ids) ValueError) (\<lambda>_.
     bind_res (require (distinct (required_verification_command_ids t)) ValueError) (\<lambda>_.
     require (set (required_verification_command_ids t) \<subseteq> set command_ids) ValueError)))))"

definition validate_task :: "(string \<Rightarrow> string) \<Rightarrow> task_spec \<Rightarrow> task_spec res" where
  "validate_task cf t =
     bind_res (require (task_fields_ok t) ValueError) (\<lambda>_.
     bind_res (check_all (\<lambda>c. bind_res (validate_command cf c) (\<lambda>_. Inr ()))
         (verification_commands t)) (\<lambda>_.
     bind_res (require (distinct (required_evidence t)) ValueError) (\<lambda>_.
     bind_res (require (distinct (map criterion_id (acceptance_criteria t))) ValueError) (\<lambda>_.
     bind_res (validate_logical_paths cf (allowed_paths t)) (\<lambda>_.
     bind_res (validate_logical_paths cf (forbidden_paths t)) (\<lambda>_.
     bind_res (task_write_scope cf t) (\<lambda>_. Inr t)))))))"

section \<open>Normal form of a command environment\<close>

lemma byte_le_refl [simp]: "byte_le s s"
  by (induction s) auto

lemma byte_le_total: "byte_le s t \<or> byte_le t s"
  by (induction s t rule: byte_le.induct) (auto split: if_splits)

lemma byte_le_trans: "byte_le s t \<Longrightarrow> byte_le t u \<Longrightarrow> byte_le s u"
proof (induction s t arbitrary: u rule: byte_le.induct)
  case (3 a s b t)
  then show ?case by (cases u) (auto split: if_splits)
qed auto

definition key_sorted :: "(string \<times> 'v) list \<Rightarrow> bool" where
  "key_sorted es = sorted_wrt (\<lambda>e f. byte_le (fst e) (fst f)) es"

lemma set_insert_by_key [simp]: "set (insert_by_key e es) = insert e (set es)"
  by (induction es) auto

lemma length_insert_by_key [simp]: "length (insert_by_key e es) = Suc (length es)"
  by (induction es) auto

lemma set_sort_by_key [simp]: "set (sort_by_key es) = set es"
  by (induction es) (auto simp: sort_by_key_def)

lemma length_sort_by_key [simp]: "length (sort_by_key es) = length es"
  by (induction es) (auto simp: sort_by_key_def)

lemma key_sorted_insert: "key_sorted es \<Longrightarrow> key_sorted (insert_by_key e es)"
proof (induction es)
  case (Cons f fs)
  then show ?case
    using byte_le_total [of "fst e" "fst f"]
    by (auto simp: key_sorted_def intro: byte_le_trans)
qed (simp add: key_sorted_def)

lemma key_sorted_sort: "key_sorted (sort_by_key es)"
  by (induction es) (auto simp: sort_by_key_def key_sorted_insert, simp add: key_sorted_def)

lemma insert_by_key_head:
  "(\<And>f. f \<in> set es \<Longrightarrow> byte_le (fst e) (fst f)) \<Longrightarrow> insert_by_key e es = e # es"
  by (cases es) auto

lemma sort_by_key_sorted: "key_sorted es \<Longrightarrow> sort_by_key es = es"
  by (induction es) (auto simp: sort_by_key_def key_sorted_def insert_by_key_head)

lemmas validate_simps = bind_res_Inr require_Inr check_all_Inr

lemma list_all_sort_by_key [simp]: "list_all P (sort_by_key es) = list_all P es"
  by (simp add: list_all_iff)

lemma list_ex_sort_by_key [simp]: "list_ex P (sort_by_key es) = list_ex P es"
  by (simp add: list_ex_iff)

lemma command_fields_sorted [simp]:
  "command_fields_ok (c\<lparr>environment := sort_by_key (environment c)\<rparr>) = command_fields_ok c"
  by (simp add: command_fields_ok_def)

section \<open>Scopes of validated contracts\<close>

lemma write_scope_apart:
  assumes "check_write_scope cf allowed forbidden = Inr ()"
    and "a \<in> set allowed" and "f \<in> set forbidden"
  shows "\<not> prefix (fold_path cf a) (fold_path cf f) \<and> \<not> prefix (fold_path cf f) (fold_path cf a)"
  using assms by (auto simp: check_write_scope_Inr parts_overlap_prefix)

text \<open>Below an allowed root nothing is forbidden, so the scope is the union of the allowed subtrees.\<close>

lemma write_scope_exact:
  assumes ok: "check_write_scope cf allowed forbidden = Inr ()"
    and "all_canonical cf allowed" and "all_canonical cf forbidden"
    and ps: "path_components cf p = Some ps"
  shows "path_is_within cf p allowed forbidden \<longleftrightarrow> (\<exists>a \<in> set allowed. prefix (fold_path cf a) ps)"
    (is "?L \<longleftrightarrow> ?R")
proof
  show "?L \<Longrightarrow> ?R" using ps by (auto simp: path_is_within_iff dest: path_components_fold)
next
  assume ?R
  then obtain a where a: "a \<in> set allowed" "prefix (fold_path cf a) ps" by blast
  then obtain ac where ac: "path_components cf a = Some ac" "prefix ac ps"
    using assms(2) by (auto simp: all_canonical_def dest: path_components_fold)
  have "\<not> prefix fc ps \<and> \<not> prefix ps fc"
    if "f \<in> set forbidden" and "path_components cf f = Some fc" for f fc
    using write_scope_apart [OF ok a(1) that(1)] path_components_fold [OF that(2)]
      path_components_fold [OF ac(1)] ac(2) by (meson prefix_of_same prefix_order.trans)
  with assms ac a(1) show ?L by (auto simp: path_is_within_iff)
qed

lemma logical_paths_nonempty:
  "validate_logical_paths cf vs = Inr () \<Longrightarrow> v \<in> set vs \<Longrightarrow> fold_path cf v \<noteq> []"
  by (auto simp: validate_logical_paths_def validate_simps fold_path_def)

lemma write_scope_unprotected:
  assumes "check_write_scope cf allowed forbidden = Inr ()"
    and "validate_logical_paths cf allowed = Inr ()"
    and "path_is_within cf p allowed forbidden"
  shows "\<exists>w ws. path_components cf p = Some (w # ws) \<and> w \<notin> {''.git'', ''.fleet''}"
proof -
  obtain a ac ps where a: "a \<in> set allowed" "path_components cf a = Some ac" "prefix ac ps"
    and ps: "path_components cf p = Some ps"
    using assms(3) by (auto simp: path_is_within_iff)
  have "ac = fold_path cf a" using a(2) by (rule path_components_fold)
  then have "ac \<noteq> [] \<and> hd ac \<notin> {''.git'', ''.fleet''}"
    using assms(1) a(1) logical_paths_nonempty [OF assms(2) a(1)]
    by (auto simp: check_write_scope_Inr)
  with a(3) ps show ?thesis by (cases ac) (auto simp: prefix_def)
qed

lemma validate_task_Inr:
  "validate_task cf t = Inr t' \<Longrightarrow>
     t' = t \<and> check_write_scope cf (allowed_paths t) (forbidden_paths t) = Inr () \<and>
     validate_logical_paths cf (allowed_paths t) = Inr () \<and> task_write_scope cf t = Inr ()"
  by (auto simp: validate_task_def task_write_scope_def validate_simps Let_def)

lemma validate_decision_Inr:
  "validate_decision cf d = Inr d' \<Longrightarrow>
     d' = d \<and> scope_coherence cf d = Inr () \<and>
     validate_logical_paths cf (sd_allowed_paths d) = Inr () \<and>
     (sd_change_kind d = CODE_CHANGE \<longrightarrow>
        check_write_scope cf (sd_allowed_paths d) (sd_forbidden_paths d) = Inr ())"
  by (auto simp: validate_decision_def scope_coherence_def validate_simps Let_def)

section \<open>Properties\<close>

text \<open>
  A validated task never owns protected state: every path its scope authorises has a first
  component, and that component is neither the Git directory nor the fleet configuration.
\<close>

theorem task_scope_unprotected:
  assumes "validate_task cf t = Inr t'"
    and "path_is_within cf p (allowed_paths t') (forbidden_paths t')"
  shows "\<exists>w ws. path_components cf p = Some (w # ws) \<and> w \<notin> {''.git'', ''.fleet''}"
  using assms by (blast dest: validate_task_Inr intro: write_scope_unprotected)

text \<open>
  The scope of a validated task is exactly the union of the subtrees of its allowed paths: the
  validator admits no forbidden entry above, at or below an allowed root.
\<close>

theorem task_scope_exact:
  assumes "validate_task cf t = Inr t'"
    and "all_canonical cf (allowed_paths t')" and "all_canonical cf (forbidden_paths t')"
    and "path_components cf p = Some ps"
  shows "path_is_within cf p (allowed_paths t') (forbidden_paths t') \<longleftrightarrow>
     (\<exists>a \<in> set (allowed_paths t'). prefix (fold_path cf a) ps)"
  using validate_task_Inr [OF assms(1)] assms(2-4) by (metis write_scope_exact)

text \<open>
  C4. Command validation is a normal form: the validated command has its environment sorted by name,
  with the same bindings, and validating it again changes nothing.
\<close>

theorem validate_command_normal:
  assumes "validate_command cf c = Inr c'"
  shows "validate_command cf c' = Inr c' \<and> key_sorted (environment c') \<and>
     set (environment c') = set (environment c) \<and> c'\<lparr>environment := environment c\<rparr> = c"
  using assms
  by (auto simp: validate_command_def validate_simps key_sorted_sort sort_by_key_sorted image_subset_iff)

section \<open>Witnesses\<close>

definition sample_command :: command_spec where
  "sample_command = \<lparr>command_id = ''unit'', executable = ''python3'', argv = [''-m'', ''pytest''],
     logical_cwd = ''.'', environment = [(''PYTHONPATH'', ''src''), (''CI'', ''1'')],
     timeout_seconds = 60, max_output_bytes = 64000, network_requirement = NetNone\<rparr>"

definition sample_hex :: "nat \<Rightarrow> string" where
  "sample_hex n = replicate n (CHR ''0'')"

definition sample_task :: task_spec where
  "sample_task = \<lparr>task_id = ''task_'' @ sample_hex 32, task_run_id = ''run_'' @ sample_hex 32,
     original_goal = ''fix'', normalized_goal = ''fix'', workflow = ''code-change'',
     task_change_kind = CODE_CHANGE, base_revision = ''main'',
     allowed_paths = [''src'', ''tests/unit''], forbidden_paths = [''docs''],
     acceptance_criteria = [\<lparr>criterion_id = ''c1'', description = ''works''\<rparr>],
     required_evidence = [CANONICAL_PATCH, COMMAND_EVIDENCE, INDEPENDENT_VERIFIER_VERDICT],
     max_repair_iterations = 1, config_snapshot_hash = sample_hex 64,
     verification_commands = [sample_command], required_verification_command_ids = [''unit''],
     task_created_at = 0\<rparr>"

lemma sample_task_valid: "validate_task (\<lambda>s. s) sample_task = Inr sample_task"
  by code_simp

theorem task_scope_unprotected_witness:
  "\<exists>w ws. path_components (\<lambda>s. s) ''src/a.py'' = Some (w # ws) \<and> w \<notin> {''.git'', ''.fleet''}"
  by (rule task_scope_unprotected [OF sample_task_valid]) code_simp

theorem task_scope_exact_witness:
  "\<not> path_is_within (\<lambda>s. s) ''srcs/a.py'' (allowed_paths sample_task) (forbidden_paths sample_task)"
proof -
  have "all_canonical (\<lambda>s. s) (allowed_paths sample_task)" by code_simp
  moreover have "all_canonical (\<lambda>s. s) (forbidden_paths sample_task)" by code_simp
  moreover have "path_components (\<lambda>s. s) ''srcs/a.py'' = Some [''srcs'', ''a.py'']" by code_simp
  moreover have "\<not> (\<exists>a \<in> set (allowed_paths sample_task).
      prefix (fold_path (\<lambda>s. s) a) [''srcs'', ''a.py''])" by code_simp
  ultimately show ?thesis by (simp add: task_scope_exact [OF sample_task_valid])
qed

theorem validate_command_normal_witness:
  "validate_command (\<lambda>s. s) (sample_command\<lparr>environment := [(''CI'', ''1''), (''PYTHONPATH'', ''src'')]\<rparr>) =
     Inr (sample_command\<lparr>environment := [(''CI'', ''1''), (''PYTHONPATH'', ''src'')]\<rparr>)"
  by (rule validate_command_normal [of _ sample_command, THEN conjunct1]) code_simp

end
