(* ===== verification/Fleet_Plan.thy ===== *)
theory Fleet_Plan
  imports Task_Contracts "HOL-Library.Multiset"
begin

text \<open>
  Fleet plans (\<open>domain/fleet_plan.py\<close>): the plan and its nodes, the constructor checks with the
  depth-first cycle test, and \<open>validate_fleet_plan\<close>, which bounds a proposed topology by the
  task it serves. The lemmas show that the cycle test decides acyclicity, and that in an accepted
  plan the writers own disjoint parts of the task's scope and the verifier writes nothing.
\<close>

section \<open>Nodes and plans\<close>

record fleet_plan_node =
  node_id :: string
  role_id :: string
  execution_kind :: "agent_role option"
  goal :: "string option"
  criterion_ids :: "string list"
  depends_on :: "string list"
  scope :: "string list"
  can_write :: bool
  requires_workspace :: bool
  independent_verifier :: bool
  max_steps :: int

definition effective_kind :: "fleet_plan_node \<Rightarrow> agent_role res" where
  "effective_kind n = (case execution_kind n of Some k \<Rightarrow> Inr k | None \<Rightarrow> role_of_value (role_id n))"

definition validate_node :: "(string \<Rightarrow> string) \<Rightarrow> fleet_plan_node \<Rightarrow> fleet_plan_node res" where
  "validate_node cf n =
     bind_res (require (node_id_ok (node_id n) \<and> node_id_ok (role_id n)
         \<and> (case goal n of None \<Rightarrow> True | Some g \<Rightarrow> bounded_text 8192 g)
         \<and> bounded_list 0 128 (criterion_ids n) \<and> list_all criterion_id_ok (criterion_ids n)
         \<and> bounded_list 0 16 (depends_on n) \<and> list_all node_id_ok (depends_on n)
         \<and> bounded_list 0 128 (scope n) \<and> list_all logical_repo_path (scope n)
         \<and> 1 \<le> max_steps n \<and> max_steps n \<le> 100) ValueError) (\<lambda>_.
     bind_res (check_all (\<lambda>v. require (canonical_relative v) ValueError) (scope n)) (\<lambda>_.
     bind_res (require (distinct (map (fold_path cf) (scope n))) ValueError) (\<lambda>_.
     bind_res (require (distinct (depends_on n)) ValueError) (\<lambda>_.
     bind_res (require (distinct (criterion_ids n)) ValueError) (\<lambda>_. Inr n)))))"

record fleet_plan =
  plan_id :: string
  plan_run_id :: string
  plan_task_id :: string
  strategy :: fleet_strategy
  nodes :: "fleet_plan_node list"
  repair_role_id :: "string option"
  max_parallel_agents :: int
  plan_required_evidence :: "evidence_requirement list"
  rationale :: string
  plan_created_at :: int

section \<open>The cycle test\<close>

text \<open>
  \<open>visit\<close> over the dependencies of a node, in the context of the nodes being visited. A call
  returns the visited nodes, most recently finished first. Entering a node removes it from the keys
  that may still be entered, so the recursion ends.
\<close>

function visit_all ::
    "(string \<times> string list) list \<Rightarrow> string list \<Rightarrow> string list \<Rightarrow> string list \<Rightarrow> string list res" where
  "visit_all deps visiting visited [] = Inr visited"
| "visit_all deps visiting visited (n # ns) =
     (if n \<in> set visiting then Inl ValueError
      else if n \<in> set visited then visit_all deps visiting visited ns
      else case map_of deps n of
        None \<Rightarrow> Inl KeyError
      | Some ds \<Rightarrow> (case visit_all deps (n # visiting) visited ds of
          Inl e \<Rightarrow> Inl e
        | Inr visited' \<Rightarrow> visit_all deps visiting (n # visited') ns))"
  by pat_completeness auto
termination
proof (relation "measures [\<lambda>(deps, visiting, visited, ns). card (fst ` set deps - set visiting),
    \<lambda>(deps, visiting, visited, ns). length ns]", goal_cases)
  case (3 deps visiting visited n ns ds)
  then have "n \<in> fst ` set deps - set visiting" by (force dest: map_of_SomeD)
  then have "card (fst ` set deps - insert n (set visiting)) < card (fst ` set deps - set visiting)"
    by (intro psubset_card_mono) auto
  then show ?case by simp
qed auto

definition dependency_map :: "fleet_plan_node list \<Rightarrow> (string \<times> string list) list" where
  "dependency_map ns = map (\<lambda>n. (node_id n, remdups (depends_on n))) ns"

definition reject_cycles :: "fleet_plan_node list \<Rightarrow> unit res" where
  "reject_cycles ns =
     (let deps = dependency_map ns in bind_res (visit_all deps [] [] (map fst deps)) (\<lambda>_. Inr ()))"

definition validate_graph_shape :: "fleet_plan_node list \<Rightarrow> unit res" where
  "validate_graph_shape ns =
     (let node_ids = map node_id ns in
      bind_res (require (distinct node_ids) ValueError) (\<lambda>_.
      bind_res (check_all (\<lambda>n.
          bind_res (require (set (depends_on n) \<subseteq> set node_ids) ValueError) (\<lambda>_.
          require (node_id n \<notin> set (depends_on n)) ValueError)) ns) (\<lambda>_.
      reject_cycles ns)))"

definition validate_plan :: "(string \<Rightarrow> string) \<Rightarrow> fleet_plan \<Rightarrow> fleet_plan res" where
  "validate_plan cf p =
     bind_res (require (opaque_ok ''plan'' (plan_id p) \<and> opaque_ok ''run'' (plan_run_id p)
         \<and> opaque_ok ''task'' (plan_task_id p) \<and> bounded_list 0 16 (nodes p)
         \<and> (case repair_role_id p of None \<Rightarrow> True | Some r \<Rightarrow> node_id_ok r)
         \<and> 1 \<le> max_parallel_agents p \<and> max_parallel_agents p \<le> 8
         \<and> bounded_list 1 32 (plan_required_evidence p) \<and> bounded_text 4096 (rationale p))
       ValueError) (\<lambda>_.
     bind_res (check_all (\<lambda>n. bind_res (validate_node cf n) (\<lambda>_. Inr ())) (nodes p)) (\<lambda>_.
     bind_res (require (distinct (plan_required_evidence p)) ValueError) (\<lambda>_.
     bind_res (validate_graph_shape (nodes p)) (\<lambda>_. Inr p))))"

section \<open>Validation against the task\<close>

definition plan_invalid :: exn where
  "plan_invalid = FleetError CONFIG_INVALID"

definition scopes_overlap :: "(string \<Rightarrow> string) \<Rightarrow> string list \<Rightarrow> string list \<Rightarrow> bool" where
  "scopes_overlap cf left right =
     list_ex (\<lambda>l. list_ex (\<lambda>r. parts_overlap (fold_path cf l) (fold_path cf r)) right) left"

definition check_roles :: "string set option \<Rightarrow> fleet_plan \<Rightarrow> unit res" where
  "check_roles known p = (case known of
     None \<Rightarrow> Inr ()
   | Some roles \<Rightarrow> require (role_id ` set (nodes p) \<union> set_option (repair_role_id p) \<subseteq> roles)
       plan_invalid)"

definition check_kinds :: "fleet_plan_node list \<Rightarrow> unit res" where
  "check_kinds ns = check_all (\<lambda>n. case effective_kind n of
      Inl _ \<Rightarrow> Inl plan_invalid
    | Inr kind \<Rightarrow> require (\<not> (role_id n \<in> role_value ` set all_roles \<and> role_value kind \<noteq> role_id n))
        plan_invalid) ns"

definition within_task :: "(string \<Rightarrow> string) \<Rightarrow> task_spec \<Rightarrow> fleet_plan_node \<Rightarrow> bool" where
  "within_task cf t n =
     list_all (\<lambda>path. path_is_within cf path (allowed_paths t) (forbidden_paths t)) (scope n)"

definition check_writers :: "(string \<Rightarrow> string) \<Rightarrow> task_spec \<Rightarrow> fleet_plan_node list \<Rightarrow> unit res" where
  "check_writers cf t writers = check_all (\<lambda>w.
     bind_res (require (\<not> (\<not> requires_workspace w \<or> scope w = [])) plan_invalid) (\<lambda>_.
     require (within_task cf t w) plan_invalid)) writers"

definition check_verifiers :: "(string \<Rightarrow> string) \<Rightarrow> task_spec \<Rightarrow> fleet_plan_node list \<Rightarrow> unit res" where
  "check_verifiers cf t verifiers = check_all (\<lambda>v.
     bind_res (require (\<not> (can_write v \<or> \<not> requires_workspace v \<or> scope v = [])) plan_invalid) (\<lambda>_.
     require (within_task cf t v) plan_invalid)) verifiers"

definition check_direct :: "fleet_plan \<Rightarrow> task_spec \<Rightarrow> unit res" where
  "check_direct p t =
     bind_res (require (\<not> (task_change_kind t \<noteq> READ_ONLY \<or> nodes p \<noteq> [] \<or> repair_role_id p \<noteq> None))
       plan_invalid) (\<lambda>_.
     require (set (plan_required_evidence p) = {CONTROL_PLANE_PLAN}) plan_invalid)"

definition check_single_engineer ::
    "fleet_plan \<Rightarrow> fleet_plan_node list \<Rightarrow> fleet_plan_node list \<Rightarrow> unit res" where
  "check_single_engineer p writers verifiers =
     require (\<not> (strategy p = SINGLE_ENGINEER \<and>
        (length writers \<noteq> 1 \<or> effective_kind (hd writers) \<noteq> Inr ENGINEER \<or> verifiers \<noteq> []
          \<or> length (nodes p) \<noteq> 1))) plan_invalid"

definition check_engineer_verifier ::
    "fleet_plan \<Rightarrow> bool \<Rightarrow> fleet_plan_node list \<Rightarrow> fleet_plan_node list \<Rightarrow> unit res" where
  "check_engineer_verifier p independent writers verifiers =
     (if strategy p \<noteq> ENGINEER_VERIFIER then Inr () else
      bind_res (require independent plan_invalid) (\<lambda>_.
      bind_res (require (\<not> (length writers \<noteq> 1 \<or> length verifiers \<noteq> 1 \<or> length (nodes p) \<noteq> 2))
        plan_invalid) (\<lambda>_.
      let writer = hd writers; verifier = hd verifiers in
      require (\<not> (effective_kind writer \<noteq> Inr ENGINEER \<or> effective_kind verifier \<noteq> Inr VERIFIER
          \<or> node_id writer \<notin> set (depends_on verifier))) plan_invalid)))"

definition check_parallel ::
    "fleet_plan \<Rightarrow> task_spec \<Rightarrow> fleet_plan_node list \<Rightarrow> fleet_plan_node list \<Rightarrow> unit res" where
  "check_parallel p t writers verifiers =
     (if strategy p \<noteq> PARALLEL_ENGINEERS then Inr () else
      bind_res (require (\<not> (length writers < 2 \<or> max_parallel_agents p < 2)) plan_invalid) (\<lambda>_.
      bind_res (require (\<not> (list_ex (\<lambda>w. effective_kind w \<noteq> Inr ENGINEER) writers
          \<or> list_ex (\<lambda>n. effective_kind n \<notin> {Inr ENGINEER, Inr VERIFIER}) (nodes p))) plan_invalid) (\<lambda>_.
      bind_res (require (\<not> (1 < length verifiers
          \<or> length (nodes p) \<noteq> length writers + length verifiers)) plan_invalid) (\<lambda>_.
      bind_res (require (\<not> list_ex (\<lambda>w. depends_on w \<noteq> []) writers) plan_invalid) (\<lambda>_.
      bind_res (check_all (\<lambda>v. require (node_id ` set writers \<subseteq> set (depends_on v)) plan_invalid)
        verifiers) (\<lambda>_.
      require (\<not> (list_ex (\<lambda>n. criterion_ids n \<noteq> []) (nodes p) \<and>
          (list_ex (\<lambda>w. criterion_ids w = [] \<or> goal w = None) writers
           \<or> set (concat (map criterion_ids writers)) \<noteq> set (map criterion_id (acceptance_criteria t)))))
        plan_invalid))))))"

text \<open>\<open>by_role\<close>: a dictionary comprehension, so the last node of a kind is the entry.\<close>

definition by_role :: "fleet_plan_node list \<Rightarrow> agent_role \<Rightarrow> fleet_plan_node option" where
  "by_role ns k = find (\<lambda>n. effective_kind n = Inr k) (rev ns)"

definition specialist_chain ::
    "fleet_plan_node list \<Rightarrow> fleet_plan_node \<Rightarrow> fleet_plan_node \<Rightarrow> fleet_plan_node \<Rightarrow> fleet_plan_node \<Rightarrow> bool" where
  "specialist_chain verifiers r a e v \<longleftrightarrow>
     \<not> (length verifiers \<noteq> 1
        \<or> node_id (hd verifiers) \<noteq> node_id v
        \<or> depends_on r \<noteq> []
        \<or> can_write r
        \<or> independent_verifier r
        \<or> depends_on a \<noteq> [node_id r]
        \<or> can_write a
        \<or> independent_verifier a
        \<or> depends_on e \<noteq> [node_id a]
        \<or> \<not> can_write e
        \<or> independent_verifier e
        \<or> depends_on v \<noteq> [node_id e]
        \<or> can_write v
        \<or> \<not> independent_verifier v)"

definition check_specialists ::
    "fleet_plan \<Rightarrow> task_spec \<Rightarrow> bool \<Rightarrow> fleet_plan_node list \<Rightarrow> unit res" where
  "check_specialists p t independent verifiers =
     (if strategy p \<noteq> RESEARCH_ARCHITECT_ENGINEER_VERIFIER then Inr () else
      bind_res (require independent plan_invalid) (\<lambda>_.
      bind_res (require (\<not> (set (map effective_kind (nodes p)) \<noteq>
            {Inr RESEARCHER, Inr ARCHITECT, Inr ENGINEER, Inr VERIFIER} \<or> length (nodes p) \<noteq> 4))
        plan_invalid) (\<lambda>_.
      bind_res (some_or KeyError (by_role (nodes p) RESEARCHER)) (\<lambda>r.
      bind_res (some_or KeyError (by_role (nodes p) ARCHITECT)) (\<lambda>a.
      bind_res (some_or KeyError (by_role (nodes p) ENGINEER)) (\<lambda>e.
      bind_res (some_or KeyError (by_role (nodes p) VERIFIER)) (\<lambda>v.
      bind_res (require (specialist_chain verifiers r a e v) plan_invalid) (\<lambda>_.
      check_all (\<lambda>s. require (\<not> (\<not> requires_workspace s \<or> scope s \<noteq> allowed_paths t)) plan_invalid)
        [r, a]))))))))"

definition check_authority :: "fleet_plan_node list \<Rightarrow> unit res" where
  "check_authority ns = check_all (\<lambda>n. bind_res (effective_kind n) (\<lambda>kind.
     require (\<not> (kind = COS \<or> can_write n \<noteq> (kind = ENGINEER)
         \<or> independent_verifier n \<noteq> (kind = VERIFIER))) plan_invalid)) ns"

fun check_disjoint :: "(string \<Rightarrow> string) \<Rightarrow> fleet_plan_node list \<Rightarrow> unit res" where
  "check_disjoint cf [] = Inr ()"
| "check_disjoint cf (left # rest) =
     bind_res (check_all (\<lambda>right. require (\<not> scopes_overlap cf (scope left) (scope right))
         plan_invalid) rest) (\<lambda>_. check_disjoint cf rest)"

definition validate_fleet_plan ::
    "(string \<Rightarrow> string) \<Rightarrow> fleet_plan \<Rightarrow> task_spec \<Rightarrow> string set option \<Rightarrow> unit res" where
  "validate_fleet_plan cf p t known =
     bind_res (require (\<not> (plan_run_id p \<noteq> task_run_id t \<or> plan_task_id p \<noteq> task_id t)) plan_invalid) (\<lambda>_.
     bind_res (require (set (required_evidence t) = set (plan_required_evidence p)) plan_invalid) (\<lambda>_.
     bind_res (check_roles known p) (\<lambda>_.
     bind_res (check_kinds (nodes p)) (\<lambda>_.
     bind_res (require (\<not> list_ex (\<lambda>n. \<not> set (criterion_ids n) \<subseteq>
         set (map criterion_id (acceptance_criteria t))) (nodes p)) plan_invalid) (\<lambda>_.
     let writers = filter can_write (nodes p);
         verifiers = filter independent_verifier (nodes p);
         independent = INDEPENDENT_VERIFIER_VERDICT \<in> set (required_evidence t)
     in
     bind_res (require (\<not> (independent \<and> verifiers = [])) plan_invalid) (\<lambda>_.
     if strategy p = DIRECT then check_direct p t else
     bind_res (require (task_change_kind t = CODE_CHANGE) plan_invalid) (\<lambda>_.
     bind_res (require (\<not> (task_change_kind t = CODE_CHANGE \<and> writers = [])) plan_invalid) (\<lambda>_.
     bind_res (check_writers cf t writers) (\<lambda>_.
     bind_res (check_verifiers cf t verifiers) (\<lambda>_.
     bind_res (check_single_engineer p writers verifiers) (\<lambda>_.
     bind_res (check_engineer_verifier p independent writers verifiers) (\<lambda>_.
     bind_res (check_parallel p t writers verifiers) (\<lambda>_.
     bind_res (check_specialists p t independent verifiers) (\<lambda>_.
     bind_res (check_authority (nodes p)) (\<lambda>_.
     check_disjoint cf writers)))))))))))))))"

section \<open>The cycle test decides acyclicity\<close>

definition dependency_edges :: "fleet_plan_node list \<Rightarrow> (string \<times> string) set" where
  "dependency_edges ns = {(node_id n, d) | n d. n \<in> set ns \<and> d \<in> set (depends_on n)}"

definition edges_of :: "(string \<times> string list) list \<Rightarrow> (string \<times> string) set" where
  "edges_of deps = {(n, d). \<exists>ds. map_of deps n = Some ds \<and> d \<in> set ds}"

text \<open>A list whose elements only depend on later ones.\<close>

fun topo :: "(string \<times> string) set \<Rightarrow> string list \<Rightarrow> bool" where
  "topo E [] = True"
| "topo E (n # vs) = (E `` {n} \<subseteq> set vs \<and> topo E vs)"

lemma topo_closed: "topo E vs \<Longrightarrow> v \<in> set vs \<Longrightarrow> (v, d) \<in> E \<Longrightarrow> d \<in> set vs"
  by (induction vs) auto

lemma topo_cong: "(\<And>v. v \<in> set vs \<Longrightarrow> E `` {v} = F `` {v}) \<Longrightarrow> topo E vs = topo F vs"
  by (induction vs) auto

fun topo_rank :: "string list \<Rightarrow> string \<Rightarrow> nat" where
  "topo_rank [] v = 0"
| "topo_rank (n # vs) v = (if v \<in> set vs then topo_rank vs v else Suc (length vs))"

lemma topo_rank_le: "topo_rank vs v \<le> length vs"
  by (induction vs) (auto intro: le_SucI)

lemma topo_rank_less: "topo E vs \<Longrightarrow> v \<in> set vs \<Longrightarrow> (v, d) \<in> E \<Longrightarrow> topo_rank vs d < topo_rank vs v"
proof (induction vs)
  case (Cons n vs)
  show ?case
  proof (cases "v \<in> set vs")
    case True
    with Cons show ?thesis by (auto dest: topo_closed)
  next
    case False
    with Cons.prems have "d \<in> set vs" by auto
    with False show ?thesis by (simp add: topo_rank_le less_Suc_eq_le)
  qed
qed simp

lemma topo_acyclic:
  assumes "topo E vs" and "fst ` E \<subseteq> set vs"
  shows "acyclic E"
proof -
  have "E\<inverse> \<subseteq> measure (topo_rank vs)"
    using assms by (auto intro!: topo_rank_less simp: image_subset_iff)
  then have "wf (E\<inverse>)" by (rule wf_subset [OF wf_measure])
  then have "acyclic (E\<inverse>)" by (rule wf_acyclic)
  then show ?thesis by simp
qed

lemma visit_all_topo:
  "visit_all deps visiting visited ns = Inr visited' \<Longrightarrow> topo (edges_of deps) visited \<Longrightarrow>
     topo (edges_of deps) visited' \<and> set visited \<subseteq> set visited' \<and> set ns \<subseteq> set visited'"
proof (induction deps visiting visited ns arbitrary: visited' rule: visit_all.induct)
  case (2 deps visiting visited n ns)
  have fresh: "n \<notin> set visiting" using "2.prems"(1) by (auto split: if_splits)
  show ?case
  proof (cases "n \<in> set visited")
    case True
    with "2.prems" "2.IH"(1) [OF fresh True] fresh show ?thesis by auto
  next
    case False
    then obtain ds where ds: "map_of deps n = Some ds"
      using "2.prems"(1) fresh by (auto split: option.splits)
    then obtain w where w: "visit_all deps (n # visiting) visited ds = Inr w"
      and w': "visit_all deps visiting (n # w) ns = Inr visited'"
      using "2.prems"(1) fresh False by (auto split: sum.splits)
    from "2.IH"(2) [OF fresh False ds w "2.prems"(2)]
    have sub: "topo (edges_of deps) w" "set visited \<subseteq> set w" "set ds \<subseteq> set w" by auto
    have "topo (edges_of deps) (n # w)" using sub ds by (auto simp: edges_of_def)
    from "2.IH"(3) [OF fresh False ds w w' this] sub show ?thesis by auto
  qed
qed auto

text \<open>The nodes being visited form a path of the dependency graph that ends in the current one.\<close>

fun visit_path :: "(string \<times> string) set \<Rightarrow> string list \<Rightarrow> bool" where
  "visit_path E (v # u # vs) = ((u, v) \<in> E \<and> visit_path E (u # vs))"
| "visit_path E _ = True"

lemma visit_path_reach:
  "visit_path E (v # vs) \<Longrightarrow> u \<in> set (v # vs) \<Longrightarrow> (u, v) \<in> E\<^sup>*"
proof (induction vs arbitrary: v)
  case (Cons w vs)
  show ?case
  proof (cases "u = v")
    case False
    with Cons have "(u, w) \<in> E\<^sup>*" by auto
    with Cons.prems(1) show ?thesis by (auto intro: rtrancl.rtrancl_into_rtrancl)
  qed simp
qed simp

lemma visit_all_Inr:
  assumes "acyclic (edges_of deps)"
    and "\<And>n d. (n, d) \<in> edges_of deps \<Longrightarrow> d \<in> fst ` set deps"
  shows "visit_path (edges_of deps) visiting \<Longrightarrow> set ns \<subseteq> fst ` set deps \<Longrightarrow>
     (visiting = [] \<or> (\<forall>n \<in> set ns. (hd visiting, n) \<in> edges_of deps)) \<Longrightarrow>
     \<exists>visited'. visit_all deps visiting visited ns = Inr visited'"
  using assms
proof (induction deps visiting visited ns rule: visit_all.induct)
  case (2 deps visiting visited n ns)
  have fresh: "n \<notin> set visiting"
  proof
    assume "n \<in> set visiting"
    then obtain v vs where vs: "visiting = v # vs" by (cases visiting) auto
    with 2 \<open>n \<in> set visiting\<close> have "(n, v) \<in> (edges_of deps)\<^sup>*" and "(v, n) \<in> edges_of deps"
      by (auto intro: visit_path_reach)
    then show False using "2.prems"(4) by (meson acyclic_def rtrancl_into_trancl1)
  qed
  show ?case
  proof (cases "n \<in> set visited")
    case True
    with "2.prems" "2.IH"(1) [OF fresh True] fresh show ?thesis by auto
  next
    case False
    from "2.prems"(2) obtain ds where ds: "map_of deps n = Some ds"
      by (cases "map_of deps n") (auto simp: map_of_eq_None_iff)
    have edge: "(n, d) \<in> edges_of deps" if "d \<in> set ds" for d
      using that ds by (auto simp: edges_of_def)
    have "visit_path (edges_of deps) (n # visiting)"
      using "2.prems"(1,3) by (cases visiting) auto
    with "2.IH"(2) [OF fresh False ds] "2.prems"(4,5) edge
    obtain w where w: "visit_all deps (n # visiting) visited ds = Inr w" by force
    from "2.IH"(3) [OF fresh False ds w] "2.prems" w fresh False ds show ?thesis by auto
  qed
qed auto

lemma edges_dependency_map:
  assumes "distinct (map node_id ns)"
  shows "edges_of (dependency_map ns) = dependency_edges ns"
proof -
  have "map_of (dependency_map ns) k = Some ds \<longleftrightarrow>
      (\<exists>n \<in> set ns. node_id n = k \<and> ds = remdups (depends_on n))" for k ds
    using assms by (subst map_of_eq_Some_iff)
      (auto simp: dependency_map_def comp_def distinct_map)
  then show ?thesis by (fastforce simp: edges_of_def dependency_edges_def)
qed

lemma reject_cycles_acyclic:
  assumes "distinct (map node_id ns)"
    and "\<And>n. n \<in> set ns \<Longrightarrow> set (depends_on n) \<subseteq> set (map node_id ns)"
  shows "reject_cycles ns = Inr () \<longleftrightarrow> acyclic (dependency_edges ns)"
proof
  assume "reject_cycles ns = Inr ()"
  then obtain vs where "visit_all (dependency_map ns) [] [] (map fst (dependency_map ns)) = Inr vs"
    by (auto simp: reject_cycles_def bind_res_Inr Let_def)
  from visit_all_topo [OF this] edges_dependency_map [OF assms(1)]
  have "topo (dependency_edges ns) vs" and "set (map fst (dependency_map ns)) \<subseteq> set vs" by auto
  then show "acyclic (dependency_edges ns)"
    by (intro topo_acyclic [of _ vs]) (force simp: dependency_map_def dependency_edges_def)+
next
  assume acyclic: "acyclic (dependency_edges ns)"
  have keys: "fst ` set (dependency_map ns) = node_id ` set ns"
    by (simp add: dependency_map_def image_image)
  note edges = edges_dependency_map [OF assms(1)]
  have "\<exists>vs. visit_all (dependency_map ns) [] [] (map fst (dependency_map ns)) = Inr vs"
  proof (rule visit_all_Inr)
    show "acyclic (edges_of (dependency_map ns))" using acyclic edges by simp
    show "d \<in> fst ` set (dependency_map ns)" if "(n, d) \<in> edges_of (dependency_map ns)" for n d
      using that assms(2) unfolding edges keys by (auto simp: dependency_edges_def)
  qed simp_all
  then show "reject_cycles ns = Inr ()" by (auto simp: reject_cycles_def Let_def)
qed

lemma validate_graph_shape_Inr:
  "validate_graph_shape ns = Inr () \<longleftrightarrow>
     distinct (map node_id ns) \<and> (\<forall>n \<in> set ns. set (depends_on n) \<subseteq> set (map node_id ns)) \<and>
     acyclic (dependency_edges ns)"
proof -
  have irrefl: "node_id n \<notin> set (depends_on n)" if "acyclic (dependency_edges ns)" "n \<in> set ns" for n
    using that by (auto simp: acyclic_def dependency_edges_def)
  show ?thesis
    by (auto simp: validate_graph_shape_def bind_res_Inr require_Inr check_all_Inr Let_def
        reject_cycles_acyclic dest: irrefl)
qed

text \<open>An execution order: every node comes after the nodes it depends on.\<close>

definition execution_order :: "fleet_plan_node list \<Rightarrow> bool" where
  "execution_order ns \<longleftrightarrow> distinct (map node_id ns) \<and>
     (\<forall>i < length ns. set (depends_on (ns ! i)) \<subseteq> set (map node_id (take i ns)))"

lemma reject_cycles_rank:
  assumes "validate_graph_shape ns = Inr ()"
  shows "\<exists>rank :: string \<Rightarrow> nat. \<forall>n \<in> set ns. \<forall>d \<in> set (depends_on n). rank d < rank (node_id n)"
proof -
  from assms have dist: "distinct (map node_id ns)" by (simp add: validate_graph_shape_Inr)
  from assms obtain vs
    where "visit_all (dependency_map ns) [] [] (map fst (dependency_map ns)) = Inr vs"
    by (auto simp: validate_graph_shape_def reject_cycles_def bind_res_Inr Let_def)
  from visit_all_topo [OF this] edges_dependency_map [OF dist]
  have "topo (dependency_edges ns) vs" and "node_id ` set ns \<subseteq> set vs"
    by (auto simp: dependency_map_def)
  then have "topo_rank vs d < topo_rank vs (node_id n)"
    if "n \<in> set ns" and "d \<in> set (depends_on n)" for n d
    using that by (intro topo_rank_less) (auto simp: dependency_edges_def)
  then show ?thesis by blast
qed

lemma execution_order_exists:
  assumes ok: "validate_graph_shape ns = Inr ()"
  shows "\<exists>order. mset order = mset ns \<and> execution_order order"
proof -
  obtain rank :: "string \<Rightarrow> nat"
    where rank: "\<And>n d. n \<in> set ns \<Longrightarrow> d \<in> set (depends_on n) \<Longrightarrow> rank d < rank (node_id n)"
    using reject_cycles_rank [OF ok] by blast
  let ?f = "\<lambda>n. rank (node_id n)"
  let ?order = "sort_key ?f ns"
  have "set (depends_on (?order ! i)) \<subseteq> set (map node_id (take i ?order))"
    if i: "i < length ?order" for i
  proof
    fix d
    assume d: "d \<in> set (depends_on (?order ! i))"
    have mem: "?order ! i \<in> set ns" using i nth_mem [OF i] by simp
    then obtain m where "m \<in> set ns" and m: "node_id m = d"
      using ok d by (auto simp: validate_graph_shape_Inr)
    then obtain j where j: "j < length ?order" "?order ! j = m"
      by (metis in_set_conv_nth set_sort)
    have "?f (?order ! j) < ?f (?order ! i)" using rank [OF mem d] j m by simp
    moreover have "sorted (map ?f ?order)" by simp
    from sorted_nth_mono [OF this, of i j]
    have "i \<le> j \<Longrightarrow> ?f (?order ! i) \<le> ?f (?order ! j)"
      using j(1) i by simp
    ultimately have "j < i" by (meson leD not_le_imp_less)
    then show "d \<in> set (map node_id (take i ?order))"
      using j m by (force simp: in_set_conv_nth)
  qed
  moreover have "distinct (map node_id ?order)"
    using ok by (simp add: validate_graph_shape_Inr distinct_map)
  ultimately have "execution_order ?order" by (simp add: execution_order_def)
  then show ?thesis by (intro exI [of _ ?order]) simp
qed

lemma execution_order_snoc:
  "execution_order (ns @ [n]) \<longleftrightarrow> execution_order ns \<and> node_id n \<notin> node_id ` set ns \<and>
     set (depends_on n) \<subseteq> node_id ` set ns"
  by (auto simp: execution_order_def nth_append less_Suc_eq all_conj_distrib)

lemma execution_order_acyclic:
  "execution_order ns \<Longrightarrow> acyclic (dependency_edges ns)"
proof -
  assume "execution_order ns"
  then have "topo (dependency_edges ns) (map node_id (rev ns))"
  proof (induction ns rule: rev_induct)
    case (snoc n ns)
    then have "topo (dependency_edges ns) (map node_id (rev ns))"
      and n: "node_id n \<notin> node_id ` set ns" "set (depends_on n) \<subseteq> node_id ` set ns"
      by (auto simp: execution_order_snoc)
    moreover have "dependency_edges (ns @ [n]) `` {v} = dependency_edges ns `` {v}"
      if "v \<in> set (map node_id (rev ns))" for v
      using that n(1) by (auto simp: dependency_edges_def image_iff)
    ultimately have "topo (dependency_edges (ns @ [n])) (map node_id (rev ns))"
      by (metis topo_cong)
    moreover have "dependency_edges (ns @ [n]) `` {node_id n} \<subseteq> node_id ` set ns"
      using n by (auto simp: dependency_edges_def)
    ultimately show ?case by simp
  qed simp
  then show ?thesis
    by (rule topo_acyclic) (auto simp: dependency_edges_def)
qed

lemma execution_order_known:
  "execution_order order \<Longrightarrow> n \<in> set order \<Longrightarrow> set (depends_on n) \<subseteq> node_id ` set order"
  by (force simp: execution_order_def in_set_conv_nth dest: in_set_takeD)

section \<open>Scopes of an accepted plan\<close>

text \<open>Plan scopes are regions: two scopes that share a path overlap.\<close>

lemma within_prefix:
  "path_is_within cf p s F \<Longrightarrow> \<exists>l \<in> set s. prefix (fold_path cf l) (fold_path cf p)"
  by (auto simp: path_is_within_iff dest!: path_components_fold)

lemma within_both_overlap:
  "path_is_within cf p s F \<Longrightarrow> path_is_within cf p t F \<Longrightarrow> scopes_overlap cf s t"
  by (auto simp: scopes_overlap_def list_ex_iff parts_overlap_prefix
      dest!: within_prefix dest: prefix_of_same)

interpretation plan_scopes: scope_region "\<lambda>p s. path_is_within cf p s F" "scopes_overlap cf" for cf F
  by unfold_locales (rule within_both_overlap)

lemma check_disjoint_Inr:
  "check_disjoint cf ws = Inr () \<longleftrightarrow>
     (\<forall>j < length ws. \<forall>i < j. \<not> scopes_overlap cf (scope (ws ! i)) (scope (ws ! j)))"
proof (induction ws)
  case (Cons w ws)
  have "(\<forall>j < length (w # ws). \<forall>i < j. \<not> scopes_overlap cf (scope ((w # ws) ! i)) (scope ((w # ws) ! j)))
    \<longleftrightarrow> (\<forall>v \<in> set ws. \<not> scopes_overlap cf (scope w) (scope v)) \<and>
       (\<forall>j < length ws. \<forall>i < j. \<not> scopes_overlap cf (scope (ws ! i)) (scope (ws ! j)))"
    by (auto simp: All_less_Suc2 all_set_conv_all_nth)
  with Cons show ?case by (simp add: bind_res_Inr check_all_Inr require_Inr)
qed simp

lemma validate_fleet_plan_Inr:
  assumes "validate_fleet_plan cf p t known = Inr ()" and "strategy p \<noteq> DIRECT"
  shows "task_change_kind t = CODE_CHANGE" "filter can_write (nodes p) \<noteq> []"
    and "check_writers cf t (filter can_write (nodes p)) = Inr ()"
    and "check_verifiers cf t (filter independent_verifier (nodes p)) = Inr ()"
    and "check_authority (nodes p) = Inr ()"
    and "check_disjoint cf (filter can_write (nodes p)) = Inr ()"
    and "check_parallel p t (filter can_write (nodes p)) (filter independent_verifier (nodes p)) = Inr ()"
  using assms by (simp_all add: validate_fleet_plan_def bind_res_Inr require_Inr Let_def)

lemma writer_in_task:
  assumes "validate_fleet_plan cf p t known = Inr ()" and "strategy p \<noteq> DIRECT"
    and "n \<in> set (nodes p)" and "can_write n \<or> independent_verifier n"
  shows "scope n \<noteq> [] \<and> requires_workspace n \<and> within_task cf t n"
  using assms(3,4) validate_fleet_plan_Inr(3,4) [OF assms(1,2)]
  by (auto simp: check_writers_def check_verifiers_def check_all_Inr bind_res_Inr require_Inr)

lemma scope_confined:
  assumes "within_task cf t n" and "path_is_within cf q (scope n) F"
  shows "path_is_within cf q (allowed_paths t) (forbidden_paths t)"
proof -
  obtain s sc qs where "s \<in> set (scope n)" "path_components cf s = Some sc"
    and "path_components cf q = Some qs" "prefix sc qs"
    using assms(2) by (auto simp: path_is_within_iff)
  with assms(1) show ?thesis by (auto simp: within_task_def list_all_iff intro: within_descendant)
qed

section \<open>Properties\<close>

text \<open>
  C5. The plan constructor accepts exactly the executable graphs: the shape check succeeds if and
  only if the nodes can be put in an order with distinct identifiers in which every node comes after
  all the nodes it depends on.
\<close>

theorem graph_shape_executable:
  "validate_graph_shape ns = Inr () \<longleftrightarrow> (\<exists>order. mset order = mset ns \<and> execution_order order)"
proof
  show "validate_graph_shape ns = Inr () \<Longrightarrow> \<exists>order. mset order = mset ns \<and> execution_order order"
    by (rule execution_order_exists)
next
  assume "\<exists>order. mset order = mset ns \<and> execution_order order"
  then obtain order where mset: "mset order = mset ns" and order: "execution_order order" by blast
  from mset have set: "set order = set ns" by (rule mset_eq_setD)
  have "dependency_edges ns = dependency_edges order" by (simp add: dependency_edges_def set)
  moreover have "mset (map node_id order) = mset (map node_id ns)" by (simp add: mset)
  then have "distinct (map node_id ns)"
    using order by (metis execution_order_def mset_eq_imp_distinct_iff)
  ultimately show "validate_graph_shape ns = Inr ()"
    using order execution_order_acyclic [OF order] execution_order_known [OF order]
    by (auto simp: validate_graph_shape_Inr set)
qed

text \<open>
  C6. Single ownership: in an accepted plan no path of the task lies in the scopes of two different
  writers, so parallel writers never touch the same file.
\<close>

theorem writers_own_disjoint_paths:
  assumes "validate_fleet_plan cf p t known = Inr ()" and "strategy p \<noteq> DIRECT"
    and "writers = filter can_write (nodes p)" and "i < length writers" and "j < length writers"
    and "path_is_within cf q (scope (writers ! i)) F" and "path_is_within cf q (scope (writers ! j)) F"
  shows "i = j"
proof (rule plan_scopes.owner_unique [where xs = writers and sc = scope and p = q and cf = cf and F = F])
  show "\<not> scopes_overlap cf (scope (writers ! i)) (scope (writers ! j))"
    if "i < j" and "j < length writers" for i j
    using validate_fleet_plan_Inr(6) [OF assms(1,2)] that assms(3) by (simp add: check_disjoint_Inr)
qed (use assms(4-7) in auto)

text \<open>
  Confinement: whatever path the scope of a writer or of an independent verifier of an accepted
  plan authorises, the scope of the task authorises.
\<close>

theorem plan_scope_confined:
  assumes "validate_fleet_plan cf p t known = Inr ()" and "strategy p \<noteq> DIRECT"
    and "n \<in> set (nodes p)" and "can_write n \<or> independent_verifier n"
    and "path_is_within cf q (scope n) F"
  shows "path_is_within cf q (allowed_paths t) (forbidden_paths t)"
  using writer_in_task [OF assms(1-4)] assms(5) by (blast intro: scope_confined)

text \<open>
  C7. Separation of duties: in an accepted specialist plan exactly the engineers write, exactly the
  verifiers verify, no node does both, no node acts as chief of staff, and when the task demands an
  independent verdict some node gives it.
\<close>

theorem separation_of_duties:
  assumes "validate_fleet_plan cf p t known = Inr ()" and "strategy p \<noteq> DIRECT"
  shows "(\<forall>n \<in> set (nodes p). \<exists>k. effective_kind n = Inr k \<and> k \<noteq> COS \<and>
           (can_write n \<longleftrightarrow> k = ENGINEER) \<and> (independent_verifier n \<longleftrightarrow> k = VERIFIER) \<and>
           \<not> (can_write n \<and> independent_verifier n)) \<and>
         (\<exists>n \<in> set (nodes p). can_write n) \<and>
         (INDEPENDENT_VERIFIER_VERDICT \<in> set (required_evidence t) \<longrightarrow>
           (\<exists>n \<in> set (nodes p). independent_verifier n))"
proof (intro conjI)
  show "\<forall>n \<in> set (nodes p). \<exists>k. effective_kind n = Inr k \<and> k \<noteq> COS \<and>
      (can_write n \<longleftrightarrow> k = ENGINEER) \<and> (independent_verifier n \<longleftrightarrow> k = VERIFIER) \<and>
      \<not> (can_write n \<and> independent_verifier n)"
    using validate_fleet_plan_Inr(5) [OF assms]
    by (fastforce simp: check_authority_def check_all_Inr bind_res_Inr require_Inr)
  show "\<exists>n \<in> set (nodes p). can_write n"
    using validate_fleet_plan_Inr(2) [OF assms] by (simp add: filter_empty_conv)
  show "INDEPENDENT_VERIFIER_VERDICT \<in> set (required_evidence t) \<longrightarrow>
      (\<exists>n \<in> set (nodes p). independent_verifier n)"
    using assms(1) by (auto simp: validate_fleet_plan_def bind_res_Inr require_Inr Let_def
        filter_empty_conv)
qed

section \<open>Witnesses\<close>

definition sample_node :: "string \<Rightarrow> agent_role \<Rightarrow> string list \<Rightarrow> string list \<Rightarrow> fleet_plan_node" where
  "sample_node name k deps sc = \<lparr>node_id = name, role_id = role_value k, execution_kind = None,
     goal = Some ''part'', criterion_ids = [''c1''], depends_on = deps, scope = sc,
     can_write = (k = ENGINEER), requires_workspace = True, independent_verifier = (k = VERIFIER),
     max_steps = 10\<rparr>"

definition sample_plan :: fleet_plan where
  "sample_plan = \<lparr>plan_id = ''plan_'' @ sample_hex 32, plan_run_id = ''run_'' @ sample_hex 32,
     plan_task_id = ''task_'' @ sample_hex 32, strategy = PARALLEL_ENGINEERS,
     nodes = [sample_node ''verify'' VERIFIER [''a'', ''b''] [''src''],
       sample_node ''a'' ENGINEER [] [''src''], sample_node ''b'' ENGINEER [] [''tests/unit'']],
     repair_role_id = None, max_parallel_agents = 2,
     plan_required_evidence = [COMMAND_EVIDENCE, CANONICAL_PATCH, INDEPENDENT_VERIFIER_VERDICT],
     rationale = ''split'', plan_created_at = 0\<rparr>"

lemma sample_plan_valid: "validate_plan (\<lambda>s. s) sample_plan = Inr sample_plan"
  by code_simp

lemma sample_plan_accepted: "validate_fleet_plan (\<lambda>s. s) sample_plan sample_task None = Inr ()"
  by code_simp

theorem graph_shape_executable_witness:
  "validate_graph_shape (nodes sample_plan) = Inr () \<and>
   \<not> (\<exists>order. mset order = mset [sample_node ''a'' ENGINEER [''b''] [], sample_node ''b'' ENGINEER [''a''] []]
        \<and> execution_order order)"
  unfolding graph_shape_executable [symmetric] by code_simp

theorem writers_own_disjoint_paths_witness:
  "\<not> path_is_within (\<lambda>s. s) ''src/a.py'' (scope (filter can_write (nodes sample_plan) ! 1)) []"
proof
  assume other: "path_is_within (\<lambda>s. s) ''src/a.py'' (scope (filter can_write (nodes sample_plan) ! 1)) []"
  have "(0::nat) = 1"
  proof (rule writers_own_disjoint_paths [OF sample_plan_accepted _ refl _ _ _ other])
    show "strategy sample_plan \<noteq> DIRECT" by code_simp
    show "0 < length (filter can_write (nodes sample_plan))" by code_simp
    show "1 < length (filter can_write (nodes sample_plan))" by code_simp
    show "path_is_within (\<lambda>s. s) ''src/a.py'' (scope (filter can_write (nodes sample_plan) ! 0)) []"
      by code_simp
  qed
  then show False by simp
qed

theorem plan_scope_confined_witness:
  "path_is_within (\<lambda>s. s) ''tests/unit/t.py'' (allowed_paths sample_task) (forbidden_paths sample_task)"
  by (rule plan_scope_confined [OF sample_plan_accepted, where F = "[]"
        and n = "sample_node ''b'' ENGINEER [] [''tests/unit'']"]) code_simp+

theorem separation_of_duties_witness:
  "(\<exists>n \<in> set (nodes sample_plan). can_write n) \<and> (\<exists>n \<in> set (nodes sample_plan). independent_verifier n)"
proof -
  have "strategy sample_plan \<noteq> DIRECT" by code_simp
  from separation_of_duties [OF sample_plan_accepted this] show ?thesis
    by (simp add: sample_task_def)
qed

end
