(* ===== verification/Workflow_Policy.thy ===== *)
theory Workflow_Policy
  imports Domain_Types
begin

text \<open>
  \<open>domain/workflow.py\<close>: the table of allowed transitions of a run, the check every saved run
  passes (\<open>validate_transition\<close>), and the machine the check defines. Shown: the check is sound
  and complete for the table, terminal states are absorbing, reachable states are those the table
  knows, a run is only applied after it was ready for review, and no reachable state is stuck.
\<close>

section \<open>The policy\<close>

type_synonym run_state = "run_status \<times> workflow_stage option"

definition ALLOWED :: "(run_state \<times> run_state list) list" where
  "ALLOWED =
    [((CREATED, None), [(RUNNING, Some INTAKE)]),
     ((RUNNING, Some INTAKE), [(RUNNING, Some SCOPING)]),
     ((RUNNING, Some SCOPING),
       [(PAUSED_FOR_PLAN, Some SCOPING),
        (RUNNING, Some WORKSPACE_PREPARATION),
        (RUNNING, Some PRESENTING)]),
     ((PAUSED_FOR_PLAN, Some SCOPING), [(RUNNING, Some SCOPING)]),
     ((RUNNING, Some WORKSPACE_PREPARATION), [(RUNNING, Some IMPLEMENTING)]),
     ((RUNNING, Some IMPLEMENTING),
       [(WAITING_FOR_CHILDREN, Some IMPLEMENTING),
        (PAUSED_FOR_APPROVAL, Some IMPLEMENTING),
        (RUNNING, Some VERIFYING),
        (RUNNING, Some PRESENTING)]),
     ((WAITING_FOR_CHILDREN, Some IMPLEMENTING), [(RUNNING, Some IMPLEMENTING)]),
     ((PAUSED_FOR_APPROVAL, Some IMPLEMENTING), [(RUNNING, Some IMPLEMENTING)]),
     ((RUNNING, Some VERIFYING),
       [(PAUSED_FOR_APPROVAL, Some VERIFYING),
        (RUNNING, Some REPAIRING),
        (RUNNING, Some PRESENTING),
        (REJECTED, Some VERIFYING)]),
     ((PAUSED_FOR_APPROVAL, Some VERIFYING), [(RUNNING, Some VERIFYING)]),
     ((RUNNING, Some REPAIRING),
       [(PAUSED_FOR_APPROVAL, Some REPAIRING),
        (RUNNING, Some VERIFYING)]),
     ((PAUSED_FOR_APPROVAL, Some REPAIRING), [(RUNNING, Some REPAIRING)]),
     ((RUNNING, Some PRESENTING),
       [(READY_FOR_REVIEW, Some PRESENTING),
        (COMPLETED, Some PRESENTING)]),
     ((READY_FOR_REVIEW, Some PRESENTING), [(APPLYING, Some STAGE_APPLYING)]),
     ((APPLYING, Some STAGE_APPLYING), [(RUNNING, Some CLEANUP)]),
     ((RUNNING, Some CLEANUP), [(COMPLETED, Some CLEANUP)])]"

definition allowed_targets :: "run_state \<Rightarrow> run_state list" where
  "allowed_targets s = (case map_of ALLOWED s of None \<Rightarrow> [] | Some ts \<Rightarrow> ts)"

definition is_terminal :: "run_status \<Rightarrow> bool" where
  "is_terminal st = (st \<in> {COMPLETED, FAILED, CANCELLED, REJECTED, ABANDONED})"

definition aborting :: "run_status \<Rightarrow> bool" where
  "aborting st = (st \<in> {FAILED, CANCELLED, REJECTED, ABANDONED})"

definition validate_transition ::
    "run_state \<Rightarrow> run_status \<Rightarrow> workflow_stage option \<Rightarrow> unit res" where
  "validate_transition current target_status target_stage =
    (if current = (target_status, target_stage) then Inr ()
     else if \<not> is_terminal (fst current) \<and> aborting target_status then Inr ()
     else if (target_status, target_stage) \<notin> set (allowed_targets current)
       then Inl (FleetError WORKFLOW_INVALID_TRANSITION)
     else Inr ())"

section \<open>The machine\<close>

text \<open>The step of a saved run: the new state is stored when the check returns.\<close>

definition save_state :: "run_state \<Rightarrow> run_state \<Rightarrow> exn + run_state" where
  "save_state s t = bind_res (validate_transition s (fst t) (snd t)) (\<lambda>_. Inr t)"

text \<open>A history is a list of states, each accepted from the one before.\<close>

fun history_from :: "run_state \<Rightarrow> run_state list \<Rightarrow> bool" where
  "history_from s [] = True"
| "history_from s (t # ts) = (save_state s t = Inr t \<and> history_from t ts)"

definition initial_state :: run_state where
  "initial_state = (CREATED, None)"

inductive reachable :: "run_state \<Rightarrow> bool" where
  start: "reachable initial_state"
| step: "reachable s \<Longrightarrow> save_state s t = Inr t \<Longrightarrow> reachable t"

definition known_state :: "run_state \<Rightarrow> bool" where
  "known_state s \<longleftrightarrow> s \<in> fst ` set ALLOWED \<or> is_terminal (fst s)"

section \<open>Lemmas\<close>

lemma validate_transition_Inr [res_simps]:
  "validate_transition s st sg = Inr u \<longleftrightarrow>
    s = (st, sg) \<or> (\<not> is_terminal (fst s) \<and> aborting st) \<or> (st, sg) \<in> set (allowed_targets s)"
  by (auto simp: validate_transition_def)

lemma save_state_Inr [res_simps]:
  "save_state s t = Inr t' \<longleftrightarrow> t' = t \<and> validate_transition s (fst t) (snd t) = Inr ()"
  by (auto simp: save_state_def bind_res_Inr)

text \<open>The table as a list of edges, over which a claim about all transitions is evaluated.\<close>

definition EDGES :: "(run_state \<times> run_state) list" where
  "EDGES = concat (map (\<lambda>(s, ts). map (Pair s) ts) ALLOWED)"

lemma concat_edge:
  "(s, ts) \<in> set xs \<Longrightarrow> t \<in> set ts \<Longrightarrow> (s, t) \<in> set (concat (map (\<lambda>(s, ts). map (Pair s) ts) xs))"
  by (induction xs) auto

lemma allowed_targets_edge:
  assumes "t \<in> set (allowed_targets s)"
  shows "(s, t) \<in> set EDGES"
proof -
  from assms obtain ts where "map_of ALLOWED s = Some ts" and t: "t \<in> set ts"
    by (cases "map_of ALLOWED s") (simp_all add: allowed_targets_def)
  then have "(s, ts) \<in> set ALLOWED" by (simp add: map_of_SomeD)
  then show ?thesis using t unfolding EDGES_def by (rule concat_edge)
qed

lemma edge_induct:
  "list_all (\<lambda>(s, t). P s t) EDGES \<Longrightarrow> t \<in> set (allowed_targets s) \<Longrightarrow> P s t"
  by (auto simp: list_all_iff dest: allowed_targets_edge)

lemma allowed_targets_source: "t \<in> set (allowed_targets s) \<Longrightarrow> \<not> is_terminal (fst s)"
  by (erule edge_induct [rotated]) code_simp

lemma allowed_targets_known: "t \<in> set (allowed_targets s) \<Longrightarrow> known_state t"
  by (erule edge_induct [rotated]) code_simp

lemma terminal_step: "is_terminal (fst s) \<Longrightarrow> save_state s t = Inr t \<longleftrightarrow> t = s"
  by (auto simp: save_state_Inr validate_transition_Inr dest: allowed_targets_source)

lemma aborting_terminal: "aborting st \<Longrightarrow> is_terminal st"
  by (auto simp: aborting_def is_terminal_def)

lemma known_stateI: "aborting (fst t) \<Longrightarrow> known_state t"
  by (simp add: known_state_def aborting_terminal)

lemma known_step: "known_state s \<Longrightarrow> save_state s t = Inr t \<Longrightarrow> known_state t"
  by (auto simp: save_state_Inr validate_transition_Inr dest: allowed_targets_known
      intro: known_stateI)

interpretation run_machine: durable save_state known_state
  by unfold_locales (use known_step in \<open>force simp: save_state_Inr\<close>)

lemma reachable_known_state: "reachable s \<Longrightarrow> known_state s"
proof (induction rule: reachable.induct)
  case start
  show ?case by (simp add: known_state_def initial_state_def ALLOWED_def)
next
  case (step s t)
  then show ?case by (blast intro: known_step)
qed

lemma history_from_append:
  "history_from s (xs @ ys) \<longleftrightarrow> history_from s xs \<and> history_from (last (s # xs)) ys"
  by (induction xs arbitrary: s) auto

lemma history_from_prefix: "history_from s (xs @ y # ys) \<Longrightarrow> history_from s (xs @ [y])"
  by (simp add: history_from_append)

lemma history_reachable: "reachable s \<Longrightarrow> history_from s ts \<Longrightarrow> t \<in> set ts \<Longrightarrow> reachable t"
  by (induction ts arbitrary: s) (auto intro: reachable.step)

text \<open>The states that follow a review: the application of the patch and its cleanup.\<close>

definition after_review :: "run_state \<Rightarrow> bool" where
  "after_review s \<longleftrightarrow>
     s \<in> {(APPLYING, Some STAGE_APPLYING), (RUNNING, Some CLEANUP), (COMPLETED, Some CLEANUP)}"

lemma edge_after_review:
  "t \<in> set (allowed_targets s) \<Longrightarrow>
   after_review t \<longrightarrow> after_review s \<or> s = (READY_FOR_REVIEW, Some PRESENTING)"
  by (erule edge_induct [rotated]) code_simp

lemma enter_after_review:
  "save_state s t = Inr t \<Longrightarrow> after_review t \<Longrightarrow> \<not> after_review s \<Longrightarrow>
   s = (READY_FOR_REVIEW, Some PRESENTING)"
  by (cases t)
    (auto simp: save_state_Inr validate_transition_Inr aborting_def after_review_def
          dest!: edge_after_review)

lemma history_review_gate:
  "history_from s ts \<Longrightarrow> t \<in> set ts \<Longrightarrow> after_review t \<Longrightarrow> \<not> after_review s \<Longrightarrow>
   (READY_FOR_REVIEW, Some PRESENTING) \<in> set (s # ts)"
proof (induction ts arbitrary: s)
  case Nil
  then show ?case by simp
next
  case (Cons u ts)
  show ?case
  proof (cases "after_review u")
    case True
    with Cons.prems have "s = (READY_FOR_REVIEW, Some PRESENTING)"
      by (auto intro: enter_after_review)
    then show ?thesis by simp
  next
    case False
    with Cons.prems have "(READY_FOR_REVIEW, Some PRESENTING) \<in> set (u # ts)"
      by (intro Cons.IH) auto
    then show ?thesis by simp
  qed
qed

text \<open>A path to completion from every non-terminal known state.\<close>

fun to_completion :: "run_state \<Rightarrow> run_state list" where
  "to_completion s =
    (let present = [(RUNNING, Some PRESENTING), (COMPLETED, Some PRESENTING)];
         verify = (RUNNING, Some VERIFYING) # present
     in if s = (CREATED, None)
          then [(RUNNING, Some INTAKE), (RUNNING, Some SCOPING)] @ present
        else if s = (RUNNING, Some INTAKE) then (RUNNING, Some SCOPING) # present
        else if s = (PAUSED_FOR_PLAN, Some SCOPING) then (RUNNING, Some SCOPING) # present
        else if s = (RUNNING, Some WORKSPACE_PREPARATION)
          then (RUNNING, Some IMPLEMENTING) # present
        else if s \<in> {(WAITING_FOR_CHILDREN, Some IMPLEMENTING),
                     (PAUSED_FOR_APPROVAL, Some IMPLEMENTING)}
          then (RUNNING, Some IMPLEMENTING) # present
        else if s = (PAUSED_FOR_APPROVAL, Some VERIFYING) then verify
        else if s = (RUNNING, Some REPAIRING) then verify
        else if s = (PAUSED_FOR_APPROVAL, Some REPAIRING) then (RUNNING, Some REPAIRING) # verify
        else if s = (RUNNING, Some PRESENTING) then [(COMPLETED, Some PRESENTING)]
        else if s = (READY_FOR_REVIEW, Some PRESENTING)
          then [(APPLYING, Some STAGE_APPLYING), (RUNNING, Some CLEANUP), (COMPLETED, Some CLEANUP)]
        else if s = (APPLYING, Some STAGE_APPLYING)
          then [(RUNNING, Some CLEANUP), (COMPLETED, Some CLEANUP)]
        else if s = (RUNNING, Some CLEANUP) then [(COMPLETED, Some CLEANUP)]
        else present)"

lemma to_completion_ok:
  "s \<in> fst ` set ALLOWED \<Longrightarrow>
   history_from s (to_completion s) \<and> to_completion s \<noteq> [] \<and> fst (last (to_completion s)) = COMPLETED"
proof -
  have "list_all (\<lambda>(s, ts). history_from s (to_completion s) \<and> to_completion s \<noteq> [] \<and>
      fst (last (to_completion s)) = COMPLETED) ALLOWED"
    by code_simp
  then show "s \<in> fst ` set ALLOWED \<Longrightarrow> ?thesis" by (force simp: list_all_iff)
qed

lemma known_applied:
  "known_state t \<Longrightarrow> fst t = APPLYING \<or> snd t = Some CLEANUP \<and> fst t \<in> {RUNNING, COMPLETED} \<Longrightarrow>
   after_review t"
proof -
  have "list_all (\<lambda>(t, ts). fst t = APPLYING \<or> snd t = Some CLEANUP \<longrightarrow> after_review t) ALLOWED"
    by code_simp
  then show "known_state t \<Longrightarrow> fst t = APPLYING \<or> snd t = Some CLEANUP \<and> fst t \<in> {RUNNING, COMPLETED} \<Longrightarrow>
    after_review t"
    by (cases t) (force simp: list_all_iff known_state_def is_terminal_def after_review_def)
qed

section \<open>Properties\<close>

text \<open>
  C1. The user reviews before anything is applied: in every history of a run from its creation, a
  state in which the patch is being applied, or is being cleaned up after its application, is
  preceded by the ready-for-review state.
\<close>

theorem applied_only_after_review:
  assumes "history_from initial_state ts"
    and "t \<in> set ts" and "fst t = APPLYING \<or> snd t = Some CLEANUP \<and> fst t \<in> {RUNNING, COMPLETED}"
  shows "\<exists>before after. ts = before @ t # after \<and> (READY_FOR_REVIEW, Some PRESENTING) \<in> set before"
proof -
  from assms(2) obtain before after where ts: "ts = before @ t # after"
    and fresh: "t \<notin> set before"
    by (meson split_list_first)
  have "reachable t" using assms(1,2) by (blast intro: history_reachable reachable.start)
  then have "known_state t" by (rule reachable_known_state)
  with assms(3) have gate: "after_review t"
    by (auto dest: known_applied)
  have "history_from initial_state (before @ [t])"
    using assms(1) unfolding ts by (auto dest: history_from_prefix)
  moreover have "\<not> after_review initial_state" by (simp add: after_review_def initial_state_def)
  ultimately have "(READY_FOR_REVIEW, Some PRESENTING) \<in> set (initial_state # before @ [t])"
    using gate by (intro history_review_gate) auto
  then have "(READY_FOR_REVIEW, Some PRESENTING) \<in> set before"
    using gate by (auto simp: initial_state_def after_review_def)
  with ts show ?thesis by blast
qed

definition reviewed_history :: "run_state list" where
  "reviewed_history = [(RUNNING, Some INTAKE), (RUNNING, Some SCOPING), (RUNNING, Some PRESENTING),
     (READY_FOR_REVIEW, Some PRESENTING), (APPLYING, Some STAGE_APPLYING)]"

theorem applied_only_after_review_witness:
  "\<exists>before after. reviewed_history = before @ (APPLYING, Some STAGE_APPLYING) # after \<and>
     (READY_FOR_REVIEW, Some PRESENTING) \<in> set before"
proof (rule applied_only_after_review)
  show "history_from initial_state reviewed_history" by code_simp
qed (simp_all add: reviewed_history_def)

text \<open>
  C2. No run is stuck: every state a run can be in either is terminal, or lies on an allowed path to
  completion.
\<close>

theorem reachable_can_complete:
  assumes "reachable s"
  shows "is_terminal (fst s) \<or>
    (\<exists>ts. history_from s ts \<and> ts \<noteq> [] \<and> fst (last ts) = COMPLETED)"
proof -
  have "s \<in> fst ` set ALLOWED \<or> is_terminal (fst s)"
    using reachable_known_state [OF assms] by (simp add: known_state_def)
  then show ?thesis using to_completion_ok by blast
qed

theorem reachable_can_complete_witness:
  "\<exists>ts. history_from initial_state ts \<and> ts \<noteq> [] \<and> fst (last ts) = COMPLETED"
  using reachable_can_complete [OF reachable.start] by (simp add: initial_state_def is_terminal_def)

end
