(* ===== verification/Json_Values.thy ===== *)
theory Json_Values
  imports Task_Contracts
begin

text \<open>
  JSON values as the control plane exchanges, bounds and hashes them: \<open>json.dumps\<close> with compact
  separators and \<open>ensure_ascii=False\<close>, \<open>canonical_json_hash\<close> of \<open>domain/security.py\<close>
  and \<open>_validate_bounded_json\<close> of \<open>domain/models.py\<close>. A dictionary is the list of its
  members in insertion order; a float is the text of its \<open>repr\<close>. SHA-256 is an argument.

  The main lemma is that the serialization can be read back in only one way, so that a collision-free
  hash of the canonical text identifies the value.
\<close>

section \<open>Values and serialization\<close>

datatype json =
    JNull
  | JBool bool
  | JInt int
  | JFloat string
  | JStr string
  | JArr "json list"
  | JObj "(string \<times> json) list"

definition digit_char :: "nat \<Rightarrow> char" where
  "digit_char n = ''0123456789'' ! n"

fun dec_nat :: "nat \<Rightarrow> string" where
  "dec_nat n = (if n < 10 then [digit_char n] else dec_nat (n div 10) @ [digit_char (n mod 10)])"

declare dec_nat.simps [simp del]

definition dec_int :: "int \<Rightarrow> string" where
  "dec_int i = (if i < 0 then CHR ''-'' # dec_nat (nat (- i)) else dec_nat (nat i))"

definition hex_char :: "nat \<Rightarrow> char" where
  "hex_char n = ''0123456789abcdef'' ! n"

text \<open>The escapes of Python's encoder: quotes, backslashes and control characters.\<close>

definition esc_char :: "char \<Rightarrow> string" where
  "esc_char c =
     (if c = CHR 0x22 then [CHR 0x5C, CHR 0x22]
      else if c = CHR 0x5C then [CHR 0x5C, CHR 0x5C]
      else if c = CHR 0x08 then [CHR 0x5C, CHR ''b'']
      else if c = CHR 0x0C then [CHR 0x5C, CHR ''f'']
      else if c = CHR 0x0A then [CHR 0x5C, CHR ''n'']
      else if c = CHR 0x0D then [CHR 0x5C, CHR ''r'']
      else if c = CHR 0x09 then [CHR 0x5C, CHR ''t'']
      else if byte c < 32 then
        [CHR 0x5C, CHR ''u'', CHR ''0'', CHR ''0'', hex_char (byte c div 16), hex_char (byte c mod 16)]
      else [c])"

definition quote_str :: "string \<Rightarrow> string" where
  "quote_str s = CHR 0x22 # concat (map esc_char s) @ [CHR 0x22]"

fun join_comma :: "string list \<Rightarrow> string" where
  "join_comma [] = []"
| "join_comma [w] = w"
| "join_comma (w # ws) = w @ CHR '','' # join_comma ws"

definition float_text :: "string \<Rightarrow> string" where
  "float_text t = (if t = ''nan'' then ''NaN'' else if t = ''inf'' then ''Infinity''
     else if t = ''-inf'' then ''-Infinity'' else t)"

fun dumps :: "json \<Rightarrow> string" where
  "dumps JNull = ''null''"
| "dumps (JBool b) = (if b then ''true'' else ''false'')"
| "dumps (JInt i) = dec_int i"
| "dumps (JFloat t) = float_text t"
| "dumps (JStr s) = quote_str s"
| "dumps (JArr xs) = CHR ''['' # join_comma (map dumps xs) @ '']''"
| "dumps (JObj ms) =
     CHR ''{'' # join_comma (map (\<lambda>(k, v). quote_str k @ CHR '':'' # dumps v) ms) @ ''}''"

text \<open>\<open>sort_keys=True\<close> at every level.\<close>

fun sort_keys :: "json \<Rightarrow> json" where
  "sort_keys (JArr xs) = JArr (map sort_keys xs)"
| "sort_keys (JObj ms) = JObj (sort_by_key (map (\<lambda>(k, v). (k, sort_keys v)) ms))"
| "sort_keys v = v"

definition canonical_text :: "json \<Rightarrow> string" where
  "canonical_text v = dumps (sort_keys v)"

definition canonical_json_hash :: "(string \<Rightarrow> string) \<Rightarrow> json \<Rightarrow> string" where
  "canonical_json_hash sha v = sha (canonical_text v)"

text \<open>Equality of two values as Python compares dictionaries: the order of members is irrelevant.\<close>

definition json_eq :: "json \<Rightarrow> json \<Rightarrow> bool" where
  "json_eq v w \<longleftrightarrow> sort_keys v = sort_keys w"

fun json_get :: "string \<Rightarrow> json \<Rightarrow> json option" where
  "json_get k (JObj ms) = map_of ms k"
| "json_get k _ = None"

section \<open>Bounded JSON\<close>

record json_bounds =
  max_bytes :: nat
  max_depth :: nat
  max_nodes :: nat
  max_string_length :: nat

definition default_bounds :: json_bounds where
  "default_bounds = \<lparr>max_bytes = 65536, max_depth = 16, max_nodes = 4096, max_string_length = 32768\<rparr>"

definition key_ok :: "string \<Rightarrow> bool" where
  "key_ok k \<longleftrightarrow> \<not> (k = [] \<or> 128 < py_len k \<or> has_control k)"

definition finite_text :: "string \<Rightarrow> bool" where
  "finite_text t \<longleftrightarrow> t \<notin> {''nan'', ''inf'', ''-inf''}"

text \<open>\<open>visit\<close> with its counter threaded through: the result is the number of nodes visited.\<close>

fun visit_json :: "json_bounds \<Rightarrow> json \<Rightarrow> nat \<Rightarrow> nat \<Rightarrow> nat res"
  and visit_items :: "json_bounds \<Rightarrow> json list \<Rightarrow> nat \<Rightarrow> nat \<Rightarrow> nat res"
  and visit_members :: "json_bounds \<Rightarrow> (string \<times> json) list \<Rightarrow> nat \<Rightarrow> nat \<Rightarrow> nat res" where
  "visit_json b item depth count =
     (let count = count + 1 in
      if max_nodes b < count then Inl ValueError
      else if max_depth b < depth then Inl ValueError
      else case item of
        JStr s \<Rightarrow> if max_string_length b < py_len s then Inl ValueError else Inr count
      | JFloat t \<Rightarrow> if \<not> finite_text t then Inl ValueError else Inr count
      | JObj ms \<Rightarrow> visit_members b ms (depth + 1) count
      | JArr xs \<Rightarrow> visit_items b xs (depth + 1) count
      | _ \<Rightarrow> Inr count)"
| "visit_items b [] depth count = Inr count"
| "visit_items b (x # xs) depth count =
     bind_res (visit_json b x depth count) (visit_items b xs depth)"
| "visit_members b [] depth count = Inr count"
| "visit_members b ((k, v) # ms) depth count =
     (if \<not> key_ok k then Inl ValueError
      else bind_res (visit_json b v depth count) (visit_members b ms depth))"

declare visit_json.simps [simp del]

definition validate_bounded_json :: "json_bounds \<Rightarrow> json \<Rightarrow> json res" where
  "validate_bounded_json b v =
     bind_res (visit_json b v 0 0) (\<lambda>_.
     let encoded = dumps v in
     if has_surrogate encoded then Inl ValueError
     else if max_bytes b < length encoded then Inl ValueError
     else Inr v)"

section \<open>Reading the text back\<close>

subsection \<open>Numbers\<close>

definition num_char :: "char \<Rightarrow> bool" where
  "num_char c \<longleftrightarrow> c \<in> set ''0123456789+-.e''"

definition stop :: "string \<Rightarrow> bool" where
  "stop r \<longleftrightarrow> (case r of [] \<Rightarrow> True | c # _ \<Rightarrow> c \<in> {CHR '','', CHR '']'', CHR 0x7D})"

lemma stop_simps [simp]:
  "stop []" "stop (CHR '','' # r)" "stop (CHR '']'' # r)" "stop (CHR 0x7D # r)"
  by (simp_all add: stop_def)

lemma digit_char_cases:
  assumes "n < 10"
  shows "num_char (digit_char n)" "byte (digit_char n) = 48 + n" "digit_char n \<noteq> CHR ''-''"
    "digit_char n \<noteq> CHR ''.''" "digit_char n \<noteq> CHR ''e''"
proof -
  have "list_all (\<lambda>n. num_char (digit_char n) \<and> byte (digit_char n) = 48 + n \<and>
      digit_char n \<noteq> CHR ''-'' \<and> digit_char n \<noteq> CHR ''.'' \<and> digit_char n \<noteq> CHR ''e'') [0..<10]"
    by code_simp
  with assms show "num_char (digit_char n)" "byte (digit_char n) = 48 + n" "digit_char n \<noteq> CHR ''-''"
    "digit_char n \<noteq> CHR ''.''" "digit_char n \<noteq> CHR ''e''"
    by (simp_all add: list_all_iff)
qed

definition digits_value :: "string \<Rightarrow> nat" where
  "digits_value s = foldl (\<lambda>a c. 10 * a + (byte c - 48)) 0 s"

lemma digits_value_dec [simp]: "digits_value (dec_nat n) = n"
proof (induction n rule: dec_nat.induct)
  case (1 n)
  then show ?case
    by (cases "n < 10") (simp_all add: dec_nat.simps [of n] digits_value_def digit_char_cases)
qed

lemma dec_nat_chars:
  "dec_nat n \<noteq> [] \<and> (\<forall>c \<in> set (dec_nat n). num_char c \<and> c \<noteq> CHR ''-'' \<and> c \<noteq> CHR ''.'' \<and> c \<noteq> CHR ''e'')"
proof (induction n rule: dec_nat.induct)
  case (1 n)
  then show ?case
    by (cases "n < 10") (auto simp: dec_nat.simps [of n] digit_char_cases)
qed

lemma dec_nat_inject [simp]: "dec_nat m = dec_nat n \<longleftrightarrow> m = n"
  by (metis digits_value_dec)

lemma dec_nat_not_minus: "dec_nat n \<noteq> CHR ''-'' # s"
  using dec_nat_chars [of n] by (metis list.set_intros(1))

lemma dec_int_inject [simp]: "dec_int i = dec_int j \<longleftrightarrow> i = j"
proof
  assume "dec_int i = dec_int j"
  then show "i = j"
    using dec_nat_not_minus [of "nat i"] dec_nat_not_minus [of "nat j"]
    unfolding dec_int_def by (simp split: if_splits) (metis dec_nat_not_minus)+
qed simp

lemma dec_int_chars:
  "dec_int i \<noteq> [] \<and> (\<forall>c \<in> set (dec_int i). num_char c \<and> c \<noteq> CHR ''.'' \<and> c \<noteq> CHR ''e'')"
proof (cases "i < 0")
  case True
  have "num_char (CHR ''-'')" by (simp add: num_char_def)
  with True dec_nat_chars [of "nat (- i)"] show ?thesis by (simp add: dec_int_def)
next
  case False
  with dec_nat_chars [of "nat i"] show ?thesis by (simp add: dec_int_def)
qed

text \<open>The text of a finite float: number characters with a point or an exponent.\<close>

definition float_ok :: "string \<Rightarrow> bool" where
  "float_ok t \<longleftrightarrow> list_all num_char t \<and> (CHR ''.'' \<in> set t \<or> CHR ''e'' \<in> set t)
     \<and> hd t \<notin> {CHR ''.'', CHR ''e''}"

lemma float_ok_text: "float_ok t \<Longrightarrow> float_text t = t"
  by (auto simp: float_ok_def float_text_def num_char_def)

lemma number_token:
  assumes "list_all num_char a" and "list_all num_char b" and "a @ r = b @ s" and "stop r" and "stop s"
  shows "a = b \<and> r = s"
proof -
  have stop_not_num: "takeWhile num_char t = []" if "stop t" for t
    using that by (cases t) (auto simp: stop_def num_char_def)
  have "takeWhile num_char (c @ t) = c" if "list_all num_char c" "stop t" for c t
    using that stop_not_num by (simp add: takeWhile_append2 list_all_iff)
  from this [OF assms(1,4)] this [OF assms(2,5)] assms(3) have "a = b" by simp
  with assms(3) show ?thesis by simp
qed

subsection \<open>Strings\<close>

lemma hex_char_inject: "m < 16 \<Longrightarrow> n < 16 \<Longrightarrow> hex_char m = hex_char n \<Longrightarrow> m = n"
  by (auto simp: hex_char_def nth_eq_iff_index_eq)

lemma byte_inject [simp]: "byte c = byte d \<longleftrightarrow> c = d"
  by (simp add: byte_def)

lemma byte_split: "byte c div 16 = byte d div 16 \<Longrightarrow> byte c mod 16 = byte d mod 16 \<Longrightarrow> c = d"
  by (metis byte_inject div_mult_mod_eq)

lemma byte_less: "byte c < 256"
  by (simp add: byte_def)

lemma esc_char_prefix:
  assumes "esc_char c @ r = esc_char d @ s"
  shows "c = d \<and> r = s"
proof -
  have hex: "c = d" if "byte c < 32" "byte d < 32" "hex_char (byte c div 16) = hex_char (byte d div 16)"
    "hex_char (byte c mod 16) = hex_char (byte d mod 16)"
    using that hex_char_inject by (intro byte_split) auto
  have "c = d"
    using assms hex by (simp add: esc_char_def split: if_splits)
  with assms show ?thesis by simp
qed

lemma esc_char_head: "\<exists>x xs. esc_char c = x # xs \<and> x \<noteq> CHR 0x22"
  by (simp add: esc_char_def)

lemma escapes_inject:
  "concat (map esc_char s) @ CHR 0x22 # r = concat (map esc_char t) @ CHR 0x22 # u \<Longrightarrow> s = t \<and> r = u"
proof (induction s arbitrary: t)
  case Nil
  then show ?case using esc_char_head [of "hd t"] by (cases t) auto
next
  case (Cons c s)
  show ?case
  proof (cases t)
    case Nil
    with Cons.prems show ?thesis using esc_char_head [of c] by auto
  next
    case (Cons d t')
    with Cons.prems have "c = d \<and>
        concat (map esc_char s) @ CHR 0x22 # r = concat (map esc_char t') @ CHR 0x22 # u"
      by (intro esc_char_prefix) simp
    with Cons.IH Cons show ?thesis by auto
  qed
qed

lemma quote_str_inject: "quote_str s @ r = quote_str t @ u \<Longrightarrow> s = t \<and> r = u"
  by (auto simp: quote_str_def dest: escapes_inject)

subsection \<open>Sequences\<close>

lemma join_comma_Cons:
  "join_comma (w # ws) = w @ (if ws = [] then [] else CHR '','' # join_comma ws)"
  by (cases ws) auto

lemma join_inject:
  assumes elem: "\<And>x y r s. x \<in> set xs \<Longrightarrow> y \<in> set ys \<Longrightarrow> f x @ r = f y @ s \<Longrightarrow>
      stop r \<Longrightarrow> stop s \<Longrightarrow> x = y \<and> r = s"
    and head: "\<And>x. x \<in> set xs \<union> set ys \<Longrightarrow> \<exists>c cs. f x = c # cs \<and> c \<noteq> close"
    and close: "close \<noteq> CHR '',''" "\<And>t. stop (close # t)"
  shows "join_comma (map f xs) @ close # r = join_comma (map f ys) @ close # s \<Longrightarrow> xs = ys \<and> r = s"
  using elem head
proof (induction xs arbitrary: ys)
  case Nil
  then show ?case by (cases ys) (fastforce simp: join_comma_Cons)+
next
  case (Cons x xs)
  show ?case
  proof (cases ys)
    case Nil
    with Cons.prems show ?thesis by (fastforce simp: join_comma_Cons)
  next
    case ys: (Cons y ys')
    let ?tail = "\<lambda>zs t. (if zs = [] then [] else CHR '','' # join_comma (map f zs)) @ close # t"
    from Cons.prems(1) ys have "f x @ ?tail xs r = f y @ ?tail ys' s"
      by (simp add: join_comma_Cons)
    then have xy: "x = y" and tails: "?tail xs r = ?tail ys' s"
      using Cons.prems(2) [of x y "?tail xs r" "?tail ys' s"] ys close(2) by auto
    show ?thesis
    proof (cases "xs = [] \<or> ys' = []")
      case True
      with tails close(1) xy ys show ?thesis by (auto split: if_splits)
    next
      case False
      with tails have "join_comma (map f xs) @ close # r = join_comma (map f ys') @ close # s" by simp
      then have "xs = ys' \<and> r = s"
        by (rule Cons.IH) (use Cons.prems(2,3) ys in auto)
      with xy ys show ?thesis by simp
    qed
  qed
qed

subsection \<open>Values\<close>

fun json_ok :: "json \<Rightarrow> bool" where
  "json_ok (JFloat t) = float_ok t"
| "json_ok (JArr xs) = list_all json_ok xs"
| "json_ok (JObj ms) = list_all (\<lambda>(k, v). json_ok v) ms"
| "json_ok _ = True"

text \<open>The first character of a serialized value tells its kind.\<close>

lemma dumps_head:
  "json_ok v \<Longrightarrow> \<exists>c cs. dumps v = c # cs \<and>
    (case v of JNull \<Rightarrow> c = CHR ''n'' | JBool b \<Rightarrow> c = (if b then CHR ''t'' else CHR ''f'')
      | JStr _ \<Rightarrow> c = CHR 0x22 | JArr _ \<Rightarrow> c = CHR ''['' | JObj _ \<Rightarrow> c = CHR 0x7B
      | _ \<Rightarrow> num_char c \<and> c \<noteq> CHR ''e'')"
proof (cases v)
  case (JInt i)
  then show ?thesis using dec_int_chars [of i] by (cases "dec_int i") auto
next
  case (JFloat t)
  assume "json_ok v"
  with JFloat have "float_ok t" by simp
  then show ?thesis using JFloat by (cases t) (auto simp: float_ok_text, auto simp: float_ok_def)
qed (auto simp: quote_str_def)

lemma dumps_head_not_close:
  "json_ok v \<Longrightarrow> \<exists>c cs. dumps v = c # cs \<and> c \<noteq> CHR '']'' \<and> c \<noteq> CHR 0x7D"
  using dumps_head [of v] by (cases v) (auto simp: num_char_def)

fun json_number :: "json \<Rightarrow> bool" where
  "json_number (JInt _) = True"
| "json_number (JFloat _) = True"
| "json_number _ = False"

lemma number_inject:
  assumes "json_number v" and "json_number w" and "json_ok v" and "json_ok w"
    and "dumps v @ r = dumps w @ s" and "stop r" and "stop s"
  shows "v = w \<and> r = s"
proof -
  have chars: "list_all num_char (dumps u)" if "json_number u" "json_ok u" for u
    using that by (cases u) (auto simp: float_ok_text float_ok_def list_all_iff dec_int_chars)
  have "dumps v = dumps w \<and> r = s"
    using assms by (intro number_token chars)
  moreover have "v = w" if "dumps v = dumps w"
  proof -
    have ne: "dec_int i \<noteq> t \<and> t \<noteq> dec_int i" if "float_ok t" for i t
      using dec_int_chars [of i] that by (auto simp: float_ok_def)
    show ?thesis
      using that assms(1-4) by (cases v; cases w) (auto simp: float_ok_text ne)
  qed
  ultimately show ?thesis by simp
qed

lemma members_inject:
  assumes "\<And>v w r s. v \<in> snd ` set ms \<Longrightarrow> json_ok w \<Longrightarrow> dumps v @ r = dumps w @ s \<Longrightarrow>
      stop r \<Longrightarrow> stop s \<Longrightarrow> v = w \<and> r = s"
    and "(k, v) \<in> set ms" and "json_ok w"
    and "(quote_str k @ CHR '':'' # dumps v) @ r = (quote_str l @ CHR '':'' # dumps w) @ s"
    and "stop r" and "stop s"
  shows "(k, v) = (l, w) \<and> r = s"
proof -
  have "quote_str k @ CHR '':'' # dumps v @ r = quote_str l @ CHR '':'' # dumps w @ s"
    using assms(4) by simp
  from quote_str_inject [OF this] have "k = l" and "dumps v @ r = dumps w @ s" by auto
  with assms(1) [of v w r s] assms(2,3,5,6) show ?thesis by force
qed

lemma dumps_prefix:
  "json_ok v \<Longrightarrow> json_ok w \<Longrightarrow> dumps v @ r = dumps w @ s \<Longrightarrow> stop r \<Longrightarrow> stop s \<Longrightarrow> v = w \<and> r = s"
proof (induction v arbitrary: w r s)
  case (JArr xs)
  then obtain ys where w: "w = JArr ys"
    using dumps_head [of "JArr xs"] dumps_head [of w] by (cases w) (auto simp: num_char_def split: if_splits)
  have "xs = ys \<and> r = s"
  proof (rule join_inject [where f = dumps and close = "CHR '']''"])
    show "join_comma (map dumps xs) @ CHR '']'' # r = join_comma (map dumps ys) @ CHR '']'' # s"
      using JArr.prems w by simp
    show "\<exists>c cs. dumps x = c # cs \<and> c \<noteq> CHR '']''" if "x \<in> set xs \<union> set ys" for x
      using dumps_head_not_close [of x] that JArr.prems w by (auto simp: list_all_iff)
  qed (use JArr w in \<open>auto simp: list_all_iff\<close>)
  with w show ?case by simp
next
  case (JObj ms)
  let ?f = "\<lambda>(k, v). quote_str k @ CHR '':'' # dumps v"
  from JObj obtain ns where w: "w = JObj ns"
    using dumps_head [of "JObj ms"] dumps_head [of w] by (cases w) (auto simp: num_char_def split: if_splits)
  have "ms = ns \<and> r = s"
  proof (rule join_inject [where f = ?f and close = "CHR 0x7D"])
    show "join_comma (map ?f ms) @ CHR 0x7D # r = join_comma (map ?f ns) @ CHR 0x7D # s"
      using JObj.prems w by simp
    show "\<exists>c cs. ?f x = c # cs \<and> c \<noteq> CHR 0x7D" if "x \<in> set ms \<union> set ns" for x
      by (cases x) (simp add: quote_str_def)
    show "x = y \<and> p = q" if "x \<in> set ms" and "y \<in> set ns" and "?f x @ p = ?f y @ q"
      and "stop p" and "stop q" for x y p q
    proof -
      obtain k v l u where xy: "x = (k, v)" "y = (l, u)" by fastforce
      have "json_ok u" using that(2) JObj.prems(2) w xy by (auto simp: list_all_iff)
      moreover have "v' = w' \<and> r' = s'" if v': "v' \<in> snd ` set ms" and "json_ok w'"
        and "dumps v' @ r' = dumps w' @ s'" and "stop r'" and "stop s'" for v' w' r' s'
      proof -
        obtain j where "(j, v') \<in> set ms" using v' by auto
        moreover from this JObj.prems(1) have "json_ok v'" by (auto simp: list_all_iff)
        ultimately show ?thesis
          using JObj.IH [of "(j, v')" v' w' r' s'] that(2-5) by simp
      qed
      moreover have "(k, v) \<in> set ms" using that(1) xy by simp
      moreover have "(quote_str k @ CHR '':'' # dumps v) @ p = (quote_str l @ CHR '':'' # dumps u) @ q"
        using that(3) xy by simp
      ultimately have "(k, v) = (l, u) \<and> p = q"
        using that(4,5) by (intro members_inject [of ms])
      with xy show ?thesis by simp
    qed
  qed simp_all
  with w show ?case by simp
next
  case (JInt i)
  then have "json_number w"
    using dumps_head [of "JInt i"] dumps_head [of w] by (cases w) (auto simp: num_char_def split: if_splits)
  with JInt show ?case by (intro number_inject) auto
next
  case (JFloat t)
  then have "json_number w"
    using dumps_head [of "JFloat t"] dumps_head [of w] by (cases w) (auto simp: num_char_def split: if_splits)
  with JFloat show ?case by (intro number_inject) auto
next
  case JNull
  then show ?case
    using dumps_head [of w] by (cases w) (auto simp: num_char_def split: if_splits)
next
  case (JBool b)
  then show ?case
    using dumps_head [of w] by (cases w) (auto simp: num_char_def split: if_splits)
next
  case (JStr t)
  then obtain u where "w = JStr u"
    using dumps_head [of "JStr t"] dumps_head [of w] by (cases w) (auto simp: num_char_def split: if_splits)
  with JStr.prems show ?case by (auto dest: quote_str_inject)
qed

lemma dumps_inject: "json_ok v \<Longrightarrow> json_ok w \<Longrightarrow> dumps v = dumps w \<longleftrightarrow> v = w"
  using dumps_prefix [of v w "[]" "[]"] by auto

lemma json_ok_sort_keys [simp]: "json_ok (sort_keys v) = json_ok v"
  by (induction v rule: sort_keys.induct) (auto simp: list_all_iff)

lemma canonical_text_inject:
  "json_ok v \<Longrightarrow> json_ok w \<Longrightarrow> canonical_text v = canonical_text w \<longleftrightarrow> json_eq v w"
  by (simp add: canonical_text_def json_eq_def dumps_inject)

lemma canonical_hash_inject:
  "inj sha \<Longrightarrow> json_ok v \<Longrightarrow> json_ok w \<Longrightarrow>
     canonical_json_hash sha v = canonical_json_hash sha w \<longleftrightarrow> json_eq v w"
  by (simp add: canonical_json_hash_def inj_eq canonical_text_inject)

section \<open>What the bounds mean\<close>

fun json_nodes :: "json \<Rightarrow> nat" where
  "json_nodes (JArr xs) = 1 + sum_list (map json_nodes xs)"
| "json_nodes (JObj ms) = 1 + sum_list (map (\<lambda>(k, v). json_nodes v) ms)"
| "json_nodes _ = 1"

text \<open>All values at most \<open>d\<close> levels deep, with bounded strings, finite numbers and valid keys.\<close>

fun json_within :: "json_bounds \<Rightarrow> json \<Rightarrow> nat \<Rightarrow> bool" where
  "json_within b (JArr xs) d \<longleftrightarrow> d \<le> max_depth b \<and> list_all (\<lambda>x. json_within b x (d + 1)) xs"
| "json_within b (JObj ms) d \<longleftrightarrow>
     d \<le> max_depth b \<and> list_all (\<lambda>(k, v). key_ok k \<and> json_within b v (d + 1)) ms"
| "json_within b (JStr s) d \<longleftrightarrow> d \<le> max_depth b \<and> py_len s \<le> max_string_length b"
| "json_within b (JFloat t) d \<longleftrightarrow> d \<le> max_depth b \<and> finite_text t"
| "json_within b _ d \<longleftrightarrow> d \<le> max_depth b"

lemma visit_json_result:
  "visit_json b v d n = (if n + json_nodes v \<le> max_nodes b \<and> json_within b v d
     then Inr (n + json_nodes v) else Inl ValueError)"
  "n \<le> max_nodes b \<Longrightarrow> visit_items b xs d n =
     (if n + sum_list (map json_nodes xs) \<le> max_nodes b \<and> list_all (\<lambda>x. json_within b x d) xs
      then Inr (n + sum_list (map json_nodes xs)) else Inl ValueError)"
  "n \<le> max_nodes b \<Longrightarrow> visit_members b ms d n =
     (if n + sum_list (map (\<lambda>(k, v). json_nodes v) ms) \<le> max_nodes b
         \<and> list_all (\<lambda>(k, v). key_ok k \<and> json_within b v d) ms
      then Inr (n + sum_list (map (\<lambda>(k, v). json_nodes v) ms)) else Inl ValueError)"
proof (induction b v d n and b xs d n and b ms d n rule: visit_json_visit_items_visit_members.induct)
  case (1 b v d n)
  show ?case
  proof (cases "n + 1 \<le> max_nodes b \<and> d \<le> max_depth b")
    case True
    with 1 show ?thesis unfolding visit_json.simps [of b v d n] by (cases v) (simp_all add: Let_def)
  next
    case False
    then show ?thesis unfolding visit_json.simps [of b v d n] by (cases v) (auto simp: Let_def)
  qed
qed (simp_all add: bind_res_def)

section \<open>Properties\<close>

text \<open>
  C8. A canonical hash identifies the value: when the hash function does not collide on the two
  canonical texts, equal hashes mean equal values up to the order of dictionary members, and values
  that differ only in that order have equal hashes.
\<close>

theorem canonical_hash_identifies:
  assumes "json_ok v" and "json_ok w" and "inj_on sha {canonical_text v, canonical_text w}"
  shows "canonical_json_hash sha v = canonical_json_hash sha w \<longleftrightarrow> json_eq v w"
  unfolding canonical_json_hash_def canonical_text_inject [OF assms(1,2), symmetric]
  by (rule inj_on_eq_iff [OF assms(3)]) simp_all

theorem canonical_hash_identifies_witness:
  "canonical_json_hash (\<lambda>s. s) (JObj [(''b'', JInt (- 1)), (''a'', JStr ''x'')]) =
     canonical_json_hash (\<lambda>s. s) (JObj [(''a'', JStr ''x''), (''b'', JInt (- 1))]) \<and>
   canonical_json_hash (\<lambda>s. s) (JObj [(''a'', JInt 1)]) \<noteq>
     canonical_json_hash (\<lambda>s. s) (JObj [(''a'', JStr ''1'')])"
proof -
  have same: "json_eq (JObj [(''b'', JInt (- 1)), (''a'', JStr ''x'')]) (JObj [(''a'', JStr ''x''), (''b'', JInt (- 1))])"
    by (simp add: json_eq_def sort_by_key_def byte_def)
  have different: "\<not> json_eq (JObj [(''a'', JInt 1)]) (JObj [(''a'', JStr ''1'')])"
    by (simp add: json_eq_def sort_by_key_def)
  show ?thesis
    using canonical_hash_identifies [of "JObj [(''b'', JInt (- 1)), (''a'', JStr ''x'')]"
        "JObj [(''a'', JStr ''x''), (''b'', JInt (- 1))]" "\<lambda>s. s"]
      canonical_hash_identifies [of "JObj [(''a'', JInt 1)]" "JObj [(''a'', JStr ''1'')]" "\<lambda>s. s"]
      same different by simp
qed

text \<open>
  C9. Bounded JSON: a value is accepted, unchanged, if and only if it has no more nodes, nesting,
  string length and serialized bytes than the bounds, all its numbers are finite, and all its keys
  are non-empty, short and free of control characters; otherwise it is a validation error.
\<close>

theorem bounded_json_exact:
  "validate_bounded_json b v =
     (if json_nodes v \<le> max_nodes b \<and> json_within b v 0 \<and> \<not> has_surrogate (dumps v) \<and>
         length (dumps v) \<le> max_bytes b
      then Inr v else Inl ValueError)"
  by (simp add: validate_bounded_json_def visit_json_result(1) Let_def)

end
