(* ===== verification/Sandbox_Types.thy ===== *)
theory Sandbox_Types
  imports Json_Values
begin

text \<open>
  The sandbox records a project and a run carry (\<open>SandboxCapabilities\<close>,
  \<open>SandboxRequirements\<close> and \<open>SandboxConfiguration\<close> of \<open>domain/models.py\<close>), their
  constructor checks and the JSON values their hashes bind.
\<close>

section \<open>Capabilities\<close>

record sandbox_capabilities =
  sb_provider :: string
  sb_level :: security_level
  sb_isolation :: bool
  sb_executes :: bool
  sb_networks :: "string list"
  sb_resource_limits :: bool
  sb_recovery :: bool
  sb_non_root :: bool
  sb_read_only_root :: bool
  sb_no_new_privileges :: bool
  sb_capability_drop :: bool

definition phase1_fake :: sandbox_capabilities where
  "phase1_fake = \<lparr>sb_provider = ''fake'', sb_level = LevelFake, sb_isolation = False,
     sb_executes = False, sb_networks = [''none''], sb_resource_limits = False, sb_recovery = True,
     sb_non_root = False, sb_read_only_root = False, sb_no_new_privileges = False,
     sb_capability_drop = False\<rparr>"

definition sandbox_names :: "string list" where
  "sandbox_names = [''fake'', ''docker'', ''local-unsafe'']"

definition network_modes :: "string list" where
  "network_modes = [''none'', ''approved-unrestricted'']"

text \<open>\<open>validate_network_modes\<close>, after the field constraints of the two bounded fields.\<close>

definition sandbox_fields_ok :: "sandbox_capabilities \<Rightarrow> bool" where
  "sandbox_fields_ok c \<longleftrightarrow> node_id_ok (sb_provider c) \<and> bounded_list 1 2 (sb_networks c)
     \<and> distinct (sb_networks c) \<and> set (sb_networks c) \<subseteq> set network_modes"

text \<open>\<open>validate_capability_coherence\<close>.\<close>

definition capability_coherence :: "sandbox_capabilities \<Rightarrow> unit res" where
  "capability_coherence c =
     (if sb_provider c = ''fake'' \<or> sb_level c = LevelFake then
        require (c = phase1_fake) ValueError
      else if sb_level c = ISOLATED then
        require (\<not> (\<not> sb_isolation c \<or> \<not> sb_executes c \<or> \<not> sb_resource_limits c \<or> \<not> sb_non_root c
          \<or> \<not> sb_read_only_root c \<or> \<not> sb_no_new_privileges c \<or> \<not> sb_capability_drop c
          \<or> ''none'' \<notin> set (sb_networks c))) ValueError
      else if sb_level c = UNSAFE_HOST \<and> (sb_isolation c \<or> \<not> sb_executes c) then Inl ValueError
      else Inr ())"

definition validate_capabilities :: "sandbox_capabilities \<Rightarrow> sandbox_capabilities res" where
  "validate_capabilities c =
     bind_res (require (sandbox_fields_ok c) ValueError) (\<lambda>_.
     bind_res (capability_coherence c) (\<lambda>_. Inr c))"

section \<open>Requirements and configuration\<close>

record sandbox_requirements =
  sq_isolation :: bool
  sq_execution :: bool
  sq_limits :: bool
  sq_non_root :: bool
  sq_read_only_root :: bool
  sq_no_new_privileges :: bool
  sq_capability_drop :: bool
  sq_network :: string

definition default_requirements :: sandbox_requirements where
  "default_requirements = \<lparr>sq_isolation = False, sq_execution = False, sq_limits = False,
     sq_non_root = False, sq_read_only_root = False, sq_no_new_privileges = False,
     sq_capability_drop = False, sq_network = ''none''\<rparr>"

text \<open>The CPU limit is a multiple of 0.001 and kept in thousandths.\<close>

record sandbox_configuration =
  sc_provider :: string
  sc_network :: string
  sc_image :: "string option"
  sc_cpu :: int
  sc_memory :: int
  sc_pids :: int
  sc_shm :: int
  sc_tmpfs :: int

definition default_configuration :: sandbox_configuration where
  "default_configuration = \<lparr>sc_provider = ''fake'', sc_network = ''none'', sc_image = None,
     sc_cpu = 1000, sc_memory = 512, sc_pids = 128, sc_shm = 64, sc_tmpfs = 128\<rparr>"

definition is_alnum :: "char \<Rightarrow> bool" where
  "is_alnum c \<longleftrightarrow> is_lower c \<or> is_upper c \<or> is_digit c"

definition image_reference_ok :: "string \<Rightarrow> bool" where
  "image_reference_ok s \<longleftrightarrow> length s \<le> 256 \<and> (case s of [] \<Rightarrow> False
     | c # cs \<Rightarrow> is_alnum c \<and> list_all (\<lambda>d. is_alnum d \<or> d \<in> set ''._:/@+-'') cs)"

definition configuration_fields_ok :: "sandbox_configuration \<Rightarrow> bool" where
  "configuration_fields_ok c \<longleftrightarrow> sc_provider c \<in> set sandbox_names \<and> sc_network c \<in> set network_modes
     \<and> (case sc_image c of None \<Rightarrow> True | Some s \<Rightarrow> image_reference_ok s)
     \<and> 1 \<le> sc_cpu c \<and> sc_cpu c \<le> 16000 \<and> 64 \<le> sc_memory c \<and> sc_memory c \<le> 32768
     \<and> 16 \<le> sc_pids c \<and> sc_pids c \<le> 4096 \<and> 16 \<le> sc_shm c \<and> sc_shm c \<le> 1024
     \<and> 16 \<le> sc_tmpfs c \<and> sc_tmpfs c \<le> 4096"

definition validate_configuration :: "sandbox_configuration \<Rightarrow> sandbox_configuration res" where
  "validate_configuration c =
     bind_res (require (configuration_fields_ok c) ValueError) (\<lambda>_.
     bind_res (require (\<not> (sc_provider c = ''docker'' \<and> sc_image c = None)) ValueError) (\<lambda>_.
     bind_res (require (\<not> (sc_provider c \<noteq> ''docker'' \<and> sc_image c \<noteq> None)) ValueError) (\<lambda>_.
     bind_res (require (\<not> (sc_provider c = ''local-unsafe''
         \<and> sc_network c \<noteq> ''approved-unrestricted'')) ValueError) (\<lambda>_.
     bind_res (require (\<not> (sc_provider c \<noteq> ''local-unsafe'' \<and> sc_network c \<noteq> ''none'')) ValueError) (\<lambda>_.
     Inr c)))))"

section \<open>JSON\<close>

text \<open>\<open>repr\<close> of a float that is a number of thousandths: trailing zeros are dropped, but one
  decimal stays.\<close>

definition thousandths_text :: "int \<Rightarrow> string" where
  "thousandths_text n = dec_int (n div 1000) @ ''.'' @
     (let d = nat (n mod 1000); a = d div 100; b = d div 10 mod 10; c = d mod 10 in
      digit_char a # (if c \<noteq> 0 then [digit_char b, digit_char c] else if b \<noteq> 0 then [digit_char b] else []))"

definition opt_json :: "string option \<Rightarrow> json" where
  "opt_json x = (case x of None \<Rightarrow> JNull | Some s \<Rightarrow> JStr s)"

fun level_value :: "security_level \<Rightarrow> string" where
  "level_value LevelFake = ''fake''"
| "level_value ISOLATED = ''isolated''"
| "level_value UNSAFE_HOST = ''unsafe_host''"

definition configuration_json :: "sandbox_configuration \<Rightarrow> json" where
  "configuration_json c = JObj [(''provider'', JStr (sc_provider c)),
     (''network_mode'', JStr (sc_network c)), (''image'', opt_json (sc_image c)),
     (''cpu_limit'', JFloat (thousandths_text (sc_cpu c))), (''memory_mb'', JInt (sc_memory c)),
     (''pids_limit'', JInt (sc_pids c)), (''shm_mb'', JInt (sc_shm c)), (''tmpfs_mb'', JInt (sc_tmpfs c))]"

definition capabilities_json :: "sandbox_capabilities \<Rightarrow> json" where
  "capabilities_json c = JObj [(''provider'', JStr (sb_provider c)),
     (''security_level'', JStr (level_value (sb_level c))),
     (''isolation_enforced'', JBool (sb_isolation c)), (''executes_code'', JBool (sb_executes c)),
     (''supported_network_modes'', JArr (map JStr (sb_networks c))),
     (''supports_resource_limits'', JBool (sb_resource_limits c)),
     (''supports_recovery'', JBool (sb_recovery c)), (''supports_non_root'', JBool (sb_non_root c)),
     (''supports_read_only_root'', JBool (sb_read_only_root c)),
     (''supports_no_new_privileges'', JBool (sb_no_new_privileges c)),
     (''supports_capability_drop'', JBool (sb_capability_drop c))]"

section \<open>What a valid descriptor declares\<close>

lemma capabilities_isolation:
  "validate_capabilities c = Inr d \<Longrightarrow> sb_isolation c \<Longrightarrow> sb_level c \<noteq> UNSAFE_HOST"
  by (auto simp: validate_capabilities_def capability_coherence_def phase1_fake_def res_simps
      split: if_splits)

lemma capabilities_execution:
  "validate_capabilities c = Inr d \<Longrightarrow> sb_executes c = (sb_level c \<noteq> LevelFake)"
  by (cases "sb_level c") (auto simp: validate_capabilities_def capability_coherence_def
      phase1_fake_def res_simps split: if_splits)

lemma capabilities_isolated:
  "validate_capabilities c = Inr d \<Longrightarrow> sb_level c = ISOLATED \<Longrightarrow>
     sb_isolation c \<and> sb_non_root c \<and> sb_read_only_root c \<and> sb_no_new_privileges c
     \<and> sb_capability_drop c \<and> ''none'' \<in> set (sb_networks c)"
  by (auto simp: validate_capabilities_def capability_coherence_def phase1_fake_def res_simps
      split: if_splits)

end
