(* ===== verification/Run_Record.thy ===== *)
theory Run_Record
  imports Sandbox_Types
begin

text \<open>
  The record \<open>Run\<close> of \<open>domain/models.py\<close> with all its fields, the checkpoints it holds, and
  its constructor: the checks on the parent binding, the runtime selection and the sandbox selection,
  which also fills in the defaults of the fake sandbox. The lemmas show what a valid run promises about
  its sandbox and its parent.
\<close>

section \<open>Enumerations\<close>

datatype fake_scenario =
  FsSuccess | FsFail | FsRepair | FsApproval | FsInconclusive | FsVerifierMutation | FsDirect
| FsSingleEngineer | FsParallelEngineers | FsSpecialist

datatype verdict = VPass | VFail | VInconclusive

datatype artifact_kind =
  FLEET_CONFIG_PROPOSAL | FLEET_PATCH | FLEET_PATCH_DIFF | CONFIG_SNAPSHOT | TASK_SPEC
| IMPLEMENTATION_REPORT | SPECIALIST_REPORT | GRAPH_JOIN | PATCH | TEST_REPORT | VERIFIER_VERDICT
| RUN_SUMMARY | COMMAND_TRANSCRIPT | COMMAND_EVIDENCE_ARTIFACT | REPOSITORY_PROFILE | PROJECT_KNOWLEDGE
| FLEET_PLAN | EVIDENCE_BUNDLE | ERROR_REPORT | RUNTIME_USAGE | SANDBOX_INSPECTION
| RESOURCE_CLEANUP | BOOTSTRAP_REPORT | COS_RESPONSE

section \<open>Runs\<close>

record checkpoint =
  ck_agent :: string
  ck_workspace :: string
  ck_sandbox :: string
  ck_iteration :: int
  ck_created_at :: int

definition checkpoint_ok :: "checkpoint \<Rightarrow> bool" where
  "checkpoint_ok c \<longleftrightarrow> opaque_ok ''agent'' (ck_agent c) \<and> opaque_ok ''ws'' (ck_workspace c)
     \<and> opaque_ok ''sandbox'' (ck_sandbox c) \<and> 0 \<le> ck_iteration c \<and> ck_iteration c \<le> 5"

record verification_checkpoint = checkpoint +
  ck_patch_sha256 :: string
  ck_baseline :: string

record run =
  run_id :: string
  run_project :: string
  run_correlation :: string
  run_parent :: "string option"
  run_parent_plan :: "string option"
  run_parent_node :: "string option"
  run_parent_iteration :: "int option"
  run_goal :: string
  run_plan_review :: bool
  run_base_revision :: string
  run_target_fingerprint :: string
  run_runtime_name :: string
  run_provider_model :: "string option"
  run_credential :: "string option"
  run_bindings :: "string option"
  run_sandbox_name :: string
  run_configuration :: "sandbox_configuration option"
  run_configuration_hash :: "string option"
  run_requirements :: "sandbox_requirements option"
  run_capabilities :: "sandbox_capabilities option"
  run_capabilities_hash :: "string option"
  run_image :: "string option"
  run_daemon :: "string option"
  run_unsafe_confirmed :: bool
  run_scenario :: fake_scenario
  run_status :: run_status
  run_stage :: "workflow_stage option"
  run_task :: "string option"
  run_task_artifact :: "string option"
  run_task_hash :: "string option"
  run_config_artifact :: "string option"
  run_config_hash :: "string option"
  run_plan_artifact :: "string option"
  run_plan_hash :: "string option"
  run_strategy :: "string option"
  run_pending_approval :: "string option"
  run_max_repairs :: int
  run_repairs :: int
  run_patch_artifact :: "string option"
  run_patch_hash :: "string option"
  run_command_evidence :: "string list"
  run_usage_artifacts :: "string list"
  run_verifier_agent :: "string option"
  run_engineer_checkpoint :: "checkpoint option"
  run_specialist_checkpoint :: "checkpoint option"
  run_verification_checkpoint :: "verification_checkpoint option"
  run_verdict_artifact :: "string option"
  run_evidence_artifact :: "string option"
  run_evidence_hash :: "string option"
  run_cleanup_artifact :: "string option"
  run_cleanup_hash :: "string option"
  run_assurance :: "verdict option"
  run_verified :: bool
  run_workspace_mutated :: bool
  run_applied_revision :: "string option"
  run_created_at :: int
  run_updated_at :: int

text \<open>The constructor with only the fields that have no default.\<close>

definition new_run :: "string \<Rightarrow> string \<Rightarrow> string \<Rightarrow> string \<Rightarrow> string \<Rightarrow> string \<Rightarrow> int \<Rightarrow> run" where
  "new_run rid project correlation g base target now = \<lparr>run_id = rid, run_project = project,
     run_correlation = correlation, run_parent = None, run_parent_plan = None, run_parent_node = None,
     run_parent_iteration = None, run_goal = g, run_plan_review = False, run_base_revision = base,
     run_target_fingerprint = target, run_runtime_name = ''fake'', run_provider_model = None,
     run_credential = None, run_bindings = None, run_sandbox_name = ''fake'', run_configuration = None,
     run_configuration_hash = None, run_requirements = None, run_capabilities = None,
     run_capabilities_hash = None, run_image = None, run_daemon = None, run_unsafe_confirmed = False,
     run_scenario = FsSuccess, run_status = CREATED, run_stage = None, run_task = None,
     run_task_artifact = None, run_task_hash = None, run_config_artifact = None, run_config_hash = None,
     run_plan_artifact = None, run_plan_hash = None, run_strategy = None, run_pending_approval = None,
     run_max_repairs = 1, run_repairs = 0, run_patch_artifact = None, run_patch_hash = None,
     run_command_evidence = [], run_usage_artifacts = [], run_verifier_agent = None,
     run_engineer_checkpoint = None, run_specialist_checkpoint = None,
     run_verification_checkpoint = None, run_verdict_artifact = None, run_evidence_artifact = None,
     run_evidence_hash = None, run_cleanup_artifact = None, run_cleanup_hash = None,
     run_assurance = None, run_verified = False, run_workspace_mutated = False,
     run_applied_revision = None, run_created_at = now, run_updated_at = now\<rparr>"

lemma new_run_simps [simp]:
  "run_id (new_run i p c g b f n) = i"
  "run_project (new_run i p c g b f n) = p"
  "run_correlation (new_run i p c g b f n) = c"
  "run_parent (new_run i p c g b f n) = None"
  "run_parent_plan (new_run i p c g b f n) = None"
  "run_parent_node (new_run i p c g b f n) = None"
  "run_parent_iteration (new_run i p c g b f n) = None"
  "run_goal (new_run i p c g b f n) = g"
  "run_plan_review (new_run i p c g b f n) = False"
  "run_base_revision (new_run i p c g b f n) = b"
  "run_target_fingerprint (new_run i p c g b f n) = f"
  "run_runtime_name (new_run i p c g b f n) = ''fake''"
  "run_provider_model (new_run i p c g b f n) = None"
  "run_credential (new_run i p c g b f n) = None"
  "run_bindings (new_run i p c g b f n) = None"
  "run_sandbox_name (new_run i p c g b f n) = ''fake''"
  "run_configuration (new_run i p c g b f n) = None"
  "run_configuration_hash (new_run i p c g b f n) = None"
  "run_requirements (new_run i p c g b f n) = None"
  "run_capabilities (new_run i p c g b f n) = None"
  "run_capabilities_hash (new_run i p c g b f n) = None"
  "run_image (new_run i p c g b f n) = None"
  "run_daemon (new_run i p c g b f n) = None"
  "run_unsafe_confirmed (new_run i p c g b f n) = False"
  "run_scenario (new_run i p c g b f n) = FsSuccess"
  "run_status (new_run i p c g b f n) = CREATED"
  "run_stage (new_run i p c g b f n) = None"
  "run_task (new_run i p c g b f n) = None"
  "run_task_artifact (new_run i p c g b f n) = None"
  "run_task_hash (new_run i p c g b f n) = None"
  "run_config_artifact (new_run i p c g b f n) = None"
  "run_config_hash (new_run i p c g b f n) = None"
  "run_plan_artifact (new_run i p c g b f n) = None"
  "run_plan_hash (new_run i p c g b f n) = None"
  "run_strategy (new_run i p c g b f n) = None"
  "run_pending_approval (new_run i p c g b f n) = None"
  "run_max_repairs (new_run i p c g b f n) = 1"
  "run_repairs (new_run i p c g b f n) = 0"
  "run_patch_artifact (new_run i p c g b f n) = None"
  "run_patch_hash (new_run i p c g b f n) = None"
  "run_command_evidence (new_run i p c g b f n) = []"
  "run_usage_artifacts (new_run i p c g b f n) = []"
  "run_verifier_agent (new_run i p c g b f n) = None"
  "run_engineer_checkpoint (new_run i p c g b f n) = None"
  "run_specialist_checkpoint (new_run i p c g b f n) = None"
  "run_verification_checkpoint (new_run i p c g b f n) = None"
  "run_verdict_artifact (new_run i p c g b f n) = None"
  "run_evidence_artifact (new_run i p c g b f n) = None"
  "run_evidence_hash (new_run i p c g b f n) = None"
  "run_cleanup_artifact (new_run i p c g b f n) = None"
  "run_cleanup_hash (new_run i p c g b f n) = None"
  "run_assurance (new_run i p c g b f n) = None"
  "run_verified (new_run i p c g b f n) = False"
  "run_workspace_mutated (new_run i p c g b f n) = False"
  "run_applied_revision (new_run i p c g b f n) = None"
  "run_created_at (new_run i p c g b f n) = n"
  "run_updated_at (new_run i p c g b f n) = n"
  by (simp_all add: new_run_def)

section \<open>The checks of the constructor\<close>

definition opt_all :: "('a \<Rightarrow> bool) \<Rightarrow> 'a option \<Rightarrow> bool" where
  "opt_all p x = (case x of None \<Rightarrow> True | Some v \<Rightarrow> p v)"

lemma opt_all_simps [simp]: "opt_all p None" "opt_all p (Some v) = p v"
  by (simp_all add: opt_all_def)

definition credential_ok :: "string \<Rightarrow> bool" where
  "credential_ok s \<longleftrightarrow> starts_with ''env:'' s \<and> length s \<le> 132 \<and> (case drop 4 s of [] \<Rightarrow> False
     | c # cs \<Rightarrow> (is_lower c \<or> is_upper c \<or> c = CHR ''_'')
         \<and> list_all (\<lambda>d. is_alnum d \<or> d = CHR ''_'') cs)"

definition image_identity_ok :: "string \<Rightarrow> bool" where
  "image_identity_ok s \<longleftrightarrow> starts_with ''sha256:'' s \<and> sha256_ok (drop 7 s)"

definition model_prefix :: "string \<Rightarrow> string" where
  "model_prefix s = takeWhile (\<lambda>c. c \<noteq> CHR '':'') s"

definition model_tail_ok :: "string \<Rightarrow> bool" where
  "model_tail_ok s \<longleftrightarrow> (case s of [] \<Rightarrow> False
     | c # cs \<Rightarrow> is_alnum c \<and> list_all (\<lambda>d. is_alnum d \<or> d \<in> set ''._:/-'') cs)"

definition provider_model_id :: "string \<Rightarrow> bool" where
  "provider_model_id s \<longleftrightarrow> length s \<le> 200 \<and> model_tail_ok s"

text \<open>\<open>_validate_runtime_selection\<close>: \<open>partition(":")\<close> needs a separator, a non-empty model
  and a canonical provider.\<close>

definition runtime_selection_ok :: "string \<Rightarrow> string option \<Rightarrow> string option \<Rightarrow> bool" where
  "runtime_selection_ok runtime model credential \<longleftrightarrow>
     opt_all (\<lambda>m. length (model_prefix m) + 1 < length m \<and> ident_ok 200 ''-'' (model_prefix m)) model
     \<and> \<not> (runtime = ''fake'' \<and> (model \<noteq> None \<or> credential \<noteq> None))
     \<and> \<not> (runtime \<in> {''pydantic-ai'', ''openai-agents'', ''langgraph''}
          \<and> (model = None \<or> credential = None))"

definition run_identifiers_ok :: "run \<Rightarrow> bool" where
  "run_identifiers_ok r \<longleftrightarrow> opaque_ok ''run'' (run_id r) \<and> opaque_ok ''prj'' (run_project r)
     \<and> opaque_ok ''corr'' (run_correlation r) \<and> opt_all (opaque_ok ''run'') (run_parent r)
     \<and> opt_all sha256_ok (run_parent_plan r) \<and> opt_all node_id_ok (run_parent_node r)
     \<and> opt_all (\<lambda>i. 0 \<le> i \<and> i \<le> 5) (run_parent_iteration r) \<and> sha256_ok (run_target_fingerprint r)
     \<and> opt_all (opaque_ok ''task'') (run_task r) \<and> opt_all (opaque_ok ''perm'') (run_pending_approval r)
     \<and> opt_all (opaque_ok ''agent'') (run_verifier_agent r)
     \<and> list_all (opt_all (opaque_ok ''art'')) [run_task_artifact r, run_config_artifact r,
         run_plan_artifact r, run_patch_artifact r, run_verdict_artifact r, run_evidence_artifact r,
         run_cleanup_artifact r]
     \<and> list_all (opt_all sha256_ok) [run_task_hash r, run_config_hash r, run_plan_hash r,
         run_patch_hash r, run_evidence_hash r, run_cleanup_hash r, run_bindings r,
         run_configuration_hash r, run_capabilities_hash r, run_daemon r]
     \<and> list_all (opaque_ok ''art'') (run_command_evidence r @ run_usage_artifacts r)"

definition run_fields_ok :: "run \<Rightarrow> bool" where
  "run_fields_ok r \<longleftrightarrow> run_identifiers_ok r \<and> ident_ok 64 ''-'' (run_runtime_name r)
     \<and> opt_all provider_model_id (run_provider_model r) \<and> opt_all credential_ok (run_credential r)
     \<and> run_sandbox_name r \<in> set sandbox_names \<and> opt_all image_identity_ok (run_image r)
     \<and> 0 \<le> run_max_repairs r \<and> run_max_repairs r \<le> 5 \<and> 0 \<le> run_repairs r \<and> run_repairs r \<le> 5
     \<and> opt_all checkpoint_ok (run_engineer_checkpoint r) \<and> opt_all checkpoint_ok (run_specialist_checkpoint r)
     \<and> opt_all (\<lambda>c. checkpoint_ok (checkpoint.truncate c) \<and> sha256_ok (ck_patch_sha256 c)
          \<and> sha256_ok (ck_baseline c)) (run_verification_checkpoint r)
     \<and> opt_all (\<lambda>c. validate_configuration c = Inr c) (run_configuration r)
     \<and> opt_all (\<lambda>q. sq_network q \<in> set network_modes) (run_requirements r)
     \<and> opt_all (\<lambda>c. validate_capabilities c = Inr c) (run_capabilities r)
     \<and> length (run_usage_artifacts r) \<le> 256 \<and> distinct (run_usage_artifacts r)"

definition parent_binding_ok :: "run \<Rightarrow> bool" where
  "parent_binding_ok r \<longleftrightarrow>
     \<not> ((run_parent r \<noteq> None \<or> run_parent_plan r \<noteq> None \<or> run_parent_node r \<noteq> None
           \<or> run_parent_iteration r \<noteq> None)
        \<and> \<not> (run_parent r \<noteq> None \<and> run_parent_plan r \<noteq> None \<and> run_parent_node r \<noteq> None
           \<and> run_parent_iteration r \<noteq> None))
     \<and> run_parent r \<noteq> Some (run_id r)"

text \<open>A hash that is missing is filled in, a hash that is present must be that of the value.\<close>

definition bind_hash :: "string option \<Rightarrow> string \<Rightarrow> string res" where
  "bind_hash stored computed = (case stored of None \<Rightarrow> Inr computed
     | Some h \<Rightarrow> bind_res (require (h = computed) ValueError) (\<lambda>_. Inr computed))"

definition default_or :: "bool \<Rightarrow> 'a \<Rightarrow> 'a option \<Rightarrow> 'a res" where
  "default_or fake d x = (case x of Some v \<Rightarrow> Inr v
     | None \<Rightarrow> bind_res (require fake ValueError) (\<lambda>_. Inr d))"

definition validate_run :: "(string \<Rightarrow> string) \<Rightarrow> run \<Rightarrow> run res" where
  "validate_run sha r =
     bind_res (require (run_fields_ok r) ValueError) (\<lambda>_.
     bind_res (require (parent_binding_ok r) ValueError) (\<lambda>_.
     bind_res (require (runtime_selection_ok (run_runtime_name r) (run_provider_model r)
         (run_credential r)) ValueError) (\<lambda>_.
     let fake = (run_sandbox_name r = ''fake'') in
     bind_res (default_or fake default_configuration (run_configuration r)) (\<lambda>c.
     bind_res (require (sc_provider c = run_sandbox_name r) ValueError) (\<lambda>_.
     bind_res (bind_hash (run_configuration_hash r)
         (canonical_json_hash sha (configuration_json c))) (\<lambda>ch.
     bind_res (default_or fake default_requirements (run_requirements r)) (\<lambda>q.
     bind_res (default_or fake phase1_fake (run_capabilities r)) (\<lambda>b.
     bind_res (require (sb_provider b = run_sandbox_name r) ValueError) (\<lambda>_.
     bind_res (bind_hash (run_capabilities_hash r)
         (canonical_json_hash sha (capabilities_json b))) (\<lambda>bh.
     bind_res (require (\<not> (run_sandbox_name r = ''docker''
         \<and> (run_image r = None \<or> run_daemon r = None))) ValueError) (\<lambda>_.
     bind_res (require (\<not> (run_sandbox_name r \<noteq> ''docker''
         \<and> (run_image r \<noteq> None \<or> run_daemon r \<noteq> None))) ValueError) (\<lambda>_.
     bind_res (require ((run_cleanup_artifact r = None) = (run_cleanup_hash r = None)) ValueError) (\<lambda>_.
     Inr (r\<lparr>run_configuration := Some c, run_configuration_hash := Some ch, run_requirements := Some q,
       run_capabilities := Some b, run_capabilities_hash := Some bh\<rparr>))))))))))))))"

end
