(* ===== verification/Database.thy ===== *)
theory Database
  imports Workflow_Policy Run_Record
begin

text \<open>
  The part of the SQLite database that every store reads: runs, tasks, agent instances and the event
  journal of \<open>adapters/persistence/sqlite.py\<close>. A row is its indexed columns together with the
  decoded \<open>data_json\<close> record, because the code compares the two whenever it reads a row back.
  Stores extend the record \<open>database\<close> with their own tables.

  What a transaction takes from outside is the record \<open>effects\<close>: the successive readings of the
  clock and of the identifier generator, the redactor and the hash function.
\<close>

section \<open>Records\<close>

record agent_instance =
  agent_id :: string
  agent_run :: string
  agent_task :: "string option"
  agent_role :: string
  agent_kind :: "agent_role option"
  agent_status :: agent_status
  agent_iteration :: int
  agent_created_at :: int
  agent_completed_at :: "int option"

record fleet_event =
  event_id :: string
  event_type :: string
  event_occurred_at :: int
  event_project :: string
  event_run :: "string option"
  event_task :: "string option"
  event_agent :: "string option"
  event_correlation :: string
  event_sequence :: "int option"
  event_payload :: json
  event_redactions :: "string list"

record run_row =
  rr_id :: string
  rr_project :: string
  rr_status :: run_status
  rr_stage :: "workflow_stage option"
  rr_data :: run

record task_row =
  tr_id :: string
  tr_run :: string
  tr_data :: task_spec

record agent_row =
  ar_id :: string
  ar_run :: string
  ar_task :: "string option"
  ar_role :: string
  ar_data :: agent_instance

record event_row =
  er_id :: string
  er_project :: string
  er_run :: "string option"
  er_sequence :: int
  er_type :: string
  er_occurred_at :: int
  er_data :: fleet_event

record database =
  db_runs :: "run_row list"
  db_tasks :: "task_row list"
  db_agents :: "agent_row list"
  db_events :: "event_row list"

record effects =
  clk :: "nat \<Rightarrow> int"
  new_id :: "nat \<Rightarrow> string"
  redact :: "json \<Rightarrow> json \<times> string list"
  tainted :: "json \<Rightarrow> bool"
  sha256 :: "string \<Rightarrow> string"

definition not_found :: exn where
  "not_found = FleetError RESOURCE_NOT_FOUND"

definition opt_str :: "string option \<Rightarrow> json" where
  "opt_str x = (case x of None \<Rightarrow> JNull | Some s \<Rightarrow> JStr s)"

section \<open>Runs\<close>

definition find_run :: "'a database_scheme \<Rightarrow> string \<Rightarrow> run_row option" where
  "find_run db rid = row_lookup rr_id rid (db_runs db)"

definition get_run :: "'a database_scheme \<Rightarrow> string \<Rightarrow> run res" where
  "get_run db rid = bind_res (some_or not_found (find_run db rid)) (\<lambda>r. Inr (rr_data r))"

text \<open>The columns agree with the decoded record.\<close>

definition run_row_ok :: "run_row \<Rightarrow> bool" where
  "run_row_ok r \<longleftrightarrow> run_id (rr_data r) = rr_id r \<and> run_project (rr_data r) = rr_project r
     \<and> run_status (rr_data r) = rr_status r \<and> run_stage (rr_data r) = rr_stage r"

definition update_run :: "run \<Rightarrow> 'a database_scheme \<Rightarrow> 'a database_scheme" where
  "update_run r db = db\<lparr>db_runs := row_update rr_id (run_id r)
     (\<lambda>row. row\<lparr>rr_status := run_status r, rr_stage := run_stage r, rr_data := r\<rparr>) (db_runs db)\<rparr>"

definition find_task :: "'a database_scheme \<Rightarrow> string \<Rightarrow> task_row option" where
  "find_task db tid = row_lookup tr_id tid (db_tasks db)"

definition find_agent :: "'a database_scheme \<Rightarrow> string \<Rightarrow> agent_row option" where
  "find_agent db aid = row_lookup ar_id aid (db_agents db)"

section \<open>The event journal\<close>

text \<open>\<open>COALESCE(MAX(sequence), 0)\<close> over the rows of one journal.\<close>

definition max_sequence :: "event_row list \<Rightarrow> int" where
  "max_sequence rows = fold (\<lambda>e m. max (er_sequence e) m) rows 0"

definition journal :: "string option \<Rightarrow> string \<Rightarrow> event_row list \<Rightarrow> event_row list" where
  "journal rid project rows = filter (\<lambda>e. er_run e = rid \<and> (rid = None \<longrightarrow> er_project e = project)) rows"

definition event_row_of :: "fleet_event \<Rightarrow> int \<Rightarrow> event_row" where
  "event_row_of e sq = \<lparr>er_id = event_id e, er_project = event_project e, er_run = event_run e,
     er_sequence = sq, er_type = event_type e, er_occurred_at = event_occurred_at e,
     er_data = e\<lparr>event_sequence := Some sq\<rparr>\<rparr>"

definition append_row :: "fleet_event \<Rightarrow> 'a database_scheme \<Rightarrow> 'a database_scheme res" where
  "append_row e db =
     (let sq = max_sequence (journal (event_run e) (event_project e) (db_events db)) + 1 in
      bind_res (row_insert er_id (event_row_of e sq) (db_events db)) (\<lambda>rows.
      Inr (db\<lparr>db_events := rows\<rparr>)))"

text \<open>\<open>sorted(set(...))\<close> of a list of strings.\<close>

definition sort_strings :: "string list \<Rightarrow> string list" where
  "sort_strings xs = map fst (sort_by_key (map (\<lambda>x. (x, ())) (remdups xs)))"

definition insert_event ::
    "effects \<Rightarrow> fleet_event \<Rightarrow> 'a database_scheme \<Rightarrow> 'a database_scheme res" where
  "insert_event fx e db =
     (case redact fx (event_payload e) of (cleaned, summary) \<Rightarrow>
        append_row (e\<lparr>event_payload := cleaned,
          event_redactions := sort_strings (event_redactions e @ summary)\<rparr>) db)"

text \<open>
  \<open>_event_for_run\<close> and \<open>_event_for_intent\<close>; the index says which reading of the clock and
  of the identifier generator the event takes.
\<close>

definition event_for_run ::
    "effects \<Rightarrow> nat \<Rightarrow> run \<Rightarrow> string \<Rightarrow> json \<Rightarrow> string option \<Rightarrow> fleet_event" where
  "event_for_run fx i r etype payload tid =
     (case redact fx payload of (cleaned, summary) \<Rightarrow>
       \<lparr>event_id = new_id fx i, event_type = etype, event_occurred_at = clk fx i,
        event_project = run_project r, event_run = Some (run_id r),
        event_task = (case tid of Some t \<Rightarrow> Some t | None \<Rightarrow> run_task r), event_agent = None,
        event_correlation = run_correlation r, event_sequence = None,
        event_payload = cleaned, event_redactions = summary\<rparr>)"

definition record_event ::
    "effects \<Rightarrow> nat \<Rightarrow> run \<Rightarrow> string \<Rightarrow> json \<Rightarrow> 'a database_scheme \<Rightarrow> 'a database_scheme res" where
  "record_event fx i r etype payload db = insert_event fx (event_for_run fx i r etype payload None) db"

definition list_events :: "'a database_scheme \<Rightarrow> string \<Rightarrow> fleet_event list" where
  "list_events db rid = map er_data (sort_key er_sequence (filter (\<lambda>e. er_run e = Some rid) (db_events db)))"

section \<open>The journal has no gaps\<close>

definition journal_ok :: "'a database_scheme \<Rightarrow> bool" where
  "journal_ok db \<longleftrightarrow> distinct (map er_id (db_events db)) \<and>
     (\<forall>rid project. map er_sequence (journal rid project (db_events db)) =
        [1..int (length (journal rid project (db_events db)))])"

lemma max_sequence_snoc: "max_sequence (rows @ [e]) = max (er_sequence e) (max_sequence rows)"
  by (simp add: max_sequence_def)

lemma max_sequence_upto:
  "map er_sequence rows = [1..int (length rows)] \<Longrightarrow> max_sequence rows = int (length rows)"
proof (induction rows rule: rev_induct)
  case (snoc e rows)
  have "map er_sequence rows @ [er_sequence e] = [1..int (length rows)] @ [int (length rows) + 1]"
    using snoc.prems by (simp add: upto_rec2 algebra_simps)
  with snoc.IH show ?case by (simp add: max_sequence_snoc)
qed (simp add: max_sequence_def)

lemma journal_append:
  "journal rid p (rows @ [e]) = journal rid p rows @
     (if er_run e = rid \<and> (rid = None \<longrightarrow> er_project e = p) then [e] else [])"
  by (simp add: journal_def)

text \<open>An event operation appends one row with a fresh identifier and leaves the other tables alone.\<close>

definition appended :: "event_row \<Rightarrow> 'a database_scheme \<Rightarrow> 'a database_scheme" where
  "appended row db = db\<lparr>db_events := db_events db @ [row]\<rparr>"

lemma append_row_Inr:
  "append_row e db = Inr db' \<Longrightarrow>
     \<exists>row. db' = appended row db \<and> er_id row \<notin> er_id ` set (db_events db) \<and> er_type row = event_type e \<and>
       row = event_row_of e (max_sequence (journal (event_run e) (event_project e) (db_events db)) + 1)"
  by (auto simp: append_row_def appended_def res_simps Let_def event_row_of_def)

lemma append_row_journal_ok:
  assumes "journal_ok db" and "append_row e db = Inr db'"
  shows "journal_ok db'"
proof -
  obtain row where row: "db' = appended row db" "er_id row \<notin> er_id ` set (db_events db)"
    "row = event_row_of e (max_sequence (journal (event_run e) (event_project e) (db_events db)) + 1)"
    using append_row_Inr [OF assms(2)] by blast
  have same: "journal rid p (db_events db) = journal (event_run e) (event_project e) (db_events db)"
    if "er_run row = rid" and "rid = None \<longrightarrow> er_project row = p" for rid p
    using that row(3) by (auto simp: journal_def event_row_of_def)
  have "er_sequence row = int (length (journal (event_run e) (event_project e) (db_events db))) + 1"
    using assms(1) row(3) by (simp add: journal_ok_def event_row_of_def max_sequence_upto)
  with assms(1) row(1,2) same show ?thesis
    by (auto simp: journal_ok_def appended_def journal_append upto_rec2 algebra_simps)
qed

lemma insert_event_row:
  "insert_event fx e db = Inr db' \<Longrightarrow> \<exists>e'. append_row e' db = Inr db' \<and> event_type e' = event_type e"
  by (cases "redact fx (event_payload e)")
    (simp add: insert_event_def, intro exI conjI, assumption, simp)

lemma insert_event_Inr:
  "insert_event fx e db = Inr db' \<Longrightarrow> \<exists>row. db' = appended row db \<and> er_type row = event_type e"
  by (drule insert_event_row, elim exE conjE, drule append_row_Inr) auto

lemma insert_event_journal_ok: "journal_ok db \<Longrightarrow> insert_event fx e db = Inr db' \<Longrightarrow> journal_ok db'"
  by (drule insert_event_row) (auto intro: append_row_journal_ok)

lemma record_event_Inr:
  "record_event fx i r t p db = Inr db' \<Longrightarrow> \<exists>row. db' = appended row db"
  by (auto simp: record_event_def dest: insert_event_Inr)

lemma record_event_journal_ok: "journal_ok db \<Longrightarrow> record_event fx i r t p db = Inr db' \<Longrightarrow> journal_ok db'"
  by (auto simp: record_event_def intro: insert_event_journal_ok)

lemma appended_simps [simp]:
  "db_runs (appended row db) = db_runs db"
  "db_tasks (appended row db) = db_tasks db"
  "db_agents (appended row db) = db_agents db"
  "database.more (appended row db) = database.more db"
  "find_run (appended row db) = find_run db"
  "find_task (appended row db) = find_task db"
  "find_agent (appended row db) = find_agent db"
  by (simp_all add: appended_def find_run_def find_task_def find_agent_def fun_eq_iff)

lemma update_run_simps [simp]:
  "db_events (update_run r db) = db_events db"
  "db_tasks (update_run r db) = db_tasks db"
  "db_agents (update_run r db) = db_agents db"
  "database.more (update_run r db) = database.more db"
  by (simp_all add: update_run_def)

lemma journal_ok_update_run [simp]: "journal_ok (update_run r db) = journal_ok db"
  by (simp add: journal_ok_def)

lemma journal_ok_more [simp]: "journal_ok (database.more_update f db) = journal_ok db"
  by (simp add: journal_ok_def)

lemma list_events_sequences:
  assumes "journal_ok db"
  shows "map er_sequence (filter (\<lambda>e. er_run e = Some rid) (db_events db)) =
     [1..int (length (filter (\<lambda>e. er_run e = Some rid) (db_events db)))]"
  using assms by (auto simp: journal_ok_def journal_def dest: spec [of _ "Some rid"])

end
