(* ===== verification/Runtime_Budgets.thy ===== *)
theory Runtime_Budgets
  imports Complex_Main Database
begin

text \<open>
  The runtime ledger: the records of \<open>domain/budgets.py\<close> and the transactions of
  \<open>adapters/persistence/runtime_budgets.py\<close>. The ledger is the database with the six accounting
  tables. Every operation takes what it uses from outside as \<open>budget_env\<close>: clock, identifiers and
  redactor, the verdict of the redactor and the size bound on a stored text, the admission of the
  evaluation campaign a run belongs to, the runtime names that model bindings assign, and the check of
  a child run against the graph of its parent, and the texts of decimals and timestamps in events.

  Active time is counted in microseconds. A decimal cost is a rational number.
\<close>

section \<open>Records (\<open>domain/budgets.py\<close>)\<close>

record budget_limits =
  max_agent_invocations :: int
  max_model_requests :: int
  max_tool_calls :: int
  max_total_tokens :: int
  max_active_seconds :: int

definition limits_ok :: "budget_limits \<Rightarrow> bool" where
  "limits_ok l \<longleftrightarrow> 1 \<le> max_agent_invocations l \<and> max_agent_invocations l \<le> 10000
     \<and> 1 \<le> max_model_requests l \<and> max_model_requests l \<le> 100000
     \<and> 0 \<le> max_tool_calls l \<and> max_tool_calls l \<le> 100000
     \<and> 1 \<le> max_total_tokens l \<and> max_total_tokens l \<le> 100000000
     \<and> 1 \<le> max_active_seconds l \<and> max_active_seconds l \<le> 86400"

datatype attempt_status = AtRunning | AtCompleted | AtPaused | AtFailed | AtCancelled

primrec attempt_status_value :: "attempt_status \<Rightarrow> string" where
  "attempt_status_value AtRunning = ''running''"
| "attempt_status_value AtCompleted = ''completed''"
| "attempt_status_value AtPaused = ''paused''"
| "attempt_status_value AtFailed = ''failed''"
| "attempt_status_value AtCancelled = ''cancelled''"

record runtime_attempt =
  at_id :: string
  at_owner :: string
  at_run :: string
  at_agent :: string
  at_task :: string
  at_role :: string
  at_stage :: workflow_stage
  at_iteration :: int
  at_max_steps :: int
  at_runtime :: string
  at_status :: attempt_status
  at_started :: int
  at_finished :: "int option"
  at_error :: "error_code option"

definition attempt_valid :: "runtime_attempt \<Rightarrow> bool" where
  "attempt_valid a \<longleftrightarrow> opaque_ok ''corr'' (at_id a) \<and> 0 \<le> at_iteration a \<and> at_iteration a \<le> 100
     \<and> 1 \<le> at_max_steps a \<and> at_max_steps a \<le> 100
     \<and> (at_status a = AtRunning) = (at_finished a = None)
     \<and> (case at_finished a of None \<Rightarrow> True | Some f \<Rightarrow> at_started a \<le> f)"

record reservation =
  rs_attempt :: string
  rs_sequence :: int
  rs_allowance :: int
  rs_requested :: int
  rs_reserved_at :: int

definition reservation_valid :: "reservation \<Rightarrow> bool" where
  "reservation_valid r \<longleftrightarrow> opaque_ok ''corr'' (rs_attempt r)
     \<and> 1 \<le> rs_sequence r \<and> rs_sequence r \<le> 100000
     \<and> 1 \<le> rs_allowance r \<and> rs_allowance r \<le> 100000000
     \<and> 1 \<le> rs_requested r \<and> rs_requested r \<le> 100000000"

record usage =
  us_requests :: "int option"
  us_input :: "int option"
  us_output :: "int option"
  us_total :: "int option"
  us_tool_calls :: "int option"
  us_cost :: "rat option"
  us_currency :: "string option"

definition opt_range :: "int \<Rightarrow> int option \<Rightarrow> bool" where
  "opt_range hi x = (case x of None \<Rightarrow> True | Some n \<Rightarrow> 0 \<le> n \<and> n \<le> hi)"

text \<open>\<open>UsageRecord\<close> of \<open>domain/models.py\<close>.\<close>

definition usage_valid :: "usage \<Rightarrow> bool" where
  "usage_valid u \<longleftrightarrow> opt_range 1000000 (us_requests u) \<and> opt_range 2000000000 (us_input u)
     \<and> opt_range 2000000000 (us_output u) \<and> opt_range 4000000000 (us_total u)
     \<and> opt_range 1000000 (us_tool_calls u)
     \<and> (case us_cost u of None \<Rightarrow> True | Some c \<Rightarrow> 0 \<le> c \<and> c \<le> 1000000)
     \<and> (case us_currency u of None \<Rightarrow> True | Some s \<Rightarrow> length s = 3 \<and> list_all is_upper s)
     \<and> \<not> (us_requests u = None \<and> us_input u = None \<and> us_output u = None \<and> us_total u = None
          \<and> us_tool_calls u = None \<and> us_cost u = None \<and> us_currency u = None)
     \<and> (us_cost u = None) = (us_currency u = None)
     \<and> (case (us_total u, us_input u, us_output u) of
          (Some t, Some i, Some out) \<Rightarrow> i + out \<le> t | _ \<Rightarrow> True)"

datatype outcome = OReserved | OReported | OUnknown

record accounting =
  ac_reservation :: reservation
  ac_outcome :: outcome
  ac_usage :: "usage option"

definition accounting_valid :: "accounting \<Rightarrow> bool" where
  "accounting_valid a \<longleftrightarrow> \<not> (ac_outcome a = OReserved \<and> ac_usage a \<noteq> None)
     \<and> \<not> (ac_outcome a = OReported
          \<and> (case ac_usage a of None \<Rightarrow> True | Some u \<Rightarrow> us_total u = None))"

datatype completeness = Complete | LegacyUnknown | UnknownRequests

record snapshot =
  sn_run :: string
  sn_owner :: "string option"
  sn_limits :: "budget_limits option"
  sn_completeness :: completeness
  sn_invocations :: int
  sn_requests :: int
  sn_simulated :: int
  sn_tools :: int
  sn_input :: int
  sn_output :: int
  sn_total :: int
  sn_reserved :: int
  sn_unknown :: int
  sn_outstanding :: int
  sn_unknown_requests :: int
  sn_active :: int
  sn_costs :: "(string \<times> rat) list"
  sn_exhausted :: bool

text \<open>The fields of \<open>AgentInvocation\<close> the ledger reads.\<close>

record invocation =
  inv_run :: string
  inv_task :: string
  inv_agent :: string
  inv_role :: string
  inv_stage :: workflow_stage
  inv_iteration :: int
  inv_max_steps :: int

section \<open>The ledger\<close>

record attempt_row =
  atr_id :: string
  atr_owner :: string
  atr_run :: string
  atr_agent :: string
  atr_status :: attempt_status
  atr_data :: runtime_attempt

record request_row =
  rq_attempt :: string
  rq_sequence :: int
  rq_data :: accounting

record batch_row =
  tb_attempt :: string
  tb_sequence :: int
  tb_digest :: string
  tb_calls :: int

record ledger = database +
  bl_owners :: "(string \<times> budget_limits) list"
  bl_runs :: "(string \<times> string) list"
  bl_attempts :: "attempt_row list"
  bl_requests :: "request_row list"
  bl_batches :: "batch_row list"
  bl_simulated :: "string list"

text \<open>The stored texts the redactor and the size bound are asked about.\<close>

datatype stored_text =
    TRun run
  | TAgent agent_instance
  | TTask task_spec
  | TLimits budget_limits
  | TEvent fleet_event
  | TAttempt runtime_attempt
  | TAccounting accounting
  | TUsage usage
  | TInvocation invocation
  | TTexts "string list"

record budget_env = effects +
  unfit :: "stored_text \<Rightarrow> bool"
  admission :: "string \<Rightarrow> unit res"
  role_runtime :: "string \<Rightarrow> string \<Rightarrow> (string \<times> (string \<times> string) list) option"
  graph_parent :: "run \<Rightarrow> string \<Rightarrow> bool"
  cost_text :: "rat \<Rightarrow> string"
  time_text :: "int \<Rightarrow> string"

definition invalid :: exn where
  "invalid = FleetError RECOVERY_REQUIRED"

definition exhausted :: exn where
  "exhausted = FleetError RUNTIME_BUDGET_EXCEEDED"

text \<open>
  \<open>_transaction\<close> and \<open>_safe_boundary\<close>: a database error is reported as unavailable state,
  a validation error as inconsistent accounting.
\<close>

definition boundary :: "'a res \<Rightarrow> 'a res" where
  "boundary m = (case m of
     Inl IntegrityError \<Rightarrow> Inl (FleetError STATE_UNAVAILABLE)
   | Inl ValueError \<Rightarrow> Inl invalid
   | Inl KeyError \<Rightarrow> Inl invalid
   | _ \<Rightarrow> m)"

section \<open>Reading trusted rows\<close>

definition clean :: "budget_env \<Rightarrow> stored_text \<Rightarrow> unit res" where
  "clean env t = require (\<not> unfit env t) invalid"

definition the_run :: "budget_env \<Rightarrow> 'a database_scheme \<Rightarrow> string \<Rightarrow> run res" where
  "the_run env db rid =
     bind_res (some_or invalid (find_run db rid)) (\<lambda>row.
     bind_res (clean env (TRun (rr_data row))) (\<lambda>_.
     bind_res (require (run_id (rr_data row) = rid \<and> run_row_ok row) invalid) (\<lambda>_.
     Inr (rr_data row))))"

definition the_agent :: "budget_env \<Rightarrow> 'a database_scheme \<Rightarrow> string \<Rightarrow> agent_instance res" where
  "the_agent env db aid =
     bind_res (some_or invalid (find_agent db aid)) (\<lambda>row.
     let agent = ar_data row in
     bind_res (clean env (TAgent agent)) (\<lambda>_.
     bind_res (require (\<not> (agent_id agent \<noteq> aid \<or> agent_run agent \<noteq> ar_run row
         \<or> agent_task agent \<noteq> ar_task row \<or> agent_role agent \<noteq> ar_role row)) invalid) (\<lambda>_.
     Inr agent)))"

definition the_task :: "budget_env \<Rightarrow> 'a database_scheme \<Rightarrow> string \<Rightarrow> task_spec res" where
  "the_task env db tid =
     bind_res (some_or invalid (find_task db tid)) (\<lambda>row.
     let task = tr_data row in
     bind_res (clean env (TTask task)) (\<lambda>_.
     bind_res (require (\<not> (task_id task \<noteq> tid \<or> task_run_id task \<noteq> tr_run row)) invalid) (\<lambda>_.
     Inr task)))"

definition limits_json :: "budget_limits \<Rightarrow> json" where
  "limits_json l = JObj [(''max_agent_invocations'', JInt (max_agent_invocations l)),
     (''max_model_requests'', JInt (max_model_requests l)),
     (''max_tool_calls'', JInt (max_tool_calls l)),
     (''max_total_tokens'', JInt (max_total_tokens l)),
     (''max_active_seconds'', JInt (max_active_seconds l))]"

text \<open>The single \<open>runtime.budget_initialized\<close> event of a run binds its owner and limits.\<close>

definition budget_event_ok ::
    "run \<Rightarrow> string \<Rightarrow> budget_limits \<Rightarrow> event_row \<Rightarrow> bool" where
  "budget_event_ok r owner limits row \<longleftrightarrow> (let e = er_data row in
     \<not> (event_id e \<noteq> er_id row
        \<or> event_type e \<noteq> er_type row
        \<or> event_run e \<noteq> Some (run_id r)
        \<or> event_project e \<noteq> run_project r
        \<or> event_project e \<noteq> er_project row
        \<or> event_correlation e \<noteq> run_correlation r
        \<or> event_sequence e \<noteq> Some (er_sequence row)
        \<or> event_occurred_at e \<noteq> er_occurred_at row
        \<or> json_get ''owner_run_id'' (event_payload e) \<noteq> Some (JStr owner)
        \<or> (case json_get ''limits'' (event_payload e) of
             None \<Rightarrow> True | Some v \<Rightarrow> \<not> json_eq v (limits_json limits))))"

definition payload_parent :: "json \<Rightarrow> json" where
  "payload_parent p = (case json_get ''parent_run_id'' p of None \<Rightarrow> JNull | Some v \<Rightarrow> v)"

function owner_of ::
    "budget_env \<Rightarrow> 'a ledger_scheme \<Rightarrow> string list \<Rightarrow> string \<Rightarrow> (string \<times> budget_limits) option res" where
  "owner_of env db visited rid =
     (if rid \<in> set visited \<or> 64 \<le> length visited then Inl invalid else
      case map_of (bl_runs db) rid of
        None \<Rightarrow> Inr None
      | Some owner \<Rightarrow>
          bind_res (the_run env db rid) (\<lambda>r.
          bind_res (some_or invalid (map_of (bl_owners db) owner)) (\<lambda>limits.
          bind_res (the_run env db owner) (\<lambda>owner_run.
          bind_res (require (run_project owner_run = run_project r) invalid) (\<lambda>_.
          bind_res (clean env (TLimits limits)) (\<lambda>_.
          case filter (\<lambda>e. er_run e = Some rid \<and> er_type e = ''runtime.budget_initialized'') (db_events db) of
            [row] \<Rightarrow>
              bind_res (clean env (TEvent (er_data row))) (\<lambda>_.
              bind_res (require (budget_event_ok r owner limits row) invalid) (\<lambda>_.
              bind_res (require (payload_parent (event_payload (er_data row)) = opt_str (run_parent r)) invalid) (\<lambda>_.
              case run_parent r of
                None \<Rightarrow> bind_res (require (owner = rid) invalid) (\<lambda>_. Inr (Some (owner, limits)))
              | Some parent \<Rightarrow>
                  (case owner_of env db (rid # visited) parent of
                     Inl e \<Rightarrow> Inl e
                   | Inr inherited \<Rightarrow>
                       bind_res (require (inherited = Some (owner, limits)) invalid) (\<lambda>_.
                       bind_res (require (graph_parent env r parent) invalid) (\<lambda>_.
                       Inr (Some (owner, limits))))))))
          | _ \<Rightarrow> Inl invalid))))))"
  by pat_completeness auto
termination
  by (relation "measure (\<lambda>(env, db, visited, rid). 64 - length visited)") auto

declare owner_of.simps [simp del]

definition runtime_name_of :: "budget_env \<Rightarrow> 'a database_scheme \<Rightarrow> run \<Rightarrow> string \<Rightarrow> string res" where
  "runtime_name_of env db r role =
     bind_res (case run_parent r of
         Some p \<Rightarrow> if p = [] then Inr r else the_run env db p | None \<Rightarrow> Inr r) (\<lambda>root.
     bind_res (require (\<not> (run_parent root \<noteq> None \<or> run_project root \<noteq> run_project r
         \<or> run_bindings root \<noteq> run_bindings r)) invalid) (\<lambda>_.
     case run_bindings r of
       None \<Rightarrow> Inr (run_runtime_name r)
     | Some wanted \<Rightarrow> (case role_runtime env (run_project r) (run_id root) of
           None \<Rightarrow> Inl invalid
         | Some (bound, roles) \<Rightarrow> if bound \<noteq> wanted then Inl invalid
             else some_or invalid (map_of roles role))))"

definition find_attempt :: "'a ledger_scheme \<Rightarrow> string \<Rightarrow> attempt_row option" where
  "find_attempt db aid = row_lookup atr_id aid (bl_attempts db)"

definition attempt_row_ok :: "attempt_row \<Rightarrow> bool" where
  "attempt_row_ok row \<longleftrightarrow> (let a = atr_data row in
     at_id a = atr_id row \<and> at_owner a = atr_owner row \<and> at_run a = atr_run row
     \<and> at_agent a = atr_agent row \<and> at_status a = atr_status row)"

definition the_attempt :: "budget_env \<Rightarrow> 'a ledger_scheme \<Rightarrow> string \<Rightarrow> runtime_attempt res" where
  "the_attempt env db aid =
     bind_res (some_or invalid (find_attempt db aid)) (\<lambda>row.
     bind_res (clean env (TAttempt (atr_data row))) (\<lambda>_.
     bind_res (require (attempt_row_ok row) invalid) (\<lambda>_.
     let a = atr_data row in
     bind_res (owner_of env db [] (at_run a)) (\<lambda>owner.
     bind_res (require (map_option fst owner = Some (at_owner a)) invalid) (\<lambda>_.
     bind_res (the_run env db (at_run a)) (\<lambda>r.
     bind_res (runtime_name_of env db r (at_role a)) (\<lambda>name.
     bind_res (require (at_runtime a = name) invalid) (\<lambda>_. Inr a))))))))"

definition active_attempt :: "budget_env \<Rightarrow> 'a ledger_scheme \<Rightarrow> string \<Rightarrow> runtime_attempt res" where
  "active_attempt env db aid =
     bind_res (the_attempt env db aid) (\<lambda>a.
     bind_res (the_run env db (at_run a)) (\<lambda>r.
     bind_res (require (\<not> (at_status a \<noteq> AtRunning \<or> run_status r \<noteq> RUNNING
         \<or> run_stage r \<noteq> Some (at_stage a))) invalid) (\<lambda>_.
     bind_res (the_agent env db (at_agent a)) (\<lambda>agent.
     bind_res (require (\<not> (agent_status agent \<noteq> AgRunning
         \<or> agent_run agent \<noteq> at_run a
         \<or> agent_role agent \<noteq> at_role a
         \<or> agent_iteration agent \<noteq> at_iteration a
         \<or> agent_completed_at agent \<noteq> None
         \<or> (agent_task agent \<noteq> None \<and> agent_task agent \<noteq> Some (at_task a)))) invalid) (\<lambda>_.
     if at_role a \<noteq> ''cos'' then
       bind_res (the_task env db (at_task a)) (\<lambda>task.
       bind_res (require (\<not> (run_task r \<noteq> Some (task_id task) \<or> task_run_id task \<noteq> run_id r)) invalid) (\<lambda>_.
       Inr a))
     else Inr a)))))"

section \<open>Snapshots\<close>

definition owned_rows :: "'a ledger_scheme \<Rightarrow> string \<Rightarrow> attempt_row list" where
  "owned_rows db owner = filter (\<lambda>r. atr_owner r = owner) (bl_attempts db)"

definition owns :: "'a ledger_scheme \<Rightarrow> string \<Rightarrow> string \<Rightarrow> bool" where
  "owns db owner aid = list_ex (\<lambda>r. atr_id r = aid \<and> atr_owner r = owner) (bl_attempts db)"

definition owned_requests :: "'a ledger_scheme \<Rightarrow> string \<Rightarrow> request_row list" where
  "owned_requests db owner = filter (\<lambda>r. owns db owner (rq_attempt r)) (bl_requests db)"

fun map_res :: "('a \<Rightarrow> 'b res) \<Rightarrow> 'a list \<Rightarrow> 'b list res" where
  "map_res f [] = Inr []"
| "map_res f (x # xs) = bind_res (f x) (\<lambda>y. bind_res (map_res f xs) (\<lambda>ys. Inr (y # ys)))"

definition attempts_of :: "budget_env \<Rightarrow> 'a ledger_scheme \<Rightarrow> string \<Rightarrow> runtime_attempt list res" where
  "attempts_of env db owner =
     (let rows = owned_rows db owner in
      bind_res (require (length rows \<le> 10000) invalid) (\<lambda>_.
      map_res (\<lambda>row. the_attempt env db (atr_id row)) rows))"

definition agent_owns :: "'a ledger_scheme \<Rightarrow> string \<Rightarrow> string \<Rightarrow> bool" where
  "agent_owns db agent aid = list_ex (\<lambda>r. atr_id r = aid \<and> atr_agent r = agent) (bl_attempts db)"

definition steps_of :: "'a ledger_scheme \<Rightarrow> string \<Rightarrow> int" where
  "steps_of db agent =
     int (length (filter (\<lambda>r. agent_owns db agent (rq_attempt r)) (bl_requests db)))
     + int (length (filter (agent_owns db agent) (bl_simulated db)))"

definition decode_request :: "budget_env \<Rightarrow> request_row \<Rightarrow> accounting res" where
  "decode_request env row =
     bind_res (clean env (TAccounting (rq_data row))) (\<lambda>_.
     bind_res (require (rs_attempt (ac_reservation (rq_data row)) = rq_attempt row
         \<and> rs_sequence (ac_reservation (rq_data row)) = rq_sequence row) invalid) (\<lambda>_.
     Inr (rq_data row)))"

definition or_zero :: "int option \<Rightarrow> int" where
  "or_zero x = (case x of None \<Rightarrow> 0 | Some n \<Rightarrow> n)"

definition usages :: "accounting list \<Rightarrow> usage list" where
  "usages items = List.map_filter ac_usage items"

text \<open>\<open>costs[c] = costs.get(c, 0) + cost\<close> in a dictionary.\<close>

fun add_cost :: "string \<Rightarrow> rat \<Rightarrow> (string \<times> rat) list \<Rightarrow> (string \<times> rat) list" where
  "add_cost c x [] = [(c, x)]"
| "add_cost c x ((d, y) # ds) = (if c = d then (d, y + x) # ds else (d, y) # add_cost c x ds)"

definition total_costs :: "usage list \<Rightarrow> (string \<times> rat) list" where
  "total_costs us = fold (\<lambda>u costs. case (us_currency u, us_cost u) of
     (Some c, Some x) \<Rightarrow> add_cost c x costs | _ \<Rightarrow> costs) us []"

definition allowances :: "outcome \<Rightarrow> accounting list \<Rightarrow> int" where
  "allowances out items =
     sum_list (map (\<lambda>a. rs_allowance (ac_reservation a)) (filter (\<lambda>a. ac_outcome a = out) items))"

definition owned_tools :: "'a ledger_scheme \<Rightarrow> string \<Rightarrow> int" where
  "owned_tools db owner =
     sum_list (map tb_calls (filter (\<lambda>b. owns db owner (tb_attempt b)) (bl_batches db)))"

definition active_time :: "int \<Rightarrow> runtime_attempt list \<Rightarrow> int" where
  "active_time now items = sum_list (map (\<lambda>a.
     max ((case at_finished a of None \<Rightarrow> now | Some f \<Rightarrow> f) - at_started a) 0) items)"

definition seconds :: "int \<Rightarrow> int" where
  "seconds n = n * 1000000"

definition legacy_snapshot :: "string \<Rightarrow> snapshot" where
  "legacy_snapshot rid = \<lparr>sn_run = rid, sn_owner = None, sn_limits = None,
     sn_completeness = LegacyUnknown, sn_invocations = 0, sn_requests = 0, sn_simulated = 0,
     sn_tools = 0, sn_input = 0, sn_output = 0, sn_total = 0, sn_reserved = 0, sn_unknown = 0,
     sn_outstanding = 0, sn_unknown_requests = 0, sn_active = 0, sn_costs = [], sn_exhausted = False\<rparr>"

definition snapshot_of :: "budget_env \<Rightarrow> int \<Rightarrow> 'a ledger_scheme \<Rightarrow> string \<Rightarrow> snapshot res" where
  "snapshot_of env now db rid =
     bind_res (owner_of env db [] rid) (\<lambda>found. case found of
       None \<Rightarrow> Inr (legacy_snapshot rid)
     | Some (owner, limits) \<Rightarrow>
         bind_res (attempts_of env db owner) (\<lambda>attempts.
         let rows = owned_requests db owner in
         bind_res (require (length rows \<le> 100000) invalid) (\<lambda>_.
         bind_res (map_res (decode_request env) rows) (\<lambda>items.
         let tools = owned_tools db owner;
             simulated = int (length (filter (owns db owner) (bl_simulated db)));
             active = active_time now attempts;
             total = sum_list (map (\<lambda>u. or_zero (us_total u)) (usages items));
             unknown = filter (\<lambda>a. ac_outcome a = OUnknown) items;
             held = filter (\<lambda>a. ac_outcome a = OReserved) items
         in Inr \<lparr>sn_run = rid, sn_owner = Some owner, sn_limits = Some limits,
           sn_completeness = (if unknown \<noteq> [] then UnknownRequests else Complete),
           sn_invocations = int (length attempts), sn_requests = int (length items),
           sn_simulated = simulated, sn_tools = tools,
           sn_input = sum_list (map (\<lambda>u. or_zero (us_input u)) (usages items)),
           sn_output = sum_list (map (\<lambda>u. or_zero (us_output u)) (usages items)),
           sn_total = total,
           sn_reserved = allowances OReserved items, sn_unknown = allowances OUnknown items,
           sn_outstanding = int (length held), sn_unknown_requests = int (length unknown),
           sn_active = active, sn_costs = total_costs (usages items),
           sn_exhausted = (max_agent_invocations limits \<le> int (length attempts)
             \<or> max_model_requests limits \<le> int (length items)
             \<or> max_tool_calls limits \<le> tools
             \<or> max_total_tokens limits \<le> total
             \<or> seconds (max_active_seconds limits) \<le> active)\<rparr>))))"

definition operational :: "snapshot \<Rightarrow> budget_limits res" where
  "operational s =
     bind_res (some_or invalid (sn_limits s)) (\<lambda>limits.
     bind_res (require (sn_completeness s = Complete) invalid) (\<lambda>_.
     bind_res (require (\<not> seconds (max_active_seconds limits) \<le> sn_active s) exhausted) (\<lambda>_.
     Inr limits)))"

end
