(* ===== verification/Budget_Operations.thy ===== *)
theory Budget_Operations
  imports Runtime_Budgets
begin

text \<open>
  The transactions of \<open>SqliteRuntimeBudgetStore\<close> and \<open>SqliteRuntimeAccounting\<close>
  (\<open>adapters/persistence/runtime_budgets.py\<close>). An operation that raises is rolled back; the one
  exception is \<open>record_response\<close>, which commits the usage it was told and may then raise, so its
  result is the new ledger with the outcome of the call.
\<close>

section \<open>Event payloads\<close>

definition opt_int :: "int option \<Rightarrow> json" where
  "opt_int x = (case x of None \<Rightarrow> JNull | Some n \<Rightarrow> JInt n)"

definition reservation_json :: "budget_env \<Rightarrow> reservation \<Rightarrow> json" where
  "reservation_json env r = JObj [(''attempt_id'', JStr (rs_attempt r)),
     (''request_sequence'', JInt (rs_sequence r)), (''token_allowance'', JInt (rs_allowance r)),
     (''requested_tokens'', JInt (rs_requested r)),
     (''reserved_at'', JStr (time_text env (rs_reserved_at r)))]"

definition usage_json :: "budget_env \<Rightarrow> usage \<Rightarrow> json" where
  "usage_json env u = JObj [(''requests'', opt_int (us_requests u)),
     (''input_tokens'', opt_int (us_input u)), (''output_tokens'', opt_int (us_output u)),
     (''total_tokens'', opt_int (us_total u)), (''tool_calls'', opt_int (us_tool_calls u)),
     (''provider_cost'', opt_str (map_option (cost_text env) (us_cost u))),
     (''provider_currency'', opt_str (us_currency u))]"

definition outcome_value :: "outcome \<Rightarrow> string" where
  "outcome_value out = (case out of OReserved \<Rightarrow> ''reserved'' | OReported \<Rightarrow> ''reported''
     | OUnknown \<Rightarrow> ''unknown'')"

definition accounting_json :: "budget_env \<Rightarrow> accounting \<Rightarrow> json" where
  "accounting_json env a = JObj [(''reservation'', reservation_json env (ac_reservation a)),
     (''outcome'', JStr (outcome_value (ac_outcome a))),
     (''usage'', case ac_usage a of None \<Rightarrow> JNull | Some u \<Rightarrow> usage_json env u)]"

definition attempt_json :: "budget_env \<Rightarrow> runtime_attempt \<Rightarrow> json" where
  "attempt_json env a = JObj [(''attempt_id'', JStr (at_id a)), (''owner_run_id'', JStr (at_owner a)),
     (''run_id'', JStr (at_run a)), (''agent_instance_id'', JStr (at_agent a)),
     (''task_id'', JStr (at_task a)), (''role'', JStr (at_role a)),
     (''stage'', JStr (stage_value (at_stage a))), (''iteration'', JInt (at_iteration a)),
     (''max_steps'', JInt (at_max_steps a)), (''runtime_name'', JStr (at_runtime a)),
     (''status'', JStr (attempt_status_value (at_status a))),
     (''started_at'', JStr (time_text env (at_started a))),
     (''finished_at'', opt_str (map_option (time_text env) (at_finished a))),
     (''error_code'', opt_str (map_option error_value (at_error a)))]"

definition budget_event ::
    "budget_env \<Rightarrow> nat \<Rightarrow> run \<Rightarrow> string \<Rightarrow> json \<Rightarrow> 'a database_scheme \<Rightarrow> 'a database_scheme res" where
  "budget_event env i r etype payload db =
     (case redact env payload of (cleaned, redactions) \<Rightarrow>
       append_row \<lparr>event_id = new_id env i, event_type = etype, event_occurred_at = clk env i,
         event_project = run_project r, event_run = Some (run_id r), event_task = None,
         event_agent = None, event_correlation = run_correlation r, event_sequence = None,
         event_payload = cleaned, event_redactions = redactions\<rparr> db)"

section \<open>Initialization of a run\<close>

text \<open>The registration of a run that has no owner yet.\<close>

definition register_run ::
    "budget_env \<Rightarrow> ledger \<Rightarrow> run \<Rightarrow> budget_limits \<Rightarrow> string option \<Rightarrow> bool \<Rightarrow> string \<Rightarrow> (ledger \<times> snapshot) res" where
  "register_run env db r limits parent fresh owner =
     bind_res (require (\<not> (run_status r \<noteq> CREATED \<or> run_stage r \<noteq> None)) invalid) (\<lambda>_.
     bind_res (if fresh
         then bind_res (row_insert fst (owner, limits) (bl_owners db)) (\<lambda>t. Inr (db\<lparr>bl_owners := t\<rparr>))
         else bind_res (the_run env db owner) (\<lambda>o'.
              bind_res (require (run_project o' = run_project r) invalid) (\<lambda>_. Inr db))) (\<lambda>db.
     bind_res (row_insert fst (run_id r, owner) (bl_runs db)) (\<lambda>t.
     bind_res (budget_event env 1 r ''runtime.budget_initialized''
         (JObj [(''owner_run_id'', JStr owner), (''parent_run_id'', opt_str parent),
                (''limits'', limits_json limits)]) (db\<lparr>bl_runs := t\<rparr>)) (\<lambda>db.
     bind_res (snapshot_of env (clk env 2) db (run_id r)) (\<lambda>s. Inr (db, s))))))"

definition initialize_run ::
    "budget_env \<Rightarrow> ledger \<Rightarrow> string \<Rightarrow> budget_limits \<Rightarrow> string option \<Rightarrow> (ledger \<times> snapshot) res" where
  "initialize_run env db rid limits parent = boundary (
     bind_res (clean env (TTexts (rid # (case parent of None \<Rightarrow> [] | Some p \<Rightarrow> [p])))) (\<lambda>_.
     bind_res (clean env (TLimits limits)) (\<lambda>_.
     bind_res (require (limits_ok limits) ValueError) (\<lambda>_.
     bind_res (the_run env db rid) (\<lambda>r.
     bind_res (require (run_parent r = parent) invalid) (\<lambda>_.
     bind_res (case parent of None \<Rightarrow> Inr () | Some p \<Rightarrow> require (graph_parent env r p) invalid) (\<lambda>_.
     bind_res (case parent of None \<Rightarrow> Inr None | Some p \<Rightarrow> owner_of env db [] p) (\<lambda>up.
     bind_res (require (\<not> (parent \<noteq> None \<and> (up = None \<or> parent = Some rid))) invalid) (\<lambda>_.
     let owner = (case up of None \<Rightarrow> rid | Some (o', _) \<Rightarrow> o') in
     bind_res (require (case up of None \<Rightarrow> True | Some (_, l) \<Rightarrow> l = limits) invalid) (\<lambda>_.
     bind_res (owner_of env db [] rid) (\<lambda>existing. case existing of
       Some e \<Rightarrow>
         bind_res (require (e = (owner, limits)) invalid) (\<lambda>_.
         bind_res (snapshot_of env (clk env 0) db rid) (\<lambda>s. Inr (db, s)))
     | None \<Rightarrow> register_run env db r limits parent (up = None) owner)))))))))))"

section \<open>Attempts\<close>

definition insert_attempt :: "runtime_attempt \<Rightarrow> ledger \<Rightarrow> ledger res" where
  "insert_attempt a db =
     bind_res (require (\<not> list_ex (\<lambda>r. atr_agent r = at_agent a \<and> atr_status r = AtRunning)
       (bl_attempts db)) IntegrityError) (\<lambda>_.
     bind_res (row_insert atr_id \<lparr>atr_id = at_id a, atr_owner = at_owner a, atr_run = at_run a,
       atr_agent = at_agent a, atr_status = at_status a, atr_data = a\<rparr> (bl_attempts db)) (\<lambda>t.
     Inr (db\<lparr>bl_attempts := t\<rparr>)))"

text \<open>The part of \<open>begin_attempt\<close> that follows the construction of the candidate.\<close>

definition admit_attempt ::
    "budget_env \<Rightarrow> ledger \<Rightarrow> run \<Rightarrow> budget_limits \<Rightarrow> runtime_attempt \<Rightarrow> (ledger \<times> string) res" where
  "admit_attempt env db r limits candidate =
     bind_res (attempts_of env db (at_owner candidate)) (\<lambda>attempts.
     let same_agent = filter (\<lambda>a. at_agent a = at_agent candidate) attempts in
     bind_res (require (\<not> list_ex (\<lambda>a. at_status a = AtRunning
         \<or> at_max_steps a \<noteq> at_max_steps candidate
         \<or> at_run a \<noteq> at_run candidate
         \<or> at_task a \<noteq> at_task candidate
         \<or> at_stage a \<noteq> at_stage candidate
         \<or> at_iteration a \<noteq> at_iteration candidate) same_agent) invalid) (\<lambda>_.
     bind_res (snapshot_of env (clk env 1) db (run_id r)) (\<lambda>s.
     bind_res (operational s) (\<lambda>_.
     bind_res (require (\<not> max_agent_invocations limits \<le> sn_invocations s) exhausted) (\<lambda>_.
     bind_res (require (\<not> at_max_steps candidate \<le> steps_of db (at_agent candidate)) exhausted) (\<lambda>_.
     bind_res (insert_attempt candidate db) (\<lambda>db.
     bind_res (budget_event env 2 r ''runtime.attempt_started''
         (JObj [(''attempt_id'', JStr (at_id candidate)),
                (''agent_instance_id'', JStr (at_agent candidate)),
                (''max_steps'', JInt (at_max_steps candidate))]) db) (\<lambda>db.
     Inr (db, at_id candidate)))))))))"

definition begin_attempt ::
    "budget_env \<Rightarrow> ledger \<Rightarrow> invocation \<Rightarrow> string option \<Rightarrow> (ledger \<times> string) res" where
  "begin_attempt env db req chosen = boundary (
     bind_res (clean env (TInvocation req)) (\<lambda>_.
     let selected = (case chosen of Some a \<Rightarrow> if a = [] then new_id env 0 else a | None \<Rightarrow> new_id env 0) in
     bind_res (clean env (TTexts [selected])) (\<lambda>_.
     bind_res (the_run env db (inv_run req)) (\<lambda>r.
     bind_res (owner_of env db [] (run_id r)) (\<lambda>found.
     bind_res (some_or invalid found) (\<lambda>(owner, limits).
     bind_res (admission env (run_id r)) (\<lambda>_.
     bind_res (the_agent env db (inv_agent req)) (\<lambda>agent.
     bind_res (require (\<not> (run_status r \<noteq> RUNNING
         \<or> run_stage r \<noteq> Some (inv_stage req)
         \<or> agent_id agent \<noteq> inv_agent req
         \<or> agent_run agent \<noteq> inv_run req
         \<or> agent_role agent \<noteq> inv_role req
         \<or> agent_iteration agent \<noteq> inv_iteration req
         \<or> agent_status agent \<noteq> AgRunning
         \<or> agent_completed_at agent \<noteq> None)) invalid) (\<lambda>_.
     bind_res (if inv_role req \<noteq> ''cos'' then
         bind_res (the_task env db (inv_task req)) (\<lambda>task.
         require (\<not> (run_task r \<noteq> Some (inv_task req) \<or> task_run_id task \<noteq> run_id r
           \<or> agent_task agent \<noteq> Some (inv_task req))) invalid)
       else Inr ()) (\<lambda>_.
     bind_res (runtime_name_of env db r (inv_role req)) (\<lambda>name.
     let candidate = \<lparr>at_id = selected, at_owner = owner, at_run = run_id r,
       at_agent = agent_id agent, at_task = inv_task req, at_role = inv_role req,
       at_stage = inv_stage req, at_iteration = inv_iteration req, at_max_steps = inv_max_steps req,
       at_runtime = name, at_status = AtRunning, at_started = clk env 0, at_finished = None,
       at_error = None\<rparr> in
     bind_res (require (attempt_valid candidate) ValueError) (\<lambda>_.
     if find_attempt db selected \<noteq> None then
       bind_res (active_attempt env db selected) (\<lambda>existing.
       bind_res (require (existing\<lparr>at_started := at_started candidate\<rparr> = candidate) invalid) (\<lambda>_.
       Inr (db, selected)))
     else admit_attempt env db r limits candidate))))))))))))"

section \<open>Model requests\<close>

definition request_key :: "request_row \<Rightarrow> string \<times> int" where
  "request_key r = (rq_attempt r, rq_sequence r)"

definition find_request :: "'a ledger_scheme \<Rightarrow> string \<Rightarrow> int \<Rightarrow> request_row option" where
  "find_request db aid sq = row_lookup request_key (aid, sq) (bl_requests db)"

definition save_request :: "string \<Rightarrow> accounting \<Rightarrow> ledger \<Rightarrow> ledger" where
  "save_request aid item db = db\<lparr>bl_requests := row_update request_key
     (aid, rs_sequence (ac_reservation item)) (\<lambda>r. r\<lparr>rq_data := item\<rparr>) (bl_requests db)\<rparr>"

definition allowance_for :: "budget_limits \<Rightarrow> snapshot \<Rightarrow> int \<Rightarrow> int" where
  "allowance_for limits s requested =
     min requested (max_total_tokens limits - sn_total s - sn_reserved s - sn_unknown s)"

definition reserve_request ::
    "budget_env \<Rightarrow> ledger \<Rightarrow> string \<Rightarrow> int \<Rightarrow> int \<Rightarrow> (ledger \<times> reservation) res" where
  "reserve_request env db aid sq requested = boundary (
     bind_res (require (1 \<le> sq \<and> sq \<le> 100000) invalid) (\<lambda>_.
     bind_res (require (1 \<le> requested \<and> requested \<le> 100000000) invalid) (\<lambda>_.
     bind_res (active_attempt env db aid) (\<lambda>a.
     bind_res (admission env (at_run a)) (\<lambda>_.
     bind_res (require (find_request db aid sq = None) invalid) (\<lambda>_.
     bind_res (snapshot_of env (clk env 0) db (at_run a)) (\<lambda>s.
     bind_res (operational s) (\<lambda>limits.
     let allowance = allowance_for limits s requested in
     bind_res (require (\<not> (allowance \<le> 0
         \<or> max_model_requests limits \<le> sn_requests s
         \<or> at_max_steps a \<le> steps_of db (at_agent a))) exhausted) (\<lambda>_.
     let reservation = \<lparr>rs_attempt = aid, rs_sequence = sq, rs_allowance = allowance,
           rs_requested = requested, rs_reserved_at = clk env 1\<rparr>;
         item = \<lparr>ac_reservation = reservation, ac_outcome = OReserved, ac_usage = None\<rparr> in
     bind_res (require (reservation_valid reservation) ValueError) (\<lambda>_.
     bind_res (row_insert request_key \<lparr>rq_attempt = aid, rq_sequence = sq, rq_data = item\<rparr>
         (bl_requests db)) (\<lambda>t.
     bind_res (the_run env db (at_run a)) (\<lambda>r.
     bind_res (budget_event env 2 r ''runtime.request_reserved'' (reservation_json env reservation)
         (db\<lparr>bl_requests := t\<rparr>)) (\<lambda>db.
     Inr (db, reservation))))))))))))))"

definition the_request ::
    "budget_env \<Rightarrow> 'a ledger_scheme \<Rightarrow> string \<Rightarrow> reservation \<Rightarrow> accounting res" where
  "the_request env db aid res =
     bind_res (require (rs_attempt res = aid) invalid) (\<lambda>_.
     bind_res (some_or invalid (find_request db aid (rs_sequence res))) (\<lambda>row.
     bind_res (clean env (TAccounting (rq_data row))) (\<lambda>_.
     bind_res (require (ac_reservation (rq_data row) = res) invalid) (\<lambda>_. Inr (rq_data row)))))"

definition record_response ::
    "budget_env \<Rightarrow> ledger \<Rightarrow> string \<Rightarrow> reservation \<Rightarrow> usage \<Rightarrow> (ledger \<times> snapshot res) res" where
  "record_response env db aid res u = boundary (
     bind_res (clean env (TUsage u)) (\<lambda>_.
     bind_res (require (usage_valid u) ValueError) (\<lambda>_.
     bind_res (require (us_requests u = Some 1) invalid) (\<lambda>_.
     bind_res (the_attempt env db aid) (\<lambda>a.
     bind_res (the_request env db aid res) (\<lambda>item.
     if ac_outcome item \<in> {OReported, OUnknown} then
       bind_res (require (ac_usage item = Some u) invalid) (\<lambda>_.
       bind_res (snapshot_of env (clk env 0) db (at_run a)) (\<lambda>s. Inr (db, Inr s)))
     else
       bind_res (require (\<not> (ac_outcome item \<noteq> OReserved \<or> at_status a \<noteq> AtRunning)) invalid) (\<lambda>_.
       let updated = \<lparr>ac_reservation = res,
         ac_outcome = (if us_total u \<noteq> None then OReported else OUnknown), ac_usage = Some u\<rparr> in
       bind_res (require (accounting_valid updated) ValueError) (\<lambda>_.
       bind_res (the_run env db (at_run a)) (\<lambda>r.
       bind_res (budget_event env 1 r ''runtime.response_recorded'' (accounting_json env updated)
           (save_request aid updated db)) (\<lambda>db.
       bind_res (snapshot_of env (clk env 2) db (at_run a)) (\<lambda>s.
       Inr (db,
         if us_total u = None then Inl invalid
         else if (case sn_limits s of None \<Rightarrow> False | Some l \<Rightarrow> max_total_tokens l < sn_total s)
         then Inl exhausted
         else Inr s))))))))))))"

definition record_unknown :: "budget_env \<Rightarrow> ledger \<Rightarrow> string \<Rightarrow> reservation \<Rightarrow> ledger res" where
  "record_unknown env db aid res = boundary (
     bind_res (the_attempt env db aid) (\<lambda>a.
     bind_res (the_request env db aid res) (\<lambda>item.
     if ac_outcome item \<noteq> OReserved then Inr db
     else
       bind_res (the_run env db (at_run a)) (\<lambda>r.
       budget_event env 0 r ''runtime.request_unknown'' (reservation_json env res)
         (save_request aid \<lparr>ac_reservation = res, ac_outcome = OUnknown, ac_usage = None\<rparr> db)))))"

section \<open>Tools and simulated steps\<close>

definition batch_key :: "batch_row \<Rightarrow> string \<times> int" where
  "batch_key b = (tb_attempt b, tb_sequence b)"

definition reserve_tool_batch ::
    "budget_env \<Rightarrow> ledger \<Rightarrow> string \<Rightarrow> int \<Rightarrow> string list \<Rightarrow> ledger res" where
  "reserve_tool_batch env db aid sq call_ids = boundary (
     bind_res (clean env (TTexts call_ids)) (\<lambda>_.
     bind_res (require (\<not> (sq < 1 \<or> 100000 < sq \<or> call_ids = [] \<or> 256 < length call_ids
         \<or> \<not> distinct call_ids \<or> list_ex (\<lambda>c. py_len c < 1 \<or> 128 < py_len c) call_ids)) invalid) (\<lambda>_.
     let digest = canonical_json_hash (sha256 env) (JArr (map JStr call_ids));
         calls = int (length call_ids) in
     bind_res (active_attempt env db aid) (\<lambda>a.
     bind_res (admission env (at_run a)) (\<lambda>_.
     bind_res (require (row_lookup batch_key (aid, sq) (bl_batches db) = None) invalid) (\<lambda>_.
     bind_res (snapshot_of env (clk env 0) db (at_run a)) (\<lambda>s.
     bind_res (operational s) (\<lambda>limits.
     bind_res (require (\<not> (max_tool_calls limits < sn_tools s + calls
         \<or> max_total_tokens limits \<le> sn_total s)) exhausted) (\<lambda>_.
     bind_res (row_insert batch_key \<lparr>tb_attempt = aid, tb_sequence = sq, tb_digest = digest,
         tb_calls = calls\<rparr> (bl_batches db)) (\<lambda>t.
     bind_res (the_run env db (at_run a)) (\<lambda>r.
     budget_event env 1 r ''runtime.tool_batch_reserved''
       (JObj [(''attempt_id'', JStr aid), (''batch_sequence'', JInt sq),
              (''calls_sha256'', JStr digest), (''tool_calls'', JInt calls)])
       (db\<lparr>bl_batches := t\<rparr>))))))))))))"

definition record_simulated_step :: "budget_env \<Rightarrow> ledger \<Rightarrow> string \<Rightarrow> ledger res" where
  "record_simulated_step env db aid = boundary (
     bind_res (active_attempt env db aid) (\<lambda>a.
     bind_res (require (at_runtime a = ''fake'') invalid) (\<lambda>_.
     bind_res (require (aid \<notin> set (bl_simulated db)) invalid) (\<lambda>_.
     bind_res (snapshot_of env (clk env 0) db (at_run a)) (\<lambda>s.
     bind_res (operational s) (\<lambda>_.
     bind_res (require (\<not> at_max_steps a \<le> steps_of db (at_agent a)) exhausted) (\<lambda>_.
     bind_res (row_insert id aid (bl_simulated db)) (\<lambda>t.
     bind_res (the_run env db (at_run a)) (\<lambda>r.
     budget_event env 1 r ''runtime.simulated_step_recorded'' (JObj [(''attempt_id'', JStr aid)])
       (db\<lparr>bl_simulated := t\<rparr>))))))))))"

text \<open>The remaining active time, in microseconds.\<close>

definition remaining_active_seconds :: "budget_env \<Rightarrow> ledger \<Rightarrow> string \<Rightarrow> int res" where
  "remaining_active_seconds env db aid = boundary (
     bind_res (active_attempt env db aid) (\<lambda>a.
     bind_res (snapshot_of env (clk env 0) db (at_run a)) (\<lambda>s.
     bind_res (operational s) (\<lambda>limits.
     Inr (seconds (max_active_seconds limits) - sn_active s)))))"

section \<open>Finishing an attempt\<close>

text \<open>The loop over the requests of the attempt: what is still reserved becomes unknown.\<close>

fun abandon_requests ::
    "budget_env \<Rightarrow> string \<Rightarrow> request_row list \<Rightarrow> ledger \<Rightarrow> ledger res" where
  "abandon_requests env aid [] db = Inr db"
| "abandon_requests env aid (row # rows) db =
     bind_res (clean env (TAccounting (rq_data row))) (\<lambda>_.
     abandon_requests env aid rows
       (if ac_outcome (rq_data row) = OReserved
        then save_request aid \<lparr>ac_reservation = ac_reservation (rq_data row),
               ac_outcome = OUnknown, ac_usage = None\<rparr> db
        else db))"

definition finish_attempt ::
    "budget_env \<Rightarrow> ledger \<Rightarrow> string \<Rightarrow> attempt_status \<Rightarrow> error_code option \<Rightarrow> (ledger \<times> snapshot) res" where
  "finish_attempt env db aid status err = boundary (
     bind_res (require (status \<noteq> AtRunning) invalid) (\<lambda>_.
     bind_res (the_attempt env db aid) (\<lambda>a.
     if at_status a \<noteq> AtRunning then
       bind_res (require (\<not> (at_status a \<noteq> status \<or> at_error a \<noteq> err)) invalid) (\<lambda>_.
       bind_res (snapshot_of env (clk env 0) db (at_run a)) (\<lambda>s. Inr (db, s)))
     else
       bind_res (abandon_requests env aid (filter (\<lambda>r. rq_attempt r = aid) (bl_requests db)) db) (\<lambda>db.
       let updated = a\<lparr>at_status := status, at_finished := Some (clk env 0), at_error := err\<rparr> in
       bind_res (require (attempt_valid updated) ValueError) (\<lambda>_.
       bind_res (the_run env db (at_run a)) (\<lambda>r.
       bind_res (budget_event env 1 r ''runtime.attempt_finished'' (attempt_json env updated)
           (db\<lparr>bl_attempts := row_update atr_id aid
             (\<lambda>row. row\<lparr>atr_status := status, atr_data := updated\<rparr>) (bl_attempts db)\<rparr>)) (\<lambda>db.
       bind_res (snapshot_of env (clk env 2) db (at_run a)) (\<lambda>s. Inr (db, s)))))))))"

end
