(* ===== verification/Budget_Invariants.thy ===== *)
theory Budget_Invariants
  imports Budget_Operations
begin

text \<open>
  What the ledger guarantees whatever its callers do and whatever other components write to runs,
  tasks, agents and events in between: the limits of every owner hold, an uncertain request is never
  refunded, a recorded outcome and a finished attempt never change, and an agent has one running
  attempt. The operations are shown to be a durable, monotone component, so the guarantees hold after
  every sequence of operations.
\<close>

section \<open>The invariant\<close>

text \<open>
  What a request counts against the token limit: its allowance as long as the provider's report is
  missing, the reported tokens up to the allowance afterwards.
\<close>

definition charge :: "accounting \<Rightarrow> int" where
  "charge a = (case ac_outcome a of
     OReported \<Rightarrow> min (case ac_usage a of None \<Rightarrow> 0 | Some u \<Rightarrow> or_zero (us_total u))
       (rs_allowance (ac_reservation a))
   | _ \<Rightarrow> rs_allowance (ac_reservation a))"

definition charged :: "'a ledger_scheme \<Rightarrow> string \<Rightarrow> int" where
  "charged db owner = sum_list (map (\<lambda>r. charge (rq_data r)) (owned_requests db owner))"

definition keys_ok :: "'a ledger_scheme \<Rightarrow> bool" where
  "keys_ok db \<longleftrightarrow> distinct (map fst (bl_owners db)) \<and> distinct (map atr_id (bl_attempts db)) \<and>
     distinct (map request_key (bl_requests db)) \<and> distinct (map batch_key (bl_batches db)) \<and>
     distinct (bl_simulated db)"

definition request_ok :: "request_row \<Rightarrow> bool" where
  "request_ok r \<longleftrightarrow> rs_attempt (ac_reservation (rq_data r)) = rq_attempt r \<and>
     rs_sequence (ac_reservation (rq_data r)) = rq_sequence r \<and>
     1 \<le> rs_allowance (ac_reservation (rq_data r)) \<and> accounting_valid (rq_data r) \<and>
     (case ac_usage (rq_data r) of None \<Rightarrow> True | Some u \<Rightarrow> usage_valid u)"

definition rows_ok :: "'a ledger_scheme \<Rightarrow> bool" where
  "rows_ok db \<longleftrightarrow> list_all attempt_row_ok (bl_attempts db) \<and> list_all request_ok (bl_requests db)"

definition refs_ok :: "'a ledger_scheme \<Rightarrow> bool" where
  "refs_ok db \<longleftrightarrow> atr_owner ` set (bl_attempts db) \<subseteq> fst ` set (bl_owners db) \<and>
     rq_attempt ` set (bl_requests db) \<subseteq> atr_id ` set (bl_attempts db) \<and>
     tb_attempt ` set (bl_batches db) \<subseteq> atr_id ` set (bl_attempts db) \<and>
     set (bl_simulated db) \<subseteq> atr_id ` set (bl_attempts db)"

definition within_limits :: "'a ledger_scheme \<Rightarrow> string \<Rightarrow> budget_limits \<Rightarrow> bool" where
  "within_limits db owner l \<longleftrightarrow>
     int (length (owned_rows db owner)) \<le> max_agent_invocations l \<and>
     int (length (owned_requests db owner)) \<le> max_model_requests l \<and>
     owned_tools db owner \<le> max_tool_calls l \<and>
     charged db owner \<le> max_total_tokens l"

definition limits_hold :: "'a ledger_scheme \<Rightarrow> bool" where
  "limits_hold db \<longleftrightarrow> list_all (\<lambda>(owner, l). limits_ok l \<and> within_limits db owner l) (bl_owners db)"

definition running :: "attempt_row \<Rightarrow> bool" where
  "running r \<longleftrightarrow> atr_status r = AtRunning"

definition running_ok :: "'a ledger_scheme \<Rightarrow> bool" where
  "running_ok db \<longleftrightarrow> distinct (map atr_agent (filter running (bl_attempts db))) \<and>
     list_all (\<lambda>r. running r \<longrightarrow> steps_of db (atr_agent r) \<le> at_max_steps (atr_data r)) (bl_attempts db)"

definition ledger_inv :: "'a ledger_scheme \<Rightarrow> bool" where
  "ledger_inv db \<longleftrightarrow> keys_ok db \<and> rows_ok db \<and> refs_ok db \<and> limits_hold db \<and> running_ok db"

lemmas ledger_inv_defs = ledger_inv_def keys_ok_def rows_ok_def refs_ok_def limits_hold_def
  running_ok_def within_limits_def

section \<open>Progress order\<close>

definition request_le :: "request_row \<Rightarrow> request_row \<Rightarrow> bool" where
  "request_le r r' \<longleftrightarrow> request_key r' = request_key r \<and>
     ac_reservation (rq_data r') = ac_reservation (rq_data r) \<and>
     (ac_outcome (rq_data r) \<noteq> OReserved \<longrightarrow> r' = r)"

definition attempt_le :: "attempt_row \<Rightarrow> attempt_row \<Rightarrow> bool" where
  "attempt_le r r' \<longleftrightarrow> atr_id r' = atr_id r \<and> atr_owner r' = atr_owner r \<and> atr_run r' = atr_run r \<and>
     atr_agent r' = atr_agent r \<and> (\<not> running r \<longrightarrow> r' = r)"

definition ledger_le :: "'a ledger_scheme \<Rightarrow> 'a ledger_scheme \<Rightarrow> bool" where
  "ledger_le s t \<longleftrightarrow> (\<forall>r \<in> set (bl_requests s). \<exists>r' \<in> set (bl_requests t). request_le r r') \<and>
     (\<forall>r \<in> set (bl_attempts s). \<exists>r' \<in> set (bl_attempts t). attempt_le r r') \<and>
     set (bl_owners s) \<subseteq> set (bl_owners t) \<and> set (bl_runs s) \<subseteq> set (bl_runs t) \<and>
     set (bl_batches s) \<subseteq> set (bl_batches t) \<and> set (bl_simulated s) \<subseteq> set (bl_simulated t)"

lemma request_le_refl [simp]: "request_le r r"
  by (simp add: request_le_def)

lemma request_le_trans: "request_le r s \<Longrightarrow> request_le s t \<Longrightarrow> request_le r t"
  by (auto simp: request_le_def)

lemma attempt_le_refl [simp]: "attempt_le r r"
  by (simp add: attempt_le_def)

lemma attempt_le_trans: "attempt_le r s \<Longrightarrow> attempt_le s t \<Longrightarrow> attempt_le r t"
  by (auto simp: attempt_le_def)

lemma ledger_le_refl: "ledger_le s s"
  unfolding ledger_le_def using request_le_refl attempt_le_refl by blast

lemma ledger_le_trans: "ledger_le s t \<Longrightarrow> ledger_le t u \<Longrightarrow> ledger_le s u"
  unfolding ledger_le_def by (meson attempt_le_trans request_le_trans subset_trans)

section \<open>The primitive updates\<close>

text \<open>Writes to the shared tables do not touch the ledger.\<close>

definition with_core :: "'b database_scheme \<Rightarrow> 'a ledger_scheme \<Rightarrow> 'a ledger_scheme" where
  "with_core c db = db\<lparr>db_runs := db_runs c, db_tasks := db_tasks c, db_agents := db_agents c,
     db_events := db_events c\<rparr>"

definition same_ledger :: "'a ledger_scheme \<Rightarrow> 'a ledger_scheme \<Rightarrow> bool" where
  "same_ledger s t \<longleftrightarrow> bl_owners s = bl_owners t \<and> bl_runs s = bl_runs t \<and>
     bl_attempts s = bl_attempts t \<and> bl_requests s = bl_requests t \<and>
     bl_batches s = bl_batches t \<and> bl_simulated s = bl_simulated t"

lemma owns_cong: "bl_attempts s = bl_attempts t \<Longrightarrow> owns s = owns t"
  by (simp add: owns_def fun_eq_iff)

lemma agent_owns_cong: "bl_attempts s = bl_attempts t \<Longrightarrow> agent_owns s = agent_owns t"
  by (simp add: agent_owns_def fun_eq_iff)

text \<open>The derived quantities only depend on four of the tables.\<close>

lemma derived_cong:
  assumes "bl_attempts s = bl_attempts t" and "bl_requests s = bl_requests t"
    and "bl_batches s = bl_batches t" and "bl_simulated s = bl_simulated t"
  shows "owned_rows s = owned_rows t" "owned_requests s = owned_requests t"
    "owned_tools s = owned_tools t" "charged s = charged t" "steps_of s = steps_of t"
  by (intro ext; simp add: owned_rows_def owned_requests_def owned_tools_def charged_def steps_of_def
      owns_cong [OF assms(1)] agent_owns_cong [OF assms(1)] assms)+

lemma same_ledger_inv: "same_ledger s t \<Longrightarrow> ledger_inv s = ledger_inv t"
  using derived_cong [of s t] by (simp add: ledger_inv_defs same_ledger_def)

lemma same_ledger_le: "same_ledger s t \<Longrightarrow> ledger_le s t"
  using ledger_le_refl [of t] by (simp add: ledger_le_def same_ledger_def)

lemma same_ledger_with_core: "same_ledger db (with_core c db)"
  by (simp add: same_ledger_def with_core_def)

lemma same_ledger_appended: "same_ledger db (appended row db)"
  by (simp add: same_ledger_def appended_def)

lemma budget_event_Inr: "budget_event env i r t p db = Inr db' \<Longrightarrow> \<exists>row. db' = appended row db"
  by (auto simp: budget_event_def split: prod.splits dest: append_row_Inr)

text \<open>An update is sound when it keeps the invariant and only moves the ledger forward.\<close>

definition sound :: "'a ledger_scheme \<Rightarrow> 'a ledger_scheme \<Rightarrow> bool" where
  "sound s t \<longleftrightarrow> (ledger_inv s \<longrightarrow> ledger_inv t \<and> ledger_le s t)"

lemma sound_refl [simp]: "sound s s"
  by (simp add: sound_def ledger_le_refl)

lemma sound_trans: "sound s t \<Longrightarrow> sound t u \<Longrightarrow> sound s u"
  by (auto simp: sound_def intro: ledger_le_trans)

lemma sound_same: "same_ledger s t \<Longrightarrow> sound s t"
  by (simp add: sound_def same_ledger_inv same_ledger_le)

lemma sound_event: "budget_event env i r t p db = Inr db' \<Longrightarrow> sound db db'"
  by (auto dest!: budget_event_Inr intro: sound_same same_ledger_appended)

lemma sound_add_owner:
  assumes "owner \<notin> fst ` set (bl_owners db)" and "limits_ok l"
  shows "sound db (db\<lparr>bl_owners := bl_owners db @ [(owner, l)]\<rparr>)"
  unfolding sound_def
proof (intro impI conjI)
  let ?db = "db\<lparr>bl_owners := bl_owners db @ [(owner, l)]\<rparr>"
  assume inv: "ledger_inv db"
  then have "atr_owner r \<noteq> owner" if "r \<in> set (bl_attempts db)" for r
    using that assms(1) by (auto simp: ledger_inv_def refs_ok_def)
  then have none: "owned_rows db owner = []" "owns db owner = (\<lambda>_. False)"
    by (auto simp: owned_rows_def owns_def filter_empty_conv list_ex_iff)
  note same = derived_cong [of ?db db, simplified]
  show "ledger_inv ?db"
    using inv assms none same by (auto simp: ledger_inv_defs owned_requests_def owned_tools_def
        charged_def limits_ok_def)
  show "ledger_le db ?db" using ledger_le_refl [of db] by (auto simp: ledger_le_def)
qed

lemma sound_add_run: "sound db (db\<lparr>bl_runs := bl_runs db @ [(rid, owner)]\<rparr>)"
  unfolding sound_def
proof (intro impI conjI)
  let ?db = "db\<lparr>bl_runs := bl_runs db @ [(rid, owner)]\<rparr>"
  assume inv: "ledger_inv db"
  note same = derived_cong [of ?db db, simplified]
  show "ledger_inv ?db" using inv same by (simp add: ledger_inv_defs)
  show "ledger_le db ?db" using ledger_le_refl [of db] by (auto simp: ledger_le_def)
qed

subsection \<open>Attempts\<close>

lemma attempt_unique:
  "keys_ok db \<Longrightarrow> r \<in> set (bl_attempts db) \<Longrightarrow> r' \<in> set (bl_attempts db) \<Longrightarrow> atr_id r = atr_id r' \<Longrightarrow> r = r'"
  by (auto simp: keys_ok_def distinct_map inj_on_def)

lemma owns_iff:
  "keys_ok db \<Longrightarrow> row \<in> set (bl_attempts db) \<Longrightarrow> owns db owner (atr_id row) \<longleftrightarrow> atr_owner row = owner"
  by (auto simp: owns_def list_ex_iff dest: attempt_unique)

lemma agent_owns_iff:
  "keys_ok db \<Longrightarrow> row \<in> set (bl_attempts db) \<Longrightarrow> agent_owns db agent (atr_id row) \<longleftrightarrow> atr_agent row = agent"
  by (auto simp: agent_owns_def list_ex_iff dest: attempt_unique)

lemma running_unique:
  assumes "running_ok db" and "r \<in> set (bl_attempts db)" and "r' \<in> set (bl_attempts db)"
    and "running r" and "running r'" and "atr_agent r = atr_agent r'"
  shows "r = r'"
proof -
  have "distinct (map atr_agent (filter running (bl_attempts db)))"
    using assms(1) by (simp add: running_ok_def)
  then show ?thesis using assms(2-6) by (auto simp: distinct_map inj_on_def)
qed

lemma owner_limits:
  "keys_ok db \<Longrightarrow> map_of (bl_owners db) owner = Some l \<Longrightarrow> (owner, l') \<in> set (bl_owners db) \<Longrightarrow> l' = l"
  by (simp add: keys_ok_def)

lemma limits_holdD:
  "limits_hold db \<Longrightarrow> map_of (bl_owners db) owner = Some l \<Longrightarrow> limits_ok l \<and> within_limits db owner l"
  by (auto simp: limits_hold_def list_all_iff dest: map_of_SomeD)

lemma limits_hold_step:
  assumes "limits_hold db" and "bl_owners db' = bl_owners db"
    and "\<And>owner l. (owner, l) \<in> set (bl_owners db) \<Longrightarrow> within_limits db owner l \<Longrightarrow> within_limits db' owner l"
  shows "limits_hold db'"
  using assms by (auto simp: limits_hold_def list_all_iff)

lemma sound_insert_attempt:
  assumes fresh: "atr_id row \<notin> atr_id ` set (bl_attempts db)"
    and owner: "map_of (bl_owners db) (atr_owner row) = Some l"
    and room: "int (length (owned_rows db (atr_owner row))) < max_agent_invocations l"
    and row: "attempt_row_ok row" "running row"
    and idle: "\<not> list_ex (\<lambda>r. atr_agent r = atr_agent row \<and> running r) (bl_attempts db)"
    and steps: "steps_of db (atr_agent row) < at_max_steps (atr_data row)"
  shows "sound db (db\<lparr>bl_attempts := bl_attempts db @ [row]\<rparr>)"
  unfolding sound_def
proof (intro impI conjI)
  let ?db = "db\<lparr>bl_attempts := bl_attempts db @ [row]\<rparr>"
  assume inv: "ledger_inv db"
  then have keys: "keys_ok db" and refs: "refs_ok db" by (auto simp: ledger_inv_def)
  have owns: "owns ?db x (k) = owns db x (k)" "agent_owns ?db x k = agent_owns db x k"
    if "k \<in> atr_id ` set (bl_attempts db)" for x k
    using that fresh by (auto simp: owns_def agent_owns_def list_ex_iff)
  have requests: "owned_requests ?db = owned_requests db"
    using refs owns(1) by (intro ext) (auto simp: owned_requests_def refs_ok_def intro!: filter_cong)
  have tools: "owned_tools ?db = owned_tools db"
  proof
    fix o'
    have "filter (\<lambda>b. owns ?db o' (tb_attempt b)) (bl_batches db) =
        filter (\<lambda>b. owns db o' (tb_attempt b)) (bl_batches db)"
      using refs owns(1) by (auto simp: refs_ok_def intro!: filter_cong)
    then show "owned_tools ?db o' = owned_tools db o'" by (simp add: owned_tools_def)
  qed
  have stepped: "steps_of ?db = steps_of db"
  proof
    fix agent
    have "filter (\<lambda>r. agent_owns ?db agent (rq_attempt r)) (bl_requests db) =
        filter (\<lambda>r. agent_owns db agent (rq_attempt r)) (bl_requests db)"
      using refs owns(2) by (auto simp: refs_ok_def intro!: filter_cong)
    moreover have "filter (agent_owns ?db agent) (bl_simulated db) =
        filter (agent_owns db agent) (bl_simulated db)"
      using refs owns(2) by (auto simp: refs_ok_def intro!: filter_cong)
    ultimately show "steps_of ?db agent = steps_of db agent" by (simp add: steps_of_def)
  qed
  have "keys_ok ?db" using keys fresh by (simp add: keys_ok_def)
  moreover have "rows_ok ?db" using inv row by (simp add: ledger_inv_def rows_ok_def)
  moreover have "refs_ok ?db"
    using refs owner by (auto simp: refs_ok_def dest: map_of_SomeD intro: rev_image_eqI)
  moreover have "limits_hold ?db"
  proof (rule limits_hold_step [of db])
    show "limits_hold db" using inv by (simp add: ledger_inv_def)
    fix o' l'
    assume mem: "(o', l') \<in> set (bl_owners db)" and within: "within_limits db o' l'"
    have "int (length (owned_rows ?db o')) \<le> max_agent_invocations l'"
    proof (cases "o' = atr_owner row")
      case True
      then show ?thesis using mem room owner_limits [OF keys owner] by (simp add: owned_rows_def)
    next
      case False
      then show ?thesis using within by (simp add: owned_rows_def within_limits_def)
    qed
    then show "within_limits ?db o' l'"
      using within requests tools by (simp add: within_limits_def charged_def)
  qed simp
  moreover have "running_ok ?db"
    using inv row idle steps stepped
    by (auto simp: ledger_inv_def running_ok_def list_all_iff list_ex_iff)
  ultimately show "ledger_inv ?db" by (simp add: ledger_inv_def)
  show "ledger_le db ?db" using ledger_le_refl [of db] by (auto simp: ledger_le_def)
qed

text \<open>Finishing an attempt takes it out of the running ones and changes nothing else.\<close>

definition finish_row :: "runtime_attempt \<Rightarrow> attempt_row \<Rightarrow> attempt_row" where
  "finish_row a row = row\<lparr>atr_status := at_status a, atr_data := a\<rparr>"

lemma finish_row_simps [simp]:
  "atr_id (finish_row a row) = atr_id row" "atr_owner (finish_row a row) = atr_owner row"
  "atr_run (finish_row a row) = atr_run row" "atr_agent (finish_row a row) = atr_agent row"
  "atr_data (finish_row a row) = a" "atr_status (finish_row a row) = at_status a"
  by (simp_all add: finish_row_def)

lemma list_ex_map_same: "(\<And>r. P (f r) = P r) \<Longrightarrow> list_ex P (map f rs) = list_ex P rs"
  by (induction rs) auto

lemma sound_finish_row:
  assumes row: "row \<in> set (bl_attempts db)" "running row"
    and a: "at_status a \<noteq> AtRunning" "at_id a = atr_id row" "at_owner a = atr_owner row"
      "at_run a = atr_run row" "at_agent a = atr_agent row"
  shows "sound db (db\<lparr>bl_attempts := row_update atr_id (atr_id row) (finish_row a) (bl_attempts db)\<rparr>)"
  unfolding sound_def
proof (intro impI conjI)
  let ?f = "\<lambda>r. if atr_id r = atr_id row then finish_row a r else r"
  let ?db = "db\<lparr>bl_attempts := row_update atr_id (atr_id row) (finish_row a) (bl_attempts db)\<rparr>"
  assume inv: "ledger_inv db"
  then have keys: "keys_ok db" by (simp add: ledger_inv_def)
  have new: "bl_attempts ?db = map ?f (bl_attempts db)" by (simp add: row_update_def)
  have owns: "owns ?db = owns db"
    unfolding owns_def new by (intro ext list_ex_map_same) auto
  have agents: "agent_owns ?db = agent_owns db"
    unfolding agent_owns_def new by (intro ext list_ex_map_same) auto
  have same: "owned_requests ?db = owned_requests db" "owned_tools ?db = owned_tools db"
    "charged ?db = charged db" "steps_of ?db = steps_of db"
    by (intro ext; simp add: owned_requests_def owned_tools_def charged_def steps_of_def owns agents)+
  have owned: "length (owned_rows ?db o') = length (owned_rows db o')" for o'
    unfolding owned_rows_def new by (simp add: filter_map comp_def if_distrib cong: if_cong)
  have ids: "map atr_id (bl_attempts ?db) = map atr_id (bl_attempts db)"
    "map atr_owner (bl_attempts ?db) = map atr_owner (bl_attempts db)"
    unfolding new by (auto simp: comp_def)
  then have sets: "atr_id ` set (bl_attempts ?db) = atr_id ` set (bl_attempts db)"
    "atr_owner ` set (bl_attempts ?db) = atr_owner ` set (bl_attempts db)"
    by (metis set_map)+
  have "keys_ok ?db" using keys ids(1) by (simp add: keys_ok_def)
  moreover have "rows_ok ?db"
    using inv a keys row(1) unfolding rows_ok_def new
    by (auto simp: ledger_inv_def rows_ok_def list_all_iff attempt_row_ok_def Let_def dest: attempt_unique)
  moreover have "refs_ok ?db"
    using inv sets by (simp add: ledger_inv_def refs_ok_def)
  moreover have "limits_hold ?db"
    using inv same owned by (simp add: ledger_inv_def limits_hold_def within_limits_def)
  moreover have "running_ok ?db"
  proof -
    have "filter running (map ?f rs) = filter (\<lambda>r. running r \<and> atr_id r \<noteq> atr_id row) rs" for rs
      using a(1) by (induction rs) (auto simp: running_def)
    then have "map atr_agent (filter running (bl_attempts ?db)) =
        map atr_agent (filter (\<lambda>r. atr_id r \<noteq> atr_id row) (filter running (bl_attempts db)))"
      unfolding new by (simp add: conj_commute)
    moreover have "distinct (map atr_agent (filter running (bl_attempts db)))"
      using inv by (simp add: ledger_inv_def running_ok_def)
    ultimately have "distinct (map atr_agent (filter running (bl_attempts ?db)))"
      by (metis distinct_map_filter)
    moreover have "list_all (\<lambda>r. running r \<longrightarrow> steps_of db (atr_agent r) \<le> at_max_steps (atr_data r)) (bl_attempts ?db)"
      using inv a(1) unfolding new by (auto simp: ledger_inv_def running_ok_def list_all_iff running_def)
    ultimately show ?thesis by (simp add: running_ok_def same)
  qed
  ultimately show "ledger_inv ?db" by (simp add: ledger_inv_def)
  have "\<exists>r' \<in> set (bl_attempts ?db). attempt_le r r'" if "r \<in> set (bl_attempts db)" for r
  proof
    show "?f r \<in> set (bl_attempts ?db)" using that unfolding new by simp
    show "attempt_le r (?f r)"
      using that row keys by (auto simp: attempt_le_def dest: attempt_unique)
  qed
  then show "ledger_le db ?db" using ledger_le_refl [of db] by (simp add: ledger_le_def)
qed

subsection \<open>Requests\<close>

text \<open>A step of an agent: counted against its running attempt only.\<close>

lemma running_ok_step:
  assumes inv: "ledger_inv db" and "bl_attempts db' = bl_attempts db"
    and row: "row \<in> set (bl_attempts db)" "running row"
    and steps: "\<And>agent. steps_of db' agent = steps_of db agent + (if agent = atr_agent row then 1 else 0)"
    and room: "steps_of db (atr_agent row) < at_max_steps (atr_data row)"
  shows "running_ok db'"
proof -
  have ok: "running_ok db" using inv by (simp add: ledger_inv_def)
  have "steps_of db' (atr_agent r) \<le> at_max_steps (atr_data r)"
    if r: "r \<in> set (bl_attempts db)" "running r" for r
  proof (cases "atr_agent r = atr_agent row")
    case True
    with running_unique [OF ok r(1) row(1) r(2) row(2)] show ?thesis using steps room by simp
  next
    case False
    with ok r show ?thesis using steps by (auto simp: running_ok_def list_all_iff)
  qed
  with ok assms(2) show ?thesis by (auto simp: running_ok_def list_all_iff)
qed

lemma sound_insert_request:
  assumes row: "row \<in> set (bl_attempts db)" "running row"
    and r: "rq_attempt r = atr_id row" "request_ok r"
    and fresh: "request_key r \<notin> request_key ` set (bl_requests db)"
    and owner: "map_of (bl_owners db) (atr_owner row) = Some l"
    and room: "int (length (owned_requests db (atr_owner row))) < max_model_requests l"
      "charged db (atr_owner row) + charge (rq_data r) \<le> max_total_tokens l"
      "steps_of db (atr_agent row) < at_max_steps (atr_data row)"
  shows "sound db (db\<lparr>bl_requests := bl_requests db @ [r]\<rparr>)"
  unfolding sound_def
proof (intro impI conjI)
  let ?db = "db\<lparr>bl_requests := bl_requests db @ [r]\<rparr>"
  assume inv: "ledger_inv db"
  then have keys: "keys_ok db" by (simp add: ledger_inv_def)
  have owns: "owns ?db = owns db" "agent_owns ?db = agent_owns db"
    by (rule owns_cong agent_owns_cong, simp)+
  have requests: "owned_requests ?db o' = owned_requests db o' @ (if o' = atr_owner row then [r] else [])" for o'
    using owns_iff [OF keys row(1)] r(1) by (auto simp: owned_requests_def owns)
  have tools: "owned_tools ?db = owned_tools db" "owned_rows ?db = owned_rows db"
    by (intro ext; simp add: owned_tools_def owned_rows_def owns)+
  have "running_ok ?db"
    using agent_owns_iff [OF keys row(1)] r(1) room(3)
    by (intro running_ok_step [OF inv _ row]) (auto simp: steps_of_def owns)
  moreover have "limits_hold ?db"
  proof (rule limits_hold_step [of db])
    show "limits_hold db" using inv by (simp add: ledger_inv_def)
    fix o' l'
    assume mem: "(o', l') \<in> set (bl_owners db)" and within: "within_limits db o' l'"
    show "within_limits ?db o' l'"
    proof (cases "o' = atr_owner row")
      case True
      with mem owner_limits [OF keys owner] have "l' = l" by simp
      with True within room show ?thesis
        by (simp add: within_limits_def requests tools charged_def)
    next
      case False
      with within show ?thesis by (simp add: within_limits_def requests tools charged_def)
    qed
  qed simp
  moreover have "keys_ok ?db" using keys fresh by (simp add: keys_ok_def)
  moreover have "rows_ok ?db" using inv r(2) by (simp add: ledger_inv_def rows_ok_def)
  moreover have "refs_ok ?db" using inv row(1) r(1) by (auto simp: ledger_inv_def refs_ok_def)
  ultimately show "ledger_inv ?db" by (simp add: ledger_inv_def)
  show "ledger_le db ?db" using ledger_le_refl [of db] by (auto simp: ledger_le_def)
qed

lemma sum_list_mono2:
  "(\<And>x. x \<in> set xs \<Longrightarrow> f x \<le> (g x :: int)) \<Longrightarrow> sum_list (map f xs) \<le> sum_list (map g xs)"
  by (rule sum_list_mono)

text \<open>Recording an outcome: the reservation stays, the charge does not grow.\<close>

lemma charge_le_allowance: "charge a \<le> rs_allowance (ac_reservation a)"
  by (cases "ac_outcome a") (auto simp: charge_def)

lemma sound_save_request:
  assumes r: "find_request db aid (rs_sequence (ac_reservation item)) = Some r"
    and old: "ac_outcome (rq_data r) = OReserved" "ac_reservation (rq_data r) = ac_reservation item"
    and ok: "ledger_inv db \<Longrightarrow> request_ok (r\<lparr>rq_data := item\<rparr>)"
  shows "sound db (save_request aid item db)"
  unfolding sound_def
proof (intro impI conjI)
  let ?db = "save_request aid item db"
  let ?f = "\<lambda>x. if request_key x = request_key r then x\<lparr>rq_data := item\<rparr> else x"
  assume inv: "ledger_inv db"
  then have keys: "keys_ok db" by (simp add: ledger_inv_def)
  from r have mem: "r \<in> set (bl_requests db)" and key: "request_key r = (aid, rs_sequence (ac_reservation item))"
    by (auto simp: find_request_def dest: row_lookup_Some)
  have unique: "x = r" if "x \<in> set (bl_requests db)" "request_key x = request_key r" for x
    using keys mem that by (auto simp: keys_ok_def distinct_map inj_on_def)
  have new: "bl_requests ?db = map ?f (bl_requests db)"
    by (simp add: save_request_def row_update_def key)
  have rest: "bl_attempts ?db = bl_attempts db" "bl_owners ?db = bl_owners db" "bl_runs ?db = bl_runs db"
    "bl_batches ?db = bl_batches db" "bl_simulated ?db = bl_simulated db"
    by (simp_all add: save_request_def)
  have owns: "owns ?db = owns db" "agent_owns ?db = agent_owns db"
    by (rule owns_cong agent_owns_cong, simp add: rest)+
  have f_attempt: "rq_attempt (?f x) = rq_attempt x" "request_key (?f x) = request_key x" for x
    by (simp_all add: request_key_def)
  have requests: "owned_requests ?db o' = map ?f (owned_requests db o')" for o'
    unfolding owned_requests_def new owns by (simp add: filter_map comp_def f_attempt)
  have same: "owned_tools ?db = owned_tools db" "owned_rows ?db = owned_rows db" "steps_of ?db = steps_of db"
    by (intro ext; simp add: owned_tools_def owned_rows_def steps_of_def owns rest new filter_map comp_def
        f_attempt)+
  have "charged ?db o' \<le> charged db o'" for o'
    unfolding charged_def requests map_map
  proof (rule sum_list_mono2)
    fix x
    assume "x \<in> set (owned_requests db o')"
    then have "x \<in> set (bl_requests db)" by (simp add: owned_requests_def)
    moreover have "charge item \<le> charge (rq_data r)"
      using charge_le_allowance [of item] old by (simp add: charge_def)
    ultimately show "((\<lambda>r. charge (rq_data r)) \<circ> ?f) x \<le> charge (rq_data x)"
      using unique by auto
  qed
  note less = this
  have "limits_hold ?db"
  proof (rule limits_hold_step [of db])
    show "limits_hold db" using inv by (simp add: ledger_inv_def)
    fix o' l'
    assume "within_limits db o' l'"
    then show "within_limits ?db o' l'"
      using less [of o'] by (simp add: within_limits_def same requests)
  qed (simp add: rest)
  moreover have "keys_ok ?db"
    using keys by (simp add: keys_ok_def rest new comp_def f_attempt)
  moreover have "rows_ok ?db"
    using inv ok [OF inv] unique by (auto simp: ledger_inv_def rows_ok_def rest new list_all_iff)
  moreover have "map rq_attempt (bl_requests ?db) = map rq_attempt (bl_requests db)"
    unfolding new by (simp add: comp_def f_attempt)
  then have "rq_attempt ` set (bl_requests ?db) = rq_attempt ` set (bl_requests db)" by (metis set_map)
  then have "refs_ok ?db" using inv by (simp add: ledger_inv_def refs_ok_def rest)
  moreover have "running_ok ?db" using inv by (simp add: ledger_inv_def running_ok_def same rest)
  ultimately show "ledger_inv ?db" by (simp add: ledger_inv_def)
  have "\<exists>y \<in> set (bl_requests ?db). request_le x y" if "x \<in> set (bl_requests db)" for x
  proof
    show "?f x \<in> set (bl_requests ?db)" using that unfolding new by simp
    show "request_le x (?f x)"
    proof (cases "request_key x = request_key r")
      case True
      with unique [OF that True] old show ?thesis by (simp add: request_le_def request_key_def)
    qed simp
  qed
  then show "ledger_le db ?db" using ledger_le_refl [of db] by (simp add: ledger_le_def rest)
qed

subsection \<open>Tool batches and simulated steps\<close>

lemma sound_insert_batch:
  assumes row: "row \<in> set (bl_attempts db)"
    and b: "tb_attempt b = atr_id row" "batch_key b \<notin> batch_key ` set (bl_batches db)"
    and owner: "map_of (bl_owners db) (atr_owner row) = Some l"
    and room: "owned_tools db (atr_owner row) + tb_calls b \<le> max_tool_calls l"
  shows "sound db (db\<lparr>bl_batches := bl_batches db @ [b]\<rparr>)"
  unfolding sound_def
proof (intro impI conjI)
  let ?db = "db\<lparr>bl_batches := bl_batches db @ [b]\<rparr>"
  assume inv: "ledger_inv db"
  then have keys: "keys_ok db" by (simp add: ledger_inv_def)
  have owns: "owns ?db = owns db" "agent_owns ?db = agent_owns db"
    by (rule owns_cong agent_owns_cong, simp)+
  have same: "owned_requests ?db = owned_requests db" "owned_rows ?db = owned_rows db"
    "charged ?db = charged db" "steps_of ?db = steps_of db"
    by (intro ext; simp add: owned_requests_def owned_rows_def charged_def steps_of_def owns)+
  have tools: "owned_tools ?db o' = owned_tools db o' + (if o' = atr_owner row then tb_calls b else 0)" for o'
    using owns_iff [OF keys row] b(1) by (auto simp: owned_tools_def owns)
  have "limits_hold ?db"
  proof (rule limits_hold_step [of db])
    show "limits_hold db" using inv by (simp add: ledger_inv_def)
    fix o' l'
    assume "(o', l') \<in> set (bl_owners db)" and "within_limits db o' l'"
    then show "within_limits ?db o' l'"
      using owner_limits [OF keys owner] room by (auto simp: within_limits_def same tools)
  qed simp
  moreover have "keys_ok ?db" using keys b(2) by (simp add: keys_ok_def)
  ultimately show "ledger_inv ?db"
    using inv row b(1) by (auto simp: ledger_inv_def rows_ok_def refs_ok_def running_ok_def same)
  show "ledger_le db ?db" using ledger_le_refl [of db] by (auto simp: ledger_le_def)
qed

lemma sound_insert_simulated:
  assumes row: "row \<in> set (bl_attempts db)" "running row"
    and fresh: "atr_id row \<notin> set (bl_simulated db)"
    and room: "steps_of db (atr_agent row) < at_max_steps (atr_data row)"
  shows "sound db (db\<lparr>bl_simulated := bl_simulated db @ [atr_id row]\<rparr>)"
  unfolding sound_def
proof (intro impI conjI)
  let ?db = "db\<lparr>bl_simulated := bl_simulated db @ [atr_id row]\<rparr>"
  assume inv: "ledger_inv db"
  then have keys: "keys_ok db" by (simp add: ledger_inv_def)
  have owns: "owns ?db = owns db" "agent_owns ?db = agent_owns db"
    by (rule owns_cong agent_owns_cong, simp)+
  have same: "owned_requests ?db = owned_requests db" "owned_rows ?db = owned_rows db"
    "charged ?db = charged db" "owned_tools ?db = owned_tools db"
    by (intro ext; simp add: owned_requests_def owned_rows_def charged_def owned_tools_def owns)+
  have "running_ok ?db"
    using agent_owns_iff [OF keys row(1)] room
    by (intro running_ok_step [OF inv _ row]) (auto simp: steps_of_def owns)
  moreover have "limits_hold ?db"
    using inv by (simp add: ledger_inv_def limits_hold_def within_limits_def same)
  ultimately show "ledger_inv ?db"
    using inv keys fresh row(1) by (auto simp: ledger_inv_def keys_ok_def rows_ok_def refs_ok_def)
  show "ledger_le db ?db" using ledger_le_refl [of db] by (auto simp: ledger_le_def)
qed

end
