(* ===== verification/Budget_Properties.thy ===== *)
theory Budget_Properties
  imports Budget_Invariants
begin

text \<open>
  The operations of the runtime ledger keep its invariant and move it forward: every operation is
  reduced to the updates of \<open>Budget_Invariants\<close>, the ledger is interpreted as a durable,
  monotone component, and the guarantees follow for every sequence of operations.
\<close>

section \<open>What the reads establish\<close>

lemma boundary_Inr [res_simps]: "boundary m = Inr x \<longleftrightarrow> m = Inr x"
  by (auto simp: boundary_def split: sum.splits exn.splits)

lemma owner_of_Inr:
  "owner_of env db v rid = Inr (Some (owner, l)) \<Longrightarrow>
     map_of (bl_runs db) rid = Some owner \<and> map_of (bl_owners db) owner = Some l"
  unfolding owner_of.simps [of env db v rid] bind_res_def [symmetric]
  by (auto simp: res_simps split: if_splits option.splits list.splits)

lemma the_attempt_Inr:
  "the_attempt env db aid = Inr a \<Longrightarrow> \<exists>row l. row \<in> set (bl_attempts db) \<and> atr_id row = aid \<and>
     atr_data row = a \<and> attempt_row_ok row \<and> owner_of env db [] (at_run a) = Inr (Some (at_owner a, l))"
  by (force simp: the_attempt_def find_attempt_def res_simps Let_def dest: row_lookup_Some)

lemma active_attempt_Inr:
  "active_attempt env db aid = Inr a \<Longrightarrow> the_attempt env db aid = Inr a \<and> at_status a = AtRunning"
  by (auto simp: active_attempt_def res_simps split: if_splits)

lemma map_res_length: "map_res f xs = Inr ys \<Longrightarrow> length ys = length xs"
  by (induction xs arbitrary: ys) (auto simp: res_simps)

lemma attempts_length: "map_res (\<lambda>row. the_attempt env db (atr_id row)) xs = Inr ys \<Longrightarrow> length ys = length xs"
  by (rule map_res_length)

lemma decode_requests: "map_res (decode_request env) rows = Inr items \<Longrightarrow> items = map rq_data rows"
  by (induction rows arbitrary: items) (auto simp: res_simps decode_request_def)

lemma snapshot_of_Inr:
  assumes "snapshot_of env now db rid = Inr s" and "owner_of env db [] rid = Inr (Some (owner, l))"
  shows "sn_limits s = Some l"
    "sn_invocations s = int (length (owned_rows db owner))"
    "sn_requests s = int (length (owned_requests db owner))"
    "sn_tools s = owned_tools db owner"
    "sn_total s = sum_list (map (\<lambda>u. or_zero (us_total u)) (usages (map rq_data (owned_requests db owner))))"
    "sn_reserved s = allowances OReserved (map rq_data (owned_requests db owner))"
    "sn_unknown s = allowances OUnknown (map rq_data (owned_requests db owner))"
  using assms
  by (auto simp: snapshot_of_def attempts_of_def res_simps Let_def dest!: decode_requests attempts_length)

lemma operational_Inr:
  "operational s = Inr l \<Longrightarrow> sn_limits s = Some l \<and> sn_completeness s = Complete"
  by (auto simp: operational_def res_simps)

text \<open>The snapshot accounts for at least the charges.\<close>

lemma charges_le_totals:
  "list_all request_ok rows \<Longrightarrow> sum_list (map (\<lambda>r. charge (rq_data r)) rows) \<le>
     sum_list (map (\<lambda>u. or_zero (us_total u)) (usages (map rq_data rows))) +
     allowances OReserved (map rq_data rows) + allowances OUnknown (map rq_data rows)"
proof (induction rows)
  case (Cons r rows)
  let ?a = "rq_data r"
  have nonneg: "0 \<le> (case ac_usage ?a of None \<Rightarrow> 0 | Some u \<Rightarrow> or_zero (us_total u))"
    using Cons.prems by (auto simp: request_ok_def usage_valid_def opt_range_def or_zero_def split: option.splits)
  have "charge ?a \<le> (case ac_usage ?a of None \<Rightarrow> 0 | Some u \<Rightarrow> or_zero (us_total u)) +
      (if ac_outcome ?a = OReserved then rs_allowance (ac_reservation ?a) else 0) +
      (if ac_outcome ?a = OUnknown then rs_allowance (ac_reservation ?a) else 0)"
    using nonneg by (cases "ac_outcome ?a") (auto simp: charge_def)
  with Cons show ?case
    by (auto simp: usages_def List.map_filter_def allowances_def split: option.splits)
qed (simp add: usages_def allowances_def List.map_filter_def)

lemma charged_le_snapshot:
  assumes "ledger_inv db" and "snapshot_of env now db rid = Inr s"
    and "owner_of env db [] rid = Inr (Some (owner, l))"
  shows "charged db owner \<le> sn_total s + sn_reserved s + sn_unknown s"
proof -
  have "list_all request_ok (owned_requests db owner)"
    using assms(1) by (auto simp: ledger_inv_def rows_ok_def owned_requests_def list_all_iff)
  from charges_le_totals [OF this] show ?thesis
    by (simp add: charged_def snapshot_of_Inr [OF assms(2,3)])
qed

section \<open>Every operation is sound\<close>

lemma sound_then_event:
  assumes "budget_event env i r t p db1 = Inr db2" and "sound db db1"
  shows "sound db db2"
  using assms by (blast intro: sound_trans sound_event)

lemma register_run_sound:
  assumes "register_run env db r limits parent fresh owner = Inr (db', s)" and "limits_ok limits"
  shows "sound db db'"
proof (cases fresh)
  case True
  let ?db = "db\<lparr>bl_owners := bl_owners db @ [(owner, limits)]\<rparr>"
  from assms(1) True have "owner \<notin> fst ` set (bl_owners db) \<and>
      (\<exists>t p. budget_event env 1 r t p (?db\<lparr>bl_runs := bl_runs ?db @ [(run_id r, owner)]\<rparr>) = Inr db')"
    by (clarsimp simp: register_run_def res_simps) (intro exI, assumption)
  then obtain t p where fresh: "owner \<notin> fst ` set (bl_owners db)"
    and ev: "budget_event env 1 r t p (?db\<lparr>bl_runs := bl_runs ?db @ [(run_id r, owner)]\<rparr>) = Inr db'"
    by blast
  show ?thesis
    by (rule sound_then_event [OF ev], rule sound_trans [OF _ sound_add_run])
      (rule sound_add_owner [OF fresh assms(2)])
next
  case False
  with assms(1) have "\<exists>t p. budget_event env 1 r t p (db\<lparr>bl_runs := bl_runs db @ [(run_id r, owner)]\<rparr>) = Inr db'"
    by (clarsimp simp: register_run_def res_simps) (intro exI, assumption)
  then show ?thesis by (blast intro: sound_then_event sound_add_run)
qed

lemma initialize_run_sound:
  assumes "initialize_run env db rid limits parent = Inr (db', s)"
  shows "sound db db'"
proof -
  have "db' = db \<or> (\<exists>r fresh owner. limits_ok limits \<and>
      register_run env db r limits parent fresh owner = Inr (db', s))"
    using assms by (clarsimp simp: initialize_run_def res_simps Let_def split: option.splits)
  then show ?thesis by (auto intro: register_run_sound)
qed

lemma admit_attempt_sound:
  assumes "admit_attempt env db r limits cand = Inr (db', aid)" and "at_status cand = AtRunning"
    and owner: "owner_of env db [] (run_id r) = Inr (Some (at_owner cand, limits))"
  shows "sound db db'"
proof -
  let ?row = "\<lparr>atr_id = at_id cand, atr_owner = at_owner cand, atr_run = at_run cand,
     atr_agent = at_agent cand, atr_status = at_status cand, atr_data = cand\<rparr>"
  have "\<exists>s t p. snapshot_of env (clk env 1) db (run_id r) = Inr s \<and>
      sn_invocations s < max_agent_invocations limits \<and>
      steps_of db (at_agent cand) < at_max_steps cand \<and>
      \<not> list_ex (\<lambda>r. atr_agent r = at_agent cand \<and> atr_status r = AtRunning) (bl_attempts db) \<and>
      at_id cand \<notin> atr_id ` set (bl_attempts db) \<and>
      budget_event env 2 r t p (db\<lparr>bl_attempts := bl_attempts db @ [?row]\<rparr>) = Inr db'"
    using assms(1)
    by (clarsimp simp: admit_attempt_def insert_attempt_def res_simps Let_def not_le)
      (intro exI conjI, assumption+)
  then obtain s t p where s: "snapshot_of env (clk env 1) db (run_id r) = Inr s"
    and facts: "sn_invocations s < max_agent_invocations limits"
      "steps_of db (at_agent cand) < at_max_steps cand"
      "\<not> list_ex (\<lambda>r. atr_agent r = at_agent cand \<and> atr_status r = AtRunning) (bl_attempts db)"
      "at_id cand \<notin> atr_id ` set (bl_attempts db)"
    and ev: "budget_event env 2 r t p (db\<lparr>bl_attempts := bl_attempts db @ [?row]\<rparr>) = Inr db'"
    by blast
  have "sound db (db\<lparr>bl_attempts := bl_attempts db @ [?row]\<rparr>)"
    using facts owner_of_Inr [OF owner] snapshot_of_Inr(2) [OF s owner] assms(2)
    by (intro sound_insert_attempt [where l = limits]) (auto simp: attempt_row_ok_def running_def)
  with ev show ?thesis by (rule sound_then_event)
qed

lemma begin_attempt_sound:
  assumes "begin_attempt env db req chosen = Inr (db', aid)"
  shows "sound db db'"
  using assms
  by (auto simp: begin_attempt_def res_simps Let_def split: if_splits)
    (erule admit_attempt_sound, simp, simp)+

text \<open>An active attempt, its row and its owner.\<close>

lemma active_attempt_row:
  assumes "active_attempt env db aid = Inr a"
  obtains row l where "row \<in> set (bl_attempts db)" "running row" "atr_id row = aid" "atr_data row = a"
    "owner_of env db [] (at_run a) = Inr (Some (atr_owner row, l))" "atr_agent row = at_agent a"
    "map_of (bl_owners db) (atr_owner row) = Some l"
proof -
  from active_attempt_Inr [OF assms] have "the_attempt env db aid = Inr a" and run: "at_status a = AtRunning"
    by auto
  from the_attempt_Inr [OF this(1)] obtain row l where row: "row \<in> set (bl_attempts db)" "atr_id row = aid"
    "atr_data row = a" "attempt_row_ok row" "owner_of env db [] (at_run a) = Inr (Some (at_owner a, l))"
    by blast
  show thesis
    by (rule that [of row l]) (use row run owner_of_Inr [OF row(5)] in
        \<open>auto simp: running_def attempt_row_ok_def Let_def\<close>)
qed

lemma reserve_request_sound:
  assumes "reserve_request env db aid sq n = Inr (db', res)"
  shows "sound db db'"
  unfolding sound_def
proof
  assume inv: "ledger_inv db"
  let ?req = "\<lparr>rq_attempt = aid, rq_sequence = sq,
          rq_data = \<lparr>ac_reservation = res, ac_outcome = OReserved, ac_usage = None\<rparr>\<rparr>"
  have "\<exists>a s limits q t p. active_attempt env db aid = Inr a \<and>
      snapshot_of env (clk env 0) db (at_run a) = Inr s \<and> operational s = Inr limits \<and>
      0 < allowance_for limits s n \<and> sn_requests s < max_model_requests limits \<and>
      steps_of db (at_agent a) < at_max_steps a \<and>
      res = \<lparr>rs_attempt = aid, rs_sequence = sq, rs_allowance = allowance_for limits s n,
           rs_requested = n, rs_reserved_at = clk env 1\<rparr> \<and>
      request_key ?req \<notin> request_key ` set (bl_requests db) \<and>
      budget_event env 2 q t p (db\<lparr>bl_requests := bl_requests db @ [?req]\<rparr>) = Inr db'"
    using assms by (clarsimp simp: reserve_request_def res_simps Let_def not_le)
      (intro exI, assumption)
  then obtain a s limits q t p where a: "active_attempt env db aid = Inr a"
    and s: "snapshot_of env (clk env 0) db (at_run a) = Inr s" "operational s = Inr limits"
    and room: "0 < allowance_for limits s n" "sn_requests s < max_model_requests limits"
      "steps_of db (at_agent a) < at_max_steps a"
    and res: "res = \<lparr>rs_attempt = aid, rs_sequence = sq, rs_allowance = allowance_for limits s n,
           rs_requested = n, rs_reserved_at = clk env 1\<rparr>"
    and ins: "request_key ?req \<notin> request_key ` set (bl_requests db)"
    and ev: "budget_event env 2 q t p (db\<lparr>bl_requests := bl_requests db @ [?req]\<rparr>) = Inr db'"
    by blast
  obtain row l where row: "row \<in> set (bl_attempts db)" "running row" "atr_id row = aid" "atr_data row = a"
    "owner_of env db [] (at_run a) = Inr (Some (atr_owner row, l))" "atr_agent row = at_agent a"
    "map_of (bl_owners db) (atr_owner row) = Some l"
    using active_attempt_row [OF a] .
  note snap = snapshot_of_Inr [OF s(1) row(5)]
  have l: "limits = l" using operational_Inr [OF s(2)] snap(1) by simp
  have "sound db (db\<lparr>bl_requests := bl_requests db @ [?req]\<rparr>)"
  proof (rule sound_insert_request [OF row(1,2) _ _ _ row(7)])
    show "request_ok ?req"
      using room(1) res by (simp add: request_ok_def accounting_valid_def)
    show "charged db (atr_owner row) + charge (rq_data ?req) \<le> max_total_tokens l"
      using charged_le_snapshot [OF inv s(1) row(5)] res l
      by (simp add: charge_def allowance_for_def)
  qed (use ins row snap room l in auto)
  with ev have "sound db db'" by (rule sound_then_event)
  with inv show "ledger_inv db' \<and> ledger_le db db'" by (simp add: sound_def)
qed

lemma the_request_Inr:
  "the_request env db aid res = Inr item \<Longrightarrow> \<exists>row. find_request db aid (rs_sequence res) = Some row \<and>
     rq_data row = item \<and> ac_reservation item = res \<and> row \<in> set (bl_requests db) \<and>
     request_key row = (aid, rs_sequence res)"
  by (fastforce simp: the_request_def find_request_def res_simps dest: row_lookup_Some)

lemma request_ok_update:
  assumes "ledger_inv db" and "r \<in> set (bl_requests db)"
    and "ac_reservation item = ac_reservation (rq_data r)" and "accounting_valid item"
    and "case ac_usage item of None \<Rightarrow> True | Some u \<Rightarrow> usage_valid u"
  shows "request_ok (r\<lparr>rq_data := item\<rparr>)"
  using assms by (auto simp: ledger_inv_def rows_ok_def list_all_iff request_ok_def)

lemma record_response_sound:
  assumes "record_response env db aid res u = Inr (db', result)"
  shows "sound db db'"
proof -
  from assms consider "db' = db"
    | item q t p where "the_request env db aid res = Inr item" "ac_outcome item = OReserved" "usage_valid u"
        "accounting_valid \<lparr>ac_reservation = res,
           ac_outcome = (if us_total u \<noteq> None then OReported else OUnknown), ac_usage = Some u\<rparr>"
        "budget_event env 1 q t p (save_request aid \<lparr>ac_reservation = res,
           ac_outcome = (if us_total u \<noteq> None then OReported else OUnknown), ac_usage = Some u\<rparr> db) = Inr db'"
    by (fastforce simp: record_response_def res_simps Let_def split: if_splits)
  then show ?thesis
  proof cases
    case 2
    obtain row where row: "find_request db aid (rs_sequence res) = Some row" "rq_data row = item"
      "ac_reservation item = res" "row \<in> set (bl_requests db)"
      using the_request_Inr [OF 2(1)] by blast
    show ?thesis
      by (rule sound_then_event [OF 2(5)], rule sound_save_request)
        (use row 2 request_ok_update [OF _ row(4)] in auto)
  qed simp
qed

lemma record_unknown_sound:
  assumes "record_unknown env db aid res = Inr db'"
  shows "sound db db'"
proof -
  from assms consider "db' = db"
    | item q t p where "the_request env db aid res = Inr item" "ac_outcome item = OReserved"
        "budget_event env 0 q t p
          (save_request aid \<lparr>ac_reservation = res, ac_outcome = OUnknown, ac_usage = None\<rparr> db) = Inr db'"
    by (fastforce simp: record_unknown_def res_simps split: if_splits)
  then show ?thesis
  proof cases
    case 2
    obtain row where row: "find_request db aid (rs_sequence res) = Some row" "rq_data row = item"
      "ac_reservation item = res" "row \<in> set (bl_requests db)"
      using the_request_Inr [OF 2(1)] by blast
    show ?thesis
      by (rule sound_then_event [OF 2(3)], rule sound_save_request)
        (use row 2 request_ok_update [OF _ row(4)] in \<open>auto simp: accounting_valid_def\<close>)
  qed simp
qed

lemma reserve_tool_batch_sound:
  assumes "reserve_tool_batch env db aid sq calls = Inr db'"
  shows "sound db db'"
proof -
  let ?b = "\<lparr>tb_attempt = aid, tb_sequence = sq,
     tb_digest = canonical_json_hash (sha256 env) (JArr (map JStr calls)), tb_calls = int (length calls)\<rparr>"
  have "\<exists>a s limits q t p. active_attempt env db aid = Inr a \<and>
      snapshot_of env (clk env 0) db (at_run a) = Inr s \<and> operational s = Inr limits \<and>
      sn_tools s + int (length calls) \<le> max_tool_calls limits \<and>
      batch_key ?b \<notin> batch_key ` set (bl_batches db) \<and>
      budget_event env 1 q t p (db\<lparr>bl_batches := bl_batches db @ [?b]\<rparr>) = Inr db'"
    using assms by (clarsimp simp: reserve_tool_batch_def res_simps Let_def not_less)
      (intro exI conjI, assumption+)
  then obtain a s limits q t p where a: "active_attempt env db aid = Inr a"
    and s: "snapshot_of env (clk env 0) db (at_run a) = Inr s" "operational s = Inr limits"
    and room: "sn_tools s + int (length calls) \<le> max_tool_calls limits"
    and fresh: "batch_key ?b \<notin> batch_key ` set (bl_batches db)"
    and ev: "budget_event env 1 q t p (db\<lparr>bl_batches := bl_batches db @ [?b]\<rparr>) = Inr db'"
    by blast
  obtain row l where row: "row \<in> set (bl_attempts db)" "running row" "atr_id row = aid" "atr_data row = a"
    "owner_of env db [] (at_run a) = Inr (Some (atr_owner row, l))" "atr_agent row = at_agent a"
    "map_of (bl_owners db) (atr_owner row) = Some l"
    using active_attempt_row [OF a] .
  show ?thesis
    by (rule sound_then_event [OF ev], rule sound_insert_batch [OF row(1) _ fresh row(7)])
      (use row room operational_Inr [OF s(2)] snapshot_of_Inr [OF s(1) row(5)] in auto)
qed

lemma record_simulated_step_sound:
  assumes "record_simulated_step env db aid = Inr db'"
  shows "sound db db'"
proof -
  have "\<exists>a q t p. active_attempt env db aid = Inr a \<and> aid \<notin> set (bl_simulated db) \<and>
      steps_of db (at_agent a) < at_max_steps a \<and>
      budget_event env 1 q t p (db\<lparr>bl_simulated := bl_simulated db @ [aid]\<rparr>) = Inr db'"
    using assms by (clarsimp simp: record_simulated_step_def res_simps Let_def not_le)
      (intro exI conjI, assumption+)
  then obtain a q t p where a: "active_attempt env db aid = Inr a" and fresh: "aid \<notin> set (bl_simulated db)"
    and room: "steps_of db (at_agent a) < at_max_steps a"
    and ev: "budget_event env 1 q t p (db\<lparr>bl_simulated := bl_simulated db @ [aid]\<rparr>) = Inr db'"
    by blast
  obtain row l where row: "row \<in> set (bl_attempts db)" "running row" "atr_id row = aid" "atr_data row = a"
    "owner_of env db [] (at_run a) = Inr (Some (atr_owner row, l))" "atr_agent row = at_agent a"
    "map_of (bl_owners db) (atr_owner row) = Some l"
    using active_attempt_row [OF a] .
  have "sound db (db\<lparr>bl_simulated := bl_simulated db @ [atr_id row]\<rparr>)"
    by (rule sound_insert_simulated [OF row(1,2)]) (use row fresh room in auto)
  with row(3) ev show ?thesis by (simp add: sound_then_event)
qed

lemma abandon_requests_sound:
  assumes "ledger_inv db" and "distinct (map request_key rows)" and "set rows \<subseteq> set (bl_requests db)"
    and "\<And>r. r \<in> set rows \<Longrightarrow> rq_attempt r = aid" and "abandon_requests env aid rows db = Inr db'"
  shows "ledger_inv db' \<and> ledger_le db db' \<and> bl_attempts db' = bl_attempts db"
  using assms
proof (induction rows arbitrary: db)
  case Nil
  then show ?case by (simp add: ledger_le_refl)
next
  case (Cons row rows)
  let ?item = "\<lparr>ac_reservation = ac_reservation (rq_data row), ac_outcome = OUnknown, ac_usage = None\<rparr>"
  let ?db = "if ac_outcome (rq_data row) = OReserved then save_request aid ?item db else db"
  have mem: "row \<in> set (bl_requests db)" using Cons.prems(3) by simp
  have ok: "request_ok row" using Cons.prems(1) mem
    by (auto simp: ledger_inv_def rows_ok_def list_all_iff)
  have key: "request_key row = (aid, rs_sequence (ac_reservation (rq_data row)))"
    using ok Cons.prems(4) [of row] by (simp add: request_key_def request_ok_def)
  have found: "find_request db aid (rs_sequence (ac_reservation (rq_data row))) = Some row"
    using Cons.prems(1) mem key unfolding find_request_def key [symmetric]
    by (intro row_lookup_distinct) (auto simp: ledger_inv_def keys_ok_def)
  have "sound db ?db"
  proof (cases "ac_outcome (rq_data row) = OReserved")
    case True
    have "sound db (save_request aid ?item db)"
    proof (rule sound_save_request)
      show "find_request db aid (rs_sequence (ac_reservation ?item)) = Some row" using found by simp
      show "request_ok (row\<lparr>rq_data := ?item\<rparr>)"
        using request_ok_update [OF Cons.prems(1) mem, of ?item] by (simp add: accounting_valid_def)
    qed (use True in simp_all)
    with True show ?thesis by simp
  qed simp
  with Cons.prems(1) have inv: "ledger_inv ?db" and le: "ledger_le db ?db" by (auto simp: sound_def)
  have still: "r \<in> set (bl_requests ?db)" if "r \<in> set rows" for r
  proof -
    have "request_key row \<notin> request_key ` set rows" using Cons.prems(2) by simp
    then have "request_key r \<noteq> request_key row" using that by (metis image_eqI)
    moreover have "r \<in> set (bl_requests db)" using Cons.prems(3) that by auto
    ultimately show ?thesis
      using key by (auto simp: save_request_def row_update_def intro!: rev_image_eqI)
  qed
  have "abandon_requests env aid rows ?db = Inr db'"
    using Cons.prems(5) by (simp only: abandon_requests.simps bind_res_Inr) blast
  then have "ledger_inv db' \<and> ledger_le ?db db' \<and> bl_attempts db' = bl_attempts ?db"
    using still Cons.prems(2,4) by (intro Cons.IH inv) auto
  moreover have "bl_attempts ?db = bl_attempts db" by (simp add: save_request_def)
  ultimately show ?case using le by (auto intro: ledger_le_trans)
qed

lemma finish_attempt_sound:
  assumes "finish_attempt env db aid status err = Inr (db', s)"
  shows "sound db db'"
  unfolding sound_def
proof
  assume inv: "ledger_inv db"
  obtain a where a: "the_attempt env db aid = Inr a" "status \<noteq> AtRunning"
    using assms by (auto simp: finish_attempt_def res_simps)
  have "db' = db \<or> (at_status a = AtRunning \<and> (\<exists>db1 q t p f.
      abandon_requests env aid (filter (\<lambda>r. rq_attempt r = aid) (bl_requests db)) db = Inr db1 \<and>
      budget_event env 1 q t p (db1\<lparr>bl_attempts := row_update atr_id aid (finish_row
        (a\<lparr>at_status := status, at_finished := Some f, at_error := err\<rparr>)) (bl_attempts db1)\<rparr>) = Inr db'))"
  proof (cases "at_status a = AtRunning")
    case True
    with assms a have "\<exists>db1 q t p f.
        abandon_requests env aid (filter (\<lambda>r. rq_attempt r = aid) (bl_requests db)) db = Inr db1 \<and>
        budget_event env 1 q t p (db1\<lparr>bl_attempts := row_update atr_id aid (finish_row
          (a\<lparr>at_status := status, at_finished := Some f, at_error := err\<rparr>)) (bl_attempts db1)\<rparr>) = Inr db'"
      unfolding finish_row_def
      by (clarsimp simp: finish_attempt_def res_simps Let_def) (intro exI conjI, assumption+)
    with True show ?thesis by blast
  next
    case False
    with assms a show ?thesis by (simp add: finish_attempt_def res_simps)
  qed
  then consider "db' = db" | db1 q t p f where "at_status a = AtRunning"
      "abandon_requests env aid (filter (\<lambda>r. rq_attempt r = aid) (bl_requests db)) db = Inr db1"
      "budget_event env 1 q t p (db1\<lparr>bl_attempts := row_update atr_id aid (finish_row
        (a\<lparr>at_status := status, at_finished := Some f, at_error := err\<rparr>)) (bl_attempts db1)\<rparr>) = Inr db'"
    by blast
  then show "ledger_inv db' \<and> ledger_le db db'"
  proof cases
    case 2
    obtain row where row: "row \<in> set (bl_attempts db)" "atr_id row = aid" "atr_data row = a" "attempt_row_ok row"
      using the_attempt_Inr [OF a(1)] by blast
    have first: "ledger_inv db1 \<and> ledger_le db db1 \<and> bl_attempts db1 = bl_attempts db"
      using inv by (intro abandon_requests_sound [OF _ _ _ _ 2(2)])
        (auto simp: ledger_inv_def keys_ok_def distinct_map_filter)
    have "sound db1 (db1\<lparr>bl_attempts := row_update atr_id (atr_id row) (finish_row
        (a\<lparr>at_status := status, at_finished := Some f, at_error := err\<rparr>)) (bl_attempts db1)\<rparr>)"
      by (rule sound_finish_row) (use row a 2 first in \<open>auto simp: attempt_row_ok_def running_def Let_def\<close>)
    with row(2) have "sound db1 db'" using 2(3) by (simp add: sound_then_event)
    with first show ?thesis by (auto simp: sound_def intro: ledger_le_trans)
  qed (use inv in \<open>simp add: ledger_le_refl\<close>)
qed

section \<open>The ledger as a durable component\<close>

text \<open>
  An operation with its arguments. \<open>ForeignWrite\<close> stands for whatever other stores write to the
  shared tables between two ledger operations.
\<close>

datatype budget_op =
    InitializeRun budget_env string budget_limits "string option"
  | BeginAttempt budget_env invocation "string option"
  | ReserveRequest budget_env string int int
  | RecordResponse budget_env string reservation usage
  | RecordUnknown budget_env string reservation
  | ReserveToolBatch budget_env string int "string list"
  | RecordSimulatedStep budget_env string
  | FinishAttempt budget_env string attempt_status "error_code option"
  | ForeignWrite database

fun budget_step :: "ledger \<Rightarrow> budget_op \<Rightarrow> ledger res" where
  "budget_step db (InitializeRun env rid limits parent) =
     bind_res (initialize_run env db rid limits parent) (\<lambda>(db', _). Inr db')"
| "budget_step db (BeginAttempt env req chosen) =
     bind_res (begin_attempt env db req chosen) (\<lambda>(db', _). Inr db')"
| "budget_step db (ReserveRequest env aid sq n) =
     bind_res (reserve_request env db aid sq n) (\<lambda>(db', _). Inr db')"
| "budget_step db (RecordResponse env aid res u) =
     bind_res (record_response env db aid res u) (\<lambda>(db', _). Inr db')"
| "budget_step db (RecordUnknown env aid res) = record_unknown env db aid res"
| "budget_step db (ReserveToolBatch env aid sq calls) = reserve_tool_batch env db aid sq calls"
| "budget_step db (RecordSimulatedStep env aid) = record_simulated_step env db aid"
| "budget_step db (FinishAttempt env aid status err) =
     bind_res (finish_attempt env db aid status err) (\<lambda>(db', _). Inr db')"
| "budget_step db (ForeignWrite core) = Inr (with_core core db)"

lemma budget_step_sound: "budget_step db op = Inr db' \<Longrightarrow> sound db db'"
  by (cases op)
    (auto simp: res_simps intro: initialize_run_sound begin_attempt_sound reserve_request_sound
      record_response_sound record_unknown_sound reserve_tool_batch_sound record_simulated_step_sound
      finish_attempt_sound sound_same same_ledger_with_core)

interpretation budget_ledger: durable_mono budget_step ledger_inv ledger_le
  by unfold_locales
    (auto simp: ledger_le_refl sound_def intro: ledger_le_trans dest!: budget_step_sound)

definition empty_ledger :: ledger where
  "empty_ledger = \<lparr>db_runs = [], db_tasks = [], db_agents = [], db_events = [], bl_owners = [],
     bl_runs = [], bl_attempts = [], bl_requests = [], bl_batches = [], bl_simulated = []\<rparr>"

lemma empty_ledger_inv: "ledger_inv empty_ledger"
  by (simp add: ledger_inv_defs empty_ledger_def)

section \<open>Further facts for the properties\<close>

lemma reserve_request_Inr:
  assumes "reserve_request env db aid sq n = Inr (db', res)"
  shows "\<exists>row l s. row \<in> set (bl_attempts db) \<and> atr_id row = aid \<and>
      owner_of env db [] (at_run (atr_data row)) = Inr (Some (atr_owner row, l)) \<and>
      snapshot_of env (clk env 0) db (at_run (atr_data row)) = Inr s \<and> sn_completeness s = Complete \<and>
      find_request db aid sq = None \<and> 1 \<le> rs_allowance res \<and> rs_allowance res \<le> n \<and>
      rs_attempt res = aid \<and> rs_sequence res = sq \<and>
      bl_requests db' = bl_requests db @ [\<lparr>rq_attempt = aid, rq_sequence = sq,
        rq_data = \<lparr>ac_reservation = res, ac_outcome = OReserved, ac_usage = None\<rparr>\<rparr>]"
proof -
  have "\<exists>a s limits q t p. active_attempt env db aid = Inr a \<and>
      snapshot_of env (clk env 0) db (at_run a) = Inr s \<and> operational s = Inr limits \<and>
      find_request db aid sq = None \<and> 0 < allowance_for limits s n \<and>
      res = \<lparr>rs_attempt = aid, rs_sequence = sq, rs_allowance = allowance_for limits s n,
           rs_requested = n, rs_reserved_at = clk env 1\<rparr> \<and>
      budget_event env 2 q t p (db\<lparr>bl_requests := bl_requests db @ [\<lparr>rq_attempt = aid, rq_sequence = sq,
        rq_data = \<lparr>ac_reservation = res, ac_outcome = OReserved, ac_usage = None\<rparr>\<rparr>]\<rparr>) = Inr db'"
    using assms by (clarsimp simp: reserve_request_def res_simps Let_def not_le)
      (intro exI, assumption)
  then obtain a s limits q t p where a: "active_attempt env db aid = Inr a"
    and s: "snapshot_of env (clk env 0) db (at_run a) = Inr s" "operational s = Inr limits"
    and none: "find_request db aid sq = None" and pos: "0 < allowance_for limits s n"
    and res: "res = \<lparr>rs_attempt = aid, rs_sequence = sq, rs_allowance = allowance_for limits s n,
           rs_requested = n, rs_reserved_at = clk env 1\<rparr>"
    and ev: "budget_event env 2 q t p (db\<lparr>bl_requests := bl_requests db @ [\<lparr>rq_attempt = aid, rq_sequence = sq,
        rq_data = \<lparr>ac_reservation = res, ac_outcome = OReserved, ac_usage = None\<rparr>\<rparr>]\<rparr>) = Inr db'"
    by blast
  obtain row l where row: "row \<in> set (bl_attempts db)" "running row" "atr_id row = aid" "atr_data row = a"
    "owner_of env db [] (at_run a) = Inr (Some (atr_owner row, l))" "atr_agent row = at_agent a"
    "map_of (bl_owners db) (atr_owner row) = Some l"
    using active_attempt_row [OF a] .
  have "rs_allowance res \<le> n" using res by (simp add: allowance_for_def)
  with budget_event_Inr [OF ev] row s none pos res operational_Inr [OF s(2)] show ?thesis
    by (auto simp: appended_def intro!: exI [of _ row] exI [of _ l])
qed

lemma complete_no_unknown:
  assumes "snapshot_of env now db rid = Inr s" and "owner_of env db [] rid = Inr (Some (owner, l))"
    and "sn_completeness s = Complete" and "r \<in> set (owned_requests db owner)"
  shows "ac_outcome (rq_data r) \<noteq> OUnknown"
  using assms by (auto simp: snapshot_of_def res_simps Let_def filter_empty_conv split: if_splits
      dest!: decode_requests)

lemma ledger_le_owns: "ledger_le s t \<Longrightarrow> owns s owner aid \<Longrightarrow> owns t owner aid"
  by (fastforce simp: ledger_le_def owns_def list_ex_iff attempt_le_def)

lemma ledger_le_final:
  "ledger_le s t \<Longrightarrow> r \<in> set (bl_requests s) \<Longrightarrow> ac_outcome (rq_data r) \<noteq> OReserved \<Longrightarrow> r \<in> set (bl_requests t)"
  by (fastforce simp: ledger_le_def request_le_def)

lemma ledger_le_key:
  "ledger_le s t \<Longrightarrow> r \<in> set (bl_requests s) \<Longrightarrow> request_key r \<in> request_key ` set (bl_requests t)"
  by (force simp: ledger_le_def request_le_def image_iff)

section \<open>Properties\<close>


text \<open>
  Recorded outcomes are final: a request whose usage was reported or that became unknown stays in
  the ledger exactly as it is, whatever operations follow; in particular an unknown request is never
  refunded.
\<close>

theorem recorded_outcome_final:
  assumes "ledger_inv db" and "r \<in> set (bl_requests db)" and "ac_outcome (rq_data r) \<noteq> OReserved"
  shows "r \<in> set (bl_requests (run_ops budget_step db ops))"
  using budget_ledger.run_le [OF assms(1)] assms(2,3) by (rule ledger_le_final)

text \<open>
  Uncertainty blocks dispatch for good: once a request charged to an owner is unknown, no attempt
  of that owner ever obtains another request reservation.
\<close>

theorem uncertainty_blocks_requests:
  assumes "ledger_inv db" and "r \<in> set (bl_requests db)" and "ac_outcome (rq_data r) = OUnknown"
    and "owns db owner (rq_attempt r)"
    and "find_attempt (run_ops budget_step db ops) aid = Some row" and "atr_owner row = owner"
  shows "reserve_request env (run_ops budget_step db ops) aid sq n \<noteq> Inr (db', res)"
proof
  let ?db = "run_ops budget_step db ops"
  assume ok: "reserve_request env ?db aid sq n = Inr (db', res)"
  have inv: "ledger_inv ?db" by (rule budget_ledger.run_inv [OF assms(1)])
  have le: "ledger_le db ?db" by (rule budget_ledger.run_le [OF assms(1)])
  obtain row' l s where row': "row' \<in> set (bl_attempts ?db)" "atr_id row' = aid"
    and own: "owner_of env ?db [] (at_run (atr_data row')) = Inr (Some (atr_owner row', l))"
    and snap: "snapshot_of env (clk env 0) ?db (at_run (atr_data row')) = Inr s" "sn_completeness s = Complete"
    using reserve_request_Inr [OF ok] by blast
  have "row \<in> set (bl_attempts ?db)" "atr_id row = aid"
    using assms(5) by (auto simp: find_attempt_def dest: row_lookup_Some)
  with row' inv have "row' = row" by (auto simp: ledger_inv_def intro: attempt_unique)
  moreover have "r \<in> set (bl_requests ?db)"
    by (rule ledger_le_final [OF le assms(2)]) (simp add: assms(3))
  moreover have "owns ?db owner (rq_attempt r)" by (rule ledger_le_owns [OF le assms(4)])
  ultimately have "r \<in> set (owned_requests ?db (atr_owner row'))"
    using assms(6) by (simp add: owned_requests_def)
  from complete_no_unknown [OF snap(1) own snap(2) this] assms(3) show False by simp
qed

text \<open>
  A reservation authorizes one dispatch: it grants at least one token and at most the requested
  ones, it is in the ledger as reserved when the call returns, and after any further operations the
  same request sequence is never granted to that attempt again.
\<close>

theorem reservation_at_most_once:
  assumes "ledger_inv db" and "reserve_request env db aid sq n = Inr (db', res)"
  shows "1 \<le> rs_allowance res \<and> rs_allowance res \<le> n \<and>
     (\<exists>r. find_request db' aid sq = Some r \<and> ac_reservation (rq_data r) = res \<and>
        ac_outcome (rq_data r) = OReserved) \<and>
     reserve_request env' (run_ops budget_step db' ops) aid sq n' \<noteq> Inr again"
proof -
  let ?r = "\<lparr>rq_attempt = aid, rq_sequence = sq,
      rq_data = \<lparr>ac_reservation = res, ac_outcome = OReserved, ac_usage = None\<rparr>\<rparr>"
  from reserve_request_Inr [OF assms(2)]
  have facts: "find_request db aid sq = None" "1 \<le> rs_allowance res" "rs_allowance res \<le> n"
    and new: "bl_requests db' = bl_requests db @ [?r]" by auto
  have found: "find_request db' aid sq = Some ?r"
    using facts(1) new by (simp add: find_request_def row_lookup_append request_key_def)
  have "ledger_inv db'" using reserve_request_sound [OF assms(2)] assms(1) by (simp add: sound_def)
  then have "ledger_le db' (run_ops budget_step db' ops)" by (rule budget_ledger.run_le)
  then have "(aid, sq) \<in> request_key ` set (bl_requests (run_ops budget_step db' ops))"
    using ledger_le_key [of db' "run_ops budget_step db' ops" ?r] new by (simp add: request_key_def)
  then have "find_request (run_ops budget_step db' ops) aid sq \<noteq> None"
    by (simp add: find_request_def row_lookup_None)
  then have "reserve_request env' (run_ops budget_step db' ops) aid sq n' \<noteq> Inr again"
    using reserve_request_Inr [of env' "run_ops budget_step db' ops" aid sq n'] by (cases again) auto
  with facts found show ?thesis by auto
qed

text \<open>
  Steps are bounded per agent: after every sequence of operations an agent has at most one running
  attempt, and its model requests and simulated steps together do not exceed the step limit of that
  attempt.
\<close>

theorem agent_steps_bounded:
  assumes "r \<in> set (bl_attempts (run_ops budget_step empty_ledger ops))" and "running r"
  shows "steps_of (run_ops budget_step empty_ledger ops) (atr_agent r) \<le> at_max_steps (atr_data r) \<and>
     (\<forall>r' \<in> set (bl_attempts (run_ops budget_step empty_ledger ops)).
        running r' \<and> atr_agent r' = atr_agent r \<longrightarrow> r' = r)"
proof -
  have "running_ok (run_ops budget_step empty_ledger ops)"
    using budget_ledger.run_inv [OF empty_ledger_inv, of ops] by (simp add: ledger_inv_def)
  then show ?thesis
    using assms running_unique by (auto simp: running_ok_def list_all_iff)
qed

section \<open>Witnesses\<close>

definition sample_env :: "nat \<Rightarrow> budget_env" where
  "sample_env k = \<lparr>clk = (\<lambda>i. int (100 * k + i)), new_id = (\<lambda>i. replicate (10 * k + i + 1) (CHR ''e'')),
     redact = (\<lambda>j. (j, [])), tainted = (\<lambda>_. False), sha256 = (\<lambda>s. s), unfit = (\<lambda>_. False),
     admission = (\<lambda>_. Inr ()), role_runtime = (\<lambda>_ _. None), graph_parent = (\<lambda>_ _. False),
     cost_text = (\<lambda>_. ''0''), time_text = (\<lambda>_. ''t'')\<rparr>"

definition sample_run :: "run_status \<Rightarrow> workflow_stage option \<Rightarrow> run" where
  "sample_run st sg = (new_run ''r'' ''p'' ''c'' ''g'' ''b'' ''f'' 0)
     \<lparr>run_configuration := Some default_configuration, run_capabilities := Some phase1_fake,
      run_status := st, run_stage := sg\<rparr>"

definition sample_row :: "run_status \<Rightarrow> workflow_stage option \<Rightarrow> run_row" where
  "sample_row st sg = \<lparr>rr_id = ''r'', rr_project = ''p'', rr_status = st, rr_stage = sg,
     rr_data = sample_run st sg\<rparr>"

definition sample_agent :: agent_row where
  "sample_agent = \<lparr>ar_id = ''a'', ar_run = ''r'', ar_task = None, ar_role = ''cos'',
     ar_data = \<lparr>agent_id = ''a'', agent_run = ''r'', agent_task = None, agent_role = ''cos'',
       agent_kind = None, agent_status = AgRunning, agent_iteration = 0, agent_created_at = 0,
       agent_completed_at = None\<rparr>\<rparr>"

definition sample_limits :: budget_limits where
  "sample_limits = \<lparr>max_agent_invocations = 2, max_model_requests = 2, max_tool_calls = 1,
     max_total_tokens = 100, max_active_seconds = 60\<rparr>"

definition sample_attempt :: string where
  "sample_attempt = ''corr_'' @ sample_hex 32"

definition sample_start :: ledger where
  "sample_start = run_ops budget_step empty_ledger
     [ForeignWrite \<lparr>db_runs = [sample_row CREATED None], db_tasks = [], db_agents = [], db_events = []\<rparr>,
      InitializeRun (sample_env 0) ''r'' sample_limits None]"

definition sample_core :: database where
  "sample_core = \<lparr>db_runs = [sample_row RUNNING (Some SCOPING)], db_tasks = [],
     db_agents = [sample_agent], db_events = db_events sample_start\<rparr>"

definition sample_ops :: "budget_op list" where
  "sample_ops =
     [ForeignWrite \<lparr>db_runs = [sample_row CREATED None], db_tasks = [], db_agents = [], db_events = []\<rparr>,
      InitializeRun (sample_env 0) ''r'' sample_limits None,
      ForeignWrite sample_core,
      BeginAttempt (sample_env 1) \<lparr>inv_run = ''r'', inv_task = ''t'', inv_agent = ''a'', inv_role = ''cos'',
        inv_stage = SCOPING, inv_iteration = 0, inv_max_steps = 10\<rparr> (Some sample_attempt),
      ReserveRequest (sample_env 2) sample_attempt 1 60]"

definition sample_ledger :: ledger where
  "sample_ledger = run_ops budget_step empty_ledger sample_ops"

lemma sample_ledger_inv: "ledger_inv sample_ledger"
  unfolding sample_ledger_def by (rule budget_ledger.run_inv [OF empty_ledger_inv])

definition sample_reservation :: reservation where
  "sample_reservation = \<lparr>rs_attempt = sample_attempt, rs_sequence = 1, rs_allowance = 60,
     rs_requested = 60, rs_reserved_at = 201\<rparr>"

definition sample_uncertain :: ledger where
  "sample_uncertain = run_ops budget_step sample_ledger
     [RecordUnknown (sample_env 3) sample_attempt sample_reservation]"

lemma sample_uncertain_inv: "ledger_inv sample_uncertain"
  unfolding sample_uncertain_def by (rule budget_ledger.run_inv [OF sample_ledger_inv])

definition sample_unknown :: request_row where
  "sample_unknown = \<lparr>rq_attempt = sample_attempt, rq_sequence = 1,
     rq_data = \<lparr>ac_reservation = sample_reservation, ac_outcome = OUnknown, ac_usage = None\<rparr>\<rparr>"

lemma sample_unknown_recorded: "sample_unknown \<in> set (bl_requests sample_uncertain)"
  by code_simp


theorem recorded_outcome_final_witness:
  "sample_unknown \<in> set (bl_requests (run_ops budget_step sample_uncertain
     [FinishAttempt (sample_env 4) sample_attempt AtFailed None]))"
  by (rule recorded_outcome_final [OF sample_uncertain_inv sample_unknown_recorded])
    (simp add: sample_unknown_def)

theorem uncertainty_blocks_requests_witness:
  "reserve_request (sample_env 5) (run_ops budget_step sample_uncertain []) sample_attempt 2 1 \<noteq>
     Inr (empty_ledger, sample_reservation)"
proof -
  have "owns sample_uncertain ''r'' (rq_attempt sample_unknown)" by code_simp
  moreover have "find_attempt (run_ops budget_step sample_uncertain []) sample_attempt =
      Some (hd (bl_attempts sample_uncertain))" by code_simp
  moreover have "atr_owner (hd (bl_attempts sample_uncertain)) = ''r''" by code_simp
  ultimately show ?thesis
    by (intro uncertainty_blocks_requests [OF sample_uncertain_inv sample_unknown_recorded])
      (simp_all add: sample_unknown_def)
qed

definition sample_begun :: ledger where
  "sample_begun = run_ops budget_step empty_ledger (take 4 sample_ops)"

lemma sample_begun_inv: "ledger_inv sample_begun"
  unfolding sample_begun_def by (rule budget_ledger.run_inv [OF empty_ledger_inv])

theorem reservation_at_most_once_witness:
  "\<exists>db'. reserve_request (sample_env 2) sample_begun sample_attempt 1 60 = Inr (db', sample_reservation) \<and>
     reserve_request (sample_env 6) (run_ops budget_step db' []) sample_attempt 1 5 \<noteq> Inr (db', sample_reservation)"
proof -
  have "case reserve_request (sample_env 2) sample_begun sample_attempt 1 60 of
      Inl _ \<Rightarrow> False | Inr (db', res) \<Rightarrow> res = sample_reservation"
    by code_simp
  then obtain db' where "reserve_request (sample_env 2) sample_begun sample_attempt 1 60 = Inr (db', sample_reservation)"
    by (auto split: sum.splits)
  with reservation_at_most_once [OF sample_begun_inv this, of "sample_env 6" "[]" 5 "(db', sample_reservation)"]
  show ?thesis by blast
qed

theorem agent_steps_bounded_witness:
  "steps_of (run_ops budget_step empty_ledger sample_ops) ''a'' \<le> 10"
proof -
  let ?r = "hd (bl_attempts sample_ledger)"
  have "?r \<in> set (bl_attempts (run_ops budget_step empty_ledger sample_ops))" and "running ?r"
    unfolding sample_ledger_def running_def by code_simp+
  from agent_steps_bounded [OF this] have "steps_of (run_ops budget_step empty_ledger sample_ops) (atr_agent ?r) \<le>
      at_max_steps (atr_data ?r)" by blast
  moreover have "atr_agent ?r = ''a'' \<and> at_max_steps (atr_data ?r) = 10" by code_simp
  ultimately show ?thesis by simp
qed

end
