(* ===== verification/State_Types.thy ===== *)
theory State_Types
  imports Database
begin

text \<open>
  The records of \<open>domain/models.py\<close> that the state store keeps besides runs: tool intents,
  approval requests, capability grants and resource leases, with their constructor checks, the tables
  they live in and the row-level access of \<open>adapters/persistence/sqlite.py\<close>.
\<close>

section \<open>Records\<close>

record resource =
  res_kind :: string
  res_identifier :: string

record tool_intent =
  ti_id :: string
  ti_run :: string
  ti_task :: string
  ti_agent :: string
  ti_role :: string
  ti_workflow :: string
  ti_stage :: workflow_stage
  ti_action :: string
  ti_resource :: resource
  ti_parameters :: json
  ti_reason :: string
  ti_side_effect :: bool
  ti_key :: string
  ti_ttl :: "int option"
  ti_uses :: "int option"

record stored_intent =
  si_intent :: tool_intent
  si_hash :: string
  si_status :: intent_status
  si_approval :: "string option"
  si_result :: "json option"

record approval_request =
  ap_id :: string
  ap_intent :: string
  ap_run :: string
  ap_hash :: string
  ap_role :: string
  ap_action :: string
  ap_resource :: resource
  ap_reason :: string
  ap_status :: approval_status
  ap_choices :: "approval_choice list"
  ap_scope :: "json option"
  ap_resolution :: "approval_choice option"
  ap_rule :: "string option"
  ap_created :: int
  ap_expires :: int
  ap_resolved :: "int option"
  ap_denial_reason :: "string option"

record capability_grant =
  cg_id :: string
  cg_request :: "string option"
  cg_intent :: string
  cg_project :: string
  cg_run :: string
  cg_task :: string
  cg_agent :: string
  cg_role :: string
  cg_action :: string
  cg_resource :: resource
  cg_hash :: string
  cg_issued :: int
  cg_expires :: "int option"
  cg_choice :: approval_choice
  cg_scope :: "string option"
  cg_uses :: "int option"
  cg_consumed :: "int option"
  cg_revoked :: "int option"
  cg_rule :: "string option"

record resource_lease =
  ls_id :: string
  ls_run :: string
  ls_kind :: lease_kind
  ls_resource :: string
  ls_path :: "string option"
  ls_status :: lease_status
  ls_created :: int
  ls_updated :: int
  ls_metadata :: json

definition minutes :: "int \<Rightarrow> int" where
  "minutes n = n * 60000000"

text \<open>\<open>CapabilityGrant.validate_grant_choice\<close> with the range of \<open>remaining_uses\<close>.\<close>

definition grant_valid :: "capability_grant \<Rightarrow> bool" where
  "grant_valid g \<longleftrightarrow> sha256_ok (cg_hash g)
     \<and> (case cg_scope g of None \<Rightarrow> True | Some s \<Rightarrow> sha256_ok s)
     \<and> (case cg_uses g of None \<Rightarrow> True | Some n \<Rightarrow> 0 \<le> n \<and> n \<le> 10000)
     \<and> (case cg_rule g of None \<Rightarrow> True | Some s \<Rightarrow> bounded_text 128 s)
     \<and> cg_choice g \<noteq> ChoiceDeny
     \<and> \<not> (cg_request g = None
          \<and> (cg_choice g \<noteq> ALLOW_ALWAYS
             \<or> cg_rule g = None
             \<or> cg_uses g \<notin> {Some 0, Some 1}
             \<or> (cg_uses g = Some 0 \<and> cg_consumed g = None)))
     \<and> \<not> (cg_choice g = ALLOW_ONCE \<and> cg_uses g \<notin> {Some 0, Some 1})
     \<and> \<not> (cg_choice g = ALLOW_ONCE
          \<and> (case cg_expires g of None \<Rightarrow> True
             | Some e \<Rightarrow> \<not> (0 < e - cg_issued g \<and> e - cg_issued g \<le> minutes 10)))
     \<and> \<not> (cg_choice g \<in> {ALLOW_RUN, ALLOW_ALWAYS} \<and> cg_scope g = None)"

text \<open>\<open>ResourceLease.validate_resource_identity\<close>.\<close>

definition lease_prefix :: "lease_kind \<Rightarrow> string" where
  "lease_prefix k = (case k of WORKTREE \<Rightarrow> ''ws_'' | SANDBOX \<Rightarrow> ''sandbox_'' | EXECUTION \<Rightarrow> ''exec_'')"

definition lease_valid :: "resource_lease \<Rightarrow> bool" where
  "lease_valid l \<longleftrightarrow> starts_with (lease_prefix (ls_kind l)) (ls_resource l)"

definition resource_json :: "resource \<Rightarrow> json" where
  "resource_json r = JObj [(''kind'', JStr (res_kind r)), (''identifier'', JStr (res_identifier r))]"

text \<open>\<open>intent.model_dump(mode="json")\<close>, the value whose canonical hash binds an authorization.\<close>

definition intent_json :: "tool_intent \<Rightarrow> json" where
  "intent_json i = JObj [(''intent_id'', JStr (ti_id i)), (''run_id'', JStr (ti_run i)),
     (''task_id'', JStr (ti_task i)), (''agent_instance_id'', JStr (ti_agent i)),
     (''principal_role'', JStr (ti_role i)), (''workflow'', JStr (ti_workflow i)),
     (''stage'', JStr (stage_value (ti_stage i))), (''action'', JStr (ti_action i)),
     (''resource'', resource_json (ti_resource i)), (''parameters'', ti_parameters i),
     (''reason'', JStr (ti_reason i)), (''side_effect'', JBool (ti_side_effect i)),
     (''idempotency_key'', JStr (ti_key i)),
     (''requested_ttl_seconds'', case ti_ttl i of None \<Rightarrow> JNull | Some n \<Rightarrow> JInt n),
     (''requested_uses'', case ti_uses i of None \<Rightarrow> JNull | Some n \<Rightarrow> JInt n)]"

definition intent_hash :: "effects \<Rightarrow> tool_intent \<Rightarrow> string" where
  "intent_hash fx i = canonical_json_hash (sha256 fx) (intent_json i)"

text \<open>
  Python's \<open>==\<close> on two dictionaries: the order of members is irrelevant and a Boolean equals
  the integer 0 or 1. (A float is compared by its text, so that a float never equals an integer
  here.) Two intents are equal when all their fields are.
\<close>

fun bools_as_ints :: "json \<Rightarrow> json" where
  "bools_as_ints (JBool b) = JInt (if b then 1 else 0)"
| "bools_as_ints (JArr xs) = JArr (map bools_as_ints xs)"
| "bools_as_ints (JObj ms) = JObj (map (\<lambda>(k, v). (k, bools_as_ints v)) ms)"
| "bools_as_ints v = v"

definition py_eq :: "json \<Rightarrow> json \<Rightarrow> bool" where
  "py_eq v w \<longleftrightarrow> json_eq (bools_as_ints v) (bools_as_ints w)"

definition intent_eq :: "tool_intent \<Rightarrow> tool_intent \<Rightarrow> bool" where
  "intent_eq i j \<longleftrightarrow> py_eq (ti_parameters i) (ti_parameters j)
     \<and> i\<lparr>ti_parameters := JNull\<rparr> = j\<lparr>ti_parameters := JNull\<rparr>"

section \<open>Tables\<close>

record intent_row =
  ir_id :: string
  ir_run :: string
  ir_key :: string
  ir_hash :: string
  ir_status :: intent_status
  ir_approval :: "string option"
  ir_data :: stored_intent

record approval_row =
  pr_id :: string
  pr_intent :: string
  pr_run :: string
  pr_status :: approval_status
  pr_data :: approval_request

record grant_row =
  gr_id :: string
  gr_request :: "string option"
  gr_intent :: string
  gr_run :: string
  gr_uses :: "int option"
  gr_data :: capability_grant

record claim_row =
  cl_intent :: string
  cl_hash :: string
  cl_at :: int

record lease_row =
  lr_id :: string
  lr_run :: string
  lr_kind :: lease_kind
  lr_resource :: string
  lr_status :: lease_status
  lr_data :: resource_lease

record store = database +
  st_intents :: "intent_row list"
  st_approvals :: "approval_row list"
  st_grants :: "grant_row list"
  st_claims :: "claim_row list"
  st_leases :: "lease_row list"

definition invalid_approval :: exn where
  "invalid_approval = FleetError APPROVAL_INVALID"

definition recovery_required :: exn where
  "recovery_required = FleetError RECOVERY_REQUIRED"

section \<open>Row access\<close>

definition intent_slot :: "intent_row \<Rightarrow> string \<times> string" where
  "intent_slot r = (ir_run r, ir_key r)"

definition find_intent :: "'a store_scheme \<Rightarrow> string \<Rightarrow> string \<Rightarrow> stored_intent option" where
  "find_intent db rid key = map_option ir_data (row_lookup intent_slot (rid, key) (st_intents db))"

definition get_intent :: "'a store_scheme \<Rightarrow> string \<Rightarrow> stored_intent res" where
  "get_intent db iid =
     some_or not_found (map_option ir_data (row_lookup ir_id iid (st_intents db)))"

definition stored_intent_of ::
    "tool_intent \<Rightarrow> string \<Rightarrow> intent_status \<Rightarrow> string option \<Rightarrow> stored_intent res" where
  "stored_intent_of i h status request =
     bind_res (require (sha256_ok h) ValueError) (\<lambda>_.
     Inr \<lparr>si_intent = i, si_hash = h, si_status = status, si_approval = request, si_result = None\<rparr>)"

definition row_of_intent :: "stored_intent \<Rightarrow> intent_row" where
  "row_of_intent s = \<lparr>ir_id = ti_id (si_intent s), ir_run = ti_run (si_intent s),
     ir_key = ti_key (si_intent s), ir_hash = si_hash s, ir_status = si_status s,
     ir_approval = si_approval s, ir_data = s\<rparr>"

text \<open>Primary key, the unique pair of run and idempotency key, and the reference to the run.\<close>

definition insert_intent :: "stored_intent \<Rightarrow> store \<Rightarrow> store res" where
  "insert_intent s db =
     bind_res (require (find_run db (ti_run (si_intent s)) \<noteq> None) IntegrityError) (\<lambda>_.
     bind_res (require (intent_slot (row_of_intent s) \<notin> intent_slot ` set (st_intents db)) IntegrityError) (\<lambda>_.
     bind_res (row_insert ir_id (row_of_intent s) (st_intents db)) (\<lambda>t.
     Inr (db\<lparr>st_intents := t\<rparr>))))"

definition update_intent :: "stored_intent \<Rightarrow> store \<Rightarrow> store" where
  "update_intent s db = db\<lparr>st_intents := row_update ir_id (ti_id (si_intent s))
     (\<lambda>r. r\<lparr>ir_status := si_status s, ir_approval := si_approval s, ir_data := s\<rparr>) (st_intents db)\<rparr>"

definition get_approval :: "'a store_scheme \<Rightarrow> string \<Rightarrow> approval_request res" where
  "get_approval db rid =
     some_or not_found (map_option pr_data (row_lookup pr_id rid (st_approvals db)))"

definition row_of_approval :: "approval_request \<Rightarrow> approval_row" where
  "row_of_approval a = \<lparr>pr_id = ap_id a, pr_intent = ap_intent a, pr_run = ap_run a,
     pr_status = ap_status a, pr_data = a\<rparr>"

definition insert_approval :: "approval_request \<Rightarrow> store \<Rightarrow> store res" where
  "insert_approval a db =
     bind_res (require (find_run db (ap_run a) \<noteq> None
       \<and> row_lookup ir_id (ap_intent a) (st_intents db) \<noteq> None) IntegrityError) (\<lambda>_.
     bind_res (require (ap_intent a \<notin> pr_intent ` set (st_approvals db)) IntegrityError) (\<lambda>_.
     bind_res (row_insert pr_id (row_of_approval a) (st_approvals db)) (\<lambda>t.
     Inr (db\<lparr>st_approvals := t\<rparr>))))"

definition update_approval :: "string \<Rightarrow> approval_request \<Rightarrow> store \<Rightarrow> store" where
  "update_approval rid a db = db\<lparr>st_approvals := row_update pr_id rid
     (\<lambda>r. r\<lparr>pr_status := ap_status a, pr_data := a\<rparr>) (st_approvals db)\<rparr>"

text \<open>
  A grant is read through a join with its run; the columns and the owning project must agree with
  the decoded record.
\<close>

definition grant_from_row :: "grant_row \<Rightarrow> string \<Rightarrow> capability_grant res" where
  "grant_from_row r project = (let g = gr_data r in
     bind_res (require (\<not> (cg_id g \<noteq> gr_id r \<or> cg_request g \<noteq> gr_request r
         \<or> cg_intent g \<noteq> gr_intent r \<or> cg_run g \<noteq> gr_run r \<or> cg_uses g \<noteq> gr_uses r
         \<or> cg_project g \<noteq> project)) invalid_approval) (\<lambda>_. Inr g))"

definition joined_grant :: "'a store_scheme \<Rightarrow> grant_row option \<Rightarrow> (grant_row \<times> string) option" where
  "joined_grant db row = (case row of None \<Rightarrow> None
     | Some r \<Rightarrow> map_option (\<lambda>run. (r, rr_project run)) (find_run db (gr_run r)))"

definition get_grant :: "'a store_scheme \<Rightarrow> string \<Rightarrow> capability_grant res" where
  "get_grant db gid =
     bind_res (some_or not_found (joined_grant db (row_lookup gr_id gid (st_grants db))))
       (\<lambda>(r, project). grant_from_row r project)"

definition get_grant_for_request :: "'a store_scheme \<Rightarrow> string \<Rightarrow> capability_grant option res" where
  "get_grant_for_request db rid =
     (case joined_grant db (row_lookup gr_request (Some rid) (st_grants db)) of
       None \<Rightarrow> Inr None
     | Some (r, project) \<Rightarrow> bind_res (grant_from_row r project) (\<lambda>g. Inr (Some g)))"

definition row_of_grant :: "capability_grant \<Rightarrow> grant_row" where
  "row_of_grant g = \<lparr>gr_id = cg_id g, gr_request = cg_request g, gr_intent = cg_intent g,
     gr_run = cg_run g, gr_uses = cg_uses g, gr_data = g\<rparr>"

definition insert_grant :: "capability_grant \<Rightarrow> store \<Rightarrow> store res" where
  "insert_grant g db =
     bind_res (require (find_run db (cg_run g) \<noteq> None
       \<and> row_lookup ir_id (cg_intent g) (st_intents db) \<noteq> None
       \<and> (case cg_request g of None \<Rightarrow> True
          | Some rid \<Rightarrow> row_lookup pr_id rid (st_approvals db) \<noteq> None)) IntegrityError) (\<lambda>_.
     bind_res (require (cg_intent g \<notin> gr_intent ` set (st_grants db)
       \<and> (cg_request g = None \<or> cg_request g \<notin> gr_request ` set (st_grants db))) IntegrityError) (\<lambda>_.
     bind_res (row_insert gr_id (row_of_grant g) (st_grants db)) (\<lambda>t.
     Inr (db\<lparr>st_grants := t\<rparr>))))"

definition update_grant :: "capability_grant \<Rightarrow> store \<Rightarrow> store" where
  "update_grant g db = db\<lparr>st_grants := row_update gr_id (cg_id g)
     (\<lambda>r. r\<lparr>gr_uses := cg_uses g, gr_data := g\<rparr>) (st_grants db)\<rparr>"

definition find_lease :: "'a store_scheme \<Rightarrow> string \<Rightarrow> lease_row option" where
  "find_lease db lid = row_lookup lr_id lid (st_leases db)"

definition the_lease :: "'a store_scheme \<Rightarrow> string \<Rightarrow> resource_lease res" where
  "the_lease db lid = some_or not_found (map_option lr_data (find_lease db lid))"

definition row_of_lease :: "resource_lease \<Rightarrow> lease_row" where
  "row_of_lease l = \<lparr>lr_id = ls_id l, lr_run = ls_run l, lr_kind = ls_kind l,
     lr_resource = ls_resource l, lr_status = ls_status l, lr_data = l\<rparr>"

definition update_lease :: "string \<Rightarrow> resource_lease \<Rightarrow> store \<Rightarrow> store" where
  "update_lease lid l db = db\<lparr>st_leases := row_update lr_id lid
     (\<lambda>r. r\<lparr>lr_status := ls_status l, lr_data := l\<rparr>) (st_leases db)\<rparr>"

text \<open>\<open>_event_for_intent\<close>.\<close>

definition intent_event ::
    "effects \<Rightarrow> nat \<Rightarrow> run \<Rightarrow> tool_intent \<Rightarrow> string \<Rightarrow> json \<Rightarrow> 'a database_scheme \<Rightarrow> 'a database_scheme res" where
  "intent_event fx i r intent etype payload db =
     insert_event fx ((event_for_run fx i r etype payload (Some (ti_task intent)))
       \<lparr>event_agent := Some (ti_agent intent)\<rparr>) db"

end
