(* ===== verification/State_Store.thy ===== *)
theory State_Store
  imports State_Types
begin

text \<open>
  The transactions of \<open>SqliteStateStore\<close> (\<open>adapters/persistence/sqlite.py\<close>) on intents,
  dispatch claims, approvals, capability grants and resource leases. A transaction takes the store and
  returns the store at its commit together with its result, or the exception that rolls it back.
  The clock and the identifier generator are read at increasing indices; index 0 is the reading a
  transaction takes for itself and its events take the indices after it.
\<close>

type_synonym 'r tx = "(store \<times> 'r) res"

section \<open>Intents\<close>

definition created_payload :: "tool_intent \<Rightarrow> json" where
  "created_payload i = JObj [(''action'', JStr (ti_action i))]"

definition reserve_intent :: "effects \<Rightarrow> tool_intent \<Rightarrow> string \<Rightarrow> store \<Rightarrow> stored_intent tx" where
  "reserve_intent fx i h db =
     bind_res (stored_intent_of i h RESERVED None) (\<lambda>s.
     case find_intent db (ti_run i) (ti_key i) of
       Some existing \<Rightarrow> Inr (db, existing)
     | None \<Rightarrow>
         bind_res (insert_intent s db) (\<lambda>db1.
         bind_res (get_run db1 (ti_run i)) (\<lambda>r.
         bind_res (intent_event fx 1 r i ''tool.intent_created'' (created_payload i) db1) (\<lambda>db2.
         Inr (db2, s)))))"

text \<open>
  \<open>complete_intent\<close> and \<open>deny_intent\<close>. Completion is idempotent on an executed intent;
  neither looks at any other status.
\<close>

definition complete_intent :: "effects \<Rightarrow> string \<Rightarrow> json \<Rightarrow> store \<Rightarrow> stored_intent tx" where
  "complete_intent fx iid result db =
     bind_res (get_intent db iid) (\<lambda>current.
     if si_status current = EXECUTED then Inr (db, current)
     else
       let completed = current\<lparr>si_status := EXECUTED, si_result := Some (fst (redact fx result))\<rparr> in
       bind_res (get_run (update_intent completed db) (ti_run (si_intent current))) (\<lambda>r.
       bind_res (intent_event fx 1 r (si_intent current) ''tool.intent_executed''
           (JObj [(''intent_id'', JStr iid), (''action'', JStr (ti_action (si_intent current)))])
           (update_intent completed db)) (\<lambda>db2.
       Inr (db2, completed))))"

definition deny_intent :: "string \<Rightarrow> store \<Rightarrow> unit tx" where
  "deny_intent iid db =
     bind_res (get_intent db iid) (\<lambda>current.
     Inr (update_intent (current\<lparr>si_status := IntentDenied\<rparr>) db, ()))"

section \<open>The dispatch claim\<close>

text \<open>The row of the intent, its columns and its hash agree with what the caller names.\<close>

definition claim_binding_ok :: "effects \<Rightarrow> intent_row \<Rightarrow> string \<Rightarrow> string \<Rightarrow> bool" where
  "claim_binding_ok fx row iid h = (let s = ir_data row; i = si_intent s in
     \<not> (ti_id i \<noteq> iid \<or> ti_run i \<noteq> ir_run row \<or> ti_key i \<noteq> ir_key row
        \<or> si_hash s \<noteq> ir_hash row \<or> si_status s \<noteq> ir_status row
        \<or> si_approval s \<noteq> ir_approval row \<or> si_hash s \<noteq> h
        \<or> intent_hash fx i \<noteq> h \<or> tainted fx (intent_json i)))"

text \<open>The intent belongs to a running run, task and agent, each read from its own row.\<close>

definition claim_run_ok :: "run_row \<Rightarrow> tool_intent \<Rightarrow> bool" where
  "claim_run_ok row i = (let r = rr_data row in
     \<not> (run_id r \<noteq> ti_run i \<or> run_project r \<noteq> rr_project row \<or> run_status r \<noteq> rr_status row
        \<or> run_stage r = None \<or> run_stage r \<noteq> rr_stage row \<or> run_status r \<noteq> RUNNING
        \<or> run_pending_approval r \<noteq> None \<or> run_stage r \<noteq> Some (ti_stage i)
        \<or> run_task r \<noteq> Some (ti_task i)))"

definition claim_task_ok :: "run \<Rightarrow> task_row \<Rightarrow> tool_intent \<Rightarrow> bool" where
  "claim_task_ok r row i = (let t = tr_data row in
     \<not> (task_id t \<noteq> ti_task i \<or> task_run_id t \<noteq> run_id r \<or> tr_run row \<noteq> run_id r
        \<or> workflow t \<noteq> ti_workflow i))"

definition claim_agent_ok :: "run \<Rightarrow> task_spec \<Rightarrow> agent_row \<Rightarrow> tool_intent \<Rightarrow> bool" where
  "claim_agent_ok r t row i = (let a = ar_data row in
     \<not> (agent_id a \<noteq> ti_agent i \<or> agent_run a \<noteq> run_id r \<or> ar_run row \<noteq> run_id r
        \<or> agent_task a \<noteq> Some (task_id t) \<or> ar_task row \<noteq> Some (task_id t)
        \<or> agent_role a \<noteq> ti_role i \<or> ar_role row \<noteq> ti_role i
        \<or> agent_status a \<noteq> AgRunning \<or> agent_completed_at a \<noteq> None))"

definition claim_key :: "string \<Rightarrow> string \<Rightarrow> json" where
  "claim_key iid h = JObj [(''intent_id'', JStr iid), (''intent_hash'', JStr h)]"

definition insert_claim :: "effects \<Rightarrow> string \<Rightarrow> string \<Rightarrow> store \<Rightarrow> store res" where
  "insert_claim fx iid h db =
     bind_res (require (sha256_ok h) IntegrityError) (\<lambda>_.
     bind_res (row_insert cl_intent \<lparr>cl_intent = iid, cl_hash = h, cl_at = clk fx 0\<rparr> (st_claims db)) (\<lambda>t.
     Inr (db\<lparr>st_claims := t\<rparr>)))"

definition claim_first :: "effects \<Rightarrow> stored_intent \<Rightarrow> string \<Rightarrow> store \<Rightarrow> store res" where
  "claim_first fx s h db = (let i = si_intent s in
     bind_res (require (si_status s = RESERVED) recovery_required) (\<lambda>_.
     bind_res (some_or recovery_required (find_run db (ti_run i))) (\<lambda>rrow.
     bind_res (some_or recovery_required (find_task db (ti_task i))) (\<lambda>trow.
     bind_res (some_or recovery_required (find_agent db (ti_agent i))) (\<lambda>arow.
     bind_res (require (claim_run_ok rrow i \<and> claim_task_ok (rr_data rrow) trow i
         \<and> claim_agent_ok (rr_data rrow) (tr_data trow) arow i) recovery_required) (\<lambda>_.
     bind_res (insert_claim fx (ti_id i) h db) (\<lambda>db1.
     intent_event fx 1 (rr_data rrow) i ''intent.dispatch_claimed'' (claim_key (ti_id i) h) db1)))))))"

definition claim_reserved_intent_for_dispatch ::
    "effects \<Rightarrow> string \<Rightarrow> string \<Rightarrow> store \<Rightarrow> bool tx" where
  "claim_reserved_intent_for_dispatch fx iid h db =
     bind_res (require (\<not> tainted fx (claim_key iid h)) recovery_required) (\<lambda>_.
     bind_res (some_or recovery_required (row_lookup ir_id iid (st_intents db))) (\<lambda>row.
     bind_res (require (claim_binding_ok fx row iid h) recovery_required) (\<lambda>_.
     case row_lookup cl_intent iid (st_claims db) of
       Some c \<Rightarrow> bind_res (require (cl_hash c = h) recovery_required) (\<lambda>_. Inr (db, False))
     | None \<Rightarrow> bind_res (claim_first fx (ir_data row) h db) (\<lambda>db1. Inr (db1, True)))))"

section \<open>Approvals\<close>

definition requested_payload :: "approval_request \<Rightarrow> json" where
  "requested_payload q = JObj [(''request_id'', JStr (ap_id q)), (''intent_hash'', JStr (ap_hash q)),
     (''action'', JStr (ap_action q)), (''resource'', resource_json (ap_resource q))]"

definition paused_payload :: "approval_request \<Rightarrow> run \<Rightarrow> json" where
  "paused_payload q r = JObj [(''request_id'', JStr (ap_id q)),
     (''stage'', case run_stage r of None \<Rightarrow> JNull | Some sg \<Rightarrow> JStr (stage_value sg))]"

definition pause_run :: "approval_request \<Rightarrow> run \<Rightarrow> run" where
  "pause_run q r = r\<lparr>run_status := PAUSED_FOR_APPROVAL, run_pending_approval := Some (ap_id q),
     run_updated_at := ap_created q\<rparr>"

definition pause_events ::
    "effects \<Rightarrow> run \<Rightarrow> tool_intent \<Rightarrow> approval_request \<Rightarrow> store \<Rightarrow> store res" where
  "pause_events fx r i q db =
     bind_res (intent_event fx 1 r i ''tool.intent_created'' (created_payload i) db) (\<lambda>db1.
     bind_res (intent_event fx 2 r i ''approval.requested'' (requested_payload q) db1) (\<lambda>db2.
     record_event fx 3 (pause_run q r) ''run.paused'' (paused_payload q (pause_run q r)) db2))"

definition create_approval_and_pause ::
    "effects \<Rightarrow> tool_intent \<Rightarrow> string \<Rightarrow> approval_request \<Rightarrow> store \<Rightarrow> stored_intent tx" where
  "create_approval_and_pause fx i h q db =
     bind_res (stored_intent_of i h PENDING_APPROVAL (Some (ap_id q))) (\<lambda>s.
     case find_intent db (ti_run i) (ti_key i) of
       Some existing \<Rightarrow> Inr (db, existing)
     | None \<Rightarrow>
         bind_res (get_run db (ti_run i)) (\<lambda>r.
         bind_res (validate_transition (run_status r, run_stage r)
             (run_status (pause_run q r)) (run_stage (pause_run q r))) (\<lambda>_.
         bind_res (insert_intent s db) (\<lambda>db1.
         bind_res (insert_approval q db1) (\<lambda>db2.
         bind_res (pause_events fx r i q (update_run (pause_run q r) db2)) (\<lambda>db3.
         Inr (db3, s)))))))"

text \<open>\<open>_validate_intent_context\<close>: the intent speaks for a task and an agent of its run.\<close>

definition validate_intent_context :: "store \<Rightarrow> run \<Rightarrow> tool_intent \<Rightarrow> unit res" where
  "validate_intent_context db r i =
     bind_res (some_or invalid_approval (find_task db (ti_task i))) (\<lambda>trow.
     bind_res (some_or invalid_approval (find_agent db (ti_agent i))) (\<lambda>arow.
     let t = tr_data trow; a = ar_data arow in
     require (\<not> (run_id r \<noteq> ti_run i \<or> run_task r \<noteq> Some (ti_task i)
         \<or> task_id t \<noteq> ti_task i \<or> task_run_id t \<noteq> run_id r \<or> workflow t \<noteq> ti_workflow i
         \<or> agent_id a \<noteq> ti_agent i \<or> agent_run a \<noteq> run_id r
         \<or> agent_task a \<noteq> Some (task_id t) \<or> agent_role a \<noteq> ti_role i)) invalid_approval))"

definition scope_hash :: "effects \<Rightarrow> json option \<Rightarrow> string option" where
  "scope_hash fx s = map_option (canonical_json_hash (sha256 fx)) s"

definition resolution_or_once :: "approval_choice option \<Rightarrow> approval_choice" where
  "resolution_or_once c = (case c of None \<Rightarrow> ALLOW_ONCE | Some x \<Rightarrow> x)"

definition request_binding_ok :: "effects \<Rightarrow> approval_request \<Rightarrow> stored_intent \<Rightarrow> bool" where
  "request_binding_ok fx q s = (let i = si_intent s in
     \<not> (ap_intent q \<noteq> ti_id i \<or> ap_run q \<noteq> ti_run i \<or> si_approval s \<noteq> Some (ap_id q)
        \<or> ap_hash q \<noteq> si_hash s \<or> si_hash s \<noteq> intent_hash fx i \<or> ap_role q \<noteq> ti_role i
        \<or> ap_action q \<noteq> ti_action i \<or> ap_resource q \<noteq> ti_resource i))"

definition grant_binding_ok ::
    "effects \<Rightarrow> run \<Rightarrow> approval_request \<Rightarrow> stored_intent \<Rightarrow> capability_grant \<Rightarrow> bool" where
  "grant_binding_ok fx r q s g = (let i = si_intent s in
     \<not> (cg_request g \<noteq> Some (ap_id q) \<or> cg_intent g \<noteq> ti_id i \<or> cg_project g \<noteq> run_project r
        \<or> cg_run g \<noteq> run_id r \<or> cg_task g \<noteq> ti_task i \<or> cg_agent g \<noteq> ti_agent i
        \<or> cg_role g \<noteq> ti_role i \<or> cg_action g \<noteq> ti_action i \<or> cg_resource g \<noteq> ti_resource i
        \<or> cg_hash g \<noteq> si_hash s \<or> cg_rule g \<noteq> ap_rule q
        \<or> cg_choice g \<noteq> resolution_or_once (ap_resolution q)
        \<or> cg_scope g \<noteq> scope_hash fx (ap_scope q)))"

definition validate_approval_binding ::
    "effects \<Rightarrow> store \<Rightarrow> approval_request \<Rightarrow> stored_intent \<Rightarrow> capability_grant option \<Rightarrow> run res" where
  "validate_approval_binding fx db q s g =
     bind_res (get_run db (ap_run q)) (\<lambda>r.
     bind_res (validate_intent_context db r (si_intent s)) (\<lambda>_.
     bind_res (require (request_binding_ok fx q s) invalid_approval) (\<lambda>_.
     bind_res (require (case g of None \<Rightarrow> True | Some c \<Rightarrow> grant_binding_ok fx r q s c)
         invalid_approval) (\<lambda>_. Inr r))))"


section \<open>Resolution of an approval\<close>

definition redact_text :: "effects \<Rightarrow> string \<Rightarrow> string" where
  "redact_text fx s = (case fst (redact fx (JStr s)) of JStr t \<Rightarrow> t | _ \<Rightarrow> s)"

definition json_opt_int :: "int option \<Rightarrow> json" where
  "json_opt_int x = (case x of None \<Rightarrow> JNull | Some n \<Rightarrow> JInt n)"

definition recorded_choice :: "approval_request \<Rightarrow> approval_choice" where
  "recorded_choice q = (case ap_resolution q of Some c \<Rightarrow> c
     | None \<Rightarrow> if ap_status q = ApApproved then ALLOW_ONCE else ChoiceDeny)"

text \<open>The request was resolved before: only the very same resolution is answered again.\<close>

definition replay_resolution ::
    "effects \<Rightarrow> approval_request \<Rightarrow> string \<Rightarrow> approval_choice \<Rightarrow> string option \<Rightarrow> string option \<Rightarrow>
     store \<Rightarrow> capability_grant option tx" where
  "replay_resolution fx q rid selected scope rule_id db =
     bind_res (get_grant_for_request db rid) (\<lambda>g.
     bind_res (case g of None \<Rightarrow> Inr ()
         | Some c \<Rightarrow> bind_res (get_intent db (ap_intent q)) (\<lambda>s.
             bind_res (validate_approval_binding fx db q s (Some c)) (\<lambda>_. Inr ()))) (\<lambda>_.
     bind_res (require (\<not> (selected \<noteq> recorded_choice q
         \<or> (case g of None \<Rightarrow> False
            | Some c \<Rightarrow> cg_choice c \<noteq> selected \<or> cg_scope c \<noteq> scope \<or> cg_rule c \<noteq> rule_id)))
         invalid_approval) (\<lambda>_. Inr (db, g))))"

definition resolution_ready ::
    "approval_request \<Rightarrow> stored_intent \<Rightarrow> run \<Rightarrow> string \<Rightarrow> approval_choice \<Rightarrow> bool" where
  "resolution_ready q s r rid selected \<longleftrightarrow>
     \<not> (selected \<notin> set (ap_choices q) \<or> run_status r \<noteq> PAUSED_FOR_APPROVAL
        \<or> run_pending_approval r \<noteq> Some rid \<or> run_stage r \<noteq> Some (ti_stage (si_intent s))
        \<or> si_status s \<noteq> PENDING_APPROVAL)"

definition approval_allowed ::
    "effects \<Rightarrow> approval_request \<Rightarrow> approval_choice \<Rightarrow> string option \<Rightarrow> string option \<Rightarrow> int \<Rightarrow> bool" where
  "approval_allowed fx q choice scope rule_id now \<longleftrightarrow>
     \<not> (ap_expires q \<le> now \<or> choice = ChoiceDeny \<or> scope_hash fx (ap_scope q) \<noteq> scope
        \<or> (choice \<in> {ALLOW_RUN, ALLOW_ALWAYS} \<and> scope = None)
        \<or> (ap_rule q \<noteq> None \<and> ap_rule q \<noteq> rule_id))"

definition issued_grant ::
    "effects \<Rightarrow> run \<Rightarrow> approval_request \<Rightarrow> stored_intent \<Rightarrow> approval_choice \<Rightarrow>
     string option \<Rightarrow> string option \<Rightarrow> int \<Rightarrow> capability_grant" where
  "issued_grant fx r q s choice scope rule_id now = (let i = si_intent s in
     \<lparr>cg_id = new_id fx 0, cg_request = Some (ap_id q), cg_intent = ap_intent q,
      cg_project = run_project r, cg_run = run_id r, cg_task = ti_task i, cg_agent = ti_agent i,
      cg_role = ti_role i, cg_action = ti_action i, cg_resource = ti_resource i,
      cg_hash = ap_hash q, cg_issued = now,
      cg_expires = (if choice = ALLOW_ONCE then Some (min (ap_expires q) (now + minutes 10)) else None),
      cg_choice = choice, cg_scope = scope,
      cg_uses = (if choice = ALLOW_ONCE then Some 1 else None),
      cg_consumed = None, cg_revoked = None, cg_rule = rule_id\<rparr>)"

definition resolved_payload :: "string \<Rightarrow> approval_request \<Rightarrow> approval_choice \<Rightarrow> json" where
  "resolved_payload rid q c = JObj [(''request_id'', JStr rid),
     (''resolution'', JStr (approval_status_value (ap_status q))), (''choice'', JStr (choice_value c))]"

definition issued_payload :: "capability_grant \<Rightarrow> json" where
  "issued_payload g = JObj [(''grant_id'', JStr (cg_id g)), (''remaining_uses'', json_opt_int (cg_uses g)),
     (''choice'', JStr (choice_value (cg_choice g))), (''scope_sha256'', opt_str (cg_scope g)),
     (''source_rule_id'', opt_str (cg_rule g))]"

definition approve_request ::
    "effects \<Rightarrow> run \<Rightarrow> approval_request \<Rightarrow> stored_intent \<Rightarrow> string \<Rightarrow> approval_choice \<Rightarrow>
     string option \<Rightarrow> string option \<Rightarrow> store \<Rightarrow> capability_grant option tx" where
  "approve_request fx r q s rid choice scope rule_id db =
     (let now = clk fx 0;
          resolved = q\<lparr>ap_status := ApApproved, ap_resolved := Some now,
            ap_resolution := Some choice, ap_rule := rule_id\<rparr>;
          g = issued_grant fx r q s choice scope rule_id now in
      bind_res (require (approval_allowed fx q choice scope rule_id now) invalid_approval) (\<lambda>_.
      bind_res (require (grant_valid g) ValueError) (\<lambda>_.
      bind_res (insert_grant g db) (\<lambda>db1.
      bind_res (intent_event fx 1 r (si_intent s) ''approval.resolved''
          (resolved_payload rid resolved choice) (update_approval rid resolved db1)) (\<lambda>db2.
      bind_res (intent_event fx 2 r (si_intent s) ''capability.issued'' (issued_payload g) db2) (\<lambda>db3.
      Inr (db3, Some g)))))))"

definition deny_request ::
    "effects \<Rightarrow> run \<Rightarrow> approval_request \<Rightarrow> stored_intent \<Rightarrow> string \<Rightarrow> string option \<Rightarrow>
     store \<Rightarrow> capability_grant option tx" where
  "deny_request fx r q s rid why db =
     (let resolved = q\<lparr>ap_status := ApDenied, ap_resolved := Some (clk fx 0),
            ap_denial_reason := map_option (redact_text fx) why, ap_resolution := Some ChoiceDeny\<rparr>;
          db1 = update_approval rid resolved (update_intent (s\<lparr>si_status := IntentDenied\<rparr>) db) in
      bind_res (intent_event fx 1 r (si_intent s) ''approval.resolved''
          (resolved_payload rid resolved ChoiceDeny) db1) (\<lambda>db2.
      Inr (db2, None)))"

definition resolve_approval ::
    "effects \<Rightarrow> string \<Rightarrow> bool \<Rightarrow> string option \<Rightarrow> approval_choice \<Rightarrow> string option \<Rightarrow> string option \<Rightarrow>
     store \<Rightarrow> capability_grant option tx" where
  "resolve_approval fx rid approve why choice scope rule_id db =
     bind_res (get_approval db rid) (\<lambda>q.
     let selected = (if approve then choice else ChoiceDeny) in
     if ap_status q \<noteq> ApPending then replay_resolution fx q rid selected scope rule_id db
     else
       bind_res (get_intent db (ap_intent q)) (\<lambda>s.
       bind_res (validate_approval_binding fx db q s None) (\<lambda>r.
       bind_res (require (resolution_ready q s r rid selected) invalid_approval) (\<lambda>_.
       if approve then approve_request fx r q s rid choice scope rule_id db
       else deny_request fx r q s rid why db))))"

section \<open>Use of a capability\<close>

definition validate_active_grant ::
    "effects \<Rightarrow> run \<Rightarrow> approval_request \<Rightarrow> capability_grant \<Rightarrow> tool_intent \<Rightarrow> unit res" where
  "validate_active_grant fx r q g i =
     require (\<not> (ap_status q \<noteq> ApApproved \<or> cg_choice g \<notin> set (ap_choices q) \<or> cg_revoked g \<noteq> None
        \<or> (case cg_expires g of None \<Rightarrow> False | Some e \<Rightarrow> e \<le> clk fx 0)
        \<or> run_stage r \<noteq> Some (ti_stage i)
        \<or> run_status r \<notin> {RUNNING, PAUSED_FOR_APPROVAL}
        \<or> (run_status r = RUNNING \<and> run_pending_approval r \<noteq> None)
        \<or> (run_status r = PAUSED_FOR_APPROVAL \<and> run_pending_approval r \<noteq> Some (ap_id q))))
       invalid_approval"

definition consume_grant ::
    "effects \<Rightarrow> run \<Rightarrow> capability_grant \<Rightarrow> tool_intent \<Rightarrow> store \<Rightarrow> store res" where
  "consume_grant fx r g i db =
     bind_res (require (case cg_uses g of None \<Rightarrow> True | Some n \<Rightarrow> \<not> n \<le> 0) invalid_approval) (\<lambda>_.
     let consumed = g\<lparr>cg_uses := map_option (\<lambda>n. n - 1) (cg_uses g), cg_consumed := Some (clk fx 1)\<rparr> in
     intent_event fx 1 r i ''capability.consumed''
       (JObj [(''grant_id'', JStr (cg_id g)), (''intent_id'', JStr (ti_id i))])
       (update_grant consumed db))"

definition consume_grant_and_reserve :: "effects \<Rightarrow> string \<Rightarrow> string \<Rightarrow> store \<Rightarrow> stored_intent tx" where
  "consume_grant_and_reserve fx rid h db =
     bind_res (get_approval db rid) (\<lambda>q.
     bind_res (get_intent db (ap_intent q)) (\<lambda>s.
     bind_res (get_grant_for_request db rid) (\<lambda>found.
     bind_res (some_or invalid_approval found) (\<lambda>g.
     bind_res (validate_approval_binding fx db q s (Some g)) (\<lambda>r.
     bind_res (validate_active_grant fx r q g (si_intent s)) (\<lambda>_.
     bind_res (require (cg_hash g = h \<and> ap_hash q = h \<and> si_hash s = h) invalid_approval) (\<lambda>_.
     if si_status s \<in> {RESERVED, EXECUTED} then Inr (db, s)
     else
       bind_res (require (si_status s = PENDING_APPROVAL) invalid_approval) (\<lambda>_.
       bind_res (consume_grant fx r g (si_intent s) db) (\<lambda>db1.
       Inr (update_intent (s\<lparr>si_status := RESERVED\<rparr>) db1, s\<lparr>si_status := RESERVED\<rparr>))))))))))"

definition revoke_grant :: "effects \<Rightarrow> string \<Rightarrow> store \<Rightarrow> capability_grant tx" where
  "revoke_grant fx gid db =
     bind_res (get_grant db gid) (\<lambda>g.
     if cg_revoked g \<noteq> None then Inr (db, g)
     else
       let revoked = g\<lparr>cg_revoked := Some (clk fx 0)\<rparr>; db1 = update_grant revoked db in
       bind_res (get_run db1 (cg_run g)) (\<lambda>r.
       bind_res (record_event fx 1 r ''capability.revoked'' (JObj [(''grant_id'', JStr gid)]) db1) (\<lambda>db2.
       Inr (db2, revoked))))"

text \<open>The new intent repeats the one that was approved, up to its identity and agent.\<close>

definition matches_source ::
    "effects \<Rightarrow> run \<Rightarrow> capability_grant \<Rightarrow> stored_intent \<Rightarrow> tool_intent \<Rightarrow> string \<Rightarrow> string \<Rightarrow> bool" where
  "matches_source fx r g s i h scope = (let j = si_intent s in
     \<not> (run_status r \<noteq> RUNNING \<or> cg_scope g \<noteq> Some scope \<or> intent_hash fx i \<noteq> h
        \<or> ti_run i \<noteq> ti_run j \<or> ti_task i \<noteq> ti_task j \<or> ti_role i \<noteq> ti_role j
        \<or> ti_workflow i \<noteq> ti_workflow j \<or> ti_stage i \<noteq> ti_stage j \<or> ti_action i \<noteq> ti_action j
        \<or> ti_resource i \<noteq> ti_resource j \<or> \<not> py_eq (ti_parameters i) (ti_parameters j)
        \<or> ti_side_effect i \<noteq> ti_side_effect j
        \<or> (cg_choice g = ALLOW_ONCE \<and> (\<not> intent_eq i j \<or> h \<noteq> si_hash s))))"

definition reserve_reuse ::
    "effects \<Rightarrow> run \<Rightarrow> capability_grant \<Rightarrow> tool_intent \<Rightarrow> string \<Rightarrow> store \<Rightarrow> stored_intent tx" where
  "reserve_reuse fx r g i h db =
     bind_res (require (cg_choice g \<noteq> ALLOW_ONCE) invalid_approval) (\<lambda>_.
     bind_res (require (row_lookup ir_id (ti_id i) (st_intents db) = None) invalid_approval) (\<lambda>_.
     bind_res (stored_intent_of i h RESERVED (cg_request g)) (\<lambda>s.
     bind_res (consume_grant fx r g i db) (\<lambda>db1.
     bind_res (insert_intent s db1) (\<lambda>db2.
     bind_res (intent_event fx 2 r i ''tool.intent_created'' (created_payload i) db2) (\<lambda>db3.
     Inr (db3, s)))))))"

definition consume_matching_grant_and_reserve ::
    "effects \<Rightarrow> string \<Rightarrow> tool_intent \<Rightarrow> string \<Rightarrow> string \<Rightarrow> store \<Rightarrow> stored_intent tx" where
  "consume_matching_grant_and_reserve fx gid i h scope db =
     bind_res (get_grant db gid) (\<lambda>g.
     bind_res (some_or invalid_approval (cg_request g)) (\<lambda>rid.
     bind_res (get_approval db rid) (\<lambda>q.
     bind_res (get_intent db (cg_intent g)) (\<lambda>s.
     bind_res (validate_approval_binding fx db q s (Some g)) (\<lambda>r.
     bind_res (validate_active_grant fx r q g i) (\<lambda>_.
     bind_res (validate_intent_context db r i) (\<lambda>_.
     bind_res (require (matches_source fx r g s i h scope) invalid_approval) (\<lambda>_.
     case find_intent db (ti_run i) (ti_key i) of
       Some e \<Rightarrow> bind_res (require (\<not> (\<not> intent_eq (si_intent e) i \<or> si_hash e \<noteq> h
           \<or> si_approval e \<noteq> cg_request g \<or> si_status e \<notin> {RESERVED, EXECUTED})) invalid_approval)
           (\<lambda>_. Inr (db, e))
     | None \<Rightarrow> reserve_reuse fx r g i h db))))))))"

text \<open>\<open>reserve_trust_rule_intent\<close>: a spent receipt of a persistent rule, without an approval.\<close>

definition trust_key :: "tool_intent \<Rightarrow> string \<Rightarrow> string \<Rightarrow> json" where
  "trust_key i scope rule_id = JObj [(''intent'', intent_json i), (''scope_sha256'', JStr scope),
     (''source_rule_id'', JStr rule_id)]"

definition receipt_ok ::
    "effects \<Rightarrow> run \<Rightarrow> capability_grant \<Rightarrow> stored_intent \<Rightarrow> tool_intent \<Rightarrow> string \<Rightarrow> string \<Rightarrow> string \<Rightarrow> bool" where
  "receipt_ok fx r g e i h scope rule_id \<longleftrightarrow>
     \<not> (\<not> intent_eq (si_intent e) i \<or> si_hash e \<noteq> h \<or> si_approval e \<noteq> None
        \<or> si_status e \<notin> {RESERVED, EXECUTED} \<or> cg_request g \<noteq> None \<or> cg_choice g \<noteq> ALLOW_ALWAYS
        \<or> cg_rule g \<noteq> Some rule_id \<or> cg_scope g \<noteq> Some scope \<or> cg_intent g \<noteq> ti_id i
        \<or> cg_hash g \<noteq> h \<or> cg_project g \<noteq> run_project r \<or> cg_run g \<noteq> run_id r
        \<or> cg_task g \<noteq> ti_task i \<or> cg_agent g \<noteq> ti_agent i \<or> cg_role g \<noteq> ti_role i
        \<or> cg_action g \<noteq> ti_action i \<or> cg_resource g \<noteq> ti_resource i \<or> cg_uses g \<noteq> Some 0
        \<or> cg_consumed g = None \<or> cg_revoked g \<noteq> None
        \<or> (case cg_expires g of None \<Rightarrow> False | Some x \<Rightarrow> x \<le> clk fx 0))"

definition receipt_of :: "effects \<Rightarrow> run \<Rightarrow> tool_intent \<Rightarrow> string \<Rightarrow> string \<Rightarrow> string \<Rightarrow> capability_grant" where
  "receipt_of fx r i h scope rule_id =
     \<lparr>cg_id = new_id fx 0, cg_request = None, cg_intent = ti_id i, cg_project = run_project r,
      cg_run = run_id r, cg_task = ti_task i, cg_agent = ti_agent i, cg_role = ti_role i,
      cg_action = ti_action i, cg_resource = ti_resource i, cg_hash = h, cg_issued = clk fx 0,
      cg_expires = None, cg_choice = ALLOW_ALWAYS, cg_scope = Some scope, cg_uses = Some 0,
      cg_consumed = Some (clk fx 0), cg_revoked = None, cg_rule = Some rule_id\<rparr>"

definition receipt_payload :: "capability_grant \<Rightarrow> tool_intent \<Rightarrow> int \<Rightarrow> json" where
  "receipt_payload g i uses = JObj [(''grant_id'', JStr (cg_id g)), (''intent_id'', JStr (ti_id i)),
     (''choice'', JStr (choice_value (cg_choice g))), (''remaining_uses'', JInt uses),
     (''source_rule_id'', opt_str (cg_rule g)), (''scope_sha256'', opt_str (cg_scope g))]"

definition reserve_with_receipt ::
    "effects \<Rightarrow> run \<Rightarrow> tool_intent \<Rightarrow> string \<Rightarrow> capability_grant \<Rightarrow> store \<Rightarrow> stored_intent tx" where
  "reserve_with_receipt fx r i h g db =
     bind_res (require (grant_valid g) invalid_approval) (\<lambda>_.
     bind_res (stored_intent_of i h RESERVED None) (\<lambda>s.
     bind_res (insert_intent s db) (\<lambda>db1.
     bind_res (insert_grant g db1) (\<lambda>db2.
     bind_res (intent_event fx 1 r i ''tool.intent_created'' (created_payload i) db2) (\<lambda>db3.
     bind_res (intent_event fx 2 r i ''capability.issued'' (receipt_payload g i 1) db3) (\<lambda>db4.
     bind_res (intent_event fx 3 r i ''capability.consumed'' (receipt_payload g i 0) db4) (\<lambda>db5.
     Inr (db5, s))))))))"

definition trust_context_ok :: "effects \<Rightarrow> run \<Rightarrow> tool_intent \<Rightarrow> string \<Rightarrow> bool" where
  "trust_context_ok fx r i h \<longleftrightarrow>
     \<not> (run_status r \<noteq> RUNNING \<or> run_pending_approval r \<noteq> None \<or> run_stage r \<noteq> Some (ti_stage i)
        \<or> intent_hash fx i \<noteq> h)"

definition reserve_trust_rule_intent ::
    "effects \<Rightarrow> tool_intent \<Rightarrow> string \<Rightarrow> string \<Rightarrow> string \<Rightarrow> store \<Rightarrow> stored_intent tx" where
  "reserve_trust_rule_intent fx i h scope rule_id db =
     bind_res (require (\<not> tainted fx (trust_key i scope rule_id)) invalid_approval) (\<lambda>_.
     bind_res (get_run db (ti_run i)) (\<lambda>r.
     bind_res (validate_intent_context db r i) (\<lambda>_.
     bind_res (require (trust_context_ok fx r i h) invalid_approval) (\<lambda>_.
     case find_intent db (ti_run i) (ti_key i) of
       Some e \<Rightarrow>
         bind_res (some_or invalid_approval (row_lookup gr_intent (ti_id (si_intent e)) (st_grants db))) (\<lambda>row.
         bind_res (get_grant db (gr_id row)) (\<lambda>g.
         bind_res (require (receipt_ok fx r g e i h scope rule_id) invalid_approval) (\<lambda>_. Inr (db, e))))
     | None \<Rightarrow>
         bind_res (require (row_lookup ir_id (ti_id i) (st_intents db) = None) invalid_approval) (\<lambda>_.
         reserve_with_receipt fx r i h (receipt_of fx r i h scope rule_id) db)))))"

section \<open>Resource leases\<close>

definition lease_targets :: "lease_status \<Rightarrow> lease_status list" where
  "lease_targets st = (case st of
     LeaseCreating \<Rightarrow> [LeaseActive, LeaseReleasing, LeaseReleased, LeaseRecovered, LeaseFailed]
   | LeaseActive \<Rightarrow> [LeaseReleasing, LeaseReleased, LeaseRecovered, LeaseFailed]
   | LeaseReleasing \<Rightarrow> [LeaseReleased, LeaseRecovered, LeaseFailed]
   | LeaseFailed \<Rightarrow> [LeaseReleasing, LeaseRecovered]
   | LeaseReleased \<Rightarrow> []
   | LeaseRecovered \<Rightarrow> [])"

definition validate_lease_transition :: "lease_status \<Rightarrow> lease_status \<Rightarrow> unit res" where
  "validate_lease_transition current target =
     require (target \<in> set (lease_targets current)) recovery_required"

definition lease_event_types :: "lease_kind \<Rightarrow> lease_status \<Rightarrow> string list" where
  "lease_event_types k st =
     (if k = EXECUTION then
        (case st of LeaseCreating \<Rightarrow> [''sandbox.exec_started''] | LeaseActive \<Rightarrow> [''sandbox.inspected'']
         | LeaseReleasing \<Rightarrow> [''sandbox.cleanup_started'']
         | LeaseReleased \<Rightarrow> [''sandbox.exec_finished'', ''sandbox.cleaned'']
         | LeaseRecovered \<Rightarrow> [''sandbox.recovered''] | LeaseFailed \<Rightarrow> [''sandbox.exec_failed''])
      else
        (let subject = (if k = WORKTREE then ''workspace'' else ''sandbox'');
             suffix = (case st of LeaseCreating \<Rightarrow> ''create_started'' | LeaseActive \<Rightarrow> ''created''
               | LeaseReleasing \<Rightarrow> ''cleanup_started'' | LeaseReleased \<Rightarrow> ''cleaned''
               | LeaseRecovered \<Rightarrow> ''recovered'' | LeaseFailed \<Rightarrow> ''cleanup_failed'') in
         (subject @ ''.'' @ suffix)
           # (if k = SANDBOX \<and> st = LeaseActive then [''sandbox.inspected''] else [])))"

fun record_events :: "effects \<Rightarrow> nat \<Rightarrow> run \<Rightarrow> json \<Rightarrow> string list \<Rightarrow> store \<Rightarrow> store res" where
  "record_events fx n r payload [] db = Inr db"
| "record_events fx n r payload (t # ts) db =
     bind_res (record_event fx n r t payload db) (record_events fx (n + 1) r payload ts)"

definition lease_status_of :: "string \<Rightarrow> lease_status res" where
  "lease_status_of v = some_or ValueError (find (\<lambda>st. lease_status_value st = v)
     [LeaseCreating, LeaseActive, LeaseReleasing, LeaseReleased, LeaseRecovered, LeaseFailed])"

definition insert_lease :: "resource_lease \<Rightarrow> store \<Rightarrow> store res" where
  "insert_lease l db =
     bind_res (require (find_run db (ls_run l) \<noteq> None) IntegrityError) (\<lambda>_.
     bind_res (row_insert lr_id (row_of_lease l) (st_leases db)) (\<lambda>t. Inr (db\<lparr>st_leases := t\<rparr>)))"

definition save_lease :: "effects \<Rightarrow> resource_lease \<Rightarrow> store \<Rightarrow> unit tx" where
  "save_lease fx l db =
     bind_res (insert_lease l db) (\<lambda>db1.
     bind_res (get_run db1 (ls_run l)) (\<lambda>r.
     bind_res (record_events fx 1 r (JObj [(''lease_id'', JStr (ls_id l)), (''resource_id'', JStr (ls_resource l))])
         (lease_event_types (ls_kind l) (ls_status l)) db1) (\<lambda>db2. Inr (db2, ()))))"

definition update_lease_status :: "effects \<Rightarrow> string \<Rightarrow> string \<Rightarrow> store \<Rightarrow> unit tx" where
  "update_lease_status fx lid status db =
     bind_res (lease_status_of status) (\<lambda>st.
     bind_res (the_lease db lid) (\<lambda>current.
     if ls_status current = st then Inr (db, ())
     else
       bind_res (validate_lease_transition (ls_status current) st) (\<lambda>_.
       let db1 = update_lease lid (current\<lparr>ls_status := st, ls_updated := clk fx 0\<rparr>) db in
       bind_res (get_run db1 (ls_run current)) (\<lambda>r.
       bind_res (record_events fx 1 r
           (JObj [(''lease_id'', JStr lid), (''lease_status'', JStr (lease_status_value st))])
           (lease_event_types (ls_kind current) st) db1) (\<lambda>db2. Inr (db2, ()))))))"

definition activate_lease :: "effects \<Rightarrow> string \<Rightarrow> json \<Rightarrow> store \<Rightarrow> resource_lease tx" where
  "activate_lease fx lid metadata db =
     bind_res (the_lease db lid) (\<lambda>current.
     bind_res (validate_lease_transition (ls_status current) LeaseActive) (\<lambda>_.
     let updated = current\<lparr>ls_status := LeaseActive, ls_metadata := fst (redact fx metadata),
           ls_updated := clk fx 0\<rparr>; db1 = update_lease lid updated db in
     bind_res (require (lease_valid updated) ValueError) (\<lambda>_.
     bind_res (get_run db1 (ls_run current)) (\<lambda>r.
     bind_res (record_events fx 1 r
         (JObj [(''lease_id'', JStr lid), (''resource_id'', JStr (ls_resource current))])
         (lease_event_types (ls_kind current) LeaseActive) db1) (\<lambda>db2.
     Inr (db2, updated))))))"

definition finish_lease ::
    "effects \<Rightarrow> string \<Rightarrow> resource_lease \<Rightarrow> lease_status \<Rightarrow> json \<Rightarrow> store \<Rightarrow> resource_lease tx" where
  "finish_lease fx lid current st cleaned db =
     bind_res (validate_lease_transition (ls_status current) st) (\<lambda>_.
     let updated = current\<lparr>ls_status := st, ls_metadata := cleaned, ls_updated := clk fx 0\<rparr>;
         db1 = update_lease lid updated db in
     bind_res (require (lease_valid updated) ValueError) (\<lambda>_.
     bind_res (get_run db1 (ls_run current)) (\<lambda>r.
     bind_res (record_events fx 1 r
         (JObj [(''lease_id'', JStr lid), (''lease_status'', JStr (lease_status_value st)),
                (''terminal_metadata_sha256'', JStr (canonical_json_hash (sha256 fx) cleaned))])
         (lease_event_types (ls_kind current) st) db1) (\<lambda>db2.
     Inr (db2, updated)))))"

definition finalize_lease :: "effects \<Rightarrow> string \<Rightarrow> string \<Rightarrow> json \<Rightarrow> store \<Rightarrow> resource_lease tx" where
  "finalize_lease fx lid status metadata db =
     bind_res (lease_status_of status) (\<lambda>st.
     bind_res (require (st \<in> {LeaseReleased, LeaseRecovered}) ValueError) (\<lambda>_.
     bind_res (the_lease db lid) (\<lambda>current.
     let cleaned = fst (redact fx metadata) in
     if ls_status current = st then
       bind_res (require (py_eq (ls_metadata current) cleaned) recovery_required) (\<lambda>_. Inr (db, current))
     else finish_lease fx lid current st cleaned db)))"

end
