(* ===== verification/Resource_Records.thy ===== *)
theory Resource_Records
  imports State_Types
begin

text \<open>
  The records of \<open>domain/models.py\<close> about workspaces, artifacts and sandboxes that travel
  between the control plane and its providers, with their constructor checks and the JSON values their
  hashes bind. A timestamp is a number; its text in JSON is an argument.
\<close>

section \<open>Workspaces, patches and artifacts\<close>

record workspace =
  ws_id :: string
  ws_run :: string
  ws_kind :: workspace_kind
  ws_path :: string
  ws_base :: string

record patch_info =
  pi_content :: string
  pi_sha :: string
  pi_paths :: "string list"

record artifact_metadata =
  am_id :: string
  am_kind :: artifact_kind
  am_project :: string
  am_run :: "string option"
  am_task :: "string option"
  am_mime :: string
  am_size :: int
  am_sha :: string
  am_ref :: string
  am_producer :: string
  am_redacted :: bool
  am_created :: int
  am_metadata :: json

definition artifact_ok :: "artifact_metadata \<Rightarrow> bool" where
  "artifact_ok a \<longleftrightarrow> opaque_ok ''art'' (am_id a) \<and> opaque_ok ''prj'' (am_project a)
     \<and> opt_all (opaque_ok ''run'') (am_run a) \<and> opt_all (opaque_ok ''task'') (am_task a)
     \<and> 0 \<le> am_size a \<and> sha256_ok (am_sha a)"

section \<open>Sandbox specifications and handles\<close>

record sandbox_spec =
  sp_path :: string
  sp_project :: "string option"
  sp_configuration :: sandbox_configuration
  sp_requirements :: sandbox_requirements
  sp_timeout :: int
  sp_environment :: "(string \<times> string) list"
  sp_unsafe_confirmed :: bool
  sp_image :: "string option"
  sp_daemon :: "string option"

definition spec_ok :: "sandbox_spec \<Rightarrow> bool" where
  "spec_ok s \<longleftrightarrow> opt_all (opaque_ok ''prj'') (sp_project s) \<and> 1 \<le> sp_timeout s \<and> sp_timeout s \<le> 3600
     \<and> opt_all image_identity_ok (sp_image s) \<and> opt_all sha256_ok (sp_daemon s)
     \<and> \<not> (sc_provider (sp_configuration s) = ''docker'' \<and> (sp_image s = None \<or> sp_daemon s = None))
     \<and> \<not> (sc_provider (sp_configuration s) \<noteq> ''docker'' \<and> (sp_image s \<noteq> None \<or> sp_daemon s \<noteq> None))"

record sandbox_handle =
  sh_id :: string
  sh_run :: string
  sh_project :: "string option"
  sh_path :: string
  sh_provider :: string
  sh_capabilities :: sandbox_capabilities
  sh_configuration :: "string option"
  sh_image :: "string option"
  sh_daemon :: "string option"
  sh_scope :: "string option"

definition scope_id_ok :: "string \<Rightarrow> bool" where
  "scope_id_ok s \<longleftrightarrow> length s = 32 \<and> list_all is_hex s"

definition handle_ok :: "sandbox_handle \<Rightarrow> bool" where
  "handle_ok h \<longleftrightarrow> opaque_ok ''sandbox'' (sh_id h) \<and> opaque_ok ''run'' (sh_run h)
     \<and> opt_all (opaque_ok ''prj'') (sh_project h) \<and> sh_provider h \<in> set sandbox_names
     \<and> opt_all sha256_ok (sh_configuration h) \<and> opt_all image_identity_ok (sh_image h)
     \<and> opt_all sha256_ok (sh_daemon h) \<and> opt_all scope_id_ok (sh_scope h)
     \<and> \<not> (sh_provider h = ''docker'' \<and> (sh_image h = None \<or> sh_daemon h = None \<or> sh_scope h = None))
     \<and> \<not> (sh_provider h \<noteq> ''docker'' \<and> (sh_image h \<noteq> None \<or> sh_daemon h \<noteq> None \<or> sh_scope h \<noteq> None))"

section \<open>Inspection\<close>

record inspection =
  in_sandbox :: string
  in_provider :: string
  in_ready :: bool
  in_capabilities :: sandbox_capabilities
  in_configuration :: string
  in_image :: "string option"
  in_daemon :: "string option"
  in_network :: string
  in_non_root :: bool
  in_read_only_root :: bool
  in_no_new_privileges :: bool
  in_dropped :: bool
  in_limits :: bool
  in_mounts :: bool
  in_at :: int

text \<open>\<open>validate_effective_security_claims\<close>.\<close>

definition inspection_ok :: "inspection \<Rightarrow> bool" where
  "inspection_ok i \<longleftrightarrow> opaque_ok ''sandbox'' (in_sandbox i) \<and> in_provider i \<in> set sandbox_names
     \<and> sha256_ok (in_configuration i) \<and> opt_all image_identity_ok (in_image i)
     \<and> opt_all sha256_ok (in_daemon i) \<and> in_network i \<in> set network_modes
     \<and> sb_provider (in_capabilities i) = in_provider i
     \<and> \<not> (in_ready i \<and> sb_level (in_capabilities i) = ISOLATED
          \<and> (\<not> (sb_isolation (in_capabilities i) \<and> sb_executes (in_capabilities i) \<and> in_non_root i
                \<and> in_read_only_root i \<and> in_no_new_privileges i \<and> in_dropped i \<and> in_limits i \<and> in_mounts i)
             \<or> in_image i = None \<or> in_daemon i = None \<or> in_network i \<noteq> ''none''))
     \<and> \<not> (in_provider i \<noteq> ''docker'' \<and> (in_image i \<noteq> None \<or> in_daemon i \<noteq> None))"

definition inspection_checks :: "inspection \<Rightarrow> sandbox_requirements \<Rightarrow> (string \<times> bool \<times> bool) list" where
  "inspection_checks i q =
     [(''isolation'', sq_isolation q, sb_isolation (in_capabilities i)),
      (''code_execution'', sq_execution q, sb_executes (in_capabilities i)),
      (''resource_limits'', sq_limits q, in_limits i),
      (''non_root'', sq_non_root q, in_non_root i),
      (''read_only_root'', sq_read_only_root q, in_read_only_root i),
      (''no_new_privileges'', sq_no_new_privileges q, in_no_new_privileges i),
      (''capability_drop'', sq_capability_drop q, in_dropped i),
      (''network:'' @ sq_network q, True, in_network i = sq_network q)]"

definition missing_requirements :: "inspection \<Rightarrow> sandbox_requirements \<Rightarrow> string list" where
  "missing_requirements i q =
     sort_strings (map fst (filter (\<lambda>(_, required, present). required \<and> \<not> present) (inspection_checks i q)))"

section \<open>Preflight\<close>

record preflight =
  pf_provider :: string
  pf_ready :: bool
  pf_capabilities :: sandbox_capabilities
  pf_configuration :: string
  pf_requirements :: string
  pf_image :: "string option"
  pf_daemon :: "string option"
  pf_scope :: "string option"
  pf_executable :: "string option"
  pf_cli :: "string option"
  pf_os :: "string option"
  pf_architecture :: "string option"
  pf_server :: "string option"
  pf_endpoint :: string
  pf_diagnostic :: string
  pf_at :: int

definition preflight_identities :: "preflight \<Rightarrow> string option list" where
  "preflight_identities p = [pf_image p, pf_daemon p, pf_scope p, pf_executable p, pf_cli p, pf_os p,
     pf_architecture p, pf_server p]"

definition preflight_ok :: "preflight \<Rightarrow> bool" where
  "preflight_ok p \<longleftrightarrow> pf_provider p \<in> set sandbox_names \<and> sha256_ok (pf_configuration p)
     \<and> sha256_ok (pf_requirements p) \<and> opt_all image_identity_ok (pf_image p)
     \<and> opt_all sha256_ok (pf_daemon p) \<and> opt_all scope_id_ok (pf_scope p)
     \<and> opt_all (\<lambda>s. s \<noteq> [] \<and> py_len s \<le> 4096) (pf_executable p)
     \<and> opt_all (\<lambda>s. s \<noteq> [] \<and> py_len s \<le> 128) (pf_cli p) \<and> opt_all (\<lambda>s. s = ''linux'') (pf_os p)
     \<and> opt_all (\<lambda>s. s \<in> {''amd64'', ''arm64''}) (pf_architecture p)
     \<and> opt_all (\<lambda>s. s \<noteq> [] \<and> py_len s \<le> 128) (pf_server p)
     \<and> pf_endpoint p \<in> {''none'', ''local-unix'', ''host''} \<and> bounded_text 4096 (pf_diagnostic p)
     \<and> sb_provider (pf_capabilities p) = pf_provider p
     \<and> \<not> (pf_provider p = ''docker'' \<and> None \<in> set (preflight_identities p))
     \<and> \<not> (pf_provider p \<noteq> ''docker'' \<and> set (preflight_identities p) \<noteq> {None})"

section \<open>Executions\<close>

record execution_handle =
  xh_id :: string
  xh_sandbox :: string
  xh_run :: string
  xh_provider :: string
  xh_native :: string
  xh_labels :: "(string \<times> string) list"
  xh_labels_sha :: string

definition label_ok :: "string \<times> string \<Rightarrow> bool" where
  "label_ok = (\<lambda>(k, v). (case k of [] \<Rightarrow> False
       | c # cs \<Rightarrow> is_lower c \<and> length cs \<le> 63
           \<and> list_all (\<lambda>d. is_lower d \<or> is_digit d \<or> d \<in> set ''.-'') cs)
     \<and> v \<noteq> [] \<and> py_len v \<le> 128 \<and> CHR 0x00 \<notin> set v)"

definition label_names :: "string list" where
  "label_names = [''agent-fleet.agent'', ''agent-fleet.daemon'', ''agent-fleet.execution'',
     ''agent-fleet.installation'', ''agent-fleet.intent'', ''agent-fleet.managed'', ''agent-fleet.project'',
     ''agent-fleet.run'', ''agent-fleet.sandbox'', ''agent-fleet.stage'', ''agent-fleet.task'']"

definition labels_json :: "(string \<times> string) list \<Rightarrow> json" where
  "labels_json ls = JObj (map (\<lambda>(k, v). (k, JStr v)) ls)"

definition docker_labels_ok :: "execution_handle \<Rightarrow> bool" where
  "docker_labels_ok h \<longleftrightarrow> (let l = map_of (xh_labels h) in
     \<not> (set (map fst (xh_labels h)) \<noteq> set label_names
        \<or> l ''agent-fleet.managed'' \<noteq> Some ''true'' \<or> l ''agent-fleet.run'' \<noteq> Some (xh_run h)
        \<or> l ''agent-fleet.sandbox'' \<noteq> Some (xh_sandbox h) \<or> l ''agent-fleet.execution'' \<noteq> Some (xh_id h)
        \<or> \<not> opt_all scope_id_ok (l ''agent-fleet.installation'')
        \<or> \<not> opt_all sha256_ok (l ''agent-fleet.daemon'')))"

definition validate_execution_handle :: "(string \<Rightarrow> string) \<Rightarrow> execution_handle \<Rightarrow> execution_handle res" where
  "validate_execution_handle sha h =
     bind_res (require (opaque_ok ''exec'' (xh_id h) \<and> opaque_ok ''sandbox'' (xh_sandbox h)
         \<and> opaque_ok ''run'' (xh_run h) \<and> xh_provider h \<in> set sandbox_names \<and> xh_native h \<noteq> []
         \<and> py_len (xh_native h) \<le> 256 \<and> bounded_list 1 16 (xh_labels h) \<and> sha256_ok (xh_labels_sha h)) ValueError) (\<lambda>_.
     bind_res (require (list_all label_ok (xh_labels h)) ValueError) (\<lambda>_.
     bind_res (require (canonical_json_hash sha (labels_json (xh_labels h)) = xh_labels_sha h) ValueError) (\<lambda>_.
     bind_res (require (xh_provider h = ''docker'' \<longrightarrow> docker_labels_ok h) ValueError) (\<lambda>_.
     Inr (h\<lparr>xh_labels := sort_by_key (xh_labels h)\<rparr>)))))"

record cleanup_result =
  cu_provider :: string
  cu_resource :: string
  cu_found :: int
  cu_removed :: int
  cu_reconciled :: bool
  cu_complete :: bool
  cu_at :: int

definition cleanup_ok :: "cleanup_result \<Rightarrow> bool" where
  "cleanup_ok c \<longleftrightarrow> cu_provider c \<in> set sandbox_names \<and> cu_resource c \<noteq> [] \<and> py_len (cu_resource c) \<le> 256
     \<and> 0 \<le> cu_found c \<and> cu_found c \<le> 128 \<and> 0 \<le> cu_removed c \<and> cu_removed c \<le> 128
     \<and> cu_removed c \<le> cu_found c \<and> (cu_complete c \<longrightarrow> cu_reconciled c \<and> cu_removed c = cu_found c)"

record exec_request =
  er_execution :: "string option"
  er_intent :: "string option"
  er_task :: "string option"
  er_agent :: "string option"
  er_stage :: "workflow_stage option"
  er_executable :: string
  er_argv :: "string list"
  er_cwd :: string
  er_environment :: "(string \<times> string) list"
  er_timeout :: int
  er_max_output :: int
  er_network :: string
  er_spec_hash :: "string option"

definition exec_cwd_ok :: "string \<Rightarrow> bool" where
  "exec_cwd_ok v \<longleftrightarrow> v = ''.'' \<or>
     (let parts = path_parts (parse_path v) in
        \<not> starts_with ''/'' v \<and> CHR 0x5C \<notin> set v \<and> CHR 0x00 \<notin> set v \<and> parts \<noteq> []
        \<and> ''.'' \<notin> set parts \<and> ''..'' \<notin> set parts \<and> path_str (parse_path v) = v)"

definition request_identity_ok :: "exec_request \<Rightarrow> bool" where
  "request_identity_ok r \<longleftrightarrow> (let ids = [er_execution r, er_intent r, er_task r, er_agent r, er_spec_hash r] in
     (list_all (\<lambda>x. x = None) ids \<and> er_stage r = None) \<or> (None \<notin> set ids \<and> er_stage r \<noteq> None))"

definition validate_exec_request :: "(string \<Rightarrow> string) \<Rightarrow> exec_request \<Rightarrow> exec_request res" where
  "validate_exec_request cf r =
     bind_res (require (opt_all (opaque_ok ''exec'') (er_execution r) \<and> opt_all (opaque_ok ''intent'') (er_intent r)
         \<and> opt_all (opaque_ok ''task'') (er_task r) \<and> opt_all (opaque_ok ''agent'') (er_agent r)
         \<and> 1 \<le> er_timeout r \<and> er_timeout r \<le> 3600 \<and> 1 \<le> er_max_output r \<and> er_max_output r \<le> 1000000
         \<and> er_network r \<in> set network_modes \<and> opt_all sha256_ok (er_spec_hash r)) ValueError) (\<lambda>_.
     bind_res (require ((exec_chars (er_executable r)
           \<or> (starts_with ''./'' (er_executable r) \<and> exec_chars (drop 2 (er_executable r))))
         \<and> \<not> shell_executable cf (er_executable r)) ValueError) (\<lambda>_.
     bind_res (require (length (er_argv r) \<le> 128
         \<and> list_all (\<lambda>a. CHR 0x00 \<notin> set a \<and> py_len a \<le> 4096 \<and> \<not> has_surrogate a) (er_argv r)
         \<and> sum_list (map length (er_argv r)) \<le> 65536) ValueError) (\<lambda>_.
     bind_res (require (exec_cwd_ok (er_cwd r)) ValueError) (\<lambda>_.
     bind_res (require (set (map fst (er_environment r)) \<subseteq> set environment_allowlist
         \<and> list_all (\<lambda>(k, v). CHR 0x00 \<notin> set v) (er_environment r)) ValueError) (\<lambda>_.
     bind_res (require (request_identity_ok r) ValueError) (\<lambda>_.
     Inr (r\<lparr>er_environment := sort_by_key (er_environment r)\<rparr>)))))))"

record execution_metadata =
  em_id :: string
  em_provider :: string
  em_resource :: string
  em_configuration :: string
  em_capabilities :: string
  em_inspection_hash :: "string option"
  em_inspection :: "inspection option"
  em_handle :: execution_handle
  em_cleanup :: cleanup_result

record exec_result =
  xr_exit :: int
  xr_stdout :: string
  xr_stderr :: string
  xr_started :: int
  xr_completed :: int
  xr_timed_out :: bool
  xr_truncated :: bool
  xr_execution :: "execution_metadata option"

section \<open>JSON\<close>

definition handle_json :: "sandbox_handle \<Rightarrow> json" where
  "handle_json h = JObj [(''sandbox_id'', JStr (sh_id h)), (''run_id'', JStr (sh_run h)),
     (''project_id'', opt_str (sh_project h)), (''workspace_host_path'', JStr (sh_path h)),
     (''provider'', JStr (sh_provider h)), (''capabilities'', capabilities_json (sh_capabilities h)),
     (''configuration_hash'', opt_str (sh_configuration h)), (''image_identity'', opt_str (sh_image h)),
     (''daemon_identity'', opt_str (sh_daemon h)), (''recovery_scope_id'', opt_str (sh_scope h))]"

definition inspection_json :: "(int \<Rightarrow> string) \<Rightarrow> inspection \<Rightarrow> json" where
  "inspection_json time i = JObj [(''sandbox_id'', JStr (in_sandbox i)), (''provider'', JStr (in_provider i)),
     (''ready'', JBool (in_ready i)), (''capabilities'', capabilities_json (in_capabilities i)),
     (''configuration_hash'', JStr (in_configuration i)), (''image_identity'', opt_str (in_image i)),
     (''daemon_identity'', opt_str (in_daemon i)), (''effective_network_mode'', JStr (in_network i)),
     (''non_root'', JBool (in_non_root i)), (''read_only_root'', JBool (in_read_only_root i)),
     (''no_new_privileges'', JBool (in_no_new_privileges i)), (''capabilities_dropped'', JBool (in_dropped i)),
     (''resource_limits_enforced'', JBool (in_limits i)), (''exact_mounts'', JBool (in_mounts i)),
     (''inspected_at'', JStr (time (in_at i)))]"

definition execution_handle_json :: "execution_handle \<Rightarrow> json" where
  "execution_handle_json h = JObj [(''execution_id'', JStr (xh_id h)), (''sandbox_id'', JStr (xh_sandbox h)),
     (''run_id'', JStr (xh_run h)), (''provider'', JStr (xh_provider h)),
     (''native_resource_id'', JStr (xh_native h)), (''labels'', labels_json (xh_labels h)),
     (''labels_sha256'', JStr (xh_labels_sha h))]"

definition cleanup_json :: "(int \<Rightarrow> string) \<Rightarrow> cleanup_result \<Rightarrow> json" where
  "cleanup_json time c = JObj [(''provider'', JStr (cu_provider c)), (''resource_id'', JStr (cu_resource c)),
     (''resources_found'', JInt (cu_found c)), (''resources_removed'', JInt (cu_removed c)),
     (''reconciled'', JBool (cu_reconciled c)), (''complete'', JBool (cu_complete c)),
     (''completed_at'', JStr (time (cu_at c)))]"

definition metadata_json :: "(int \<Rightarrow> string) \<Rightarrow> execution_metadata \<Rightarrow> json" where
  "metadata_json time m = JObj [(''execution_id'', JStr (em_id m)), (''provider'', JStr (em_provider m)),
     (''resource_id_sha256'', JStr (em_resource m)), (''configuration_hash'', JStr (em_configuration m)),
     (''capabilities_hash'', JStr (em_capabilities m)), (''inspection_hash'', opt_str (em_inspection_hash m)),
     (''inspection'', case em_inspection m of None \<Rightarrow> JNull | Some i \<Rightarrow> inspection_json time i),
     (''resource_handle'', execution_handle_json (em_handle m)),
     (''cleanup_result'', cleanup_json time (em_cleanup m))]"

definition requirements_json :: "sandbox_requirements \<Rightarrow> json" where
  "requirements_json q = JObj [(''isolation_required'', JBool (sq_isolation q)),
     (''code_execution_required'', JBool (sq_execution q)), (''resource_limits_required'', JBool (sq_limits q)),
     (''non_root_required'', JBool (sq_non_root q)), (''read_only_root_required'', JBool (sq_read_only_root q)),
     (''no_new_privileges_required'', JBool (sq_no_new_privileges q)),
     (''capability_drop_required'', JBool (sq_capability_drop q)), (''network_mode'', JStr (sq_network q))]"

text \<open>\<open>SandboxExecutionMetadata.validate_inspection_binding\<close>.\<close>

definition inspection_bound :: "(string \<Rightarrow> string) \<Rightarrow> (int \<Rightarrow> string) \<Rightarrow> execution_metadata \<Rightarrow> inspection \<Rightarrow> bool" where
  "inspection_bound sha time m i \<longleftrightarrow> in_provider i = em_provider m \<and> in_configuration i = em_configuration m
     \<and> canonical_json_hash sha (capabilities_json (in_capabilities i)) = em_capabilities m
     \<and> Some (canonical_json_hash sha (inspection_json time i)) = em_inspection_hash m"

definition metadata_ok :: "(string \<Rightarrow> string) \<Rightarrow> (int \<Rightarrow> string) \<Rightarrow> execution_metadata \<Rightarrow> bool" where
  "metadata_ok sha time m \<longleftrightarrow> opaque_ok ''exec'' (em_id m) \<and> em_provider m \<in> set sandbox_names
     \<and> sha256_ok (em_resource m) \<and> sha256_ok (em_configuration m) \<and> sha256_ok (em_capabilities m)
     \<and> opt_all sha256_ok (em_inspection_hash m)
     \<and> (em_inspection_hash m = None) = (em_inspection m = None)
     \<and> opt_all (inspection_bound sha time m) (em_inspection m)
     \<and> \<not> (xh_id (em_handle m) \<noteq> em_id m \<or> xh_provider (em_handle m) \<noteq> em_provider m
          \<or> cu_provider (em_cleanup m) \<noteq> em_provider m
          \<or> cu_resource (em_cleanup m) \<noteq> xh_native (em_handle m) \<or> \<not> cu_complete (em_cleanup m))"

section \<open>What an isolated inspection guarantees\<close>

lemma isolated_inspection:
  "inspection_ok i \<Longrightarrow> in_ready i \<Longrightarrow> sb_level (in_capabilities i) = ISOLATED \<Longrightarrow>
     in_non_root i \<and> in_read_only_root i \<and> in_no_new_privileges i \<and> in_dropped i \<and> in_limits i
     \<and> in_mounts i \<and> in_network i = ''none'' \<and> in_image i \<noteq> None \<and> in_daemon i \<noteq> None"
  by (auto simp: inspection_ok_def)

lemma sort_strings_empty: "sort_strings xs = [] \<longleftrightarrow> xs = []"
  by (metis length_0_conv length_map length_sort_by_key list.simps(8) remdups_eq_nil_iff sort_strings_def)

lemma requirements_met:
  "missing_requirements i q = [] \<longleftrightarrow> list_all (\<lambda>(_, required, present). required \<longrightarrow> present) (inspection_checks i q)"
  by (auto simp: missing_requirements_def sort_strings_empty filter_empty_conv list_all_iff)

end
