(* ===== verification/Run_Store.thy ===== *)
theory Run_Store
  imports State_Store Resource_Records
begin

text \<open>
  The transactions of \<open>SqliteStateStore\<close> on runs, tasks, agent instances and the event journal,
  the dispatch checkpoint of an execution lease, and the queries.

  \<open>store_checks\<close> collects what the transactions take from code outside this file: the size and
  secret scan of a stored text together with the parser of the full model
  (\<open>_decode_state_record\<close>), the admission of an organization binding
  (\<open>check_organization_admission\<close>), and the parser of a sandbox handle.
\<close>

record store_checks =
  run_unfit :: "run \<Rightarrow> bool"
  event_unfit :: "fleet_event \<Rightarrow> bool"
  organization_check :: "run \<Rightarrow> unit res"
  sandbox_of :: "json \<Rightarrow> sandbox_handle option"

section \<open>Runs\<close>

definition decode_run :: "store_checks \<Rightarrow> run \<Rightarrow> run res" where
  "decode_run ck r = bind_res (require (\<not> run_unfit ck r) recovery_required) (\<lambda>_. Inr r)"

definition validated_run :: "effects \<Rightarrow> store_checks \<Rightarrow> store \<Rightarrow> string \<Rightarrow> run res" where
  "validated_run fx ck db rid =
     bind_res (require (\<not> tainted fx (JStr rid)) recovery_required) (\<lambda>_.
     bind_res (some_or not_found (find_run db rid)) (\<lambda>row.
     bind_res (decode_run ck (rr_data row)) (\<lambda>r.
     bind_res (require (\<not> (run_id r \<noteq> rid \<or> run_project r \<noteq> rr_project row
         \<or> run_status r \<noteq> rr_status row \<or> run_stage r \<noteq> rr_stage row)) recovery_required) (\<lambda>_.
     Inr r))))"

definition row_of_run :: "run \<Rightarrow> run_row" where
  "row_of_run r = \<lparr>rr_id = run_id r, rr_project = run_project r, rr_status = run_status r,
     rr_stage = run_stage r, rr_data = r\<rparr>"

definition insert_run :: "run \<Rightarrow> store \<Rightarrow> store res" where
  "insert_run r db =
     bind_res (row_insert rr_id (row_of_run r) (db_runs db)) (\<lambda>t. Inr (db\<lparr>db_runs := t\<rparr>))"

definition create_run ::
    "effects \<Rightarrow> store_checks \<Rightarrow> run \<Rightarrow> (string \<times> json) list \<Rightarrow> store \<Rightarrow> unit tx" where
  "create_run fx ck r extra db =
     bind_res (decode_run ck r) (\<lambda>r.
     bind_res (organization_check ck r) (\<lambda>_.
     bind_res (insert_run r db) (\<lambda>db1.
     bind_res (record_event fx 1 r ''run.created'' (JObj ([(''goal'', JStr (run_goal r)),
         (''status'', JStr (run_status_value (run_status r)))] @ extra)) db1) (\<lambda>db2.
     Inr (db2, ())))))"

definition save_run ::
    "effects \<Rightarrow> store_checks \<Rightarrow> run \<Rightarrow> string \<Rightarrow> json \<Rightarrow> store \<Rightarrow> run tx" where
  "save_run fx ck r etype payload db =
     bind_res (decode_run ck r) (\<lambda>r.
     bind_res (validated_run fx ck db (run_id r)) (\<lambda>current.
     bind_res (validate_transition (run_status current, run_stage current)
         (run_status r) (run_stage r)) (\<lambda>_.
     bind_res (record_event fx 1 r etype payload (update_run r db)) (\<lambda>db2.
     Inr (db2, r)))))"

section \<open>Tasks and agent instances\<close>

definition insert_task :: "task_spec \<Rightarrow> store \<Rightarrow> store res" where
  "insert_task t db =
     bind_res (require (find_run db (task_run_id t) \<noteq> None
       \<and> task_run_id t \<notin> tr_run ` set (db_tasks db)) IntegrityError) (\<lambda>_.
     bind_res (row_insert tr_id \<lparr>tr_id = task_id t, tr_run = task_run_id t, tr_data = t\<rparr> (db_tasks db)) (\<lambda>rows.
     Inr (db\<lparr>db_tasks := rows\<rparr>)))"

definition save_task :: "effects \<Rightarrow> task_spec \<Rightarrow> store \<Rightarrow> unit tx" where
  "save_task fx t db =
     bind_res (insert_task t db) (\<lambda>db1.
     bind_res (get_run db1 (task_run_id t)) (\<lambda>r.
     bind_res (insert_event fx (event_for_run fx 1 r ''task.scoped''
         (JObj [(''task_id'', JStr (task_id t)),
                (''acceptance_criteria'', JInt (int (length (acceptance_criteria t))))])
         (Some (task_id t))) db1) (\<lambda>db2. Inr (db2, ()))))"

text \<open>
  \<open>save_agent_instance\<close>: an insertion that on a conflict of identifiers updates the task, the
  role and the data of the row, but not its run. The role is written as text in the column.
\<close>

definition row_of_agent :: "agent_instance \<Rightarrow> agent_row" where
  "row_of_agent a = \<lparr>ar_id = agent_id a, ar_run = agent_run a, ar_task = agent_task a,
     ar_role = agent_role a, ar_data = a\<rparr>"

definition save_agent_instance :: "agent_instance \<Rightarrow> store \<Rightarrow> unit tx" where
  "save_agent_instance a db =
     bind_res (require ((agent_task a \<noteq> None \<or> agent_role a = ''cos'')
       \<and> (case agent_task a of None \<Rightarrow> True | Some t \<Rightarrow> find_task db t \<noteq> None)) IntegrityError) (\<lambda>_.
     case find_agent db (agent_id a) of
       Some _ \<Rightarrow> Inr (db\<lparr>db_agents := row_update ar_id (agent_id a)
         (\<lambda>row. row\<lparr>ar_task := agent_task a, ar_role := agent_role a, ar_data := a\<rparr>) (db_agents db)\<rparr>, ())
     | None \<Rightarrow>
         bind_res (require (find_run db (agent_run a) \<noteq> None) IntegrityError) (\<lambda>_.
         Inr (db\<lparr>db_agents := db_agents db @ [row_of_agent a]\<rparr>, ())))"

definition get_agent_instance :: "'a database_scheme \<Rightarrow> string \<Rightarrow> agent_instance res" where
  "get_agent_instance db aid =
     bind_res (some_or not_found (find_agent db aid)) (\<lambda>row. let a = ar_data row in
     bind_res (require (agent_id a = ar_id row \<and> agent_run a = ar_run row \<and> agent_task a = ar_task row
       \<and> agent_role a = ar_role row) recovery_required) (\<lambda>_. Inr a))"

definition get_task :: "'a database_scheme \<Rightarrow> string \<Rightarrow> task_spec res" where
  "get_task db tid = bind_res (some_or not_found (find_task db tid)) (\<lambda>row. Inr (tr_data row))"

section \<open>Events\<close>

definition append_event :: "effects \<Rightarrow> fleet_event \<Rightarrow> store \<Rightarrow> unit tx" where
  "append_event fx e db =
     bind_res (require (case event_run e of None \<Rightarrow> True | Some rid \<Rightarrow> find_run db rid \<noteq> None) IntegrityError) (\<lambda>_.
     bind_res (insert_event fx e db) (\<lambda>db1. Inr (db1, ())))"

definition event_row_ok :: "run \<Rightarrow> string \<Rightarrow> int \<Rightarrow> event_row \<Rightarrow> bool" where
  "event_row_ok r rid previous row = (let e = er_data row in
     \<not> (event_run e \<noteq> Some rid \<or> event_project e \<noteq> run_project r
        \<or> (case event_sequence e of None \<Rightarrow> True | Some n \<Rightarrow> n \<le> previous)
        \<or> event_id e \<noteq> er_id row \<or> event_run e \<noteq> er_run row \<or> event_project e \<noteq> er_project row
        \<or> event_sequence e \<noteq> Some (er_sequence row) \<or> event_type e \<noteq> er_type row
        \<or> event_occurred_at e \<noteq> er_occurred_at row))"

fun read_page ::
    "store_checks \<Rightarrow> run \<Rightarrow> string \<Rightarrow> int \<Rightarrow> event_row list \<Rightarrow> fleet_event list res" where
  "read_page ck r rid previous [] = Inr []"
| "read_page ck r rid previous (row # rows) =
     bind_res (require (\<not> event_unfit ck (er_data row)) recovery_required) (\<lambda>_.
     bind_res (require (event_row_ok r rid previous row) recovery_required) (\<lambda>_.
     bind_res (read_page ck r rid (er_sequence row) rows) (\<lambda>es. Inr (er_data row # es))))"

definition list_events_after ::
    "effects \<Rightarrow> store_checks \<Rightarrow> store \<Rightarrow> string \<Rightarrow> int \<Rightarrow> int \<Rightarrow> fleet_event list res" where
  "list_events_after fx ck db rid after limit =
     bind_res (require (\<not> (after < 0 \<or> \<not> (1 \<le> limit \<and> limit \<le> 100))) (FleetError COMMAND_DENIED)) (\<lambda>_.
     bind_res (validated_run fx ck db rid) (\<lambda>r.
     read_page ck r rid after (take (nat limit) (sort_key er_sequence
       (filter (\<lambda>e. er_run e = Some rid \<and> after < er_sequence e) (db_events db))))))"

section \<open>The dispatch checkpoint of an execution\<close>

definition json_set :: "string \<Rightarrow> json \<Rightarrow> json \<Rightarrow> json" where
  "json_set k v m = (case m of
     JObj ms \<Rightarrow> JObj (if k \<in> fst ` set ms
       then map (\<lambda>(k', w). if k' = k then (k', v) else (k', w)) ms else ms @ [(k, v)])
   | _ \<Rightarrow> m)"

definition text_field :: "json \<Rightarrow> string \<Rightarrow> string option" where
  "text_field m k = (case json_get k m of Some (JStr s) \<Rightarrow> Some s | _ \<Rightarrow> None)"

definition field_ok :: "(string \<Rightarrow> bool) \<Rightarrow> json \<Rightarrow> string \<Rightarrow> bool" where
  "field_ok p m k = (case text_field m k of None \<Rightarrow> False | Some s \<Rightarrow> p s)"

text \<open>The fields of \<open>SandboxExecutionRecoveryRequest\<close>, taken from the lease and the handle.\<close>

definition stage_names :: "string list" where
  "stage_names = map stage_value [INTAKE, SCOPING, WORKSPACE_PREPARATION, IMPLEMENTING, VERIFYING,
     REPAIRING, PRESENTING, STAGE_APPLYING, CLEANUP]"

definition recovery_request_ok :: "resource_lease \<Rightarrow> sandbox_handle \<Rightarrow> bool" where
  "recovery_request_ok l h = (let m = ls_metadata l in
     opaque_ok ''exec'' (ls_resource l) \<and> opaque_ok ''sandbox'' (sh_id h) \<and> opaque_ok ''run'' (ls_run l)
     \<and> field_ok (opaque_ok ''prj'') m ''project_id''
     \<and> field_ok (\<lambda>s. s \<in> {''fake'', ''docker'', ''local-unsafe''}) m ''provider''
     \<and> field_ok (opaque_ok ''intent'') m ''intent_id'' \<and> field_ok (opaque_ok ''task'') m ''task_id''
     \<and> field_ok (opaque_ok ''agent'') m ''agent_instance_id''
     \<and> field_ok (\<lambda>s. s \<in> set stage_names) m ''stage'')"

definition checkpoint_reserved :: "resource_lease \<Rightarrow> bool" where
  "checkpoint_reserved l \<longleftrightarrow>
     \<not> (ls_kind l \<noteq> EXECUTION \<or> ls_status l \<noteq> LeaseCreating
        \<or> json_get ''creation_dispatched'' (ls_metadata l) \<noteq> Some (JBool False)
        \<or> (case json_get ''sandbox_handle'' (ls_metadata l) of Some (JObj _) \<Rightarrow> False | _ \<Rightarrow> True))"

definition checkpoint_handle :: "store_checks \<Rightarrow> resource_lease \<Rightarrow> sandbox_handle res" where
  "checkpoint_handle ck l =
     bind_res (require (checkpoint_reserved l) recovery_required) (\<lambda>_.
     bind_res (some_or recovery_required (case json_get ''sandbox_handle'' (ls_metadata l) of
         None \<Rightarrow> None | Some v \<Rightarrow> sandbox_of ck v)) (\<lambda>h.
     bind_res (require (recovery_request_ok l h) recovery_required) (\<lambda>_.
     bind_res (require (\<not> (ls_run l \<noteq> sh_run h \<or> text_field (ls_metadata l) ''project_id'' \<noteq> sh_project h
         \<or> text_field (ls_metadata l) ''provider'' \<noteq> Some (sh_provider h))) recovery_required) (\<lambda>_.
     Inr h))))"

definition mark_execution_creation_dispatched ::
    "effects \<Rightarrow> store_checks \<Rightarrow> string \<Rightarrow> store \<Rightarrow> resource_lease tx" where
  "mark_execution_creation_dispatched fx ck lid db =
     bind_res (the_lease db lid) (\<lambda>current.
     bind_res (checkpoint_handle ck current) (\<lambda>_.
     let updated = current\<lparr>ls_metadata := json_set ''creation_dispatched'' (JBool True)
             (json_set ''schema_version'' (JInt 2) (ls_metadata current)), ls_updated := clk fx 0\<rparr>;
         db1 = update_lease lid updated db in
     bind_res (require (lease_valid updated) ValueError) (\<lambda>_.
     bind_res (get_run db1 (ls_run current)) (\<lambda>r.
     bind_res (record_event fx 1 r ''sandbox.exec_dispatch_recorded''
         (JObj [(''lease_id'', JStr lid), (''execution_id'', JStr (ls_resource current))]) db1) (\<lambda>db2.
     Inr (db2, updated))))))"

section \<open>Queries\<close>

fun collect_grants :: "store \<Rightarrow> grant_row list \<Rightarrow> capability_grant list res" where
  "collect_grants db [] = Inr []"
| "collect_grants db (row # rows) =
     bind_res (get_grant db (gr_id row)) (\<lambda>g. bind_res (collect_grants db rows) (\<lambda>gs. Inr (g # gs)))"

definition list_grants :: "store \<Rightarrow> string \<Rightarrow> capability_grant list res" where
  "list_grants db rid =
     bind_res (collect_grants db (filter (\<lambda>row. gr_run row = rid) (st_grants db))) (\<lambda>gs.
     bind_res (require (list_all (\<lambda>g. cg_run g = rid) gs) invalid_approval) (\<lambda>_. Inr gs))"

definition list_project_grants :: "store \<Rightarrow> string \<Rightarrow> capability_grant list res" where
  "list_project_grants db pid =
     bind_res (collect_grants db (filter (\<lambda>row. case find_run db (gr_run row) of
         None \<Rightarrow> False | Some r \<Rightarrow> rr_project r = pid) (st_grants db))) (\<lambda>gs.
     bind_res (require (list_all (\<lambda>g. cg_project g = pid) gs) invalid_approval) (\<lambda>_. Inr gs))"

definition of_run :: "string option \<Rightarrow> lease_row \<Rightarrow> bool" where
  "of_run rid row = (case rid of None \<Rightarrow> True | Some x \<Rightarrow> lr_run row = x)"

definition active_leases :: "store \<Rightarrow> string option \<Rightarrow> resource_lease list" where
  "active_leases db rid =
     map lr_data (filter (\<lambda>row. lr_status row = LeaseActive \<and> of_run rid row) (st_leases db))"

definition list_leases :: "store \<Rightarrow> string \<Rightarrow> resource_lease list" where
  "list_leases db rid = map lr_data (filter (\<lambda>row. lr_run row = rid) (st_leases db))"

definition outstanding_leases :: "store \<Rightarrow> string option \<Rightarrow> resource_lease list" where
  "outstanding_leases db rid =
     map lr_data (filter (\<lambda>row. lr_status row \<notin> {LeaseReleased, LeaseRecovered} \<and> of_run rid row)
       (st_leases db))"

definition count_executed_intents :: "store \<Rightarrow> string \<Rightarrow> string \<Rightarrow> nat" where
  "count_executed_intents db rid action =
     length (filter (\<lambda>row. ti_action (si_intent (ir_data row)) = action)
       (filter (\<lambda>row. ir_run row = rid \<and> ir_status row = EXECUTED) (st_intents db)))"

end
