(* ===== verification/State_Invariants.thy ===== *)
theory State_Invariants
  imports Run_Store
begin

text \<open>
  What the state store keeps whatever its callers do: its rows agree with their decoded records, an
  intent that asked for an approval is only ever reserved on a consumed capability of an approved
  request, a dispatch claim belongs to an intent that was reserved, and every table only moves forward.
  The lemmas about the primitive writes are composed over the transactions in
  \<open>State_Properties\<close>.
\<close>

section \<open>The invariant\<close>

text \<open>An intent is waiting, reserved, or settled; it never goes back.\<close>

definition rank :: "intent_status \<Rightarrow> nat" where
  "rank st = (case st of PENDING_APPROVAL \<Rightarrow> 0 | RESERVED \<Rightarrow> 1 | _ \<Rightarrow> 2)"

text \<open>The authority behind a reserved intent that asked for an approval.\<close>

definition backed :: "store \<Rightarrow> intent_row \<Rightarrow> string \<Rightarrow> bool" where
  "backed s r rid \<longleftrightarrow> (\<exists>p g. row_lookup pr_id rid (st_approvals s) = Some p \<and> pr_status p = ApApproved
     \<and> row_lookup gr_request (Some rid) (st_grants s) = Some g
     \<and> cg_consumed (gr_data g) \<noteq> None \<and> cg_choice (gr_data g) \<in> set (ap_choices (pr_data p))
     \<and> (cg_choice (gr_data g) = ALLOW_ONCE \<longrightarrow> gr_intent g = ir_id r))"

definition runs_ok :: "store \<Rightarrow> bool" where
  "runs_ok s \<longleftrightarrow> (\<forall>r \<in> set (db_runs s). rr_id r = run_id (rr_data r)
     \<and> rr_status r = run_status (rr_data r) \<and> rr_stage r = run_stage (rr_data r))"

text \<open>A row and its decoded record agree.\<close>

definition intent_row_ok :: "intent_row \<Rightarrow> bool" where
  "intent_row_ok r \<longleftrightarrow> r = row_of_intent (ir_data r)"

definition approval_row_ok :: "approval_row \<Rightarrow> bool" where
  "approval_row_ok r \<longleftrightarrow> r = row_of_approval (pr_data r)"

definition grant_row_ok :: "grant_row \<Rightarrow> bool" where
  "grant_row_ok r \<longleftrightarrow> r = row_of_grant (gr_data r)"

lemma row_of_ok [simp]:
  "intent_row_ok (row_of_intent s)" "approval_row_ok (row_of_approval q)" "grant_row_ok (row_of_grant g)"
  by (simp_all add: intent_row_ok_def row_of_intent_def approval_row_ok_def row_of_approval_def
      grant_row_ok_def row_of_grant_def)

lemma row_of_data:
  "intent_row_ok r \<Longrightarrow> row_of_intent (ir_data r) = r"
  "approval_row_ok r' \<Longrightarrow> row_of_approval (pr_data r') = r'"
  "grant_row_ok r'' \<Longrightarrow> row_of_grant (gr_data r'') = r''"
  by (simp_all add: intent_row_ok_def approval_row_ok_def grant_row_ok_def)

lemma row_update_ball [simp]:
  "(\<forall>r \<in> set (row_update key k f rows). P r) \<longleftrightarrow>
     (\<forall>r \<in> set rows. if key r = k then P (f r) else P r)"
  by (auto simp: row_update_def)

definition intents_ok :: "store \<Rightarrow> bool" where
  "intents_ok s \<longleftrightarrow> (\<forall>r \<in> set (st_intents s). intent_row_ok r)
     \<and> distinct (map ir_id (st_intents s))"

definition approvals_ok :: "store \<Rightarrow> bool" where
  "approvals_ok s \<longleftrightarrow> (\<forall>r \<in> set (st_approvals s). approval_row_ok r)
     \<and> distinct (map pr_id (st_approvals s))"

definition grants_ok :: "store \<Rightarrow> bool" where
  "grants_ok s \<longleftrightarrow> (\<forall>r \<in> set (st_grants s). grant_row_ok r)
     \<and> distinct (map gr_id (st_grants s))
     \<and> distinct (filter (\<lambda>x. x \<noteq> None) (map gr_request (st_grants s)))"

definition claims_ok :: "store \<Rightarrow> bool" where
  "claims_ok s \<longleftrightarrow> (\<forall>c \<in> set (st_claims s). \<exists>r. row_lookup ir_id (cl_intent c) (st_intents s) = Some r
     \<and> ir_hash r = cl_hash c \<and> 1 \<le> rank (ir_status r))"

definition leases_ok :: "store \<Rightarrow> bool" where
  "leases_ok s \<longleftrightarrow> (\<forall>r \<in> set (st_leases s). lr_id r = ls_id (lr_data r) \<and> lr_status r = ls_status (lr_data r))
     \<and> distinct (map lr_id (st_leases s))"

definition authority_ok :: "store \<Rightarrow> bool" where
  "authority_ok s \<longleftrightarrow> (\<forall>r \<in> set (st_intents s). \<forall>rid.
     ir_status r = RESERVED \<longrightarrow> ir_approval r = Some rid \<longrightarrow> backed s r rid)"

definition store_inv :: "store \<Rightarrow> bool" where
  "store_inv s \<longleftrightarrow> journal_ok s \<and> runs_ok s \<and> intents_ok s \<and> approvals_ok s \<and> grants_ok s
     \<and> claims_ok s \<and> leases_ok s \<and> authority_ok s"

lemmas inv_defs = store_inv_def runs_ok_def intents_ok_def approvals_ok_def grants_ok_def claims_ok_def
  leases_ok_def authority_ok_def

section \<open>Progress order\<close>

definition state_of_row :: "run_row \<Rightarrow> run_state" where
  "state_of_row r = (rr_status r, rr_stage r)"

definition run_row_le :: "run_row \<Rightarrow> run_row \<Rightarrow> bool" where
  "run_row_le r r' \<longleftrightarrow> (\<lambda>a b. save_state a b = Inr b)\<^sup>*\<^sup>* (state_of_row r) (state_of_row r')"

definition intent_le :: "intent_row \<Rightarrow> intent_row \<Rightarrow> bool" where
  "intent_le r r' \<longleftrightarrow> ir_run r' = ir_run r \<and> ir_key r' = ir_key r \<and> ir_hash r' = ir_hash r
     \<and> ir_approval r' = ir_approval r \<and> si_intent (ir_data r') = si_intent (ir_data r)
     \<and> rank (ir_status r) \<le> rank (ir_status r')"

definition approval_le :: "approval_row \<Rightarrow> approval_row \<Rightarrow> bool" where
  "approval_le r r' \<longleftrightarrow> pr_intent r' = pr_intent r \<and> pr_run r' = pr_run r
     \<and> (pr_status r \<noteq> ApPending \<longrightarrow> r' = r)"

definition grant_le :: "grant_row \<Rightarrow> grant_row \<Rightarrow> bool" where
  "grant_le r r' \<longleftrightarrow> gr_request r' = gr_request r \<and> gr_intent r' = gr_intent r \<and> gr_run r' = gr_run r
     \<and> cg_choice (gr_data r') = cg_choice (gr_data r) \<and> cg_scope (gr_data r') = cg_scope (gr_data r)
     \<and> (cg_consumed (gr_data r) \<noteq> None \<longrightarrow> cg_consumed (gr_data r') \<noteq> None)
     \<and> (cg_revoked (gr_data r) \<noteq> None \<longrightarrow> cg_revoked (gr_data r') = cg_revoked (gr_data r))"

definition dispatched :: "lease_row \<Rightarrow> bool" where
  "dispatched r \<longleftrightarrow> lr_status r \<noteq> LeaseCreating
     \<or> json_get ''creation_dispatched'' (ls_metadata (lr_data r)) \<noteq> Some (JBool False)"

definition closed :: "lease_row \<Rightarrow> bool" where
  "closed r \<longleftrightarrow> lr_status r \<in> {LeaseReleased, LeaseRecovered}"

definition lease_le :: "lease_row \<Rightarrow> lease_row \<Rightarrow> bool" where
  "lease_le r r' \<longleftrightarrow> lr_run r' = lr_run r \<and> lr_kind r' = lr_kind r \<and> lr_resource r' = lr_resource r
     \<and> ls_kind (lr_data r') = ls_kind (lr_data r)
     \<and> (\<lambda>a b. b \<in> set (lease_targets a))\<^sup>*\<^sup>* (lr_status r) (lr_status r')
     \<and> (closed r \<longrightarrow> r' = r) \<and> (dispatched r \<longrightarrow> dispatched r')"

lemmas row_le_defs = run_row_le_def intent_le_def approval_le_def grant_le_def lease_le_def

lemma row_le_refl [simp]:
  "run_row_le a a" "intent_le b b" "approval_le c c" "grant_le d d" "lease_le e e"
  by (simp_all add: row_le_defs)

lemma row_le_trans:
  "run_row_le a a' \<Longrightarrow> run_row_le a' a'' \<Longrightarrow> run_row_le a a''"
  "intent_le b b' \<Longrightarrow> intent_le b' b'' \<Longrightarrow> intent_le b b''"
  "approval_le c c' \<Longrightarrow> approval_le c' c'' \<Longrightarrow> approval_le c c''"
  "grant_le d d' \<Longrightarrow> grant_le d' d'' \<Longrightarrow> grant_le d d''"
  "lease_le e e' \<Longrightarrow> lease_le e' e'' \<Longrightarrow> lease_le e e''"
  by (force simp: row_le_defs)+

definition store_le :: "store \<Rightarrow> store \<Rightarrow> bool" where
  "store_le s t \<longleftrightarrow> table_le rr_id run_row_le (db_runs s) (db_runs t)
     \<and> table_le tr_id (=) (db_tasks s) (db_tasks t)
     \<and> prefix (db_events s) (db_events t)
     \<and> table_le ir_id intent_le (st_intents s) (st_intents t)
     \<and> table_le pr_id approval_le (st_approvals s) (st_approvals t)
     \<and> table_le gr_id grant_le (st_grants s) (st_grants t)
     \<and> table_le cl_intent (=) (st_claims s) (st_claims t)
     \<and> table_le lr_id lease_le (st_leases s) (st_leases t)"

lemma store_le_refl [simp]: "store_le s s"
  by (simp add: store_le_def table_le_refl)

lemma store_le_trans: "store_le s t \<Longrightarrow> store_le t u \<Longrightarrow> store_le s u"
  unfolding store_le_def
  by (intro conjI; (elim conjE)?, (rule table_le_trans prefix_order.trans; (assumption | (erule (1) row_le_trans) | simp))+)

definition forward :: "store \<Rightarrow> store \<Rightarrow> bool" where
  "forward s t \<longleftrightarrow> (store_inv s \<longrightarrow> store_inv t \<and> store_le s t)"

lemma forward_refl [simp]: "forward s s"
  by (simp add: forward_def)

lemma forward_trans [trans]: "forward s t \<Longrightarrow> forward t u \<Longrightarrow> forward s u"
  by (auto simp: forward_def intro: store_le_trans)

section \<open>Events\<close>

lemma forward_appended:
  assumes "journal_ok db \<Longrightarrow> journal_ok (appended row db)"
  shows "forward db (appended row db)"
  using assms by (auto simp: forward_def inv_defs backed_def store_le_def table_le_refl appended_def)

lemma forward_insert_event:
  assumes "insert_event fx e db = Inr db'"
  shows "forward db db'"
proof -
  obtain row where row: "db' = appended row db" using insert_event_Inr [OF assms] by blast
  show ?thesis unfolding row
    by (rule forward_appended) (metis row assms insert_event_journal_ok)
qed

lemma forward_intent_event: "intent_event fx n r i t p db = Inr db' \<Longrightarrow> forward db db'"
  by (auto simp: intent_event_def intro: forward_insert_event)

lemma forward_record_event: "record_event fx n r t p db = Inr db' \<Longrightarrow> forward db db'"
  by (auto simp: record_event_def intro: forward_insert_event)

lemma forward_record_events: "record_events fx n r p ts db = Inr db' \<Longrightarrow> forward db db'"
  by (induction ts arbitrary: n db) (auto simp: res_simps intro: forward_record_event forward_trans)

text \<open>An event leaves the tables of the store as they are.\<close>

definition same_tables :: "store \<Rightarrow> store \<Rightarrow> bool" where
  "same_tables s t \<longleftrightarrow> db_runs t = db_runs s \<and> db_tasks t = db_tasks s \<and> db_agents t = db_agents s
     \<and> st_intents t = st_intents s \<and> st_approvals t = st_approvals s \<and> st_grants t = st_grants s
     \<and> st_claims t = st_claims s \<and> st_leases t = st_leases s"

lemma same_tables_refl [simp]: "same_tables s s"
  by (simp add: same_tables_def)

lemma same_tables_trans: "same_tables s t \<Longrightarrow> same_tables t u \<Longrightarrow> same_tables s u"
  by (simp add: same_tables_def)

lemma insert_event_tables: "insert_event fx e db = Inr db' \<Longrightarrow> same_tables db db'"
  by (drule insert_event_Inr) (auto simp: same_tables_def appended_def)

lemma intent_event_tables: "intent_event fx n r i t p db = Inr db' \<Longrightarrow> same_tables db db'"
  by (auto simp: intent_event_def intro: insert_event_tables)

lemma record_event_tables: "record_event fx n r t p db = Inr db' \<Longrightarrow> same_tables db db'"
  by (auto simp: record_event_def intro: insert_event_tables)

lemma record_events_tables: "record_events fx n r p ts db = Inr db' \<Longrightarrow> same_tables db db'"
  by (induction ts arbitrary: n db)
    (auto simp: res_simps intro: record_event_tables same_tables_trans)

section \<open>Intents\<close>

lemma backed_cong:
  "st_approvals t = st_approvals s \<Longrightarrow> st_grants t = st_grants s \<Longrightarrow> backed t = backed s"
  by (simp add: backed_def fun_eq_iff)

lemma forward_insert_intent:
  assumes "insert_intent s db = Inr db'"
    and "\<And>rid. si_status s = RESERVED \<Longrightarrow> si_approval s = Some rid \<Longrightarrow> backed db (row_of_intent s) rid"
  shows "forward db db'"
proof -
  have db': "db' = db\<lparr>st_intents := st_intents db @ [row_of_intent s]\<rparr>"
    and fresh: "ir_id (row_of_intent s) \<notin> ir_id ` set (st_intents db)"
    using assms(1) by (auto simp: insert_intent_def res_simps)
  have backed: "backed db' = backed db" by (rule backed_cong) (simp_all add: db')
  have claims: "claims_ok db'" if "claims_ok db"
    using that unfolding claims_ok_def db' by (auto simp: row_lookup_append split: option.split)
  have authority: "authority_ok db'" if "authority_ok db"
    using that assms(2) unfolding authority_ok_def backed by (auto simp: db' row_of_intent_def)
  have "store_le db db'"
    by (simp add: store_le_def db' table_le_refl table_le_append)
  moreover have "intents_ok db'" if "intents_ok db"
    using that fresh by (auto simp: intents_ok_def db')
  ultimately show ?thesis using claims authority
    by (auto simp: forward_def store_inv_def db' runs_ok_def approvals_ok_def grants_ok_def leases_ok_def
        journal_ok_def)
qed

text \<open>An update replaces the status and the result of a stored intent.\<close>

definition restated :: "stored_intent \<Rightarrow> stored_intent \<Rightarrow> bool" where
  "restated s s' \<longleftrightarrow> si_intent s' = si_intent s \<and> si_hash s' = si_hash s
     \<and> si_approval s' = si_approval s \<and> rank (si_status s) \<le> rank (si_status s')"

lemma get_intent_Inr:
  "get_intent db iid = Inr s \<longleftrightarrow> (\<exists>r. row_lookup ir_id iid (st_intents db) = Some r \<and> ir_data r = s)"
  by (simp add: get_intent_def res_simps)

lemma update_intent_rows:
  assumes "intents_ok db" and "get_intent db iid = Inr s" and "restated s s'"
  shows "update_intent s' db =
    db\<lparr>st_intents := row_update ir_id iid (\<lambda>_. row_of_intent s') (st_intents db)\<rparr>"
    and "ti_id (si_intent s') = iid" and "row_lookup ir_id iid (st_intents db) = Some (row_of_intent s)"
proof -
  obtain r where r: "row_lookup ir_id iid (st_intents db) = Some r" "ir_data r = s"
    using assms(2) by (auto simp: get_intent_Inr)
  then have mem: "r \<in> set (st_intents db)" "ir_id r = iid" using row_lookup_Some by fastforce+
  have same: "r' = r" if "r' \<in> set (st_intents db)" "ir_id r' = iid" for r'
    using that mem assms(1) by (auto simp: intents_ok_def distinct_map inj_on_def)
  have row: "r = row_of_intent s" using assms(1) mem r(2) by (auto simp: intents_ok_def intent_row_ok_def)
  then show "row_lookup ir_id iid (st_intents db) = Some (row_of_intent s)" using r by simp
  show iid: "ti_id (si_intent s') = iid"
    using mem(2) assms(3) unfolding row by (simp add: row_of_intent_def restated_def)
  have "row_update ir_id iid (\<lambda>r. r\<lparr>ir_status := si_status s', ir_approval := si_approval s', ir_data := s'\<rparr>)
      (st_intents db) = row_update ir_id iid (\<lambda>_. row_of_intent s') (st_intents db)"
    by (rule row_update_cong, drule (1) same)
      (use assms(3) in \<open>simp add: row row_of_intent_def restated_def\<close>)
  then show "update_intent s' db =
    db\<lparr>st_intents := row_update ir_id iid (\<lambda>_. row_of_intent s') (st_intents db)\<rparr>"
    by (simp add: update_intent_def iid)
qed

lemma forward_update_intent:
  assumes get: "get_intent db iid = Inr s" and res: "restated s s'"
    and auth: "\<And>rid. store_inv db \<Longrightarrow> si_status s' = RESERVED \<Longrightarrow> si_approval s' = Some rid \<Longrightarrow>
      backed db (row_of_intent s') rid"
  shows "forward db (update_intent s' db)"
  unfolding forward_def
proof (intro impI)
  assume inv: "store_inv db"
  then have ok: "intents_ok db" by (simp add: store_inv_def)
  note rows = update_intent_rows [OF ok get res]
  let ?db = "update_intent s' db"
  have unique: "r = row_of_intent s" if "r \<in> set (st_intents db)" "ir_id r = iid" for r
    using ok row_lookup_distinct [of ir_id "st_intents db" r] that rows(3) by (simp add: intents_ok_def)
  have keep: "ir_id (row_of_intent s') = ir_id r" if "ir_id r = iid" for r
    using that rows(2) by (simp add: row_of_intent_def)
  have le: "intent_le (row_of_intent s) (row_of_intent s')"
    using res by (simp add: intent_le_def row_of_intent_def restated_def)
  have table: "table_le ir_id intent_le (st_intents db) (st_intents ?db)"
    unfolding rows(1) using keep unique le
    by (auto intro!: table_le_update dest: row_lookup_Some)
  then have "store_le db ?db" by (simp add: store_le_def rows(1) table_le_refl)
  moreover have "intents_ok ?db"
  proof -
    have "map ir_id (st_intents ?db) = map ir_id (st_intents db)"
      using rows(2) by (simp add: rows(1) map_key_row_update row_of_intent_def)
    moreover have "\<forall>r \<in> set (st_intents ?db). intent_row_ok r"
      using ok by (simp add: intents_ok_def rows(1))
    ultimately show ?thesis using ok by (simp add: intents_ok_def)
  qed
  moreover have "claims_ok ?db"
    unfolding claims_ok_def
  proof (intro ballI)
    fix c assume "c \<in> set (st_claims ?db)"
    then obtain r where r: "row_lookup ir_id (cl_intent c) (st_intents db) = Some r"
      "ir_hash r = cl_hash c" "1 \<le> rank (ir_status r)"
      using inv by (auto simp: store_inv_def claims_ok_def rows(1))
    then show "\<exists>r. row_lookup ir_id (cl_intent c) (st_intents ?db) = Some r \<and> ir_hash r = cl_hash c
        \<and> 1 \<le> rank (ir_status r)"
      using table_leD [OF table r(1)] by (auto simp: intent_le_def)
  qed
  moreover have "authority_ok ?db"
  proof -
    have "backed ?db = backed db" by (rule backed_cong) (simp_all add: rows(1))
    then show ?thesis using inv auth [OF inv]
      by (auto simp: authority_ok_def store_inv_def rows(1) row_update_def row_of_intent_def)
  qed
  ultimately show "store_inv ?db \<and> store_le db ?db" using inv
    by (simp add: store_inv_def rows(1) runs_ok_def approvals_ok_def grants_ok_def leases_ok_def journal_ok_def)
qed

section \<open>Approvals\<close>

lemma backed_mono:
  assumes "backed s r rid" and "table_le pr_id approval_le (st_approvals s) (st_approvals t)"
    and "table_le gr_request grant_le (st_grants s) (st_grants t)"
  shows "backed t r rid"
proof -
  obtain p g where p: "row_lookup pr_id rid (st_approvals s) = Some p" "pr_status p = ApApproved"
    and g: "row_lookup gr_request (Some rid) (st_grants s) = Some g" "cg_consumed (gr_data g) \<noteq> None"
      "cg_choice (gr_data g) \<in> set (ap_choices (pr_data p))"
      "cg_choice (gr_data g) = ALLOW_ONCE \<longrightarrow> gr_intent g = ir_id r"
    using assms(1) by (auto simp: backed_def)
  have "row_lookup pr_id rid (st_approvals t) = Some p"
    using table_leD [OF assms(2) p(1)] p(2) by (auto simp: approval_le_def)
  moreover obtain g' where "row_lookup gr_request (Some rid) (st_grants t) = Some g'" "grant_le g g'"
    using table_leD [OF assms(3) g(1)] by blast
  ultimately show ?thesis using p g by (auto simp: backed_def grant_le_def)
qed

lemma authority_mono:
  assumes "authority_ok s" and "st_intents t = st_intents s"
    and "table_le pr_id approval_le (st_approvals s) (st_approvals t)"
    and "table_le gr_request grant_le (st_grants s) (st_grants t)"
  shows "authority_ok t"
  using assms backed_mono [OF _ assms(3,4)] by (simp add: authority_ok_def)

lemma forward_insert_approval:
  assumes "insert_approval a db = Inr db'"
  shows "forward db db'"
proof -
  have db': "db' = db\<lparr>st_approvals := st_approvals db @ [row_of_approval a]\<rparr>"
    and fresh: "pr_id (row_of_approval a) \<notin> pr_id ` set (st_approvals db)"
    using assms by (auto simp: insert_approval_def res_simps)
  have "authority_ok db'" if "authority_ok db"
    by (rule authority_mono [OF that]) (simp_all add: db' table_le_refl table_le_append)
  moreover have "approvals_ok db'" if "approvals_ok db"
    using that fresh by (auto simp: approvals_ok_def db')
  ultimately show ?thesis
    by (auto simp: forward_def store_inv_def store_le_def db' runs_ok_def grants_ok_def
        leases_ok_def intents_ok_def claims_ok_def journal_ok_def table_le_refl table_le_append)
qed

definition resolves :: "approval_request \<Rightarrow> approval_request \<Rightarrow> bool" where
  "resolves q q' \<longleftrightarrow> ap_id q' = ap_id q \<and> ap_intent q' = ap_intent q \<and> ap_run q' = ap_run q"

lemma get_approval_Inr:
  "get_approval db rid = Inr q \<longleftrightarrow> (\<exists>r. row_lookup pr_id rid (st_approvals db) = Some r \<and> pr_data r = q)"
  by (simp add: get_approval_def res_simps)

lemma approval_row_found:
  assumes "approvals_ok db" and "get_approval db rid = Inr q"
  shows "row_lookup pr_id rid (st_approvals db) = Some (row_of_approval q)" and "ap_id q = rid"
proof -
  obtain r where r: "row_lookup pr_id rid (st_approvals db) = Some r" "pr_data r = q"
    using assms(2) by (auto simp: get_approval_Inr)
  then have "r = row_of_approval q" and "pr_id r = rid"
    using assms(1) row_lookup_Some [OF r(1)] by (auto simp: approvals_ok_def approval_row_ok_def)
  then show "row_lookup pr_id rid (st_approvals db) = Some (row_of_approval q)" "ap_id q = rid"
    using r by (simp_all add: row_of_approval_def)
qed

lemma forward_update_approval:
  assumes get: "get_approval db rid = Inr q" and "ap_status q = ApPending" and res: "resolves q q'"
  shows "forward db (update_approval rid q' db)"
  unfolding forward_def
proof (intro impI)
  let ?db = "update_approval rid q' db"
  assume inv: "store_inv db"
  then have ok: "approvals_ok db" by (simp add: store_inv_def)
  note row = approval_row_found [OF ok get]
  have unique: "r = row_of_approval q" if "r \<in> set (st_approvals db)" "pr_id r = rid" for r
    using ok [unfolded approvals_ok_def] row_lookup_distinct [of pr_id "st_approvals db" r] that row(1) by simp
  have new: "r\<lparr>pr_status := ap_status q', pr_data := q'\<rparr> = row_of_approval q'"
    if "r \<in> set (st_approvals db)" "pr_id r = rid" for r
    using res by (simp add: unique [OF that] row_of_approval_def resolves_def)
  have eq: "?db = db\<lparr>st_approvals := row_update pr_id rid (\<lambda>_. row_of_approval q') (st_approvals db)\<rparr>"
    unfolding update_approval_def by (subst row_update_cong [OF new]) simp_all
  have pid: "pr_id (row_of_approval q') = rid"
    using res row(2) by (simp add: row_of_approval_def resolves_def)
  have le: "approval_le (row_of_approval q) (row_of_approval q')"
    using res assms(2) by (simp add: approval_le_def row_of_approval_def resolves_def)
  have table: "table_le pr_id approval_le (st_approvals db) (st_approvals ?db)"
    unfolding eq using unique pid le by (auto intro!: table_le_update dest!: row_lookup_Some)
  have "authority_ok ?db"
    by (rule authority_mono [OF _ _ table]) (use inv in \<open>simp_all add: store_inv_def eq table_le_refl\<close>)
  moreover have "approvals_ok ?db"
    using ok pid by (simp add: approvals_ok_def eq map_key_row_update)
  moreover have "store_le db ?db"
    using table by (simp add: store_le_def table_le_refl eq)
  ultimately show "store_inv ?db \<and> store_le db ?db" using inv
    by (simp add: store_inv_def runs_ok_def grants_ok_def leases_ok_def journal_ok_def intents_ok_def
        claims_ok_def eq)
qed

section \<open>Capability grants\<close>

lemma forward_insert_grant:
  assumes "insert_grant g db = Inr db'"
  shows "forward db db'"
proof -
  have db': "db' = db\<lparr>st_grants := st_grants db @ [row_of_grant g]\<rparr>"
    and fresh: "gr_id (row_of_grant g) \<notin> gr_id ` set (st_grants db)"
      "cg_request g = None \<or> cg_request g \<notin> gr_request ` set (st_grants db)"
    using assms by (auto simp: insert_grant_def res_simps)
  have "authority_ok db'" if "authority_ok db"
    by (rule authority_mono [OF that]) (simp_all add: db' table_le_refl table_le_append)
  moreover have "grants_ok db'" if "grants_ok db"
  proof -
    have "gr_request (row_of_grant g) = cg_request g" by (simp add: row_of_grant_def)
    then show ?thesis using that fresh by (auto simp: grants_ok_def db')
  qed
  ultimately show ?thesis
    by (auto simp: forward_def store_inv_def store_le_def db' runs_ok_def approvals_ok_def
        leases_ok_def intents_ok_def claims_ok_def journal_ok_def table_le_refl table_le_append)
qed

lemma get_grant_row:
  assumes "grants_ok db" and "get_grant db gid = Inr g"
  shows "row_of_grant g \<in> set (st_grants db)" and "cg_id g = gid"
proof -
  obtain r where "row_lookup gr_id gid (st_grants db) = Some r" "g = gr_data r"
    using assms(2)
    by (auto simp: get_grant_def res_simps joined_grant_def grant_from_row_def Let_def split: option.splits)
  then have "r \<in> set (st_grants db)" "gr_id r = gid" "row_of_grant g = r"
    using assms(1) row_lookup_Some [of gr_id gid "st_grants db" r]
    by (auto simp: grants_ok_def row_of_data)
  then show "row_of_grant g \<in> set (st_grants db)" "cg_id g = gid" by (auto simp: row_of_grant_def)
qed

lemma request_grant_row:
  assumes "grants_ok db" and "get_grant_for_request db rid = Inr (Some g)"
  shows "row_of_grant g \<in> set (st_grants db)" and "cg_request g = Some rid"
    and "row_lookup gr_request (Some rid) (st_grants db) = Some (row_of_grant g)"
proof -
  obtain r where r: "row_lookup gr_request (Some rid) (st_grants db) = Some r" "g = gr_data r"
    using assms(2) by (auto simp: get_grant_for_request_def res_simps joined_grant_def grant_from_row_def
        Let_def split: option.splits)
  then have mem: "r \<in> set (st_grants db)" "gr_request r = Some rid" "row_of_grant g = r"
    using assms(1) row_lookup_Some [OF r(1)] by (auto simp: grants_ok_def row_of_data)
  then show "row_of_grant g \<in> set (st_grants db)"
    "row_lookup gr_request (Some rid) (st_grants db) = Some (row_of_grant g)"
    using r(1) by simp_all
  show "cg_request g = Some rid" using mem(2,3) by (auto simp: row_of_grant_def)
qed

lemma lookup_distinct_filter:
  "distinct (filter P (map f xs)) \<Longrightarrow> x \<in> set xs \<Longrightarrow> P (f x) \<Longrightarrow> row_lookup f (f x) xs = Some x"
  by (induction xs) (auto split: if_splits)

lemma grant_of_request:
  assumes "grants_ok db" and "row_of_grant g \<in> set (st_grants db)" and "cg_request g = Some rid"
  shows "row_lookup gr_request (Some rid) (st_grants db) = Some (row_of_grant g)"
  using assms lookup_distinct_filter [of "\<lambda>x. x \<noteq> None" gr_request "st_grants db" "row_of_grant g"]
  by (simp add: grants_ok_def row_of_grant_def)

text \<open>Use and revocation keep what the grant is about.\<close>

definition regrants :: "capability_grant \<Rightarrow> capability_grant \<Rightarrow> bool" where
  "regrants g g' \<longleftrightarrow> cg_id g' = cg_id g \<and> grant_le (row_of_grant g) (row_of_grant g')"

lemma update_grant_rows:
  assumes ok: "grants_ok db" and mem: "row_of_grant g \<in> set (st_grants db)" and re: "regrants g g'"
  shows "update_grant g' db =
     db\<lparr>st_grants := row_update gr_id (cg_id g) (\<lambda>_. row_of_grant g') (st_grants db)\<rparr>"
    and "\<And>r. r \<in> set (st_grants db) \<Longrightarrow> gr_id r = cg_id g \<Longrightarrow> r = row_of_grant g"
proof -
  show unique: "r = row_of_grant g" if "r \<in> set (st_grants db)" "gr_id r = cg_id g" for r
    using that mem ok by (auto simp: grants_ok_def distinct_map inj_on_def row_of_grant_def)
  have new: "r\<lparr>gr_uses := cg_uses g', gr_data := g'\<rparr> = row_of_grant g'"
    if "r \<in> set (st_grants db)" "gr_id r = cg_id g" for r
    using re by (simp add: unique [OF that] row_of_grant_def regrants_def grant_le_def)
  have "cg_id g' = cg_id g" using re by (simp add: regrants_def)
  then show "update_grant g' db =
     db\<lparr>st_grants := row_update gr_id (cg_id g) (\<lambda>_. row_of_grant g') (st_grants db)\<rparr>"
    unfolding update_grant_def by (simp, subst row_update_cong [OF new]) simp_all
qed

lemma forward_update_grant:
  assumes mem: "store_inv db \<Longrightarrow> row_of_grant g \<in> set (st_grants db)" and re: "regrants g g'"
  shows "forward db (update_grant g' db)"
  unfolding forward_def
proof (intro impI)
  let ?db = "update_grant g' db"
  assume inv: "store_inv db"
  then have ok: "grants_ok db" by (simp add: store_inv_def)
  note rows = update_grant_rows [OF ok mem [OF inv] re]
  have same: "gr_id (row_of_grant g') = cg_id g" "gr_request (row_of_grant g') = cg_request g"
    and le: "grant_le (row_of_grant g) (row_of_grant g')"
    using re by (simp_all add: regrants_def grant_le_def row_of_grant_def)
  have key: "gr_id (row_of_grant g) = cg_id g" "gr_request (row_of_grant g) = cg_request g"
    by (simp_all add: row_of_grant_def)
  have table: "table_le gr_id grant_le (st_grants db) (st_grants ?db)"
    unfolding rows(1) using rows(2) same le by (auto intro!: table_le_update dest!: row_lookup_Some)
  have by_request: "table_le gr_request grant_le (st_grants db) (st_grants ?db)"
    unfolding rows(1)
  proof (simp, rule table_le_update)
    fix r assume "r \<in> set (st_grants db)" "gr_id r = cg_id g"
    then show "gr_request (row_of_grant g') = gr_request r" using rows(2) same key by metis
  next
    fix k r assume "row_lookup gr_request k (st_grants db) = Some r" "gr_id r = cg_id g"
    then show "grant_le r (row_of_grant g')" using rows(2) le row_lookup_Some by metis
  qed simp
  have "authority_ok ?db"
    by (rule authority_mono [OF _ _ _ by_request]) (use inv in \<open>simp_all add: store_inv_def rows(1) table_le_refl\<close>)
  moreover have "grants_ok ?db"
  proof -
    have "map gr_request (st_grants ?db) = map gr_request (st_grants db)"
      using rows(2) same key by (auto simp: rows(1) row_update_def)
    then show ?thesis using ok same by (simp add: grants_ok_def rows(1) map_key_row_update)
  qed
  moreover have "store_le db ?db"
    using table by (simp add: store_le_def table_le_refl rows(1))
  ultimately show "store_inv ?db \<and> store_le db ?db" using inv
    by (simp add: store_inv_def runs_ok_def approvals_ok_def leases_ok_def journal_ok_def intents_ok_def
        claims_ok_def rows(1))
qed

section \<open>Claims, leases, runs, tasks and agents\<close>

lemma forward_insert_claim:
  assumes "insert_claim fx iid h db = Inr db'"
    and "store_inv db \<Longrightarrow> \<exists>r. row_lookup ir_id iid (st_intents db) = Some r \<and> ir_hash r = h \<and> 1 \<le> rank (ir_status r)"
  shows "forward db db'"
proof -
  have db': "db' = db\<lparr>st_claims := st_claims db @ [\<lparr>cl_intent = iid, cl_hash = h, cl_at = clk fx 0\<rparr>]\<rparr>"
    using assms(1) by (auto simp: insert_claim_def res_simps)
  have "backed db' = backed db" by (rule backed_cong) (simp_all add: db')
  then show ?thesis using assms(2)
    by (auto simp: forward_def inv_defs store_le_def db' table_le_refl table_le_append journal_ok_def)
qed

lemma forward_leases:
  assumes "leases_ok db \<Longrightarrow> table_le lr_id lease_le (st_leases db) rows"
    and "leases_ok db \<Longrightarrow> leases_ok (db\<lparr>st_leases := rows\<rparr>)"
  shows "forward db (db\<lparr>st_leases := rows\<rparr>)"
  unfolding forward_def
proof (intro impI)
  let ?db = "db\<lparr>st_leases := rows\<rparr>"
  assume inv: "store_inv db"
  have "authority_ok ?db"
    by (rule authority_mono [of db]) (use inv in \<open>simp_all add: store_inv_def table_le_refl\<close>)
  moreover have "leases_ok ?db" using inv assms(2) by (simp add: store_inv_def)
  moreover have "store_le db ?db"
    using inv assms(1) by (simp add: store_inv_def store_le_def table_le_refl)
  ultimately show "store_inv ?db \<and> store_le db ?db" using inv
    by (simp add: store_inv_def runs_ok_def grants_ok_def journal_ok_def intents_ok_def
        claims_ok_def approvals_ok_def)
qed

lemma forward_insert_lease: "insert_lease l db = Inr db' \<Longrightarrow> forward db db'"
  by (auto simp: insert_lease_def res_simps leases_ok_def row_of_lease_def
      intro!: forward_leases table_le_append)

text \<open>A lease keeps its identity; its status moves along the transition table.\<close>

definition renews :: "resource_lease \<Rightarrow> resource_lease \<Rightarrow> bool" where
  "renews l l' \<longleftrightarrow> ls_id l' = ls_id l \<and> ls_kind l' = ls_kind l \<and> ls_status l \<notin> {LeaseReleased, LeaseRecovered}
     \<and> (ls_status l' \<in> set (lease_targets (ls_status l)) \<or>
        (ls_status l' = ls_status l \<and> json_get ''creation_dispatched'' (ls_metadata l) = Some (JBool False)))"

lemma creating_not_target: "LeaseCreating \<notin> set (lease_targets st)"
  by (cases st) (simp_all add: lease_targets_def)

lemma renews_le:
  assumes "renews (lr_data r) l'" and "lr_status r = ls_status (lr_data r)"
  shows "lease_le r (r\<lparr>lr_status := ls_status l', lr_data := l'\<rparr>)"
  using assms creating_not_target
  by (auto simp: lease_le_def renews_def closed_def dispatched_def)

lemma the_lease_Inr:
  "the_lease db lid = Inr l \<longleftrightarrow> (\<exists>r. row_lookup lr_id lid (st_leases db) = Some r \<and> lr_data r = l)"
  by (simp add: the_lease_def find_lease_def res_simps)

lemma forward_update_lease:
  assumes "the_lease db lid = Inr l" and "renews l l'"
  shows "forward db (update_lease lid l' db)"
  unfolding update_lease_def
proof (rule forward_leases)
  assume ok: "leases_ok db"
  have unique: "lr_data r = l \<and> lr_status r = ls_status (lr_data r)"
    if "r \<in> set (st_leases db)" "lr_id r = lid" for r
    using that assms(1) ok row_lookup_distinct [of lr_id "st_leases db" r]
    by (auto simp: the_lease_Inr leases_ok_def)
  show "table_le lr_id lease_le (st_leases db)
      (row_update lr_id lid (\<lambda>r. r\<lparr>lr_status := ls_status l', lr_data := l'\<rparr>) (st_leases db))"
    using assms(2) unique by (auto intro!: table_le_update renews_le dest!: row_lookup_Some)
  show "leases_ok (db\<lparr>st_leases :=
      row_update lr_id lid (\<lambda>r. r\<lparr>lr_status := ls_status l', lr_data := l'\<rparr>) (st_leases db)\<rparr>)"
    using assms(2) unique ok by (auto simp: leases_ok_def renews_def map_key_row_update)
qed

lemma forward_runs:
  assumes "runs_ok db \<Longrightarrow> table_le rr_id run_row_le (db_runs db) rows"
    and "runs_ok db \<Longrightarrow> runs_ok (db\<lparr>db_runs := rows\<rparr>)"
  shows "forward db (db\<lparr>db_runs := rows\<rparr>)"
  unfolding forward_def
proof (intro impI)
  let ?db = "db\<lparr>db_runs := rows\<rparr>"
  assume inv: "store_inv db"
  have "authority_ok ?db"
    by (rule authority_mono [of db]) (use inv in \<open>simp_all add: store_inv_def table_le_refl\<close>)
  moreover have "runs_ok ?db" using inv assms(2) by (simp add: store_inv_def)
  moreover have "store_le db ?db"
    using inv assms(1) by (simp add: store_inv_def store_le_def table_le_refl)
  ultimately show "store_inv ?db \<and> store_le db ?db" using inv
    by (simp add: store_inv_def leases_ok_def grants_ok_def journal_ok_def intents_ok_def
        claims_ok_def approvals_ok_def)
qed

lemma forward_insert_run: "insert_run r db = Inr db' \<Longrightarrow> forward db db'"
  by (auto simp: insert_run_def res_simps runs_ok_def row_of_run_def intro!: forward_runs table_le_append)

lemma run_le_step:
  assumes "validate_transition (rr_status row, rr_stage row) st sg = Inr ()"
  shows "run_row_le row (row\<lparr>rr_status := st, rr_stage := sg, rr_data := r\<rparr>)"
  using assms unfolding run_row_le_def state_of_row_def
  by (intro r_into_rtranclp) (simp add: save_state_def)

lemma forward_update_run:
  assumes "store_inv db \<Longrightarrow> \<exists>row. find_run db (run_id r) = Some row
    \<and> validate_transition (rr_status row, rr_stage row) (run_status r) (run_stage r) = Inr ()"
  shows "forward db (update_run r db)"
proof (cases "store_inv db")
  case True
  with assms obtain row where row: "row_lookup rr_id (run_id r) (db_runs db) = Some row"
    "validate_transition (rr_status row, rr_stage row) (run_status r) (run_stage r) = Inr ()"
    by (auto simp: find_run_def)
  have found: "ra = row" if "row_lookup rr_id k (db_runs db) = Some ra" "rr_id ra = run_id r" for k ra
    using that row(1) row_lookup_Some [OF that(1)] by simp
  show ?thesis unfolding update_run_def
  proof (rule forward_runs)
    show "table_le rr_id run_row_le (db_runs db) (row_update rr_id (run_id r)
        (\<lambda>row. row\<lparr>rr_status := run_status r, rr_stage := run_stage r, rr_data := r\<rparr>) (db_runs db))"
      using row(2) found by (auto intro!: table_le_update run_le_step)
  qed (simp add: runs_ok_def)
qed (simp add: forward_def)

lemma forward_insert_task: "insert_task t db = Inr db' \<Longrightarrow> forward db db'"
  by (auto simp: insert_task_def res_simps forward_def inv_defs backed_def store_le_def journal_ok_def
      table_le_refl table_le_append)

lemma forward_agents: "forward db (db\<lparr>db_agents := rows\<rparr>)"
  by (auto simp: forward_def inv_defs backed_def store_le_def journal_ok_def table_le_refl)

end
