(* ===== verification/State_Properties.thy ===== *)
theory State_Properties
  imports State_Invariants
begin

text \<open>
  The transactions of the state store as one durable, monotone component, and what follows for every
  sequence of transactions: an intent is dispatched at most once and only on a live authority, a
  resolved approval and a revoked capability are final, a released lease never reopens, an execution
  is created at most once, a finished run stays finished, and the journal has no gaps.
\<close>

section \<open>Every transaction moves the store forward\<close>

lemma stored_intent_of_Inr:
  "stored_intent_of i h st q = Inr s \<longleftrightarrow> sha256_ok h \<and>
     s = \<lparr>si_intent = i, si_hash = h, si_status = st, si_approval = q, si_result = None\<rparr>"
  by (auto simp: stored_intent_of_def res_simps)

lemma reserve_intent_forward:
  assumes "reserve_intent fx i h db = Inr (db', s)"
  shows "forward db db'"
proof (cases "find_intent db (ti_run i) (ti_key i)")
  case None
  with assms obtain db1 r where ins: "insert_intent s db = Inr db1" "si_approval s = None"
    and ev: "intent_event fx 1 r i ''tool.intent_created'' (created_payload i) db1 = Inr db'"
    by (auto simp: reserve_intent_def res_simps stored_intent_of_Inr)
  have "forward db db1" by (rule forward_insert_intent [OF ins(1)]) (simp add: ins(2))
  then show ?thesis using forward_intent_event [OF ev] by (rule forward_trans)
next
  case (Some e)
  with assms show ?thesis by (auto simp: reserve_intent_def res_simps)
qed

lemma complete_intent_forward:
  assumes "complete_intent fx iid v db = Inr (db', s)"
  shows "forward db db'"
proof -
  obtain c where c: "get_intent db iid = Inr c" using assms by (auto simp: complete_intent_def res_simps)
  let ?s = "c\<lparr>si_status := EXECUTED, si_result := Some (fst (redact fx v))\<rparr>"
  have "forward db (update_intent ?s db)"
    by (rule forward_update_intent [OF c]) (simp_all add: restated_def rank_def split: intent_status.split)
  then show ?thesis using assms c
    by (auto simp: complete_intent_def res_simps Let_def split: if_splits
        intro: forward_trans forward_intent_event)
qed

lemma deny_intent_forward:
  assumes "deny_intent iid db = Inr (db', u)"
  shows "forward db db'"
proof -
  obtain c where c: "get_intent db iid = Inr c" and "db' = update_intent (c\<lparr>si_status := IntentDenied\<rparr>) db"
    using assms by (auto simp: deny_intent_def res_simps)
  then show ?thesis
    by (auto intro!: forward_update_intent [OF c] simp: restated_def rank_def split: intent_status.split)
qed

lemma claim_first_forward:
  assumes "claim_first fx s h db = Inr db'" and "get_intent db (ti_id (si_intent s)) = Inr s" and "si_hash s = h"
  shows "forward db db'"
proof -
  obtain db1 r where ins: "insert_claim fx (ti_id (si_intent s)) h db = Inr db1"
    and ev: "intent_event fx 1 r (si_intent s) ''intent.dispatch_claimed'' (claim_key (ti_id (si_intent s)) h) db1 = Inr db'"
    and st: "si_status s = RESERVED"
    using assms(1) by (auto simp: claim_first_def res_simps Let_def)
  have "forward db db1"
  proof (rule forward_insert_claim [OF ins])
    assume "store_inv db"
    then have "row_lookup ir_id (ti_id (si_intent s)) (st_intents db) = Some (row_of_intent s)"
      using update_intent_rows(3) [OF _ assms(2), of s] by (simp add: store_inv_def restated_def)
    then show "\<exists>r. row_lookup ir_id (ti_id (si_intent s)) (st_intents db) = Some r \<and> ir_hash r = h \<and> 1 \<le> rank (ir_status r)"
      using assms(3) st by (simp add: row_of_intent_def rank_def)
  qed
  then show ?thesis using ev by (blast intro: forward_trans forward_intent_event)
qed

text \<open>What a claim that is answered positively has checked.\<close>

lemma claim_won:
  assumes "claim_reserved_intent_for_dispatch fx iid h db = Inr (db', True)"
  obtains row where "row_lookup ir_id iid (st_intents db) = Some row" "claim_binding_ok fx row iid h"
    "row_lookup cl_intent iid (st_claims db) = None" "claim_first fx (ir_data row) h db = Inr db'"
    "si_status (ir_data row) = RESERVED"
  using assms
  by (auto simp: claim_reserved_intent_for_dispatch_def res_simps claim_first_def Let_def split: option.splits)

lemma claim_forward:
  assumes "claim_reserved_intent_for_dispatch fx iid h db = Inr (db', b)"
  shows "forward db db'"
proof (cases b)
  case True
  with assms obtain row where "row_lookup ir_id iid (st_intents db) = Some row" "claim_binding_ok fx row iid h"
    "claim_first fx (ir_data row) h db = Inr db'"
    by (auto elim: claim_won)
  then show ?thesis
    by (auto intro!: claim_first_forward [of fx "ir_data row" h] simp: claim_binding_ok_def Let_def get_intent_Inr)
next
  case False
  then have "db' = db" using assms
    by (auto simp: claim_reserved_intent_for_dispatch_def res_simps split: option.splits)
  then show ?thesis by simp
qed

lemma pause_events_forward: "pause_events fx r i q db = Inr db' \<Longrightarrow> forward db db'"
  by (clarsimp simp: pause_events_def res_simps)
    (meson forward_intent_event forward_record_event forward_trans)

lemma create_approval_forward:
  assumes "create_approval_and_pause fx i h q db = Inr (db', s)"
  shows "forward db db'"
proof (cases "find_intent db (ti_run i) (ti_key i)")
  case None
  obtain r db1 db2 where run: "get_run db (ti_run i) = Inr r"
    and ok: "validate_transition (run_status r, run_stage r) (run_status (pause_run q r)) (run_stage (pause_run q r)) = Inr ()"
    and ins: "insert_intent s db = Inr db1" "insert_approval q db1 = Inr db2"
    and ev: "pause_events fx r i q (update_run (pause_run q r) db2) = Inr db'"
    and st: "si_status s = PENDING_APPROVAL"
    using assms None by (auto simp: create_approval_and_pause_def res_simps stored_intent_of_Inr)
  have "forward db db2"
    by (rule forward_trans [OF forward_insert_intent [OF ins(1)] forward_insert_approval [OF ins(2)]])
      (simp add: st)
  moreover have "forward db2 (update_run (pause_run q r) db2)"
  proof (rule forward_update_run)
    assume "store_inv db2"
    have same: "db_runs db2 = db_runs db"
      using ins by (auto simp: insert_intent_def insert_approval_def res_simps)
    obtain row where row: "find_run db2 (ti_run i) = Some row" "r = rr_data row"
      using run same by (auto simp: get_run_def res_simps find_run_def)
    then have "row \<in> set (db_runs db2)" "rr_id row = ti_run i"
      using row_lookup_Some by (fastforce simp: find_run_def)+
    with \<open>store_inv db2\<close> have "rr_status row = run_status r" "rr_stage row = run_stage r" "run_id r = ti_run i"
      by (auto simp: store_inv_def runs_ok_def row(2))
    then show "\<exists>row. find_run db2 (run_id (pause_run q r)) = Some row \<and>
      validate_transition (rr_status row, rr_stage row) (run_status (pause_run q r)) (run_stage (pause_run q r)) = Inr ()"
      using row(1) ok by (simp add: pause_run_def)
  qed
  ultimately show ?thesis using pause_events_forward [OF ev] by (blast intro: forward_trans)
next
  case (Some e)
  with assms show ?thesis by (auto simp: create_approval_and_pause_def res_simps)
qed

text \<open>An approval hands out a capability and becomes final.\<close>

lemma approve_request_forward:
  assumes "approve_request fx r q s rid choice scope rule_id db = Inr (db', g)"
    and "get_approval db rid = Inr q" and "ap_status q = ApPending"
  shows "forward db db'"
proof -
  let ?q = "q\<lparr>ap_status := ApApproved, ap_resolved := Some (clk fx 0),
            ap_resolution := Some choice, ap_rule := rule_id\<rparr>"
  obtain c db1 db2 where ins: "insert_grant c db = Inr db1"
    and ev: "intent_event fx 1 r (si_intent s) ''approval.resolved'' (resolved_payload rid ?q choice)
       (update_approval rid ?q db1) = Inr db2"
      "intent_event fx 2 r (si_intent s) ''capability.issued'' (issued_payload c) db2 = Inr db'"
    using assms(1) by (auto simp: approve_request_def res_simps Let_def)
  have "get_approval db1 rid = Inr q"
    using ins assms(2) by (auto simp: insert_grant_def res_simps get_approval_Inr)
  then have "forward db1 (update_approval rid ?q db1)"
    using assms(3) by (rule forward_update_approval) (simp add: resolves_def)
  with forward_insert_grant [OF ins] have "forward db (update_approval rid ?q db1)" by (rule forward_trans)
  also note forward_intent_event [OF ev(1)]
  also note forward_intent_event [OF ev(2)]
  finally show ?thesis .
qed

lemma deny_request_forward:
  assumes "deny_request fx r q s rid why db = Inr (db', g)"
    and q: "get_approval db rid = Inr q" "ap_status q = ApPending" and s: "get_intent db iid = Inr s"
  shows "forward db db'"
proof -
  let ?s = "s\<lparr>si_status := IntentDenied\<rparr>"
  let ?q = "q\<lparr>ap_status := ApDenied, ap_resolved := Some (clk fx 0),
            ap_denial_reason := map_option (redact_text fx) why, ap_resolution := Some ChoiceDeny\<rparr>"
  have ev: "intent_event fx 1 r (si_intent s) ''approval.resolved'' (resolved_payload rid ?q ChoiceDeny)
       (update_approval rid ?q (update_intent ?s db)) = Inr db'"
    using assms(1) by (auto simp: deny_request_def res_simps Let_def)
  have "forward db (update_intent ?s db)"
    by (rule forward_update_intent [OF s]) (simp_all add: restated_def rank_def split: intent_status.split)
  moreover have "get_approval (update_intent ?s db) rid = Inr q"
    using q(1) by (simp add: get_approval_Inr update_intent_def)
  then have "forward (update_intent ?s db) (update_approval rid ?q (update_intent ?s db))"
    using q(2) by (rule forward_update_approval) (simp add: resolves_def)
  ultimately show ?thesis using forward_intent_event [OF ev] by (blast intro: forward_trans)
qed

lemma replay_resolution_same: "replay_resolution fx q rid c scope rule_id db = Inr (db', g) \<Longrightarrow> db' = db"
  by (auto simp: replay_resolution_def res_simps)

lemma resolve_approval_forward:
  assumes "resolve_approval fx rid approve why choice scope rule_id db = Inr (db', g)"
  shows "forward db db'"
proof -
  obtain q where q: "get_approval db rid = Inr q"
    using assms by (auto simp: resolve_approval_def res_simps)
  show ?thesis
  proof (cases "ap_status q = ApPending")
    case True
    with assms q obtain s r where s: "get_intent db (ap_intent q) = Inr s"
      and "if approve then approve_request fx r q s rid choice scope rule_id db = Inr (db', g)
           else deny_request fx r q s rid why db = Inr (db', g)"
      by (auto simp: resolve_approval_def res_simps Let_def split: if_splits)
    then show ?thesis
      using approve_request_forward [OF _ q True] deny_request_forward [OF _ q True s] by (simp split: if_splits)
  next
    case False
    with assms q have "db' = db"
      by (auto simp: resolve_approval_def Let_def dest: replay_resolution_same)
    then show ?thesis by simp
  qed
qed

text \<open>A capability is used: the record of the use makes the authority of the intent.\<close>

lemma consume_grant_rows:
  assumes "consume_grant fx r g i db = Inr db'" and "grants_ok db" and "row_of_grant g \<in> set (st_grants db)"
  obtains g' where "regrants g g'" "cg_consumed g' \<noteq> None" "same_tables (update_grant g' db) db'"
    "forward (update_grant g' db) db'"
proof -
  let ?g = "g\<lparr>cg_uses := map_option (\<lambda>n. n - 1) (cg_uses g), cg_consumed := Some (clk fx 1)\<rparr>"
  have "intent_event fx 1 r i ''capability.consumed''
       (JObj [(''grant_id'', JStr (cg_id g)), (''intent_id'', JStr (ti_id i))]) (update_grant ?g db) = Inr db'"
    using assms(1) by (simp add: consume_grant_def res_simps Let_def)
  then show ?thesis
    by (intro that [of ?g] intent_event_tables forward_intent_event)
      (auto simp: regrants_def grant_le_def row_of_grant_def)
qed

lemma consume_grant_forward:
  assumes "consume_grant fx r g i db = Inr db'" and "store_inv db \<Longrightarrow> row_of_grant g \<in> set (st_grants db)"
  shows "forward db db'"
proof (cases "store_inv db")
  case True
  then obtain g' where "regrants g g'" "forward (update_grant g' db) db'"
    using assms by (metis consume_grant_rows store_inv_def)
  then show ?thesis using forward_update_grant [of db g g'] assms(2) by (blast intro: forward_trans)
qed (simp add: forward_def)

lemma consumed_backed:
  assumes c: "consume_grant fx r g i db = Inr db'" and inv: "store_inv db"
    and g: "row_of_grant g \<in> set (st_grants db)" "cg_request g = Some rid"
    and p: "get_approval db rid = Inr q" "ap_status q = ApApproved" "cg_choice g \<in> set (ap_choices q)"
    and once: "cg_choice g = ALLOW_ONCE \<Longrightarrow> cg_intent g = ir_id row"
  shows "backed db' row rid"
proof -
  have ok: "grants_ok db" "approvals_ok db" using inv by (simp_all add: store_inv_def)
  obtain g' where g': "regrants g g'" "cg_consumed g' \<noteq> None" "same_tables (update_grant g' db) db'"
    using consume_grant_rows [OF c ok(1) g(1)] by blast
  note rows = update_grant_rows [OF ok(1) g(1) g'(1)]
  have grants: "st_grants db' = row_update gr_id (cg_id g) (\<lambda>_. row_of_grant g') (st_grants db)"
    and appr: "st_approvals db' = st_approvals db"
    using g'(3) by (simp_all add: same_tables_def rows(1))
  have keep: "gr_request (row_of_grant g') = gr_request x" if "x \<in> set (st_grants db)" "gr_id x = cg_id g" for x
    using g'(1) rows(2) [OF that] by (simp add: regrants_def grant_le_def)
  have "row_lookup gr_request (Some rid) (st_grants db') = Some (row_of_grant g')"
    unfolding grants
    by (subst row_lookup_row_update) (simp_all add: keep grant_of_request [OF ok(1) g], simp add: row_of_grant_def)
  moreover have "row_lookup pr_id rid (st_approvals db') = Some (row_of_approval q)"
    using approval_row_found [OF ok(2) p(1)] by (simp add: appr)
  ultimately show ?thesis using p(2,3) once g'(1,2)
    by (auto simp: backed_def row_of_approval_def row_of_grant_def regrants_def grant_le_def)
qed

lemma active_grant_Inr:
  "validate_active_grant fx r q g i = Inr u \<Longrightarrow>
   ap_status q = ApApproved \<and> cg_choice g \<in> set (ap_choices q) \<and> cg_revoked g = None"
  by (auto simp: validate_active_grant_def res_simps)

lemma binding_Inr:
  assumes "validate_approval_binding fx db q s (Some g) = Inr r"
  shows "si_approval s = Some (ap_id q)" "cg_request g = Some (ap_id q)" "cg_intent g = ti_id (si_intent s)"
  using assms by (auto simp: validate_approval_binding_def res_simps request_binding_ok_def
      grant_binding_ok_def Let_def)

lemma consume_and_reserve_forward:
  assumes "consume_grant_and_reserve fx rid h db = Inr (db', t)"
  shows "forward db db'"
proof -
  obtain q s g r where q: "get_approval db rid = Inr q" and s: "get_intent db (ap_intent q) = Inr s"
    and g: "get_grant_for_request db rid = Inr (Some g)"
    and bind: "validate_approval_binding fx db q s (Some g) = Inr r"
    and act: "validate_active_grant fx r q g (si_intent s) = Inr ()"
    and res: "db' = db \<or> (\<exists>db1. si_status s = PENDING_APPROVAL \<and> consume_grant fx r g (si_intent s) db = Inr db1
      \<and> db' = update_intent (s\<lparr>si_status := RESERVED\<rparr>) db1)"
    using assms by (auto simp: consume_grant_and_reserve_def res_simps split: if_splits)
  show ?thesis
  proof (cases "db' = db \<or> \<not> store_inv db")
    case True
    then show ?thesis by (auto simp: forward_def)
  next
    case False
    then have inv: "store_inv db" by simp
    then have ok: "grants_ok db" "intents_ok db" "approvals_ok db" by (simp_all add: store_inv_def)
    from False res obtain db1 where st: "si_status s = PENDING_APPROVAL"
      and c: "consume_grant fx r g (si_intent s) db = Inr db1" and db': "db' = update_intent (s\<lparr>si_status := RESERVED\<rparr>) db1"
      by auto
    note gr = request_grant_row [OF ok(1) g] and qid = approval_row_found(2) [OF ok(3) q]
    have fwd: "forward db db1" using c gr(1) by (blast intro: consume_grant_forward)
    obtain g' where "same_tables (update_grant g' db) db1" using consume_grant_rows [OF c ok(1) gr(1)] by blast
    then have s1: "get_intent db1 (ap_intent q) = Inr s"
      using s by (simp add: same_tables_def update_grant_def get_intent_Inr)
    have "backed db1 (row_of_intent (s\<lparr>si_status := RESERVED\<rparr>)) rid"
      by (rule consumed_backed [OF c inv gr(1) gr(2) q])
        (use active_grant_Inr [OF act] binding_Inr [OF bind] in \<open>simp_all add: row_of_intent_def\<close>)
    then have "forward db1 (update_intent (s\<lparr>si_status := RESERVED\<rparr>) db1)"
      using binding_Inr(1) [OF bind] qid
      by (intro forward_update_intent [OF s1]) (simp_all add: restated_def rank_def st)
    with fwd show ?thesis unfolding db' by (rule forward_trans)
  qed
qed

lemma reserve_reuse_forward:
  assumes "reserve_reuse fx r g i h db = Inr (db', t)" and g: "store_inv db \<Longrightarrow> row_of_grant g \<in> set (st_grants db)"
    and p: "cg_request g = Some rid" "get_approval db rid = Inr q" "ap_status q = ApApproved"
      "cg_choice g \<in> set (ap_choices q)"
  shows "forward db db'"
proof (cases "store_inv db")
  case True
  obtain db1 db2 where c: "consume_grant fx r g i db = Inr db1" and ins: "insert_intent t db1 = Inr db2"
    and ev: "intent_event fx 2 r i ''tool.intent_created'' (created_payload i) db2 = Inr db'"
    and t: "si_approval t = Some rid" and many: "cg_choice g \<noteq> ALLOW_ONCE"
    using assms(1) p(1) by (auto simp: reserve_reuse_def res_simps stored_intent_of_Inr)
  have "forward db db1" using c g by (rule consume_grant_forward)
  also have "forward db1 db2"
    using consumed_backed [OF c True g [OF True] p] many t
    by (intro forward_insert_intent [OF ins]) auto
  also note forward_intent_event [OF ev]
  finally show ?thesis .
qed (simp add: forward_def)

lemma consume_matching_forward:
  assumes "consume_matching_grant_and_reserve fx gid i h scope db = Inr (db', t)"
  shows "forward db db'"
proof -
  obtain g rid q s r where g: "get_grant db gid = Inr g" "cg_request g = Some rid"
    and q: "get_approval db rid = Inr q" and act: "validate_active_grant fx r q g i = Inr ()"
    and res: "db' = db \<or> reserve_reuse fx r g i h db = Inr (db', t)"
    using assms by (auto simp: consume_matching_grant_and_reserve_def res_simps split: option.splits)
  have "row_of_grant g \<in> set (st_grants db)" if "store_inv db"
    using get_grant_row(1) [OF _ g(1)] that by (simp add: store_inv_def)
  then show ?thesis
    using res reserve_reuse_forward [OF _ _ g(2) q] active_grant_Inr [OF act] by auto
qed

lemma revoke_grant_forward:
  assumes "revoke_grant fx gid db = Inr (db', g)"
  shows "forward db db'"
proof -
  obtain c where c: "get_grant db gid = Inr c" using assms by (auto simp: revoke_grant_def res_simps)
  let ?c = "c\<lparr>cg_revoked := Some (clk fx 0)\<rparr>"
  show ?thesis
  proof (cases "cg_revoked c")
    case None
    have "forward db (update_grant ?c db)"
      using get_grant_row(1) [OF _ c] None
      by (intro forward_update_grant [of db c])
        (auto simp: store_inv_def regrants_def grant_le_def row_of_grant_def)
    moreover have "forward (update_grant ?c db) db'"
      using assms c None by (auto simp: revoke_grant_def res_simps Let_def intro: forward_record_event)
    ultimately show ?thesis by (rule forward_trans)
  next
    case (Some n)
    then show ?thesis using assms c by (auto simp: revoke_grant_def res_simps)
  qed
qed

lemma reserve_with_receipt_forward:
  assumes "reserve_with_receipt fx r i h g db = Inr (db', s)"
  shows "forward db db'"
proof -
  obtain db1 db2 db3 db4 where ins: "insert_intent s db = Inr db1" "insert_grant g db1 = Inr db2"
    and ev: "intent_event fx 1 r i ''tool.intent_created'' (created_payload i) db2 = Inr db3"
      "intent_event fx 2 r i ''capability.issued'' (receipt_payload g i 1) db3 = Inr db4"
      "intent_event fx 3 r i ''capability.consumed'' (receipt_payload g i 0) db4 = Inr db'"
    and none: "si_approval s = None"
    using assms by (auto simp: reserve_with_receipt_def res_simps stored_intent_of_Inr)
  have "forward db db1" by (rule forward_insert_intent [OF ins(1)]) (simp add: none)
  also note forward_insert_grant [OF ins(2)]
  also note forward_intent_event [OF ev(1)]
  also note forward_intent_event [OF ev(2)]
  also note forward_intent_event [OF ev(3)]
  finally show ?thesis .
qed

lemma reserve_trust_forward:
  assumes "reserve_trust_rule_intent fx i h scope rule_id db = Inr (db', s)"
  shows "forward db db'"
proof -
  have "db' = db \<or> (\<exists>r. reserve_with_receipt fx r i h (receipt_of fx r i h scope rule_id) db = Inr (db', s))"
    using assms by (auto simp: reserve_trust_rule_intent_def res_simps split: option.splits)
  then show ?thesis by (auto intro: reserve_with_receipt_forward)
qed

text \<open>Leases.\<close>

lemma save_lease_forward: "save_lease fx l db = Inr (db', u) \<Longrightarrow> forward db db'"
  by (auto simp: save_lease_def res_simps dest!: forward_insert_lease forward_record_events
      intro: forward_trans)

lemma transition_Inr [res_simps]:
  "validate_lease_transition a b = Inr u \<longleftrightarrow> b \<in> set (lease_targets a)"
  by (simp add: validate_lease_transition_def res_simps)

lemma target_open: "b \<in> set (lease_targets a) \<Longrightarrow> a \<noteq> LeaseReleased \<and> a \<noteq> LeaseRecovered"
  by (cases a) (simp_all add: lease_targets_def)

lemma renewed_then_events:
  assumes "the_lease db lid = Inr l" and "renews l l'"
    and "record_events fx n r p ts (update_lease lid l' db) = Inr db'"
  shows "forward db db'"
  using forward_update_lease [OF assms(1,2)] forward_record_events [OF assms(3)] by (rule forward_trans)

lemma update_lease_status_forward:
  assumes "update_lease_status fx lid st db = Inr (db', u)"
  shows "forward db db'"
  using assms
  by (auto simp: update_lease_status_def res_simps Let_def renews_def target_open split: if_splits
      elim!: renewed_then_events [rotated 2])

lemma activate_lease_forward:
  assumes "activate_lease fx lid m db = Inr (db', l)"
  shows "forward db db'"
  using assms
  by (auto simp: activate_lease_def res_simps Let_def renews_def dest: target_open
      elim!: renewed_then_events [rotated 2])

lemma finish_lease_forward:
  assumes "finish_lease fx lid l st m db = Inr (db', l')" and "the_lease db lid = Inr l"
  shows "forward db db'"
  using assms
  by (auto simp: finish_lease_def res_simps Let_def renews_def dest: target_open
      elim!: renewed_then_events [rotated 2])

lemma finalize_lease_forward:
  assumes "finalize_lease fx lid st m db = Inr (db', l)"
  shows "forward db db'"
  using assms
  by (auto simp: finalize_lease_def res_simps Let_def split: if_splits intro: finish_lease_forward)

lemma mark_dispatched_forward:
  assumes "mark_execution_creation_dispatched fx ck lid db = Inr (db', l)"
  shows "forward db db'"
proof -
  obtain c r l' p where c: "the_lease db lid = Inr c" "checkpoint_reserved c"
    and ev: "record_event fx 1 r ''sandbox.exec_dispatch_recorded'' p (update_lease lid l' db) = Inr db'"
    and l': "ls_id l' = ls_id c" "ls_status l' = ls_status c" "ls_kind l' = ls_kind c"
    using assms
    by (auto simp: mark_execution_creation_dispatched_def checkpoint_handle_def res_simps Let_def)
  have "renews c l'" using c(2) l' by (auto simp: renews_def checkpoint_reserved_def)
  then show ?thesis
    using forward_update_lease [OF c(1)] forward_record_event [OF ev] by (blast intro: forward_trans)
qed

text \<open>Runs, tasks, agents and events.\<close>

lemma create_run_forward:
  assumes "create_run fx ck r extra db = Inr (db', u)"
  shows "forward db db'"
proof -
  obtain db1 t p where "insert_run r db = Inr db1" "record_event fx 1 r t p db1 = Inr db'"
    using assms by (auto simp: create_run_def decode_run_def res_simps)
  then show ?thesis by (blast intro: forward_trans forward_insert_run forward_record_event)
qed

lemma validated_run_Inr:
  "validated_run fx ck db rid = Inr r \<Longrightarrow>
   \<exists>row. find_run db rid = Some row \<and> rr_data row = r \<and> run_id r = rid \<and> rr_status row = run_status r
     \<and> rr_stage row = run_stage r \<and> rr_project row = run_project r"
  by (auto simp: validated_run_def decode_run_def res_simps)

lemma save_run_forward:
  assumes "save_run fx ck r t p db = Inr (db', r')"
  shows "forward db db'"
proof -
  obtain cur where cur: "validated_run fx ck db (run_id r) = Inr cur"
    and ok: "validate_transition (run_status cur, run_stage cur) (run_status r) (run_stage r) = Inr ()"
    and ev: "record_event fx 1 r t p (update_run r db) = Inr db'"
    using assms by (auto simp: save_run_def decode_run_def res_simps)
  have "forward db (update_run r db)"
    using validated_run_Inr [OF cur] ok by (intro forward_update_run) auto
  then show ?thesis using forward_record_event [OF ev] by (rule forward_trans)
qed

lemma save_task_forward:
  assumes "save_task fx t db = Inr (db', u)"
  shows "forward db db'"
proof -
  obtain db1 e where "insert_task t db = Inr db1" "insert_event fx e db1 = Inr db'"
    using assms by (auto simp: save_task_def res_simps)
  then show ?thesis by (blast intro: forward_trans forward_insert_task forward_insert_event)
qed

lemma save_agent_forward: "save_agent_instance a db = Inr (db', u) \<Longrightarrow> forward db db'"
  by (auto simp: save_agent_instance_def res_simps forward_agents split: option.splits)

lemma append_event_forward: "append_event fx e db = Inr (db', u) \<Longrightarrow> forward db db'"
  by (auto simp: append_event_def res_simps intro: forward_insert_event)

end
