(* ===== verification/State_Machine.thy ===== *)
theory State_Machine
  imports State_Properties
begin

text \<open>
  The state store as a machine: an operation is one call of a transaction with its arguments and with
  what it reads from outside, a history is a list of operations in the order in which SQLite commits
  them. Since every transaction is serialized by \<open>BEGIN IMMEDIATE\<close>, concurrent callers give such
  a list. The properties of the store are stated about every history.
\<close>

datatype store_op =
    CreateRun effects run "(string \<times> json) list"
  | SaveRun effects run string json
  | SaveTask effects task_spec
  | SaveAgent agent_instance
  | AppendEvent effects fleet_event
  | ReserveIntent effects tool_intent string
  | ClaimDispatch effects string string
  | RequestApproval effects tool_intent string approval_request
  | ResolveApproval effects string bool "string option" approval_choice "string option" "string option"
  | ConsumeGrant effects string string
  | RevokeGrant effects string
  | ConsumeMatching effects string tool_intent string string
  | ReserveTrustRule effects tool_intent string string string
  | CompleteIntent effects string json
  | DenyIntent string
  | SaveLease effects resource_lease
  | UpdateLease effects string string
  | MarkDispatched effects string
  | ActivateLease effects string json
  | FinalizeLease effects string string json

definition state_of :: "'r tx \<Rightarrow> store res" where
  "state_of m = bind_res m (\<lambda>(db, _). Inr db)"

fun store_step :: "store_checks \<Rightarrow> store \<Rightarrow> store_op \<Rightarrow> exn + store" where
  "store_step ck s (CreateRun fx r extra) = state_of (create_run fx ck r extra s)"
| "store_step ck s (SaveRun fx r t p) = state_of (save_run fx ck r t p s)"
| "store_step ck s (SaveTask fx t) = state_of (save_task fx t s)"
| "store_step ck s (SaveAgent a) = state_of (save_agent_instance a s)"
| "store_step ck s (AppendEvent fx e) = state_of (append_event fx e s)"
| "store_step ck s (ReserveIntent fx i h) = state_of (reserve_intent fx i h s)"
| "store_step ck s (ClaimDispatch fx iid h) = state_of (claim_reserved_intent_for_dispatch fx iid h s)"
| "store_step ck s (RequestApproval fx i h q) = state_of (create_approval_and_pause fx i h q s)"
| "store_step ck s (ResolveApproval fx rid ok why c sc ru) = state_of (resolve_approval fx rid ok why c sc ru s)"
| "store_step ck s (ConsumeGrant fx rid h) = state_of (consume_grant_and_reserve fx rid h s)"
| "store_step ck s (RevokeGrant fx gid) = state_of (revoke_grant fx gid s)"
| "store_step ck s (ConsumeMatching fx gid i h sc) =
     state_of (consume_matching_grant_and_reserve fx gid i h sc s)"
| "store_step ck s (ReserveTrustRule fx i h sc ru) = state_of (reserve_trust_rule_intent fx i h sc ru s)"
| "store_step ck s (CompleteIntent fx iid v) = state_of (complete_intent fx iid v s)"
| "store_step ck s (DenyIntent iid) = state_of (deny_intent iid s)"
| "store_step ck s (SaveLease fx l) = state_of (save_lease fx l s)"
| "store_step ck s (UpdateLease fx lid st) = state_of (update_lease_status fx lid st s)"
| "store_step ck s (MarkDispatched fx lid) = state_of (mark_execution_creation_dispatched fx ck lid s)"
| "store_step ck s (ActivateLease fx lid m) = state_of (activate_lease fx lid m s)"
| "store_step ck s (FinalizeLease fx lid st m) = state_of (finalize_lease fx lid st m s)"

definition empty_store :: store where
  "empty_store = \<lparr>db_runs = [], db_tasks = [], db_agents = [], db_events = [], st_intents = [],
     st_approvals = [], st_grants = [], st_claims = [], st_leases = []\<rparr>"

lemma state_of_Inr [res_simps]: "state_of m = Inr s \<longleftrightarrow> (\<exists>v. m = Inr (s, v))"
  by (cases m) (auto simp: state_of_def)

lemmas transaction_forward = create_run_forward save_run_forward save_task_forward save_agent_forward
  append_event_forward reserve_intent_forward claim_forward create_approval_forward
  resolve_approval_forward consume_and_reserve_forward revoke_grant_forward consume_matching_forward
  reserve_trust_forward complete_intent_forward deny_intent_forward save_lease_forward
  update_lease_status_forward mark_dispatched_forward activate_lease_forward finalize_lease_forward

lemma store_step_forward: "store_step ck s x = Inr s' \<Longrightarrow> forward s s'"
  by (cases x) (auto simp: res_simps dest: transaction_forward)

interpretation state_machine: durable_mono "store_step ck" store_inv store_le for ck
  by unfold_locales
    (auto simp: forward_def dest: store_step_forward intro: store_le_trans)

lemma empty_store_inv [simp]: "store_inv empty_store"
  by (simp add: inv_defs empty_store_def journal_ok_def journal_def)

abbreviation after_ops :: "store_checks \<Rightarrow> store \<Rightarrow> store_op list \<Rightarrow> store" where
  "after_ops ck \<equiv> run_ops (store_step ck)"

lemmas after_inv = state_machine.run_inv and after_le = state_machine.run_le

lemma grant_columns:
  "gr_id (row_of_grant g) = cg_id g" "gr_request (row_of_grant g) = cg_request g"
  "gr_intent (row_of_grant g) = cg_intent g" "gr_data (row_of_grant g) = g"
  by (simp_all add: row_of_grant_def)

lemma ok_columns:
  "grant_row_ok gr \<Longrightarrow> gr_request gr = cg_request (gr_data gr) \<and> gr_intent gr = cg_intent (gr_data gr)"
  "approval_row_ok p \<Longrightarrow> pr_status p = ap_status (pr_data p)"
  by (cases gr, simp add: grant_row_ok_def row_of_grant_def)
    (cases p, simp add: approval_row_ok_def row_of_approval_def)

lemma get_grant_lookup:
  assumes "grants_ok db" and "get_grant db gid = Inr g"
  shows "row_lookup gr_id gid (st_grants db) = Some (row_of_grant g)"
  using row_lookup_distinct [of gr_id "st_grants db" "row_of_grant g"] get_grant_row [OF assms] assms(1)
  by (simp add: grants_ok_def grant_columns)

text \<open>Rows that exist at one time, looked up at a later one.\<close>

lemma later_rows:
  assumes "store_le s t"
  shows "row_lookup rr_id k1 (db_runs s) = Some a1 \<Longrightarrow> \<exists>b. row_lookup rr_id k1 (db_runs t) = Some b \<and> run_row_le a1 b"
    and "row_lookup ir_id k2 (st_intents s) = Some a2 \<Longrightarrow> \<exists>b. row_lookup ir_id k2 (st_intents t) = Some b \<and> intent_le a2 b"
    and "row_lookup pr_id k3 (st_approvals s) = Some a3 \<Longrightarrow> \<exists>b. row_lookup pr_id k3 (st_approvals t) = Some b \<and> approval_le a3 b"
    and "row_lookup gr_id k4 (st_grants s) = Some a4 \<Longrightarrow> \<exists>b. row_lookup gr_id k4 (st_grants t) = Some b \<and> grant_le a4 b"
    and "row_lookup lr_id k5 (st_leases s) = Some a5 \<Longrightarrow> \<exists>b. row_lookup lr_id k5 (st_leases t) = Some b \<and> lease_le a5 b"
  using assms by (auto simp: store_le_def dest: table_leD)

section \<open>Dispatch\<close>

text \<open>Does this operation answer a dispatch claim of the intent with \<open>True\<close>?\<close>

definition wins_claim :: "string \<Rightarrow> store \<Rightarrow> store_op \<Rightarrow> bool" where
  "wins_claim iid s x = (case x of
     ClaimDispatch fx iid' h \<Rightarrow> iid' = iid \<and>
       (case claim_reserved_intent_for_dispatch fx iid' h s of Inr (_, b) \<Rightarrow> b | Inl _ \<Rightarrow> False)
   | _ \<Rightarrow> False)"

lemma wins_claimE:
  assumes "wins_claim iid s x"
  obtains fx h s' where "x = ClaimDispatch fx iid h"
    "claim_reserved_intent_for_dispatch fx iid h s = Inr (s', True)"
  using assms by (auto simp: wins_claim_def split: store_op.splits sum.splits)

lemma claim_first_claims:
  "claim_first fx t h db = Inr db' \<Longrightarrow> row_lookup cl_intent (ti_id (si_intent t)) (st_claims db') \<noteq> None"
  by (auto simp: claim_first_def insert_claim_def res_simps Let_def row_lookup_None same_tables_def
      dest!: intent_event_tables)

text \<open>
  C11. An intent is dispatched at most once: in every history of the store, from any consistent state,
  at most one call of \<open>claim_reserved_intent_for_dispatch\<close> for the intent answers \<open>True\<close>.
\<close>

theorem dispatch_claimed_at_most_once:
  assumes "store_inv s"
  shows "count_wins (store_step ck) (wins_claim iid) s ops \<le> 1"
proof -
  let ?P = "\<lambda>s. row_lookup cl_intent iid (st_claims s) \<noteq> None"
  have "count_wins (store_step ck) (wins_claim iid) s ops \<le> (if ?P s then 0 else 1)"
  proof (rule state_machine.at_most_once [OF assms])
    fix s t assume "store_le s t" "?P s"
    then show "?P t" by (auto simp: store_le_def dest: table_leD)
  next
    fix s x assume "wins_claim iid s x"
    then obtain fx h s' where x: "x = ClaimDispatch fx iid h"
      and won: "claim_reserved_intent_for_dispatch fx iid h s = Inr (s', True)"
      by (rule wins_claimE)
    from won obtain row where "claim_binding_ok fx row iid h" and fresh: "row_lookup cl_intent iid (st_claims s) = None"
      and first: "claim_first fx (ir_data row) h s = Inr s'"
      by (rule claim_won)
    then have "ti_id (si_intent (ir_data row)) = iid" by (simp add: claim_binding_ok_def Let_def)
    with fresh first show "\<not> ?P s \<and> ?P (next_state (store_step ck) s x)"
      using claim_first_claims by (auto simp: next_state_def x won state_of_def)
  qed
  then show ?thesis by (auto split: if_splits)
qed

text \<open>
  C12. A dispatch rests on a live authority: when a claim answers \<open>True\<close>, the intent is the exact
  one that was hashed, and if it asked for an approval then that request was approved, a capability
  was issued for it under one of the choices it offered and has been consumed, and a one-time
  capability belongs to this very intent.
\<close>

theorem dispatch_rests_on_authority:
  assumes inv: "store_inv s" and "claim_reserved_intent_for_dispatch fx iid h s = Inr (s', True)"
    and "get_intent s iid = Inr t"
  shows "ti_id (si_intent t) = iid \<and> si_hash t = h \<and> intent_hash fx (si_intent t) = h \<and>
    (case si_approval t of None \<Rightarrow> True
     | Some rid \<Rightarrow> \<exists>q g. get_approval s rid = Inr q \<and> ap_status q = ApApproved
         \<and> row_of_grant g \<in> set (st_grants s) \<and> cg_request g = Some rid
         \<and> cg_consumed g \<noteq> None \<and> cg_choice g \<in> set (ap_choices q)
         \<and> (cg_choice g = ALLOW_ONCE \<longrightarrow> cg_intent g = iid))"
proof -
  let ?s = s
  from assms(2) obtain row where row: "row_lookup ir_id iid (st_intents ?s) = Some row"
    "claim_binding_ok fx row iid h" "si_status (ir_data row) = RESERVED"
    by (rule claim_won)
  have t: "t = ir_data row" using assms(3) row(1) by (auto simp: get_intent_Inr)
  have bound: "ti_id (si_intent t) = iid \<and> si_hash t = h \<and> intent_hash fx (si_intent t) = h"
    "ir_status row = RESERVED" "ir_approval row = si_approval t"
    using row(2,3) by (auto simp: claim_binding_ok_def Let_def t)
  show ?thesis
  proof (cases "si_approval t")
    case None
    then show ?thesis using bound(1) by simp
  next
    case (Some rid)
    have mem: "row \<in> set (st_intents ?s)" "ir_id row = iid" using row_lookup_Some [OF row(1)] by simp_all
    then have "backed ?s row rid"
      using inv bound(2,3) Some by (auto simp: store_inv_def authority_ok_def)
    then obtain p gr where p: "row_lookup pr_id rid (st_approvals ?s) = Some p" "pr_status p = ApApproved"
      and gr: "row_lookup gr_request (Some rid) (st_grants ?s) = Some gr" "cg_consumed (gr_data gr) \<noteq> None"
        "cg_choice (gr_data gr) \<in> set (ap_choices (pr_data p))"
        "cg_choice (gr_data gr) = ALLOW_ONCE \<longrightarrow> gr_intent gr = iid"
      by (auto simp: backed_def mem(2))
    have "approval_row_ok p" "grant_row_ok gr"
      using inv row_lookup_Some [OF p(1)] row_lookup_Some [OF gr(1)]
      by (auto simp: store_inv_def approvals_ok_def grants_ok_def)
    then have "ap_status (pr_data p) = ApApproved" "row_of_grant (gr_data gr) \<in> set (st_grants ?s)"
      "cg_request (gr_data gr) = Some rid" "cg_intent (gr_data gr) = gr_intent gr"
      using p(2) row_lookup_Some [OF gr(1)] by (auto simp: ok_columns row_of_data dest: ok_columns)
    moreover have "get_approval ?s rid = Inr (pr_data p)" using p(1) by (simp add: get_approval_Inr)
    ultimately show ?thesis using bound(1) Some gr(2-4) by auto
  qed
qed

text \<open>
  C13. A refused or executed intent is never dispatched: once its status is settled, no later claim of
  it answers \<open>True\<close>, whatever happened in between.
\<close>

theorem settled_intent_never_dispatched:
  assumes inv: "store_inv s" and "get_intent s iid = Inr t" and "si_status t \<in> {IntentDenied, EXECUTED}"
  shows "\<not> wins_claim iid (after_ops ck s ops) x"
proof
  let ?s = s and ?t = "after_ops ck s ops"
  assume "wins_claim iid ?t x"
  then obtain fx h s' where "claim_reserved_intent_for_dispatch fx iid h ?t = Inr (s', True)"
    by (rule wins_claimE)
  then obtain row' where row': "row_lookup ir_id iid (st_intents ?t) = Some row'"
    "claim_binding_ok fx row' iid h" "si_status (ir_data row') = RESERVED"
    by (rule claim_won)
  obtain row where row: "row_lookup ir_id iid (st_intents ?s) = Some row" "ir_data row = t"
    using assms(2) by (auto simp: get_intent_Inr)
  have "intent_row_ok row"
    using inv row_lookup_Some [OF row(1)] by (auto simp: store_inv_def intents_ok_def)
  then have "row_of_intent t = row" using row(2) row_of_data(1) by blast
  then have "ir_status row = si_status t" by (auto simp: row_of_intent_def)
  moreover have "intent_le row row'"
    using later_rows(2) [OF after_le [OF inv, of ck ops] row(1)] row'(1) by auto
  ultimately show False
    using assms(3) row'(2,3) by (auto simp: intent_le_def rank_def claim_binding_ok_def Let_def)
qed

section \<open>Finality\<close>

text \<open>
  A resolved approval is final: whatever operations follow, the request that was approved or
  denied is read back unchanged, with its choice, its rule and its time of resolution.
\<close>

theorem approval_resolution_final:
  assumes inv: "store_inv s" and "get_approval s rid = Inr q" and "ap_status q \<noteq> ApPending"
  shows "get_approval (after_ops ck s ops) rid = Inr q"
proof -
  have ok: "approvals_ok s" using inv by (simp add: store_inv_def)
  have "table_le pr_id approval_le (st_approvals s) (st_approvals (after_ops ck s ops))"
    using after_le [OF inv] by (simp add: store_le_def)
  from table_leD [OF this approval_row_found(1) [OF ok assms(2)]] show ?thesis
    using assms(3) by (auto simp: approval_le_def get_approval_Inr row_of_approval_def)
qed

text \<open>
  C14. A revoked capability authorises nothing any more: once a grant is revoked, no later operation
  reserves an intent on it, neither the intent it was issued for nor a matching one.
\<close>

theorem revocation_final:
  assumes inv: "store_inv s" and "get_grant s gid = Inr g" and "cg_revoked g \<noteq> None" and "cg_request g = Some rid"
  shows "consume_grant_and_reserve fx rid h (after_ops ck s ops) \<noteq> Inr (s', t) \<and>
    consume_matching_grant_and_reserve fx gid i h scope (after_ops ck s ops) \<noteq> Inr (s', t)"
proof -
  let ?s = s and ?t = "after_ops ck s ops"
  have ok: "grants_ok ?s" "grants_ok ?t" using inv after_inv [OF inv] by (simp_all add: store_inv_def)
  have "row_lookup gr_id gid (st_grants ?s) = Some (row_of_grant g)"
    by (rule get_grant_lookup [OF ok(1) assms(2)])
  then obtain gr where gr: "row_lookup gr_id gid (st_grants ?t) = Some gr" "grant_le (row_of_grant g) gr"
    using later_rows(4) [OF after_le [OF inv, of ck ops]] by blast
  have revoked: "cg_revoked g' \<noteq> None" if "row_of_grant g' = gr" for g'
    using gr(2) that assms(3) by (auto simp: grant_le_def row_of_grant_def)
  have mem: "gr \<in> set (st_grants ?t)" using row_lookup_Some [OF gr(1)] by simp
  have first: "cg_revoked g' \<noteq> None" if "get_grant ?t gid = Inr g'" for g'
    using get_grant_lookup [OF ok(2) that] gr(1) revoked by simp
  have second: "cg_revoked g' \<noteq> None" if "get_grant_for_request ?t rid = Inr (Some g')" for g'
  proof -
    have "gr_request gr = Some rid" using gr(2) assms(4) by (simp add: grant_le_def row_of_grant_def)
    then have "row_lookup gr_request (Some rid) (st_grants ?t) = Some gr"
      using lookup_distinct_filter [of "\<lambda>x. x \<noteq> None" gr_request "st_grants ?t" gr] ok(2) mem
      by (simp add: grants_ok_def)
    then show ?thesis using request_grant_row(3) [OF ok(2) that] revoked by simp
  qed
  show ?thesis
  proof (intro conjI notI)
    assume "consume_grant_and_reserve fx rid h ?t = Inr (s', t)"
    then obtain g' r q j where "get_grant_for_request ?t rid = Inr (Some g')"
      "validate_active_grant fx r q g' j = Inr ()"
      by (auto simp: consume_grant_and_reserve_def res_simps)
    then show False using second active_grant_Inr by blast
  next
    assume "consume_matching_grant_and_reserve fx gid i h scope ?t = Inr (s', t)"
    then obtain g' r q where "get_grant ?t gid = Inr g'" "validate_active_grant fx r q g' i = Inr ()"
      by (auto simp: consume_matching_grant_and_reserve_def res_simps)
    then show False using first active_grant_Inr by blast
  qed
qed

section \<open>Leases, runs and the journal\<close>

text \<open>
  C15. A released or recovered lease never reopens: it is read back unchanged after every further
  sequence of operations.
\<close>

theorem closed_lease_final:
  assumes inv: "store_inv s" and "the_lease s lid = Inr l" and "ls_status l \<in> {LeaseReleased, LeaseRecovered}"
  shows "the_lease (after_ops ck s ops) lid = Inr l"
proof -
  obtain row where row: "row_lookup lr_id lid (st_leases s) = Some row" "lr_data row = l"
    using assms(2) by (auto simp: the_lease_Inr)
  have "lr_status row = ls_status l"
    using inv row_lookup_Some [OF row(1)] row(2) by (auto simp: store_inv_def leases_ok_def)
  then show ?thesis
    using later_rows(5) [OF after_le [OF inv, of ck ops] row(1)] row(2) assms(3)
    by (auto simp: lease_le_def closed_def the_lease_Inr)
qed

text \<open>Does this operation record that the creation of the execution was dispatched?\<close>

definition records_dispatch :: "store_checks \<Rightarrow> string \<Rightarrow> store \<Rightarrow> store_op \<Rightarrow> bool" where
  "records_dispatch ck lid s x = (case x of
     MarkDispatched fx lid' \<Rightarrow> lid' = lid \<and>
       (case mark_execution_creation_dispatched fx ck lid s of Inr _ \<Rightarrow> True | Inl _ \<Rightarrow> False)
   | _ \<Rightarrow> False)"

lemma json_get_set: "json_get k (json_set k v (JObj ms)) = Some v"
proof -
  have "map_of (map (\<lambda>(k', w). if k' = k then (k', v) else (k', w)) ms) k = Some v" if "k \<in> fst ` set ms"
    using that by (induction ms) auto
  moreover have "map_of ms k = None" if "k \<notin> fst ` set ms"
    using that by (simp add: map_of_eq_None_iff)
  ultimately show ?thesis by (simp add: json_set_def map_add_def)
qed

lemma json_get_obj: "json_get k m = Some v \<Longrightarrow> \<exists>ms. m = JObj ms"
  by (cases m) simp_all

lemma json_set_obj: "\<exists>ms'. json_set k v (JObj ms) = JObj ms'"
  by (simp add: json_set_def)

lemma checkpoint_passed:
  assumes "store_inv s" and "mark_execution_creation_dispatched fx ck lid s = Inr (s', l)"
  shows "\<not> (\<exists>r. row_lookup lr_id lid (st_leases s) = Some r \<and> dispatched r)"
    and "\<exists>r. row_lookup lr_id lid (st_leases s') = Some r \<and> dispatched r"
proof -
  let ?m = "\<lambda>c. json_set ''creation_dispatched'' (JBool True) (json_set ''schema_version'' (JInt 2) (ls_metadata c))"
  obtain c r p l' where c: "the_lease s lid = Inr c" "checkpoint_reserved c"
    and l': "l' = c\<lparr>ls_metadata := ?m c, ls_updated := clk fx 0\<rparr>"
    and ev: "record_event fx 1 r ''sandbox.exec_dispatch_recorded'' p (update_lease lid l' s) = Inr s'"
    using assms(2)
    by (auto simp: mark_execution_creation_dispatched_def checkpoint_handle_def res_simps Let_def)
  obtain row where row: "row_lookup lr_id lid (st_leases s) = Some row" "lr_data row = c"
    using c(1) by (auto simp: the_lease_Inr)
  have "lr_status row = ls_status c"
    using assms(1) row_lookup_Some [OF row(1)] row(2) by (auto simp: store_inv_def leases_ok_def)
  then show "\<not> (\<exists>r. row_lookup lr_id lid (st_leases s) = Some r \<and> dispatched r)"
    using row c(2) by (auto simp: dispatched_def checkpoint_reserved_def)
  let ?f = "\<lambda>r. r\<lparr>lr_status := ls_status l', lr_data := l'\<rparr>"
  have "row_lookup lr_id lid (st_leases s') = Some (?f row)"
    using record_event_tables [OF ev] row(1) row_lookup_Some [OF row(1)]
    by (simp add: same_tables_def update_lease_def row_lookup_row_update)
  moreover have "json_get ''creation_dispatched'' (?m c) = Some (JBool True)"
  proof -
    obtain ms where "ls_metadata c = JObj ms"
      using c(2) json_get_obj by (fastforce simp: checkpoint_reserved_def)
    then show ?thesis using json_set_obj [of "''schema_version''" "JInt 2" ms] json_get_set by auto
  qed
  ultimately show "\<exists>r. row_lookup lr_id lid (st_leases s') = Some r \<and> dispatched r"
    by (simp add: dispatched_def l')
qed

text \<open>
  The creation of an execution is dispatched at most once: in every history, the one-way
  checkpoint of a lease is passed by at most one call of \<open>mark_execution_creation_dispatched\<close>.
\<close>

theorem creation_dispatched_at_most_once:
  assumes "store_inv s"
  shows "count_wins (store_step ck) (records_dispatch ck lid) s ops \<le> 1"
proof -
  let ?P = "\<lambda>s. \<exists>r. row_lookup lr_id lid (st_leases s) = Some r \<and> dispatched r"
  have "count_wins (store_step ck) (records_dispatch ck lid) s ops \<le> (if ?P s then 0 else 1)"
  proof (rule state_machine.at_most_once [OF assms])
    fix s t assume "store_le s t" "?P s"
    then show "?P t" using later_rows(5) [of s t] by (fastforce simp: lease_le_def)
  next
    fix s x assume inv: "store_inv s" and "records_dispatch ck lid s x"
    then obtain fx s' l where x: "x = MarkDispatched fx lid"
      and ok: "mark_execution_creation_dispatched fx ck lid s = Inr (s', l)"
      by (auto simp: records_dispatch_def split: store_op.splits sum.splits)
    show "\<not> ?P s \<and> ?P (next_state (store_step ck) s x)"
      using checkpoint_passed [OF inv ok] by (simp add: next_state_def x ok state_of_def)
  qed
  then show ?thesis by (auto split: if_splits)
qed

text \<open>
  C16. A finished run stays finished: once a run is completed, failed, cancelled, rejected or
  abandoned, its row keeps that status and stage, whatever is saved afterwards.
\<close>

theorem finished_run_final:
  assumes inv: "store_inv s" and "find_run s rid = Some row" and "is_terminal (rr_status row)"
  shows "\<exists>row'. find_run (after_ops ck s ops) rid = Some row'
    \<and> rr_status row' = rr_status row \<and> rr_stage row' = rr_stage row"
proof -
  have stay: "(\<lambda>a b. save_state a b = Inr b)\<^sup>*\<^sup>* a b \<Longrightarrow> is_terminal (fst a) \<Longrightarrow> b = a" for a b
    by (induction rule: rtranclp_induct) (auto simp: terminal_step)
  obtain row' where "row_lookup rr_id rid (db_runs (after_ops ck s ops)) = Some row'" "run_row_le row row'"
    using later_rows(1) [OF after_le [OF inv, of ck ops]] assms(2) by (auto simp: find_run_def)
  then show ?thesis using stay [of "state_of_row row" "state_of_row row'"] assms(3)
    by (auto simp: run_row_le_def state_of_row_def find_run_def)
qed

text \<open>
  C17. The journal of a run is complete and append-only: in every history its events are numbered
  1, 2, 3 and so on without a gap, and whatever follows only adds events at its end.
\<close>

theorem journal_complete:
  assumes inv: "store_inv s"
  shows "let s' = after_ops ck s ops; es = filter (\<lambda>e. er_run e = Some rid) (db_events s') in
    map er_sequence es = [1..int (length es)] \<and> prefix (db_events s) (db_events s')"
  using after_inv [OF inv] list_events_sequences after_le [OF inv]
  by (auto simp: store_inv_def store_le_def Let_def)

end
