(* ===== verification/State_Witnesses.thy ===== *)
theory State_Witnesses
  imports State_Machine
begin

text \<open>
  A concrete store in the middle of its life, on which the properties of \<open>State_Machine\<close> are
  applied: a running run with a reserved intent whose approval was granted and used, a denied intent, a
  revoked capability, a released lease and a lease whose execution is about to be created.
\<close>

definition effects_at :: "nat \<Rightarrow> effects" where
  "effects_at k = \<lparr>clk = (\<lambda>i. int (100 * k + i)), new_id = (\<lambda>i. replicate (10 * k + i + 1) (CHR ''e'')),
     redact = (\<lambda>j. (j, [])), tainted = (\<lambda>_. False), sha256 = (\<lambda>_. sample_hex 64)\<rparr>"

definition plain_checks :: store_checks where
  "plain_checks = \<lparr>run_unfit = (\<lambda>_. False), event_unfit = (\<lambda>_. False), organization_check = (\<lambda>_. Inr ()),
     sandbox_of = (\<lambda>_. Some \<lparr>sh_id = ''sandbox_'' @ sample_hex 32, sh_run = ''run_'' @ sample_hex 32,
       sh_project = Some (''prj_'' @ sample_hex 32), sh_path = ''/w'', sh_provider = ''docker'',
       sh_capabilities = phase1_fake, sh_configuration = Some (sample_hex 64),
       sh_image = Some (''sha256:'' @ sample_hex 64), sh_daemon = Some (sample_hex 64),
       sh_scope = Some (sample_hex 32)\<rparr>)\<rparr>"

definition live_run :: "string \<Rightarrow> run_status \<Rightarrow> run" where
  "live_run rid st = (new_run rid ''p'' ''c'' ''g'' ''b'' ''f'' 0)
     \<lparr>run_configuration := Some default_configuration, run_capabilities := Some phase1_fake,
      run_status := st, run_stage := Some IMPLEMENTING, run_task := Some ''t''\<rparr>"

definition live_agent :: agent_instance where
  "live_agent = \<lparr>agent_id = ''a'', agent_run = ''r'', agent_task = Some ''t'',
     agent_role = ''engineer'', agent_kind = Some ENGINEER, agent_status = AgRunning, agent_iteration = 0,
     agent_created_at = 0, agent_completed_at = None\<rparr>"

definition live_task :: task_spec where
  "live_task = sample_task\<lparr>task_id := ''t'', task_run_id := ''r''\<rparr>"

definition live_intent :: "string \<Rightarrow> tool_intent" where
  "live_intent iid = \<lparr>ti_id = iid, ti_run = ''r'', ti_task = ''t'', ti_agent = ''a'',
     ti_role = ''engineer'', ti_workflow = workflow live_task, ti_stage = IMPLEMENTING,
     ti_action = ''command.execute'', ti_resource = \<lparr>res_kind = ''command'', res_identifier = ''unit''\<rparr>,
     ti_parameters = JObj [(''command'', JStr ''unit'')], ti_reason = ''why'', ti_side_effect = True,
     ti_key = iid, ti_ttl = None, ti_uses = None\<rparr>"

definition live_stored :: "string \<Rightarrow> string \<Rightarrow> intent_status \<Rightarrow> stored_intent" where
  "live_stored iid rid st = \<lparr>si_intent = live_intent iid, si_hash = sample_hex 64, si_status = st,
     si_approval = Some rid, si_result = None\<rparr>"

definition live_request :: "string \<Rightarrow> string \<Rightarrow> approval_status \<Rightarrow> approval_choice \<Rightarrow> approval_request" where
  "live_request rid iid st c = \<lparr>ap_id = rid, ap_intent = iid, ap_run = ''r'',
     ap_hash = sample_hex 64, ap_role = ''engineer'', ap_action = ''command.execute'',
     ap_resource = \<lparr>res_kind = ''command'', res_identifier = ''unit''\<rparr>, ap_reason = ''why'',
     ap_status = st, ap_choices = [ChoiceDeny, ALLOW_ONCE], ap_scope = None, ap_resolution = Some c,
     ap_rule = None, ap_created = 0, ap_expires = 60000000, ap_resolved = Some 1, ap_denial_reason = None\<rparr>"

definition live_grant :: "string \<Rightarrow> string \<Rightarrow> string \<Rightarrow> int option \<Rightarrow> int option \<Rightarrow> capability_grant" where
  "live_grant gid rid iid used revoked = \<lparr>cg_id = gid, cg_request = Some rid, cg_intent = iid,
     cg_project = ''p'', cg_run = ''r'', cg_task = ''t'', cg_agent = ''a'', cg_role = ''engineer'',
     cg_action = ''command.execute'', cg_resource = \<lparr>res_kind = ''command'', res_identifier = ''unit''\<rparr>,
     cg_hash = sample_hex 64, cg_issued = 1, cg_expires = Some 60000000, cg_choice = ALLOW_ONCE,
     cg_scope = None, cg_uses = Some (if used = None then 1 else 0), cg_consumed = used,
     cg_revoked = revoked, cg_rule = None\<rparr>"

definition live_lease :: "string \<Rightarrow> lease_status \<Rightarrow> resource_lease" where
  "live_lease lid st = \<lparr>ls_id = lid, ls_run = ''run_'' @ sample_hex 32, ls_kind = EXECUTION,
     ls_resource = ''exec_'' @ sample_hex 32, ls_path = None, ls_status = st,
     ls_created = 0, ls_updated = 0,
     ls_metadata = JObj [(''creation_dispatched'', JBool False), (''sandbox_handle'', JObj []),
       (''project_id'', JStr (''prj_'' @ sample_hex 32)), (''provider'', JStr ''docker''),
       (''intent_id'', JStr (''intent_'' @ sample_hex 32)), (''task_id'', JStr (''task_'' @ sample_hex 32)),
       (''agent_instance_id'', JStr (''agent_'' @ sample_hex 32)), (''stage'', JStr ''implementing'')]\<rparr>"

definition live_store :: store where
  "live_store = \<lparr>db_runs = [row_of_run (live_run ''r'' RUNNING), row_of_run (live_run ''z'' COMPLETED),
       row_of_run (live_run (''run_'' @ sample_hex 32) RUNNING)],
     db_tasks = [\<lparr>tr_id = ''t'', tr_run = ''r'', tr_data = live_task\<rparr>],
     db_agents = [row_of_agent live_agent], db_events = [],
     st_intents = [row_of_intent (live_stored ''i'' ''q'' RESERVED),
       row_of_intent (live_stored ''d'' ''e'' IntentDenied),
       row_of_intent (live_stored ''w'' ''v'' PENDING_APPROVAL)],
     st_approvals = [row_of_approval (live_request ''q'' ''i'' ApApproved ALLOW_ONCE),
       row_of_approval (live_request ''e'' ''d'' ApDenied ChoiceDeny),
       row_of_approval (live_request ''v'' ''w'' ApApproved ALLOW_ONCE)],
     st_grants = [row_of_grant (live_grant ''g'' ''q'' ''i'' (Some 2) None),
       row_of_grant (live_grant ''h'' ''v'' ''w'' None (Some 3))],
     st_claims = [],
     st_leases = [row_of_lease (live_lease ''l'' LeaseReleased), row_of_lease (live_lease ''x'' LeaseCreating)]\<rparr>"

lemmas live_defs = live_store_def live_run_def live_agent_def live_stored_def live_intent_def
  live_request_def live_grant_def live_lease_def row_of_run_def row_of_agent_def row_of_intent_def
  row_of_approval_def row_of_grant_def row_of_lease_def

lemma live_store_inv: "store_inv live_store"
proof -
  have "intents_ok live_store" "approvals_ok live_store" "grants_ok live_store"
    unfolding intents_ok_def approvals_ok_def grants_ok_def
    by (simp_all add: live_store_def) (simp_all add: live_defs)
  moreover have "runs_ok live_store" "leases_ok live_store" "authority_ok live_store"
    by (simp_all add: runs_ok_def leases_ok_def authority_ok_def backed_def live_defs)
  ultimately show ?thesis
    by (simp add: store_inv_def) (simp add: claims_ok_def journal_ok_def journal_def live_store_def)
qed

lemma live_hash [simp]: "intent_hash (effects_at k) i = sample_hex 64"
  by (simp add: intent_hash_def canonical_json_hash_def effects_at_def)

lemma live_claim:
  "\<exists>s'. claim_reserved_intent_for_dispatch (effects_at 1) ''i'' (sample_hex 64) live_store = Inr (s', True)"
proof -
  have hex: "sha256_ok (sample_hex 64)" by code_simp
  show ?thesis
    by (simp add: claim_reserved_intent_for_dispatch_def claim_binding_ok_def claim_first_def Let_def
        claim_run_ok_def claim_task_ok_def claim_agent_ok_def insert_claim_def hex row_insert_def
        find_run_def find_task_def find_agent_def live_defs live_task_def
        intent_event_def insert_event_def append_row_def)
      (simp add: effects_at_def)
qed

theorem dispatch_claimed_at_most_once_witness:
  "count_wins (store_step plain_checks) (wins_claim ''i'') live_store
     [ClaimDispatch (effects_at 1) ''i'' (sample_hex 64), ClaimDispatch (effects_at 2) ''i'' (sample_hex 64)] = 1"
  (is "count_wins _ _ _ (?x # ?xs) = 1")
proof -
  have "wins_claim ''i'' live_store ?x" using live_claim by (auto simp: wins_claim_def)
  then have "1 \<le> count_wins (store_step plain_checks) (wins_claim ''i'') live_store (?x # ?xs)" by simp
  with dispatch_claimed_at_most_once [OF live_store_inv, of plain_checks "''i''" "?x # ?xs"] show ?thesis by simp
qed

theorem dispatch_rests_on_authority_witness:
  "\<exists>q g. get_approval live_store ''q'' = Inr q \<and> ap_status q = ApApproved
     \<and> row_of_grant g \<in> set (st_grants live_store) \<and> cg_consumed g \<noteq> None \<and> cg_intent g = ''i''"
proof -
  obtain s' where won: "claim_reserved_intent_for_dispatch (effects_at 1) ''i'' (sample_hex 64) live_store = Inr (s', True)"
    using live_claim by blast
  have "get_intent live_store ''i'' = Inr (live_stored ''i'' ''q'' RESERVED)"
    by (simp add: get_intent_def live_defs)
  moreover have "cg_choice g = ALLOW_ONCE" if "row_of_grant g \<in> set (st_grants live_store)" for g
    using that by (auto simp: live_defs)
  ultimately show ?thesis
    using dispatch_rests_on_authority [OF live_store_inv won] by (fastforce simp: live_stored_def)
qed

theorem settled_intent_never_dispatched_witness:
  "\<not> wins_claim ''d'' (after_ops plain_checks live_store [CompleteIntent (effects_at 1) ''d'' JNull])
     (ClaimDispatch (effects_at 2) ''d'' (sample_hex 64))"
  by (rule settled_intent_never_dispatched [OF live_store_inv, of _ "live_stored ''d'' ''e'' IntentDenied"])
    (simp_all add: get_intent_def live_defs)

theorem approval_resolution_final_witness:
  "get_approval (after_ops plain_checks live_store
     [ResolveApproval (effects_at 1) ''e'' True None ALLOW_ONCE None None]) ''e'' =
   Inr (live_request ''e'' ''d'' ApDenied ChoiceDeny)"
  by (rule approval_resolution_final [OF live_store_inv]) (simp_all add: get_approval_def live_defs)

theorem revocation_final_witness:
  "consume_grant_and_reserve (effects_at 1) ''v'' (sample_hex 64) (after_ops plain_checks live_store []) \<noteq>
     Inr (live_store, live_stored ''w'' ''v'' RESERVED)"
  by (rule revocation_final [OF live_store_inv, of "''h''" "live_grant ''h'' ''v'' ''w'' None (Some 3)", THEN conjunct1])
    (simp_all add: get_grant_def joined_grant_def grant_from_row_def find_run_def Let_def live_defs)

theorem closed_lease_final_witness:
  "the_lease (after_ops plain_checks live_store [UpdateLease (effects_at 1) ''l'' ''active'']) ''l'' =
     Inr (live_lease ''l'' LeaseReleased)"
  by (rule closed_lease_final [OF live_store_inv]) (simp_all add: the_lease_def find_lease_def live_defs)

lemma live_dispatch:
  "\<exists>s' l. mark_execution_creation_dispatched (effects_at 1) plain_checks ''x'' live_store = Inr (s', l)"
proof -
  have "the_lease live_store ''x'' = Inr (live_lease ''x'' LeaseCreating)"
    by (simp add: the_lease_def find_lease_def live_defs)
  moreover have "\<exists>h. checkpoint_handle plain_checks (live_lease ''x'' LeaseCreating) = Inr h"
  proof -
    have "case checkpoint_handle plain_checks (live_lease ''x'' LeaseCreating) of Inl _ \<Rightarrow> False | Inr _ \<Rightarrow> True"
      by code_simp
    then show ?thesis by (auto split: sum.splits)
  qed
  ultimately show ?thesis
    by (auto simp: mark_execution_creation_dispatched_def Let_def update_lease_def lease_valid_def lease_prefix_def
        get_run_def find_run_def record_event_def insert_event_def append_row_def row_insert_def)
      (simp_all add: live_defs effects_at_def starts_with_def lease_prefix_def event_row_of_def event_for_run_def)
qed

theorem creation_dispatched_at_most_once_witness:
  "count_wins (store_step plain_checks) (records_dispatch plain_checks ''x'') live_store
     [MarkDispatched (effects_at 1) ''x'', MarkDispatched (effects_at 2) ''x''] = 1"
  (is "count_wins _ _ _ (?x # ?xs) = 1")
proof -
  have "records_dispatch plain_checks ''x'' live_store ?x" using live_dispatch by (auto simp: records_dispatch_def)
  then have "1 \<le> count_wins (store_step plain_checks) (records_dispatch plain_checks ''x'') live_store (?x # ?xs)"
    by simp
  with creation_dispatched_at_most_once [OF live_store_inv, of plain_checks "''x''" "?x # ?xs"] show ?thesis by simp
qed

theorem finished_run_final_witness:
  "\<exists>row. find_run (after_ops plain_checks live_store
      [SaveRun (effects_at 1) (live_run ''z'' RUNNING) ''run.saved'' JNull]) ''z'' = Some row \<and> rr_status row = COMPLETED"
proof -
  have "find_run live_store ''z'' = Some (row_of_run (live_run ''z'' COMPLETED))"
    by (simp add: find_run_def live_defs)
  moreover have "rr_status (row_of_run (live_run ''z'' COMPLETED)) = COMPLETED"
    by (simp add: row_of_run_def live_run_def)
  ultimately show ?thesis
    using finished_run_final [OF live_store_inv, of "''z''" "row_of_run (live_run ''z'' COMPLETED)"]
    by (metis is_terminal_def insertI1)
qed

theorem journal_complete_witness:
  "prefix (db_events live_store) (db_events (after_ops plain_checks live_store
     [ClaimDispatch (effects_at 1) ''i'' (sample_hex 64)]))"
  by (rule journal_complete [OF live_store_inv, unfolded Let_def, THEN conjunct2])

end
