(* ===== verification/Trust_Policy.thy ===== *)
theory Trust_Policy
  imports State_Types
begin

text \<open>
  The user-owned trust of \<open>domain/trust.py\<close>: the actions no rule can cover, canonical trust
  paths, exact permission scopes and their validation, rules, project settings and the policy with its
  bindings. Validation that goes through \<open>model_validate(model_dump(mode="json"))\<close> revalidates
  the nested command, so it returns the scope with its command in normal form.
\<close>

section \<open>Actions\<close>

datatype trust_mode = SAFE | BALANCED | AUTONOMOUS_SANDBOX

definition PROTECTED_ACTIONS :: "string list" where
  "PROTECTED_ACTIONS = [''host.sudo'', ''host.root'', ''sandbox.disable'', ''sandbox.privileged'',
     ''sandbox.mount-docker-socket'', ''sandbox.mount-host-root'', ''sandbox.mount-home'',
     ''sandbox.mount-credentials'', ''secret.read-raw'', ''secret.policy-change'', ''audit.delete'',
     ''audit.rewrite'', ''policy.hard-deny-edit'', ''policy.change-approver'', ''policy.self-approve'',
     ''policy.disable-redaction'', ''policy.raise-global-budget'', ''production.deploy'',
     ''production.database-destructive'']"

definition workspace_actions :: "string list" where
  "workspace_actions =
     [''repo.read_file'', ''workspace.write_file'', ''workspace.apply_edit'', ''workspace.delete_path'']"

definition view_actions :: "string list" where
  "view_actions = [''repo.list_files'', ''repo.search_text'', ''workspace.get_diff'']"

definition supported_actions :: "string list" where
  "supported_actions =
     workspace_actions @ view_actions @ [''command.run'', ''fixture.record_side_effect'']"

definition is_protected_action :: "string \<Rightarrow> bool" where
  "is_protected_action a \<longleftrightarrow> a \<in> set PROTECTED_ACTIONS
     \<or> list_ex (\<lambda>p. starts_with p a)
         [''host.'', ''sandbox.'', ''secret.'', ''audit.'', ''policy.'', ''production.'']"

section \<open>Trust paths\<close>

definition protected_roots :: "string list" where
  "protected_roots = [''.git'', ''.fleet'']"

definition glob_chars :: string where
  "glob_chars = [CHR 0x5C, CHR 0x00, CHR ''*'', CHR ''?'', CHR ''['', CHR '']'', CHR ''{'', CHR ''}'']"

definition canonical_trust_path :: "(string \<Rightarrow> string) \<Rightarrow> bool \<Rightarrow> string \<Rightarrow> unit res" where
  "canonical_trust_path cf allow_root path =
     (if path = ''.'' \<and> allow_root then Inr ()
      else let parts = path_parts (parse_path path) in
        require (\<not> (path = [] \<or> 4096 < py_len path \<or> parts = [] \<or> starts_with ''/'' path
          \<or> list_ex (\<lambda>c. c \<in> set glob_chars) path
          \<or> list_ex (\<lambda>c. byte c < 32 \<or> byte c = 127) path
          \<or> list_ex (\<lambda>p. p \<in> {''.'', ''..''}) parts
          \<or> CHR '':'' \<in> set path
          \<or> path_str (parse_path path) \<noteq> path
          \<or> list_ex (\<lambda>p. cf p \<in> set protected_roots) parts)) ValueError)"

section \<open>Exact scopes\<close>

record exact_scope =
  xs_project :: string
  xs_identity :: string
  xs_role :: string
  xs_workflow :: string
  xs_stage :: workflow_stage
  xs_action :: string
  xs_resource :: resource
  xs_parameters :: json
  xs_command :: "command_spec option"
  xs_workspace :: workspace_kind
  xs_provider :: string
  xs_level :: security_level
  xs_network :: string

fun workspace_value :: "workspace_kind \<Rightarrow> string" where
  "workspace_value CANDIDATE = ''candidate''"
| "workspace_value VERIFICATION = ''verification''"

text \<open>\<open>CommandSpec.model_dump(mode="json")\<close>.\<close>

definition command_json :: "command_spec \<Rightarrow> json" where
  "command_json c = JObj [(''command_id'', JStr (command_id c)), (''executable'', JStr (executable c)),
     (''argv'', JArr (map JStr (argv c))), (''logical_cwd'', JStr (logical_cwd c)),
     (''environment'', JObj (map (\<lambda>(k, v). (k, JStr v)) (environment c))),
     (''timeout_seconds'', JInt (timeout_seconds c)),
     (''max_output_bytes'', JInt (max_output_bytes c)),
     (''network_requirement'',
       JStr (case network_requirement c of NetNone \<Rightarrow> ''none'' | NetRequired \<Rightarrow> ''required''))]"

definition scope_json :: "exact_scope \<Rightarrow> json" where
  "scope_json x = JObj [(''project_id'', JStr (xs_project x)),
     (''repository_identity'', JStr (xs_identity x)), (''principal_role'', JStr (xs_role x)),
     (''workflow'', JStr (xs_workflow x)), (''stage'', JStr (stage_value (xs_stage x))),
     (''action'', JStr (xs_action x)), (''resource'', resource_json (xs_resource x)),
     (''parameters'', xs_parameters x),
     (''command'', case xs_command x of None \<Rightarrow> JNull | Some c \<Rightarrow> command_json c),
     (''workspace_kind'', JStr (workspace_value (xs_workspace x))),
     (''sandbox_provider'', JStr (xs_provider x)),
     (''sandbox_security_level'', JStr (level_value (xs_level x))),
     (''network_mode'', JStr (xs_network x)), (''source_checkout_read_only'', JBool True)]"

definition scope_sha256 :: "(string \<Rightarrow> string) \<Rightarrow> exact_scope \<Rightarrow> string" where
  "scope_sha256 sha x = canonical_json_hash sha (scope_json x)"

text \<open>\<open>json.dumps(value, ensure_ascii=False)\<close> with the default separators.\<close>

fun join_spaced :: "string list \<Rightarrow> string" where
  "join_spaced [] = []"
| "join_spaced [w] = w"
| "join_spaced (w # ws) = w @ '', '' @ join_spaced ws"

fun spaced_dumps :: "json \<Rightarrow> string" where
  "spaced_dumps (JArr xs) = CHR ''['' # join_spaced (map spaced_dumps xs) @ '']''"
| "spaced_dumps (JObj ms) =
     CHR ''{'' # join_spaced (map (\<lambda>(k, v). quote_str k @ '': '' @ spaced_dumps v) ms) @ ''}''"
| "spaced_dumps v = dumps v"

fun finite_json :: "json \<Rightarrow> bool" where
  "finite_json (JFloat t) = finite_text t"
| "finite_json (JArr xs) = list_all finite_json xs"
| "finite_json (JObj ms) = list_all (\<lambda>(k, v). finite_json v) ms"
| "finite_json v = True"

fun json_members :: "json \<Rightarrow> (string \<times> json) list" where
  "json_members (JObj ms) = ms"
| "json_members v = []"

fun is_object :: "json \<Rightarrow> bool" where
  "is_object (JObj ms) = True"
| "is_object v = False"

definition workflow_id_ok :: "string \<Rightarrow> bool" where
  "workflow_id_ok = ident_ok 64 ''_-''"

definition resource_ok :: "resource \<Rightarrow> bool" where
  "resource_ok r \<longleftrightarrow> ident_ok 64 ''_-'' (res_kind r)"

definition scope_fields_ok :: "exact_scope \<Rightarrow> bool" where
  "scope_fields_ok x \<longleftrightarrow> opaque_ok ''prj'' (xs_project x) \<and> sha256_ok (xs_identity x)
     \<and> node_id_ok (xs_role x) \<and> workflow_id_ok (xs_workflow x) \<and> action_id_ok (xs_action x)
     \<and> resource_ok (xs_resource x) \<and> is_object (xs_parameters x)
     \<and> length (json_members (xs_parameters x)) \<le> 32
     \<and> xs_provider x \<in> set sandbox_names \<and> xs_network x \<in> set network_modes"

definition expected_level :: "string \<Rightarrow> security_level" where
  "expected_level p =
     (if p = ''fake'' then LevelFake else if p = ''docker'' then ISOLATED else UNSAFE_HOST)"

definition expected_network :: "string \<Rightarrow> string" where
  "expected_network p = (if p = ''local-unsafe'' then ''approved-unrestricted'' else ''none'')"

definition workspace_view :: resource where
  "workspace_view = \<lparr>res_kind = ''workspace_view'', res_identifier = ''.''\<rparr>"

definition approval_proof :: resource where
  "approval_proof = \<lparr>res_kind = ''fake_side_effect'', res_identifier = ''fixture://approval-proof''\<rparr>"

definition proof_parameters :: json where
  "proof_parameters = JObj [(''record'', JStr ''approved-once'')]"

definition command_parameters :: "(string \<Rightarrow> string) \<Rightarrow> command_spec \<Rightarrow> json \<Rightarrow> json" where
  "command_parameters sha c net = JObj [(''command_id'', JStr (command_id c)),
     (''command_spec_sha256'', JStr (canonical_json_hash sha (command_json c))),
     (''network_mode'', net)]"

text \<open>The branch of \<open>validate_scope\<close> for \<open>command.run\<close>.\<close>

definition validate_command_scope ::
    "(string \<Rightarrow> string) \<Rightarrow> (string \<Rightarrow> string) \<Rightarrow> exact_scope \<Rightarrow> unit res" where
  "validate_command_scope cf sha x =
     bind_res (some_or ValueError (xs_command x)) (\<lambda>c0.
     bind_res (validate_command cf c0) (\<lambda>c.
     bind_res (require (cf (path_name (parse_path (executable c)))
         \<notin> {''sudo'', ''doas'', ''su''}) ValueError) (\<lambda>_.
     bind_res (canonical_trust_path cf True (logical_cwd c)) (\<lambda>_.
     bind_res (require (xs_resource x =
         \<lparr>res_kind = ''project_command'', res_identifier = command_id c\<rparr>) ValueError) (\<lambda>_.
     bind_res (require (py_eq (xs_parameters x)
         (command_parameters sha c (JStr (xs_network x)))) ValueError) (\<lambda>_.
     require (network_requirement c = NetNone) ValueError))))))"

text \<open>The branches on the action, in the order of the code.\<close>

definition validate_action_scope ::
    "(string \<Rightarrow> string) \<Rightarrow> (string \<Rightarrow> string) \<Rightarrow> exact_scope \<Rightarrow> unit res" where
  "validate_action_scope cf sha x =
     (if xs_action x \<in> set workspace_actions then
        bind_res (require (res_kind (xs_resource x) = ''workspace_path'') ValueError) (\<lambda>_.
        canonical_trust_path cf False (res_identifier (xs_resource x)))
      else if xs_action x \<in> set view_actions then
        require (xs_resource x = workspace_view) ValueError
      else if xs_action x = ''command.run'' then validate_command_scope cf sha x
      else require (\<not> (xs_resource x \<noteq> approval_proof
          \<or> \<not> py_eq (xs_parameters x) proof_parameters
          \<or> xs_provider x \<noteq> ''fake'')) ValueError)"

text \<open>\<open>ExactPermissionScope.validate_scope\<close> after the field constraints.\<close>

definition validate_scope ::
    "(string \<Rightarrow> string) \<Rightarrow> (string \<Rightarrow> string) \<Rightarrow> exact_scope \<Rightarrow> exact_scope res" where
  "validate_scope cf sha x =
     bind_res (require (scope_fields_ok x) ValueError) (\<lambda>_.
     bind_res (require (\<not> (is_protected_action (xs_action x)
         \<or> xs_action x \<notin> set supported_actions)) ValueError) (\<lambda>_.
     bind_res (require (xs_role x \<noteq> ''cos'') ValueError) (\<lambda>_.
     bind_res (require (\<not> (xs_level x \<noteq> expected_level (xs_provider x)
         \<or> xs_network x \<noteq> expected_network (xs_provider x))) ValueError) (\<lambda>_.
     bind_res (validate_action_scope cf sha x) (\<lambda>_.
     bind_res (require (\<not> (xs_action x \<noteq> ''command.run'' \<and> xs_command x \<noteq> None)) ValueError) (\<lambda>_.
     let encoded = spaced_dumps (xs_parameters x) in
     bind_res (require (finite_json (xs_parameters x) \<and> \<not> has_surrogate encoded) ValueError) (\<lambda>_.
     bind_res (require (\<not> 262144 < length encoded) ValueError) (\<lambda>_.
     Inr x))))))))"

text \<open>\<open>validate_exact_scope\<close>: the dump is read back, nested command included.\<close>

definition validate_exact_scope ::
    "(string \<Rightarrow> string) \<Rightarrow> (string \<Rightarrow> string) \<Rightarrow> exact_scope \<Rightarrow> exact_scope res" where
  "validate_exact_scope cf sha x = (case xs_command x of
     None \<Rightarrow> validate_scope cf sha x
   | Some c \<Rightarrow> bind_res (validate_command cf c) (\<lambda>d. validate_scope cf sha (x\<lparr>xs_command := Some d\<rparr>)))"

definition scope_eq :: "exact_scope \<Rightarrow> exact_scope \<Rightarrow> bool" where
  "scope_eq x y \<longleftrightarrow> py_eq (xs_parameters x) (xs_parameters y)
     \<and> x\<lparr>xs_parameters := JNull\<rparr> = y\<lparr>xs_parameters := JNull\<rparr>"

definition exact_scope_matches ::
    "(string \<Rightarrow> string) \<Rightarrow> (string \<Rightarrow> string) \<Rightarrow> exact_scope \<Rightarrow> exact_scope \<Rightarrow> bool res" where
  "exact_scope_matches cf sha l r =
     bind_res (validate_exact_scope cf sha l) (\<lambda>x.
     bind_res (validate_exact_scope cf sha r) (\<lambda>y. Inr (scope_eq x y)))"

section \<open>Rules\<close>

datatype rule_effect = EffectAllow | EffectDeny

record trust_rule =
  ur_id :: string
  ur_scope :: exact_scope
  ur_effect :: rule_effect
  ur_created :: int
  ur_expires :: "int option"
  ur_revoked :: "int option"
  ur_source :: "string option"

text \<open>\<open>UserTrustRule\<close> with \<open>validate_rule\<close>; reading a dump back renews the scope.\<close>

definition validate_rule ::
    "(string \<Rightarrow> string) \<Rightarrow> (string \<Rightarrow> string) \<Rightarrow> trust_rule \<Rightarrow> trust_rule res" where
  "validate_rule cf sha r =
     bind_res (require (opaque_ok ''rule'' (ur_id r)
         \<and> (case ur_source r of None \<Rightarrow> True | Some q \<Rightarrow> opaque_ok ''perm'' q)) ValueError) (\<lambda>_.
     bind_res (validate_exact_scope cf sha (ur_scope r)) (\<lambda>x.
     bind_res (require (\<not> (case ur_expires r of None \<Rightarrow> False | Some e \<Rightarrow> e \<le> ur_created r)) ValueError) (\<lambda>_.
     bind_res (require (\<not> (case ur_revoked r of None \<Rightarrow> False | Some e \<Rightarrow> e < ur_created r)) ValueError) (\<lambda>_.
     Inr (r\<lparr>ur_scope := x\<rparr>)))))"

definition rule_matches ::
    "(string \<Rightarrow> string) \<Rightarrow> (string \<Rightarrow> string) \<Rightarrow> trust_rule \<Rightarrow> exact_scope \<Rightarrow> int \<Rightarrow> bool res" where
  "rule_matches cf sha r x now =
     bind_res (validate_rule cf sha r) (\<lambda>c.
     if ur_created c \<le> now \<and> ur_revoked c = None
       \<and> (case ur_expires c of None \<Rightarrow> True | Some e \<Rightarrow> now < e)
     then exact_scope_matches cf sha (ur_scope c) x else Inr False)"

section \<open>The policy\<close>

record project_trust =
  pt_project :: string
  pt_identity :: string
  pt_mode :: trust_mode
  pt_paths :: "string list"
  pt_cutoff :: "int option"

definition validate_project_trust :: "(string \<Rightarrow> string) \<Rightarrow> project_trust \<Rightarrow> unit res" where
  "validate_project_trust cf p =
     bind_res (require (opaque_ok ''prj'' (pt_project p) \<and> sha256_ok (pt_identity p)
         \<and> length (pt_paths p) \<le> 128) ValueError) (\<lambda>_.
     bind_res (check_all (canonical_trust_path cf True) (pt_paths p)) (\<lambda>_.
     require (distinct (map cf (pt_paths p))) ValueError))"

record trust_policy =
  tp_revision :: int
  tp_projects :: "project_trust list"
  tp_rules :: "trust_rule list"

definition empty_policy :: trust_policy where
  "empty_policy = \<lparr>tp_revision = 0, tp_projects = [], tp_rules = []\<rparr>"

fun validate_all :: "('a \<Rightarrow> 'a res) \<Rightarrow> 'a list \<Rightarrow> 'a list res" where
  "validate_all f [] = Inr []"
| "validate_all f (x # xs) = bind_res (f x) (\<lambda>y. bind_res (validate_all f xs) (\<lambda>ys. Inr (y # ys)))"

definition trust_of :: "project_trust list \<Rightarrow> string \<Rightarrow> project_trust option" where
  "trust_of ps pid = find (\<lambda>p. pt_project p = pid) ps"

text \<open>\<open>UserTrustPolicy.validate_bindings\<close> after the field constraints and the nested models.\<close>

definition validate_policy ::
    "(string \<Rightarrow> string) \<Rightarrow> (string \<Rightarrow> string) \<Rightarrow> trust_policy \<Rightarrow> trust_policy res" where
  "validate_policy cf sha p =
     bind_res (require (0 \<le> tp_revision p \<and> tp_revision p \<le> 2 ^ 63 - 1
         \<and> length (tp_projects p) \<le> 1024 \<and> length (tp_rules p) \<le> 8192) ValueError) (\<lambda>_.
     bind_res (check_all (validate_project_trust cf) (tp_projects p)) (\<lambda>_.
     bind_res (validate_all (validate_rule cf sha) (tp_rules p)) (\<lambda>rs.
     bind_res (require (distinct (map pt_project (tp_projects p))) ValueError) (\<lambda>_.
     bind_res (require (distinct (map ur_id rs)) ValueError) (\<lambda>_.
     bind_res (check_all (\<lambda>r. require (\<not> (case trust_of (tp_projects p) (xs_project (ur_scope r)) of
           None \<Rightarrow> True | Some t \<Rightarrow> pt_identity t \<noteq> xs_identity (ur_scope r))) ValueError) rs) (\<lambda>_.
     Inr (p\<lparr>tp_rules := rs\<rparr>)))))))"

end
