(* ===== verification/Fleet_Config.thy ===== *)
theory Fleet_Config
  imports Trust_Policy Fleet_Plan
begin

text \<open>
  The repository-owned configuration of \<open>domain/config.py\<close>: the organization of roles, their
  tools and delegations, workflows, requested permissions, verification profiles and the snapshot of
  the files. A mapping is an association list with distinct keys, in the order of the file. The
  sandbox request is not modelled (its CPU limit is a float); reading YAML is I/O.
\<close>

section \<open>Requests\<close>

datatype runtime_capability =
  STRUCTURED_OUTPUT | TOOL_CALLING | STREAMING | CHECKPOINT | RESUME | USAGE_ACCOUNTING

record runtime_request =
  rq_adapter :: string
  rq_model :: "string option"
  rq_capabilities :: "runtime_capability list"

text \<open>\<open>^[a-z][a-z0-9-]*:[A-Za-z0-9][A-Za-z0-9._:/-]*$\<close>, 3 to 200 characters, and the general
  pattern of a provider model.\<close>

definition provider_model_ok :: "string \<Rightarrow> bool" where
  "provider_model_ok s \<longleftrightarrow> 3 \<le> length s \<and> length s \<le> 200 \<and> model_tail_ok s
     \<and> ident_ok 200 ''-'' (model_prefix s) \<and> model_tail_ok (drop (length (model_prefix s) + 1) s)"

definition validate_runtime_request :: "runtime_request \<Rightarrow> runtime_request res" where
  "validate_runtime_request r =
     bind_res (require (rq_adapter r \<in> {''fake'', ''pydantic-ai'', ''openai-agents'', ''langgraph''}
         \<and> (case rq_model r of None \<Rightarrow> True | Some m \<Rightarrow> provider_model_ok m)
         \<and> bounded_list 1 8 (rq_capabilities r)) ValueError) (\<lambda>_.
     bind_res (require (distinct (rq_capabilities r)) ValueError) (\<lambda>_.
     bind_res (require ({STRUCTURED_OUTPUT, TOOL_CALLING} \<subseteq> set (rq_capabilities r)) ValueError) (\<lambda>_.
     bind_res (require (\<not> (rq_adapter r = ''fake'' \<and> rq_model r \<noteq> None)) ValueError) (\<lambda>_.
     bind_res (require (\<not> (rq_adapter r \<in> {''pydantic-ai'', ''openai-agents'', ''langgraph''}
         \<and> rq_model r = None)) ValueError) (\<lambda>_.
     bind_res (require (\<not> (rq_adapter r \<in> {''openai-agents'', ''langgraph''}
         \<and> (case rq_model r of None \<Rightarrow> True | Some m \<Rightarrow> model_prefix m \<noteq> ''openai''))) ValueError) (\<lambda>_.
     Inr r))))))"

datatype agent_lifecycle = PERSISTENT | PER_TASK

record agent_request =
  ag_role :: string
  ag_lifecycle :: agent_lifecycle
  ag_instructions :: string
  ag_tools :: "string list"
  ag_delegates :: "string list"
  ag_max_steps :: int

definition agent_request_ok :: "agent_request \<Rightarrow> bool" where
  "agent_request_ok a \<longleftrightarrow> node_id_ok (ag_role a) \<and> list_all node_id_ok (ag_delegates a)
     \<and> 1 \<le> ag_max_steps a \<and> ag_max_steps a \<le> 100"

record workflow_request =
  wf_definition :: string
  wf_max_repairs :: int
  wf_max_parallel :: int
  wf_tools :: "string list option"

definition workflow_request_ok :: "workflow_request \<Rightarrow> bool" where
  "workflow_request_ok w \<longleftrightarrow> 0 \<le> wf_max_repairs w \<and> wf_max_repairs w \<le> 5
     \<and> 1 \<le> wf_max_parallel w \<and> wf_max_parallel w \<le> 8
     \<and> (case wf_tools w of None \<Rightarrow> True | Some ts \<Rightarrow> bounded_list 0 64 ts \<and> list_all action_id_ok ts)"

record requested_permission =
  rp_role :: string
  rp_action :: string
  rp_resource :: string

definition requested_permission_ok :: "requested_permission \<Rightarrow> bool" where
  "requested_permission_ok p \<longleftrightarrow> node_id_ok (rp_role p) \<and> action_id_ok (rp_action p)"

section \<open>The organization\<close>

record fleet_spec =
  fs_name :: string
  fs_runtime :: runtime_request
  fs_agents :: "(string \<times> agent_request) list"
  fs_workflows :: "(string \<times> workflow_request) list"
  fs_permissions :: "requested_permission list"

definition metadata_name_ok :: "string \<Rightarrow> bool" where
  "metadata_name_ok s \<longleftrightarrow> bounded_text 100 s \<and> list_all (\<lambda>c. is_alnum c \<or> c \<in> set ''._-'') s"

text \<open>\<open>_LEGACY_ROLE_LABELS\<close>.\<close>

definition legacy_role_labels :: "string \<Rightarrow> string list" where
  "legacy_role_labels r = (if r = ''cos'' then [''chief-of-staff'']
     else if r = ''engineer'' then [''software-engineer''] else [])"

definition spec_fields_ok :: "fleet_spec \<Rightarrow> bool" where
  "spec_fields_ok f \<longleftrightarrow> metadata_name_ok (fs_name f)
     \<and> distinct (map fst (fs_agents f)) \<and> distinct (map fst (fs_workflows f))
     \<and> list_all (\<lambda>(k, a). node_id_ok k \<and> agent_request_ok a) (fs_agents f)
     \<and> list_all (\<lambda>(k, w). workflow_id_ok k \<and> workflow_request_ok w) (fs_workflows f)
     \<and> list_all requested_permission_ok (fs_permissions f)"

text \<open>\<open>FleetSpecBody.validate_references\<close>.\<close>

definition validate_references :: "fleet_spec \<Rightarrow> unit res" where
  "validate_references f =
     (let known = map fst (fs_agents f) in
      bind_res (require (''cos'' \<in> set known) ValueError) (\<lambda>_.
      bind_res (require (fs_workflows f \<noteq> []) ValueError) (\<lambda>_.
      bind_res (check_all (\<lambda>(k, a).
          bind_res (require (ag_role a = k \<or> ag_role a \<in> set (legacy_role_labels k)) ValueError) (\<lambda>_.
          require (set (ag_delegates a) \<subseteq> set known) ValueError)) (fs_agents f)) (\<lambda>_.
      require (list_all (\<lambda>p. rp_role p \<in> set known) (fs_permissions f)) ValueError))))"

definition validate_fleet_spec :: "fleet_spec \<Rightarrow> fleet_spec res" where
  "validate_fleet_spec f =
     bind_res (require (spec_fields_ok f) ValueError) (\<lambda>_.
     bind_res (validate_runtime_request (fs_runtime f)) (\<lambda>_.
     bind_res (validate_references f) (\<lambda>_. Inr f)))"

definition agent_of :: "fleet_spec \<Rightarrow> string \<Rightarrow> agent_request option" where
  "agent_of f = map_of (fs_agents f)"

section \<open>Workflow definitions and verification skills\<close>

definition WORKFLOW_STAGES :: "string list" where
  "WORKFLOW_STAGES = [''intake'', ''scoping'', ''workspace-preparation'', ''implementing'',
     ''verifying'', ''repairing'', ''presenting'', ''applying'']"

record workflow_definition =
  wd_name :: string
  wd_stages :: "string list"
  wd_max_repairs :: int
  wd_skills :: "string list"

text \<open>\<open>PurePosixPath.suffix\<close> and \<open>.stem\<close> of a name: a dot counts when something stands on
  both sides of it (Python 3.12 and 3.13).\<close>

definition name_suffix :: "string \<Rightarrow> string" where
  "name_suffix n =
     (let ext = rev (takeWhile (\<lambda>c. c \<noteq> CHR ''.'') (rev n)) in
      if CHR ''.'' \<in> set n \<and> ext \<noteq> [] \<and> length ext + 1 < length n then CHR ''.'' # ext else [])"

definition name_stem :: "string \<Rightarrow> string" where
  "name_stem n = take (length n - length (name_suffix n)) n"

definition skill_stem_ok :: "string \<Rightarrow> bool" where
  "skill_stem_ok s \<longleftrightarrow> (case s of [] \<Rightarrow> False
     | c # cs \<Rightarrow> is_alnum c \<and> length cs \<le> 99 \<and> list_all (\<lambda>d. is_alnum d \<or> d \<in> set ''._-'') cs)"

fun skill_references :: "(string \<Rightarrow> string) \<Rightarrow> string list \<Rightarrow> string list \<Rightarrow> unit res" where
  "skill_references cf folded [] = Inr ()"
| "skill_references cf folded (v # vs) =
     (let path = parse_path v; parts = path_parts path in
      bind_res (require (\<not> (length parts \<noteq> 2 \<or> take 1 parts \<noteq> [''skills'']
          \<or> name_suffix (path_name path) \<noteq> ''.yaml'' \<or> path_str path \<noteq> v
          \<or> \<not> skill_stem_ok (name_stem (path_name path)) \<or> cf v \<in> set folded)) ValueError) (\<lambda>_.
      skill_references cf (cf v # folded) vs))"

definition validate_workflow_definition ::
    "(string \<Rightarrow> string) \<Rightarrow> workflow_definition \<Rightarrow> workflow_definition res" where
  "validate_workflow_definition cf w =
     bind_res (require (metadata_name_ok (wd_name w) \<and> length (wd_stages w) = 8
         \<and> 0 \<le> wd_max_repairs w \<and> wd_max_repairs w \<le> 5 \<and> length (wd_skills w) \<le> 32) ValueError) (\<lambda>_.
     bind_res (require (wd_stages w = WORKFLOW_STAGES) ValueError) (\<lambda>_.
     bind_res (skill_references cf [] (wd_skills w)) (\<lambda>_. Inr w)))"

record verification_skill =
  vs_name :: string
  vs_paths :: "string list"
  vs_commands :: "string list"

fun skill_scopes :: "(string \<Rightarrow> string) \<Rightarrow> string list \<Rightarrow> string list \<Rightarrow> unit res" where
  "skill_scopes cf folded [] = Inr ()"
| "skill_scopes cf folded (v # vs) =
     bind_res (canonical_trust_path cf True v) (\<lambda>_.
     bind_res (require (\<not> (4096 < length v \<or> has_surrogate v
         \<or> 64 < length (path_parts (parse_path v)) \<or> cf v \<in> set folded)) ValueError) (\<lambda>_.
     skill_scopes cf (cf v # folded) vs))"

definition validate_verification_skill ::
    "(string \<Rightarrow> string) \<Rightarrow> verification_skill \<Rightarrow> verification_skill res" where
  "validate_verification_skill cf v =
     bind_res (require (metadata_name_ok (vs_name v) \<and> bounded_list 1 128 (vs_paths v)
         \<and> list_all logical_repo_path (vs_paths v) \<and> bounded_list 1 128 (vs_commands v)
         \<and> list_all action_id_ok (vs_commands v)) ValueError) (\<lambda>_.
     bind_res (skill_scopes cf [] (vs_paths v)) (\<lambda>_.
     bind_res (require (distinct (vs_commands v)) ValueError) (\<lambda>_. Inr v)))"

section \<open>Verification profiles and configuration snapshots\<close>

record verification_command =
  vc_executable :: string
  vc_argv :: "string list"
  vc_cwd :: string
  vc_timeout :: int

record verification_profile =
  vp_commands :: "(string \<times> verification_command) list"
  vp_required :: "string list"

text \<open>\<open>commands_exist\<close> builds a \<open>CommandSpec\<close> of every command, which validates it.\<close>

definition command_of :: "string \<Rightarrow> verification_command \<Rightarrow> command_spec" where
  "command_of cid c = \<lparr>command_id = cid, executable = vc_executable c, argv = vc_argv c,
     logical_cwd = vc_cwd c, environment = [], timeout_seconds = vc_timeout c,
     max_output_bytes = 64000, network_requirement = NetNone\<rparr>"

definition validate_profile ::
    "(string \<Rightarrow> string) \<Rightarrow> verification_profile \<Rightarrow> verification_profile res" where
  "validate_profile cf p =
     bind_res (require (length (vp_commands p) \<le> 32 \<and> length (vp_required p) \<le> 32
         \<and> distinct (map fst (vp_commands p)) \<and> list_all action_id_ok (map fst (vp_commands p))
         \<and> list_all action_id_ok (vp_required p)
         \<and> list_all (\<lambda>(k, c). (exec_chars (vc_executable c)
              \<or> (starts_with ''./'' (vc_executable c) \<and> exec_chars (drop 2 (vc_executable c))))
            \<and> 1 \<le> vc_timeout c \<and> vc_timeout c \<le> 3600) (vp_commands p)) ValueError) (\<lambda>_.
     bind_res (require (distinct (vp_required p)) ValueError) (\<lambda>_.
     bind_res (require (set (vp_required p) \<subseteq> set (map fst (vp_commands p))) ValueError) (\<lambda>_.
     bind_res (check_all (\<lambda>(k, c). bind_res (validate_command cf (command_of k c)) (\<lambda>_. Inr ()))
         (vp_commands p)) (\<lambda>_. Inr p))))"

record snapshot_file =
  sf_path :: string
  sf_sha256 :: string
  sf_content :: string

definition snapshot_file_ok :: "(string \<Rightarrow> string) \<Rightarrow> snapshot_file \<Rightarrow> bool" where
  "snapshot_file_ok sha f \<longleftrightarrow> sha256_ok (sf_sha256 f) \<and> py_len (sf_content f) \<le> 512000
     \<and> \<not> (sf_path f = [] \<or> starts_with ''/'' (sf_path f) \<or> CHR 0x5C \<in> set (sf_path f)
        \<or> ''..'' \<in> set (path_parts (parse_path (sf_path f)))
        \<or> path_str (parse_path (sf_path f)) \<noteq> sf_path f)
     \<and> \<not> has_surrogate (sf_content f) \<and> sf_sha256 f = sha (sf_content f)"

definition validate_snapshot ::
    "(string \<Rightarrow> string) \<Rightarrow> snapshot_file list \<Rightarrow> snapshot_file list res" where
  "validate_snapshot sha fs =
     bind_res (require (bounded_list 1 256 fs \<and> list_all (snapshot_file_ok sha) fs) ValueError) (\<lambda>_.
     (let paths = map sf_path fs in
      bind_res (require (\<not> (paths \<noteq> sort_strings paths \<or> ''fleet.yaml'' \<notin> set paths)) ValueError) (\<lambda>_.
      Inr fs)))"

end
