(* ===== verification/Role_Templates.thy ===== *)
theory Role_Templates
  imports Fleet_Config
begin

text \<open>
  Role templates (\<open>domain/role_templates.py\<close>): custom responsibilities derived from the built-in
  execution kinds, their resolution against the organization, and the check of a plan's nodes against
  the resolved templates.
\<close>

section \<open>Templates\<close>

definition read_tools :: "string list" where
  "read_tools = [''repo.list_files'', ''repo.read_file'', ''repo.search_text'', ''workspace.get_diff'']"

definition write_tools :: "string list" where
  "write_tools = read_tools @ [''workspace.write_file'', ''workspace.apply_edit'',
     ''workspace.delete_path'', ''command.run'', ''fixture.record_side_effect'']"

fun ROLE_TOOL_CEILINGS :: "agent_role \<Rightarrow> string list" where
  "ROLE_TOOL_CEILINGS COS = []"
| "ROLE_TOOL_CEILINGS ENGINEER = write_tools"
| "ROLE_TOOL_CEILINGS VERIFIER = read_tools @ [''command.run'']"
| "ROLE_TOOL_CEILINGS RESEARCHER = read_tools"
| "ROLE_TOOL_CEILINGS ARCHITECT = read_tools"

record role_template =
  rt_base :: agent_role
  rt_description :: string
  rt_instructions :: string
  rt_profile :: "string option"
  rt_tools :: "string list option"
  rt_max_steps :: "int option"
  rt_paths :: "string list option"

definition guidance_limit :: nat where
  "guidance_limit = 32768"

definition instruction_path_ok :: "(string \<Rightarrow> string) \<Rightarrow> string \<Rightarrow> unit res" where
  "instruction_path_ok cf v =
     bind_res (canonical_trust_path cf False v) (\<lambda>_.
     let parts = path_parts (parse_path v) in
     require (\<not> (length parts < 2 \<or> 16 < length parts \<or> take 1 parts \<noteq> [''agents'']
       \<or> name_suffix (path_name (parse_path v)) \<noteq> ''.md'' \<or> 4096 < length v \<or> has_surrogate v))
       ValueError)"

definition plain_description :: "string \<Rightarrow> bool" where
  "plain_description v \<longleftrightarrow>
     \<not> (list_ex (\<lambda>c. byte c < 32 \<or> byte c = 127) v \<or> has_surrogate v)"

definition exact_paths :: "(string \<Rightarrow> string) \<Rightarrow> string list \<Rightarrow> unit res" where
  "exact_paths cf vs =
     bind_res (check_all (\<lambda>v. bind_res (canonical_trust_path cf True v) (\<lambda>_.
         require (\<not> (4096 < length v \<or> 64 < length (path_parts (parse_path v)) \<or> has_surrogate v))
           ValueError)) vs) (\<lambda>_.
     require (distinct (map cf vs)) ValueError)"

definition template_fields_ok :: "role_template \<Rightarrow> bool" where
  "template_fields_ok t \<longleftrightarrow> rt_base t \<noteq> COS \<and> bounded_text 512 (rt_description t)
     \<and> bounded_text 4096 (rt_instructions t)
     \<and> (case rt_profile t of None \<Rightarrow> True | Some p \<Rightarrow> ident_ok 64 ''_-'' p)
     \<and> (case rt_tools t of None \<Rightarrow> True | Some ts \<Rightarrow> bounded_list 0 32 ts \<and> list_all action_id_ok ts)
     \<and> (case rt_max_steps t of None \<Rightarrow> True | Some n \<Rightarrow> 1 \<le> n \<and> n \<le> 100)
     \<and> (case rt_paths t of None \<Rightarrow> True | Some ps \<Rightarrow> bounded_list 1 128 ps)"

text \<open>\<open>kind_tool_ceiling\<close>.\<close>

definition kind_tool_ceiling :: "role_template \<Rightarrow> unit res" where
  "kind_tool_ceiling t = (case rt_tools t of None \<Rightarrow> Inr ()
     | Some ts \<Rightarrow> bind_res (require (distinct ts) ValueError) (\<lambda>_.
         require (set ts \<subseteq> set (ROLE_TOOL_CEILINGS (rt_base t))) ValueError))"

definition validate_template :: "(string \<Rightarrow> string) \<Rightarrow> role_template \<Rightarrow> role_template res" where
  "validate_template cf t =
     bind_res (require (template_fields_ok t) ValueError) (\<lambda>_.
     bind_res (instruction_path_ok cf (rt_instructions t)) (\<lambda>_.
     bind_res (require (plain_description (rt_description t)) ValueError) (\<lambda>_.
     bind_res (case rt_paths t of None \<Rightarrow> Inr () | Some ps \<Rightarrow> exact_paths cf ps) (\<lambda>_.
     bind_res (kind_tool_ceiling t) (\<lambda>_. Inr t)))))"

text \<open>\<open>RoleCatalog\<close>: distinct, custom role identities.\<close>

definition reserved_roles :: "string list" where
  "reserved_roles = map role_value all_roles @ [''chief-of-staff'', ''software-engineer'']"

definition validate_catalog ::
    "(string \<Rightarrow> string) \<Rightarrow> (string \<times> role_template) list \<Rightarrow> (string \<times> role_template) list res" where
  "validate_catalog cf rs =
     bind_res (require (length rs \<le> 32 \<and> distinct (map fst rs) \<and> list_all node_id_ok (map fst rs))
       ValueError) (\<lambda>_.
     bind_res (check_all (\<lambda>(k, t). bind_res (validate_template cf t) (\<lambda>_. Inr ())) rs) (\<lambda>_.
     bind_res (require (\<not> (\<not> distinct (map (\<lambda>(k, t). cf k) rs)
         \<or> list_ex (\<lambda>(k, t). cf k \<in> set reserved_roles) rs)) ValueError) (\<lambda>_. Inr rs)))"

section \<open>Resolution\<close>

record resolved_template =
  re_role :: string
  re_kind :: agent_role
  re_lifecycle :: agent_lifecycle
  re_description :: string
  re_instructions :: string
  re_references :: "string list"
  re_tools :: "string list"
  re_max_steps :: int
  re_paths :: "string list option"
  re_profile :: "string option"
  re_delegation :: bool

type_synonym templates = "(string \<times> resolved_template) list"

definition resolved_ok :: "resolved_template \<Rightarrow> bool" where
  "resolved_ok r \<longleftrightarrow> node_id_ok (re_role r) \<and> py_len (re_description r) \<le> 512
     \<and> py_len (re_instructions r) \<le> guidance_limit \<and> bounded_list 1 2 (re_references r)
     \<and> length (re_tools r) \<le> 64 \<and> list_all action_id_ok (re_tools r)
     \<and> 1 \<le> re_max_steps r \<and> re_max_steps r \<le> 100
     \<and> (case re_paths r of None \<Rightarrow> True | Some ps \<Rightarrow> length ps \<le> 128)
     \<and> (case re_profile r of None \<Rightarrow> True | Some p \<Rightarrow> ident_ok 64 ''_-'' p)"

definition guidance :: "(string \<times> string) list \<Rightarrow> string \<Rightarrow> string res" where
  "guidance contents ref =
     bind_res (some_or ValueError (map_of contents ref)) (\<lambda>content.
     bind_res (require (\<not> has_surrogate content \<and> \<not> guidance_limit < length content) ValueError) (\<lambda>_.
     Inr content))"

definition dict_set :: "'k \<Rightarrow> 'v \<Rightarrow> ('k \<times> 'v) list \<Rightarrow> ('k \<times> 'v) list" where
  "dict_set k v m = (if k \<in> set (map fst m) then map (\<lambda>(j, w). if j = k then (k, v) else (j, w)) m
     else m @ [(k, v)])"

definition builtin_template ::
    "string list \<Rightarrow> (string \<times> string) list \<Rightarrow> agent_role \<Rightarrow> agent_request \<Rightarrow> resolved_template res" where
  "builtin_template delegated contents kind a =
     bind_res (guidance contents (ag_instructions a)) (\<lambda>g.
     let r = \<lparr>re_role = role_value kind, re_kind = kind, re_lifecycle = ag_lifecycle a,
       re_description = ''Built-in '' @ role_value kind @ '' responsibility'', re_instructions = g,
       re_references = [ag_instructions a], re_tools = ag_tools a, re_max_steps = ag_max_steps a,
       re_paths = None, re_profile = None, re_delegation = (role_value kind \<in> set delegated)\<rparr> in
     bind_res (require (resolved_ok r) ValueError) (\<lambda>_. Inr r))"

fun resolve_builtins ::
    "fleet_spec \<Rightarrow> string list \<Rightarrow> (string \<times> string) list \<Rightarrow> agent_role list \<Rightarrow> templates \<Rightarrow> templates res" where
  "resolve_builtins f delegated contents [] done = Inr done"
| "resolve_builtins f delegated contents (k # ks) done = (case agent_of f (role_value k) of
     None \<Rightarrow> resolve_builtins f delegated contents ks done
   | Some a \<Rightarrow> bind_res (builtin_template delegated contents k a) (\<lambda>r.
       resolve_builtins f delegated contents ks (dict_set (role_value k) r done)))"

definition custom_template ::
    "fleet_spec \<Rightarrow> (string \<times> string) list \<Rightarrow> templates \<Rightarrow> string \<Rightarrow> role_template \<Rightarrow> resolved_template res" where
  "custom_template f contents resolved rid t =
     bind_res (require (agent_of f rid = None) ValueError) (\<lambda>_.
     bind_res (some_or ValueError (map_of resolved (role_value (rt_base t)))) (\<lambda>base.
     let tools = (case rt_tools t of Some ts \<Rightarrow> ts
       | None \<Rightarrow> filter (\<lambda>tool. tool \<in> set (ROLE_TOOL_CEILINGS (re_kind base))) (re_tools base)) in
     bind_res (require (set tools \<subseteq> set (re_tools base)) ValueError) (\<lambda>_.
     let steps = (case rt_max_steps t of None \<Rightarrow> re_max_steps base | Some n \<Rightarrow> n) in
     bind_res (require (\<not> re_max_steps base < steps) ValueError) (\<lambda>_.
     bind_res (guidance contents (rt_instructions t)) (\<lambda>g.
     let instructions = re_instructions base @ [CHR 0x0A, CHR 0x0A] @ g in
     bind_res (require (\<not> guidance_limit < length instructions) ValueError) (\<lambda>_.
     let r = \<lparr>re_role = rid, re_kind = re_kind base, re_lifecycle = PER_TASK,
       re_description = rt_description t, re_instructions = instructions,
       re_references = [hd (re_references base), rt_instructions t], re_tools = tools,
       re_max_steps = steps, re_paths = rt_paths t, re_profile = rt_profile t,
       re_delegation = re_delegation base\<rparr> in
     bind_res (require (resolved_ok r) ValueError) (\<lambda>_. Inr r)))))))"

fun resolve_customs ::
    "fleet_spec \<Rightarrow> (string \<times> string) list \<Rightarrow> (string \<times> role_template) list \<Rightarrow> templates \<Rightarrow> templates res" where
  "resolve_customs f contents [] done = Inr done"
| "resolve_customs f contents ((rid, t) # rs) done =
     bind_res (custom_template f contents done rid t) (\<lambda>r.
     resolve_customs f contents rs (dict_set rid r done))"

definition resolve_role_templates ::
    "fleet_spec \<Rightarrow> (string \<times> string) list \<Rightarrow> (string \<times> role_template) list option \<Rightarrow> templates res" where
  "resolve_role_templates f contents catalog =
     bind_res (some_or KeyError (agent_of f ''cos'')) (\<lambda>cos.
     bind_res (resolve_builtins f (ag_delegates cos) contents all_roles []) (\<lambda>resolved.
     resolve_customs f contents (case catalog of None \<Rightarrow> [] | Some rs \<Rightarrow> rs) resolved))"

section \<open>Plans against templates\<close>

definition command_denied :: exn where
  "command_denied = FleetError COMMAND_DENIED"

definition covered :: "(string \<Rightarrow> string) \<Rightarrow> string list option \<Rightarrow> string list \<Rightarrow> bool" where
  "covered cf paths owned = (case paths of None \<Rightarrow> True
     | Some ps \<Rightarrow> \<not> list_ex (\<lambda>p. \<not> path_is_within cf p ps []) owned)"

definition repair_role_ok :: "(string \<Rightarrow> string) \<Rightarrow> templates \<Rightarrow> fleet_plan \<Rightarrow> bool" where
  "repair_role_ok cf ts p = (case repair_role_id p of None \<Rightarrow> True
     | Some rid \<Rightarrow>
         let owned = concat (map scope (filter (\<lambda>n. can_write n \<or> independent_verifier n) (nodes p))) in
         (case map_of ts rid of None \<Rightarrow> False
          | Some r \<Rightarrow> re_kind r = ENGINEER \<and> re_delegation r \<and> covered cf (re_paths r) owned))"

definition role_node_ok :: "(string \<Rightarrow> string) \<Rightarrow> templates \<Rightarrow> fleet_plan_node \<Rightarrow> unit res" where
  "role_node_ok cf ts n = (case map_of ts (role_id n) of None \<Rightarrow> Inl command_denied
     | Some t \<Rightarrow>
         if \<not> re_delegation t then Inl command_denied
         else bind_res (effective_kind n) (\<lambda>kind.
           require (re_kind t = kind \<and> \<not> re_max_steps t < max_steps n
             \<and> covered cf (re_paths t) (scope n)) command_denied))"

definition validate_role_plan :: "(string \<Rightarrow> string) \<Rightarrow> fleet_plan \<Rightarrow> templates \<Rightarrow> unit res" where
  "validate_role_plan cf p ts =
     bind_res (require (repair_role_ok cf ts p) command_denied) (\<lambda>_.
     check_all (role_node_ok cf ts) (nodes p))"

section \<open>Confinement of resolved roles\<close>

text \<open>A resolved role never exceeds the declared agent of its execution kind.\<close>

definition confined :: "fleet_spec \<Rightarrow> resolved_template \<Rightarrow> bool" where
  "confined f r \<longleftrightarrow> (case (agent_of f (role_value (re_kind r)), agent_of f ''cos'') of
     (Some a, Some c) \<Rightarrow> set (re_tools r) \<subseteq> set (ag_tools a) \<and> re_max_steps r \<le> ag_max_steps a
       \<and> re_delegation r = (role_value (re_kind r) \<in> set (ag_delegates c))
   | _ \<Rightarrow> False)"

definition entry_ok :: "fleet_spec \<Rightarrow> string \<Rightarrow> resolved_template \<Rightarrow> bool" where
  "entry_ok f rid r \<longleftrightarrow> confined f r \<and> re_role r = rid
     \<and> (\<forall>k. rid = role_value k \<longrightarrow> re_kind r = k)
     \<and> (rid \<notin> set (map role_value all_roles) \<longrightarrow> set (re_tools r) \<subseteq> set (ROLE_TOOL_CEILINGS (re_kind r)))"

definition entries_ok :: "fleet_spec \<Rightarrow> templates \<Rightarrow> bool" where
  "entries_ok f ts \<longleftrightarrow> (\<forall>(rid, r) \<in> set ts. entry_ok f rid r)"

lemma role_value_in: "role_value k \<in> set (map role_value all_roles)"
  by (cases k) (simp_all add: all_roles_def)

lemma entries_ok_set:
  "entries_ok f ts \<Longrightarrow> entry_ok f rid r \<Longrightarrow> entries_ok f (dict_set rid r ts)"
  by (auto simp: entries_ok_def dict_set_def split: if_splits)

lemma entries_okD: "entries_ok f ts \<Longrightarrow> map_of ts rid = Some r \<Longrightarrow> entry_ok f rid r"
  by (auto simp: entries_ok_def dest: map_of_SomeD)

lemma builtin_entry:
  assumes "agent_of f ''cos'' = Some c" "agent_of f (role_value k) = Some a"
    "builtin_template (ag_delegates c) contents k a = Inr r"
  shows "entry_ok f (role_value k) r"
  using assms role_value_in[of k]
  by (auto simp: builtin_template_def entry_ok_def confined_def res_simps Let_def role_value_inj)

lemma resolve_builtins_ok:
  assumes "agent_of f ''cos'' = Some c"
  shows "entries_ok f done \<Longrightarrow> resolve_builtins f (ag_delegates c) contents ks done = Inr ts \<Longrightarrow>
    entries_ok f ts"
  by (induction ks arbitrary: "done")
    (auto simp: res_simps intro: entries_ok_set builtin_entry[OF assms] split: option.splits)

text \<open>What the validated catalog says of one of its entries.\<close>

definition catalog_entry_ok :: "string \<times> role_template \<Rightarrow> bool" where
  "catalog_entry_ok e \<longleftrightarrow> fst e \<notin> set (map role_value all_roles)
     \<and> (case rt_tools (snd e) of None \<Rightarrow> True
        | Some ts \<Rightarrow> set ts \<subseteq> set (ROLE_TOOL_CEILINGS (rt_base (snd e))))"

lemma validated_entry:
  assumes fold_roles: "\<And>k. cf (role_value k) = role_value k"
    and catalog: "validate_catalog cf rs = Inr rs'" and e: "e \<in> set rs"
  shows "catalog_entry_ok e"
proof -
  have "cf (fst e) \<notin> set reserved_roles" "validate_template cf (snd e) = Inr (snd e)"
    using catalog e by (fastforce simp: validate_catalog_def validate_template_def res_simps list_ex_iff)+
  moreover have "fst e \<notin> set (map role_value all_roles)"
  proof
    assume "fst e \<in> set (map role_value all_roles)"
    then have "cf (fst e) = fst e" using fold_roles by auto
    then show False using calculation \<open>fst e \<in> _\<close> by (simp add: reserved_roles_def)
  qed
  ultimately show ?thesis
    by (auto simp: catalog_entry_ok_def validate_template_def kind_tool_ceiling_def res_simps
        split: option.splits)
qed

lemma custom_entry:
  assumes ok: "entries_ok f ts" and entry: "catalog_entry_ok (rid, t)"
    and custom: "custom_template f contents ts rid t = Inr r"
  shows "entry_ok f rid r"
proof -
  from custom obtain base where base: "map_of ts (role_value (rt_base t)) = Some base"
    by (auto simp: custom_template_def res_simps)
  have e: "entry_ok f (role_value (rt_base t)) base" by (rule entries_okD[OF ok base])
  then have kind: "re_kind base = rt_base t" by (simp add: entry_ok_def)
  have "confined f base" using e by (simp add: entry_ok_def)
  moreover have r: "re_kind r = re_kind base" "re_role r = rid" "re_delegation r = re_delegation base"
      "set (re_tools r) \<subseteq> set (re_tools base)" "re_max_steps r \<le> re_max_steps base"
    using custom base by (auto simp: custom_template_def res_simps Let_def)
  ultimately have "confined f r"
    by (auto simp: confined_def split: option.splits)
  moreover have "set (re_tools r) \<subseteq> set (ROLE_TOOL_CEILINGS (re_kind r))"
    using custom base entry kind
    by (auto simp: custom_template_def catalog_entry_ok_def res_simps Let_def split: option.splits)
  ultimately show ?thesis
    using entry r role_value_in by (auto simp: entry_ok_def catalog_entry_ok_def)
qed

lemma resolve_customs_ok:
  assumes "list_all catalog_entry_ok rs" "entries_ok f done" "resolve_customs f contents rs done = Inr ts"
  shows "entries_ok f ts"
  using assms
proof (induction rs arbitrary: "done")
  case (Cons e rs)
  obtain rid t where e: "e = (rid, t)" by (cases e)
  then obtain r where r: "custom_template f contents done rid t = Inr r"
    and rest: "resolve_customs f contents rs (dict_set rid r done) = Inr ts"
    using Cons.prems(3) by (auto simp: res_simps)
  have "entry_ok f rid r" using custom_entry[OF Cons.prems(2) _ r] Cons.prems(1) e by simp
  then have "entries_ok f (dict_set rid r done)" by (rule entries_ok_set[OF Cons.prems(2)])
  then show ?case using Cons.IH rest Cons.prems(1) by simp
qed simp

lemma resolved_entries:
  assumes "\<And>k. cf (role_value k) = role_value k" "validate_catalog cf rs = Inr rs'"
    and resolve: "resolve_role_templates f contents (Some rs) = Inr ts"
  shows "entries_ok f ts"
proof -
  from resolve obtain c built where
    c: "agent_of f ''cos'' = Some c"
    and built: "resolve_builtins f (ag_delegates c) contents all_roles [] = Inr built"
    and custom: "resolve_customs f contents rs built = Inr ts"
    by (auto simp: resolve_role_templates_def res_simps)
  have "entries_ok f built" by (rule resolve_builtins_ok[OF c _ built]) (simp add: entries_ok_def)
  moreover have "list_all catalog_entry_ok rs"
    using validated_entry[OF assms(1,2)] by (simp add: list_all_iff)
  ultimately show ?thesis using custom resolve_customs_ok by blast
qed

section \<open>Properties\<close>

text \<open>
  C25. Every role the resolver hands out stays within the declared agent of its execution kind: its
  tools are a subset of that agent's tools, its steps are bounded by that agent's steps, and it is
  delegable only when the chief of staff may delegate to that kind. A built-in identity keeps its
  own kind, and a custom one gets tools of the fixed ceiling of its kind only. The case folding is
  assumed to leave the lower-case names of the built-in roles unchanged.
\<close>

theorem resolved_role_confined:
  assumes "\<And>k. cf (role_value k) = role_value k"
    and "validate_catalog cf rs = Inr rs'"
    and "resolve_role_templates f contents (Some rs) = Inr ts"
    and "map_of ts rid = Some r"
  shows "\<exists>a c. agent_of f (role_value (re_kind r)) = Some a \<and> agent_of f ''cos'' = Some c
      \<and> set (re_tools r) \<subseteq> set (ag_tools a) \<and> re_max_steps r \<le> ag_max_steps a
      \<and> re_delegation r = (role_value (re_kind r) \<in> set (ag_delegates c))
      \<and> (\<forall>k. rid = role_value k \<longrightarrow> re_kind r = k)
      \<and> (rid \<notin> set (map role_value all_roles) \<longrightarrow>
          set (re_tools r) \<subseteq> set (ROLE_TOOL_CEILINGS (re_kind r)))"
proof -
  have "entry_ok f rid r" by (rule entries_okD[OF resolved_entries[OF assms(1-3)] assms(4)])
  then show ?thesis by (auto simp: entry_ok_def confined_def split: option.splits)
qed

definition sample_agent :: "string \<Rightarrow> string list \<Rightarrow> string list \<Rightarrow> agent_request" where
  "sample_agent r tools ds = \<lparr>ag_role = r, ag_lifecycle = PER_TASK, ag_instructions = ''agents/a.md'',
     ag_tools = tools, ag_delegates = ds, ag_max_steps = 10\<rparr>"

definition sample_spec :: fleet_spec where
  "sample_spec = \<lparr>fs_name = ''f'', fs_runtime = \<lparr>rq_adapter = ''fake'', rq_model = None,
     rq_capabilities = [STRUCTURED_OUTPUT, TOOL_CALLING]\<rparr>,
     fs_agents = [(''cos'', sample_agent ''cos'' [] [''engineer'', ''docs'']),
       (''engineer'', sample_agent ''engineer'' [''repo.read_file'', ''command.run''] []),
       (''docs'', sample_agent ''docs'' [] [])],
     fs_workflows = [(''code-change'', \<lparr>wf_definition = ''w'', wf_max_repairs = 1, wf_max_parallel = 2,
       wf_tools = None\<rparr>)], fs_permissions = []\<rparr>"

definition sample_custom :: role_template where
  "sample_custom = \<lparr>rt_base = ENGINEER, rt_description = ''d'', rt_instructions = ''agents/b.md'',
     rt_profile = None, rt_tools = Some [''repo.read_file''], rt_max_steps = Some 5,
     rt_paths = Some [''src'']\<rparr>"

definition sample_contents :: "(string \<times> string) list" where
  "sample_contents = [(''agents/a.md'', ''base''), (''agents/b.md'', ''more'')]"

definition sample_templates :: templates where
  "sample_templates = (case resolve_role_templates sample_spec sample_contents
     (Some [(''api-writer'', sample_custom)]) of Inl e \<Rightarrow> [] | Inr ts \<Rightarrow> ts)"

lemma sample_catalog: "validate_catalog id [(''api-writer'', sample_custom)] =
    Inr [(''api-writer'', sample_custom)]"
  by code_simp

lemma sample_resolution: "resolve_role_templates sample_spec sample_contents
    (Some [(''api-writer'', sample_custom)]) = Inr sample_templates"
  by code_simp

definition sample_writer :: resolved_template where
  "sample_writer = (case map_of sample_templates ''api-writer'' of Some r \<Rightarrow> r | None \<Rightarrow>
     undefined)"

lemma sample_lookup: "map_of sample_templates ''api-writer'' = Some sample_writer"
  by code_simp

lemma sample_kind: "re_kind sample_writer = ENGINEER"
  by code_simp

lemma sample_custom_name: "''api-writer'' \<notin> set (map role_value all_roles)"
  by code_simp

theorem resolved_role_confined_witness:
  "\<exists>a. agent_of sample_spec ''engineer'' = Some a \<and> set (re_tools sample_writer) \<subseteq> set (ag_tools a)
     \<and> re_max_steps sample_writer \<le> ag_max_steps a
     \<and> set (re_tools sample_writer) \<subseteq> set (ROLE_TOOL_CEILINGS ENGINEER)"
  using resolved_role_confined[OF _ sample_catalog sample_resolution sample_lookup]
    sample_custom_name by (auto simp: sample_kind)

text \<open>
  C26. When a plan passes the role check under resolved templates, every node works within a declared
  agent of its own execution kind: that kind is delegable by the chief of staff, the node's steps
  are at most the agent's, and its whole scope lies within the paths of its template.
\<close>

theorem planned_node_within_declaration:
  assumes "\<And>k. cf (role_value k) = role_value k"
    and "validate_catalog cf rs = Inr rs'"
    and "resolve_role_templates f contents (Some rs) = Inr ts"
    and "validate_role_plan cf p ts = Inr ()" and "n \<in> set (nodes p)"
  shows "\<exists>kind a c r. effective_kind n = Inr kind \<and> agent_of f (role_value kind) = Some a
      \<and> agent_of f ''cos'' = Some c \<and> role_value kind \<in> set (ag_delegates c)
      \<and> max_steps n \<le> ag_max_steps a
      \<and> map_of ts (role_id n) = Some r \<and> set (re_tools r) \<subseteq> set (ag_tools a)
      \<and> (\<forall>ps. re_paths r = Some ps \<longrightarrow> (\<forall>q \<in> set (scope n). path_is_within cf q ps []))"
proof -
  have "role_node_ok cf ts n = Inr ()"
    using assms(4,5) by (simp add: validate_role_plan_def res_simps)
  then obtain r kind where r: "map_of ts (role_id n) = Some r" "re_delegation r"
      "effective_kind n = Inr kind" "re_kind r = kind" "max_steps n \<le> re_max_steps r"
      "covered cf (re_paths r) (scope n)"
    by (auto simp: role_node_ok_def res_simps split: option.splits if_splits)
  have "entry_ok f (role_id n) r" by (rule entries_okD[OF resolved_entries[OF assms(1-3)] r(1)])
  then obtain a c where "agent_of f (role_value kind) = Some a" "agent_of f ''cos'' = Some c"
      "set (re_tools r) \<subseteq> set (ag_tools a)" "re_max_steps r \<le> ag_max_steps a"
      "re_delegation r = (role_value kind \<in> set (ag_delegates c))"
    using r(4) by (auto simp: entry_ok_def confined_def split: option.splits)
  moreover have "path_is_within cf q ps []" if "re_paths r = Some ps" "q \<in> set (scope n)" for q ps
    using r(6) that by (auto simp: covered_def list_ex_iff)
  ultimately show ?thesis using r by fastforce
qed

definition sample_node :: fleet_plan_node where
  "sample_node = \<lparr>node_id = ''n'', role_id = ''api-writer'', execution_kind = Some ENGINEER,
     goal = None, criterion_ids = [''c''], depends_on = [], scope = [''src/a''], can_write = True,
     requires_workspace = True, independent_verifier = False, max_steps = 4\<rparr>"

definition sample_role_plan :: fleet_plan where
  "sample_role_plan = \<lparr>plan_id = ''p'', plan_run_id = ''r'', plan_task_id = ''t'',
     strategy = SINGLE_ENGINEER, nodes = [sample_node], repair_role_id = Some ''api-writer'',
     max_parallel_agents = 1, plan_required_evidence = [], rationale = ''x'', plan_created_at = 0\<rparr>"

lemma sample_role_plan_ok: "validate_role_plan id sample_role_plan sample_templates = Inr ()"
  by code_simp

theorem planned_node_within_declaration_witness:
  "\<exists>a. agent_of sample_spec ''engineer'' = Some a \<and> 4 \<le> ag_max_steps a"
  using planned_node_within_declaration[OF _ sample_catalog sample_resolution sample_role_plan_ok,
      of sample_node]
  by (auto simp: sample_role_plan_def sample_node_def effective_kind_def)

end
