(* ===== verification/Baseline_Broker.thy ===== *)
theory Baseline_Broker
  imports Trust_Policy
begin

text \<open>
  The fixed ceiling of \<open>application/permissions.py\<close>: which intents of which role, in which
  stage and on which resource can be considered at all, whatever a user or an organization has said.
\<close>

section \<open>Decisions\<close>

record permission_decision =
  pd_outcome :: permission_outcome
  pd_code :: string
  pd_protected :: bool
  pd_rules :: "string list"
  pd_scope :: "exact_scope option"
  pd_risk :: string
  pd_choices :: "approval_choice list"
  pd_grant :: "string option"
  pd_source :: "string option"

definition plain_decision :: "permission_outcome \<Rightarrow> string \<Rightarrow> permission_decision" where
  "plain_decision out code = \<lparr>pd_outcome = out, pd_code = code, pd_protected = False, pd_rules = [],
     pd_scope = None, pd_risk = ''unknown'', pd_choices = [], pd_grant = None, pd_source = None\<rparr>"

text \<open>The constructor checks of \<open>PermissionDecision\<close>: bounded lists, and an effective scope of
  at most 131,072 bytes of bounded JSON.\<close>

definition make_decision :: "permission_decision \<Rightarrow> permission_decision res" where
  "make_decision d =
     bind_res (require (bounded_list 0 128 (pd_rules d) \<and> list_all (bounded_text 128) (pd_rules d)
         \<and> bounded_text 64 (pd_risk d) \<and> bounded_list 0 4 (pd_choices d)
         \<and> (case pd_source d of None \<Rightarrow> True | Some s \<Rightarrow> bounded_text 128 s)) ValueError) (\<lambda>_.
     bind_res (case pd_scope d of None \<Rightarrow> Inr JNull
       | Some x \<Rightarrow> validate_bounded_json (default_bounds\<lparr>max_bytes := 131072\<rparr>) (scope_json x)) (\<lambda>_.
     Inr d))"

definition deny_decision :: "string \<Rightarrow> permission_decision" where
  "deny_decision code = (plain_decision DENY code)\<lparr>pd_protected := True\<rparr>"

definition default_deny :: permission_decision where
  "default_deny = deny_decision ''PHASE1_DEFAULT_DENY''"

section \<open>The tests of the broker\<close>

definition json_keys :: "json \<Rightarrow> string set" where
  "json_keys v = set (map fst (json_members v))"

definition get_or_null :: "string \<Rightarrow> json \<Rightarrow> json" where
  "get_or_null k v = (case json_get k v of None \<Rightarrow> JNull | Some w \<Rightarrow> w)"

fun is_str :: "json \<Rightarrow> bool" where
  "is_str (JStr s) = True"
| "is_str v = False"

fun is_nonempty_str :: "json \<Rightarrow> bool" where
  "is_nonempty_str (JStr s) = (s \<noteq> [])"
| "is_nonempty_str v = False"

fun is_int :: "json \<Rightarrow> bool" where
  "is_int (JInt i) = True"
| "is_int v = False"

fun is_sha256 :: "json \<Rightarrow> bool" where
  "is_sha256 (JStr s) = sha256_ok s"
| "is_sha256 v = False"

definition path_in_task_scope :: "(string \<Rightarrow> string) \<Rightarrow> task_spec \<Rightarrow> string \<Rightarrow> bool" where
  "path_in_task_scope cf t p = path_is_within cf p (allowed_paths t) (forbidden_paths t)"

definition role_stage_allowed :: "string \<Rightarrow> workflow_stage \<Rightarrow> bool" where
  "role_stage_allowed role stage \<longleftrightarrow>
     (role = ''engineer'' \<and> stage \<in> {IMPLEMENTING, REPAIRING})
     \<or> (role = ''verifier'' \<and> stage = VERIFYING)
     \<or> (role \<in> {''researcher'', ''architect''} \<and> stage = IMPLEMENTING)"

definition offline_canary :: command_spec where
  "offline_canary = \<lparr>command_id = ''offline-canary'', executable = ''python'',
     argv = [''-m'', ''pytest'', ''-q''], logical_cwd = ''.'', environment = [],
     timeout_seconds = 60, max_output_bytes = 64000, network_requirement = NetNone\<rparr>"

definition task_command :: "task_spec \<Rightarrow> string \<Rightarrow> string \<Rightarrow> command_spec option" where
  "task_command t cid provider =
     (case find (\<lambda>c. command_id c = cid) (verification_commands t) of
        Some c \<Rightarrow> Some c
      | None \<Rightarrow> if provider = ''fake'' \<and> verification_commands t = [] \<and> cid = ''offline-canary''
                then Some offline_canary else None)"

definition write_actions :: "string list" where
  "write_actions = [''workspace.write_file'', ''workspace.apply_edit'', ''workspace.delete_path'']"

definition read_actions :: "string list" where
  "read_actions = [''repo.list_files'', ''repo.read_file'', ''repo.search_text'', ''workspace.get_diff'']"

definition write_parameters_ok :: "tool_intent \<Rightarrow> bool" where
  "write_parameters_ok i \<longleftrightarrow> (let ps = ti_parameters i; arg = (\<lambda>k. get_or_null k ps) in
     (ti_action i = ''workspace.write_file'' \<and> json_keys ps = {''content''} \<and> is_str (arg ''content''))
     \<or> (ti_action i = ''workspace.apply_edit''
        \<and> json_keys ps = {''expected_sha256'', ''old'', ''new'', ''expected_matches''}
        \<and> is_sha256 (arg ''expected_sha256'') \<and> is_nonempty_str (arg ''old'') \<and> is_str (arg ''new'')
        \<and> is_int (arg ''expected_matches''))
     \<or> (ti_action i = ''workspace.delete_path'' \<and> json_keys ps = {''expected_sha256''}
        \<and> is_sha256 (arg ''expected_sha256'')))"

definition observation_ok :: "(string \<Rightarrow> string) \<Rightarrow> tool_intent \<Rightarrow> task_spec \<Rightarrow> bool" where
  "observation_ok cf i t \<longleftrightarrow>
     (if ti_action i \<in> {''repo.list_files'', ''workspace.get_diff''} then
        ti_resource i = workspace_view \<and> json_members (ti_parameters i) = []
      else if ti_action i = ''repo.search_text'' then
        ti_resource i = workspace_view \<and> json_keys (ti_parameters i) = {''query''}
        \<and> is_nonempty_str (get_or_null ''query'' (ti_parameters i))
      else res_kind (ti_resource i) = ''workspace_path'' \<and> json_members (ti_parameters i) = []
        \<and> path_in_task_scope cf t (res_identifier (ti_resource i)))"

definition network_allowed :: "json \<Rightarrow> sandbox_capabilities \<Rightarrow> bool" where
  "network_allowed mode sb =
     (let supported = (case mode of JStr m \<Rightarrow> m \<in> set (sb_networks sb) | _ \<Rightarrow> False) in
      if mode \<noteq> JStr ''none''
      then mode = JStr ''approved-unrestricted'' \<and> sb_level sb = UNSAFE_HOST
        \<and> sb_provider sb = ''local-unsafe''
      else supported)"

definition command_ok ::
    "(string \<Rightarrow> string) \<Rightarrow> tool_intent \<Rightarrow> sandbox_capabilities \<Rightarrow> command_spec \<Rightarrow> bool" where
  "command_ok sha i sb c \<longleftrightarrow> (let mode = get_or_null ''network_mode'' (ti_parameters i) in
     \<not> (\<not> py_eq (ti_parameters i) (command_parameters sha c mode)
        \<or> network_requirement c \<noteq> NetNone \<or> \<not> network_allowed mode sb))"

section \<open>The broker\<close>

definition intent_of_task :: "tool_intent \<Rightarrow> task_spec \<Rightarrow> bool" where
  "intent_of_task i t \<longleftrightarrow> \<not> (ti_run i \<noteq> task_run_id t \<or> ti_task i \<noteq> task_id t \<or> ti_workflow i \<noteq> workflow t)"

definition mutation_case :: "(string \<Rightarrow> string) \<Rightarrow> string \<Rightarrow> tool_intent \<Rightarrow> task_spec \<Rightarrow> bool" where
  "mutation_case cf role i t \<longleftrightarrow> ti_action i \<in> set write_actions \<and> role = ''engineer''
     \<and> ti_stage i \<in> {IMPLEMENTING, REPAIRING} \<and> task_change_kind t = CODE_CHANGE
     \<and> res_kind (ti_resource i) = ''workspace_path''
     \<and> path_in_task_scope cf t (res_identifier (ti_resource i)) \<and> ti_side_effect i"

definition observation_case :: "string \<Rightarrow> tool_intent \<Rightarrow> bool" where
  "observation_case role i \<longleftrightarrow> ti_action i \<in> set read_actions
     \<and> role \<in> {''engineer'', ''verifier'', ''researcher'', ''architect''}
     \<and> role_stage_allowed role (ti_stage i) \<and> \<not> ti_side_effect i"

definition command_case :: "string \<Rightarrow> tool_intent \<Rightarrow> task_spec \<Rightarrow> bool" where
  "command_case role i t \<longleftrightarrow> ti_action i = ''command.run'' \<and> role \<in> {''engineer'', ''verifier''}
     \<and> res_kind (ti_resource i) = ''project_command'' \<and> task_change_kind t = CODE_CHANGE
     \<and> ti_side_effect i
     \<and> ((role = ''engineer'' \<and> ti_stage i \<in> {IMPLEMENTING, REPAIRING})
        \<or> (role = ''verifier'' \<and> ti_stage i = VERIFYING))"

definition fixture_case :: "string \<Rightarrow> tool_intent \<Rightarrow> task_spec \<Rightarrow> sandbox_capabilities \<Rightarrow> bool" where
  "fixture_case role i t sb \<longleftrightarrow> ti_action i = ''fixture.record_side_effect'' \<and> role = ''engineer''
     \<and> ti_resource i = approval_proof \<and> py_eq (ti_parameters i) proof_parameters
     \<and> sb_provider sb = ''fake'' \<and> \<not> sb_executes sb \<and> task_change_kind t = CODE_CHANGE
     \<and> ti_stage i \<in> {IMPLEMENTING, REPAIRING} \<and> ti_side_effect i"

definition baseline_evaluate ::
    "(string \<Rightarrow> string) \<Rightarrow> (string \<Rightarrow> string) \<Rightarrow> tool_intent \<Rightarrow> task_spec \<Rightarrow> sandbox_capabilities
      \<Rightarrow> agent_role option \<Rightarrow> permission_decision" where
  "baseline_evaluate cf sha i t sb kind =
     (let role = (case kind of None \<Rightarrow> ti_role i | Some k \<Rightarrow> role_value k) in
      if \<not> intent_of_task i t then default_deny
      else if mutation_case cf role i t then
        if \<not> write_parameters_ok i then default_deny
        else plain_decision ALLOW ''PHASE3_BOUNDED_CANDIDATE_MUTATION''
      else if observation_case role i then
        if \<not> observation_ok cf i t then default_deny
        else plain_decision ALLOW ''PHASE3_BOUNDED_WORKSPACE_READ''
      else if command_case role i t then
        (case task_command t (res_identifier (ti_resource i)) (sb_provider sb) of
           None \<Rightarrow> default_deny
         | Some c \<Rightarrow>
             if \<not> command_ok sha i sb c then default_deny
             else plain_decision ALLOW ''PHASE3_EXACT_REVIEWED_COMMAND'')
      else if fixture_case role i t sb then plain_decision REQUIRE_APPROVAL ''PHASE1_APPROVAL_PROOF''
      else default_deny)"

section \<open>What the ceiling admits\<close>

lemma deny_outcome [simp]: "pd_outcome (deny_decision c) = DENY" "pd_outcome default_deny = DENY"
  by (simp_all add: deny_decision_def default_deny_def plain_decision_def)

lemma plain_outcome [simp]: "pd_outcome (plain_decision out c) = out"
  by (simp add: plain_decision_def)

definition acting_role :: "tool_intent \<Rightarrow> agent_role option \<Rightarrow> string" where
  "acting_role i kind = (case kind of None \<Rightarrow> ti_role i | Some k \<Rightarrow> role_value k)"

definition reviewed_command ::
    "(string \<Rightarrow> string) \<Rightarrow> tool_intent \<Rightarrow> task_spec \<Rightarrow> sandbox_capabilities \<Rightarrow> bool" where
  "reviewed_command sha i t sb \<longleftrightarrow>
     (case task_command t (res_identifier (ti_resource i)) (sb_provider sb) of
        None \<Rightarrow> False | Some c \<Rightarrow> command_ok sha i sb c)"

text \<open>The four kinds of intent that pass the ceiling.\<close>

lemma baseline_outcome:
  "pd_outcome (baseline_evaluate cf sha i t sb kind) =
     (let role = acting_role i kind in
      if intent_of_task i t \<and>
         (mutation_case cf role i t \<and> write_parameters_ok i
          \<or> observation_case role i \<and> observation_ok cf i t
          \<or> command_case role i t \<and> reviewed_command sha i t sb)
      then ALLOW
      else if intent_of_task i t \<and> fixture_case role i t sb then REQUIRE_APPROVAL else DENY)"
proof -
  have "\<not> (mutation_case cf r i t \<and> (observation_case r i \<or> command_case r i t \<or> fixture_case r i t sb))"
    "\<not> (observation_case r i \<and> (command_case r i t \<or> fixture_case r i t sb))"
    "\<not> (command_case r i t \<and> fixture_case r i t sb)" for r
    by (auto simp: mutation_case_def observation_case_def command_case_def fixture_case_def
        write_actions_def read_actions_def)
  then show ?thesis
    unfolding baseline_evaluate_def Let_def acting_role_def[symmetric]
    by (auto simp: reviewed_command_def split: option.splits)
qed

end
