(* ===== verification/Permission_Policy.thy ===== *)
theory Permission_Policy
  imports Baseline_Broker Role_Templates Run_Store
begin

text \<open>
  The permission decision of \<open>application/permission_policy.py\<close>: the trusted context of an
  intent, the activity of a rule, the match of a capability, the request of the organization, and
  the broker that combines them with the fixed ceiling.

  \<open>policy_env\<close> holds what the service reads elsewhere: the registered projects, the
  configuration files (the n-th read), the repository, the case folding, and the clock, whose
  readings are addressed by the place in the code and the loop positions.
\<close>

section \<open>What the service reads\<close>

record project =
  pj_id :: string
  pj_root :: string
  pj_identity :: string
  pj_scope_required :: bool

record config_view =
  cv_spec :: fleet_spec
  cv_hash :: string
  cv_roles :: "templates res"

record repo_info =
  rp_root :: string
  rp_head :: string
  rp_identity :: string
  rp_fingerprint :: string

record policy_env =
  pe_fx :: effects
  pe_checks :: store_checks
  pe_fold :: "string \<Rightarrow> string"
  pe_now :: "nat list \<Rightarrow> int"
  pe_projects :: "project list"
  pe_config :: "nat \<Rightarrow> string \<Rightarrow> config_view res"
  pe_repo :: "string \<Rightarrow> repo_info res"
  pe_time :: "int \<Rightarrow> string"
  pe_size :: "trust_policy \<Rightarrow> nat"

text \<open>The durable state: the SQLite store, the policy file (absent at first) and its immutable
  backups by revision.\<close>

record policy_world =
  pw_store :: store
  pw_file :: "trust_policy option"
  pw_backups :: "(int \<times> trust_policy) list"

definition opt_json :: "('a \<Rightarrow> json) \<Rightarrow> 'a option \<Rightarrow> json" where
  "opt_json f v = (case v of None \<Rightarrow> JNull | Some x \<Rightarrow> f x)"

definition rule_json :: "policy_env \<Rightarrow> trust_rule \<Rightarrow> json" where
  "rule_json env r = JObj [(''rule_id'', JStr (ur_id r)), (''scope'', scope_json (ur_scope r)),
     (''effect'', JStr (case ur_effect r of EffectAllow \<Rightarrow> ''allow'' | EffectDeny \<Rightarrow> ''deny'')),
     (''created_by'', JStr ''user''), (''created_at'', JStr (pe_time env (ur_created r))),
     (''expires_at'', opt_json (\<lambda>t. JStr (pe_time env t)) (ur_expires r)),
     (''revoked_at'', opt_json (\<lambda>t. JStr (pe_time env t)) (ur_revoked r)),
     (''source_approval_request_id'', opt_json JStr (ur_source r))]"

fun mode_value :: "trust_mode \<Rightarrow> string" where
  "mode_value SAFE = ''safe''"
| "mode_value BALANCED = ''balanced''"
| "mode_value AUTONOMOUS_SANDBOX = ''autonomous-sandbox''"

definition project_trust_json :: "policy_env \<Rightarrow> project_trust \<Rightarrow> json" where
  "project_trust_json env t = JObj [(''project_id'', JStr (pt_project t)),
     (''repository_identity'', JStr (pt_identity t)), (''trust_mode'', JStr (mode_value (pt_mode t))),
     (''allowed_paths'', JArr (map JStr (pt_paths t))),
     (''grants_revoked_before'', opt_json (\<lambda>c. JStr (pe_time env c)) (pt_cutoff t))]"

definition policy_json :: "policy_env \<Rightarrow> trust_policy \<Rightarrow> json" where
  "policy_json env p = JObj [(''api_version'', JStr ''agentfleet.dev/v1alpha1''),
     (''kind'', JStr ''UserTrustPolicy''), (''revision'', JInt (tp_revision p)),
     (''projects'', JArr (map (project_trust_json env) (tp_projects p))),
     (''rules'', JArr (map (rule_json env) (tp_rules p)))]"

definition trust_unavailable :: exn where
  "trust_unavailable = FleetError STATE_UNAVAILABLE"

text \<open>\<open>FilesystemTrustStore._validate\<close> and \<open>load\<close>.\<close>

definition trust_validate :: "policy_env \<Rightarrow> trust_policy \<Rightarrow> trust_policy res" where
  "trust_validate env p =
     (if tainted (pe_fx env) (policy_json env p) then Inl trust_unavailable
      else case validate_policy (pe_fold env) (sha256 (pe_fx env)) p of
        Inl e \<Rightarrow> Inl trust_unavailable | Inr q \<Rightarrow> Inr q)"

definition load_trust :: "policy_env \<Rightarrow> policy_world \<Rightarrow> trust_policy res" where
  "load_trust env w = (case pw_file w of None \<Rightarrow> Inr empty_policy | Some p \<Rightarrow> trust_validate env p)"

definition get_project :: "policy_env \<Rightarrow> string \<Rightarrow> project res" where
  "get_project env pid = some_or not_found (find (\<lambda>p. pj_id p = pid) (pe_projects env))"

definition state_run :: "policy_env \<Rightarrow> policy_world \<Rightarrow> string \<Rightarrow> run res" where
  "state_run env w rid = validated_run (pe_fx env) (pe_checks env) (pw_store w) rid"

definition project_at :: "policy_env \<Rightarrow> string \<Rightarrow> project res" where
  "project_at env path =
     bind_res (pe_repo env path) (\<lambda>info.
     case find (\<lambda>p. pj_root p = rp_root info) (pe_projects env) of
       None \<Rightarrow> Inl (FleetError PROJECT_NOT_INITIALIZED)
     | Some p \<Rightarrow> bind_res (require (\<not> pj_identity p \<noteq> rp_identity info)
           (FleetError PROJECT_NOT_INITIALIZED)) (\<lambda>_. Inr p))"

definition trust_settings :: "project \<Rightarrow> trust_policy \<Rightarrow> project_trust res" where
  "trust_settings p pol = (case trust_of (tp_projects pol) (pj_id p) of
     Some t \<Rightarrow> bind_res (require (\<not> pt_identity t \<noteq> pj_identity p) invalid_approval) (\<lambda>_. Inr t)
   | None \<Rightarrow> bind_res (require (\<not> pj_scope_required p) invalid_approval) (\<lambda>_.
       Inr \<lparr>pt_project = pj_id p, pt_identity = pj_identity p, pt_mode = BALANCED,
         pt_paths = [''.''], pt_cutoff = None\<rparr>))"

definition within_user_paths :: "(string \<Rightarrow> string) \<Rightarrow> string \<Rightarrow> string list \<Rightarrow> bool" where
  "within_user_paths cf path scopes =
     (let parts = fold_path cf path in
      if parts = [] \<or> hd parts \<in> set protected_roots \<or> ''..'' \<in> set parts then False
      else list_ex (\<lambda>s. s = ''.''
        \<or> take (length (path_parts (parse_path s))) parts = fold_path cf s) scopes)"

definition validate_task_paths :: "policy_env \<Rightarrow> policy_world \<Rightarrow> project \<Rightarrow> string list \<Rightarrow> unit res" where
  "validate_task_paths env w p paths =
     bind_res (load_trust env w) (\<lambda>pol.
     bind_res (trust_settings p pol) (\<lambda>t.
     require (\<not> list_ex (\<lambda>q. \<not> within_user_paths (pe_fold env) q (pt_paths t)) paths) invalid_approval))"

definition validate_run_target :: "policy_env \<Rightarrow> run \<Rightarrow> unit res" where
  "validate_run_target env r =
     bind_res (get_project env (run_project r)) (\<lambda>p.
     bind_res (pe_repo env (pj_root p)) (\<lambda>info.
     bind_res (require (\<not> (rp_identity info \<noteq> pj_identity p \<or> rp_head info \<noteq> run_base_revision r
         \<or> rp_fingerprint info \<noteq> run_target_fingerprint r)) invalid_approval) (\<lambda>_.
     bind_res (pe_config env 0 (pj_root p)) (\<lambda>c.
     require (\<not> Some (cv_hash c) \<noteq> run_config_hash r) invalid_approval))))"

section \<open>The trusted context\<close>

definition hashed_keys :: "string list" where
  "hashed_keys = [''content'', ''old'', ''new'']"

text \<open>Texts of a parameter enter the scope by their hash, under a key that says so.\<close>

fun scope_parameters :: "(string \<Rightarrow> string) \<Rightarrow> (string \<times> json) list \<Rightarrow> (string \<times> json) list \<Rightarrow>
    (string \<times> json) list res" where
  "scope_parameters sha done [] = Inr done"
| "scope_parameters sha done ((k, v) # ms) = (case v of
     JStr s \<Rightarrow>
       if k \<in> set hashed_keys then
         bind_res (require (\<not> has_surrogate s) ValueError) (\<lambda>_.
         scope_parameters sha (dict_set (k @ ''_sha256'') (JStr (sha s)) done) ms)
       else scope_parameters sha (dict_set k v done) ms
   | _ \<Rightarrow> scope_parameters sha (dict_set k v done) ms)"

text \<open>The run, its task and its sandbox are the ones the intent speaks of.\<close>

definition context_current ::
    "policy_world \<Rightarrow> run \<Rightarrow> tool_intent \<Rightarrow> task_spec \<Rightarrow> sandbox_capabilities \<Rightarrow> unit res" where
  "context_current w r i t sb =
     bind_res (require (run_task r = Some (task_id t)) invalid_approval) (\<lambda>_.
     bind_res (get_task (pw_store w) (task_id t)) (\<lambda>stored.
     require (\<not> (stored \<noteq> t \<or> run_stage r \<noteq> Some (ti_stage i)
         \<or> Some (config_snapshot_hash t) \<noteq> run_config_hash r \<or> Some sb \<noteq> run_capabilities r
         \<or> run_status r \<notin> {RUNNING, PAUSED_FOR_APPROVAL} \<or> run_configuration r = None))
       invalid_approval))"

definition custom_principal_ok ::
    "policy_env \<Rightarrow> policy_world \<Rightarrow> run \<Rightarrow> tool_intent \<Rightarrow> task_spec \<Rightarrow> resolved_template \<Rightarrow> unit res" where
  "custom_principal_ok env w r i t role =
     (if ti_role i \<in> set (map role_value all_roles) then Inr ()
      else bind_res (get_agent_instance (pw_store w) (ti_agent i)) (\<lambda>a.
        require (\<not> (agent_role a \<noteq> ti_role i \<or> agent_run a \<noteq> run_id r
          \<or> agent_task a \<noteq> Some (task_id t) \<or> agent_kind a \<noteq> Some (re_kind role)
          \<or> \<not> re_delegation role
          \<or> (case re_paths role of None \<Rightarrow> False
             | Some ps \<Rightarrow> list_ex (\<lambda>q. \<not> path_is_within (pe_fold env) q ps []) (allowed_paths t))))
          invalid_approval))"

definition intent_command :: "tool_intent \<Rightarrow> task_spec \<Rightarrow> sandbox_capabilities \<Rightarrow> command_spec option" where
  "intent_command i t sb = (if ti_action i = ''command.run''
     then task_command t (res_identifier (ti_resource i)) (sb_provider sb) else None)"

definition intent_scope ::
    "policy_env \<Rightarrow> project \<Rightarrow> run \<Rightarrow> tool_intent \<Rightarrow> task_spec \<Rightarrow> sandbox_capabilities \<Rightarrow>
     resolved_template \<Rightarrow> exact_scope res" where
  "intent_scope env p r i t sb role =
     bind_res (scope_parameters (sha256 (pe_fx env)) [] (json_members (ti_parameters i))) (\<lambda>ps.
     case validate_scope (pe_fold env) (sha256 (pe_fx env))
       \<lparr>xs_project = pj_id p, xs_identity = pj_identity p, xs_role = ti_role i,
        xs_workflow = ti_workflow i, xs_stage = ti_stage i, xs_action = ti_action i,
        xs_resource = ti_resource i, xs_parameters = JObj ps, xs_command = intent_command i t sb,
        xs_workspace = (if re_kind role = VERIFIER then VERIFICATION else CANDIDATE),
        xs_provider = run_sandbox_name r, xs_level = sb_level sb,
        xs_network = (case run_configuration r of None \<Rightarrow> [] | Some c \<Rightarrow> sc_network c)\<rparr> of
       Inl e \<Rightarrow> Inl command_denied
     | Inr x \<Rightarrow> Inr x)"

definition policy_context ::
    "policy_env \<Rightarrow> policy_world \<Rightarrow> tool_intent \<Rightarrow> task_spec \<Rightarrow> sandbox_capabilities \<Rightarrow>
     (project \<times> fleet_spec \<times> project_trust \<times> trust_policy \<times> exact_scope) res" where
  "policy_context env w i t sb =
     bind_res (state_run env w (ti_run i)) (\<lambda>r.
     bind_res (get_project env (run_project r)) (\<lambda>p.
     bind_res (context_current w r i t sb) (\<lambda>_.
     bind_res (pe_config env 0 (pj_root p)) (\<lambda>c.
     bind_res (require (\<not> Some (cv_hash c) \<noteq> run_config_hash r) invalid_approval) (\<lambda>_.
     bind_res (cv_roles c) (\<lambda>roles.
     bind_res (some_or invalid_approval (map_of roles (ti_role i))) (\<lambda>role.
     bind_res (custom_principal_ok env w r i t role) (\<lambda>_.
     bind_res (load_trust env w) (\<lambda>pol.
     bind_res (trust_settings p pol) (\<lambda>s.
     bind_res (require (\<not> list_ex (\<lambda>q. \<not> within_user_paths (pe_fold env) q (pt_paths s))
         (allowed_paths t)) invalid_approval) (\<lambda>_.
     bind_res (intent_scope env p r i t sb role) (\<lambda>x.
     bind_res (require (\<not> tainted (pe_fx env) (scope_json x)) invalid_approval) (\<lambda>_.
     Inr (p, cv_spec c, s, pol, x))))))))))))))"

section \<open>Rules and capabilities\<close>

definition expired :: "int option \<Rightarrow> int \<Rightarrow> bool" where
  "expired e now = (case e of None \<Rightarrow> False | Some t \<Rightarrow> t \<le> now)"

text \<open>\<open>rule_is_active\<close>: a staged rule waits until its approval was resolved in its favour.\<close>

definition rule_is_active :: "policy_env \<Rightarrow> policy_world \<Rightarrow> nat list \<Rightarrow> trust_rule \<Rightarrow> bool res" where
  "rule_is_active env w site r =
     (if ur_revoked r \<noteq> None \<or> expired (ur_expires r) (pe_now env (0 # site)) then Inr False
      else case ur_source r of None \<Rightarrow> Inr True
      | Some rid \<Rightarrow> bind_res (get_approval (pw_store w) rid) (\<lambda>q.
          Inr (ap_status q = ApApproved \<and> ap_resolution q = Some ALLOW_ALWAYS
            \<and> ap_rule q = Some (ur_id r)
            \<and> (case ap_scope q of None \<Rightarrow> False | Some v \<Rightarrow> py_eq v (scope_json (ur_scope r))))))"

definition both :: "bool res \<Rightarrow> bool res \<Rightarrow> bool res" where
  "both a b = bind_res a (\<lambda>x. if x then b else Inr False)"

definition rule_applies ::
    "policy_env \<Rightarrow> policy_world \<Rightarrow> nat list \<Rightarrow> exact_scope \<Rightarrow> trust_rule \<Rightarrow> int \<Rightarrow> bool res" where
  "rule_applies env w site x r now =
     both (rule_is_active env w site r) (rule_matches (pe_fold env) (sha256 (pe_fx env)) r x now)"

text \<open>Comprehensions and \<open>any\<close> whose test may raise, with the position of the element.\<close>

fun filter_res :: "(nat \<Rightarrow> 'a \<Rightarrow> bool res) \<Rightarrow> nat \<Rightarrow> 'a list \<Rightarrow> 'a list res" where
  "filter_res f n [] = Inr []"
| "filter_res f n (x # xs) = bind_res (f n x) (\<lambda>b. bind_res (filter_res f (Suc n) xs) (\<lambda>ys.
     Inr (if b then x # ys else ys)))"

fun find_res :: "(nat \<Rightarrow> 'a \<Rightarrow> bool res) \<Rightarrow> nat \<Rightarrow> 'a list \<Rightarrow> 'a option res" where
  "find_res f n [] = Inr None"
| "find_res f n (x # xs) = bind_res (f n x) (\<lambda>b. if b then Inr (Some x) else find_res f (Suc n) xs)"

definition any_res :: "(nat \<Rightarrow> 'a \<Rightarrow> bool res) \<Rightarrow> 'a list \<Rightarrow> bool res" where
  "any_res f xs = bind_res (find_res f 0 xs) (\<lambda>y. Inr (y \<noteq> None))"

text \<open>The tests of \<open>_grant_matches\<close> that end it with \<open>False\<close>.\<close>

definition grant_stale ::
    "project_trust option \<Rightarrow> int \<Rightarrow> capability_grant \<Rightarrow> tool_intent \<Rightarrow> exact_scope \<Rightarrow> bool" where
  "grant_stale settings now g i x \<longleftrightarrow> cg_revoked g \<noteq> None \<or> expired (cg_expires g) now
     \<or> cg_uses g = Some 0 \<or> cg_project g \<noteq> xs_project x \<or> cg_run g \<noteq> ti_run i
     \<or> cg_task g \<noteq> ti_task i \<or> cg_role g \<noteq> ti_role i \<or> cg_action g \<noteq> ti_action i
     \<or> cg_resource g \<noteq> ti_resource i
     \<or> (case settings of None \<Rightarrow> False
        | Some s \<Rightarrow> (case pt_cutoff s of None \<Rightarrow> False | Some c \<Rightarrow> cg_issued g \<le> c))"

definition grant_source_ok ::
    "policy_env \<Rightarrow> policy_world \<Rightarrow> nat list \<Rightarrow> int \<Rightarrow> capability_grant \<Rightarrow> exact_scope \<Rightarrow>
     trust_policy \<Rightarrow> bool res" where
  "grant_source_ok env w site now g x pol = (case cg_rule g of None \<Rightarrow> Inr True
     | Some rid \<Rightarrow> any_res (\<lambda>n r. both (Inr (ur_id r = rid)) (rule_applies env w (n # site) x r now))
         (tp_rules pol))"

definition grant_bound :: "policy_env \<Rightarrow> capability_grant \<Rightarrow> tool_intent \<Rightarrow> exact_scope \<Rightarrow> bool" where
  "grant_bound env g i x \<longleftrightarrow> (let h = scope_sha256 (sha256 (pe_fx env)) x in
     if cg_choice g = ALLOW_ONCE then
       cg_intent g = ti_id i \<and> cg_agent g = ti_agent i \<and> cg_hash g = intent_hash (pe_fx env) i
       \<and> (cg_scope g = None \<or> cg_scope g = Some h)
     else cg_scope g = Some h)"

definition grant_matches ::
    "policy_env \<Rightarrow> policy_world \<Rightarrow> nat list \<Rightarrow> capability_grant \<Rightarrow> tool_intent \<Rightarrow> exact_scope \<Rightarrow>
     trust_policy \<Rightarrow> bool res" where
  "grant_matches env w site g i x pol =
     (let now = pe_now env (1 # site) in
      if grant_stale (trust_of (tp_projects pol) (xs_project x)) now g i x then Inr False
      else bind_res (grant_source_ok env w (2 # site) now g x pol) (\<lambda>ok.
        if \<not> ok then Inr False else Inr (grant_bound env g i x)))"

section \<open>The request of the organization\<close>

definition LEGACY_REQUESTS :: "(string \<times> string \<times> string) set" where
  "LEGACY_REQUESTS = {(''engineer'', ''workspace.write_file'', ''workspace://candidate/**''),
     (''engineer'', ''command.run'', ''command://declared-fake-command''),
     (''verifier'', ''command.run'', ''command://declared-fake-command'')}"

definition strip_suffix :: "nat \<Rightarrow> string \<Rightarrow> string" where
  "strip_suffix n s = take (length s - n) s"

fun match_prefixes :: "(string \<Rightarrow> string) \<Rightarrow> string \<Rightarrow> tool_intent \<Rightarrow> string list \<Rightarrow> bool" where
  "match_prefixes cf req i [] = False"
| "match_prefixes cf req i (pre # ps) =
     (if \<not> starts_with pre req then match_prefixes cf req i ps
      else let suffix = drop (length pre) req in
        if suffix = ''**'' then True
        else if res_kind (ti_resource i) \<noteq> ''workspace_path'' then False
        else if ends_with ''/**'' suffix
          then within_user_paths cf (res_identifier (ti_resource i)) [strip_suffix 3 suffix]
        else suffix = res_identifier (ti_resource i))"

definition requested_resource_matches ::
    "(string \<Rightarrow> string) \<Rightarrow> string \<Rightarrow> tool_intent \<Rightarrow> agent_role \<Rightarrow> bool" where
  "requested_resource_matches cf req i kind =
     (if ti_action i = ''fixture.record_side_effect'' then req = ''fixture://approval-proof''
      else if ti_action i = ''command.run'' then
        req \<in> {''command://declared-project-command'', ''command://'' @ res_identifier (ti_resource i)}
      else
        (let space = (if role_value kind = ''verifier'' then ''verification'' else ''candidate'') in
         match_prefixes cf req i ((''workspace://'' @ space @ ''/'')
           # (if \<not> ti_side_effect i then [''repo://current/''] else []))))"

definition requested_by_organization ::
    "(string \<Rightarrow> string) \<Rightarrow> fleet_spec \<Rightarrow> tool_intent \<Rightarrow> resolved_template \<Rightarrow> bool" where
  "requested_by_organization cf f i role = (case map_of (fs_workflows f) (ti_workflow i) of
     None \<Rightarrow> False
   | Some flow \<Rightarrow>
       (if (case wf_tools flow of None \<Rightarrow> False | Some ts \<Rightarrow> ti_action i \<notin> set ts) then False
        else let requests = set (map (\<lambda>p. (rp_role p, rp_action p, rp_resource p)) (fs_permissions f)) in
          if ti_action i = ''fixture.record_side_effect'' \<and> rq_adapter (fs_runtime f) \<noteq> ''fake'' then False
          else if ti_action i = ''fixture.record_side_effect'' \<and> requests = LEGACY_REQUESTS
            \<and> ''command.run'' \<in> set (re_tools role) then True
          else if ti_action i \<notin> set (re_tools role) then False
          else if card requests = length (fs_permissions f) \<and> requests = LEGACY_REQUESTS then True
          else list_ex (\<lambda>p. rp_role p = role_value (re_kind role) \<and> rp_action p = ti_action i
            \<and> requested_resource_matches cf (rp_resource p) i (re_kind role)) (fs_permissions f)))"

section \<open>The broker\<close>

definition asks_user :: "tool_intent \<Rightarrow> project_trust \<Rightarrow> sandbox_capabilities \<Rightarrow> bool" where
  "asks_user i s sb \<longleftrightarrow> ti_action i \<in> {''command.run'', ''fixture.record_side_effect''}
     \<and> (pt_mode s = SAFE \<or> ti_action i = ''fixture.record_side_effect'' \<or> sb_level sb = UNSAFE_HOST)"

text \<open>The order of the answers once the ceiling and the organization admit the intent: a user's
  denial, a capability, a user's rule, a question, and the trust mode's default.\<close>

definition user_decision ::
    "policy_env \<Rightarrow> policy_world \<Rightarrow> tool_intent \<Rightarrow> sandbox_capabilities \<Rightarrow> project_trust \<Rightarrow>
     trust_policy \<Rightarrow> exact_scope \<Rightarrow> permission_decision \<Rightarrow> permission_decision res" where
  "user_decision env w i sb s pol x ceiling =
     bind_res (filter_res (\<lambda>n r. rule_applies env w [n, 3] x r (pe_now env [n, 4])) 0 (tp_rules pol)) (\<lambda>matched.
     let denied = map ur_id (filter (\<lambda>r. ur_effect r = EffectDeny) matched);
         allowed = filter (\<lambda>r. ur_effect r = EffectAllow) matched in
     if denied \<noteq> [] then make_decision ((deny_decision ''USER_EXACT_DENY'')
       \<lparr>pd_rules := denied, pd_scope := Some x\<rparr>)
     else
     bind_res (list_grants (pw_store w) (ti_run i)) (\<lambda>grants.
     bind_res (find_res (\<lambda>n g. grant_matches env w [n, 5] g i x pol) 0 grants) (\<lambda>found.
     case found of
       Some g \<Rightarrow> make_decision ((plain_decision ALLOW ''EXACT_CAPABILITY_GRANT'')
         \<lparr>pd_grant := Some (cg_id g), pd_source := cg_rule g, pd_rules := [cg_id g], pd_scope := Some x\<rparr>)
     | None \<Rightarrow>
         if allowed \<noteq> [] then make_decision ((plain_decision ALLOW ''EXACT_PROJECT_TRUST'')
           \<lparr>pd_source := Some (ur_id (hd allowed)), pd_rules := map ur_id allowed, pd_scope := Some x\<rparr>)
         else if asks_user i s sb then
           make_decision ((plain_decision REQUIRE_APPROVAL ''EXACT_SCOPE_APPROVAL_REQUIRED'')
             \<lparr>pd_scope := Some x, pd_choices := [ChoiceDeny, ALLOW_ONCE, ALLOW_RUN, ALLOW_ALWAYS],
              pd_risk := ''command_execution''\<rparr>)
         else Inr (ceiling\<lparr>pd_scope := Some x, pd_rules := [''baseline:'' @ mode_value (pt_mode s)]\<rparr>))))"

text \<open>\<open>evaluate\<close> after its first two tests: the trusted context, the configuration read again,
  the role's ceiling and the organization's request.\<close>

definition evaluate_in_context ::
    "policy_env \<Rightarrow> policy_world \<Rightarrow> tool_intent \<Rightarrow> task_spec \<Rightarrow> sandbox_capabilities \<Rightarrow>
     permission_decision res" where
  "evaluate_in_context env w i t sb =
     bind_res (policy_context env w i t sb) (\<lambda>(_, spec, s, pol, x).
     bind_res (state_run env w (ti_run i)) (\<lambda>r.
     bind_res (get_project env (run_project r)) (\<lambda>p.
     bind_res (pe_config env 1 (pj_root p)) (\<lambda>c.
     bind_res (require (\<not> (cv_spec c \<noteq> spec \<or> cv_hash c \<noteq> config_snapshot_hash t)) invalid_approval) (\<lambda>_.
     bind_res (cv_roles c) (\<lambda>roles.
     case map_of roles (ti_role i) of
       None \<Rightarrow> Inr (deny_decision ''ORGANIZATION_PERMISSION_CEILING'')
     | Some role \<Rightarrow>
         let ceiling = baseline_evaluate (pe_fold env) (sha256 (pe_fx env)) i t sb (Some (re_kind role)) in
         if pd_outcome ceiling = DENY then Inr ceiling
         else if \<not> requested_by_organization (pe_fold env) (cv_spec c) i role
         then Inr (deny_decision ''ORGANIZATION_PERMISSION_CEILING'')
         else user_decision env w i sb s pol x ceiling))))))"

definition evaluate_permission ::
    "policy_env \<Rightarrow> policy_world \<Rightarrow> tool_intent \<Rightarrow> task_spec \<Rightarrow> sandbox_capabilities \<Rightarrow>
     permission_decision res" where
  "evaluate_permission env w i t sb =
     (if is_protected_action (ti_action i) then Inr (deny_decision ''SYSTEM_HARD_DENY'')
      else let cheap = baseline_evaluate (pe_fold env) (sha256 (pe_fx env)) i t sb None in
        if ti_role i \<in> set (map role_value all_roles) \<and> pd_outcome cheap = DENY then Inr cheap
        else evaluate_in_context env w i t sb)"

end
