(* ===== verification/Trust_Store.thy ===== *)
theory Trust_Store
  imports Permission_Policy
begin

text \<open>
  The operations that change trust: the compare-and-swap of \<open>adapters/trust/filesystem.py\<close>, the
  audited publication and the user's commands of \<open>application/permission_policy.py\<close>, and the
  resolution of a request in \<open>application/approvals.py\<close>.

  These operations write to two stores and are not atomic: an operation yields the world it leaves
  behind together with its result, also when it raises.
\<close>

section \<open>Operations that can stop halfway\<close>

type_synonym 'a outcome = "policy_world \<times> 'a res"

definition bind_out :: "'a outcome \<Rightarrow> ('a \<Rightarrow> policy_world \<Rightarrow> 'b outcome) \<Rightarrow> 'b outcome" where
  "bind_out m f = (case m of (w, r) \<Rightarrow> (case r of Inl e \<Rightarrow> (w, Inl e) | Inr x \<Rightarrow> f x w))"

lemma bind_out_simps [simp]:
  "bind_out (w, Inl e) f = (w, Inl e)"
  "bind_out (w, Inr x) f = f x w"
  by (simp_all add: bind_out_def)

definition reading :: "'a res \<Rightarrow> policy_world \<Rightarrow> 'a outcome" where
  "reading m w = (w, m)"

definition in_store :: "(store \<Rightarrow> 'a tx) \<Rightarrow> policy_world \<Rightarrow> 'a outcome" where
  "in_store f w = (case f (pw_store w) of
     Inl e \<Rightarrow> (w, Inl e) | Inr (db, x) \<Rightarrow> (w\<lparr>pw_store := db\<rparr>, Inr x))"

section \<open>The policy file\<close>

definition with_revision :: "int \<Rightarrow> trust_policy \<Rightarrow> trust_policy" where
  "with_revision n p = p\<lparr>tp_revision := n\<rparr>"

text \<open>The retained copy of the revision being replaced; an earlier, different copy stops the save.\<close>

definition backup :: "policy_world \<Rightarrow> trust_policy \<Rightarrow> policy_world res" where
  "backup w current = (if pw_file w = None then Inr w
     else case map_of (pw_backups w) (tp_revision current) of
       Some b \<Rightarrow> bind_res (require (\<not> b \<noteq> current) trust_unavailable) (\<lambda>_. Inr w)
     | None \<Rightarrow> Inr (w\<lparr>pw_backups := pw_backups w @ [(tp_revision current, current)]\<rparr>))"

text \<open>\<open>save\<close>. The lock and the atomic replacement of the file are its execution in one step.\<close>

definition prepare_save ::
    "policy_env \<Rightarrow> trust_policy \<Rightarrow> int \<Rightarrow> policy_world \<Rightarrow> (policy_world \<times> trust_policy) res" where
  "prepare_save env p expected w =
     bind_res (require (\<not> expected < 0) trust_unavailable) (\<lambda>_.
     bind_res (trust_validate env p) (\<lambda>checked.
     bind_res (require (\<not> tp_revision checked \<noteq> expected) invalid_approval) (\<lambda>_.
     bind_res (trust_validate env (with_revision (expected + 1) checked)) (\<lambda>updated.
     bind_res (require (\<not> 2000000 < pe_size env updated) trust_unavailable) (\<lambda>_.
     bind_res (load_trust env w) (\<lambda>current.
     bind_res (require (\<not> tp_revision current \<noteq> expected) invalid_approval) (\<lambda>_.
     bind_res (backup w current) (\<lambda>w1. Inr (w1, updated)))))))))"

definition trust_save :: "policy_env \<Rightarrow> trust_policy \<Rightarrow> int \<Rightarrow> policy_world \<Rightarrow> trust_policy outcome" where
  "trust_save env p expected w = (case prepare_save env p expected w of
     Inl e \<Rightarrow> (w, Inl e)
   | Inr (w1, updated) \<Rightarrow> (w1\<lparr>pw_file := Some updated\<rparr>, Inr updated))"

section \<open>Audited publication\<close>

definition audit_event ::
    "policy_env \<Rightarrow> nat \<Rightarrow> string \<Rightarrow> string \<Rightarrow> json \<Rightarrow> string \<Rightarrow> fleet_event" where
  "audit_event env k pid kind payload corr = (case redact (pe_fx env) payload of (cleaned, summary) \<Rightarrow>
     \<lparr>event_id = new_id (pe_fx env) k, event_type = kind, event_occurred_at = pe_now env [k, 6],
      event_project = pid, event_run = None, event_task = None, event_agent = None,
      event_correlation = corr, event_sequence = None, event_payload = cleaned,
      event_redactions = summary\<rparr>)"

definition audit ::
    "policy_env \<Rightarrow> nat \<Rightarrow> string \<Rightarrow> string \<Rightarrow> json \<Rightarrow> string \<Rightarrow> policy_world \<Rightarrow> unit outcome" where
  "audit env k pid kind payload corr w =
     in_store (append_event (pe_fx env) (audit_event env k pid kind payload corr)) w"

definition evidence ::
    "policy_env \<Rightarrow> string \<Rightarrow> trust_policy \<Rightarrow> trust_policy \<Rightarrow> json \<Rightarrow> json" where
  "evidence env action previous published details = JObj [(''mutation_id'', JStr (new_id (pe_fx env) 0)),
     (''action'', JStr action), (''expected_revision'', JInt (tp_revision previous)),
     (''published_revision'', JInt (tp_revision published)),
     (''previous_policy_sha256'',
       JStr (canonical_json_hash (sha256 (pe_fx env)) (policy_json env previous))),
     (''published_policy_sha256'',
       JStr (canonical_json_hash (sha256 (pe_fx env)) (policy_json env published))),
     (''details'', details)]"

text \<open>The checked proposal and the policy it becomes.\<close>

definition proposal ::
    "policy_env \<Rightarrow> trust_policy \<Rightarrow> trust_policy \<Rightarrow> (trust_policy \<times> trust_policy) res" where
  "proposal env previous proposed =
     bind_res (require (\<not> tainted (pe_fx env) (policy_json env proposed)) invalid_approval) (\<lambda>_.
     let validated = validate_policy (pe_fold env) (sha256 (pe_fx env)) in
     case bind_res (validated proposed) (\<lambda>checked.
         bind_res (require (\<not> tp_revision checked \<noteq> tp_revision previous) ValueError) (\<lambda>_.
         bind_res (validated (with_revision (tp_revision previous + 1) checked)) (\<lambda>published.
         Inr (checked, published)))) of
       Inl e \<Rightarrow> Inl invalid_approval
     | Inr x \<Rightarrow> Inr x)"

definition publish_policy_change ::
    "policy_env \<Rightarrow> string \<Rightarrow> string \<Rightarrow> trust_policy \<Rightarrow> trust_policy \<Rightarrow> json \<Rightarrow> policy_world \<Rightarrow>
     trust_policy outcome" where
  "publish_policy_change env pid action previous proposed details w =
     bind_out (reading (proposal env previous proposed) w) (\<lambda>(checked, published) w.
     let facts = evidence env action previous published details; corr = new_id (pe_fx env) 0 in
     bind_out (audit env 1 pid ''permission.policy_change_prepared'' facts corr w) (\<lambda>_ w.
     bind_out (trust_save env checked (tp_revision previous) w) (\<lambda>saved w.
     bind_out (reading (require (\<not> saved \<noteq> published) invalid_approval) w) (\<lambda>_ w.
     bind_out (audit env 2 pid ''permission.policy_change_completed'' facts corr w) (\<lambda>_ w.
     (w, Inr saved))))))"

section \<open>Commands of the user\<close>

definition require_user :: "string \<Rightarrow> unit res" where
  "require_user actor = require (actor = ''user'') invalid_approval"

definition review_settings :: "policy_env \<Rightarrow> string list \<Rightarrow> unit res" where
  "review_settings env paths =
     bind_res (require (\<not> tainted (pe_fx env) (JArr (map JStr paths))) invalid_approval) (\<lambda>_.
     case bind_res (check_all (canonical_trust_path (pe_fold env) True) paths) (\<lambda>_.
         require (\<not> (paths = [] \<or> 128 < length paths \<or> \<not> distinct (map (pe_fold env) paths))) ValueError) of
       Inl e \<Rightarrow> Inl invalid_approval
     | Inr u \<Rightarrow> Inr ())"

definition replace_project :: "project_trust \<Rightarrow> project_trust list \<Rightarrow> project_trust list" where
  "replace_project t ps = filter (\<lambda>p. pt_project p \<noteq> pt_project t) ps @ [t]"

definition new_settings ::
    "policy_env \<Rightarrow> project \<Rightarrow> trust_policy \<Rightarrow> trust_mode \<Rightarrow> string list option \<Rightarrow> project_trust res" where
  "new_settings env p pol mode paths =
     (let prior = trust_of (tp_projects pol) (pj_id p) in
      bind_res (require (\<not> (case prior of None \<Rightarrow> False | Some t \<Rightarrow> pt_identity t \<noteq> pj_identity p))
        invalid_approval) (\<lambda>_.
      bind_res (case paths of Some ps \<Rightarrow> Inr ps
        | None \<Rightarrow> bind_res (trust_settings p pol) (\<lambda>s. Inr (pt_paths s))) (\<lambda>ps.
      let t = \<lparr>pt_project = pj_id p, pt_identity = pj_identity p, pt_mode = mode, pt_paths = ps,
        pt_cutoff = (case prior of None \<Rightarrow> None | Some s \<Rightarrow> pt_cutoff s)\<rparr> in
      bind_res (validate_project_trust (pe_fold env) t) (\<lambda>_. Inr t))))"

definition configure ::
    "policy_env \<Rightarrow> string \<Rightarrow> trust_mode \<Rightarrow> string list option \<Rightarrow> string \<Rightarrow> int option \<Rightarrow> policy_world \<Rightarrow>
     project_trust outcome" where
  "configure env path mode paths actor expected w =
     bind_out (reading (bind_res (require_user actor) (\<lambda>_.
         bind_res (case paths of None \<Rightarrow> Inr () | Some ps \<Rightarrow> review_settings env ps) (\<lambda>_.
         bind_res (project_at env path) (\<lambda>p.
         bind_res (load_trust env w) (\<lambda>pol.
         bind_res (require (\<not> (case expected of None \<Rightarrow> False | Some n \<Rightarrow> tp_revision pol \<noteq> n))
           invalid_approval) (\<lambda>_.
         bind_res (new_settings env p pol mode paths) (\<lambda>t. Inr (p, pol, t))))))))
       w) (\<lambda>(p, pol, t) w.
     bind_out (publish_policy_change env (pj_id p) ''permission.policy_updated'' pol
         (pol\<lparr>tp_projects := replace_project t (tp_projects pol)\<rparr>)
         (JObj [(''settings'', project_trust_json env t)]) w) (\<lambda>_ w.
     (w, Inr t)))"

definition rule_for_request :: "string \<Rightarrow> string" where
  "rule_for_request rid = ''rule_'' @ (if starts_with ''perm_'' rid then drop 5 rid else rid)"

definition staged_rule :: "policy_env \<Rightarrow> string \<Rightarrow> exact_scope \<Rightarrow> trust_rule" where
  "staged_rule env rid x = \<lparr>ur_id = rule_for_request rid, ur_scope = x, ur_effect = EffectAllow,
     ur_created = pe_now env [7], ur_expires = None, ur_revoked = None, ur_source = Some rid\<rparr>"

definition find_rule :: "trust_policy \<Rightarrow> string \<Rightarrow> trust_rule option" where
  "find_rule pol rid = find (\<lambda>r. ur_id r = rid) (tp_rules pol)"

definition staged_policy :: "policy_env \<Rightarrow> trust_policy \<Rightarrow> exact_scope \<Rightarrow> trust_rule \<Rightarrow> trust_policy res" where
  "staged_policy env pol x r =
     bind_res (if trust_of (tp_projects pol) (xs_project x) \<noteq> None then Inr (tp_projects pol)
       else bind_res (get_project env (xs_project x)) (\<lambda>p.
         bind_res (trust_settings p pol) (\<lambda>s. Inr (tp_projects pol @ [s])))) (\<lambda>ps.
     Inr (pol\<lparr>tp_rules := tp_rules pol @ [r], tp_projects := ps\<rparr>))"

definition stage_always_rule ::
    "policy_env \<Rightarrow> string \<Rightarrow> exact_scope \<Rightarrow> policy_world \<Rightarrow> trust_rule outcome" where
  "stage_always_rule env rid x w =
     bind_out (reading (load_trust env w) w) (\<lambda>pol w.
     case find_rule pol (rule_for_request rid) of
       Some r \<Rightarrow> bind_out (reading (require (\<not> (\<not> scope_eq (ur_scope r) x \<or> ur_revoked r \<noteq> None))
           invalid_approval) w) (\<lambda>_ w. (w, Inr r))
     | None \<Rightarrow>
         bind_out (reading (validate_rule (pe_fold env) (sha256 (pe_fx env)) (staged_rule env rid x)) w) (\<lambda>_ w.
         let r = staged_rule env rid x in
         bind_out (reading (staged_policy env pol x r) w) (\<lambda>proposed w.
         bind_out (publish_policy_change env (xs_project x) ''permission.rule_staged'' pol proposed
             (JObj [(''rule_id'', JStr (ur_id r)), (''request_id'', JStr rid)]) w) (\<lambda>_ w.
         (w, Inr r)))))"

definition revoke_rule :: "policy_env \<Rightarrow> string \<Rightarrow> policy_world \<Rightarrow> trust_rule outcome" where
  "revoke_rule env rid w =
     bind_out (reading (load_trust env w) w) (\<lambda>pol w.
     case find_rule pol rid of
       None \<Rightarrow> (w, Inl invalid_approval)
     | Some r \<Rightarrow>
         if ur_revoked r \<noteq> None then (w, Inr r)
         else
           let revoked = r\<lparr>ur_revoked := Some (pe_now env [8])\<rparr> in
           bind_out (publish_policy_change env (xs_project (ur_scope r)) ''permission.rule_revoked'' pol
             (pol\<lparr>tp_rules := map (\<lambda>q. if ur_id q = rid then revoked else q) (tp_rules pol)\<rparr>)
             (JObj [(''rule_id'', JStr rid)]) w) (\<lambda>_ w.
           (w, Inr revoked)))"

definition revoke :: "policy_env \<Rightarrow> string \<Rightarrow> string \<Rightarrow> policy_world \<Rightarrow> unit outcome" where
  "revoke env identifier actor w =
     bind_out (reading (require_user actor) w) (\<lambda>_ w.
     if starts_with ''grant_'' identifier
     then bind_out (in_store (revoke_grant (pe_fx env) identifier) w) (\<lambda>_ w. (w, Inr ()))
     else bind_out (revoke_rule env identifier w) (\<lambda>_ w. (w, Inr ())))"

definition reset_cutoff :: "policy_env \<Rightarrow> project_trust \<Rightarrow> capability_grant list \<Rightarrow> int" where
  "reset_cutoff env prior grants =
     (let cutoff = foldl max (pe_now env [9]) (map cg_issued grants) in
      case pt_cutoff prior of None \<Rightarrow> cutoff | Some c \<Rightarrow> max cutoff (c + 1))"

definition reset_rules ::
    "policy_env \<Rightarrow> string list \<Rightarrow> nat \<Rightarrow> trust_rule list \<Rightarrow> trust_rule list" where
  "reset_rules env revoked n rs = map (\<lambda>(k, r). if ur_id r \<in> set revoked
     then r\<lparr>ur_revoked := Some (pe_now env [k, 10])\<rparr> else r) (zip [n..<n + length rs] rs)"

fun revoke_all :: "policy_env \<Rightarrow> capability_grant list \<Rightarrow> policy_world \<Rightarrow> unit outcome" where
  "revoke_all env [] w = (w, Inr ())"
| "revoke_all env (g # gs) w =
     (if cg_revoked g = None
      then bind_out (in_store (revoke_grant (pe_fx env) (cg_id g)) w) (\<lambda>_ w. revoke_all env gs w)
      else revoke_all env gs w)"

definition reset :: "policy_env \<Rightarrow> string \<Rightarrow> string \<Rightarrow> policy_world \<Rightarrow> int outcome" where
  "reset env path actor w =
     bind_out (reading (bind_res (require_user actor) (\<lambda>_.
         bind_res (project_at env path) (\<lambda>p.
         bind_res (load_trust env w) (\<lambda>pol.
         bind_res (trust_settings p pol) (\<lambda>prior.
         bind_res (list_project_grants (pw_store w) (pj_id p)) (\<lambda>grants.
         Inr (p, pol, prior, grants))))))) w) (\<lambda>(p, pol, prior, grants) w.
     let settings = prior\<lparr>pt_cutoff := Some (reset_cutoff env prior grants)\<rparr>;
         revoked = map ur_id (filter (\<lambda>r. xs_project (ur_scope r) = pj_id p \<and> ur_revoked r = None)
           (tp_rules pol)) in
     bind_out (publish_policy_change env (pj_id p) ''permission.project_reset'' pol
         (pol\<lparr>tp_rules := reset_rules env revoked 0 (tp_rules pol),
              tp_projects := replace_project settings (tp_projects pol)\<rparr>)
         (JObj [(''rule_ids'', JArr (map JStr revoked)),
           (''grants_revoked_before'', JStr (pe_time env (reset_cutoff env prior grants)))]) w) (\<lambda>_ w.
     bind_out (revoke_all env grants w) (\<lambda>_ w. (w, Inr (reset_cutoff env prior grants)))))"

section \<open>Resolution of a request\<close>

text \<open>What \<open>approve\<close> checks of a pending request when the policy service is configured: it yields
  the exact scope that is granted.\<close>

definition approval_scope ::
    "policy_env \<Rightarrow> policy_world \<Rightarrow> approval_request \<Rightarrow> approval_choice \<Rightarrow> exact_scope res" where
  "approval_scope env w q choice =
     bind_res (state_run env w (ap_run q)) (\<lambda>r.
     bind_res (validate_run_target env r) (\<lambda>_.
     bind_res (some_or invalid_approval (run_task r)) (\<lambda>tid.
     bind_res (some_or invalid_approval (run_capabilities r)) (\<lambda>sb.
     bind_res (get_intent (pw_store w) (ap_intent q)) (\<lambda>s.
     bind_res (require (\<not> intent_hash (pe_fx env) (si_intent s) \<noteq> ap_hash q) invalid_approval) (\<lambda>_.
     bind_res (get_task (pw_store w) tid) (\<lambda>t.
     bind_res (evaluate_permission env w (si_intent s) t sb) (\<lambda>d.
     bind_res (require (\<not> pd_outcome d = DENY) command_denied) (\<lambda>_.
     bind_res (some_or command_denied (pd_scope d)) (\<lambda>x0.
     bind_res (validate_exact_scope (pe_fold env) (sha256 (pe_fx env)) x0) (\<lambda>x.
     bind_res (require (\<not> (case ap_scope q of Some v \<Rightarrow> \<not> py_eq (scope_json x) v
         | None \<Rightarrow> choice \<noteq> ALLOW_ONCE)) invalid_approval) (\<lambda>_.
     bind_res (require (\<not> choice \<notin> set (ap_choices q)) invalid_approval) (\<lambda>_.
     Inr x)))))))))))))"

definition granted_scope :: "policy_env \<Rightarrow> approval_request \<Rightarrow> exact_scope option \<Rightarrow> string option" where
  "granted_scope env q x = (case (ap_scope q, x) of
     (Some v, Some y) \<Rightarrow> Some (scope_sha256 (sha256 (pe_fx env)) y)
   | (Some v, None) \<Rightarrow> Some (canonical_json_hash (sha256 (pe_fx env)) v)
   | (None, _) \<Rightarrow> None)"

definition resolve_in_store ::
    "policy_env \<Rightarrow> string \<Rightarrow> approval_choice \<Rightarrow> string option \<Rightarrow> string option \<Rightarrow> policy_world \<Rightarrow>
     capability_grant outcome" where
  "resolve_in_store env rid choice scope_id rule_id w =
     bind_out (in_store (resolve_approval (pe_fx env) rid True None choice scope_id rule_id) w) (\<lambda>g w.
     reading (some_or invalid_approval g) w)"

text \<open>\<open>approve\<close>; \<open>configured\<close> tells whether the service has a policy.\<close>

definition approve ::
    "policy_env \<Rightarrow> bool \<Rightarrow> string \<Rightarrow> approval_choice \<Rightarrow> string \<Rightarrow> policy_world \<Rightarrow> capability_grant outcome" where
  "approve env configured rid choice actor w =
     bind_out (reading (bind_res (require (actor = ''user'') invalid_approval) (\<lambda>_.
         bind_res (get_approval (pw_store w) rid) (\<lambda>q.
         bind_res (require (\<not> ap_status q = ApDenied) invalid_approval) (\<lambda>_.
         bind_res (require (\<not> choice = ChoiceDeny) invalid_approval) (\<lambda>_. Inr q))))) w) (\<lambda>q w.
     if ap_status q = ApPending \<and> configured then
       bind_out (reading (approval_scope env w q choice) w) (\<lambda>x w.
       if choice = ALLOW_ALWAYS then
         bind_out (stage_always_rule env rid x w) (\<lambda>r w.
         resolve_in_store env rid choice (granted_scope env q (Some x)) (Some (ur_id r)) w)
       else resolve_in_store env rid choice (granted_scope env q (Some x)) (ap_rule q) w)
     else if ap_status q = ApPending \<and> choice \<noteq> ALLOW_ONCE then (w, Inl invalid_approval)
     else resolve_in_store env rid choice (granted_scope env q None) (ap_rule q) w)"

definition deny :: "policy_env \<Rightarrow> string \<Rightarrow> string option \<Rightarrow> string \<Rightarrow> policy_world \<Rightarrow> unit outcome" where
  "deny env rid why actor w =
     bind_out (reading (bind_res (require (actor = ''user'') invalid_approval) (\<lambda>_.
         bind_res (get_approval (pw_store w) rid) (\<lambda>q.
         require (\<not> ap_status q = ApApproved) invalid_approval))) w) (\<lambda>_ w.
     bind_out (in_store (resolve_approval (pe_fx env) rid False why ALLOW_ONCE None None) w) (\<lambda>_ w.
     (w, Inr ())))"

end
