(* ===== verification/Trust_Invariants.thy ===== *)
theory Trust_Invariants
  imports Trust_Store
begin

text \<open>
  The policy file only moves forward: rules are never dropped, a revocation is never withdrawn, the
  cutoff of a project never moves back, and every replaced revision is retained. The first part
  shows that validation is a normal form, the second that each command keeps the order.
\<close>

section \<open>Validation is a normal form\<close>

lemma validate_command_idem: "validate_command cf c = Inr d \<Longrightarrow> validate_command cf d = Inr d"
  by (fastforce simp: validate_command_def validate_simps key_sorted_sort sort_by_key_sorted image_iff)

lemma scope_same: "validate_scope cf sha x = Inr y \<Longrightarrow> y = x"
  by (auto simp: validate_scope_def res_simps Let_def)

definition normal_scope :: "(string \<Rightarrow> string) \<Rightarrow> (string \<Rightarrow> string) \<Rightarrow> exact_scope \<Rightarrow> bool" where
  "normal_scope cf sha x \<longleftrightarrow> validate_exact_scope cf sha x = Inr x"

lemma exact_scope_normal:
  assumes "validate_exact_scope cf sha x = Inr y"
  shows "normal_scope cf sha y"
proof (cases "xs_command x")
  case None
  then have "validate_scope cf sha x = Inr y" using assms by (simp add: validate_exact_scope_def)
  then show ?thesis using None scope_same[of cf sha x y] by (simp add: normal_scope_def validate_exact_scope_def)
next
  case (Some c)
  then obtain d where d: "validate_command cf c = Inr d"
    and y: "validate_scope cf sha (x\<lparr>xs_command := Some d\<rparr>) = Inr y"
    using assms by (auto simp: validate_exact_scope_def res_simps)
  then show ?thesis
    using scope_same[OF y] validate_command_idem[OF d]
    by (simp add: normal_scope_def validate_exact_scope_def)
qed

lemma validate_rule_Inr:
  "validate_rule cf sha r = Inr q \<longleftrightarrow> validate_rule cf sha r = Inr q \<and>
     (\<exists>x. validate_exact_scope cf sha (ur_scope r) = Inr x \<and> q = r\<lparr>ur_scope := x\<rparr>)"
  by (auto simp: validate_rule_def res_simps)

lemma rule_normal: "validate_rule cf sha r = Inr q \<Longrightarrow> normal_scope cf sha (ur_scope q)"
  by (auto simp: validate_rule_def res_simps dest: exact_scope_normal)

lemma rule_idem: "validate_rule cf sha r = Inr q \<Longrightarrow> validate_rule cf sha q = Inr q"
  using rule_normal[of cf sha r q]
  by (auto simp: validate_rule_def res_simps normal_scope_def split: option.splits)

lemma rule_same:
  "normal_scope cf sha (ur_scope r) \<Longrightarrow> validate_rule cf sha r = Inr q \<Longrightarrow> q = r"
  by (auto simp: validate_rule_def res_simps normal_scope_def)

lemma validate_all_Inr: "validate_all f xs = Inr ys \<longleftrightarrow> list_all2 (\<lambda>x y. f x = Inr y) xs ys"
  by (induction xs arbitrary: ys) (auto simp: res_simps list_all2_Cons1)

lemma validated_policy:
  assumes "validate_policy cf sha p = Inr q"
  shows "list_all2 (\<lambda>r s. validate_rule cf sha r = Inr s) (tp_rules p) (tp_rules q)"
    and "tp_projects q = tp_projects p" and "tp_revision q = tp_revision p"
    and "distinct (map ur_id (tp_rules q))" and "distinct (map pt_project (tp_projects q))"
  using assms by (auto simp: validate_policy_def res_simps validate_all_Inr)

definition normal_policy :: "(string \<Rightarrow> string) \<Rightarrow> (string \<Rightarrow> string) \<Rightarrow> trust_policy \<Rightarrow> bool" where
  "normal_policy cf sha p \<longleftrightarrow> validate_policy cf sha p = Inr p"

lemma policy_normal:
  assumes v: "validate_policy cf sha p = Inr q"
  shows "normal_policy cf sha q"
proof -
  have "list_all2 (\<lambda>r s. validate_rule cf sha r = Inr s) (tp_rules q) (tp_rules q)"
    using validated_policy(1)[OF v] rule_idem unfolding list_all2_conv_all_nth by metis
  then have again: "validate_all (validate_rule cf sha) (tp_rules q) = Inr (tp_rules q)"
    by (simp add: validate_all_Inr)
  have len: "length (tp_rules q) = length (tp_rules p)"
    using validated_policy(1)[OF v] by (simp add: list_all2_lengthD)
  show ?thesis
    using v again len unfolding normal_policy_def validate_policy_def
    by (clarsimp simp: res_simps)
qed

lemma normal_rules: "normal_policy cf sha p \<Longrightarrow> r \<in> set (tp_rules p) \<Longrightarrow> normal_scope cf sha (ur_scope r)"
  unfolding normal_policy_def in_set_conv_nth
  using validated_policy(1)[of cf sha p p] rule_normal unfolding list_all2_conv_all_nth by metis

section \<open>The order on policies\<close>

definition cutoff_le :: "int option \<Rightarrow> int option \<Rightarrow> bool" where
  "cutoff_le a b = (case a of None \<Rightarrow> True | Some m \<Rightarrow> (case b of None \<Rightarrow> False | Some n \<Rightarrow> m \<le> n))"

definition rule_le :: "trust_rule \<Rightarrow> trust_rule \<Rightarrow> bool" where
  "rule_le r s \<longleftrightarrow> ur_id s = ur_id r \<and> ur_scope s = ur_scope r \<and> ur_effect s = ur_effect r
     \<and> ur_created s = ur_created r \<and> ur_source s = ur_source r
     \<and> (ur_revoked r \<noteq> None \<longrightarrow> ur_revoked s = ur_revoked r)"

definition project_trust_le :: "project_trust \<Rightarrow> project_trust \<Rightarrow> bool" where
  "project_trust_le s t \<longleftrightarrow> pt_project t = pt_project s \<and> pt_identity t = pt_identity s
     \<and> cutoff_le (pt_cutoff s) (pt_cutoff t)"

definition policy_le :: "trust_policy \<Rightarrow> trust_policy \<Rightarrow> bool" where
  "policy_le p q \<longleftrightarrow> (\<forall>r \<in> set (tp_rules p). \<exists>s \<in> set (tp_rules q). rule_le r s)
     \<and> (\<forall>s \<in> set (tp_projects p). \<exists>t \<in> set (tp_projects q). project_trust_le s t)"

lemma cutoff_le_refl [simp]: "cutoff_le a a"
  by (simp add: cutoff_le_def split: option.split)

lemma cutoff_le_trans: "cutoff_le a b \<Longrightarrow> cutoff_le b c \<Longrightarrow> cutoff_le a c"
  by (auto simp: cutoff_le_def split: option.splits)

lemma rule_le_refl [simp]: "rule_le r r"
  by (simp add: rule_le_def)

lemma rule_le_trans: "rule_le r s \<Longrightarrow> rule_le s t \<Longrightarrow> rule_le r t"
  by (auto simp: rule_le_def)

lemma project_trust_le_refl [simp]: "project_trust_le s s"
  by (simp add: project_trust_le_def)

lemma project_trust_le_trans: "project_trust_le s t \<Longrightarrow> project_trust_le t u \<Longrightarrow> project_trust_le s u"
  by (auto simp: project_trust_le_def intro: cutoff_le_trans)

lemma policy_le_refl [simp]: "policy_le p p"
  unfolding policy_le_def using rule_le_refl project_trust_le_refl by blast

lemma policy_le_trans: "policy_le p q \<Longrightarrow> policy_le q r \<Longrightarrow> policy_le p r"
  unfolding policy_le_def by (meson rule_le_trans project_trust_le_trans)

lemma policy_le_revision [simp]: "policy_le p (with_revision n q) = policy_le p q"
  by (simp add: policy_le_def with_revision_def)

text \<open>Validation of a proposal that continues a normal policy continues it.\<close>

lemma validated_continues:
  assumes "normal_policy cf sha p" and "policy_le p q" and v: "validate_policy cf sha q = Inr q'"
  shows "policy_le p q'"
proof -
  have "\<exists>s' \<in> set (tp_rules q'). rule_le r s'" if r: "r \<in> set (tp_rules p)" for r
  proof -
    obtain s where s: "s \<in> set (tp_rules q)" "rule_le r s" using assms(2) r by (auto simp: policy_le_def)
    then obtain k where k: "k < length (tp_rules q)" "tp_rules q ! k = s" by (auto simp: in_set_conv_nth)
    have "validate_rule cf sha s = Inr (tp_rules q' ! k)" "k < length (tp_rules q')"
      using validated_policy(1)[OF v] k by (auto simp: list_all2_conv_all_nth)
    moreover have "normal_scope cf sha (ur_scope s)"
      using normal_rules[OF assms(1) r] s(2) by (simp add: rule_le_def)
    ultimately show ?thesis using rule_same s(2) by (metis nth_mem)
  qed
  then show ?thesis using assms(2) validated_policy(2)[OF v] by (auto simp: policy_le_def)
qed

section \<open>The order on worlds\<close>

definition world_ok :: "(string \<Rightarrow> string) \<Rightarrow> (string \<Rightarrow> string) \<Rightarrow> policy_world \<Rightarrow> bool" where
  "world_ok cf sha w \<longleftrightarrow> (\<forall>p. pw_file w = Some p \<longrightarrow> normal_policy cf sha p)"

definition retained :: "policy_world \<Rightarrow> trust_policy \<Rightarrow> bool" where
  "retained w p \<longleftrightarrow> map_of (pw_backups w) (tp_revision p) = Some p"

definition world_le :: "policy_world \<Rightarrow> policy_world \<Rightarrow> bool" where
  "world_le v w \<longleftrightarrow>
     (\<forall>p. pw_file v = Some p \<longrightarrow> (\<exists>q. pw_file w = Some q \<and> policy_le p q
        \<and> (q = p \<or> (tp_revision p < tp_revision q \<and> retained w p))))
     \<and> (\<forall>n b. map_of (pw_backups v) n = Some b \<longrightarrow> map_of (pw_backups w) n = Some b)"

lemma world_le_refl: "world_le w w"
  by (auto simp: world_le_def)

lemma world_le_trans:
  assumes "world_le u v" and "world_le v w"
  shows "world_le u w"
proof -
  have "\<exists>q. pw_file w = Some q \<and> policy_le p q \<and> (q = p \<or> (tp_revision p < tp_revision q \<and> retained w p))"
    if p: "pw_file u = Some p" for p
  proof -
    obtain q where q: "pw_file v = Some q" "policy_le p q" "q = p \<or> (tp_revision p < tp_revision q \<and> retained v p)"
      using assms(1) p by (auto simp: world_le_def)
    obtain r where r: "pw_file w = Some r" "policy_le q r" "r = q \<or> (tp_revision q < tp_revision r \<and> retained w q)"
      using assms(2) q(1) by (auto simp: world_le_def)
    have "retained v p \<Longrightarrow> retained w p" using assms(2) by (simp add: world_le_def retained_def)
    then show ?thesis using q r policy_le_trans[OF q(2) r(2)] by auto
  qed
  then show ?thesis using assms by (auto simp: world_le_def)
qed

lemma same_file_le: "pw_file w' = pw_file w \<Longrightarrow> pw_backups w' = pw_backups w \<Longrightarrow> world_le w w'"
  by (auto simp: world_le_def)

text \<open>The hash and the case folding are the same functions in every operation.\<close>

definition env_ok :: "(string \<Rightarrow> string) \<Rightarrow> (string \<Rightarrow> string) \<Rightarrow> policy_env \<Rightarrow> bool" where
  "env_ok cf sha env \<longleftrightarrow> pe_fold env = cf \<and> sha256 (pe_fx env) = sha"

lemma empty_policy_normal: "normal_policy cf sha empty_policy"
  by (simp add: normal_policy_def validate_policy_def empty_policy_def)

lemma load_trust_cases:
  assumes "world_ok cf sha w" and "env_ok cf sha env" and "load_trust env w = Inr pol"
  shows "normal_policy cf sha pol" and "pw_file w = None \<and> pol = empty_policy \<or> pw_file w = Some pol"
  using assms empty_policy_normal
  by (auto simp: load_trust_def world_ok_def env_ok_def trust_validate_def normal_policy_def
      split: option.splits if_splits)

lemma load_trust_file: "pw_file v = pw_file w \<Longrightarrow> load_trust env v = load_trust env w"
  by (simp add: load_trust_def)

section \<open>Saving and publishing\<close>

text \<open>What an operation leaves behind: a world that is fine and no earlier than the one it found.\<close>

definition advances ::
    "(string \<Rightarrow> string) \<Rightarrow> (string \<Rightarrow> string) \<Rightarrow> policy_world \<Rightarrow> 'a outcome \<Rightarrow> bool" where
  "advances cf sha w m \<longleftrightarrow> world_ok cf sha (fst m) \<and> world_le w (fst m)"

lemma advances_stays: "world_ok cf sha w \<Longrightarrow> advances cf sha w (w, r)"
  by (simp add: advances_def world_le_refl)

lemma advances_reading: "world_ok cf sha w \<Longrightarrow> advances cf sha w (reading m w)"
  by (simp add: reading_def advances_stays)

lemma in_store_file: "pw_file (fst (in_store f w)) = pw_file w" "pw_backups (fst (in_store f w)) = pw_backups w"
  by (auto simp: in_store_def split: sum.split prod.split)

lemma advances_in_store: "world_ok cf sha w \<Longrightarrow> advances cf sha w (in_store f w)"
  by (simp add: advances_def world_ok_def in_store_file same_file_le)

lemma advances_bind:
  assumes "advances cf sha w m"
    and "\<And>x v. m = (v, Inr x) \<Longrightarrow> world_ok cf sha v \<Longrightarrow> advances cf sha v (f x v)"
  shows "advances cf sha w (bind_out m f)"
proof -
  obtain v r where m: "m = (v, r)" by (cases m)
  have ok: "world_ok cf sha v" "world_le w v" using assms(1) m by (simp_all add: advances_def)
  show ?thesis
  proof (cases r)
    case (Inl e)
    then show ?thesis using ok m by (simp add: advances_def)
  next
    case (Inr x)
    then show ?thesis using assms(2)[of v x] ok m by (auto simp: advances_def intro: world_le_trans)
  qed
qed

lemma backup_Inr:
  assumes "backup w c = Inr w1" and "pw_file w = None \<and> c = empty_policy \<or> pw_file w = Some c"
  shows "pw_file w1 = pw_file w" and "pw_file w = Some c \<Longrightarrow> retained w1 c"
    and "map_of (pw_backups w) n = Some b \<Longrightarrow> map_of (pw_backups w1) n = Some b"
  using assms
  by (auto simp: backup_def retained_def res_simps map_add_def split: option.splits if_splits)

lemma trust_validate_Inr:
  "env_ok cf sha env \<Longrightarrow> trust_validate env p = Inr q \<Longrightarrow> validate_policy cf sha p = Inr q"
  by (auto simp: trust_validate_def env_ok_def split: if_splits sum.splits)

lemma prepare_save_Inr:
  assumes env: "env_ok cf sha env" and p: "prepare_save env p expected w = Inr (w1, updated)"
  obtains checked current where "validate_policy cf sha p = Inr checked"
    and "validate_policy cf sha (with_revision (expected + 1) checked) = Inr updated"
    and "load_trust env w = Inr current" and "tp_revision current = expected"
    and "backup w current = Inr w1" and "tp_revision updated = expected + 1"
  using p by (auto simp: prepare_save_def res_simps with_revision_def
      dest!: trust_validate_Inr[OF env] dest: validated_policy(3) intro!: that)

lemma trust_save_advances:
  assumes ok: "world_ok cf sha w" and env: "env_ok cf sha env"
    and le: "\<And>c. load_trust env w = Inr c \<Longrightarrow> policy_le c p"
  shows "advances cf sha w (trust_save env p expected w)"
proof (cases "prepare_save env p expected w")
  case (Inl e)
  then show ?thesis using ok by (simp add: trust_save_def advances_stays)
next
  case (Inr x)
  obtain w1 updated where "x = (w1, updated)" by (cases x)
  with Inr have prep: "prepare_save env p expected w = Inr (w1, updated)" by simp
  obtain checked c where c: "validate_policy cf sha p = Inr checked"
    "validate_policy cf sha (with_revision (expected + 1) checked) = Inr updated"
    "load_trust env w = Inr c" "tp_revision c = expected" "backup w c = Inr w1"
    "tp_revision updated = expected + 1"
    by (rule prepare_save_Inr[OF env prep])
  have n: "normal_policy cf sha c" and kept: "pw_file w = None \<and> c = empty_policy \<or> pw_file w = Some c"
    by (rule load_trust_cases[OF ok env c(3)])+
  have "policy_le c checked" by (rule validated_continues[OF n le[OF c(3)] c(1)])
  then have "policy_le c updated" using validated_continues[OF n _ c(2)] by simp
  moreover have "normal_policy cf sha updated" by (rule policy_normal[OF c(2)])
  ultimately have "world_le w (w1\<lparr>pw_file := Some updated\<rparr>)"
    using backup_Inr[OF c(5) kept] kept c(4,6) by (auto simp: world_le_def retained_def)
  then show ?thesis
    using prep \<open>normal_policy cf sha updated\<close>
    by (simp add: trust_save_def advances_def world_ok_def)
qed

lemma proposal_Inr:
  assumes "env_ok cf sha env" and "proposal env previous proposed = Inr (checked, published)"
  shows "validate_policy cf sha proposed = Inr checked"
    and "validate_policy cf sha (with_revision (tp_revision previous + 1) checked) = Inr published"
  using assms by (auto simp: proposal_def env_ok_def res_simps Let_def split: sum.splits)

lemma audit_file: "audit env k pid kind payload corr w = (v, r) \<Longrightarrow> pw_file v = pw_file w"
  using in_store_file(1)[of "append_event (pe_fx env) (audit_event env k pid kind payload corr)" w]
  by (simp add: audit_def)

lemma publish_advances:
  assumes ok: "world_ok cf sha w" and env: "env_ok cf sha env"
    and load: "load_trust env w = Inr previous" and le: "policy_le previous proposed"
  shows "advances cf sha w (publish_policy_change env pid action previous proposed details w)"
  unfolding publish_policy_change_def Let_def
proof (rule advances_bind[OF advances_reading[OF ok]], clarify)
  fix v checked published
  assume "reading (proposal env previous proposed) w = (v, Inr (checked, published))"
  then have v: "v = w" and made: "proposal env previous proposed = Inr (checked, published)"
    by (auto simp: reading_def)
  have cont: "policy_le previous checked"
    by (rule validated_continues[OF load_trust_cases(1)[OF ok env load] le proposal_Inr(1)[OF env made]])
  show "advances cf sha v (bind_out (audit env 1 pid ''permission.policy_change_prepared''
      (evidence env action previous published details) (new_id (pe_fx env) 0) v) (\<lambda>_ w.
    bind_out (trust_save env checked (tp_revision previous) w) (\<lambda>saved w.
    bind_out (reading (require (\<not> saved \<noteq> published) invalid_approval) w) (\<lambda>_ w.
    bind_out (audit env 2 pid ''permission.policy_change_completed''
      (evidence env action previous published details) (new_id (pe_fx env) 0) w) (\<lambda>_ w.
    (w, Inr saved))))))"
  proof (rule advances_bind)
    show "advances cf sha v (audit env 1 pid ''permission.policy_change_prepared''
      (evidence env action previous published details) (new_id (pe_fx env) 0) v)"
      unfolding audit_def v by (rule advances_in_store[OF ok])
  next
    fix x u
    assume a: "audit env 1 pid ''permission.policy_change_prepared''
      (evidence env action previous published details) (new_id (pe_fx env) 0) v = (u, Inr x)"
      and u: "world_ok cf sha u"
    have "load_trust env u = Inr previous" using load load_trust_file[OF audit_file[OF a]] v by simp
    then have save: "advances cf sha u (trust_save env checked (tp_revision previous) u)"
      using cont by (intro trust_save_advances[OF u env]) simp
    show "advances cf sha u (bind_out (trust_save env checked (tp_revision previous) u) (\<lambda>saved w.
      bind_out (reading (require (\<not> saved \<noteq> published) invalid_approval) w) (\<lambda>_ w.
      bind_out (audit env 2 pid ''permission.policy_change_completed''
        (evidence env action previous published details) (new_id (pe_fx env) 0) w) (\<lambda>_ w.
      (w, Inr saved)))))"
      by (rule advances_bind[OF save])
        (auto intro!: advances_bind advances_reading advances_stays simp: audit_def
          intro: advances_in_store)
  qed
qed

end
