(* ===== verification/Trust_Machine.thy ===== *)
theory Trust_Machine
  imports Trust_Invariants
begin

text \<open>
  The user's commands as one state machine over the policy file, and what holds after every history
  of it: a revoked rule stays revoked, a reset stays in force, no published revision is lost, and no
  change takes effect without its prepared evidence in the journal.
\<close>

section \<open>Every command advances the policy\<close>

lemma normal_distinct:
  assumes "normal_policy cf sha p"
  shows "distinct (map ur_id (tp_rules p))" and "distinct (map pt_project (tp_projects p))"
  using assms unfolding normal_policy_def by (auto dest: validated_policy(4,5))

lemma find_distinct:
  "distinct (map f xs) \<Longrightarrow> x \<in> set xs \<Longrightarrow> find (\<lambda>y. f y = f x) xs = Some x"
  by (induction xs) auto

lemma trust_of_member:
  "normal_policy cf sha p \<Longrightarrow> s \<in> set (tp_projects p) \<Longrightarrow> trust_of (tp_projects p) (pt_project s) = Some s"
  by (simp add: trust_of_def find_distinct normal_distinct(2))

lemma find_rule_member:
  "normal_policy cf sha p \<Longrightarrow> r \<in> set (tp_rules p) \<Longrightarrow> find_rule p (ur_id r) = Some r"
  by (simp add: find_rule_def find_distinct normal_distinct(1))

lemma trust_of_Some: "trust_of ps pid = Some t \<Longrightarrow> t \<in> set ps \<and> pt_project t = pid"
  by (auto simp: trust_of_def find_Some_iff)

lemma find_rule_Some: "find_rule p rid = Some r \<Longrightarrow> r \<in> set (tp_rules p) \<and> ur_id r = rid"
  by (auto simp: find_rule_def find_Some_iff)

lemma policy_le_subset:
  "set (tp_rules p) \<subseteq> set (tp_rules q) \<Longrightarrow> set (tp_projects p) \<subseteq> set (tp_projects q) \<Longrightarrow> policy_le p q"
  unfolding policy_le_def using rule_le_refl project_trust_le_refl by blast

lemma rules_kept: "r \<in> set rs \<Longrightarrow> \<exists>s \<in> set rs. rule_le r s"
  using rule_le_refl by blast

lemma replace_project_le:
  assumes n: "normal_policy cf sha pol"
    and prior: "\<And>s. trust_of (tp_projects pol) (pt_project t) = Some s \<Longrightarrow> project_trust_le s t"
    and rules: "\<And>r. r \<in> set (tp_rules pol) \<Longrightarrow> \<exists>s \<in> set rs. rule_le r s"
  shows "policy_le pol (pol\<lparr>tp_rules := rs, tp_projects := replace_project t (tp_projects pol)\<rparr>)"
proof -
  have "\<exists>u \<in> set (replace_project t (tp_projects pol)). project_trust_le s u"
    if s: "s \<in> set (tp_projects pol)" for s
  proof (cases "pt_project s = pt_project t")
    case True
    then show ?thesis using prior trust_of_member[OF n s] by (auto simp: replace_project_def)
  next
    case False
    then show ?thesis using s by (auto simp: replace_project_def intro: bexI[of _ s])
  qed
  then show ?thesis using rules by (auto simp: policy_le_def)
qed

lemma new_settings_le:
  assumes "new_settings env p pol mode paths = Inr t" and "trust_of (tp_projects pol) (pt_project t) = Some s"
  shows "project_trust_le s t"
  using assms
  by (auto simp: new_settings_def res_simps Let_def project_trust_le_def split: option.splits
      dest: trust_of_Some)

lemma configure_advances:
  assumes ok: "world_ok cf sha w" and env: "env_ok cf sha env"
  shows "advances cf sha w (configure env path mode paths actor expected w)"
  unfolding configure_def
proof (rule advances_bind[OF advances_reading[OF ok]], clarify)
  fix v p pol t
  assume "reading (bind_res (require_user actor) (\<lambda>_.
    bind_res (case paths of None \<Rightarrow> Inr () | Some ps \<Rightarrow> review_settings env ps) (\<lambda>_.
    bind_res (project_at env path) (\<lambda>p. bind_res (load_trust env w) (\<lambda>pol.
    bind_res (require (\<not> (case expected of None \<Rightarrow> False | Some n \<Rightarrow> tp_revision pol \<noteq> n)) invalid_approval)
      (\<lambda>_. bind_res (new_settings env p pol mode paths) (\<lambda>t. Inr (p, pol, t)))))))) w =
    (v, Inr (p, pol, t))"
  then have v: "v = w" and pol: "load_trust env w = Inr pol" and t: "new_settings env p pol mode paths = Inr t"
    by (auto simp: reading_def res_simps)
  have n: "normal_policy cf sha pol" by (rule load_trust_cases(1)[OF ok env pol])
  have "policy_le pol (pol\<lparr>tp_projects := replace_project t (tp_projects pol)\<rparr>)"
    using replace_project_le[OF n new_settings_le[OF t] rules_kept, of "tp_rules pol"] by simp
  then have "advances cf sha v (publish_policy_change env (pj_id p) ''permission.policy_updated'' pol
      (pol\<lparr>tp_projects := replace_project t (tp_projects pol)\<rparr>)
      (JObj [(''settings'', project_trust_json env t)]) v)"
    using publish_advances[OF ok env pol] v by simp
  then show "advances cf sha v (bind_out (publish_policy_change env (pj_id p)
      ''permission.policy_updated'' pol (pol\<lparr>tp_projects := replace_project t (tp_projects pol)\<rparr>)
      (JObj [(''settings'', project_trust_json env t)]) v) (\<lambda>_ w. (w, Inr t)))"
    by (rule advances_bind) (rule advances_stays)
qed

lemma staged_policy_le: "staged_policy env pol x r = Inr q \<Longrightarrow> policy_le pol q"
  by (rule policy_le_subset) (auto simp: staged_policy_def res_simps split: if_splits)

lemma stage_always_rule_advances:
  assumes ok: "world_ok cf sha w" and env: "env_ok cf sha env"
  shows "advances cf sha w (stage_always_rule env rid x w)"
  unfolding stage_always_rule_def Let_def
proof (rule advances_bind[OF advances_reading[OF ok]])
  fix pol v assume "reading (load_trust env w) w = (v, Inr pol)"
  then have v: "v = w" and pol: "load_trust env w = Inr pol" by (auto simp: reading_def)
  have publish: "advances cf sha w (publish_policy_change env (xs_project x) ''permission.rule_staged''
      pol q d w)" if "staged_policy env pol x r = Inr q" for q d r
    by (rule publish_advances[OF ok env pol staged_policy_le[OF that]])
  show "advances cf sha v (case find_rule pol (rule_for_request rid) of
       Some r \<Rightarrow> bind_out (reading (require (\<not> (\<not> scope_eq (ur_scope r) x \<or> ur_revoked r \<noteq> None))
           invalid_approval) v) (\<lambda>_ w. (w, Inr r))
     | None \<Rightarrow>
         bind_out (reading (validate_rule (pe_fold env) (sha256 (pe_fx env)) (staged_rule env rid x)) v) (\<lambda>_ w.
         bind_out (reading (staged_policy env pol x (staged_rule env rid x)) w) (\<lambda>proposed w.
         bind_out (publish_policy_change env (xs_project x) ''permission.rule_staged'' pol proposed
             (JObj [(''rule_id'', JStr (ur_id (staged_rule env rid x))), (''request_id'', JStr rid)]) w)
         (\<lambda>_ w. (w, Inr (staged_rule env rid x))))))"
    unfolding v using ok
    by (auto split: option.split intro!: advances_bind advances_reading advances_stays
        simp: reading_def dest: publish)
qed

lemma policy_le_map:
  assumes "\<And>q. q \<in> set (tp_rules p) \<Longrightarrow> rule_le q (f q)"
  shows "policy_le p (p\<lparr>tp_rules := map f (tp_rules p)\<rparr>)"
proof -
  have "\<exists>s \<in> set (map f (tp_rules p)). rule_le q s" if "q \<in> set (tp_rules p)" for q
    using that assms by (intro bexI[of _ "f q"]) simp_all
  moreover have "\<exists>t \<in> set (tp_projects p). project_trust_le s t" if "s \<in> set (tp_projects p)" for s
    using that project_trust_le_refl by blast
  ultimately show ?thesis by (simp add: policy_le_def)
qed

lemma revoke_rule_advances:
  assumes ok: "world_ok cf sha w" and env: "env_ok cf sha env"
  shows "advances cf sha w (revoke_rule env rid w)"
  unfolding revoke_rule_def
proof (rule advances_bind[OF advances_reading[OF ok]])
  fix pol v assume "reading (load_trust env w) w = (v, Inr pol)"
  then have v: "v = w" and pol: "load_trust env w = Inr pol" by (auto simp: reading_def)
  have n: "normal_policy cf sha pol" by (rule load_trust_cases(1)[OF ok env pol])
  have le: "policy_le pol (pol\<lparr>tp_rules := map (\<lambda>q. if ur_id q = rid then r\<lparr>ur_revoked := x\<rparr> else q) (tp_rules pol)\<rparr>)"
    if r: "find_rule pol rid = Some r" "ur_revoked r = None" for r x
  proof -
    have "rule_le q (if ur_id q = rid then r\<lparr>ur_revoked := x\<rparr> else q)" if "q \<in> set (tp_rules pol)" for q
      using find_rule_member[OF n that] r by (auto simp: rule_le_def)
    then show ?thesis by (rule policy_le_map)
  qed
  show "advances cf sha v (case find_rule pol rid of
       None \<Rightarrow> (v, Inl invalid_approval)
     | Some r \<Rightarrow>
         if ur_revoked r \<noteq> None then (v, Inr r)
         else
           let revoked = r\<lparr>ur_revoked := Some (pe_now env [8])\<rparr> in
           bind_out (publish_policy_change env (xs_project (ur_scope r)) ''permission.rule_revoked'' pol
             (pol\<lparr>tp_rules := map (\<lambda>q. if ur_id q = rid then revoked else q) (tp_rules pol)\<rparr>)
             (JObj [(''rule_id'', JStr rid)]) v) (\<lambda>_ w. (w, Inr revoked)))"
    unfolding v Let_def using ok
    by (auto split: option.split intro!: advances_bind advances_stays publish_advances[OF ok env pol] le)
qed

lemma revoke_advances:
  "world_ok cf sha w \<Longrightarrow> env_ok cf sha env \<Longrightarrow> advances cf sha w (revoke env x actor w)"
  unfolding revoke_def
  by (auto intro!: advances_bind advances_reading advances_in_store revoke_rule_advances
      intro: advances_stays simp: reading_def res_simps)

lemma revoke_all_advances:
  "world_ok cf sha w \<Longrightarrow> advances cf sha w (revoke_all env gs w)"
  by (induction gs arbitrary: w) (auto intro: advances_stays intro!: advances_bind advances_in_store)

text \<open>A reset revokes only rules that are not revoked yet and moves the cutoff forward.\<close>

lemma reset_rules_le:
  assumes n: "normal_policy cf sha pol" and r: "r \<in> set (tp_rules pol)"
    and ids: "ids = map ur_id (filter (\<lambda>r. P r \<and> ur_revoked r = None) (tp_rules pol))"
  shows "\<exists>s \<in> set (reset_rules env ids 0 (tp_rules pol)). rule_le r s"
proof -
  obtain k where k: "k < length (tp_rules pol)" "tp_rules pol ! k = r" using r by (auto simp: in_set_conv_nth)
  let ?s = "reset_rules env ids 0 (tp_rules pol) ! k"
  have "?s = (if ur_id r \<in> set ids then r\<lparr>ur_revoked := Some (pe_now env [k, 10])\<rparr> else r)"
    using k by (simp add: reset_rules_def)
  moreover have "ur_revoked r = None" if "ur_id r \<in> set ids"
  proof -
    from that have "ur_id r \<in> ur_id ` {q \<in> set (tp_rules pol). P q \<and> ur_revoked q = None}"
      by (simp add: ids)
    then obtain q where "ur_id r = ur_id q" "q \<in> {q \<in> set (tp_rules pol). P q \<and> ur_revoked q = None}"
      by (rule imageE)
    then have q: "q \<in> set (tp_rules pol)" "ur_id q = ur_id r" "ur_revoked q = None" by simp_all
    have "Some q = Some r"
      using find_rule_member[OF n q(1)] find_rule_member[OF n r] unfolding q(2) by (rule trans[OF sym])
    with q(3) show ?thesis by simp
  qed
  ultimately have "rule_le r ?s" by (auto simp: rule_le_def)
  moreover have "?s \<in> set (reset_rules env ids 0 (tp_rules pol))"
    using k by (intro nth_mem) (simp add: reset_rules_def)
  ultimately show ?thesis by blast
qed

lemma trust_settings_project: "trust_settings p pol = Inr t \<Longrightarrow> pt_project t = pj_id p"
  by (auto simp: trust_settings_def res_simps split: option.splits dest: trust_of_Some)

lemma reset_settings_le:
  assumes "trust_settings p pol = Inr prior"
    and "trust_of (tp_projects pol) (pt_project prior) = Some s"
  shows "project_trust_le s (prior\<lparr>pt_cutoff := Some (reset_cutoff env prior grants)\<rparr>)"
proof -
  have "s = prior"
    using assms trust_settings_project[OF assms(1)]
    by (auto simp: trust_settings_def res_simps split: option.splits)
  then show ?thesis
    by (auto simp: project_trust_le_def cutoff_le_def reset_cutoff_def Let_def split: option.splits)
qed

lemma reset_advances:
  assumes ok: "world_ok cf sha w" and env: "env_ok cf sha env"
  shows "advances cf sha w (reset env path actor w)"
  unfolding reset_def
proof (rule advances_bind[OF advances_reading[OF ok]], clarify)
  fix v p pol prior grants
  assume "reading (bind_res (require_user actor) (\<lambda>_. bind_res (project_at env path) (\<lambda>p.
    bind_res (load_trust env w) (\<lambda>pol. bind_res (trust_settings p pol) (\<lambda>prior.
    bind_res (list_project_grants (pw_store w) (pj_id p)) (\<lambda>grants. Inr (p, pol, prior, grants))))))) w =
    (v, Inr (p, pol, prior, grants))"
  then have v: "v = w" and pol: "load_trust env w = Inr pol" and prior: "trust_settings p pol = Inr prior"
    by (auto simp: reading_def res_simps)
  have n: "normal_policy cf sha pol" by (rule load_trust_cases(1)[OF ok env pol])
  let ?ids = "map ur_id (filter (\<lambda>r. xs_project (ur_scope r) = pj_id p \<and> ur_revoked r = None) (tp_rules pol))"
  let ?t = "prior\<lparr>pt_cutoff := Some (reset_cutoff env prior grants)\<rparr>"
  have le: "policy_le pol (pol\<lparr>tp_rules := reset_rules env ?ids 0 (tp_rules pol),
      tp_projects := replace_project ?t (tp_projects pol)\<rparr>)"
    using reset_settings_le[OF prior] reset_rules_le[OF n _ refl]
    by (intro replace_project_le[OF n]) auto
  show "advances cf sha v (let settings = ?t; revoked = ?ids in
    bind_out (publish_policy_change env (pj_id p) ''permission.project_reset'' pol
         (pol\<lparr>tp_rules := reset_rules env revoked 0 (tp_rules pol),
              tp_projects := replace_project settings (tp_projects pol)\<rparr>)
         (JObj [(''rule_ids'', JArr (map JStr revoked)),
           (''grants_revoked_before'', JStr (pe_time env (reset_cutoff env prior grants)))]) v) (\<lambda>_ w.
     bind_out (revoke_all env grants w) (\<lambda>_ w. (w, Inr (reset_cutoff env prior grants)))))"
    unfolding Let_def v
    by (intro advances_bind[OF publish_advances[OF ok env pol le]] advances_bind[OF revoke_all_advances]
        advances_stays)
qed

lemma resolve_advances:
  "world_ok cf sha w \<Longrightarrow> advances cf sha w (resolve_in_store env rid choice h r w)"
  unfolding resolve_in_store_def by (intro advances_bind advances_in_store advances_reading)

lemma approve_advances:
  assumes ok: "world_ok cf sha w" and env: "env_ok cf sha env"
  shows "advances cf sha w (approve env configured rid choice actor w)"
  unfolding approve_def
  by (auto intro!: advances_bind advances_reading advances_stays ok resolve_advances
      stage_always_rule_advances[OF _ env])

lemma deny_advances: "world_ok cf sha w \<Longrightarrow> advances cf sha w (deny env rid why actor w)"
  unfolding deny_def by (intro advances_bind advances_in_store advances_reading advances_stays)

section \<open>The machine\<close>

datatype trust_op =
    Configure policy_env string trust_mode "string list option" string "int option"
  | Approve policy_env bool string approval_choice string
  | Deny policy_env string "string option" string
  | Revoke policy_env string string
  | Reset policy_env string string

definition at_env :: "(string \<Rightarrow> string) \<Rightarrow> (string \<Rightarrow> string) \<Rightarrow> policy_env \<Rightarrow> policy_env" where
  "at_env cf sha env = env\<lparr>pe_fold := cf, pe_fx := (pe_fx env)\<lparr>sha256 := sha\<rparr>\<rparr>"

lemma at_env_ok: "env_ok cf sha (at_env cf sha env)"
  by (simp add: env_ok_def at_env_def)

text \<open>The world an operation leaves, whether it returns or raises.\<close>

fun trust_step :: "(string \<Rightarrow> string) \<Rightarrow> (string \<Rightarrow> string) \<Rightarrow> policy_world \<Rightarrow> trust_op \<Rightarrow> policy_world res" where
  "trust_step cf sha w (Configure env path mode paths actor expected) =
     Inr (fst (configure (at_env cf sha env) path mode paths actor expected w))"
| "trust_step cf sha w (Approve env configured rid choice actor) =
     Inr (fst (approve (at_env cf sha env) configured rid choice actor w))"
| "trust_step cf sha w (Deny env rid why actor) = Inr (fst (deny (at_env cf sha env) rid why actor w))"
| "trust_step cf sha w (Revoke env x actor) = Inr (fst (revoke (at_env cf sha env) x actor w))"
| "trust_step cf sha w (Reset env path actor) = Inr (fst (reset (at_env cf sha env) path actor w))"

lemma trust_step_advances:
  assumes "world_ok cf sha w" and "trust_step cf sha w x = Inr w'"
  shows "world_ok cf sha w' \<and> world_le w w'"
  using assms configure_advances approve_advances deny_advances revoke_advances reset_advances at_env_ok
  by (cases x) (auto simp: advances_def)

interpretation trust_machine: durable_mono "trust_step cf sha" "world_ok cf sha" world_le for cf sha
  by unfold_locales (auto intro: world_le_refl dest: trust_step_advances world_le_trans)

abbreviation after_commands ::
    "(string \<Rightarrow> string) \<Rightarrow> (string \<Rightarrow> string) \<Rightarrow> policy_world \<Rightarrow> trust_op list \<Rightarrow> policy_world" where
  "after_commands cf sha \<equiv> run_ops (trust_step cf sha)"

lemmas commands_ok = trust_machine.run_inv and commands_le = trust_machine.run_le

lemma file_after:
  assumes "world_ok cf sha w" and "pw_file w = Some p"
  obtains q where "pw_file (after_commands cf sha w ops) = Some q" "policy_le p q" "normal_policy cf sha q"
  using commands_le[OF assms(1), of ops] commands_ok[OF assms(1), of ops] assms(2) that
  by (auto simp: world_le_def world_ok_def)

section \<open>A successful publication\<close>

lemma bind_out_Inr:
  "bind_out m f = (w, Inr y) \<longleftrightarrow> (\<exists>v x. m = (v, Inr x) \<and> f x v = (w, Inr y))"
  by (cases m; cases "snd m") auto

lemma reading_Inr: "reading m w = (v, Inr x) \<longleftrightarrow> v = w \<and> m = Inr x"
  by (auto simp: reading_def)

lemma trust_save_file: "trust_save env p n w = (v, Inr s) \<Longrightarrow> pw_file v = Some s"
  by (auto simp: trust_save_def split: sum.splits prod.splits)

text \<open>What was saved is what the evidence announced.\<close>

lemma saved_is_published:
  assumes made: "proposal env previous proposed = Inr (checked, published)"
    and save: "trust_save env checked (tp_revision previous) w = (v, Inr s)"
  shows "s = published" and "tp_projects s = tp_projects proposed" and "pw_store v = pw_store w"
proof -
  have env: "env_ok (pe_fold env) (sha256 (pe_fx env)) env" by (simp add: env_ok_def)
  obtain w1 where prep: "prepare_save env checked (tp_revision previous) w = Inr (w1, s)"
    and v: "v = w1\<lparr>pw_file := Some s\<rparr>"
    using save by (auto simp: trust_save_def split: sum.splits prod.splits)
  obtain again current where c: "validate_policy (pe_fold env) (sha256 (pe_fx env)) checked = Inr again"
    "validate_policy (pe_fold env) (sha256 (pe_fx env)) (with_revision (tp_revision previous + 1) again) = Inr s"
    and b: "backup w current = Inr w1"
    by (rule prepare_save_Inr[OF env prep])
  have "again = checked"
    using policy_normal[OF proposal_Inr(1)[OF env made]] c(1) by (simp add: normal_policy_def)
  then show "s = published" using c(2) proposal_Inr(2)[OF env made] by simp
  then show "tp_projects s = tp_projects proposed"
    using validated_policy(2)[OF proposal_Inr(1)[OF env made]] validated_policy(2)[OF proposal_Inr(2)[OF env made]]
    by (simp add: with_revision_def)
  show "pw_store v = pw_store w"
    using b v by (auto simp: backup_def res_simps split: if_splits option.splits)
qed

lemma publish_Inr:
  assumes "publish_policy_change env pid action previous proposed details w = (w', Inr s)"
  shows "pw_file w' = Some s" and "tp_projects s = tp_projects proposed"
proof -
  obtain checked published v1 v2 u1 u2 where
    made: "proposal env previous proposed = Inr (checked, published)"
    and save: "trust_save env checked (tp_revision previous) v1 = (v2, Inr s)"
    and last: "audit env 2 pid ''permission.policy_change_completed''
      (evidence env action previous published details) (new_id (pe_fx env) 0) v2 = (w', Inr u2)"
    using assms by (auto simp: publish_policy_change_def Let_def bind_out_Inr reading_Inr)
  show "pw_file w' = Some s" using audit_file[OF last] trust_save_file[OF save] by simp
  show "tp_projects s = tp_projects proposed" by (rule saved_is_published(2)[OF made save])
qed

lemma revoke_all_file: "pw_file (fst (revoke_all env gs w)) = pw_file w"
proof (induction gs arbitrary: w)
  case (Cons g gs)
  show ?case
    using Cons.IH in_store_file(1)[of "revoke_grant (pe_fx env) (cg_id g)" w]
    by (auto simp: bind_out_def split: prod.splits sum.splits)
qed simp

lemma reset_Inr:
  assumes "reset env path actor w = (w', Inr cutoff)"
  obtains p prior grants s where "project_at env path = Inr p" and "actor = ''user''"
    and "list_project_grants (pw_store w) (pj_id p) = Inr grants"
    and "cutoff = reset_cutoff env prior grants" and "pt_project prior = pj_id p"
    and "pw_file w' = Some s" and "prior\<lparr>pt_cutoff := Some cutoff\<rparr> \<in> set (tp_projects s)"
proof -
  obtain p pol prior grants v s where p: "project_at env path = Inr p" "actor = ''user''"
    "trust_settings p pol = Inr prior" "list_project_grants (pw_store w) (pj_id p) = Inr grants"
    "cutoff = reset_cutoff env prior grants"
    and pub: "publish_policy_change env (pj_id p) ''permission.project_reset'' pol
         (pol\<lparr>tp_rules := reset_rules env (map ur_id (filter (\<lambda>r. xs_project (ur_scope r) = pj_id p
            \<and> ur_revoked r = None) (tp_rules pol))) 0 (tp_rules pol),
           tp_projects := replace_project (prior\<lparr>pt_cutoff := Some cutoff\<rparr>) (tp_projects pol)\<rparr>)
         (JObj [(''rule_ids'', JArr (map JStr (map ur_id (filter (\<lambda>r. xs_project (ur_scope r) = pj_id p
            \<and> ur_revoked r = None) (tp_rules pol))))), (''grants_revoked_before'', JStr (pe_time env cutoff))])
         w = (v, Inr s)"
    and all: "revoke_all env grants v = (w', Inr ())"
    using assms by (auto simp: reset_def Let_def bind_out_Inr reading_Inr res_simps require_user_def)
  have "pw_file w' = Some s" using publish_Inr(1)[OF pub] revoke_all_file[of env grants v] all by simp
  moreover have "prior\<lparr>pt_cutoff := Some cutoff\<rparr> \<in> set (tp_projects s)"
    using publish_Inr(2)[OF pub] by (simp add: replace_project_def)
  ultimately show thesis
    using that[OF p(1,2,4,5) trust_settings_project[OF p(3)]] by blast
qed

lemma reset_cutoff_bound: "g \<in> set gs \<Longrightarrow> cg_issued g \<le> reset_cutoff env prior gs"
proof -
  assume g: "g \<in> set gs"
  have grows: "m \<le> foldl max m xs" for m :: int and xs
    by (induction xs arbitrary: m) (auto intro: order_trans[OF max.cobounded1])
  have "cg_issued g \<le> foldl max m (map cg_issued gs)" for m
    using g grows by (induction gs arbitrary: m) (auto intro: order_trans[OF max.cobounded2])
  then show ?thesis by (auto simp: reset_cutoff_def Let_def split: option.split intro: order_trans[OF _ max.cobounded1])
qed

section \<open>Properties\<close>

text \<open>
  C22. A revoked rule is revoked for good: after every further history of commands, failed ones
  included, the policy still lists the rule, with the same revocation, and the rule is active under
  no clock and in no state of the store.
\<close>

theorem rule_revocation_final:
  assumes "world_ok cf sha w" and "pw_file w = Some p"
    and "r \<in> set (tp_rules p)" and "ur_revoked r \<noteq> None"
  shows "\<exists>q s. pw_file (after_commands cf sha w ops) = Some q \<and> find_rule q (ur_id r) = Some s
    \<and> ur_revoked s = ur_revoked r \<and> ur_scope s = ur_scope r
    \<and> (\<forall>env v site. rule_is_active env v site s = Inr False)"
proof -
  obtain q where q: "pw_file (after_commands cf sha w ops) = Some q" "policy_le p q" "normal_policy cf sha q"
    by (rule file_after[OF assms(1,2)])
  then obtain s where s: "s \<in> set (tp_rules q)" "rule_le r s" using assms(3) by (auto simp: policy_le_def)
  then have "find_rule q (ur_id r) = Some s" using find_rule_member[OF q(3) s(1)] by (simp add: rule_le_def)
  then show ?thesis using q(1) s assms(4) by (auto simp: rule_le_def rule_is_active_def)
qed

text \<open>
  No published policy is lost: after every history of commands the policy that was in force is
  in force still, or a later revision is and the old one is retained under its own revision.
\<close>

theorem published_policy_retained:
  assumes "world_ok cf sha w" and "pw_file w = Some p"
  shows "\<exists>q. pw_file (after_commands cf sha w ops) = Some q
    \<and> (q = p \<or> tp_revision p < tp_revision q
        \<and> map_of (pw_backups (after_commands cf sha w ops)) (tp_revision p) = Some p)"
  using commands_le[OF assms(1), of ops] assms(2) by (auto simp: world_le_def retained_def)

text \<open>
  C23. A reset is effective for good: when the user's reset of a project returns, its cutoff bounds
  the issue of every grant the store listed for the project, and after every further history of
  commands no capability issued up to the cutoff matches an intent of that project, in whatever
  state of the store it is looked up.
\<close>

theorem reset_invalidates_grants:
  assumes "world_ok cf sha w" and "reset (at_env cf sha env) path actor w = (w', Inr cutoff)"
    and "project_at (at_env cf sha env) path = Inr p"
    and "list_project_grants (pw_store w) (pj_id p) = Inr grants"
  shows "actor = ''user'' \<and> (\<forall>g \<in> set grants. cg_issued g \<le> cutoff)
    \<and> (\<exists>q. pw_file (after_commands cf sha w' ops) = Some q \<and>
        (\<forall>g x. cg_issued g \<le> cutoff \<longrightarrow> xs_project x = pj_id p \<longrightarrow>
          (\<forall>env v site i. grant_matches env v site g i x q = Inr False)))"
proof -
  obtain prior s where "actor = ''user''" and cut: "cutoff = reset_cutoff (at_env cf sha env) prior grants"
    and "pt_project prior = pj_id p" and s: "pw_file w' = Some s"
    and t: "prior\<lparr>pt_cutoff := Some cutoff\<rparr> \<in> set (tp_projects s)"
    by (rule reset_Inr[OF assms(2)]) (use assms(3,4) in auto)
  have ok: "world_ok cf sha w'"
    using reset_advances[OF assms(1) at_env_ok, of env path actor] assms(2) by (simp add: advances_def)
  obtain q where q: "pw_file (after_commands cf sha w' ops) = Some q" "policy_le s q" "normal_policy cf sha q"
    by (rule file_after[OF ok s])
  obtain u where u: "u \<in> set (tp_projects q)" "project_trust_le (prior\<lparr>pt_cutoff := Some cutoff\<rparr>) u"
    using q(2) t by (auto simp: policy_le_def)
  then obtain c where c: "pt_project u = pj_id p" "pt_cutoff u = Some c" "cutoff \<le> c"
    using \<open>pt_project prior = pj_id p\<close>
    by (auto simp: project_trust_le_def cutoff_le_def split: option.splits)
  then have "trust_of (tp_projects q) (pj_id p) = Some u" using trust_of_member[OF q(3) u(1)] by simp
  then have "grant_stale (trust_of (tp_projects q) (xs_project x)) now g i x"
    if "cg_issued g \<le> cutoff" "xs_project x = pj_id p" for now g i x
    using that c by (auto simp: grant_stale_def)
  then show ?thesis
    using \<open>actor = ''user''\<close> q(1) cut by (auto simp: grant_matches_def Let_def intro: reset_cutoff_bound)
qed

lemma in_store_Inr: "in_store f w = (v, Inr x) \<longleftrightarrow> (\<exists>db. f (pw_store w) = Inr (db, x) \<and> v = w\<lparr>pw_store := db\<rparr>)"
  by (auto simp: in_store_def split: sum.splits)

lemma audit_row:
  assumes "audit env k pid kind payload corr w = (v, Inr ())"
  shows "\<exists>row. db_events (pw_store v) = db_events (pw_store w) @ [row] \<and> er_type row = kind
    \<and> er_project row = pid
    \<and> event_payload (er_data row) = fst (redact (pe_fx env) (fst (redact (pe_fx env) payload)))"
proof -
  obtain db where e: "append_event (pe_fx env) (audit_event env k pid kind payload corr) (pw_store w) =
      Inr (db, ())" and v: "v = w\<lparr>pw_store := db\<rparr>"
    using assms by (auto simp: audit_def in_store_Inr)
  then show ?thesis
    by (auto simp: append_event_def insert_event_def audit_event_def res_simps event_row_of_def
        appended_def split: prod.splits dest!: append_row_Inr)
qed

lemma audit_extends:
  "set (db_events (pw_store w)) \<subseteq> set (db_events (pw_store (fst (audit env k pid kind payload corr w))))"
proof (cases "audit env k pid kind payload corr w")
  case (Pair v r)
  then show ?thesis
  proof (cases r)
    case (Inl e)
    then show ?thesis using Pair by (auto simp: audit_def in_store_def split: sum.splits prod.splits)
  next
    case (Inr u)
    then show ?thesis using Pair audit_row[of env k pid kind payload corr w v] by auto
  qed
qed

text \<open>
  C24. Evidence before effect: whenever a publication changes the policy in force, whether it
  returns or stops halfway, the journal holds the event that prepared it, and that event carries the
  revision and the hash of exactly the policy now in force.
\<close>

theorem evidence_before_effect:
  assumes "publish_policy_change env pid action previous proposed details w = (w', r)"
    and "pw_file w' \<noteq> pw_file w"
  shows "\<exists>published row. pw_file w' = Some published \<and> row \<in> set (db_events (pw_store w'))
    \<and> er_type row = ''permission.policy_change_prepared'' \<and> er_project row = pid
    \<and> event_payload (er_data row) = fst (redact (pe_fx env) (fst (redact (pe_fx env)
        (evidence env action previous published details))))"
proof -
  obtain checked published where made: "proposal env previous proposed = Inr (checked, published)"
    using assms
    by (cases "proposal env previous proposed") (auto simp: publish_policy_change_def reading_def)
  let ?facts = "evidence env action previous published details"
  obtain w1 r1 where a1: "audit env 1 pid ''permission.policy_change_prepared'' ?facts
      (new_id (pe_fx env) 0) w = (w1, r1)" by fastforce
  obtain w2 r2 where s2: "trust_save env checked (tp_revision previous) w1 = (w2, r2)" by fastforce
  obtain w3 r3 where a3: "audit env 2 pid ''permission.policy_change_completed'' ?facts
      (new_id (pe_fx env) 0) w2 = (w3, r3)" by fastforce
  note step = publish_policy_change_def[of env pid action previous proposed details w] reading_def
    made Let_def a1 s2 a3
  have "r1 = Inr ()"
    using assms audit_file[OF a1] by (cases r1) (auto simp: step simp del: One_nat_def)
  have "\<exists>s. r2 = Inr s"
    using assms audit_file[OF a1] s2 \<open>r1 = Inr ()\<close>
    by (cases r2) (auto simp: step trust_save_def simp del: One_nat_def split: sum.splits prod.splits)
  then have r2: "r2 = Inr published" using saved_is_published(1)[OF made, of w1 w2] s2 by auto
  have w': "w' = w3" using assms(1) \<open>r1 = Inr ()\<close> r2 by (cases r3) (auto simp: step simp del: One_nat_def)
  obtain row where new: "db_events (pw_store w1) = db_events (pw_store w) @ [row]"
    and row: "er_type row = ''permission.policy_change_prepared''"
    "er_project row = pid"
    "event_payload (er_data row) = fst (redact (pe_fx env) (fst (redact (pe_fx env) ?facts)))"
    using audit_row[OF a1[unfolded \<open>r1 = Inr ()\<close>]] by blast
  have "pw_store w2 = pw_store w1" using saved_is_published(3)[OF made] s2 r2 by blast
  then have "row \<in> set (db_events (pw_store w'))"
    using new audit_extends[of w2 env 2 pid "''permission.policy_change_completed''" ?facts
        "new_id (pe_fx env) 0"] a3 w' by auto
  moreover have "pw_file w' = Some published"
    using audit_file[OF a3] trust_save_file s2 r2 w' by fastforce
  ultimately show ?thesis using row by blast
qed

end
