(* ===== verification/Permission_Properties.thy ===== *)
theory Permission_Properties
  imports Trust_Store
begin

text \<open>
  What a permission decision guarantees: it never exceeds the fixed ceiling and the organization's
  request, a mutation stays with an engineer inside the task's scope, the user's denials win, and an
  approval cannot override the ceiling.
\<close>

section \<open>Inversion of a decision\<close>

lemma make_decision_Inr: "make_decision d = Inr e \<Longrightarrow> e = d"
  by (auto simp: make_decision_def res_simps)

text \<open>The circumstances under which an intent reaches the user's own rules.\<close>

definition admitted ::
    "policy_env \<Rightarrow> policy_world \<Rightarrow> tool_intent \<Rightarrow> task_spec \<Rightarrow> sandbox_capabilities \<Rightarrow>
     config_view \<Rightarrow> resolved_template \<Rightarrow> project_trust \<Rightarrow> trust_policy \<Rightarrow> exact_scope \<Rightarrow> bool" where
  "admitted env w i t sb c role s pol x \<longleftrightarrow>
     (\<exists>p spec roles. policy_context env w i t sb = Inr (p, spec, s, pol, x) \<and> cv_roles c = Inr roles
        \<and> map_of roles (ti_role i) = Some role)
     \<and> cv_hash c = config_snapshot_hash t
     \<and> pd_outcome (baseline_evaluate (pe_fold env) (sha256 (pe_fx env)) i t sb (Some (re_kind role))) \<noteq> DENY
     \<and> requested_by_organization (pe_fold env) (cv_spec c) i role"

lemma evaluate_admitted:
  assumes "evaluate_permission env w i t sb = Inr d" and "pd_outcome d \<noteq> DENY"
  obtains c role s pol x where "admitted env w i t sb c role s pol x"
    and "\<not> is_protected_action (ti_action i)"
    and "user_decision env w i sb s pol x (baseline_evaluate (pe_fold env) (sha256 (pe_fx env)) i t sb
      (Some (re_kind role))) = Inr d"
proof -
  have "\<not> is_protected_action (ti_action i)" "evaluate_in_context env w i t sb = Inr d"
    using assms by (auto simp: evaluate_permission_def Let_def split: if_splits)
  with assms(2) that show thesis
    by (fastforce simp: evaluate_in_context_def admitted_def res_simps Let_def
        split: option.splits if_splits prod.splits)
qed







section \<open>Denials\<close>

lemma filter_res_member:
  "filter_res f n xs = Inr ys \<Longrightarrow> k < length xs \<Longrightarrow> f (n + k) (xs ! k) = Inr True \<Longrightarrow> xs ! k \<in> set ys"
proof (induction xs arbitrary: n k ys)
  case (Cons x xs)
  from Cons.prems(1) obtain b zs where b: "f n x = Inr b" and zs: "filter_res f (Suc n) xs = Inr zs"
    and ys: "ys = (if b then x # zs else zs)"
    by (auto simp: res_simps)
  show ?case
  proof (cases k)
    case 0
    then show ?thesis using Cons.prems(3) b ys by simp
  next
    case (Suc j)
    then have "xs ! j \<in> set zs" using Cons.IH[OF zs, of j] Cons.prems by simp
    then show ?thesis using Suc ys by simp
  qed
qed simp

lemma filter_res_subset: "filter_res f n xs = Inr ys \<Longrightarrow> y \<in> set ys \<Longrightarrow>
    \<exists>k < length xs. xs ! k = y \<and> f (n + k) y = Inr True"
proof (induction xs arbitrary: n ys)
  case (Cons x xs)
  from Cons.prems(1) obtain b zs where b: "f n x = Inr b" and zs: "filter_res f (Suc n) xs = Inr zs"
    and ys: "ys = (if b then x # zs else zs)"
    by (auto simp: res_simps)
  show ?case
  proof (cases "b \<and> y = x")
    case True
    then show ?thesis using b by (intro exI[of _ 0]) simp
  next
    case False
    then have "y \<in> set zs" using Cons.prems(2) ys by (auto split: if_splits)
    then obtain k where "k < length xs" "xs ! k = y" "f (Suc n + k) y = Inr True"
      using Cons.IH[OF zs] by blast
    then show ?thesis by (intro exI[of _ "Suc k"]) simp
  qed
qed simp

lemma user_deny_decides:
  assumes "user_decision env w i sb s pol x ceiling = Inr d"
    and "k < length (tp_rules pol)" and "ur_effect (tp_rules pol ! k) = EffectDeny"
    and "rule_applies env w [k, 3] x (tp_rules pol ! k) (pe_now env [k, 4]) = Inr True"
  shows "pd_outcome d = DENY"
proof -
  from assms(1) obtain matched where m: "filter_res (\<lambda>n r. rule_applies env w [n, 3] x r
      (pe_now env [n, 4])) 0 (tp_rules pol) = Inr matched"
    by (auto simp: user_decision_def res_simps)
  have "tp_rules pol ! k \<in> set matched" using filter_res_member[OF m assms(2)] assms(4) by simp
  then have "filter (\<lambda>r. ur_effect r = EffectDeny) matched \<noteq> []"
    using assms(3) by (auto simp: filter_empty_conv)
  then show ?thesis
    using assms(1) m by (auto simp: user_decision_def Let_def dest!: make_decision_Inr)
qed

section \<open>Properties\<close>



text \<open>
  C20. A denial by the user is final: when a rule that denies is active and matches the exact scope
  of the intent, at whatever instants the broker reads the clock, the decision is a denial, whether
  or not capabilities, other rules or the trust mode would allow it.
\<close>

theorem user_denial_wins:
  assumes "policy_context env w i t sb = Inr (p, spec, s, pol, x)"
    and "r \<in> set (tp_rules pol)" and "ur_effect r = EffectDeny"
    and "\<And>site. rule_is_active env w site r = Inr True"
    and "\<And>n. rule_matches (pe_fold env) (sha256 (pe_fx env)) r x (pe_now env n) = Inr True"
    and "evaluate_permission env w i t sb = Inr d"
  shows "pd_outcome d = DENY"
proof (rule ccontr)
  assume "pd_outcome d \<noteq> DENY"
  then obtain c role s' pol' x' where a: "admitted env w i t sb c role s' pol' x'"
    and u: "user_decision env w i sb s' pol' x' (baseline_evaluate (pe_fold env) (sha256 (pe_fx env)) i t
      sb (Some (re_kind role))) = Inr d"
    by (rule evaluate_admitted[OF assms(6)])
  then have "pol' = pol" "x' = x" using assms(1) by (auto simp: admitted_def)
  moreover obtain k where "k < length (tp_rules pol)" "tp_rules pol ! k = r"
    using assms(2) by (auto simp: in_set_conv_nth)
  ultimately have "pd_outcome d = DENY"
    using user_deny_decides[OF u, of k] assms(3-5) by (simp add: rule_applies_def both_def)
  then show False using \<open>pd_outcome d \<noteq> DENY\<close> by contradiction
qed

text \<open>
  C21. An approval cannot override the ceiling: when the configured service grants a pending request,
  the user asked for it, the broker's decision on the stored intent at that moment is no denial, the
  intent still has the hash that was reviewed, the run is on its reviewed target, and the duration is
  one the request offers.
\<close>

theorem approval_below_ceiling:
  assumes "approve env True rid choice actor w = (w', Inr g)"
    and "get_approval (pw_store w) rid = Inr q" and "ap_status q = ApPending"
  shows "actor = ''user'' \<and> choice \<in> set (ap_choices q) \<and> choice \<noteq> ChoiceDeny
    \<and> (\<exists>s r t sb d. get_intent (pw_store w) (ap_intent q) = Inr s
        \<and> intent_hash (pe_fx env) (si_intent s) = ap_hash q
        \<and> state_run env w (ap_run q) = Inr r \<and> validate_run_target env r = Inr ()
        \<and> run_capabilities r = Some sb
        \<and> evaluate_permission env w (si_intent s) t sb = Inr d \<and> pd_outcome d \<noteq> DENY)"
proof -
  obtain x where x: "approval_scope env w q choice = Inr x" and c: "actor = ''user''" "choice \<noteq> ChoiceDeny"
    using assms
    by (cases "approval_scope env w q choice")
      (auto simp: approve_def reading_def res_simps bind_out_def split: sum.splits if_splits prod.splits)
  then show ?thesis
    by (auto simp: approval_scope_def res_simps) blast
qed

section \<open>Witnesses\<close>

text \<open>A world with one run of the sample task, an engineer's template and a user who denied nothing,
  or denied exactly one edit.\<close>

definition sample_id :: "string \<Rightarrow> string" where
  "sample_id pre = pre @ ''_'' @ sample_hex 32"

definition sample_fx :: effects where
  "sample_fx = \<lparr>clk = (\<lambda>_. 5), new_id = (\<lambda>n. ''id'' @ sample_hex n), redact = (\<lambda>v. (v, [])), tainted = (\<lambda>_. False),
     sha256 = (\<lambda>_. sample_hex 64)\<rparr>"

definition quiet_checks :: store_checks where
  "quiet_checks = \<lparr>run_unfit = (\<lambda>_. False), event_unfit = (\<lambda>_. False),
     organization_check = (\<lambda>_. Inr ()), sandbox_of = (\<lambda>_. None)\<rparr>"

definition engineer_template :: resolved_template where
  "engineer_template = \<lparr>re_role = ''engineer'', re_kind = ENGINEER, re_lifecycle = PER_TASK,
     re_description = [], re_instructions = [], re_references = [''agents/a.md''],
     re_tools = [''workspace.write_file'', ''command.run''], re_max_steps = 10, re_paths = None,
     re_profile = None, re_delegation = True\<rparr>"

definition sample_config :: config_view where
  "sample_config = \<lparr>cv_spec = sample_spec\<lparr>fs_permissions := [\<lparr>rp_role = ''engineer'',
       rp_action = ''workspace.write_file'', rp_resource = ''workspace://candidate/**''\<rparr>]\<rparr>,
     cv_hash = sample_hex 64, cv_roles = Inr [(''engineer'', engineer_template)]\<rparr>"

definition sample_project :: project where
  "sample_project = \<lparr>pj_id = sample_id ''prj'', pj_root = ''/repo'', pj_identity = sample_hex 64,
     pj_scope_required = False\<rparr>"

definition sample_env :: policy_env where
  "sample_env = \<lparr>pe_fx = sample_fx, pe_checks = quiet_checks, pe_fold = (\<lambda>s. s), pe_now = (\<lambda>_. 5),
     pe_projects = [sample_project], pe_config = (\<lambda>_ _. Inr sample_config),
     pe_repo = (\<lambda>_. Inr \<lparr>rp_root = ''/repo'', rp_head = ''b'', rp_identity = sample_hex 64,
       rp_fingerprint = ''f''\<rparr>), pe_time = (\<lambda>_. ''t''), pe_size = (\<lambda>_. 0)\<rparr>"

definition sample_run :: run where
  "sample_run = (new_run (sample_id ''run'') (sample_id ''prj'') ''c'' ''g'' ''b'' ''f'' 0)
     \<lparr>run_configuration := Some default_configuration, run_capabilities := Some phase1_fake,
      run_status := RUNNING, run_stage := Some IMPLEMENTING, run_task := Some (sample_id ''task''),
      run_config_hash := Some (sample_hex 64)\<rparr>"

definition sample_store :: store where
  "sample_store = \<lparr>db_runs = [\<lparr>rr_id = run_id sample_run, rr_project = run_project sample_run,
       rr_status = RUNNING, rr_stage = Some IMPLEMENTING, rr_data = sample_run\<rparr>],
     db_tasks = [\<lparr>tr_id = task_id sample_task, tr_run = run_id sample_run, tr_data = sample_task\<rparr>],
     db_agents = [], db_events = [], st_intents = [], st_approvals = [], st_grants = [],
     st_claims = [], st_leases = []\<rparr>"

definition sample_world :: policy_world where
  "sample_world = \<lparr>pw_store = sample_store, pw_file = None, pw_backups = []\<rparr>"

definition sample_write :: tool_intent where
  "sample_write = \<lparr>ti_id = ''i'', ti_run = sample_id ''run'', ti_task = sample_id ''task'',
     ti_agent = ''a'', ti_role = ''engineer'', ti_workflow = ''code-change'', ti_stage = IMPLEMENTING,
     ti_action = ''workspace.write_file'',
     ti_resource = \<lparr>res_kind = ''workspace_path'', res_identifier = ''src/a.py''\<rparr>,
     ti_parameters = JObj [(''content'', JStr ''x'')], ti_reason = ''r'', ti_side_effect = True,
     ti_key = ''k'', ti_ttl = None, ti_uses = None\<rparr>"






definition sample_scope :: exact_scope where
  "sample_scope = (case policy_context sample_env sample_world sample_write sample_task phase1_fake of
     Inr (_, _, _, _, x) \<Rightarrow> x)"

definition sample_deny_rule :: trust_rule where
  "sample_deny_rule = \<lparr>ur_id = sample_id ''rule'', ur_scope = sample_scope, ur_effect = EffectDeny,
     ur_created = 0, ur_expires = None, ur_revoked = None, ur_source = None\<rparr>"

definition sample_trust :: project_trust where
  "sample_trust = \<lparr>pt_project = sample_id ''prj'', pt_identity = sample_hex 64, pt_mode = BALANCED,
     pt_paths = [''.''], pt_cutoff = None\<rparr>"

definition deny_policy :: trust_policy where
  "deny_policy = \<lparr>tp_revision = 1, tp_projects = [sample_trust], tp_rules = [sample_deny_rule]\<rparr>"

definition denied_world :: policy_world where
  "denied_world = sample_world\<lparr>pw_file := Some deny_policy\<rparr>"

lemma denied_context: "policy_context sample_env denied_world sample_write sample_task phase1_fake =
    Inr (sample_project, cv_spec sample_config, sample_trust, deny_policy, sample_scope)"
  by code_simp

lemma denied_matches: "rule_matches (\<lambda>s. s) (\<lambda>_. sample_hex 64) sample_deny_rule sample_scope 5 = Inr True"
  by code_simp

lemma denied_active: "rule_is_active sample_env denied_world n sample_deny_rule = Inr True"
  by (simp add: rule_is_active_def sample_deny_rule_def expired_def)

definition denied_decision :: permission_decision where
  "denied_decision = (case evaluate_permission sample_env denied_world sample_write sample_task phase1_fake of
     Inr d \<Rightarrow> d | Inl e \<Rightarrow> plain_decision ALLOW [])"

lemma denied_evaluation:
  "evaluate_permission sample_env denied_world sample_write sample_task phase1_fake = Inr denied_decision"
  by code_simp

theorem user_denial_wins_witness: "pd_outcome denied_decision = DENY"
proof (rule user_denial_wins[OF denied_context _ _ _ _ denied_evaluation, of sample_deny_rule])
  show "rule_is_active sample_env denied_world n sample_deny_rule = Inr True" for n
    by (rule denied_active)
  show "rule_matches (pe_fold sample_env) (sha256 (pe_fx sample_env)) sample_deny_rule sample_scope
      (pe_now sample_env n) = Inr True" for n
    using denied_matches by (simp add: sample_env_def sample_fx_def)
qed (simp_all add: deny_policy_def sample_deny_rule_def)

text \<open>The same run, paused for the approval of that write.\<close>

definition paused_run :: run where
  "paused_run = sample_run\<lparr>run_status := PAUSED_FOR_APPROVAL, run_pending_approval := Some ''q''\<rparr>"

definition paused_intent :: stored_intent where
  "paused_intent = \<lparr>si_intent = sample_write, si_hash = sample_hex 64, si_status = PENDING_APPROVAL,
     si_approval = Some ''q'', si_result = None\<rparr>"

definition pending_request :: approval_request where
  "pending_request = \<lparr>ap_id = ''q'', ap_intent = ''i'', ap_run = sample_id ''run'', ap_hash = sample_hex 64,
     ap_role = ''engineer'', ap_action = ''workspace.write_file'', ap_resource = ti_resource sample_write,
     ap_reason = ''r'', ap_status = ApPending, ap_choices = [ChoiceDeny, ALLOW_ONCE], ap_scope = None,
     ap_resolution = None, ap_rule = None, ap_created = 0, ap_expires = 100, ap_resolved = None,
     ap_denial_reason = None\<rparr>"

definition writing_agent :: agent_instance where
  "writing_agent = \<lparr>agent_id = ''a'', agent_run = sample_id ''run'', agent_task = Some (sample_id ''task''),
     agent_role = ''engineer'', agent_kind = Some ENGINEER, agent_status = AgRunning, agent_iteration = 0,
     agent_created_at = 0, agent_completed_at = None\<rparr>"

definition paused_store :: store where
  "paused_store = sample_store\<lparr>db_runs := [\<lparr>rr_id = run_id sample_run, rr_project = run_project sample_run,
       rr_status = PAUSED_FOR_APPROVAL, rr_stage = Some IMPLEMENTING, rr_data = paused_run\<rparr>],
     db_agents := [\<lparr>ar_id = ''a'', ar_run = sample_id ''run'', ar_task = Some (sample_id ''task''),
       ar_role = ''engineer'', ar_data = writing_agent\<rparr>],
     st_intents := [row_of_intent paused_intent], st_approvals := [row_of_approval pending_request]\<rparr>"

definition paused_world :: policy_world where
  "paused_world = sample_world\<lparr>pw_store := paused_store\<rparr>"

definition sample_approval :: "capability_grant outcome" where
  "sample_approval = approve sample_env True ''q'' ALLOW_ONCE ''user'' paused_world"

lemma sample_approval_ok: "case sample_approval of (w, r) \<Rightarrow> \<not> isl r"
  by code_simp

theorem approval_below_ceiling_witness:
  "\<exists>d t sb. evaluate_permission sample_env paused_world sample_write t sb = Inr d \<and> pd_outcome d \<noteq> DENY"
proof -
  obtain w g where ok: "approve sample_env True ''q'' ALLOW_ONCE ''user'' paused_world = (w, Inr g)"
    using sample_approval_ok unfolding sample_approval_def
    by (cases "approve sample_env True ''q'' ALLOW_ONCE ''user'' paused_world"; cases "snd (approve
        sample_env True ''q'' ALLOW_ONCE ''user'' paused_world)") auto
  have q: "get_approval (pw_store paused_world) ''q'' = Inr pending_request"
    and i: "get_intent (pw_store paused_world) (ap_intent pending_request) = Inr paused_intent"
    by (simp_all add: get_approval_def get_intent_def paused_world_def sample_world_def paused_store_def
        row_of_approval_def row_of_intent_def row_lookup_def pending_request_def paused_intent_def
        sample_write_def)
  show ?thesis
    using approval_below_ceiling[OF ok q] i by (auto simp: pending_request_def paused_intent_def)
qed

end
