(* ===== verification/Trust_Witnesses.thy ===== *)
theory Trust_Witnesses
  imports Trust_Machine Permission_Properties
begin

text \<open>
  Concrete worlds at which the properties of the trust machine apply: a policy with one revoked rule,
  a reset of the sample project, and a first publication.
\<close>

definition sample_fold :: "string \<Rightarrow> string" where
  "sample_fold s = s"

definition sample_sha :: "string \<Rightarrow> string" where
  "sample_sha s = sample_hex 64"

definition revoked_policy :: trust_policy where
  "revoked_policy = deny_policy\<lparr>tp_rules := [sample_deny_rule\<lparr>ur_revoked := Some 1\<rparr>]\<rparr>"

definition revoked_world :: policy_world where
  "revoked_world = sample_world\<lparr>pw_file := Some revoked_policy\<rparr>"

lemma revoked_normal: "normal_policy sample_fold sample_sha revoked_policy"
  unfolding normal_policy_def by code_simp

lemma revoked_world_ok: "world_ok sample_fold sample_sha revoked_world"
  by (simp add: world_ok_def revoked_world_def revoked_normal)

lemma revoked_file: "pw_file revoked_world = Some revoked_policy"
  by (simp add: revoked_world_def)

theorem rule_revocation_final_witness:
  "\<exists>q s. pw_file (after_commands sample_fold sample_sha revoked_world
        [Reset sample_env ''/repo'' ''user'', Revoke sample_env (sample_id ''rule'') ''user'']) = Some q
     \<and> find_rule q (sample_id ''rule'') = Some s \<and> ur_revoked s = Some 1"
  using rule_revocation_final[OF revoked_world_ok revoked_file,
      of "sample_deny_rule\<lparr>ur_revoked := Some 1\<rparr>"]
  by (fastforce simp: revoked_policy_def sample_deny_rule_def)

theorem published_policy_retained_witness:
  "\<exists>q. pw_file (after_commands sample_fold sample_sha revoked_world
        [Configure sample_env ''/repo'' SAFE None ''user'' None]) = Some q
     \<and> (q = revoked_policy \<or> 1 < tp_revision q)"
  using published_policy_retained[OF revoked_world_ok revoked_file,
      of "[Configure sample_env ''/repo'' SAFE None ''user'' None]"]
  by (auto simp: revoked_policy_def deny_policy_def)

definition sample_reset :: "int outcome" where
  "sample_reset = reset (at_env sample_fold sample_sha sample_env) ''/repo'' ''user'' revoked_world"

lemma sample_reset_value: "snd sample_reset = Inr 5"
  by code_simp

lemma sample_reset_ok:
  "reset (at_env sample_fold sample_sha sample_env) ''/repo'' ''user'' revoked_world =
     (fst sample_reset, Inr 5)"
  using sample_reset_value by (simp add: sample_reset_def prod_eq_iff)

lemma sample_reset_project: "project_at (at_env sample_fold sample_sha sample_env) ''/repo'' = Inr sample_project"
  by code_simp

lemma sample_reset_grants: "list_project_grants (pw_store revoked_world) (pj_id sample_project) = Inr []"
  by code_simp

theorem reset_invalidates_grants_witness:
  "\<exists>q. pw_file (after_commands sample_fold sample_sha (fst sample_reset) []) = Some q
     \<and> (\<forall>g. cg_issued g \<le> 5 \<longrightarrow> grant_matches sample_env sample_world [] g sample_write
          (sample_scope\<lparr>xs_project := pj_id sample_project\<rparr>) q = Inr False)"
  using reset_invalidates_grants[OF revoked_world_ok sample_reset_ok sample_reset_project
      sample_reset_grants, of "[]"] by fastforce

definition first_publication :: "trust_policy outcome" where
  "first_publication = publish_policy_change sample_env (sample_id ''prj'') ''a'' empty_policy empty_policy
     JNull sample_world"

lemma first_publication_changes: "pw_file (fst first_publication) \<noteq> pw_file sample_world"
  by code_simp

theorem evidence_before_effect_witness:
  "\<exists>published row. pw_file (fst first_publication) = Some published
     \<and> row \<in> set (db_events (pw_store (fst first_publication)))
     \<and> er_type row = ''permission.policy_change_prepared''"
  using evidence_before_effect[of sample_env "sample_id ''prj''" "''a''" empty_policy empty_policy JNull
      sample_world "fst first_publication" "snd first_publication"] first_publication_changes
  by (auto simp: first_publication_def)

end
