(* ===== verification/Graph_Types.thy ===== *)
theory Graph_Types
  imports Runtime_Budgets Resource_Records Role_Templates
begin

text \<open>
  The durable graph of a run that is carried out by several child runs: the records of
  \<open>domain/graph.py\<close> with their constructor checks, the three tables of migration 0006, and what
  the store takes from outside. A hash of a model (\<open>canonical_json_hash\<close> of its
  \<open>model_dump\<close>) is the parameter \<open>digest\<close> on \<open>graph_value\<close>.
\<close>

section \<open>Records\<close>

datatype graph_status = GReady | GRunning | GPaused | GJoined | GFailed | GCancelled

datatype node_status =
  NPending | NRunning | NWaiting | NSucceeded | NFailed | NBlocked | NCancelled

primrec graph_status_value :: "graph_status \<Rightarrow> string" where
  "graph_status_value GReady = ''ready''"
| "graph_status_value GRunning = ''running''"
| "graph_status_value GPaused = ''paused''"
| "graph_status_value GJoined = ''joined''"
| "graph_status_value GFailed = ''failed''"
| "graph_status_value GCancelled = ''cancelled''"

primrec node_status_value :: "node_status \<Rightarrow> string" where
  "node_status_value NPending = ''pending''"
| "node_status_value NRunning = ''running''"
| "node_status_value NWaiting = ''waiting_approval''"
| "node_status_value NSucceeded = ''succeeded''"
| "node_status_value NFailed = ''failed''"
| "node_status_value NBlocked = ''blocked''"
| "node_status_value NCancelled = ''cancelled''"

record child_seed =
  cs_node :: string
  cs_run :: run
  cs_task :: task_spec

record child_binding =
  gb_project :: string
  gb_parent :: string
  gb_plan :: string
  gb_node :: string
  gb_iteration :: int
  gb_child :: string
  gb_task :: string
  gb_node_hash :: string
  gb_task_hash :: string
  gb_run_hash :: string
  gb_created :: int

record driver_claim =
  gc_parent :: string
  gc_plan :: string
  gc_id :: string
  gc_generation :: int
  gc_at :: int

record artifact_ref =
  rf_id :: string
  rf_sha :: string
  rf_run :: string
  rf_kind :: artifact_kind

record node_record =
  nr_binding :: child_binding
  nr_node :: fleet_plan_node
  nr_status :: node_status
  nr_revision :: int
  nr_inputs :: "artifact_ref list"
  nr_outputs :: "artifact_ref list"
  nr_error :: "error_code option"
  nr_started :: "int option"
  nr_finished :: "int option"
  nr_updated :: int

record join_input =
  ji_node :: string
  ji_run :: string
  ji_task :: string
  ji_patch :: string
  ji_patch_sha :: string
  ji_report :: string
  ji_report_sha :: string

record join_preparation =
  jp_parent :: string
  jp_task :: string
  jp_config :: string
  jp_plan :: string
  jp_iteration :: int
  jp_base :: string
  jp_inputs :: "join_input list"
  jp_created :: int

record join_completion =
  jc_preparation :: string
  jc_patch :: string
  jc_patch_sha :: string
  jc_workspace :: string
  jc_created :: int

record graph =
  gs_project :: string
  gs_parent :: string
  gs_task :: string
  gs_plan_id :: string
  gs_plan_artifact :: string
  gs_plan_sha :: string
  gs_plan :: fleet_plan
  gs_status :: graph_status
  gs_revision :: int
  gs_generation :: int
  gs_claim :: "driver_claim option"
  gs_nodes :: "node_record list"
  gs_preparation :: "join_preparation option"
  gs_completion :: "join_completion option"
  gs_cancelled_at :: "int option"
  gs_created :: int
  gs_updated :: int

record manifest =
  mf_snapshot :: graph
  mf_parent_binding :: string
  mf_parent_task :: string

datatype graph_value =
    VNode fleet_plan_node
  | VIdentity run
  | VTask task_spec
  | VPlan fleet_plan
  | VSeed child_seed
  | VBinding child_binding
  | VClaim driver_claim
  | VRef artifact_ref
  | VRecord node_record
  | VPreparation join_preparation
  | VCompletion join_completion
  | VGraph graph
  | VManifest manifest
  | VApproval approval_request
  | VLease resource_lease

section \<open>Constructor checks\<close>

definition opt_le :: "int option \<Rightarrow> int option \<Rightarrow> bool" where
  "opt_le a b = (case (a, b) of (Some x, Some y) \<Rightarrow> x \<le> y | _ \<Rightarrow> True)"

definition binding_ok :: "child_binding \<Rightarrow> bool" where
  "binding_ok b \<longleftrightarrow> opaque_ok ''prj'' (gb_project b) \<and> opaque_ok ''run'' (gb_parent b)
     \<and> sha256_ok (gb_plan b) \<and> node_id_ok (gb_node b) \<and> gb_iteration b = 0
     \<and> opaque_ok ''run'' (gb_child b) \<and> opaque_ok ''task'' (gb_task b) \<and> sha256_ok (gb_node_hash b)
     \<and> sha256_ok (gb_task_hash b) \<and> sha256_ok (gb_run_hash b) \<and> gb_parent b \<noteq> gb_child b"

definition claim_ok :: "driver_claim \<Rightarrow> bool" where
  "claim_ok c \<longleftrightarrow> opaque_ok ''run'' (gc_parent c) \<and> sha256_ok (gc_plan c) \<and> opaque_ok ''corr'' (gc_id c)
     \<and> 1 \<le> gc_generation c"

definition ref_ok :: "artifact_ref \<Rightarrow> bool" where
  "ref_ok r \<longleftrightarrow> opaque_ok ''art'' (rf_id r) \<and> sha256_ok (rf_sha r) \<and> opaque_ok ''run'' (rf_run r)"

definition record_ok :: "(graph_value \<Rightarrow> string) \<Rightarrow> node_record \<Rightarrow> bool" where
  "record_ok dg r \<longleftrightarrow> binding_ok (nr_binding r) \<and> 0 \<le> nr_revision r
     \<and> list_all ref_ok (nr_inputs r) \<and> list_all ref_ok (nr_outputs r)
     \<and> length (nr_inputs r) \<le> 64 \<and> length (nr_outputs r) \<le> 64
     \<and> \<not> (node_id (nr_node r) \<noteq> gb_node (nr_binding r) \<or> independent_verifier (nr_node r))
     \<and> dg (VNode (nr_node r)) = gb_node_hash (nr_binding r)
     \<and> distinct (map rf_id (nr_inputs r)) \<and> distinct (map rf_id (nr_outputs r))
     \<and> \<not> (nr_status r = NPending \<and> nr_started r \<noteq> None)
     \<and> \<not> (nr_status r \<in> {NRunning, NWaiting} \<and> (nr_started r = None \<or> nr_finished r \<noteq> None))
     \<and> \<not> (nr_status r = NSucceeded
          \<and> (nr_outputs r = [] \<or> nr_started r = None \<or> nr_finished r = None))
     \<and> opt_le (nr_started r) (nr_finished r)"

definition join_input_ok :: "join_input \<Rightarrow> bool" where
  "join_input_ok i \<longleftrightarrow> node_id_ok (ji_node i) \<and> opaque_ok ''run'' (ji_run i) \<and> opaque_ok ''task'' (ji_task i)
     \<and> opaque_ok ''art'' (ji_patch i) \<and> sha256_ok (ji_patch_sha i)
     \<and> opaque_ok ''art'' (ji_report i) \<and> sha256_ok (ji_report_sha i)"

definition preparation_ok :: "join_preparation \<Rightarrow> bool" where
  "preparation_ok p \<longleftrightarrow> opaque_ok ''run'' (jp_parent p) \<and> opaque_ok ''task'' (jp_task p)
     \<and> sha256_ok (jp_config p) \<and> sha256_ok (jp_plan p) \<and> jp_iteration p = 0
     \<and> 1 \<le> py_len (jp_base p) \<and> py_len (jp_base p) \<le> 256
     \<and> bounded_list 1 16 (jp_inputs p) \<and> list_all join_input_ok (jp_inputs p)
     \<and> map ji_node (jp_inputs p) = sort_strings (map ji_node (jp_inputs p))
     \<and> distinct (map ji_run (jp_inputs p))"

definition completion_ok :: "join_completion \<Rightarrow> bool" where
  "completion_ok c \<longleftrightarrow> sha256_ok (jc_preparation c) \<and> opaque_ok ''art'' (jc_patch c)
     \<and> sha256_ok (jc_patch_sha c) \<and> opaque_ok ''ws'' (jc_workspace c)"

text \<open>\<open>GraphSnapshot.validate_snapshot\<close>.\<close>

definition child_nodes :: "fleet_plan \<Rightarrow> fleet_plan_node list" where
  "child_nodes p = filter (\<lambda>n. \<not> independent_verifier n) (nodes p)"

definition nodes_bound :: "graph \<Rightarrow> bool" where
  "nodes_bound g \<longleftrightarrow>
     (let expected = map (\<lambda>n. (node_id n, n)) (child_nodes (gs_plan g)) in
      set (map fst expected) = set (map (\<lambda>r. gb_node (nr_binding r)) (gs_nodes g))
      \<and> length (remdups (map fst expected)) = length (gs_nodes g)
      \<and> list_all (\<lambda>r. map_of expected (gb_node (nr_binding r)) = Some (nr_node r)
           \<and> (gb_parent (nr_binding r), gb_project (nr_binding r), gb_plan (nr_binding r))
             = (gs_parent g, gs_project g, gs_plan_sha g)) (gs_nodes g))"

definition graph_fields_ok :: "graph \<Rightarrow> bool" where
  "graph_fields_ok g \<longleftrightarrow> opaque_ok ''prj'' (gs_project g) \<and> opaque_ok ''run'' (gs_parent g)
     \<and> opaque_ok ''task'' (gs_task g) \<and> opaque_ok ''plan'' (gs_plan_id g)
     \<and> opaque_ok ''art'' (gs_plan_artifact g) \<and> sha256_ok (gs_plan_sha g)
     \<and> 0 \<le> gs_revision g \<and> 0 \<le> gs_generation g \<and> opt_all claim_ok (gs_claim g)
     \<and> bounded_list 1 16 (gs_nodes g) \<and> opt_all preparation_ok (gs_preparation g)
     \<and> opt_all completion_ok (gs_completion g)"

definition graph_ok :: "(string \<Rightarrow> string) \<Rightarrow> (graph_value \<Rightarrow> string) \<Rightarrow> graph \<Rightarrow> bool" where
  "graph_ok cf dg g \<longleftrightarrow> graph_fields_ok g \<and> validate_plan cf (gs_plan g) = Inr (gs_plan g)
     \<and> list_all (record_ok dg) (gs_nodes g)
     \<and> (plan_id (gs_plan g), plan_run_id (gs_plan g), plan_task_id (gs_plan g))
         = (gs_plan_id g, gs_parent g, gs_task g)
     \<and> nodes_bound g
     \<and> opt_all (\<lambda>c. gc_parent c = gs_parent g \<and> gc_plan c = gs_plan_sha g
          \<and> gc_generation c = gs_generation g) (gs_claim g)
     \<and> \<not> (gs_status g = GRunning \<and> gs_claim g = None)
     \<and> opt_all (\<lambda>c. opt_all (\<lambda>p. jc_preparation c = dg (VPreparation p)) (gs_preparation g)
          \<and> gs_preparation g \<noteq> None) (gs_completion g)
     \<and> \<not> (gs_status g = GJoined \<and> gs_completion g = None)
     \<and> \<not> (gs_status g = GCancelled \<and> gs_cancelled_at g = None)"

section \<open>Tables\<close>

datatype claim_status = ClaimActive | ClaimReleased | ClaimCancelled

record graph_row =
  fg_parent :: string
  fg_project :: string
  fg_plan :: string
  fg_revision :: int
  fg_status :: graph_status
  fg_generation :: int
  fg_claim :: "string option"
  fg_manifest :: manifest
  fg_data :: graph

record node_row =
  fn_parent :: string
  fn_node :: string
  fn_iteration :: int
  fn_child :: string
  fn_task :: string
  fn_revision :: int
  fn_status :: node_status
  fn_binding :: child_binding
  fn_data :: node_record

record driver_row =
  fc_id :: string
  fc_parent :: string
  fc_generation :: int
  fc_plan :: string
  fc_status :: claim_status
  fc_at :: int
  fc_released :: "int option"
  fc_data :: driver_claim

record artifact_row =
  ax_id :: string
  ax_project :: string
  ax_run :: "string option"
  ax_kind :: artifact_kind
  ax_sha :: string
  ax_data :: artifact_metadata

text \<open>
  The database as the graph store sees it: the ledger, whose tables it fills for new children, the
  tables it only reads, and its own three.
\<close>

record graph_db = ledger +
  gd_approvals :: "approval_row list"
  gd_leases :: "lease_row list"
  gd_artifacts :: "artifact_row list"
  gd_graphs :: "graph_row list"
  gd_nodes :: "node_row list"
  gd_claims :: "driver_row list"

section \<open>What the store takes from outside\<close>

text \<open>
  \<open>config_port\<close> is \<open>ConfigurationPort\<close>: reading a snapshot back from its files and
  resolving its role templates. \<open>ge_unfit\<close> says that the text of a value holds a secret or is
  longer than 1 MiB. \<open>ge_blob\<close> is the artifact store. The \<open>ge_\<dots>\<close> parsers are pydantic's,
  from the bytes of an artifact; a report is only tested, except for the role it names.
\<close>

record config_port =
  cp_files :: "string \<Rightarrow> snapshot_file list option"
  cp_snapshot :: "(string \<times> string) list \<Rightarrow> (fleet_spec \<times> snapshot_file list) res"
  cp_templates :: "fleet_spec \<Rightarrow> snapshot_file list \<Rightarrow> templates res"

record cleanup_receipt =
  cr_run :: string
  cr_leases :: "(string \<times> lease_kind \<times> string \<times> lease_status) list"
  cr_complete :: bool

record graph_env =
  ge_base :: budget_env
  ge_fold :: "string \<Rightarrow> string"
  digest :: "graph_value \<Rightarrow> string"
  ge_unfit :: "graph_value \<Rightarrow> bool"
  ge_admit :: "run \<Rightarrow> string \<Rightarrow> unit res"
  ge_record_admission :: "run \<Rightarrow> string \<Rightarrow> unit res"
  ge_blob :: "string \<Rightarrow> string \<Rightarrow> string res"
  ge_plan :: "string \<Rightarrow> fleet_plan option"
  ge_task :: "string \<Rightarrow> task_spec option"
  ge_implementation :: "string \<Rightarrow> bool"
  ge_specialist :: "string \<Rightarrow> string option"
  ge_cleanup :: "string \<Rightarrow> cleanup_receipt option"
  ge_config :: "config_port option"

text \<open>\<open>ResourceCleanupReceipt.validate_terminal_snapshot\<close>.\<close>

definition cleanup_receipt_ok :: "cleanup_receipt \<Rightarrow> bool" where
  "cleanup_receipt_ok c \<longleftrightarrow> opaque_ok ''run'' (cr_run c) \<and> length (cr_leases c) \<le> 1024
     \<and> distinct (map fst (cr_leases c))
     \<and> cr_complete c = list_all (\<lambda>(_, _, _, s). s \<in> {LeaseReleased, LeaseRecovered}) (cr_leases c)"

end
