(* ===== verification/Graph_Store.thy ===== *)
theory Graph_Store
  imports Graph_Types Budget_Operations
begin

text \<open>
  Reading in \<open>SqliteGraphStore\<close> (\<open>adapters/persistence/graphs.py\<close>): the trusted reads of runs,
  artifacts and plans, the durable graph with all its integrity checks (\<open>_get\<close>), and the two
  writes of a graph row and a node row.
\<close>

section \<open>Identities\<close>

definition TERMINAL_RUNS :: "run_status list" where
  "TERMINAL_RUNS = [COMPLETED, FAILED, CANCELLED, REJECTED, ABANDONED]"

definition TERMINAL_NODES :: "node_status list" where
  "TERMINAL_NODES = [NSucceeded, NFailed, NBlocked, NCancelled]"

definition ADVANCED :: "fleet_strategy list" where
  "ADVANCED = [PARALLEL_ENGINEERS, RESEARCH_ARCHITECT_ENGINEER_VERIFIER]"

primrec strategy_value :: "fleet_strategy \<Rightarrow> string" where
  "strategy_value DIRECT = ''direct''"
| "strategy_value SINGLE_ENGINEER = ''single_engineer''"
| "strategy_value ENGINEER_VERIFIER = ''engineer_verifier''"
| "strategy_value PARALLEL_ENGINEERS = ''parallel_engineers''"
| "strategy_value RESEARCH_ARCHITECT_ENGINEER_VERIFIER = ''research_architect_engineer_verifier''"

text \<open>\<open>_INHERITED_RUN_FIELDS\<close>: a child agrees with its parent on all of them.\<close>

definition inherits :: "run \<Rightarrow> run \<Rightarrow> bool" where
  "inherits child parent \<longleftrightarrow> run_bindings child = run_bindings parent
     \<and> run_project child = run_project parent \<and> run_base_revision child = run_base_revision parent
     \<and> run_target_fingerprint child = run_target_fingerprint parent
     \<and> run_runtime_name child = run_runtime_name parent
     \<and> run_provider_model child = run_provider_model parent \<and> run_credential child = run_credential parent
     \<and> run_sandbox_name child = run_sandbox_name parent
     \<and> run_configuration child = run_configuration parent
     \<and> run_configuration_hash child = run_configuration_hash parent
     \<and> run_requirements child = run_requirements parent \<and> run_capabilities child = run_capabilities parent
     \<and> run_capabilities_hash child = run_capabilities_hash parent \<and> run_image child = run_image parent
     \<and> run_daemon child = run_daemon parent \<and> run_unsafe_confirmed child = run_unsafe_confirmed parent
     \<and> run_scenario child = run_scenario parent \<and> run_config_hash child = run_config_hash parent"

text \<open>
  \<open>_IDENTITY_RUN_FIELDS\<close> and \<open>_run_hash\<close>: the run with every field outside its identity at the
  default.
\<close>

definition identity_of :: "run \<Rightarrow> run" where
  "identity_of r = (new_run (run_id r) (run_project r) (run_correlation r) (run_goal r)
       (run_base_revision r) (run_target_fingerprint r) (run_created_at r))
     \<lparr>run_parent := run_parent r, run_parent_plan := run_parent_plan r, run_parent_node := run_parent_node r,
      run_parent_iteration := run_parent_iteration r, run_plan_review := run_plan_review r,
      run_runtime_name := run_runtime_name r, run_provider_model := run_provider_model r,
      run_credential := run_credential r, run_bindings := run_bindings r,
      run_sandbox_name := run_sandbox_name r, run_configuration := run_configuration r,
      run_configuration_hash := run_configuration_hash r, run_requirements := run_requirements r,
      run_capabilities := run_capabilities r, run_capabilities_hash := run_capabilities_hash r,
      run_image := run_image r, run_daemon := run_daemon r, run_unsafe_confirmed := run_unsafe_confirmed r,
      run_scenario := run_scenario r, run_task := run_task r, run_config_hash := run_config_hash r,
      run_max_repairs := run_max_repairs r, run_updated_at := 0\<rparr>"

definition run_hash :: "graph_env \<Rightarrow> run \<Rightarrow> string" where
  "run_hash env r = digest env (VIdentity (identity_of r))"

section \<open>Validated values\<close>

text \<open>\<open>_validated\<close> and \<open>_decode\<close>: no secret, at most 1 MiB of text, and the constructor checks.\<close>

definition fit :: "graph_env \<Rightarrow> graph_value \<Rightarrow> unit res" where
  "fit env v = require (\<not> ge_unfit env v) invalid"

definition valid_record :: "graph_env \<Rightarrow> node_record \<Rightarrow> node_record res" where
  "valid_record env r = bind_res (fit env (VRecord r)) (\<lambda>_.
     bind_res (require (record_ok (digest env) r) ValueError) (\<lambda>_. Inr r))"

definition valid_graph :: "graph_env \<Rightarrow> graph \<Rightarrow> graph res" where
  "valid_graph env g = bind_res (fit env (VGraph g)) (\<lambda>_.
     bind_res (require (graph_ok (ge_fold env) (digest env) g) ValueError) (\<lambda>_. Inr g))"

definition valid_claim :: "graph_env \<Rightarrow> driver_claim \<Rightarrow> driver_claim res" where
  "valid_claim env c = bind_res (fit env (VClaim c)) (\<lambda>_.
     bind_res (require (claim_ok c) ValueError) (\<lambda>_. Inr c))"

definition valid_refs :: "graph_env \<Rightarrow> artifact_ref list \<Rightarrow> unit res" where
  "valid_refs env refs = check_all (\<lambda>r. bind_res (fit env (VRef r)) (\<lambda>_.
     require (ref_ok r) ValueError)) refs"

definition valid_manifest :: "graph_env \<Rightarrow> manifest \<Rightarrow> manifest res" where
  "valid_manifest env m = bind_res (fit env (VManifest m)) (\<lambda>_.
     bind_res (require (graph_ok (ge_fold env) (digest env) (mf_snapshot m)
       \<and> sha256_ok (mf_parent_binding m) \<and> sha256_ok (mf_parent_task m)) ValueError) (\<lambda>_. Inr m))"

definition valid_plan :: "graph_env \<Rightarrow> fleet_plan \<Rightarrow> fleet_plan res" where
  "valid_plan env p = bind_res (fit env (VPlan p)) (\<lambda>_. validate_plan (ge_fold env) p)"

section \<open>Trusted reads\<close>

definition clean_text :: "graph_env \<Rightarrow> string \<Rightarrow> unit res" where
  "clean_text env s = require (\<not> tainted (ge_base env) (JStr s)) invalid"

definition g_run :: "graph_env \<Rightarrow> graph_db \<Rightarrow> string \<Rightarrow> run res" where
  "g_run env db rid = bind_res (clean_text env rid) (\<lambda>_. the_run (ge_base env) db rid)"

definition g_task :: "graph_env \<Rightarrow> graph_db \<Rightarrow> string \<Rightarrow> task_spec res" where
  "g_task env db tid = the_task (ge_base env) db tid"

text \<open>\<open>bytes.decode("utf-8")\<close>: well-formed sequences, without overlong forms or surrogates.\<close>

fun utf8_ok :: "nat list \<Rightarrow> bool" where
  "utf8_ok [] = True"
| "utf8_ok (a # s) =
    (if a < 0x80 then utf8_ok s
     else case s of [] \<Rightarrow> False
     | b # t \<Rightarrow>
       if 0xC2 \<le> a \<and> a \<le> 0xDF then 0x80 \<le> b \<and> b \<le> 0xBF \<and> utf8_ok t
       else case t of [] \<Rightarrow> False
       | c # u \<Rightarrow>
         if 0xE0 \<le> a \<and> a \<le> 0xEF then
           (if a = 0xE0 then 0xA0 else 0x80) \<le> b \<and> b \<le> (if a = 0xED then 0x9F else 0xBF)
           \<and> 0x80 \<le> c \<and> c \<le> 0xBF \<and> utf8_ok u
         else case u of [] \<Rightarrow> False
         | d # v \<Rightarrow> 0xF0 \<le> a \<and> a \<le> 0xF4
             \<and> (if a = 0xF0 then 0x90 else 0x80) \<le> b \<and> b \<le> (if a = 0xF4 then 0x8F else 0xBF)
             \<and> 0x80 \<le> c \<and> c \<le> 0xBF \<and> 0x80 \<le> d \<and> d \<le> 0xBF \<and> utf8_ok v)"

definition artifact_matches :: "artifact_row \<Rightarrow> artifact_ref \<Rightarrow> string \<Rightarrow> string \<Rightarrow> bool" where
  "artifact_matches row ref project task \<longleftrightarrow> (let m = ax_data row in
     \<not> (am_id m \<noteq> rf_id ref \<or> am_sha m \<noteq> rf_sha ref \<or> am_run m \<noteq> Some (rf_run ref)
        \<or> am_project m \<noteq> project \<or> am_task m \<noteq> Some task \<or> am_kind m \<noteq> rf_kind ref
        \<or> am_project m \<noteq> ax_project row \<or> am_run m \<noteq> ax_run row \<or> am_kind m \<noteq> ax_kind row
        \<or> am_sha m \<noteq> ax_sha row \<or> 2097152 < am_size m))"

definition artifact ::
    "graph_env \<Rightarrow> graph_db \<Rightarrow> artifact_ref \<Rightarrow> string \<Rightarrow> string \<Rightarrow> string res" where
  "artifact env db ref project task =
     bind_res (valid_refs env [ref]) (\<lambda>_.
     bind_res (some_or invalid (row_lookup ax_id (rf_id ref) (gd_artifacts db))) (\<lambda>row.
     bind_res (require (artifact_matches row ref project task) invalid) (\<lambda>_.
     bind_res (ge_blob env (am_ref (ax_data row)) (am_sha (ax_data row))) (\<lambda>content.
     bind_res (require (int (length content) = am_size (ax_data row)
         \<and> sha256 (ge_base env) content = rf_sha ref) invalid) (\<lambda>_.
     bind_res (require (utf8_ok (map byte content)) invalid) (\<lambda>_.
     bind_res (clean_text env content) (\<lambda>_. Inr content)))))))"

definition artifact_of_run ::
    "graph_env \<Rightarrow> graph_db \<Rightarrow> run \<Rightarrow> string option \<Rightarrow> string option \<Rightarrow> artifact_kind \<Rightarrow> string \<Rightarrow> string \<Rightarrow> string res" where
  "artifact_of_run env db r aid sha kind project task =
     bind_res (some_or invalid aid) (\<lambda>a.
     bind_res (some_or invalid sha) (\<lambda>h.
     artifact env db \<lparr>rf_id = a, rf_sha = h, rf_run = run_id r, rf_kind = kind\<rparr> project task))"

text \<open>A decoded artifact text has at most 1 MiB.\<close>

definition decoded :: "string \<Rightarrow> 'a option \<Rightarrow> 'a res" where
  "decoded raw x = bind_res (require (length raw \<le> 1048576) invalid) (\<lambda>_. some_or ValueError x)"

definition plan_templates :: "graph_env \<Rightarrow> graph_db \<Rightarrow> run \<Rightarrow> string \<Rightarrow> templates res" where
  "plan_templates env db parent task =
     bind_res (some_or invalid (ge_config env)) (\<lambda>port.
     bind_res (artifact_of_run env db parent (run_config_artifact parent) (run_config_hash parent)
         CONFIG_SNAPSHOT (run_project parent) task) (\<lambda>raw.
     bind_res (some_or ValueError (cp_files port raw)) (\<lambda>files.
     bind_res (cp_snapshot port (map (\<lambda>f. (sf_path f, sf_content f)) files)) (\<lambda>(spec, rebuilt).
     bind_res (require (rebuilt = files) invalid) (\<lambda>_. cp_templates port spec files)))))"

definition the_plan :: "graph_env \<Rightarrow> graph_db \<Rightarrow> run \<Rightarrow> fleet_plan res" where
  "the_plan env db parent =
     bind_res (some_or invalid (run_task parent)) (\<lambda>task.
     bind_res (require (run_parent parent = None) invalid) (\<lambda>_.
     bind_res (artifact_of_run env db parent (run_plan_artifact parent) (run_plan_hash parent)
         FLEET_PLAN (run_project parent) task) (\<lambda>raw.
     bind_res (decoded raw (ge_plan env raw)) (\<lambda>parsed.
     bind_res (validate_plan (ge_fold env) parsed) (\<lambda>plan.
     bind_res (g_task env db task) (\<lambda>t.
     bind_res (validate_fleet_plan (ge_fold env) plan t None) (\<lambda>_.
     bind_res (if list_ex (\<lambda>n. execution_kind n \<noteq> None) (nodes plan) \<or> repair_role_id plan \<noteq> None
         then bind_res (plan_templates env db parent task) (validate_role_plan (ge_fold env) plan)
         else Inr ()) (\<lambda>_.
     bind_res (require (\<not> (strategy plan \<notin> set ADVANCED
         \<or> run_strategy parent \<noteq> Some (strategy_value (strategy plan)))) invalid) (\<lambda>_.
     Inr plan)))))))))"

definition g_child :: "graph_env \<Rightarrow> graph_db \<Rightarrow> child_binding \<Rightarrow> run \<Rightarrow> (run \<times> task_spec) res" where
  "g_child env db b parent =
     bind_res (g_run env db (gb_child b)) (\<lambda>child.
     bind_res (g_task env db (gb_task b)) (\<lambda>task.
     bind_res (require (\<not> (run_project child \<noteq> run_project parent
         \<or> run_task child \<noteq> Some (gb_task b)
         \<or> task_run_id task \<noteq> run_id child
         \<or> run_hash env child \<noteq> gb_run_hash b
         \<or> digest env (VTask task) \<noteq> gb_task_hash b
         \<or> (run_parent child, run_parent_plan child, run_parent_node child, run_parent_iteration child)
            \<noteq> (Some (run_id parent), Some (gb_plan b), Some (gb_node b), Some (gb_iteration b))
         \<or> \<not> inherits child parent)) invalid) (\<lambda>_. Inr (child, task))))"

section \<open>Journal entries of the graph\<close>

definition g_event_ok :: "run \<Rightarrow> event_row \<Rightarrow> bool" where
  "g_event_ok parent row \<longleftrightarrow> (let e = er_data row in
     \<not> (event_id e \<noteq> er_id row \<or> event_run e \<noteq> Some (run_id parent)
        \<or> event_project e \<noteq> run_project parent \<or> event_project e \<noteq> er_project row
        \<or> event_correlation e \<noteq> run_correlation parent \<or> event_sequence e \<noteq> Some (er_sequence row)
        \<or> event_type e \<noteq> er_type row \<or> event_occurred_at e \<noteq> er_occurred_at row))"

definition only_row :: "event_row list \<Rightarrow> event_row res" where
  "only_row rows = (case rows of [row] \<Rightarrow> Inr row | _ \<Rightarrow> Inl invalid)"

definition initialization_event :: "graph_env \<Rightarrow> graph_db \<Rightarrow> run \<Rightarrow> manifest \<Rightarrow> unit res" where
  "initialization_event env db parent m =
     bind_res (only_row (filter (\<lambda>e. er_run e = Some (run_id parent) \<and> er_type e = ''graph.initialized'')
         (db_events db))) (\<lambda>row.
     bind_res (clean (ge_base env) (TEvent (er_data row))) (\<lambda>_.
     require (g_event_ok parent row
       \<and> json_eq (event_payload (er_data row)) (JObj [(''manifest_sha256'', JStr (digest env (VManifest m)))]))
       invalid))"

definition graph_kinds :: "string list" where
  "graph_kinds = [''graph.driver_claimed'', ''graph.continuation_claimed'', ''graph.driver_released'',
     ''graph.join_prepared'', ''graph.join_completed'', ''graph.cancel_requested'']"

definition node_kinds :: "string list" where
  "node_kinds = [''graph.node_transitioned'', ''graph.node_cancelled'']"

text \<open>\<open>json_extract\<close> of an absent member and of \<open>null\<close> is \<open>NULL\<close>.\<close>

definition payload_text :: "string \<Rightarrow> json \<Rightarrow> string option" where
  "payload_text k p = (case json_get k p of Some (JStr s) \<Rightarrow> Some s | _ \<Rightarrow> None)"

definition revision_event ::
    "graph_env \<Rightarrow> graph_db \<Rightarrow> run \<Rightarrow> int \<Rightarrow> string \<Rightarrow> string option \<Rightarrow> unit res" where
  "revision_event env db parent revision hash node =
     bind_res (only_row (filter (\<lambda>e. er_run e = Some (run_id parent)
         \<and> er_type e \<in> set (if node \<noteq> None then node_kinds else graph_kinds)
         \<and> json_get ''revision'' (event_payload (er_data e)) = Some (JInt revision)
         \<and> payload_text ''node_id'' (event_payload (er_data e)) = node) (db_events db))) (\<lambda>row.
     bind_res (clean (ge_base env) (TEvent (er_data row))) (\<lambda>_.
     require (g_event_ok parent row
       \<and> json_get (if node \<noteq> None then ''record_sha256'' else ''snapshot_sha256'')
           (event_payload (er_data row)) = Some (JStr hash)) invalid))"

section \<open>The durable graph\<close>

definition claim_record :: "graph_env \<Rightarrow> graph_db \<Rightarrow> driver_claim \<Rightarrow> unit res" where
  "claim_record env db c =
     bind_res (some_or invalid (row_lookup fc_id (gc_id c) (gd_claims db))) (\<lambda>row.
     bind_res (valid_claim env (fc_data row)) (\<lambda>stored.
     require (\<not> (stored \<noteq> c \<or> fc_parent row \<noteq> gc_parent c \<or> fc_generation row \<noteq> gc_generation c
       \<or> fc_plan row \<noteq> gc_plan c \<or> fc_status row \<noteq> ClaimActive \<or> fc_at row \<noteq> gc_at c
       \<or> fc_released row \<noteq> None)) invalid))"

definition find_graph :: "graph_db \<Rightarrow> string \<Rightarrow> graph_row option" where
  "find_graph db p = row_lookup fg_parent p (gd_graphs db)"

text \<open>The identity of a graph is frozen in its manifest.\<close>

definition frozen_identity :: "graph \<Rightarrow> graph \<Rightarrow> bool" where
  "frozen_identity g original \<longleftrightarrow> gs_project g = gs_project original \<and> gs_parent g = gs_parent original
     \<and> gs_task g = gs_task original \<and> gs_plan_id g = gs_plan_id original
     \<and> gs_plan_artifact g = gs_plan_artifact original \<and> gs_plan_sha g = gs_plan_sha original
     \<and> gs_plan g = gs_plan original \<and> gs_created g = gs_created original"

definition check_graph_row :: "graph_env \<Rightarrow> graph_db \<Rightarrow> run \<Rightarrow> graph_row \<Rightarrow> unit res" where
  "check_graph_row env db parent row =
     bind_res (valid_graph env (fg_data row)) (\<lambda>g.
     bind_res (valid_manifest env (fg_manifest row)) (\<lambda>m.
     bind_res (require (\<not> (gs_parent g \<noteq> run_id parent \<or> gs_project g \<noteq> run_project parent
         \<or> gs_project g \<noteq> fg_project row \<or> gs_plan_sha g \<noteq> fg_plan row \<or> gs_revision g \<noteq> fg_revision row
         \<or> gs_status g \<noteq> fg_status row \<or> gs_generation g \<noteq> fg_generation row
         \<or> map_option gc_id (gs_claim g) \<noteq> fg_claim row
         \<or> run_hash env parent \<noteq> mf_parent_binding m)) invalid) (\<lambda>_.
     bind_res (g_task env db (gs_task g)) (\<lambda>task.
     bind_res (require (digest env (VTask task) = mf_parent_task m) invalid) (\<lambda>_.
     bind_res (the_plan env db parent) (\<lambda>plan.
     bind_res (require (gs_plan g = plan \<and> run_plan_hash parent = Some (gs_plan_sha g)
         \<and> frozen_identity g (mf_snapshot m)) invalid) (\<lambda>_.
     bind_res (initialization_event env db parent m) (\<lambda>_.
     if gs_revision g = 0 then require (g = mf_snapshot m) invalid
     else revision_event env db parent (gs_revision g) (digest env (VGraph g)) None))))))))"

definition node_rows :: "graph_db \<Rightarrow> string \<Rightarrow> node_row list" where
  "node_rows db p = map snd (sort_by_key (map (\<lambda>r. (fn_node r, r))
     (filter (\<lambda>r. fn_parent r = p) (gd_nodes db))))"

definition original_record :: "graph \<Rightarrow> string \<Rightarrow> node_record option" where
  "original_record g nid = map_of (map (\<lambda>r. (gb_node (nr_binding r), r)) (gs_nodes g)) nid"

definition check_node_row ::
    "graph_env \<Rightarrow> graph_db \<Rightarrow> run \<Rightarrow> graph \<Rightarrow> node_row \<Rightarrow> node_record res" where
  "check_node_row env db parent original row =
     bind_res (valid_record env (fn_data row)) (\<lambda>r.
     let b = fn_binding row in
     bind_res (require (binding_ok b \<and> \<not> ge_unfit env (VBinding b)) invalid) (\<lambda>_.
     bind_res (some_or invalid (original_record original (gb_node b))) (\<lambda>first.
     bind_res (require (\<not> (b \<noteq> nr_binding r \<or> b \<noteq> nr_binding first \<or> nr_node r \<noteq> nr_node first
         \<or> gb_parent b \<noteq> run_id parent \<or> gb_node b \<noteq> fn_node row \<or> gb_iteration b \<noteq> fn_iteration row
         \<or> gb_child b \<noteq> fn_child row \<or> gb_task b \<noteq> fn_task row \<or> nr_status r \<noteq> fn_status row
         \<or> nr_revision r \<noteq> fn_revision row)) invalid) (\<lambda>_.
     bind_res (g_child env db b parent) (\<lambda>_.
     bind_res (if nr_revision r = 0 then require (r = first) invalid
         else revision_event env db parent (nr_revision r) (digest env (VRecord r)) (Some (gb_node b))) (\<lambda>_.
     Inr r))))))"

definition claim_rows :: "graph_db \<Rightarrow> string \<Rightarrow> driver_row list" where
  "claim_rows db p = filter (\<lambda>c. fc_parent c = p) (gd_claims db)"

definition claims_agree :: "graph_db \<Rightarrow> graph \<Rightarrow> bool" where
  "claims_agree db g \<longleftrightarrow> (let rows = claim_rows db (gs_parent g);
       active = filter (\<lambda>c. fc_status c = ClaimActive) rows in
     \<not> ((if rows = [] then 0 else Max (fc_generation ` set rows)) \<noteq> gs_generation g
        \<or> length active \<noteq> (if gs_claim g \<noteq> None then 1 else 0)
        \<or> opt_all (\<lambda>c. fc_id (hd active) \<noteq> gc_id c) (gs_claim g) \<and> gs_claim g \<noteq> None))"

definition get_graph :: "graph_env \<Rightarrow> graph_db \<Rightarrow> string \<Rightarrow> graph option res" where
  "get_graph env db p =
     bind_res (g_run env db p) (\<lambda>parent. case find_graph db p of
       None \<Rightarrow> bind_res (require (\<not> list_ex (\<lambda>e. er_run e = Some p \<and> er_type e = ''graph.initialized'')
           (db_events db)) invalid) (\<lambda>_. Inr None)
     | Some row \<Rightarrow>
         bind_res (check_graph_row env db parent row) (\<lambda>_.
         let g = fg_data row; original = mf_snapshot (fg_manifest row); rows = take 17 (node_rows db p) in
         bind_res (require (length rows = length (gs_nodes original)) invalid) (\<lambda>_.
         bind_res (map_res (check_node_row env db parent original) rows) (\<lambda>records.
         bind_res (require (claims_agree db g) invalid) (\<lambda>_.
         bind_res (case gs_claim g of None \<Rightarrow> Inr () | Some c \<Rightarrow> claim_record env db c) (\<lambda>_.
         bind_res (valid_graph env (g\<lparr>gs_nodes := records\<rparr>)) (\<lambda>full. Inr (Some full))))))))"

definition g_owned :: "graph_env \<Rightarrow> graph_db \<Rightarrow> driver_claim \<Rightarrow> graph res" where
  "g_owned env db c =
     bind_res (valid_claim env c) (\<lambda>_.
     bind_res (get_graph env db (gc_parent c)) (\<lambda>found.
     bind_res (some_or invalid found) (\<lambda>g.
     bind_res (require (gs_claim g = Some c \<and> gs_cancelled_at g = None) invalid) (\<lambda>_.
     bind_res (g_run env db (gs_parent g)) (\<lambda>parent.
     bind_res (require (\<not> (run_status parent \<in> set TERMINAL_RUNS
         \<or> gs_status g \<in> {GFailed, GCancelled})) invalid) (\<lambda>_. Inr g))))))"

section \<open>Writes\<close>

definition store_graph :: "graph \<Rightarrow> graph_db \<Rightarrow> graph_db" where
  "store_graph g db = db\<lparr>gd_graphs := row_update fg_parent (gs_parent g)
     (\<lambda>r. r\<lparr>fg_revision := gs_revision g, fg_status := gs_status g, fg_generation := gs_generation g,
       fg_claim := map_option gc_id (gs_claim g), fg_data := g\<rparr>) (gd_graphs db)\<rparr>"

definition save_graph :: "graph_env \<Rightarrow> nat \<Rightarrow> graph \<Rightarrow> string \<Rightarrow> graph_db \<Rightarrow> graph_db res" where
  "save_graph env i g kind db =
     bind_res (valid_graph env g) (\<lambda>_.
     let db1 = store_graph g db in
     bind_res (g_run env db1 (gs_parent g)) (\<lambda>parent.
     budget_event (ge_base env) i parent kind
       (JObj [(''revision'', JInt (gs_revision g)), (''status'', JStr (graph_status_value (gs_status g))),
         (''snapshot_sha256'', JStr (digest env (VGraph g)))]) db1))"

definition node_key :: "node_row \<Rightarrow> string \<times> string \<times> int" where
  "node_key r = (fn_parent r, fn_node r, fn_iteration r)"

definition record_key :: "node_record \<Rightarrow> string \<times> string \<times> int" where
  "record_key n = (gb_parent (nr_binding n), gb_node (nr_binding n), gb_iteration (nr_binding n))"

definition store_node :: "node_record \<Rightarrow> graph_db \<Rightarrow> graph_db" where
  "store_node n db = db\<lparr>gd_nodes := row_update node_key (record_key n)
     (\<lambda>r. r\<lparr>fn_revision := nr_revision n, fn_status := nr_status n, fn_data := n\<rparr>) (gd_nodes db)\<rparr>"

definition save_node :: "graph_env \<Rightarrow> nat \<Rightarrow> node_record \<Rightarrow> string \<Rightarrow> graph_db \<Rightarrow> graph_db res" where
  "save_node env i n kind db =
     bind_res (valid_record env n) (\<lambda>_.
     let db1 = store_node n db in
     bind_res (g_run env db1 (gb_parent (nr_binding n))) (\<lambda>parent.
     budget_event (ge_base env) i parent kind
       (JObj [(''node_id'', JStr (gb_node (nr_binding n))), (''child_run_id'', JStr (gb_child (nr_binding n))),
         (''revision'', JInt (nr_revision n)), (''status'', JStr (node_status_value (nr_status n))),
         (''record_sha256'', JStr (digest env (VRecord n)))]) db1))"

end
