(* ===== verification/Graph_Operations.thy ===== *)
theory Graph_Operations
  imports Graph_Store
begin

text \<open>
  The transactions of \<open>SqliteGraphStore\<close>: creating the children of a plan, driver claims, node
  transitions, the join receipts and cancellation. An operation returns the new database with its
  result; one that raises is rolled back. Events and identifiers take successive readings of the clock
  and of the identifier generator, by index.
\<close>

section \<open>Creating a graph\<close>

definition seed_run_ok :: "run \<Rightarrow> task_spec \<Rightarrow> fleet_plan_node \<Rightarrow> child_seed \<Rightarrow> bool" where
  "seed_run_ok parent task n seed \<longleftrightarrow> (let child = cs_run seed; t = cs_task seed in
     \<not> (run_id child = run_id parent \<or> run_status child \<noteq> CREATED \<or> run_stage child \<noteq> None
        \<or> run_task child \<noteq> Some (task_id t) \<or> task_run_id t \<noteq> run_id child
        \<or> (run_parent child, run_parent_plan child, run_parent_node child, run_parent_iteration child)
           \<noteq> (Some (run_id parent), run_plan_hash parent, Some (node_id n), Some 0)
        \<or> \<not> inherits child parent
        \<or> run_pending_approval child \<noteq> None \<or> run_patch_artifact child \<noteq> None
        \<or> run_patch_hash child \<noteq> None \<or> run_applied_revision child \<noteq> None
        \<or> run_engineer_checkpoint child \<noteq> None \<or> run_verification_checkpoint child \<noteq> None
        \<or> run_specialist_checkpoint child \<noteq> None \<or> run_repairs child \<noteq> 0 \<or> run_verified child
        \<or> run_command_evidence child \<noteq> [] \<or> run_usage_artifacts child \<noteq> []))"

definition seed_task_ok :: "(string \<Rightarrow> string) \<Rightarrow> run \<Rightarrow> task_spec \<Rightarrow> fleet_plan_node \<Rightarrow> child_seed \<Rightarrow> bool" where
  "seed_task_ok cf parent task n seed \<longleftrightarrow> (let child = cs_run seed; t = cs_task seed in
     \<not> (base_revision t \<noteq> base_revision task \<or> config_snapshot_hash t \<noteq> config_snapshot_hash task
        \<or> workflow t \<noteq> workflow task \<or> forbidden_paths t \<noteq> forbidden_paths task
        \<or> set (allowed_paths t) \<noteq> set (scope n)
        \<or> list_ex (\<lambda>p. \<not> path_is_within cf p (allowed_paths task) (forbidden_paths task)) (allowed_paths t)
        \<or> max_repair_iterations task < max_repair_iterations t
        \<or> run_max_repairs parent < run_max_repairs child
        \<or> \<not> set (map criterion_id (acceptance_criteria t)) \<subseteq> set (map criterion_id (acceptance_criteria task)))
     \<and> list_all (\<lambda>c. map_of (map (\<lambda>d. (criterion_id d, d)) (acceptance_criteria task)) (criterion_id c) = Some c)
         (acceptance_criteria t)
     \<and> \<not> (run_goal child \<noteq> normalized_goal t
          \<or> (goal n \<noteq> None \<and> goal n \<noteq> Some (normalized_goal t))
          \<or> (criterion_ids n \<noteq> [] \<and> set (criterion_ids n) \<noteq> set (map criterion_id (acceptance_criteria t)))
          \<or> run_plan_artifact child \<noteq> None \<or> run_plan_hash child \<noteq> None \<or> run_strategy child \<noteq> None))"

definition seed_authority_ok :: "task_spec \<Rightarrow> fleet_plan_node \<Rightarrow> agent_role \<Rightarrow> task_spec \<Rightarrow> bool" where
  "seed_authority_ok task n kind t =
     (if can_write n then
        \<not> (kind \<noteq> ENGINEER \<or> task_change_kind t \<noteq> CODE_CHANGE
           \<or> set (required_evidence t) \<noteq> {CANONICAL_PATCH, COMMAND_EVIDENCE})
        \<and> list_all (\<lambda>c. map_of (map (\<lambda>d. (command_id d, d)) (verification_commands task)) (command_id c) = Some c)
            (verification_commands t)
      else \<not> (kind \<notin> {RESEARCHER, ARCHITECT} \<or> task_change_kind t \<noteq> READ_ONLY
           \<or> required_evidence t \<noteq> [CONTROL_PLANE_PLAN] \<or> verification_commands t \<noteq> []
           \<or> required_verification_command_ids t \<noteq> []))"

definition validate_seed ::
    "(string \<Rightarrow> string) \<Rightarrow> run \<Rightarrow> task_spec \<Rightarrow> fleet_plan_node \<Rightarrow> child_seed \<Rightarrow> unit res" where
  "validate_seed cf parent task n seed =
     bind_res (require (seed_run_ok parent task n seed) invalid) (\<lambda>_.
     bind_res (require (seed_task_ok cf parent task n seed) invalid) (\<lambda>_.
     bind_res (effective_kind n) (\<lambda>kind.
     require (seed_authority_ok task n kind (cs_task seed)) invalid)))"

definition valid_seed :: "graph_env \<Rightarrow> child_seed \<Rightarrow> child_seed res" where
  "valid_seed env s =
     bind_res (fit env (VSeed s)) (\<lambda>_.
     bind_res (require (node_id_ok (cs_node s)) ValueError) (\<lambda>_.
     bind_res (validate_run (sha256 (ge_base env)) (cs_run s)) (\<lambda>r.
     bind_res (validate_task (ge_fold env) (cs_task s)) (\<lambda>t.
     Inr (s\<lparr>cs_run := r, cs_task := t\<rparr>)))))"

definition insert_child_run :: "run \<Rightarrow> graph_db \<Rightarrow> graph_db res" where
  "insert_child_run r db = bind_res (row_insert rr_id \<lparr>rr_id = run_id r, rr_project = run_project r,
     rr_status = run_status r, rr_stage = None, rr_data = r\<rparr> (db_runs db)) (\<lambda>t. Inr (db\<lparr>db_runs := t\<rparr>))"

definition insert_child_task :: "task_spec \<Rightarrow> string \<Rightarrow> graph_db \<Rightarrow> graph_db res" where
  "insert_child_task t rid db =
     bind_res (require (rid \<notin> tr_run ` set (db_tasks db)) IntegrityError) (\<lambda>_.
     bind_res (row_insert tr_id \<lparr>tr_id = task_id t, tr_run = rid, tr_data = t\<rparr> (db_tasks db)) (\<lambda>rows.
     Inr (db\<lparr>db_tasks := rows\<rparr>)))"

text \<open>One child: admission, run, task, two events, and the binding with its pending record.\<close>

definition add_child ::
    "graph_env \<Rightarrow> nat \<Rightarrow> run \<Rightarrow> task_spec \<Rightarrow> string \<Rightarrow> fleet_plan_node \<Rightarrow> child_seed \<Rightarrow> graph_db \<Rightarrow>
     (graph_db \<times> node_record) res" where
  "add_child env k parent task plan_sha n seed db =
     (let child = cs_run seed; t = cs_task seed; base = ge_base env in
     bind_res (validate_seed (ge_fold env) parent task n seed) (\<lambda>_.
     bind_res (ge_admit env child (run_id parent)) (\<lambda>_.
     bind_res (insert_child_run child db) (\<lambda>db1.
     bind_res (ge_record_admission env child (run_id parent)) (\<lambda>_.
     bind_res (insert_child_task t (run_id child) db1) (\<lambda>db2.
     bind_res (budget_event base (4 * k) child ''run.created'' (JObj [(''internal_child'', JBool True),
         (''parent_run_id'', JStr (run_id parent)), (''node_id'', JStr (cs_node seed)),
         (''status'', JStr (run_status_value (run_status child)))]) db2) (\<lambda>db3.
     bind_res (budget_event base (4 * k + 1) child ''task.scoped'' (JObj [(''task_id'', JStr (task_id t))])
         db3) (\<lambda>db4.
     let b = \<lparr>gb_project = run_project parent, gb_parent = run_id parent, gb_plan = plan_sha,
           gb_node = cs_node seed, gb_iteration = 0, gb_child = run_id child, gb_task = task_id t,
           gb_node_hash = digest env (VNode n), gb_task_hash = digest env (VTask t),
           gb_run_hash = run_hash env child, gb_created = clk base (4 * k + 2)\<rparr>;
         r = \<lparr>nr_binding = b, nr_node = n, nr_status = NPending, nr_revision = 0, nr_inputs = [],
           nr_outputs = [], nr_error = None, nr_started = None, nr_finished = None,
           nr_updated = clk base (4 * k + 3)\<rparr> in
     bind_res (require (record_ok (digest env) r) ValueError) (\<lambda>_.
     Inr (db4, r))))))))))"

fun add_children ::
    "graph_env \<Rightarrow> nat \<Rightarrow> run \<Rightarrow> task_spec \<Rightarrow> string \<Rightarrow> fleet_plan_node list \<Rightarrow> child_seed list \<Rightarrow> graph_db \<Rightarrow>
     (graph_db \<times> node_record list) res" where
  "add_children env k parent task plan_sha ns [] db = Inr (db, [])"
| "add_children env k parent task plan_sha ns (seed # seeds) db =
     bind_res (some_or KeyError (map_of (map (\<lambda>n. (node_id n, n)) ns) (cs_node seed))) (\<lambda>n.
     bind_res (add_child env k parent task plan_sha n seed db) (\<lambda>(db1, r).
     bind_res (add_children env (Suc k) parent task plan_sha ns seeds db1) (\<lambda>(db2, rs).
     Inr (db2, r # rs))))"

definition new_graph :: "run \<Rightarrow> string \<Rightarrow> string \<Rightarrow> string \<Rightarrow> fleet_plan \<Rightarrow> node_record list \<Rightarrow> int \<Rightarrow> int \<Rightarrow> graph" where
  "new_graph parent tid art sha plan records created updated =
     \<lparr>gs_project = run_project parent, gs_parent = run_id parent, gs_task = tid,
      gs_plan_id = plan_id plan, gs_plan_artifact = art, gs_plan_sha = sha, gs_plan = plan,
      gs_status = GReady, gs_revision = 0, gs_generation = 0, gs_claim = None, gs_nodes = records,
      gs_preparation = None, gs_completion = None, gs_cancelled_at = None, gs_created = created,
      gs_updated = updated\<rparr>"

definition row_of_graph :: "manifest \<Rightarrow> graph_row" where
  "row_of_graph m = (let g = mf_snapshot m in \<lparr>fg_parent = gs_parent g, fg_project = gs_project g,
     fg_plan = gs_plan_sha g, fg_revision = 0, fg_status = gs_status g, fg_generation = 0, fg_claim = None,
     fg_manifest = m, fg_data = g\<rparr>)"

definition row_of_record :: "node_record \<Rightarrow> node_row" where
  "row_of_record r = (let b = nr_binding r in \<lparr>fn_parent = gb_parent b, fn_node = gb_node b,
     fn_iteration = gb_iteration b, fn_child = gb_child b, fn_task = gb_task b, fn_revision = 0,
     fn_status = nr_status r, fn_binding = b, fn_data = r\<rparr>)"

fun insert_nodes :: "node_record list \<Rightarrow> graph_db \<Rightarrow> graph_db res" where
  "insert_nodes [] db = Inr db"
| "insert_nodes (r # rs) db =
     bind_res (require (gb_child (nr_binding r) \<notin> fn_child ` set (gd_nodes db)
       \<and> gb_task (nr_binding r) \<notin> fn_task ` set (gd_nodes db)) IntegrityError) (\<lambda>_.
     bind_res (row_insert node_key (row_of_record r) (gd_nodes db)) (\<lambda>t.
     insert_nodes rs (db\<lparr>gd_nodes := t\<rparr>)))"

text \<open>
  What the ledger asks before it registers a child (\<open>_graph_child\<close> of
  \<open>runtime_budgets.py\<close>): the durable binding of the child in the graph of its parent.
\<close>

definition graph_parent_ok :: "graph_env \<Rightarrow> graph_db \<Rightarrow> run \<Rightarrow> string \<Rightarrow> bool" where
  "graph_parent_ok env db r p = (case (row_lookup fn_child (run_id r) (gd_nodes db), find_graph db p) of
     (Some row, Some g) \<Rightarrow> (let b = fn_binding row; m = fg_manifest g in
       binding_ok b \<and> \<not> ge_unfit env (VBinding b) \<and> valid_manifest env m = Inr m
       \<and> \<not> (gb_parent b \<noteq> p \<or> gb_child b \<noteq> run_id r \<or> gb_project b \<noteq> run_project r
          \<or> gb_run_hash b \<noteq> run_hash env r \<or> Some (gb_node b) \<noteq> run_parent_node r
          \<or> Some (gb_plan b) \<noteq> run_parent_plan r \<or> Some (gb_iteration b) \<noteq> run_parent_iteration r
          \<or> Some (gb_task b) \<noteq> run_task r \<or> fn_parent row \<noteq> p \<or> fn_node row \<noteq> gb_node b
          \<or> fn_iteration row \<noteq> gb_iteration b
          \<or> \<not> list_ex (\<lambda>n. nr_binding n = b) (gs_nodes (mf_snapshot m)))
       \<and> (case filter (\<lambda>e. er_run e = Some p \<and> er_type e = ''graph.initialized'') (db_events db) of
            [row] \<Rightarrow> \<not> unfit (ge_base env) (TEvent (er_data row))
              \<and> event_run (er_data row) = Some p \<and> event_project (er_data row) = run_project r
              \<and> json_eq (event_payload (er_data row))
                  (JObj [(''manifest_sha256'', JStr (digest env (VManifest m)))])
          | _ \<Rightarrow> False))
   | _ \<Rightarrow> False)"

definition ledger_env :: "graph_env \<Rightarrow> graph_db \<Rightarrow> nat \<Rightarrow> budget_env" where
  "ledger_env env db k = (ge_base env)\<lparr>graph_parent := graph_parent_ok env db,
     clk := (\<lambda>i. clk (ge_base env) (k + i)), new_id := (\<lambda>i. new_id (ge_base env) (k + i))\<rparr>"

fun register_children ::
    "graph_env \<Rightarrow> nat \<Rightarrow> string \<Rightarrow> budget_limits \<Rightarrow> node_record list \<Rightarrow> graph_db \<Rightarrow> graph_db res" where
  "register_children env k p limits [] db = Inr db"
| "register_children env k p limits (r # rs) db =
     bind_res (initialize_run (ledger_env env db k) (ledger.truncate db) (gb_child (nr_binding r)) limits
         (Some p)) (\<lambda>(l, _).
     register_children env (k + 4) p limits rs (ledger.extend l (ledger.more db)))"

definition create_graph ::
    "graph_env \<Rightarrow> run \<Rightarrow> string \<Rightarrow> fleet_plan \<Rightarrow> child_seed list \<Rightarrow> graph_db \<Rightarrow> (graph_db \<times> graph) res" where
  "create_graph env parent tid plan children db =
     bind_res (require (run_status parent = RUNNING) invalid) (\<lambda>_.
     bind_res (g_task env db tid) (\<lambda>task.
     let ns = child_nodes plan; ids = map node_id ns in
     bind_res (require (\<not> (length children \<noteq> length (remdups ids)
         \<or> set (map cs_node children) \<noteq> set ids)) invalid) (\<lambda>_.
     bind_res (map_res (valid_seed env) children) (\<lambda>seeds.
     bind_res (some_or ValueError (run_plan_hash parent)) (\<lambda>sha.
     bind_res (some_or ValueError (run_plan_artifact parent)) (\<lambda>art.
     bind_res (add_children env 0 parent task sha ns
         (map snd (sort_by_key (map (\<lambda>s. (cs_node s, s)) seeds))) db) (\<lambda>(db1, records).
     let base = ge_base env;
         g = new_graph parent (task_id task) art sha plan records (clk base 64) (clk base 65);
         m = \<lparr>mf_snapshot = g, mf_parent_binding = run_hash env parent,
              mf_parent_task = digest env (VTask task)\<rparr> in
     bind_res (require (graph_ok (ge_fold env) (digest env) g) ValueError) (\<lambda>_.
     bind_res (valid_manifest env m) (\<lambda>_.
     bind_res (row_insert fg_parent (row_of_graph m) (gd_graphs db1)) (\<lambda>t.
     bind_res (insert_nodes records (db1\<lparr>gd_graphs := t\<rparr>)) (\<lambda>db2.
     bind_res (budget_event base 66 parent ''graph.initialized''
         (JObj [(''manifest_sha256'', JStr (digest env (VManifest m)))]) db2) (\<lambda>db3.
     bind_res (owner_of (ledger_env env db3 70) db3 [] (run_id parent)) (\<lambda>found.
     bind_res (some_or invalid found) (\<lambda>(_, limits).
     bind_res (register_children env 70 (run_id parent) limits records db3) (\<lambda>db4.
     Inr (db4, g))))))))))))))))"

definition initialize ::
    "graph_env \<Rightarrow> graph_db \<Rightarrow> string \<Rightarrow> fleet_plan \<Rightarrow> child_seed list \<Rightarrow> (graph_db \<times> graph) res" where
  "initialize env db p plan children = boundary (
     bind_res (valid_plan env plan) (\<lambda>plan.
     bind_res (g_run env db p) (\<lambda>parent.
     bind_res (require (p \<notin> fn_child ` set (gd_nodes db)) invalid) (\<lambda>_.
     bind_res (the_plan env db parent) (\<lambda>actual.
     bind_res (require (actual = plan) invalid) (\<lambda>_.
     bind_res (get_graph env db p) (\<lambda>existing. case existing of
       Some g \<Rightarrow> Inr (db, g)
     | None \<Rightarrow> bind_res (some_or invalid (run_task parent)) (\<lambda>tid.
         create_graph env parent tid plan children db))))))))"

section \<open>Queries\<close>

definition get :: "graph_env \<Rightarrow> graph_db \<Rightarrow> string \<Rightarrow> graph option res" where
  "get env db p = boundary (get_graph env db p)"

definition child_binding_of :: "graph_env \<Rightarrow> graph_db \<Rightarrow> string \<Rightarrow> child_binding option res" where
  "child_binding_of env db child = boundary (
     bind_res (g_run env db child) (\<lambda>r. case row_lookup fn_child child (gd_nodes db) of
       None \<Rightarrow> bind_res (require (\<not> (run_parent r \<noteq> None
           \<or> list_ex (\<lambda>e. er_run e = Some child \<and> er_type e = ''run.created''
               \<and> json_get ''internal_child'' (event_payload (er_data e)) \<in> {Some (JBool True), Some (JInt 1)})
               (db_events db))) invalid) (\<lambda>_. Inr None)
     | Some row \<Rightarrow>
         bind_res (get_graph env db (fn_parent row)) (\<lambda>found.
         bind_res (some_or invalid found) (\<lambda>g.
         case filter (\<lambda>b. gb_child b = child) (map nr_binding (gs_nodes g)) of
           [b] \<Rightarrow> Inr (Some b)
         | _ \<Rightarrow> Inl invalid))))"

definition descendants :: "graph_env \<Rightarrow> graph_db \<Rightarrow> string \<Rightarrow> child_binding list res" where
  "descendants env db p = boundary (bind_res (get_graph env db p) (\<lambda>found. Inr (case found of
     None \<Rightarrow> [] | Some g \<Rightarrow> map nr_binding (gs_nodes g))))"

section \<open>Driver claims\<close>

definition the_graph :: "graph_env \<Rightarrow> graph_db \<Rightarrow> string \<Rightarrow> int \<Rightarrow> graph res" where
  "the_graph env db p expected =
     bind_res (get_graph env db p) (\<lambda>found.
     bind_res (some_or invalid found) (\<lambda>g.
     bind_res (require (expected = gs_revision g) invalid) (\<lambda>_. Inr g)))"

definition row_of_claim :: "driver_claim \<Rightarrow> driver_row" where
  "row_of_claim c = \<lparr>fc_id = gc_id c, fc_parent = gc_parent c, fc_generation = gc_generation c,
     fc_plan = gc_plan c, fc_status = ClaimActive, fc_at = gc_at c, fc_released = None, fc_data = c\<rparr>"

text \<open>The common end of \<open>claim_driver\<close> and \<open>claim_continuation\<close>.\<close>

definition grant_claim ::
    "graph_env \<Rightarrow> graph \<Rightarrow> string \<Rightarrow> graph_db \<Rightarrow> (graph_db \<times> driver_claim) res" where
  "grant_claim env g kind db =
     (let base = ge_base env;
          c = \<lparr>gc_parent = gs_parent g, gc_plan = gs_plan_sha g, gc_id = new_id base 0,
               gc_generation = gs_generation g + 1, gc_at = clk base 0\<rparr> in
      bind_res (require (claim_ok c) ValueError) (\<lambda>_.
      bind_res (require ((gs_parent g, gs_generation g + 1) \<notin> (\<lambda>r. (fc_parent r, fc_generation r)) ` set (gd_claims db))
          IntegrityError) (\<lambda>_.
      bind_res (row_insert fc_id (row_of_claim c) (gd_claims db)) (\<lambda>t.
      bind_res (save_graph env 2 (g\<lparr>gs_claim := Some c, gs_generation := gc_generation c,
          gs_revision := gs_revision g + 1, gs_updated := clk base 1, gs_status := GRunning\<rparr>) kind
          (db\<lparr>gd_claims := t\<rparr>)) (\<lambda>db1. Inr (db1, c))))))"

definition claim_driver :: "graph_env \<Rightarrow> graph_db \<Rightarrow> string \<Rightarrow> int \<Rightarrow> (graph_db \<times> driver_claim) res" where
  "claim_driver env db p expected = boundary (
     bind_res (the_graph env db p expected) (\<lambda>g.
     bind_res (g_run env db p) (\<lambda>parent.
     bind_res (require (\<not> (gs_claim g \<noteq> None \<or> gs_cancelled_at g \<noteq> None
         \<or> gs_status g \<notin> {GReady, GPaused} \<or> run_status parent \<in> set TERMINAL_RUNS
         \<or> list_ex (\<lambda>n. nr_status n = NRunning) (gs_nodes g))) invalid) (\<lambda>_.
     grant_claim env g ''graph.driver_claimed'' db))))"

definition check_approval :: "graph_env \<Rightarrow> graph_db \<Rightarrow> run \<Rightarrow> bool \<Rightarrow> unit res" where
  "check_approval env db child approved =
     bind_res (require (run_status child = PAUSED_FOR_APPROVAL) invalid) (\<lambda>_.
     bind_res (some_or invalid (run_pending_approval child)) (\<lambda>aid.
     bind_res (some_or invalid (row_lookup pr_id aid (gd_approvals db))) (\<lambda>row. let a = pr_data row in
     bind_res (fit env (VApproval a)) (\<lambda>_.
     require (\<not> (ap_id a \<noteq> aid \<or> ap_run a \<noteq> run_id child \<or> pr_run row \<noteq> run_id child
       \<or> ap_status a \<noteq> pr_status row \<or> ap_intent a \<noteq> pr_intent row
       \<or> (approved \<and> ap_status a \<noteq> ApApproved))) invalid))))"

definition claim_continuation :: "graph_env \<Rightarrow> graph_db \<Rightarrow> string \<Rightarrow> int \<Rightarrow> (graph_db \<times> driver_claim) res" where
  "claim_continuation env db p expected = boundary (
     bind_res (the_graph env db p expected) (\<lambda>g.
     bind_res (g_run env db p) (\<lambda>parent.
     bind_res (require (\<not> (gs_status g \<noteq> GJoined \<or> gs_completion g = None \<or> gs_claim g \<noteq> None
         \<or> gs_cancelled_at g \<noteq> None \<or> run_status parent \<notin> {RUNNING, PAUSED_FOR_APPROVAL}
         \<or> run_stage parent \<notin> {Some VERIFYING, Some REPAIRING, Some PRESENTING}
         \<or> list_ex (\<lambda>n. nr_status n \<noteq> NSucceeded) (gs_nodes g))) invalid) (\<lambda>_.
     bind_res (if run_status parent = PAUSED_FOR_APPROVAL then check_approval env db parent True
         else require (run_pending_approval parent = None) invalid) (\<lambda>_.
     grant_claim env g ''graph.continuation_claimed'' db)))))"

end
