(* ===== verification/Graph_Driving.thy ===== *)
theory Graph_Driving
  imports Graph_Operations
begin

text \<open>
  What the holder of the driver claim of a graph does: move a node, release the claim, record the
  receipts of the join (\<open>adapters/persistence/graphs.py\<close>); and cancellation, which takes the claim
  away.
\<close>

section \<open>Node transitions\<close>

fun node_targets :: "node_status \<Rightarrow> node_status list" where
  "node_targets NPending = [NRunning, NBlocked, NCancelled]"
| "node_targets NRunning = [NWaiting, NSucceeded, NFailed, NCancelled]"
| "node_targets NWaiting = [NRunning, NFailed, NBlocked, NCancelled]"
| "node_targets _ = []"

definition dependencies :: "graph \<Rightarrow> fleet_plan_node \<Rightarrow> node_record list" where
  "dependencies g n = filter (\<lambda>r. gb_node (nr_binding r) \<in> set (depends_on n)) (gs_nodes g)"

definition expected_inputs :: "graph \<Rightarrow> fleet_plan_node \<Rightarrow> artifact_ref list" where
  "expected_inputs g n = concat (map nr_outputs (dependencies g n))"

definition running_nodes :: "graph \<Rightarrow> nat" where
  "running_nodes g = length (filter (\<lambda>r. nr_status r = NRunning) (gs_nodes g))"

definition budget_registered :: "graph_env \<Rightarrow> graph_db \<Rightarrow> run \<Rightarrow> graph \<Rightarrow> unit res" where
  "budget_registered env db child g =
     bind_res (require (map_of (bl_runs db) (run_id child) = Some (gs_parent g)) invalid) (\<lambda>_.
     bind_res (only_row (filter (\<lambda>e. er_run e = Some (run_id child)
         \<and> er_type e = ''runtime.budget_initialized'') (db_events db))) (\<lambda>row.
     bind_res (clean (ge_base env) (TEvent (er_data row))) (\<lambda>_.
     require (json_get ''owner_run_id'' (event_payload (er_data row)) = Some (JStr (gs_parent g))
       \<and> json_get ''parent_run_id'' (event_payload (er_data row)) = Some (JStr (gs_parent g))) invalid)))"

definition prepared_child :: "graph_env \<Rightarrow> graph_db \<Rightarrow> run \<Rightarrow> task_spec \<Rightarrow> graph \<Rightarrow> unit res" where
  "prepared_child env db child task g =
     bind_res (artifact_of_run env db child (run_task_artifact child) (run_task_hash child) TASK_SPEC
         (gs_project g) (task_id task)) (\<lambda>raw.
     bind_res (decoded raw (ge_task env raw)) (\<lambda>t.
     bind_res (validate_task (ge_fold env) t) (\<lambda>t.
     bind_res (require (t = task) invalid) (\<lambda>_.
     bind_res (artifact_of_run env db child (run_config_artifact child) (run_config_hash child)
         CONFIG_SNAPSHOT (gs_project g) (task_id task)) (\<lambda>_.
     budget_registered env db child g)))))"

definition ready_to_run ::
    "graph_env \<Rightarrow> graph_db \<Rightarrow> graph \<Rightarrow> node_record \<Rightarrow> run \<Rightarrow> task_spec \<Rightarrow> artifact_ref list \<Rightarrow> artifact_ref list \<Rightarrow> unit res" where
  "ready_to_run env db g n child task inputs outputs =
     bind_res (require (\<not> (outputs \<noteq> [] \<or> gs_preparation g \<noteq> None)) invalid) (\<lambda>_.
     let deps = dependencies g (nr_node n) in
     bind_res (require (\<not> (length deps \<noteq> length (depends_on (nr_node n))
         \<or> list_ex (\<lambda>d. nr_status d \<noteq> NSucceeded) deps)) invalid) (\<lambda>_.
     bind_res (require (\<not> (inputs \<noteq> expected_inputs g (nr_node n)
         \<or> (nr_started n \<noteq> None \<and> inputs \<noteq> nr_inputs n))) invalid) (\<lambda>_.
     bind_res (require (\<not> max_parallel_agents (gs_plan g) \<le> int (running_nodes g)) invalid) (\<lambda>_.
     bind_res (check_all (\<lambda>d. check_all (\<lambda>ref. bind_res (artifact env db ref (gs_project g)
         (gb_task (nr_binding d))) (\<lambda>_. Inr ())) (nr_outputs d)) deps) (\<lambda>_.
     bind_res (if nr_status n = NWaiting then check_approval env db child True
         else require (run_status child \<in> {CREATED, RUNNING}) invalid) (\<lambda>_.
     prepared_child env db child task g))))))"

definition lease_consistent :: "run \<Rightarrow> lease_row \<Rightarrow> bool" where
  "lease_consistent child row \<longleftrightarrow> (let l = lr_data row in
     \<not> (ls_id l \<noteq> lr_id row \<or> ls_run l \<noteq> run_id child \<or> ls_kind l \<noteq> lr_kind row
        \<or> ls_resource l \<noteq> lr_resource row \<or> ls_status l \<noteq> lr_status row))"

definition cleanup_matches :: "graph_env \<Rightarrow> graph_db \<Rightarrow> run \<Rightarrow> cleanup_receipt \<Rightarrow> unit res" where
  "cleanup_matches env db child receipt =
     (let rows = filter (\<lambda>r. lr_run r = run_id child) (gd_leases db) in
      bind_res (check_all (\<lambda>row. bind_res (fit env (VLease (lr_data row))) (\<lambda>_.
          require (lease_consistent child row) invalid)) rows) (\<lambda>_.
      require (\<not> (cr_run receipt \<noteq> run_id child \<or> \<not> cr_complete receipt
        \<or> sort_by_key (cr_leases receipt) \<noteq> sort_by_key (map (\<lambda>r. let l = lr_data r in
            (ls_id l, ls_kind l, ls_resource l, ls_status l)) rows))) invalid))"

definition expected_kinds :: "fleet_plan_node \<Rightarrow> artifact_kind set" where
  "expected_kinds n = (if can_write n then {PATCH, IMPLEMENTATION_REPORT, RESOURCE_CLEANUP}
     else {SPECIALIST_REPORT, RESOURCE_CLEANUP})"

definition output_ok ::
    "graph_env \<Rightarrow> graph_db \<Rightarrow> graph \<Rightarrow> node_record \<Rightarrow> run \<Rightarrow> artifact_ref \<Rightarrow> unit res" where
  "output_ok env db g n child ref =
     bind_res (artifact env db ref (gs_project g) (gb_task (nr_binding n))) (\<lambda>raw. case rf_kind ref of
       IMPLEMENTATION_REPORT \<Rightarrow> decoded raw (if ge_implementation env raw then Some () else None)
     | SPECIALIST_REPORT \<Rightarrow> bind_res (decoded raw (ge_specialist env raw)) (\<lambda>role.
         require (role = role_id (nr_node n)) invalid)
     | PATCH \<Rightarrow> require (\<not> (Some (rf_id ref) \<noteq> run_patch_artifact child
         \<or> Some (rf_sha ref) \<noteq> run_patch_hash child)) invalid
     | RESOURCE_CLEANUP \<Rightarrow>
         bind_res (require ((Some (rf_id ref), Some (rf_sha ref))
             = (run_cleanup_artifact child, run_cleanup_hash child)) invalid) (\<lambda>_.
         bind_res (decoded raw (ge_cleanup env raw)) (\<lambda>receipt.
         bind_res (require (cleanup_receipt_ok receipt) ValueError) (\<lambda>_.
         cleanup_matches env db child receipt)))
     | _ \<Rightarrow> Inr ())"

definition successful_outputs ::
    "graph_env \<Rightarrow> graph_db \<Rightarrow> graph \<Rightarrow> node_record \<Rightarrow> run \<Rightarrow> artifact_ref list \<Rightarrow> unit res" where
  "successful_outputs env db g n child outputs =
     bind_res (require (\<not> (run_status child \<noteq> COMPLETED \<or> run_stage child \<noteq> Some PRESENTING
         \<or> run_verified child \<or> run_evidence_artifact child \<noteq> None
         \<or> set (map rf_kind outputs) \<noteq> expected_kinds (nr_node n)
         \<or> length outputs \<noteq> card (expected_kinds (nr_node n))
         \<or> list_ex (\<lambda>r. rf_run r \<noteq> run_id child) outputs
         \<or> list_ex (\<lambda>r. lr_run r = run_id child \<and> lr_status r \<notin> {LeaseReleased, LeaseRecovered})
             (gd_leases db))) invalid) (\<lambda>_.
     check_all (output_ok env db g n child) outputs)"

definition moved_record ::
    "node_record \<Rightarrow> node_status \<Rightarrow> artifact_ref list \<Rightarrow> artifact_ref list \<Rightarrow> error_code option \<Rightarrow> int \<Rightarrow> node_record" where
  "moved_record n target inputs outputs err now =
     n\<lparr>nr_status := target, nr_revision := nr_revision n + 1,
       nr_inputs := (if target = NRunning then inputs else nr_inputs n), nr_outputs := outputs,
       nr_error := err,
       nr_started := (case nr_started n of Some t \<Rightarrow> Some t
         | None \<Rightarrow> if target = NRunning then Some now else None),
       nr_finished := (if target \<in> set TERMINAL_NODES then Some now else None), nr_updated := now\<rparr>"

text \<open>\<open>transition_node\<close> after the node of that name has been found.\<close>

definition move_node ::
    "graph_env \<Rightarrow> graph_db \<Rightarrow> graph \<Rightarrow> node_record \<Rightarrow> int \<Rightarrow> node_status \<Rightarrow>
     artifact_ref list \<Rightarrow> artifact_ref list \<Rightarrow> error_code option \<Rightarrow> (graph_db \<times> node_record) res" where
  "move_node env db g n expected target inputs outputs err =
     bind_res (require (expected = nr_revision n) invalid) (\<lambda>_.
     bind_res (require (target \<in> set (node_targets (nr_status n))) invalid) (\<lambda>_.
     bind_res (g_run env db (gs_parent g)) (\<lambda>parent.
     bind_res (g_child env db (nr_binding n) parent) (\<lambda>(child, task).
     bind_res (valid_refs env inputs) (\<lambda>_.
     bind_res (valid_refs env outputs) (\<lambda>_.
     bind_res (if target = NRunning then ready_to_run env db g n child task inputs outputs
         else require (\<not> (inputs \<noteq> [] \<and> inputs \<noteq> nr_inputs n)) invalid) (\<lambda>_.
     bind_res (if target = NWaiting then check_approval env db child False else Inr ()) (\<lambda>_.
     bind_res (if target = NSucceeded then successful_outputs env db g n child outputs
         else require (outputs = []) invalid) (\<lambda>_.
     let updated = moved_record n target inputs outputs err (clk (ge_base env) 0) in
     bind_res (save_node env 1 updated ''graph.node_transitioned'' db) (\<lambda>db1.
     Inr (db1, updated)))))))))))"

definition transition_node ::
    "graph_env \<Rightarrow> graph_db \<Rightarrow> driver_claim \<Rightarrow> string \<Rightarrow> int \<Rightarrow> int \<Rightarrow> node_status \<Rightarrow>
     artifact_ref list \<Rightarrow> artifact_ref list \<Rightarrow> error_code option \<Rightarrow> (graph_db \<times> node_record) res" where
  "transition_node env db c nid iteration expected target inputs outputs err = boundary (
     bind_res (require (iteration = 0) invalid) (\<lambda>_.
     bind_res (require (\<not> tainted (ge_base env) (JObj [(''node_id'', JStr nid),
         (''error_code'', opt_str (map_option error_value err))])) invalid) (\<lambda>_.
     bind_res (g_owned env db c) (\<lambda>g.
     case filter (\<lambda>r. gb_node (nr_binding r) = nid) (gs_nodes g) of
       [n] \<Rightarrow> move_node env db g n expected target inputs outputs err
     | _ \<Rightarrow> Inl invalid))))"

section \<open>Releasing the claim\<close>

definition close_claim :: "string \<Rightarrow> claim_status \<Rightarrow> int \<Rightarrow> graph_db \<Rightarrow> graph_db" where
  "close_claim cid status now db = db\<lparr>gd_claims := row_update fc_id cid
     (\<lambda>r. r\<lparr>fc_status := status, fc_released := Some now\<rparr>) (gd_claims db)\<rparr>"

definition release_driver ::
    "graph_env \<Rightarrow> graph_db \<Rightarrow> driver_claim \<Rightarrow> int \<Rightarrow> graph_status \<Rightarrow> (graph_db \<times> graph) res" where
  "release_driver env db c expected status = boundary (
     bind_res (g_owned env db c) (\<lambda>g.
     bind_res (require (expected = gs_revision g) invalid) (\<lambda>_.
     bind_res (require (\<not> (status \<notin> {GReady, GPaused, GJoined, GFailed}
         \<or> list_ex (\<lambda>n. nr_status n = NRunning) (gs_nodes g)
         \<or> (gs_preparation g \<noteq> None \<and> gs_completion g = None)
         \<or> (status = GJoined \<and> gs_completion g = None)
         \<or> (status \<noteq> GJoined \<and> gs_completion g \<noteq> None))) invalid) (\<lambda>_.
     let updated = g\<lparr>gs_claim := None, gs_status := status, gs_revision := gs_revision g + 1,
       gs_updated := clk (ge_base env) 1\<rparr> in
     bind_res (save_graph env 2 updated ''graph.driver_released''
         (close_claim (gc_id c) ClaimReleased (clk (ge_base env) 0) db)) (\<lambda>db1.
     Inr (db1, updated))))))"

section \<open>The join\<close>

definition ref_of_kind :: "artifact_kind \<Rightarrow> artifact_ref list \<Rightarrow> artifact_ref res" where
  "ref_of_kind k refs = some_or KeyError (map_of (map (\<lambda>r. (rf_kind r, r)) (rev refs)) k)"

definition join_input_matches ::
    "graph_env \<Rightarrow> graph_db \<Rightarrow> graph \<Rightarrow> run \<Rightarrow> node_record \<times> join_input \<Rightarrow> unit res" where
  "join_input_matches env db g parent = (\<lambda>(n, item).
     bind_res (g_child env db (nr_binding n) parent) (\<lambda>(child, _).
     bind_res (successful_outputs env db g n child (nr_outputs n)) (\<lambda>_.
     bind_res (ref_of_kind PATCH (nr_outputs n)) (\<lambda>patch.
     bind_res (ref_of_kind IMPLEMENTATION_REPORT (nr_outputs n)) (\<lambda>report.
     require ((ji_run item, ji_task item, ji_patch item, ji_patch_sha item, ji_report item, ji_report_sha item)
       = (run_id child, gb_task (nr_binding n), rf_id patch, rf_sha patch, rf_id report, rf_sha report))
       invalid)))))"

definition valid_preparation :: "graph_env \<Rightarrow> join_preparation \<Rightarrow> unit res" where
  "valid_preparation env p = bind_res (fit env (VPreparation p)) (\<lambda>_. require (preparation_ok p) ValueError)"

definition mark_join_prepared ::
    "graph_env \<Rightarrow> graph_db \<Rightarrow> driver_claim \<Rightarrow> join_preparation \<Rightarrow> int \<Rightarrow> (graph_db \<times> graph) res" where
  "mark_join_prepared env db c receipt expected = boundary (
     bind_res (valid_preparation env receipt) (\<lambda>_.
     bind_res (g_owned env db c) (\<lambda>g.
     bind_res (require (expected = gs_revision g) invalid) (\<lambda>_.
     bind_res (g_run env db (gs_parent g)) (\<lambda>parent. case gs_preparation g of
       Some p \<Rightarrow> bind_res (require (p = receipt) invalid) (\<lambda>_. Inr (db, g))
     | None \<Rightarrow>
         bind_res (require (\<not> (list_ex (\<lambda>n. nr_status n \<noteq> NSucceeded) (gs_nodes g)
             \<or> (jp_parent receipt, jp_task receipt, jp_plan receipt, Some (jp_config receipt), jp_base receipt)
               \<noteq> (gs_parent g, gs_task g, gs_plan_sha g, run_config_hash parent, run_base_revision parent)))
             invalid) (\<lambda>_.
         let writers = filter (\<lambda>n. can_write (nr_node n)) (gs_nodes g) in
         bind_res (require (map ji_node (jp_inputs receipt) = map (\<lambda>n. gb_node (nr_binding n)) writers) invalid) (\<lambda>_.
         bind_res (check_all (join_input_matches env db g parent) (zip writers (jp_inputs receipt))) (\<lambda>_.
         let updated = g\<lparr>gs_preparation := Some receipt, gs_revision := gs_revision g + 1,
           gs_updated := clk (ge_base env) 0\<rparr> in
         bind_res (save_graph env 1 updated ''graph.join_prepared'' db) (\<lambda>db1.
         Inr (db1, updated))))))))))"

definition candidate_lease :: "run \<Rightarrow> string \<Rightarrow> lease_row \<Rightarrow> bool" where
  "candidate_lease parent workspace row \<longleftrightarrow> (let l = lr_data row in
     \<not> (ls_run l \<noteq> run_id parent \<or> ls_id l \<noteq> lr_id row \<or> ls_resource l \<noteq> workspace
        \<or> ls_resource l \<noteq> lr_resource row \<or> ls_status l \<noteq> LeaseActive \<or> ls_status l \<noteq> lr_status row
        \<or> ls_kind l \<noteq> WORKTREE \<or> ls_kind l \<noteq> lr_kind row
        \<or> json_get ''workspace_kind'' (ls_metadata l) \<noteq> Some (JStr ''candidate'')
        \<or> json_get ''base_revision'' (ls_metadata l) \<noteq> Some (JStr (run_base_revision parent))))"

definition valid_completion :: "graph_env \<Rightarrow> join_completion \<Rightarrow> unit res" where
  "valid_completion env r = bind_res (fit env (VCompletion r)) (\<lambda>_. require (completion_ok r) ValueError)"

text \<open>\<open>mark_join_complete\<close> of a graph without a completion.\<close>

definition complete_join ::
    "graph_env \<Rightarrow> graph_db \<Rightarrow> graph \<Rightarrow> join_completion \<Rightarrow> (graph_db \<times> graph) res" where
  "complete_join env db g result =
     bind_res (g_run env db (gs_parent g)) (\<lambda>parent.
     bind_res (some_or invalid (gs_preparation g)) (\<lambda>p.
     bind_res (require (jc_preparation result = digest env (VPreparation p)
         \<and> (Some (jc_patch result), Some (jc_patch_sha result))
           = (run_patch_artifact parent, run_patch_hash parent)) invalid) (\<lambda>_.
     bind_res (artifact env db \<lparr>rf_id = jc_patch result, rf_sha = jc_patch_sha result,
         rf_run = run_id parent, rf_kind = PATCH\<rparr> (gs_project g) (gs_task g)) (\<lambda>_.
     case filter (\<lambda>r. lr_run r = run_id parent \<and> lr_resource r = jc_workspace result) (gd_leases db) of
       [row] \<Rightarrow>
         bind_res (fit env (VLease (lr_data row))) (\<lambda>_.
         bind_res (require (candidate_lease parent (jc_workspace result) row) invalid) (\<lambda>_.
         let updated = g\<lparr>gs_completion := Some result, gs_status := GJoined,
           gs_revision := gs_revision g + 1, gs_updated := clk (ge_base env) 0\<rparr> in
         bind_res (save_graph env 1 updated ''graph.join_completed'' db) (\<lambda>db1.
         Inr (db1, updated))))
     | _ \<Rightarrow> Inl invalid))))"

definition mark_join_complete ::
    "graph_env \<Rightarrow> graph_db \<Rightarrow> driver_claim \<Rightarrow> join_completion \<Rightarrow> int \<Rightarrow> (graph_db \<times> graph) res" where
  "mark_join_complete env db c result expected = boundary (
     bind_res (valid_completion env result) (\<lambda>_.
     bind_res (g_owned env db c) (\<lambda>g.
     bind_res (require (expected = gs_revision g) invalid) (\<lambda>_. case gs_completion g of
       Some r \<Rightarrow> bind_res (require (r = result) invalid) (\<lambda>_. Inr (db, g))
     | None \<Rightarrow> complete_join env db g result))))"

section \<open>Cancellation\<close>

definition cancel_child ::
    "graph_env \<Rightarrow> nat \<Rightarrow> string \<Rightarrow> node_record \<Rightarrow> int \<Rightarrow> graph_db \<Rightarrow> graph_db res" where
  "cancel_child env i p n now db =
     bind_res (g_run env db (gb_child (nr_binding n))) (\<lambda>child.
     if run_status child \<in> set TERMINAL_RUNS then Inr db
     else let cancelled = child\<lparr>run_status := CANCELLED, run_updated_at := now\<rparr> in
       budget_event (ge_base env) i cancelled ''run.cancelled'' (JObj [(''parent_run_id'', JStr p)])
         (update_run cancelled db))"

fun cancel_nodes ::
    "graph_env \<Rightarrow> nat \<Rightarrow> string \<Rightarrow> int \<Rightarrow> node_record list \<Rightarrow> graph_db \<Rightarrow> (graph_db \<times> node_record list) res" where
  "cancel_nodes env i p now [] db = Inr (db, [])"
| "cancel_nodes env i p now (n # ns) db =
     bind_res (cancel_child env i p n now db) (\<lambda>db1.
     bind_res (if nr_status n \<in> set TERMINAL_NODES then Inr (db1, n)
         else let m = n\<lparr>nr_status := NCancelled, nr_revision := nr_revision n + 1,
             nr_finished := Some now, nr_updated := now\<rparr> in
           bind_res (save_node env (i + 1) m ''graph.node_cancelled'' db1) (\<lambda>db2. Inr (db2, m))) (\<lambda>(db2, m).
     bind_res (cancel_nodes env (i + 2) p now ns db2) (\<lambda>(db3, ms).
     Inr (db3, m # ms))))"

definition request_cancel :: "graph_env \<Rightarrow> graph_db \<Rightarrow> string \<Rightarrow> int \<Rightarrow> (graph_db \<times> graph) res" where
  "request_cancel env db p expected = boundary (
     bind_res (the_graph env db p expected) (\<lambda>g.
     if gs_cancelled_at g \<noteq> None then Inr (db, g)
     else let now = clk (ge_base env) 0 in
       bind_res (cancel_nodes env 1 p now (gs_nodes g) db) (\<lambda>(db1, records).
       let db2 = (case gs_claim g of None \<Rightarrow> db1 | Some c \<Rightarrow> close_claim (gc_id c) ClaimCancelled now db1);
           updated = g\<lparr>gs_nodes := records, gs_claim := None, gs_cancelled_at := Some now,
             gs_status := GCancelled, gs_revision := gs_revision g + 1, gs_updated := now\<rparr> in
       bind_res (save_graph env 40 updated ''graph.cancel_requested'' db2) (\<lambda>db3.
       Inr (db3, updated)))))"

section \<open>The store as a step function\<close>

text \<open>
  \<open>GForeign\<close> stands for whatever the other stores write between two transactions: any change of
  the database but of the three tables of the graph store.
\<close>

datatype graph_op =
    GInitialize graph_env string fleet_plan "child_seed list"
  | GClaim graph_env string int
  | GContinue graph_env string int
  | GTransition graph_env driver_claim string int int node_status "artifact_ref list" "artifact_ref list"
      "error_code option"
  | GRelease graph_env driver_claim int graph_status
  | GPrepare graph_env driver_claim join_preparation int
  | GComplete graph_env driver_claim join_completion int
  | GCancel graph_env string int
  | GForeign graph_db

fun graph_step :: "graph_db \<Rightarrow> graph_op \<Rightarrow> graph_db res" where
  "graph_step db (GInitialize env p plan seeds) = bind_res (initialize env db p plan seeds) (\<lambda>(db', _). Inr db')"
| "graph_step db (GClaim env p n) = bind_res (claim_driver env db p n) (\<lambda>(db', _). Inr db')"
| "graph_step db (GContinue env p n) = bind_res (claim_continuation env db p n) (\<lambda>(db', _). Inr db')"
| "graph_step db (GTransition env c nid it n target ins outs err) =
     bind_res (transition_node env db c nid it n target ins outs err) (\<lambda>(db', _). Inr db')"
| "graph_step db (GRelease env c n status) = bind_res (release_driver env db c n status) (\<lambda>(db', _). Inr db')"
| "graph_step db (GPrepare env c r n) = bind_res (mark_join_prepared env db c r n) (\<lambda>(db', _). Inr db')"
| "graph_step db (GComplete env c r n) = bind_res (mark_join_complete env db c r n) (\<lambda>(db', _). Inr db')"
| "graph_step db (GCancel env p n) = bind_res (request_cancel env db p n) (\<lambda>(db', _). Inr db')"
| "graph_step db (GForeign other) = Inr (other\<lparr>gd_graphs := gd_graphs db, gd_nodes := gd_nodes db,
     gd_claims := gd_claims db\<rparr>)"

end
