(* ===== verification/Graph_Moves.thy ===== *)
theory Graph_Moves
  imports Graph_Driving
begin

text \<open>
  The abstract behaviour of the graph store: what its transactions do to the three tables, as a step
  relation whose premises are the guards the code tests. The invariant of the tables and the order in
  which they grow are shown for the relation; the transactions are shown to follow it in
  \<open>Graph_Refinement\<close>.
\<close>

section \<open>The tables and the graph in them\<close>

record tables =
  tg :: "graph_row list"
  tn :: "node_row list"
  tc :: "driver_row list"

definition tables_of :: "graph_db \<Rightarrow> tables" where
  "tables_of db = \<lparr>tg = gd_graphs db, tn = gd_nodes db, tc = gd_claims db\<rparr>"

definition rows_of :: "tables \<Rightarrow> string \<Rightarrow> node_row list" where
  "rows_of T p = map snd (sort_by_key (map (\<lambda>r. (fn_node r, r)) (filter (\<lambda>r. fn_parent r = p) (tn T))))"

definition view :: "tables \<Rightarrow> string \<Rightarrow> graph \<Rightarrow> bool" where
  "view T p g \<longleftrightarrow> gs_parent g = p \<and> gs_nodes g = map fn_data (rows_of T p)
     \<and> (\<exists>row. row_lookup fg_parent p (tg T) = Some row \<and> (fg_data row)\<lparr>gs_nodes := gs_nodes g\<rparr> = g)"

definition put_graph :: "graph \<Rightarrow> tables \<Rightarrow> tables" where
  "put_graph g T = T\<lparr>tg := row_update fg_parent (gs_parent g)
     (\<lambda>r. r\<lparr>fg_revision := gs_revision g, fg_status := gs_status g, fg_generation := gs_generation g,
       fg_claim := map_option gc_id (gs_claim g), fg_data := g\<rparr>) (tg T)\<rparr>"

definition move_row :: "node_record \<Rightarrow> node_row \<Rightarrow> node_row" where
  "move_row n r = r\<lparr>fn_revision := nr_revision n, fn_status := nr_status n, fn_data := n\<rparr>"

definition put_node :: "node_record \<Rightarrow> tables \<Rightarrow> tables" where
  "put_node n T = T\<lparr>tn := row_update node_key (record_key n) (move_row n) (tn T)\<rparr>"

definition close :: "string \<Rightarrow> claim_status \<Rightarrow> int \<Rightarrow> tables \<Rightarrow> tables" where
  "close cid status now T = T\<lparr>tc := row_update fc_id cid
     (\<lambda>r. r\<lparr>fc_status := status, fc_released := Some now\<rparr>) (tc T)\<rparr>"

section \<open>The moves\<close>

definition fresh_record :: "string \<Rightarrow> node_record \<Rightarrow> bool" where
  "fresh_record p r \<longleftrightarrow> gb_parent (nr_binding r) = p \<and> gb_iteration (nr_binding r) = 0
     \<and> node_id (nr_node r) = gb_node (nr_binding r) \<and> nr_status r = NPending \<and> nr_started r = None"

definition fresh_graph :: "graph \<Rightarrow> bool" where
  "fresh_graph g \<longleftrightarrow> gs_status g = GReady \<and> gs_revision g = 0 \<and> gs_generation g = 0 \<and> gs_claim g = None
     \<and> gs_preparation g = None \<and> gs_completion g = None \<and> gs_cancelled_at g = None
     \<and> 0 \<le> max_parallel_agents (gs_plan g)"

definition may_start :: "graph \<Rightarrow> node_record \<Rightarrow> artifact_ref list \<Rightarrow> bool" where
  "may_start g n inputs \<longleftrightarrow> gs_preparation g = None
     \<and> length (dependencies g (nr_node n)) = length (depends_on (nr_node n))
     \<and> list_all (\<lambda>d. nr_status d = NSucceeded) (dependencies g (nr_node n))
     \<and> inputs = expected_inputs g (nr_node n)
     \<and> int (running_nodes g) < max_parallel_agents (gs_plan g)"

inductive graph_move :: "tables \<Rightarrow> tables \<Rightarrow> bool" where
  create: "row_lookup fg_parent (gs_parent (mf_snapshot m)) (tg T) = None \<Longrightarrow> fresh_graph (mf_snapshot m) \<Longrightarrow>
    list_all (fresh_record (gs_parent (mf_snapshot m))) records \<Longrightarrow>
    distinct (map node_key (tn T @ map row_of_record records)) \<Longrightarrow>
    graph_move T (T\<lparr>tg := tg T @ [row_of_graph m], tn := tn T @ map row_of_record records\<rparr>)"
| claim: "view T p g \<Longrightarrow> gs_claim g = None \<Longrightarrow> gs_cancelled_at g = None \<Longrightarrow> gc_parent c = p \<Longrightarrow>
    gc_generation c = gs_generation g + 1 \<Longrightarrow> gc_id c \<notin> fc_id ` set (tc T) \<Longrightarrow>
    graph_move T (put_graph (g\<lparr>gs_claim := Some c, gs_generation := gc_generation c,
      gs_revision := gs_revision g + 1, gs_updated := t, gs_status := GRunning\<rparr>)
      (T\<lparr>tc := tc T @ [row_of_claim c]\<rparr>))"
| transition: "view T p g \<Longrightarrow> gs_claim g = Some c \<Longrightarrow> gs_cancelled_at g = None \<Longrightarrow> n \<in> set (gs_nodes g) \<Longrightarrow>
    target \<in> set (node_targets (nr_status n)) \<Longrightarrow> (target = NRunning \<longrightarrow> may_start g n inputs) \<Longrightarrow>
    graph_move T (put_node (moved_record n target inputs outputs err now) T)"
| release: "view T p g \<Longrightarrow> gs_claim g = Some c \<Longrightarrow> gs_cancelled_at g = None \<Longrightarrow> status \<noteq> GCancelled \<Longrightarrow>
    graph_move T (put_graph (g\<lparr>gs_claim := None, gs_status := status, gs_revision := gs_revision g + 1,
      gs_updated := t\<rparr>) (close (gc_id c) ClaimReleased now T))"
| prepare: "view T p g \<Longrightarrow> gs_claim g = Some c \<Longrightarrow> gs_cancelled_at g = None \<Longrightarrow> gs_preparation g = None \<Longrightarrow>
    list_all (\<lambda>n. nr_status n = NSucceeded) (gs_nodes g) \<Longrightarrow>
    graph_move T (put_graph (g\<lparr>gs_preparation := Some r, gs_revision := gs_revision g + 1,
      gs_updated := t\<rparr>) T)"
| complete: "view T p g \<Longrightarrow> gs_claim g = Some c \<Longrightarrow> gs_cancelled_at g = None \<Longrightarrow> gs_preparation g \<noteq> None \<Longrightarrow>
    gs_completion g = None \<Longrightarrow>
    graph_move T (put_graph (g\<lparr>gs_completion := Some x, gs_status := GJoined,
      gs_revision := gs_revision g + 1, gs_updated := t\<rparr>) T)"
| drop: "view T p g \<Longrightarrow> n \<in> set (gs_nodes g) \<Longrightarrow> nr_status n \<notin> set TERMINAL_NODES \<Longrightarrow>
    graph_move T (put_node (n\<lparr>nr_status := NCancelled, nr_revision := nr_revision n + 1,
      nr_finished := Some now, nr_updated := now\<rparr>) T)"
| cancel: "view T p g \<Longrightarrow> gs_cancelled_at g = None \<Longrightarrow>
    list_all (\<lambda>n. nr_status n \<in> set TERMINAL_NODES) (gs_nodes g) \<Longrightarrow>
    graph_move T (put_graph (g\<lparr>gs_claim := None, gs_cancelled_at := Some now, gs_status := GCancelled,
      gs_revision := gs_revision g + 1, gs_updated := now\<rparr>)
      (case gs_claim g of None \<Rightarrow> T | Some c \<Rightarrow> close (gc_id c) ClaimCancelled now T))"

section \<open>The invariant\<close>

definition row_ok :: "tables \<Rightarrow> node_row \<Rightarrow> bool" where
  "row_ok T r \<longleftrightarrow> record_key (fn_data r) = node_key r \<and> fn_status r = nr_status (fn_data r)
     \<and> fn_binding r = nr_binding (fn_data r) \<and> node_id (nr_node (fn_data r)) = fn_node r
     \<and> fn_iteration r = 0 \<and> fn_parent r \<in> fg_parent ` set (tg T)"

definition dep_rows :: "tables \<Rightarrow> node_row \<Rightarrow> node_row list" where
  "dep_rows T r = filter (\<lambda>s. fn_node s \<in> set (depends_on (nr_node (fn_data r)))) (rows_of T (fn_parent r))"

definition deps_ok :: "tables \<Rightarrow> node_row \<Rightarrow> bool" where
  "deps_ok T r \<longleftrightarrow> length (dep_rows T r) = length (depends_on (nr_node (fn_data r)))
     \<and> list_all (\<lambda>s. fn_status s = NSucceeded) (dep_rows T r)
     \<and> nr_inputs (fn_data r) = concat (map (\<lambda>s. nr_outputs (fn_data s)) (dep_rows T r))"

definition started_ok :: "tables \<Rightarrow> node_row \<Rightarrow> bool" where
  "started_ok T r \<longleftrightarrow> (fn_status r \<in> {NRunning, NWaiting, NSucceeded} \<longrightarrow> nr_started (fn_data r) \<noteq> None)
     \<and> (nr_started (fn_data r) \<noteq> None \<longrightarrow> deps_ok T r)"

definition running_rows :: "tables \<Rightarrow> string \<Rightarrow> nat" where
  "running_rows T p = length (filter (\<lambda>r. fn_status r = NRunning) (rows_of T p))"

definition graph_row_ok :: "tables \<Rightarrow> graph_row \<Rightarrow> bool" where
  "graph_row_ok T R \<longleftrightarrow> (let g = fg_data R; p = fg_parent R in gs_parent g = p
     \<and> opt_all (\<lambda>c. gc_parent c = p \<and> row_of_claim c \<in> set (tc T)) (gs_claim g)
     \<and> int (running_rows T p) \<le> max_parallel_agents (gs_plan g)
     \<and> (gs_preparation g \<noteq> None \<longrightarrow> list_all (\<lambda>r. fn_status r = NSucceeded) (rows_of T p))
     \<and> (gs_completion g \<noteq> None \<longrightarrow> gs_preparation g \<noteq> None)
     \<and> (gs_cancelled_at g \<noteq> None \<longrightarrow> gs_claim g = None
          \<and> list_all (\<lambda>r. fn_status r \<in> set TERMINAL_NODES) (rows_of T p)))"

definition claim_row_ok :: "tables \<Rightarrow> driver_row \<Rightarrow> bool" where
  "claim_row_ok T c \<longleftrightarrow> (\<exists>R. row_lookup fg_parent (fc_parent c) (tg T) = Some R
     \<and> fc_generation c \<le> gs_generation (fg_data R)
     \<and> (fc_status c = ClaimActive \<longrightarrow> map_option gc_id (gs_claim (fg_data R)) = Some (fc_id c)))"

definition tables_inv :: "tables \<Rightarrow> bool" where
  "tables_inv T \<longleftrightarrow> distinct (map fg_parent (tg T)) \<and> distinct (map node_key (tn T))
     \<and> distinct (map fc_id (tc T))
     \<and> (\<forall>r \<in> set (tn T). row_ok T r \<and> started_ok T r)
     \<and> (\<forall>R \<in> set (tg T). graph_row_ok T R)
     \<and> (\<forall>c \<in> set (tc T). claim_row_ok T c)"

section \<open>The order of growth\<close>

definition sticky :: "'a option \<Rightarrow> 'a option \<Rightarrow> bool" where
  "sticky x y \<longleftrightarrow> x \<noteq> None \<longrightarrow> y = x"

definition graph_row_le :: "graph_row \<Rightarrow> graph_row \<Rightarrow> bool" where
  "graph_row_le R S \<longleftrightarrow> fg_manifest S = fg_manifest R \<and> gs_plan (fg_data S) = gs_plan (fg_data R)
     \<and> gs_revision (fg_data R) \<le> gs_revision (fg_data S)
     \<and> gs_generation (fg_data R) \<le> gs_generation (fg_data S)
     \<and> sticky (gs_preparation (fg_data R)) (gs_preparation (fg_data S))
     \<and> sticky (gs_completion (fg_data R)) (gs_completion (fg_data S))
     \<and> sticky (gs_cancelled_at (fg_data R)) (gs_cancelled_at (fg_data S))"

definition node_row_le :: "node_row \<Rightarrow> node_row \<Rightarrow> bool" where
  "node_row_le r s \<longleftrightarrow> fn_binding s = fn_binding r \<and> nr_node (fn_data s) = nr_node (fn_data r)
     \<and> (fn_status r \<in> set TERMINAL_NODES \<longrightarrow> s = r)
     \<and> sticky (nr_started (fn_data r)) (nr_started (fn_data s))"

definition claim_row_le :: "driver_row \<Rightarrow> driver_row \<Rightarrow> bool" where
  "claim_row_le c d \<longleftrightarrow> fc_parent d = fc_parent c \<and> fc_generation d = fc_generation c
     \<and> fc_data d = fc_data c \<and> (fc_status c \<noteq> ClaimActive \<longrightarrow> d = c)"

definition tables_le :: "tables \<Rightarrow> tables \<Rightarrow> bool" where
  "tables_le S T \<longleftrightarrow> table_le fg_parent graph_row_le (tg S) (tg T)
     \<and> table_le node_key node_row_le (tn S) (tn T) \<and> table_le fc_id claim_row_le (tc S) (tc T)"

lemma tables_le_refl: "tables_le T T"
  by (auto simp: tables_le_def graph_row_le_def node_row_le_def claim_row_le_def sticky_def
      intro!: table_le_refl)

lemma graph_row_le_trans: "graph_row_le x y \<Longrightarrow> graph_row_le y z \<Longrightarrow> graph_row_le x z"
  by (auto simp: graph_row_le_def sticky_def)

lemma node_row_le_trans: "node_row_le x y \<Longrightarrow> node_row_le y z \<Longrightarrow> node_row_le x z"
  by (auto simp: node_row_le_def sticky_def)

lemma claim_row_le_trans: "claim_row_le x y \<Longrightarrow> claim_row_le y z \<Longrightarrow> claim_row_le x z"
  by (auto simp: claim_row_le_def)

lemma tables_le_trans: "tables_le S T \<Longrightarrow> tables_le T U \<Longrightarrow> tables_le S U"
  unfolding tables_le_def
  by (blast intro: table_le_trans graph_row_le_trans node_row_le_trans claim_row_le_trans)

section \<open>Rows of one graph under updates\<close>

lemma insert_by_key_map:
  "insert_by_key (k, f v) (map (\<lambda>(k, v). (k, f v)) es) = map (\<lambda>(k, v). (k, f v)) (insert_by_key (k, v) es)"
  by (induction es) auto

lemma sort_by_key_map:
  "sort_by_key (map (\<lambda>(k, v). (k, f v)) es) = map (\<lambda>(k, v). (k, f v)) (sort_by_key es)"
  by (induction es) (auto simp: sort_by_key_def insert_by_key_map)

lemma set_rows_of [simp]: "set (rows_of T p) = {r \<in> set (tn T). fn_parent r = p}"
  by (force simp: rows_of_def)

text \<open>Rewriting the rows of the node table without their keys rewrites them inside every graph.\<close>

lemma rows_of_map:
  assumes keep: "\<And>r. fn_parent (f r) = fn_parent r \<and> fn_node (f r) = fn_node r" and "tn T' = map f (tn T)"
  shows "rows_of T' p = map f (rows_of T p)"
proof -
  have "map (\<lambda>r. (fn_node r, r)) (filter (\<lambda>r. fn_parent r = p) (map f (tn T)))
      = map (\<lambda>(k, v). (k, f v)) (map (\<lambda>r. (fn_node r, r)) (filter (\<lambda>r. fn_parent r = p) (tn T)))"
    by (simp add: filter_map o_def keep)
  then have "rows_of T' p = map snd (map (\<lambda>(k, v). (k, f v))
      (sort_by_key (map (\<lambda>r. (fn_node r, r)) (filter (\<lambda>r. fn_parent r = p) (tn T)))))"
    using assms(2) by (simp only: rows_of_def sort_by_key_map)
  also have "\<dots> = map f (rows_of T p)" by (simp add: rows_of_def o_def case_prod_beta)
  finally show ?thesis .
qed

lemma distinct_sort_snd: "distinct (map snd es) \<Longrightarrow> distinct (map snd (sort_by_key es))"
  by (metis distinct_map card_distinct distinct_card length_map length_sort_by_key set_map set_sort_by_key)

lemma distinct_rows_of: "distinct (tn T) \<Longrightarrow> distinct (rows_of T p)"
  unfolding rows_of_def by (rule distinct_sort_snd) (simp add: o_def)

lemma rows_of_same_nodes: "tn T' = tn T \<Longrightarrow> rows_of T' = rows_of T"
  by (simp add: rows_of_def fun_eq_iff)

lemma rows_of_append_other:
  "\<forall>r \<in> set new. fn_parent r \<noteq> p \<Longrightarrow> tn T' = tn T @ new \<Longrightarrow> rows_of T' p = rows_of T p"
  by (simp add: rows_of_def filter_False)

lemma update_is_map:
  "row_update key k f rows = map (\<lambda>r. if key r = k then f r else r) rows"
  by (simp add: row_update_def)

end
