(* ===== verification/Graph_Invariants.thy ===== *)
theory Graph_Invariants
  imports Graph_Moves
begin

text \<open>
  Every move of \<open>Graph_Moves\<close> preserves the invariant of the three tables and only lets them grow
  in their order. There are two kinds of write, of a node row and of a graph row; each has one lemma
  that reduces preservation to a condition on the new row.
\<close>

section \<open>Reading rows\<close>

lemma inv_row: "tables_inv T \<Longrightarrow> r \<in> set (tn T) \<Longrightarrow> row_ok T r \<and> started_ok T r"
  by (simp add: tables_inv_def)

lemma inv_graph_row:
  "tables_inv T \<Longrightarrow> row_lookup fg_parent p (tg T) = Some R \<Longrightarrow> graph_row_ok T R \<and> fg_parent R = p"
  by (auto simp: tables_inv_def dest: row_lookup_Some)

lemma inv_same_key:
  "tables_inv T \<Longrightarrow> r \<in> set (tn T) \<Longrightarrow> s \<in> set (tn T) \<Longrightarrow> node_key s = node_key r \<longleftrightarrow> s = r"
  by (auto simp: tables_inv_def distinct_map dest: inj_onD)

lemma row_ok_node: "row_ok T r \<Longrightarrow> gb_node (nr_binding (fn_data r)) = fn_node r"
  by (simp add: row_ok_def record_key_def node_key_def)

lemma view_nodes: "view T p g \<Longrightarrow> gs_nodes g = map fn_data (rows_of T p)"
  by (simp add: view_def)

lemma view_row:
  assumes "view T p g" and "n \<in> set (gs_nodes g)"
  obtains r where "r \<in> set (tn T)" and "fn_parent r = p" and "fn_data r = n"
  using assms by (auto simp: view_nodes)

lemma view_data:
  assumes "view T p g"
  obtains R where "row_lookup fg_parent p (tg T) = Some R" and "gs_plan (fg_data R) = gs_plan g"
    and "gs_revision (fg_data R) = gs_revision g" and "gs_generation (fg_data R) = gs_generation g"
    and "gs_claim (fg_data R) = gs_claim g" and "gs_preparation (fg_data R) = gs_preparation g"
    and "gs_completion (fg_data R) = gs_completion g" and "gs_cancelled_at (fg_data R) = gs_cancelled_at g"
proof -
  obtain R where R: "row_lookup fg_parent p (tg T) = Some R" "(fg_data R)\<lparr>gs_nodes := gs_nodes g\<rparr> = g"
    using assms by (auto simp: view_def)
  show ?thesis by (rule that [OF R(1)]; subst R(2) [symmetric], simp)
qed

lemma view_status:
  assumes "tables_inv T" and "view T p g"
  shows "list_all (\<lambda>n. P (nr_status n)) (gs_nodes g) = list_all (\<lambda>r. P (fn_status r)) (rows_of T p)"
proof -
  have "r \<in> set (tn T) \<Longrightarrow> nr_status (fn_data r) = fn_status r" for r
    using inv_row [OF assms(1)] by (simp add: row_ok_def)
  then show ?thesis by (auto simp: list_all_iff view_nodes [OF assms(2)])
qed

lemma view_running:
  assumes "tables_inv T" and "view T p g"
  shows "running_nodes g = running_rows T p"
proof -
  have "r \<in> set (tn T) \<Longrightarrow> nr_status (fn_data r) = fn_status r" for r
    using inv_row [OF assms(1)] by (simp add: row_ok_def)
  then show ?thesis
    by (auto simp: running_nodes_def running_rows_def view_nodes [OF assms(2)] filter_map o_def
        intro!: arg_cong [where f = length] filter_cong)
qed

lemma view_dependencies:
  assumes "tables_inv T" and "view T (fn_parent r) g"
  shows "dependencies g (nr_node (fn_data r)) = map fn_data (dep_rows T r)"
proof -
  have "s \<in> set (tn T) \<Longrightarrow> gb_node (nr_binding (fn_data s)) = fn_node s" for s
    using inv_row [OF assms(1)] row_ok_node by blast
  then show ?thesis
    by (auto simp: dependencies_def dep_rows_def view_nodes [OF assms(2)] filter_map o_def
        intro!: arg_cong [where f = "map fn_data"] filter_cong)
qed

section \<open>Writing a node row\<close>

definition rewrite :: "node_record \<Rightarrow> node_row \<Rightarrow> node_row" where
  "rewrite n s = (if node_key s = record_key n then move_row n s else s)"

lemma tn_put_node: "tn (put_node n T) = map (rewrite n) (tn T)"
  by (simp add: put_node_def update_is_map rewrite_def [abs_def])

lemma put_node_simps [simp]: "tg (put_node n T) = tg T" "tc (put_node n T) = tc T"
  by (simp_all add: put_node_def)

lemma rewrite_keeps [simp]:
  "fn_parent (rewrite n s) = fn_parent s" "fn_node (rewrite n s) = fn_node s"
  "fn_iteration (rewrite n s) = fn_iteration s" "fn_binding (rewrite n s) = fn_binding s"
  by (simp_all add: rewrite_def move_row_def)

lemma rewrite_key [simp]: "node_key (rewrite n s) = node_key s"
  by (simp add: node_key_def)

lemma rows_of_put_node: "rows_of (put_node n T) p = map (rewrite n) (rows_of T p)"
  by (rule rows_of_map) (simp_all add: tn_put_node)

lemma dep_rows_put_node: "dep_rows (put_node n T) s = map (rewrite n) (dep_rows T s)"
  by (simp add: dep_rows_def rows_of_put_node filter_map o_def)

text \<open>
  A write of the record \<open>n\<close> to the live row \<open>r\<close>: what has to hold of it for the invariant to
  survive.
\<close>

definition node_write :: "tables \<Rightarrow> node_row \<Rightarrow> node_record \<Rightarrow> bool" where
  "node_write T r n \<longleftrightarrow> tables_inv T \<and> r \<in> set (tn T) \<and> fn_status r \<notin> set TERMINAL_NODES
     \<and> nr_binding n = nr_binding (fn_data r) \<and> nr_node n = nr_node (fn_data r)
     \<and> sticky (nr_started (fn_data r)) (nr_started n)
     \<and> (nr_status n \<in> {NRunning, NWaiting, NSucceeded} \<longrightarrow> nr_started n \<noteq> None)
     \<and> (nr_started n \<noteq> None \<longrightarrow> deps_ok T (move_row n r))
     \<and> (nr_status n = NRunning \<longrightarrow> (\<forall>R. row_lookup fg_parent (fn_parent r) (tg T) = Some R \<longrightarrow>
          int (running_rows T (fn_parent r)) < max_parallel_agents (gs_plan (fg_data R))))"

lemma write_inv: "node_write T r n \<Longrightarrow> tables_inv T"
  and write_in: "node_write T r n \<Longrightarrow> r \<in> set (tn T)"
  and write_live: "node_write T r n \<Longrightarrow> fn_status r \<notin> set TERMINAL_NODES"
  by (auto simp: node_write_def)

lemma write_key: "node_write T r n \<Longrightarrow> record_key n = node_key r"
  using inv_row [of T r] by (simp add: node_write_def row_ok_def record_key_def)

lemma write_eq:
  "node_write T r n \<Longrightarrow> s \<in> set (tn T) \<Longrightarrow> rewrite n s = (if s = r then move_row n r else s)"
  using inv_same_key [of T r s] write_key [of T r n] by (auto simp: rewrite_def node_write_def)

lemma write_succeeded:
  "node_write T r n \<Longrightarrow> fn_status s = NSucceeded \<Longrightarrow> s \<in> set (tn T) \<Longrightarrow> rewrite n s = s"
  using write_live [of T r n] by (auto simp: write_eq TERMINAL_NODES_def)

lemma write_row_ok:
  assumes w: "node_write T r n" and s: "s \<in> set (tn T)"
  shows "row_ok (put_node n T) (rewrite n s)"
  using inv_row [of T s] w s
  by (auto simp: write_eq [OF w] node_write_def row_ok_def move_row_def record_key_def node_key_def)

lemma write_deps_ok:
  assumes w: "node_write T r n" and d: "deps_ok T s"
  shows "deps_ok (put_node n T) s"
proof -
  have "x \<in> set (dep_rows T s) \<Longrightarrow> rewrite n x = x" for x
    using d by (intro write_succeeded [OF w]) (auto simp: deps_ok_def list_all_iff dep_rows_def)
  then have "dep_rows (put_node n T) s = dep_rows T s"
    by (simp add: dep_rows_put_node map_idI)
  with d show ?thesis by (simp add: deps_ok_def)
qed

lemma write_started_ok:
  assumes w: "node_write T r n" and s: "s \<in> set (tn T)"
  shows "started_ok (put_node n T) (rewrite n s)"
  using inv_row [of T s] w s
  by (auto simp: write_eq [OF w] node_write_def started_ok_def move_row_def intro: write_deps_ok [OF w])

lemma write_running:
  assumes w: "node_write T r n"
  shows "running_rows (put_node n T) p
    \<le> running_rows T p + (if p = fn_parent r \<and> nr_status n = NRunning then 1 else 0)"
proof -
  let ?f = "\<lambda>s. fn_status s = NRunning"
  have "length (filter ?f (map (rewrite n) rs))
      \<le> length (filter ?f rs) + (if r \<in> set rs \<and> nr_status n = NRunning then 1 else 0)"
    if "distinct rs" and "set rs \<subseteq> set (tn T)" for rs
    using that by (induction rs) (auto simp: write_eq [OF w] move_row_def)
  moreover have "distinct (rows_of T p)" and "set (rows_of T p) \<subseteq> set (tn T)"
    using write_inv [OF w] by (auto simp: tables_inv_def distinct_rows_of distinct_map)
  ultimately show ?thesis
    using write_in [OF w] by (fastforce simp: running_rows_def rows_of_put_node)
qed

text \<open>A graph with a live node has neither a join preparation nor been cancelled.\<close>

lemma write_graph_ok:
  assumes w: "node_write T r n" and R: "R \<in> set (tg T)"
  shows "graph_row_ok (put_node n T) R"
proof -
  have inv: "tables_inv T" and old: "graph_row_ok T R" using w R by (auto simp: node_write_def tables_inv_def)
  have look: "row_lookup fg_parent (fg_parent R) (tg T) = Some R"
    using inv R by (simp add: tables_inv_def row_lookup_distinct)
  show ?thesis
  proof (cases "fg_parent R = fn_parent r")
    case True
    have "r \<in> set (rows_of T (fg_parent R))" using w True by (simp add: node_write_def)
    then have "gs_preparation (fg_data R) = None" and "gs_cancelled_at (fg_data R) = None"
      using old w by (auto simp: graph_row_ok_def Let_def list_all_iff node_write_def TERMINAL_NODES_def)
    with old write_running [OF w, of "fg_parent R"] w look True show ?thesis
      by (auto simp: graph_row_ok_def Let_def node_write_def split: if_splits)
  next
    case False
    then have "rows_of (put_node n T) (fg_parent R) = rows_of T (fg_parent R)"
      by (auto simp: rows_of_put_node write_eq [OF w] intro!: map_idI)
    with old show ?thesis by (simp add: graph_row_ok_def running_rows_def)
  qed
qed

lemma write_keeps_inv:
  assumes w: "node_write T r n"
  shows "tables_inv (put_node n T)"
proof -
  have "map node_key (tn (put_node n T)) = map node_key (tn T)" by (simp add: tn_put_node)
  moreover have "claim_row_ok (put_node n T) c = claim_row_ok T c" for c by (simp add: claim_row_ok_def)
  moreover have "\<forall>s \<in> set (tn (put_node n T)). row_ok (put_node n T) s \<and> started_ok (put_node n T) s"
    using write_row_ok [OF w] write_started_ok [OF w] by (simp add: tn_put_node)
  ultimately show ?thesis
    using write_inv [OF w] write_graph_ok [OF w] by (simp add: tables_inv_def)
qed

lemma write_grows:
  assumes w: "node_write T r n"
  shows "tables_le T (put_node n T)"
proof -
  have "table_le node_key node_row_le (tn T) (row_update node_key (record_key n) (move_row n) (tn T))"
  proof (rule table_le_update)
    fix k s
    assume "row_lookup node_key k (tn T) = Some s" and "node_key s = record_key n"
    then have "s = r"
      using inv_same_key [OF write_inv [OF w] write_in [OF w]] write_key [OF w] by (auto dest: row_lookup_Some)
    moreover have "row_ok T r" using inv_row [OF write_inv [OF w] write_in [OF w]] by simp
    moreover have "node_row_le r (move_row n r)"
      using w by (simp add: node_write_def node_row_le_def move_row_def)
    ultimately show "node_row_le s (move_row n s)" by simp
  qed (auto simp: move_row_def node_key_def node_row_le_def sticky_def)
  then show ?thesis
    by (auto simp: tables_le_def put_node_def graph_row_le_def claim_row_le_def sticky_def intro!: table_le_refl)
qed

section \<open>Writing a graph row\<close>

text \<open>
  A write of the graph \<open>g\<close> to its row \<open>R\<close> together with a new table of claims \<open>cs\<close>.
\<close>

definition graph_fits :: "tables \<Rightarrow> graph \<Rightarrow> driver_row list \<Rightarrow> bool" where
  "graph_fits T g cs \<longleftrightarrow>
     opt_all (\<lambda>c. gc_parent c = gs_parent g \<and> row_of_claim c \<in> set cs) (gs_claim g)
     \<and> (gs_preparation g \<noteq> None \<longrightarrow> list_all (\<lambda>r. fn_status r = NSucceeded) (rows_of T (gs_parent g)))
     \<and> (gs_completion g \<noteq> None \<longrightarrow> gs_preparation g \<noteq> None)
     \<and> (gs_cancelled_at g \<noteq> None \<longrightarrow> gs_claim g = None
          \<and> list_all (\<lambda>r. fn_status r \<in> set TERMINAL_NODES) (rows_of T (gs_parent g)))"

definition graph_le :: "graph \<Rightarrow> graph \<Rightarrow> bool" where
  "graph_le f g \<longleftrightarrow> gs_plan g = gs_plan f \<and> gs_revision f \<le> gs_revision g \<and> gs_generation f \<le> gs_generation g
     \<and> sticky (gs_preparation f) (gs_preparation g) \<and> sticky (gs_completion f) (gs_completion g)
     \<and> sticky (gs_cancelled_at f) (gs_cancelled_at g)"

definition claims_fit :: "tables \<Rightarrow> graph \<Rightarrow> driver_row list \<Rightarrow> bool" where
  "claims_fit T g cs \<longleftrightarrow> distinct (map fc_id cs) \<and> table_le fc_id claim_row_le (tc T) cs
     \<and> (\<forall>c \<in> set (tc T). fc_parent c \<noteq> gs_parent g \<longrightarrow> c \<in> set cs)
     \<and> (\<forall>c \<in> set cs. fc_parent c \<noteq> gs_parent g \<longrightarrow> c \<in> set (tc T))
     \<and> (\<forall>c \<in> set cs. fc_parent c = gs_parent g \<longrightarrow> fc_generation c \<le> gs_generation g
          \<and> (fc_status c = ClaimActive \<longrightarrow> map_option gc_id (gs_claim g) = Some (fc_id c)))"

definition graph_write :: "tables \<Rightarrow> graph_row \<Rightarrow> graph \<Rightarrow> driver_row list \<Rightarrow> bool" where
  "graph_write T R g cs \<longleftrightarrow> tables_inv T \<and> row_lookup fg_parent (gs_parent g) (tg T) = Some R
     \<and> graph_fits T g cs \<and> graph_le (fg_data R) g \<and> claims_fit T g cs"

definition graph_rewrite :: "graph \<Rightarrow> graph_row \<Rightarrow> graph_row" where
  "graph_rewrite g r = r\<lparr>fg_revision := gs_revision g, fg_status := gs_status g, fg_generation := gs_generation g,
     fg_claim := map_option gc_id (gs_claim g), fg_data := g\<rparr>"

lemma put_graph_simps [simp]:
  "tn (put_graph g T) = tn T" "tc (put_graph g T) = tc T"
  by (simp_all add: put_graph_def)

lemma rows_of_put_graph [simp]: "rows_of (put_graph g T) = rows_of T"
  by (rule rows_of_same_nodes) simp

lemma tg_put_graph: "tg (put_graph g T) = row_update fg_parent (gs_parent g) (graph_rewrite g) (tg T)"
  by (simp add: put_graph_def graph_rewrite_def [abs_def])

lemma graph_rewrite_simps [simp]:
  "fg_parent (graph_rewrite g r) = fg_parent r" "fg_data (graph_rewrite g r) = g"
  "fg_manifest (graph_rewrite g r) = fg_manifest r"
  by (simp_all add: graph_rewrite_def)

lemma rows_of_claims [simp]: "rows_of (T\<lparr>tc := cs\<rparr>) = rows_of T"
  by (rule rows_of_same_nodes) simp

lemma lookup_put_graph:
  "row_lookup fg_parent p (tg (put_graph g T)) = map_option (\<lambda>r. if fg_parent r = gs_parent g then graph_rewrite g r else r)
     (row_lookup fg_parent p (tg T))"
  by (simp add: tg_put_graph row_lookup_row_update)

lemma gw_inv: "graph_write T R g cs \<Longrightarrow> tables_inv T"
  and gw_look: "graph_write T R g cs \<Longrightarrow> row_lookup fg_parent (gs_parent g) (tg T) = Some R"
  and gw_fits: "graph_write T R g cs \<Longrightarrow> graph_fits T g cs"
  and gw_le: "graph_write T R g cs \<Longrightarrow> graph_le (fg_data R) g"
  and gw_claims: "graph_write T R g cs \<Longrightarrow> claims_fit T g cs"
  unfolding graph_write_def by blast+

lemma graph_write_row_ok:
  assumes w: "graph_write T R g cs"
  shows "graph_row_ok (put_graph g (T\<lparr>tc := cs\<rparr>)) (graph_rewrite g R)"
proof -
  have old: "graph_row_ok T R" "fg_parent R = gs_parent g"
    using inv_graph_row [OF gw_inv [OF w] gw_look [OF w]] by simp_all
  show ?thesis
    using old gw_fits [OF w] gw_le [OF w]
    by (simp add: graph_fits_def graph_le_def graph_row_ok_def Let_def running_rows_def)
qed

lemma graph_write_other:
  assumes w: "graph_write T R g cs" and S: "S \<in> set (tg T)" and other: "fg_parent S \<noteq> gs_parent g"
  shows "graph_row_ok (put_graph g (T\<lparr>tc := cs\<rparr>)) S"
proof -
  have ok: "graph_row_ok T S" using gw_inv [OF w] S by (simp add: tables_inv_def)
  have "row_of_claim c \<in> set cs" if "row_of_claim c \<in> set (tc T)" "gc_parent c = fg_parent S" for c
    using gw_claims [OF w] that other by (simp add: claims_fit_def row_of_claim_def)
  with ok show ?thesis
    by (cases "gs_claim (fg_data S)") (simp_all add: graph_row_ok_def Let_def running_rows_def)
qed

lemma graph_write_claims:
  assumes w: "graph_write T R g cs" and c: "c \<in> set cs"
  shows "claim_row_ok (put_graph g (T\<lparr>tc := cs\<rparr>)) c"
proof (cases "fc_parent c = gs_parent g")
  case True
  with gw_claims [OF w] c have "fc_generation c \<le> gs_generation g"
    and "fc_status c = ClaimActive \<longrightarrow> map_option gc_id (gs_claim g) = Some (fc_id c)"
    by (simp_all add: claims_fit_def)
  with True gw_look [OF w] row_lookup_Some [OF gw_look [OF w]] show ?thesis by (simp add: claim_row_ok_def lookup_put_graph)
next
  case False
  with gw_claims [OF w] c have "c \<in> set (tc T)" by (simp add: claims_fit_def)
  with gw_inv [OF w] have "claim_row_ok T c" by (simp add: tables_inv_def)
  then obtain S where "row_lookup fg_parent (fc_parent c) (tg T) = Some S" "fg_parent S = fc_parent c"
    "fc_generation c \<le> gs_generation (fg_data S)"
    "fc_status c = ClaimActive \<longrightarrow> map_option gc_id (gs_claim (fg_data S)) = Some (fc_id c)"
    by (auto simp: claim_row_ok_def dest: row_lookup_Some)
  with False show ?thesis by (simp add: claim_row_ok_def lookup_put_graph)
qed

lemma graph_write_keeps_inv:
  assumes w: "graph_write T R g cs"
  shows "tables_inv (put_graph g (T\<lparr>tc := cs\<rparr>))" (is "tables_inv ?T")
proof -
  have inv: "tables_inv T" and look: "row_lookup fg_parent (gs_parent g) (tg T) = Some R"
    using gw_inv [OF w] gw_look [OF w] by simp_all
  have only: "S = R" if "S \<in> set (tg T)" and "fg_parent S = gs_parent g" for S
    using inv that look row_lookup_distinct [of fg_parent "tg T" S] by (simp add: tables_inv_def)
  have keys: "map fg_parent (tg ?T) = map fg_parent (tg T)" by (simp add: tg_put_graph map_key_row_update)
  then have parents: "fg_parent ` set (tg ?T) = fg_parent ` set (tg T)" by (metis set_map)
  have nodes: "\<forall>r \<in> set (tn ?T). row_ok ?T r \<and> started_ok ?T r"
    using inv parents by (simp add: tables_inv_def row_ok_def started_ok_def deps_ok_def dep_rows_def)
  have graphs: "\<forall>S \<in> set (tg ?T). graph_row_ok ?T S"
    using only graph_write_row_ok [OF w] graph_write_other [OF w]
    by (auto simp: tg_put_graph row_update_def)
  have "distinct (map fc_id cs)" using w by (simp add: graph_write_def claims_fit_def)
  with keys nodes graphs inv graph_write_claims [OF w] show ?thesis by (simp add: tables_inv_def)
qed

lemma graph_write_grows:
  assumes w: "graph_write T R g cs"
  shows "tables_le T (put_graph g (T\<lparr>tc := cs\<rparr>))"
proof -
  have look: "row_lookup fg_parent (gs_parent g) (tg T) = Some R" using w by (simp add: graph_write_def)
  have "table_le fg_parent graph_row_le (tg T) (row_update fg_parent (gs_parent g) (graph_rewrite g) (tg T))"
  proof (rule table_le_update)
    fix k S
    assume k: "row_lookup fg_parent k (tg T) = Some S" and "fg_parent S = gs_parent g"
    then have "S = R" using look row_lookup_Some [OF k] by simp
    with w show "graph_row_le S (graph_rewrite g S)"
      by (simp add: graph_write_def graph_le_def graph_row_le_def)
  qed (simp_all add: graph_row_le_def sticky_def)
  moreover have "table_le fc_id claim_row_le (tc T) cs" using w by (simp add: graph_write_def claims_fit_def)
  moreover have "table_le node_key node_row_le (tn T) (tn T)"
    by (rule table_le_refl) (simp add: node_row_le_def sticky_def)
  ultimately show ?thesis by (simp add: tables_le_def tg_put_graph)
qed

section \<open>Moves of a node\<close>

lemma dep_rows_move_row: "nr_node n = nr_node (fn_data r) \<Longrightarrow> dep_rows T (move_row n r) = dep_rows T r"
  by (simp add: dep_rows_def move_row_def)

lemma may_start_deps:
  assumes inv: "tables_inv T" and v: "view T (fn_parent r) g" and start: "may_start g (fn_data r) inputs"
  shows "deps_ok T (move_row (moved_record (fn_data r) NRunning inputs outputs err now) r)"
    (is "deps_ok T (move_row ?n r)")
proof -
  note d = view_dependencies [OF inv v]
  have "s \<in> set (dep_rows T r) \<Longrightarrow> nr_status (fn_data s) = fn_status s" for s
    using inv_row [OF inv, of s] by (simp add: dep_rows_def row_ok_def)
  with start have "list_all (\<lambda>s. fn_status s = NSucceeded) (dep_rows T r)"
    by (auto simp: may_start_def d list_all_iff)
  moreover have "inputs = concat (map (\<lambda>s. nr_outputs (fn_data s)) (dep_rows T r))"
    using start by (simp add: may_start_def expected_inputs_def d o_def)
  moreover have "length (dep_rows T r) = length (depends_on (nr_node (fn_data r)))"
    using start by (simp add: may_start_def d)
  moreover have "nr_node ?n = nr_node (fn_data r)" and "nr_inputs ?n = inputs"
    by (simp_all add: moved_record_def)
  ultimately show ?thesis
    by (simp add: deps_ok_def dep_rows_move_row) (simp add: move_row_def)
qed

lemma kept_inputs_deps:
  "deps_ok T r \<Longrightarrow> nr_inputs n = nr_inputs (fn_data r) \<Longrightarrow> nr_node n = nr_node (fn_data r) \<Longrightarrow> deps_ok T (move_row n r)"
  by (simp add: deps_ok_def dep_rows_move_row) (simp add: move_row_def)

lemma move_is_write:
  assumes inv: "tables_inv T" and v: "view T p g" and r: "r \<in> set (tn T)" "fn_parent r = p"
    and target: "target \<in> set (node_targets (nr_status (fn_data r)))"
    and start: "target = NRunning \<longrightarrow> may_start g (fn_data r) inputs"
  shows "node_write T r (moved_record (fn_data r) target inputs outputs err now)" (is "node_write T r ?n")
proof -
  have row: "row_ok T r" "started_ok T r" using inv_row [OF inv r(1)] by simp_all
  have status: "fn_status r = nr_status (fn_data r)" using row by (simp add: row_ok_def)
  have live: "fn_status r \<notin> set TERMINAL_NODES"
    using target status by (cases "nr_status (fn_data r)") (auto simp: TERMINAL_NODES_def)
  have started: "nr_status ?n \<in> {NRunning, NWaiting, NSucceeded} \<longrightarrow> nr_started ?n \<noteq> None"
    using row(2) target status
    by (cases "nr_status (fn_data r)") (auto simp: started_ok_def moved_record_def split: option.split)
  have deps: "deps_ok T (move_row ?n r)" if "nr_started ?n \<noteq> None"
  proof (cases "target = NRunning")
    case True
    with start v r may_start_deps [OF inv, of r g inputs] show ?thesis by simp
  next
    case False
    with that have "nr_started (fn_data r) \<noteq> None" by (auto simp: moved_record_def split: option.splits)
    with row(2) have "deps_ok T r" by (simp add: started_ok_def)
    with False show ?thesis by (intro kept_inputs_deps) (simp_all add: moved_record_def)
  qed
  have room: "int (running_rows T p) < max_parallel_agents (gs_plan (fg_data R))"
    if "nr_status ?n = NRunning" and "row_lookup fg_parent p (tg T) = Some R" for R
  proof -
    have "gs_plan (fg_data R) = gs_plan g" using view_data [OF v] that(2) by (metis option.inject)
    moreover have "int (running_nodes g) < max_parallel_agents (gs_plan g)"
      using start that(1) by (simp add: moved_record_def may_start_def)
    ultimately show ?thesis using view_running [OF inv v] by simp
  qed
  have same: "nr_binding ?n = nr_binding (fn_data r)" "nr_node ?n = nr_node (fn_data r)"
    "sticky (nr_started (fn_data r)) (nr_started ?n)"
    by (auto simp: moved_record_def sticky_def split: option.split)
  show ?thesis unfolding node_write_def using inv r live same started deps room by blast
qed

lemma drop_is_write:
  assumes inv: "tables_inv T" and r: "r \<in> set (tn T)" and live: "nr_status (fn_data r) \<notin> set TERMINAL_NODES"
  shows "node_write T r ((fn_data r)\<lparr>nr_status := NCancelled, nr_revision := k, nr_finished := f,
    nr_updated := u\<rparr>)" (is "node_write T r ?n")
proof -
  have row: "row_ok T r" "started_ok T r" using inv_row [OF inv r] by simp_all
  have "deps_ok T (move_row ?n r)" if "nr_started ?n \<noteq> None"
    using row(2) that by (intro kept_inputs_deps) (simp_all add: started_ok_def)
  with inv r live row(1) show ?thesis by (simp add: node_write_def row_ok_def sticky_def)
qed

section \<open>Moves of a graph\<close>

lemma view_old:
  assumes "tables_inv T" and "view T p g"
  obtains R where "row_lookup fg_parent (gs_parent g) (tg T) = Some R" and "gs_parent g = p"
    and "graph_row_ok T R" and "fg_parent R = p" and "graph_le (fg_data R) g"
    and "gs_claim (fg_data R) = gs_claim g" and "graph_fits T g (tc T)"
proof -
  obtain R where R: "row_lookup fg_parent p (tg T) = Some R" "gs_plan (fg_data R) = gs_plan g"
    "gs_revision (fg_data R) = gs_revision g" "gs_generation (fg_data R) = gs_generation g"
    "gs_claim (fg_data R) = gs_claim g" "gs_preparation (fg_data R) = gs_preparation g"
    "gs_completion (fg_data R) = gs_completion g" "gs_cancelled_at (fg_data R) = gs_cancelled_at g"
    using view_data [OF assms(2)] by blast
  have p: "gs_parent g = p" using assms(2) by (simp add: view_def)
  have ok: "graph_row_ok T R" "fg_parent R = p" using inv_graph_row [OF assms(1) R(1)] by simp_all
  have "graph_le (fg_data R) g" by (simp add: graph_le_def R sticky_def)
  moreover have "graph_fits T g (tc T)"
    using ok by (simp add: graph_fits_def graph_row_ok_def Let_def R p)
  ultimately show ?thesis using that R p ok by simp
qed

text \<open>The claims of a graph before a write: the active one is the one the graph names.\<close>

lemma old_claims:
  assumes inv: "tables_inv T" and v: "view T p g" and c: "c \<in> set (tc T)" and p: "fc_parent c = p"
  shows "fc_generation c \<le> gs_generation g"
    and "fc_status c = ClaimActive \<Longrightarrow> map_option gc_id (gs_claim g) = Some (fc_id c)"
proof -
  obtain R where R: "row_lookup fg_parent p (tg T) = Some R" "gs_generation (fg_data R) = gs_generation g"
    "gs_claim (fg_data R) = gs_claim g" using view_data [OF v] by blast
  have "claim_row_ok T c" using inv c by (simp add: tables_inv_def)
  then show "fc_generation c \<le> gs_generation g"
    and "fc_status c = ClaimActive \<Longrightarrow> map_option gc_id (gs_claim g) = Some (fc_id c)"
    using R p by (auto simp: claim_row_ok_def)
qed

lemma claims_unchanged:
  assumes inv: "tables_inv T" and v: "view T p g" and "gs_parent h = p"
    and "gs_generation h = gs_generation g" and "gs_claim h = gs_claim g"
  shows "claims_fit T h (tc T)"
  using old_claims [OF inv v] inv assms(3-)
  by (auto simp: claims_fit_def tables_inv_def claim_row_le_def intro!: table_le_refl)

lemma claims_extended:
  assumes inv: "tables_inv T" and v: "view T p g" and none: "gs_claim g = None"
    and h: "gs_parent h = p" "gs_generation h = gs_generation g + 1" "gs_claim h = Some c"
    and c: "gc_parent c = p" "gc_generation c = gs_generation g + 1" "gc_id c \<notin> fc_id ` set (tc T)"
  shows "claims_fit T h (tc T @ [row_of_claim c])"
proof -
  have "fc_generation d \<le> gs_generation h \<and> fc_status d \<noteq> ClaimActive"
    if "d \<in> set (tc T)" "fc_parent d = p" for d
    using old_claims [OF inv v that] none h by auto
  with inv h c show ?thesis
    by (auto simp: claims_fit_def tables_inv_def row_of_claim_def claim_row_le_def intro!: table_le_append)
qed

lemma claims_closed:
  assumes inv: "tables_inv T" and v: "view T p g" and c: "gs_claim g = Some c"
    and h: "gs_parent h = p" "gs_generation h = gs_generation g" "gs_claim h = None" and "status \<noteq> ClaimActive"
  shows "claims_fit T h (tc (close (gc_id c) status now T))" (is "claims_fit T h ?cs")
proof -
  let ?u = "\<lambda>r. r\<lparr>fc_status := status, fc_released := Some now\<rparr>"
  have cs: "?cs = row_update fc_id (gc_id c) ?u (tc T)" by (simp add: close_def)
  have own: "row_of_claim c \<in> set (tc T)" "gc_parent c = p"
    using view_old [OF inv v] c by (auto simp: graph_fits_def opt_all_def view_def [of T p g] v split: option.splits)
  have ids: "distinct (map fc_id (tc T))" using inv by (simp add: tables_inv_def)
  then have eq: "d = row_of_claim c" if "d \<in> set (tc T)" "fc_id d = gc_id c" for d
  proof -
    have "fc_id d = fc_id (row_of_claim c)" using that by (simp add: row_of_claim_def)
    with ids that(1) own(1) show ?thesis by (simp add: distinct_map inj_on_def)
  qed
  have le: "table_le fc_id claim_row_le (tc T) ?cs"
    unfolding cs by (rule table_le_update)
      (auto simp: claim_row_le_def row_of_claim_def dest!: row_lookup_Some eq)
  have mine: "fc_generation d \<le> gs_generation h \<and> fc_status d \<noteq> ClaimActive"
    if "d \<in> set ?cs" "fc_parent d = p" for d
    using that old_claims [OF inv v] c h(2) assms(7) by (auto simp: cs row_update_def split: if_splits)
  have others: "d \<in> set ?cs \<longleftrightarrow> d \<in> set (tc T)" if "fc_parent d \<noteq> p" for d
    using that eq own by (force simp: cs row_update_def row_of_claim_def)
  have "distinct (map fc_id ?cs)" using ids by (simp add: cs map_key_row_update)
  with le mine others h show ?thesis by (auto simp: claims_fit_def)
qed

section \<open>Every move preserves the invariant\<close>

definition sound_move :: "tables \<Rightarrow> tables \<Rightarrow> bool" where
  "sound_move T T' \<longleftrightarrow> tables_inv T' \<and> tables_le T T'"

lemma sound_node: "node_write T r n \<Longrightarrow> sound_move T (put_node n T)"
  by (simp add: sound_move_def write_keeps_inv write_grows)

lemma sound_graph: "graph_write T R g cs \<Longrightarrow> sound_move T (put_graph g (T\<lparr>tc := cs\<rparr>))"
  by (simp add: sound_move_def graph_write_keeps_inv graph_write_grows)

text \<open>A write of a graph that differs from the one in view as stated.\<close>

lemma sound_view_write:
  assumes inv: "tables_inv T" and v: "view T p g" and "gs_parent h = p" and "gs_plan h = gs_plan g"
    and "gs_revision g \<le> gs_revision h" and "gs_generation g \<le> gs_generation h"
    and "sticky (gs_preparation g) (gs_preparation h)" and "sticky (gs_completion g) (gs_completion h)"
    and "sticky (gs_cancelled_at g) (gs_cancelled_at h)" and "graph_fits T h cs" and "claims_fit T h cs"
  shows "sound_move T (put_graph h (T\<lparr>tc := cs\<rparr>))"
proof -
  obtain R where R: "row_lookup fg_parent (gs_parent g) (tg T) = Some R" "gs_parent g = p" "graph_le (fg_data R) g"
    using view_old [OF inv v] by blast
  have "graph_le g h" using assms by (simp add: graph_le_def)
  then have "graph_le (fg_data R) h" using R(3) by (auto simp: graph_le_def sticky_def)
  with R assms show ?thesis by (intro sound_graph [of T R]) (simp add: graph_write_def)
qed

lemma row_of_graph_simps [simp]:
  "fg_parent (row_of_graph m) = gs_parent (mf_snapshot m)" "fg_data (row_of_graph m) = mf_snapshot m"
  by (simp_all add: row_of_graph_def Let_def)

lemma graph_row_ok_cong:
  "rows_of T' (fg_parent R) = rows_of T (fg_parent R) \<Longrightarrow> tc T' = tc T \<Longrightarrow> graph_row_ok T' R = graph_row_ok T R"
  by (simp only: graph_row_ok_def Let_def running_rows_def)

lemma create_sound:
  assumes inv: "tables_inv T" and new: "row_lookup fg_parent (gs_parent (mf_snapshot m)) (tg T) = None"
    and g: "fresh_graph (mf_snapshot m)" and rs: "list_all (fresh_record (gs_parent (mf_snapshot m))) records"
    and keys: "distinct (map node_key (tn T @ map row_of_record records))"
  shows "sound_move T (T\<lparr>tg := tg T @ [row_of_graph m], tn := tn T @ map row_of_record records\<rparr>)"
    (is "sound_move T ?T")
proof -
  let ?p = "gs_parent (mf_snapshot m)" and ?new = "map row_of_record records"
  have none: "?p \<notin> fg_parent ` set (tg T)" using new by (simp add: row_lookup_None)
  have old: "fn_parent r \<noteq> ?p" if "r \<in> set (tn T)" for r
    using inv_row [OF inv that] none by (auto simp: row_ok_def)
  have fresh: "fn_parent r = ?p" "fn_status r = NPending" "nr_started (fn_data r) = None" "row_ok ?T r"
    if "r \<in> set ?new" for r
    using that rs by (auto simp: list_all_iff fresh_record_def row_of_record_def Let_def row_ok_def
        record_key_def node_key_def)
  have same: "rows_of ?T q = rows_of T q" if "q \<noteq> ?p" for q
  proof (rule rows_of_append_other)
    show "\<forall>r \<in> set ?new. fn_parent r \<noteq> q" using fresh(1) that by blast
  qed simp
  have "row_ok ?T r \<and> started_ok ?T r" if r: "r \<in> set (tn T)" for r
  proof -
    have "dep_rows ?T r = dep_rows T r" using same [OF old [OF r]] by (simp only: dep_rows_def)
    with inv_row [OF inv r] show ?thesis by (simp add: row_ok_def started_ok_def deps_ok_def)
  qed
  moreover have "row_ok ?T r \<and> started_ok ?T r" if "r \<in> set ?new" for r
    using fresh [OF that] by (simp add: started_ok_def)
  ultimately have nodes: "\<forall>r \<in> set (tn ?T). row_ok ?T r \<and> started_ok ?T r" by auto
  have "graph_row_ok ?T R" if R: "R \<in> set (tg T)" for R
  proof -
    have "graph_row_ok T R" using inv R by (simp add: tables_inv_def)
    moreover have "fg_parent R \<noteq> ?p" using none R by (metis imageI)
    then have "rows_of ?T (fg_parent R) = rows_of T (fg_parent R)" by (rule same)
    ultimately show ?thesis using graph_row_ok_cong [of ?T R T] by simp
  qed
  moreover have "graph_row_ok ?T (row_of_graph m)"
  proof -
    have "filter (\<lambda>r. fn_status r = NRunning) (rows_of ?T ?p) = []"
      using fresh(2) old by (auto simp: filter_empty_conv)
    then have "running_rows ?T ?p = 0" by (simp only: running_rows_def list.size)
    moreover have "gs_claim (mf_snapshot m) = None" "gs_preparation (mf_snapshot m) = None"
      "gs_completion (mf_snapshot m) = None" "gs_cancelled_at (mf_snapshot m) = None"
      "0 \<le> max_parallel_agents (gs_plan (mf_snapshot m))"
      using g by (simp_all only: fresh_graph_def)
    ultimately show ?thesis unfolding graph_row_ok_def Let_def row_of_graph_simps by simp
  qed
  moreover have "claim_row_ok ?T c" if "c \<in> set (tc T)" for c
  proof -
    have "claim_row_ok T c" using inv that by (simp add: tables_inv_def)
    then show ?thesis by (auto simp: claim_row_ok_def row_lookup_append)
  qed
  moreover have "distinct (map fg_parent (tg ?T))"
    using inv none by (simp add: tables_inv_def)
  ultimately have "tables_inv ?T" using nodes keys inv by (auto simp: tables_inv_def)
  moreover have "tables_le T ?T"
    by (auto simp: tables_le_def graph_row_le_def node_row_le_def claim_row_le_def sticky_def
        intro!: table_le_append table_le_refl)
  ultimately show ?thesis by (simp add: sound_move_def)
qed

theorem graph_move_sound:
  assumes "graph_move T T'" and inv: "tables_inv T"
  shows "sound_move T T'"
  using assms(1)
proof cases
  case (create m records)
  with create_sound [OF inv] show ?thesis by simp
next
  case (claim p g c t)
  let ?h = "g\<lparr>gs_claim := Some c, gs_generation := gc_generation c, gs_revision := gs_revision g + 1,
    gs_updated := t, gs_status := GRunning\<rparr>"
  have "gs_parent g = p" and fits: "graph_fits T g (tc T)" using view_old [OF inv claim(2)] by auto
  have "graph_fits T ?h (tc T @ [row_of_claim c])"
    using fits claim \<open>gs_parent g = p\<close> by (simp add: graph_fits_def)
  moreover have "claims_fit T ?h (tc T @ [row_of_claim c])"
    using claim \<open>gs_parent g = p\<close> by (intro claims_extended [OF inv claim(2)]) simp_all
  ultimately show ?thesis
    using sound_view_write [OF inv claim(2), of ?h "tc T @ [row_of_claim c]"] claim \<open>gs_parent g = p\<close>
    by (simp add: sticky_def)
next
  case (transition p g c n target inputs outputs err now)
  obtain r where "r \<in> set (tn T)" "fn_parent r = p" "fn_data r = n" by (rule view_row [OF transition(2) transition(5)])
  with transition move_is_write [OF inv transition(2), of r target inputs outputs err now]
  show ?thesis by (simp add: sound_node)
next
  case (release p g c status t now)
  let ?h = "g\<lparr>gs_claim := None, gs_status := status, gs_revision := gs_revision g + 1, gs_updated := t\<rparr>"
  let ?cs = "tc (close (gc_id c) ClaimReleased now T)"
  have p: "gs_parent g = p" and fits: "graph_fits T g (tc T)" using view_old [OF inv release(2)] by auto
  have "graph_fits T ?h ?cs" using fits release p by (simp add: graph_fits_def)
  moreover have "claims_fit T ?h ?cs"
    using release p by (intro claims_closed [OF inv release(2)]) simp_all
  ultimately show ?thesis
    using sound_view_write [OF inv release(2), of ?h ?cs] release p by (simp add: sticky_def close_def)
next
  case (prepare p g c t r)
  let ?h = "g\<lparr>gs_preparation := Some r, gs_revision := gs_revision g + 1, gs_updated := t\<rparr>"
  have p: "gs_parent g = p" and fits: "graph_fits T g (tc T)" using view_old [OF inv prepare(2)] by auto
  have "list_all (\<lambda>r. fn_status r = NSucceeded) (rows_of T p)"
    using view_status [OF inv prepare(2), of "\<lambda>s. s = NSucceeded"] prepare by simp
  then have "graph_fits T ?h (tc T)" using fits prepare p by (simp add: graph_fits_def)
  moreover have "claims_fit T ?h (tc T)"
    using prepare p by (intro claims_unchanged [OF inv prepare(2)]) simp_all
  ultimately show ?thesis
    using sound_view_write [OF inv prepare(2), of ?h "tc T"] prepare p by (simp add: sticky_def)
next
  case (complete p g c t x)
  let ?h = "g\<lparr>gs_completion := Some x, gs_status := GJoined, gs_revision := gs_revision g + 1, gs_updated := t\<rparr>"
  have p: "gs_parent g = p" and fits: "graph_fits T g (tc T)" using view_old [OF inv complete(2)] by auto
  have "graph_fits T ?h (tc T)" using fits complete p by (simp add: graph_fits_def)
  moreover have "claims_fit T ?h (tc T)"
    using complete p by (intro claims_unchanged [OF inv complete(2)]) simp_all
  ultimately show ?thesis
    using sound_view_write [OF inv complete(2), of ?h "tc T"] complete p by (simp add: sticky_def)
next
  case (drop p g n now)
  obtain r where "r \<in> set (tn T)" "fn_parent r = p" "fn_data r = n" by (rule view_row [OF drop(2,3)])
  with drop drop_is_write [OF inv, of r] show ?thesis by (metis sound_node)
next
  case (cancel p g now)
  let ?h = "g\<lparr>gs_claim := None, gs_cancelled_at := Some now, gs_status := GCancelled,
    gs_revision := gs_revision g + 1, gs_updated := now\<rparr>"
  let ?T = "case gs_claim g of None \<Rightarrow> T | Some c \<Rightarrow> close (gc_id c) ClaimCancelled now T"
  have p: "gs_parent g = p" and fits: "graph_fits T g (tc T)" using view_old [OF inv cancel(2)] by auto
  have T: "?T = T\<lparr>tc := tc ?T\<rparr>" by (simp add: close_def split: option.split)
  have "list_all (\<lambda>r. fn_status r \<in> set TERMINAL_NODES) (rows_of T p)"
    using view_status [OF inv cancel(2), of "\<lambda>s. s \<in> set TERMINAL_NODES"] cancel by simp
  then have "graph_fits T ?h (tc ?T)" using fits p by (simp add: graph_fits_def)
  moreover have "claims_fit T ?h (tc ?T)"
  proof (cases "gs_claim g")
    case None
    then show ?thesis using p claims_unchanged [OF inv cancel(2), of ?h] by simp
  next
    case (Some c)
    then show ?thesis using p claims_closed [OF inv cancel(2) Some, of ?h ClaimCancelled now] by simp
  qed
  ultimately have "sound_move T (put_graph ?h (T\<lparr>tc := tc ?T\<rparr>))"
    using cancel p by (intro sound_view_write [OF inv cancel(2)]) (simp_all add: sticky_def)
  with T cancel show ?thesis by simp
qed

end
