(* ===== verification/Graph_Refinement.thy ===== *)
theory Graph_Refinement
  imports Graph_Invariants Budget_Invariants
begin

text \<open>
  The transactions of the graph store follow the abstract moves: each one that returns either leaves
  the three tables alone or makes moves whose premises are the guards it tested. With
  \<open>graph_move_sound\<close> the invariant of the tables holds after every run of transactions.
\<close>

section \<open>Writes seen from the tables\<close>

lemma tables_of_simps [simp]:
  "tg (tables_of db) = gd_graphs db" "tn (tables_of db) = gd_nodes db" "tc (tables_of db) = gd_claims db"
  by (simp_all add: tables_of_def)

lemma tables_of_appended [simp]: "tables_of (appended row db) = tables_of db"
  by (simp add: tables_of_def appended_def)

lemma tables_of_update_run [simp]: "tables_of (update_run r db) = tables_of db"
  by (simp add: tables_of_def update_run_def)

lemma budget_event_tables: "budget_event env i r t p db = Inr db' \<Longrightarrow> tables_of db' = tables_of db"
  by (auto dest: budget_event_Inr)

lemma tables_store_graph: "tables_of (store_graph g db) = put_graph g (tables_of db)"
  by (simp add: store_graph_def put_graph_def tables_of_def)

lemma tables_store_node: "tables_of (store_node n db) = put_node n (tables_of db)"
  by (simp add: store_node_def put_node_def move_row_def [abs_def] tables_of_def)

lemma tables_close_claim: "tables_of (close_claim cid s now db) = close cid s now (tables_of db)"
  by (simp add: close_claim_def close_def tables_of_def)

lemma save_graph_tables: "save_graph env i g k db = Inr db' \<Longrightarrow> tables_of db' = put_graph g (tables_of db)"
  by (auto simp: save_graph_def Let_def res_simps tables_store_graph dest: budget_event_tables)

lemma save_node_tables: "save_node env i n k db = Inr db' \<Longrightarrow> tables_of db' = put_node n (tables_of db)"
  by (auto simp: save_node_def Let_def res_simps tables_store_node dest: budget_event_tables)

lemma boundary_returns: "boundary m = Inr x \<longleftrightarrow> m = Inr x"
  by (auto simp: boundary_def split: sum.splits exn.splits)

lemma single_returns:
  "(case xs of [] \<Rightarrow> Inl e | x # ys \<Rightarrow> (case ys of [] \<Rightarrow> f x | _ # _ \<Rightarrow> Inl e)) = Inr y
     \<longleftrightarrow> (\<exists>x. xs = [x] \<and> f x = Inr y)"
  by (auto split: list.splits)

section \<open>What a trusted read shows\<close>

lemma g_run_id: "g_run env db p = Inr r \<Longrightarrow> run_id r = p"
  by (auto simp: g_run_def the_run_def res_simps)

lemma map_res_datas:
  "map_res (check_node_row env db parent original) rows = Inr rs \<Longrightarrow> rs = map fn_data rows"
proof (induction rows arbitrary: rs)
  case (Cons row rows)
  from Cons.prems obtain r rs' where "check_node_row env db parent original row = Inr r"
    "map_res (check_node_row env db parent original) rows = Inr rs'" "rs = r # rs'"
    by (auto simp: res_simps)
  moreover from this(1) have "r = fn_data row"
    by (auto simp: check_node_row_def valid_record_def fit_def Let_def res_simps)
  ultimately show ?case using Cons.IH by simp
qed simp

lemma node_rows_eq: "node_rows db p = rows_of (tables_of db) p"
  by (simp add: node_rows_def rows_of_def)

lemma get_graph_view:
  assumes "get_graph env db p = Inr (Some g)"
  shows "view (tables_of db) p g"
proof -
  obtain row where row: "find_graph db p = Some row"
    using assms by (cases "find_graph db p") (auto simp: get_graph_def res_simps)
  obtain parent records where parent: "g_run env db p = Inr parent"
    and checked: "check_graph_row env db parent row = Inr ()"
    and len: "length (take 17 (node_rows db p)) = length (gs_nodes (mf_snapshot (fg_manifest row)))"
    and rs: "map_res (check_node_row env db parent (mf_snapshot (fg_manifest row))) (take 17 (node_rows db p))
      = Inr records"
    and g: "g = (fg_data row)\<lparr>gs_nodes := records\<rparr>"
    using assms row by (auto simp: get_graph_def Let_def res_simps valid_graph_def simp del: length_take)
  have "length (gs_nodes (mf_snapshot (fg_manifest row))) \<le> 16" and "gs_parent (fg_data row) = run_id parent"
    using checked by (auto simp: check_graph_row_def valid_graph_def valid_manifest_def graph_ok_def
        graph_fields_ok_def bounded_list_def res_simps)
  then have all: "take 17 (node_rows db p) = node_rows db p" and p: "gs_parent (fg_data row) = p"
    using len g_run_id [OF parent] by auto
  have "gs_parent g = p" using p g by simp
  moreover have "gs_nodes g = map fn_data (rows_of (tables_of db) p)"
    using map_res_datas [OF rs] g all by (simp add: node_rows_eq)
  moreover have "row_lookup fg_parent p (tg (tables_of db)) = Some row"
    using row by (simp add: find_graph_def)
  ultimately show ?thesis using g by (auto simp: view_def)
qed

lemma the_graph_view:
  "the_graph env db p n = Inr g \<Longrightarrow> view (tables_of db) p g \<and> n = gs_revision g"
  by (auto simp: the_graph_def res_simps intro: get_graph_view)

lemma g_owned_view:
  "g_owned env db c = Inr g \<Longrightarrow>
     view (tables_of db) (gc_parent c) g \<and> gs_claim g = Some c \<and> gs_cancelled_at g = None"
  by (auto simp: g_owned_def valid_claim_def fit_def res_simps intro: get_graph_view)

section \<open>Claims, transitions and receipts\<close>

definition moves :: "tables \<Rightarrow> tables \<Rightarrow> bool" where
  "moves = graph_move\<^sup>*\<^sup>*"

lemma moves_refl [simp]: "moves T T"
  by (simp add: moves_def)

lemma moves_one: "graph_move T T' \<Longrightarrow> moves T T'"
  by (simp add: moves_def)

lemma moves_then: "moves S T \<Longrightarrow> moves T U \<Longrightarrow> moves S U"
  unfolding moves_def by (rule rtranclp_trans)

lemma grant_claim_moves:
  assumes v: "view (tables_of db) p g" and g: "gs_claim g = None" "gs_cancelled_at g = None"
    and r: "grant_claim env g k db = Inr (db', c)"
  shows "graph_move (tables_of db) (tables_of db')"
proof -
  let ?c = "\<lparr>gc_parent = gs_parent g, gc_plan = gs_plan_sha g, gc_id = new_id (ge_base env) 0,
    gc_generation = gs_generation g + 1, gc_at = clk (ge_base env) 0\<rparr>"
  have p: "gs_parent g = p" using v by (simp add: view_def)
  from r have fresh: "gc_id ?c \<notin> fc_id ` set (gd_claims db)"
    and saved: "save_graph env 2 (g\<lparr>gs_claim := Some ?c, gs_generation := gc_generation ?c,
      gs_revision := gs_revision g + 1, gs_updated := clk (ge_base env) 1, gs_status := GRunning\<rparr>) k
      (db\<lparr>gd_claims := gd_claims db @ [row_of_claim ?c]\<rparr>) = Inr db'"
    by (auto simp: grant_claim_def Let_def res_simps row_of_claim_def)
  have "tables_of (db\<lparr>gd_claims := gd_claims db @ [row_of_claim ?c]\<rparr>)
      = (tables_of db)\<lparr>tc := tc (tables_of db) @ [row_of_claim ?c]\<rparr>" by (simp add: tables_of_def)
  then show ?thesis
    unfolding save_graph_tables [OF saved] using fresh p
    by (simp only:) (rule graph_move.claim [OF v g]; simp)
qed

lemma claim_driver_moves:
  assumes "claim_driver env db p n = Inr (db', c)"
  shows "moves (tables_of db) (tables_of db')"
proof -
  obtain g where "the_graph env db p n = Inr g" "gs_claim g = None" "gs_cancelled_at g = None"
    "grant_claim env g ''graph.driver_claimed'' db = Inr (db', c)"
    using assms by (auto simp: claim_driver_def boundary_returns res_simps)
  then show ?thesis using the_graph_view grant_claim_moves by (blast intro: moves_one)
qed

lemma claim_continuation_moves:
  assumes "claim_continuation env db p n = Inr (db', c)"
  shows "moves (tables_of db) (tables_of db')"
proof -
  obtain g where "the_graph env db p n = Inr g" "gs_claim g = None" "gs_cancelled_at g = None"
    "grant_claim env g ''graph.continuation_claimed'' db = Inr (db', c)"
    using assms by (auto simp: claim_continuation_def boundary_returns res_simps)
  then show ?thesis using the_graph_view grant_claim_moves by (blast intro: moves_one)
qed

lemma ready_may_start:
  assumes "ready_to_run env db g n child task inputs outputs = Inr ()"
  shows "may_start g n inputs"
  using assms by (auto simp: ready_to_run_def Let_def res_simps may_start_def list_ex_iff list_all_iff)

lemma move_node_moves:
  assumes r: "move_node env db g n k target inputs outputs err = Inr (db', m)"
    and v: "view (tables_of db) p g" "gs_claim g = Some c" "gs_cancelled_at g = None" "n \<in> set (gs_nodes g)"
  shows "graph_move (tables_of db) (tables_of db')"
proof -
  obtain child task where target: "target \<in> set (node_targets (nr_status n))"
    and start: "target = NRunning \<longrightarrow> ready_to_run env db g n child task inputs outputs = Inr ()"
    and saved: "save_node env 1 (moved_record n target inputs outputs err (clk (ge_base env) 0))
      ''graph.node_transitioned'' db = Inr db'"
    using r by (auto simp: move_node_def Let_def res_simps split: if_splits)
  then show ?thesis
    unfolding save_node_tables [OF saved] using v ready_may_start by (intro graph_move.transition) blast+
qed

lemma transition_node_moves:
  assumes "transition_node env db c nid it k target inputs outputs err = Inr (db', m)"
  shows "moves (tables_of db) (tables_of db')"
proof -
  obtain g n where g: "g_owned env db c = Inr g"
    and n: "filter (\<lambda>r. gb_node (nr_binding r) = nid) (gs_nodes g) = [n]"
    and r: "move_node env db g n k target inputs outputs err = Inr (db', m)"
    using assms by (auto simp: transition_node_def boundary_returns single_returns res_simps)
  have "n \<in> set (gs_nodes g)" using arg_cong [OF n, of set] by auto
  with move_node_moves [OF r] g_owned_view [OF g] show ?thesis by (blast intro: moves_one)
qed

lemma release_driver_moves:
  assumes "release_driver env db c n status = Inr (db', g')"
  shows "moves (tables_of db) (tables_of db')"
proof -
  obtain g where g: "g_owned env db c = Inr g" and status: "status \<noteq> GCancelled"
    and saved: "save_graph env 2 (g\<lparr>gs_claim := None, gs_status := status, gs_revision := gs_revision g + 1,
      gs_updated := clk (ge_base env) 1\<rparr>) ''graph.driver_released''
      (close_claim (gc_id c) ClaimReleased (clk (ge_base env) 0) db) = Inr db'"
    using assms by (auto simp: release_driver_def boundary_returns Let_def res_simps)
  show ?thesis
    unfolding save_graph_tables [OF saved] tables_close_claim
    using g_owned_view [OF g] status by (intro moves_one graph_move.release) blast+
qed

lemma mark_join_prepared_moves:
  assumes "mark_join_prepared env db c r n = Inr (db', g')"
  shows "moves (tables_of db) (tables_of db')"
proof -
  obtain g where g: "g_owned env db c = Inr g"
    and cases: "db' = db \<or> (gs_preparation g = None \<and> list_all (\<lambda>n. nr_status n = NSucceeded) (gs_nodes g)
      \<and> save_graph env 1 (g\<lparr>gs_preparation := Some r, gs_revision := gs_revision g + 1,
          gs_updated := clk (ge_base env) 0\<rparr>) ''graph.join_prepared'' db = Inr db')"
    using assms by (fastforce simp: mark_join_prepared_def boundary_returns Let_def res_simps list_ex_iff
        list_all_iff split: option.splits)
  show ?thesis
    using cases
  proof
    assume *: "gs_preparation g = None \<and> list_all (\<lambda>n. nr_status n = NSucceeded) (gs_nodes g)
      \<and> save_graph env 1 (g\<lparr>gs_preparation := Some r, gs_revision := gs_revision g + 1,
          gs_updated := clk (ge_base env) 0\<rparr>) ''graph.join_prepared'' db = Inr db'"
    show ?thesis
      unfolding save_graph_tables [OF * [THEN conjunct2, THEN conjunct2]]
      using g_owned_view [OF g] * by (intro moves_one graph_move.prepare) blast+
  qed simp
qed

lemma mark_join_complete_moves:
  assumes "mark_join_complete env db c x n = Inr (db', g')"
  shows "moves (tables_of db) (tables_of db')"
proof -
  obtain g where g: "g_owned env db c = Inr g"
    and r: "db' = db \<or> gs_completion g = None \<and> complete_join env db g x = Inr (db', g')"
  proof -
    from assms obtain g where "g_owned env db c = Inr g"
      and "(case gs_completion g of None \<Rightarrow> complete_join env db g x
        | Some r \<Rightarrow> bind_res (require (r = x) invalid) (\<lambda>_. Inr (db, g))) = Inr (db', g')"
      by (auto simp: mark_join_complete_def boundary_returns res_simps)
    then show ?thesis by (intro that [of g]) (auto simp: res_simps split: option.splits)
  qed
  then have cases: "db' = db \<or> (gs_preparation g \<noteq> None \<and> gs_completion g = None
      \<and> save_graph env 1 (g\<lparr>gs_completion := Some x, gs_status := GJoined, gs_revision := gs_revision g + 1,
          gs_updated := clk (ge_base env) 0\<rparr>) ''graph.join_completed'' db = Inr db')"
    by (auto simp: complete_join_def Let_def single_returns res_simps)
  show ?thesis
    using cases
  proof
    assume *: "gs_preparation g \<noteq> None \<and> gs_completion g = None
      \<and> save_graph env 1 (g\<lparr>gs_completion := Some x, gs_status := GJoined, gs_revision := gs_revision g + 1,
          gs_updated := clk (ge_base env) 0\<rparr>) ''graph.join_completed'' db = Inr db'"
    show ?thesis
      unfolding save_graph_tables [OF * [THEN conjunct2, THEN conjunct2]]
      using g_owned_view [OF g] * by (intro moves_one graph_move.complete) blast+
  qed simp
qed

section \<open>Cancellation\<close>

lemma cancel_child_tables: "cancel_child env i p n now db = Inr db' \<Longrightarrow> tables_of db' = tables_of db"
  by (auto simp: cancel_child_def Let_def res_simps dest!: budget_event_tables split: if_splits)

text \<open>The node rows of the graph in view, rewritten one after the other.\<close>

lemma view_put_node:
  "view T p g \<Longrightarrow> view (put_node n T) p (g\<lparr>gs_nodes := map fn_data (rows_of (put_node n T) p)\<rparr>)"
proof -
  assume v: "view T p g"
  let ?ns = "map fn_data (rows_of (put_node n T) p)"
  obtain row where row: "row_lookup fg_parent p (tg T) = Some row" "(fg_data row)\<lparr>gs_nodes := gs_nodes g\<rparr> = g"
    using v by (auto simp: view_def)
  have "(fg_data row)\<lparr>gs_nodes := ?ns\<rparr> = g\<lparr>gs_nodes := ?ns\<rparr>"
    using arg_cong [OF row(2), of "gs_nodes_update (\<lambda>_. ?ns)"] by simp
  with v row(1) show ?thesis by (simp add: view_def)
qed

lemma rows_put_split:
  assumes w: "node_write T r n" and rows: "rows_of T p = before @ r # rs"
  shows "rows_of (put_node n T) p = before @ move_row n r # rs"
proof -
  have "distinct (rows_of T p)" using write_inv [OF w] by (simp add: tables_inv_def distinct_rows_of distinct_map)
  then have d: "distinct (before @ r # rs)" by (simp add: rows)
  have sub: "set (before @ r # rs) \<subseteq> set (tn T)" unfolding rows [symmetric] by auto
  have same: "rewrite n s = s" if "s \<in> set (before @ rs)" for s
    using that d sub by (subst write_eq [OF w]) auto
  have "rewrite n r = move_row n r" using sub by (subst write_eq [OF w]) auto
  with same show ?thesis by (simp add: rows_of_put_node rows map_idI)
qed

lemma cancel_nodes_moves:
  assumes "cancel_nodes env i p now (map fn_data rs) db = Inr (db', ms)"
    and "tables_inv (tables_of db)" and "view (tables_of db) p g" and "rows_of (tables_of db) p = before @ rs"
  shows "\<exists>rs'. moves (tables_of db) (tables_of db') \<and> rows_of (tables_of db') p = before @ rs'
    \<and> ms = map fn_data rs' \<and> list_all (\<lambda>n. nr_status n \<in> set TERMINAL_NODES) ms
    \<and> view (tables_of db') p (g\<lparr>gs_nodes := map fn_data (before @ rs')\<rparr>)"
  using assms
proof (induction rs arbitrary: i db ms g before)
  case Nil
  then have "g\<lparr>gs_nodes := map fn_data before\<rparr> = g" by (simp add: view_def flip: view_nodes)
  with Nil show ?case by simp
next
  case (Cons r rs)
  let ?m = "(fn_data r)\<lparr>nr_status := NCancelled, nr_revision := nr_revision (fn_data r) + 1,
    nr_finished := Some now, nr_updated := now\<rparr>"
  note inv = Cons.prems(2) and v = Cons.prems(3) and rows = Cons.prems(4)
  have r: "r \<in> set (tn (tables_of db))" "fn_parent r = p"
    using set_rows_of [of "tables_of db" p] rows by auto
  show ?case
  proof (cases "nr_status (fn_data r) \<in> set TERMINAL_NODES")
    case True
    then obtain db1 ms' where child: "cancel_child env i p (fn_data r) now db = Inr db1"
      and rest: "cancel_nodes env (i + 2) p now (map fn_data rs) db1 = Inr (db', ms')"
      and ms: "ms = fn_data r # ms'"
      using Cons.prems(1) by (auto simp: res_simps)
    have T1: "tables_of db1 = tables_of db" using cancel_child_tables [OF child] .
    have "rows_of (tables_of db1) p = (before @ [r]) @ rs" using rows T1 by simp
    from Cons.IH [OF rest, of g "before @ [r]"] inv v this T1 obtain rs' where
      "moves (tables_of db) (tables_of db')" "rows_of (tables_of db') p = (before @ [r]) @ rs'"
      "ms' = map fn_data rs'" "list_all (\<lambda>n. nr_status n \<in> set TERMINAL_NODES) ms'"
      "view (tables_of db') p (g\<lparr>gs_nodes := map fn_data ((before @ [r]) @ rs')\<rparr>)" by auto
    then show ?thesis using ms True by (intro exI [of _ "r # rs'"]) simp
  next
    case False
    then obtain db1 db2 ms' where child: "cancel_child env i p (fn_data r) now db = Inr db1"
      and saved: "save_node env (i + 1) ?m ''graph.node_cancelled'' db1 = Inr db2"
      and rest: "cancel_nodes env (i + 2) p now (map fn_data rs) db2 = Inr (db', ms')" and ms: "ms = ?m # ms'"
      using Cons.prems(1) by (auto simp: Let_def res_simps)
    have T2: "tables_of db2 = put_node ?m (tables_of db)"
      using save_node_tables [OF saved] cancel_child_tables [OF child] by simp
    have w: "node_write (tables_of db) r ?m" using drop_is_write [OF inv r(1) False] .
    have move: "graph_move (tables_of db) (tables_of db2)"
      unfolding T2 using view_nodes [OF v] rows False by (intro graph_move.drop [OF v]) auto
    let ?g = "g\<lparr>gs_nodes := map fn_data (rows_of (tables_of db2) p)\<rparr>"
    have inv2: "tables_inv (tables_of db2)" using graph_move_sound [OF move inv] by (simp add: sound_move_def)
    have v2: "view (tables_of db2) p ?g" unfolding T2 using view_put_node [OF v] .
    have "rows_of (tables_of db2) p = (before @ [move_row ?m r]) @ rs"
      unfolding T2 using rows_put_split [OF w rows] by simp
    from Cons.IH [OF rest inv2 v2 this] obtain rs' where
      "moves (tables_of db2) (tables_of db')" "rows_of (tables_of db') p = (before @ [move_row ?m r]) @ rs'"
      "ms' = map fn_data rs'" "list_all (\<lambda>n. nr_status n \<in> set TERMINAL_NODES) ms'"
      "view (tables_of db') p (?g\<lparr>gs_nodes := map fn_data ((before @ [move_row ?m r]) @ rs')\<rparr>)" by blast
    moreover have "fn_data (move_row ?m r) = ?m" by (simp add: move_row_def)
    ultimately show ?thesis using ms moves_then [OF moves_one [OF move]]
      by (intro exI [of _ "move_row ?m r # rs'"]) (simp add: TERMINAL_NODES_def)
  qed
qed

lemma request_cancel_moves:
  assumes r: "request_cancel env db p n = Inr (db', g')" and inv: "tables_inv (tables_of db)"
  shows "moves (tables_of db) (tables_of db')"
proof -
  obtain g where g: "the_graph env db p n = Inr g"
    and body: "if gs_cancelled_at g \<noteq> None then db' = db else
      (\<exists>db1 records. cancel_nodes env 1 p (clk (ge_base env) 0) (gs_nodes g) db = Inr (db1, records)
        \<and> save_graph env 40 (g\<lparr>gs_nodes := records, gs_claim := None, gs_cancelled_at := Some (clk (ge_base env) 0),
             gs_status := GCancelled, gs_revision := gs_revision g + 1, gs_updated := clk (ge_base env) 0\<rparr>)
             ''graph.cancel_requested''
             (case gs_claim g of None \<Rightarrow> db1
              | Some c \<Rightarrow> close_claim (gc_id c) ClaimCancelled (clk (ge_base env) 0) db1) = Inr db')"
    using r by (auto simp: request_cancel_def boundary_returns Let_def res_simps split: if_splits)
  note v = the_graph_view [OF g, THEN conjunct1]
  show ?thesis
  proof (cases "gs_cancelled_at g")
    case None
    let ?now = "clk (ge_base env) 0"
    obtain db1 records where nodes: "cancel_nodes env 1 p ?now (map fn_data (rows_of (tables_of db) p)) db = Inr (db1, records)"
      and saved: "save_graph env 40 (g\<lparr>gs_nodes := records, gs_claim := None, gs_cancelled_at := Some ?now,
             gs_status := GCancelled, gs_revision := gs_revision g + 1, gs_updated := ?now\<rparr>)
             ''graph.cancel_requested''
             (case gs_claim g of None \<Rightarrow> db1 | Some c \<Rightarrow> close_claim (gc_id c) ClaimCancelled ?now db1) = Inr db'"
      using body None view_nodes [OF v] by auto
    have rs: "moves (tables_of db) (tables_of db1)" "list_all (\<lambda>n. nr_status n \<in> set TERMINAL_NODES) records"
      and v1: "view (tables_of db1) p (g\<lparr>gs_nodes := records\<rparr>)"
      using cancel_nodes_moves [OF nodes inv v, of "[]"] by auto
    have T: "tables_of (case gs_claim g of None \<Rightarrow> db1 | Some c \<Rightarrow> close_claim (gc_id c) ClaimCancelled ?now db1)
      = (case gs_claim g of None \<Rightarrow> tables_of db1 | Some c \<Rightarrow> close (gc_id c) ClaimCancelled ?now (tables_of db1))"
      by (simp add: tables_close_claim split: option.split)
    have "graph_move (tables_of db1) (tables_of db')"
      unfolding save_graph_tables [OF saved] T
      using graph_move.cancel [OF v1, of ?now] None rs(2) by simp
    with rs(1) show ?thesis by (blast intro: moves_then moves_one)
  qed (use body in simp)
qed

section \<open>Creating a graph\<close>

lemma add_child_tables:
  assumes "add_child env k parent task sha n seed db = Inr (db', r)"
  shows "tables_of db' = tables_of db" and "fresh_record (run_id parent) r"
proof -
  obtain db1 db2 db3 where "insert_child_run (cs_run seed) db = Inr db1"
    "insert_child_task (cs_task seed) (run_id (cs_run seed)) db1 = Inr db2"
    and e: "tables_of db3 = tables_of db2" "tables_of db' = tables_of db3"
    and r: "record_ok (digest env) r" "gb_parent (nr_binding r) = run_id parent"
      "gb_iteration (nr_binding r) = 0" "nr_status r = NPending" "nr_started r = None"
    using assms by (auto simp: add_child_def Let_def res_simps dest!: budget_event_tables)
  moreover from this(1,2) have "tables_of db2 = tables_of db"
    by (auto simp: insert_child_run_def insert_child_task_def res_simps tables_of_def)
  ultimately show "tables_of db' = tables_of db" by simp
  show "fresh_record (run_id parent) r" using r by (simp add: fresh_record_def record_ok_def)
qed

lemma add_children_tables:
  "add_children env k parent task sha ns seeds db = Inr (db', rs) \<Longrightarrow>
     tables_of db' = tables_of db \<and> list_all (fresh_record (run_id parent)) rs"
proof (induction seeds arbitrary: k db rs)
  case (Cons seed seeds)
  then show ?case by (fastforce simp: res_simps dest: add_child_tables)
qed simp

lemma insert_nodes_tables:
  "insert_nodes rs db = Inr db' \<Longrightarrow> distinct (map node_key (gd_nodes db)) \<Longrightarrow>
     tables_of db' = (tables_of db)\<lparr>tn := gd_nodes db @ map row_of_record rs\<rparr>
     \<and> distinct (map node_key (gd_nodes db @ map row_of_record rs))"
proof (induction rs arbitrary: db)
  case Nil
  then show ?case by (simp add: tables_of_def)
next
  case (Cons r rs)
  let ?db = "db\<lparr>gd_nodes := gd_nodes db @ [row_of_record r]\<rparr>"
  have "insert_nodes rs ?db = Inr db'" and "node_key (row_of_record r) \<notin> node_key ` set (gd_nodes db)"
    using Cons.prems(1) by (auto simp: res_simps)
  with Cons.IH [of ?db] Cons.prems(2) show ?case by (auto simp: tables_of_def)
qed

lemma extend_ledger [simp]: "tables_of (ledger.extend l (ledger.more db)) = tables_of db"
  by (cases db) (simp add: tables_of_def ledger.defs)

lemma register_children_tables:
  "register_children env k p limits rs db = Inr db' \<Longrightarrow> tables_of db' = tables_of db"
  by (induction rs arbitrary: k db) (fastforce simp: res_simps)+

lemma create_graph_moves:
  assumes r: "create_graph env parent tid plan seeds db = Inr (db', g)" and inv: "tables_inv (tables_of db)"
  shows "graph_move (tables_of db) (tables_of db')"
proof -
  obtain task S sha art records db1 db2 db3 limits where
    A: "add_children env 0 parent task sha (child_nodes plan) S db = Inr (db1, records)"
    and g: "graph_ok (ge_fold env) (digest env) g" "g = new_graph parent (task_id task) art sha plan records
      (clk (ge_base env) 64) (clk (ge_base env) 65)"
    and row: "gs_parent g \<notin> fg_parent ` set (gd_graphs db1)"
    and nodes: "insert_nodes records (db1\<lparr>gd_graphs := gd_graphs db1 @ [row_of_graph
      \<lparr>mf_snapshot = g, mf_parent_binding = run_hash env parent, mf_parent_task = digest env (VTask task)\<rparr>]\<rparr>) = Inr db2"
    and E: "budget_event (ge_base env) 66 parent ''graph.initialized'' (JObj [(''manifest_sha256'',
      JStr (digest env (VManifest \<lparr>mf_snapshot = g, mf_parent_binding = run_hash env parent,
        mf_parent_task = digest env (VTask task)\<rparr>)))]) db2 = Inr db3"
    and C: "register_children env 70 (run_id parent) limits records db3 = Inr db'"
    using r by (auto simp: create_graph_def Let_def res_simps)
  let ?m = "\<lparr>mf_snapshot = g, mf_parent_binding = run_hash env parent, mf_parent_task = digest env (VTask task)\<rparr>"
  have added: "tables_of db1 = tables_of db" "list_all (fresh_record (gs_parent g)) records"
    using add_children_tables [OF A] g(2) by (simp_all add: new_graph_def)
  have T1: "gd_graphs db1 = gd_graphs db" "gd_nodes db1 = gd_nodes db" "gd_claims db1 = gd_claims db"
    using added(1) by (auto simp: tables_of_def)
  have new: "row_lookup fg_parent (gs_parent g) (tg (tables_of db)) = None"
    using row T1 by (simp add: row_lookup_None)
  have "distinct (map node_key (gd_nodes db1))" using inv T1 by (simp add: tables_inv_def)
  with insert_nodes_tables [OF nodes] T1 added(1) have
    T2: "tables_of db2 = (tables_of db)\<lparr>tg := tg (tables_of db) @ [row_of_graph ?m],
      tn := tn (tables_of db) @ map row_of_record records\<rparr>"
    and keys: "distinct (map node_key (gd_nodes db @ map row_of_record records))"
    by (auto simp: tables_of_def)
  have "fresh_graph g"
    using g by (auto simp: fresh_graph_def graph_ok_def validate_plan_def new_graph_def res_simps)
  then have "graph_move (tables_of db) ((tables_of db)\<lparr>tg := tg (tables_of db) @ [row_of_graph ?m],
      tn := tn (tables_of db) @ map row_of_record records\<rparr>)"
    using new added(2) keys by (intro graph_move.create) simp_all
  with T2 budget_event_tables [OF E] register_children_tables [OF C] show ?thesis by simp
qed

lemma initialize_moves:
  assumes "initialize env db p plan seeds = Inr (db', g)" and "tables_inv (tables_of db)"
  shows "moves (tables_of db) (tables_of db')"
proof -
  have "db' = db \<or> (\<exists>parent tid q. create_graph env parent tid q seeds db = Inr (db', g))"
    using assms(1) by (auto simp: initialize_def boundary_returns res_simps split: option.splits)
  with create_graph_moves assms(2) show ?thesis by (blast intro: moves_one moves_refl)
qed

section \<open>The store as a durable component\<close>

lemma foreign_tables [simp]:
  "tables_of (other\<lparr>gd_graphs := gd_graphs db, gd_nodes := gd_nodes db, gd_claims := gd_claims db\<rparr>) = tables_of db"
  by (simp add: tables_of_def)

lemma graph_step_moves:
  assumes "graph_step db op = Inr db'" and "tables_inv (tables_of db)"
  shows "moves (tables_of db) (tables_of db')"
  using assms
  by (cases op) (auto simp: res_simps
      dest: initialize_moves claim_driver_moves claim_continuation_moves transition_node_moves
        release_driver_moves mark_join_prepared_moves mark_join_complete_moves request_cancel_moves)

lemma moves_sound: "moves T T' \<Longrightarrow> tables_inv T \<Longrightarrow> sound_move T T'"
  unfolding moves_def
proof (induction rule: rtranclp_induct)
  case (step U V)
  then have "sound_move T U" by simp
  moreover from this step have "sound_move U V" by (intro graph_move_sound) (simp_all add: sound_move_def)
  ultimately show ?case by (auto simp: sound_move_def intro: tables_le_trans)
qed (simp add: sound_move_def tables_le_refl)

end
