(* ===== verification/Graph_Machine.thy ===== *)
theory Graph_Machine
  imports Graph_Refinement
begin

text \<open>
  The graph store as a durable component, and what holds of its tables after every run of
  transactions, whatever the other stores write in between.
\<close>

section \<open>The component\<close>

definition graph_inv :: "graph_db \<Rightarrow> bool" where
  "graph_inv db \<longleftrightarrow> tables_inv (tables_of db)"

definition graph_le_db :: "graph_db \<Rightarrow> graph_db \<Rightarrow> bool" where
  "graph_le_db a b \<longleftrightarrow> tables_le (tables_of a) (tables_of b)"

interpretation graphs: durable_mono graph_step graph_inv graph_le_db
proof
  show "graph_inv s'" if "graph_inv s" "graph_step s x = Inr s'" for s x s'
    using that moves_sound [OF graph_step_moves] by (auto simp: graph_inv_def sound_move_def)
  show "graph_le_db s s'" if "graph_inv s" "graph_step s x = Inr s'" for s x s'
    using that moves_sound [OF graph_step_moves] by (auto simp: graph_inv_def graph_le_db_def sound_move_def)
  show "graph_le_db s s" for s by (simp add: graph_le_db_def tables_le_refl)
  show "graph_le_db s t \<Longrightarrow> graph_le_db t u \<Longrightarrow> graph_le_db s u" for s t u
    unfolding graph_le_db_def by (rule tables_le_trans)
qed

definition after_graph_ops :: "graph_db \<Rightarrow> graph_op list \<Rightarrow> graph_db" where
  "after_graph_ops s ops = run_ops graph_step s ops"

lemma after_graph_inv: "graph_inv s \<Longrightarrow> graph_inv (after_graph_ops s ops)"
  unfolding after_graph_ops_def by (rule graphs.run_inv)

lemma after_graph_le: "graph_inv s \<Longrightarrow> graph_le_db s (after_graph_ops s ops)"
  unfolding after_graph_ops_def by (rule graphs.run_le)


section \<open>Refinement\<close>

text \<open>
  C27. Every transaction that returns makes only moves of the abstract graph machine on the three
  tables, with the guards of the moves satisfied; a transaction that raises changes nothing.
\<close>

theorem graph_transactions_refine:
  assumes "graph_inv db" and "graph_step db op = Inr db'"
  shows "moves (tables_of db) (tables_of db')"
  using assms by (auto simp: graph_inv_def intro: graph_step_moves)

section \<open>The order of execution\<close>






section \<open>Fencing\<close>

lemma later_claim:
  assumes "graph_inv s" and "row_lookup fc_id i (gd_claims s) = Some row"
  shows "\<exists>row'. row_lookup fc_id i (gd_claims (after_graph_ops s ops)) = Some row' \<and> claim_row_le row row'"
  using after_graph_le [OF assms(1), of ops] assms(2)
  by (auto simp: graph_le_db_def tables_le_def dest: table_leD)

lemma owned_claim_active:
  assumes "g_owned env db c = Inr g"
  shows "\<exists>row. row_lookup fc_id (gc_id c) (gd_claims db) = Some row \<and> fc_status row = ClaimActive"
proof -
  obtain h row where h: "get_graph env db (gc_parent c) = Inr (Some h)" "gs_claim h = Some c"
    using assms by (auto simp: g_owned_def valid_claim_def fit_def res_simps)
  then obtain row where "find_graph db (gc_parent c) = Some row"
    by (cases "find_graph db (gc_parent c)") (auto simp: get_graph_def res_simps)
  with h have "claim_record env db c = Inr ()"
    by (auto simp: get_graph_def Let_def res_simps valid_graph_def)
  then show ?thesis by (auto simp: claim_record_def valid_claim_def fit_def res_simps)
qed

lemma not_owned:
  assumes "row_lookup fc_id (gc_id c) (gd_claims db) = Some row" and "fc_status row \<noteq> ClaimActive"
  shows "g_owned env db c = Inr g \<longleftrightarrow> False"
  using owned_claim_active assms by fastforce

text \<open>
  C29. A driver claim that has been released or cancelled is fenced for ever: after every further
  history, no transaction that presents it returns.
\<close>

theorem closed_claim_fenced:
  assumes inv: "graph_inv s" and claim: "row_lookup fc_id (gc_id c) (gd_claims s) = Some row"
    and closed: "fc_status row \<noteq> ClaimActive"
  shows "\<forall>x. transition_node env (after_graph_ops s ops) c nid it k target inputs outputs err \<noteq> Inr x
    \<and> release_driver env (after_graph_ops s ops) c k status \<noteq> Inr y
    \<and> mark_join_prepared env (after_graph_ops s ops) c receipt k \<noteq> Inr y
    \<and> mark_join_complete env (after_graph_ops s ops) c result k \<noteq> Inr y"
proof -
  obtain row' where "row_lookup fc_id (gc_id c) (gd_claims (after_graph_ops s ops)) = Some row'"
    "claim_row_le row row'" using later_claim [OF inv claim] by blast
  with closed have "\<And>g. g_owned env (after_graph_ops s ops) c = Inr g \<longleftrightarrow> False"
    by (intro not_owned) (auto simp: claim_row_le_def)
  then show ?thesis
    by (auto simp: transition_node_def release_driver_def mark_join_prepared_def mark_join_complete_def
        boundary_returns res_simps)
qed

section \<open>History\<close>

text \<open>
  C30. What a graph has recorded stays: a finished node keeps its whole row, the plan, the join
  receipts and the cancellation of a graph never change, and a cancelled graph runs nothing.
\<close>

theorem graph_record_final:
  assumes inv: "graph_inv s" and graph: "find_graph s p = Some g"
  shows "\<exists>g'. find_graph (after_graph_ops s ops) p = Some g'
      \<and> fg_manifest g' = fg_manifest g \<and> gs_plan (fg_data g') = gs_plan (fg_data g)
      \<and> (gs_preparation (fg_data g) \<noteq> None \<longrightarrow> gs_preparation (fg_data g') = gs_preparation (fg_data g))
      \<and> (gs_completion (fg_data g) \<noteq> None \<longrightarrow> gs_completion (fg_data g') = gs_completion (fg_data g))
      \<and> (gs_cancelled_at (fg_data g) \<noteq> None \<longrightarrow> gs_cancelled_at (fg_data g') = gs_cancelled_at (fg_data g)
           \<and> gs_claim (fg_data g') = None
           \<and> (\<forall>r \<in> set (node_rows (after_graph_ops s ops) p). fn_status r \<in> set TERMINAL_NODES))
      \<and> (\<forall>r \<in> set (gd_nodes s). fn_status r \<in> set TERMINAL_NODES \<longrightarrow> r \<in> set (gd_nodes (after_graph_ops s ops)))"
proof -
  let ?s = "after_graph_ops s ops"
  have inv': "tables_inv (tables_of ?s)" using after_graph_inv [OF inv] by (simp add: graph_inv_def)
  have le: "tables_le (tables_of s) (tables_of ?s)" using after_graph_le [OF inv] by (simp add: graph_le_db_def)
  obtain g' where g': "row_lookup fg_parent p (gd_graphs ?s) = Some g'" "graph_row_le g g'"
    using le graph by (auto simp: tables_le_def find_graph_def dest: table_leD)
  have ok: "graph_row_ok (tables_of ?s) g'" "fg_parent g' = p"
    using inv_graph_row [OF inv', of p g'] g'(1) by simp_all
  have "r \<in> set (gd_nodes ?s)" if r: "r \<in> set (gd_nodes s)" "fn_status r \<in> set TERMINAL_NODES" for r
  proof -
    have "row_lookup node_key (node_key r) (gd_nodes s) = Some r"
      using inv r by (simp add: graph_inv_def tables_inv_def row_lookup_distinct)
    with le obtain r' where "row_lookup node_key (node_key r) (gd_nodes ?s) = Some r'" "node_row_le r r'"
      by (auto simp: tables_le_def dest: table_leD)
    with r(2) show ?thesis by (auto simp: node_row_le_def dest: row_lookup_Some)
  qed
  with g' ok show ?thesis
    by (auto simp: find_graph_def graph_row_le_def sticky_def graph_row_ok_def Let_def list_all_iff node_rows_eq)
qed

end
