(* ===== verification/Graph_Witnesses.thy ===== *)
theory Graph_Witnesses
  imports Graph_Machine Budget_Properties
begin

text \<open>
  A concrete graph: a run with a parallel plan of two writers, whose graph has been initialized and
  is then claimed, and the witnesses of the theorems of \<open>Graph_Machine\<close>.
\<close>

section \<open>The sample\<close>

definition sample_id :: "string \<Rightarrow> nat \<Rightarrow> string" where
  "sample_id pre k = pre @ ''_'' @ replicate 31 (CHR ''0'') @ [digit_char k]"

definition sample_parent :: run where
  "sample_parent = (new_run (''run_'' @ sample_hex 32) (sample_id ''prj'' 0) (sample_id ''corr'' 0) ''fix'' ''main''
       (sample_hex 64) 0)
     \<lparr>run_status := RUNNING, run_stage := Some IMPLEMENTING, run_task := Some (''task_'' @ sample_hex 32),
      run_configuration := Some default_configuration, run_configuration_hash := Some (sample_hex 64),
      run_requirements := Some default_requirements, run_capabilities := Some phase1_fake,
      run_capabilities_hash := Some (sample_hex 64), run_config_hash := Some (sample_hex 64),
      run_plan_artifact := Some (sample_id ''art'' 0), run_plan_hash := Some (sample_hex 64),
      run_strategy := Some ''parallel_engineers''\<rparr>"

definition sample_child :: "nat \<Rightarrow> string \<Rightarrow> run" where
  "sample_child k n = sample_parent
     \<lparr>run_id := sample_id ''run'' k, run_goal := ''part'', run_task := Some (sample_id ''task'' k),
      run_status := CREATED, run_stage := None,
      run_parent := Some (''run_'' @ sample_hex 32), run_parent_plan := Some (sample_hex 64),
      run_parent_node := Some n, run_parent_iteration := Some 0, run_plan_artifact := None,
      run_plan_hash := None, run_strategy := None\<rparr>"

definition sample_part :: "nat \<Rightarrow> string \<Rightarrow> task_spec" where
  "sample_part k path = sample_task\<lparr>task_id := sample_id ''task'' k, task_run_id := sample_id ''run'' k,
     normalized_goal := ''part'', allowed_paths := [path],
     required_evidence := [CANONICAL_PATCH, COMMAND_EVIDENCE]\<rparr>"

definition graph_effects :: graph_env where
  "graph_effects = \<lparr>ge_base = (sample_env 7)\<lparr>new_id := (\<lambda>i. ''corr_'' @ replicate 30 (CHR ''0'') @ [digit_char (i div 10), digit_char (i mod 10)]),
       sha256 := (\<lambda>_. sample_hex 64)\<rparr>,
     ge_fold = (\<lambda>s. s), digest = (\<lambda>_. sample_hex 64), ge_unfit = (\<lambda>_. False),
     ge_admit = (\<lambda>_ _. Inr ()), ge_record_admission = (\<lambda>_ _. Inr ()), ge_blob = (\<lambda>ref _. Inr ref),
     ge_plan = (\<lambda>s. if s = ''plan'' then Some sample_plan else None), ge_task = (\<lambda>_. None),
     ge_implementation = (\<lambda>_. False), ge_specialist = (\<lambda>_. None),
     ge_cleanup = (\<lambda>_. None), ge_config = None\<rparr>"

definition sample_artifact :: "nat \<Rightarrow> artifact_kind \<Rightarrow> nat \<Rightarrow> string \<Rightarrow> artifact_row" where
  "sample_artifact k kind owner content = \<lparr>ax_id = sample_id ''art'' k, ax_project = sample_id ''prj'' 0,
     ax_run = Some (sample_id ''run'' owner), ax_kind = kind, ax_sha = sample_hex 64,
     ax_data = \<lparr>am_id = sample_id ''art'' k, am_kind = kind, am_project = sample_id ''prj'' 0,
       am_run = Some (sample_id ''run'' owner), am_task = Some (sample_id ''task'' owner),
       am_mime = ''text/plain'', am_size = int (length content),
       am_sha = sample_hex 64, am_ref = content, am_producer = ''sample'', am_redacted = False, am_created = 0,
       am_metadata = JObj []\<rparr>\<rparr>"

definition row_of_run :: "run \<Rightarrow> run_row" where
  "row_of_run r = \<lparr>rr_id = run_id r, rr_project = run_project r, rr_status = run_status r,
     rr_stage = run_stage r, rr_data = r\<rparr>"

definition sample_binding :: "nat \<Rightarrow> string \<Rightarrow> child_binding" where
  "sample_binding k n = \<lparr>gb_project = sample_id ''prj'' 0, gb_parent = ''run_'' @ sample_hex 32,
     gb_plan = sample_hex 64, gb_node = n, gb_iteration = 0, gb_child = sample_id ''run'' k,
     gb_task = sample_id ''task'' k, gb_node_hash = sample_hex 64, gb_task_hash = sample_hex 64,
     gb_run_hash = sample_hex 64, gb_created = 0\<rparr>"

definition sample_record :: "nat \<Rightarrow> string \<Rightarrow> string \<Rightarrow> node_record" where
  "sample_record k n path = \<lparr>nr_binding = sample_binding k n, nr_node = Fleet_Plan.sample_node n ENGINEER [] [path],
     nr_status = NPending, nr_revision = 0, nr_inputs = [], nr_outputs = [], nr_error = None,
     nr_started = None, nr_finished = None, nr_updated = 0\<rparr>"

definition sample_graph :: graph where
  "sample_graph = new_graph sample_parent (task_id sample_task) (sample_id ''art'' 0) (sample_hex 64) sample_plan
     [sample_record (Suc 0) ''a'' ''src'', sample_record 2 ''b'' ''tests/unit''] 0 0"

definition sample_manifest :: manifest where
  "sample_manifest = \<lparr>mf_snapshot = sample_graph, mf_parent_binding = sample_hex 64, mf_parent_task = sample_hex 64\<rparr>"

definition sample_initialized :: event_row where
  "sample_initialized = event_row_of \<lparr>event_id = ''e'', event_type = ''graph.initialized'',
       event_occurred_at = 0, event_project = run_project sample_parent, event_run = Some (run_id sample_parent),
       event_task = None, event_agent = None, event_correlation = run_correlation sample_parent, event_sequence = None,
       event_payload = JObj [(''manifest_sha256'', JStr (sample_hex 64))], event_redactions = []\<rparr> 1"

definition row_of_task :: "task_spec \<Rightarrow> task_row" where
  "row_of_task t = \<lparr>tr_id = task_id t, tr_run = task_run_id t, tr_data = t\<rparr>"

definition sample_db :: graph_db where
  "sample_db = \<lparr>db_runs = map row_of_run [sample_parent, sample_child (Suc 0) ''a'', sample_child 2 ''b''],
     db_tasks = map row_of_task [sample_task, sample_part (Suc 0) ''src'', sample_part 2 ''tests/unit''], db_agents = [],
     db_events = [sample_initialized],
     bl_owners = [], bl_runs = [],
     bl_attempts = [], bl_requests = [], bl_batches = [], bl_simulated = [], gd_approvals = [], gd_leases = [],
     gd_artifacts = [sample_artifact 0 FLEET_PLAN 0 ''plan''], gd_graphs = [row_of_graph sample_manifest],
     gd_nodes = map row_of_record (gs_nodes sample_graph), gd_claims = []\<rparr>"

section \<open>Selectors\<close>

lemma sample_ids [simp]:
  "opaque_ok ''art'' (sample_id ''art'' 0)" "opaque_ok ''run'' (sample_id ''run'' 0)"
  "opaque_ok ''run'' (sample_id ''run'' (Suc 0))" "opaque_ok ''run'' (sample_id ''run'' 2)"
  "opaque_ok ''task'' (sample_id ''task'' (Suc 0))" "opaque_ok ''task'' (sample_id ''task'' 2)"
  "opaque_ok ''task'' (sample_id ''task'' 0)" "opaque_ok ''prj'' (sample_id ''prj'' 0)"
  "opaque_ok ''plan'' (sample_id ''plan'' 0)" "opaque_ok ''corr'' (sample_id ''corr'' 0)"
  "sha256_ok (sample_hex 64)" "node_id_ok ''a''" "node_id_ok ''b''"
  by code_simp+

lemma sample_ids_differ [simp]:
  "sample_id pre 0 \<noteq> sample_id pre (Suc 0)" "sample_id pre 0 \<noteq> sample_id pre 2" "sample_id pre (Suc 0) \<noteq> sample_id pre 2"
  "sample_id pre (Suc 0) \<noteq> sample_id pre 0" "sample_id pre 2 \<noteq> sample_id pre 0" "sample_id pre 2 \<noteq> sample_id pre (Suc 0)"
  by (simp_all add: sample_id_def digit_char_def)

lemma sample_zero_text:
  "''run_'' @ sample_hex 32 = sample_id ''run'' 0" "''task_'' @ sample_hex 32 = sample_id ''task'' 0"
  "''plan_'' @ sample_hex 32 = sample_id ''plan'' 0"
  by code_simp+

lemmas sample_zero = sample_zero_text [simplified]

lemma sample_parent_fields [simp]:
  "run_id sample_parent = sample_id ''run'' 0" "run_project sample_parent = sample_id ''prj'' 0"
  "run_correlation sample_parent = sample_id ''corr'' 0" "run_status sample_parent = RUNNING"
  "run_stage sample_parent = Some IMPLEMENTING" "run_task sample_parent = Some (sample_id ''task'' 0)"
  "run_plan_artifact sample_parent = Some (sample_id ''art'' 0)"
  "run_plan_hash sample_parent = Some (sample_hex 64)" "run_parent sample_parent = None"
  "run_strategy sample_parent = Some ''parallel_engineers''"
  by (simp_all add: sample_parent_def sample_zero)

lemma sample_child_fields [simp]:
  "run_id (sample_child k n) = sample_id ''run'' k" "run_project (sample_child k n) = sample_id ''prj'' 0"
  "run_task (sample_child k n) = Some (sample_id ''task'' k)"
  "run_parent (sample_child k n) = Some (sample_id ''run'' 0)" "run_parent_plan (sample_child k n) = Some (sample_hex 64)"
  "run_parent_node (sample_child k n) = Some n" "run_parent_iteration (sample_child k n) = Some 0"
  "run_status (sample_child k n) = CREATED" "run_stage (sample_child k n) = None"
  by (simp_all add: sample_child_def sample_zero)

lemma sample_child_inherits [simp]: "inherits (sample_child k n) sample_parent"
  by (simp add: inherits_def sample_child_def)

lemma sample_task_fields [simp]:
  "task_id sample_task = sample_id ''task'' 0" "task_run_id sample_task = sample_id ''run'' 0"
  "task_id (sample_part k path) = sample_id ''task'' k" "task_run_id (sample_part k path) = sample_id ''run'' k"
  by (simp_all add: sample_part_def) (simp_all add: sample_task_def sample_zero)

lemma sample_plan_fields [simp]:
  "plan_id sample_plan = sample_id ''plan'' 0" "plan_run_id sample_plan = sample_id ''run'' 0"
  "plan_task_id sample_plan = sample_id ''task'' 0" "strategy sample_plan = PARALLEL_ENGINEERS"
  "max_parallel_agents sample_plan = 2"
  by (simp_all add: sample_plan_def sample_zero)

lemma effects_fields [simp]:
  "tainted (ge_base graph_effects) j = False" "unfit (ge_base graph_effects) t = False"
  "ge_unfit graph_effects v = False" "digest graph_effects v = sample_hex 64"
  "sha256 (ge_base graph_effects) s = sample_hex 64" "ge_blob graph_effects r h = Inr r"
  "ge_plan graph_effects ''plan'' = Some sample_plan" "ge_fold graph_effects = (\<lambda>s. s)"
  by (simp_all add: graph_effects_def sample_env_def)

lemma sample_tables [simp]:
  "db_events sample_db = [sample_initialized]" "gd_graphs sample_db = [row_of_graph sample_manifest]"
  "gd_nodes sample_db = map row_of_record (gs_nodes sample_graph)" "gd_claims sample_db = []"
  by (simp_all add: sample_db_def)

lemma the_run_sample [simp]:
  "the_run (ge_base graph_effects) sample_db (sample_id ''run'' 0) = Inr sample_parent"
  "the_run (ge_base graph_effects) sample_db (sample_id ''run'' (Suc 0)) = Inr (sample_child (Suc 0) ''a'')"
  "the_run (ge_base graph_effects) sample_db (sample_id ''run'' 2) = Inr (sample_child 2 ''b'')"
  by (simp_all add: the_run_def find_run_def row_lookup_def sample_db_def row_of_run_def clean_def run_row_ok_def require_def)

lemma the_task_sample [simp]:
  "the_task (ge_base graph_effects) sample_db (sample_id ''task'' 0) = Inr sample_task"
  "the_task (ge_base graph_effects) sample_db (sample_id ''task'' (Suc 0)) = Inr (sample_part (Suc 0) ''src'')"
  "the_task (ge_base graph_effects) sample_db (sample_id ''task'' 2) = Inr (sample_part 2 ''tests/unit'')"
  by (simp_all add: the_task_def find_task_def row_lookup_def sample_db_def row_of_task_def clean_def require_def)

lemma plan_sample: "the_plan graph_effects sample_db sample_parent = Inr sample_plan"
proof -
  have "artifact_of_run graph_effects sample_db sample_parent (Some (sample_id ''art'' 0)) (Some (sample_hex 64)) FLEET_PLAN
      (sample_id ''prj'' 0) (sample_id ''task'' 0) = Inr ''plan''"
    by (simp add: artifact_of_run_def artifact_def valid_refs_def fit_def ref_ok_def sample_db_def row_lookup_def
        sample_artifact_def artifact_matches_def require_def clean_text_def byte_def)
  moreover have "list_all (\<lambda>n. execution_kind n = None) (nodes sample_plan) \<and> repair_role_id sample_plan = None"
    by (simp add: sample_plan_def Fleet_Plan.sample_node_def)
  ultimately show ?thesis
    by (simp add: the_plan_def decoded_def require_def sample_plan_valid sample_plan_accepted g_task_def list_all_iff list_ex_iff ADVANCED_def)
qed


section \<open>The graph\<close>

lemma sample_graph_fields [simp]:
  "gs_parent sample_graph = sample_id ''run'' 0" "gs_project sample_graph = sample_id ''prj'' 0"
  "gs_task sample_graph = sample_id ''task'' 0" "gs_plan_id sample_graph = sample_id ''plan'' 0"
  "gs_plan_artifact sample_graph = sample_id ''art'' 0" "gs_plan_sha sample_graph = sample_hex 64"
  "gs_plan sample_graph = sample_plan" "gs_status sample_graph = GReady" "gs_revision sample_graph = 0"
  "gs_generation sample_graph = 0" "gs_claim sample_graph = None"
  "gs_nodes sample_graph = [sample_record (Suc 0) ''a'' ''src'', sample_record 2 ''b'' ''tests/unit'']"
  "gs_preparation sample_graph = None" "gs_completion sample_graph = None" "gs_cancelled_at sample_graph = None"
  by (simp_all add: sample_graph_def new_graph_def)

lemma sample_record_ok [simp]:
  "record_ok (digest graph_effects) (sample_record (Suc 0) ''a'' ''src'')"
  "record_ok (digest graph_effects) (sample_record 2 ''b'' ''tests/unit'')"
  by (simp_all add: record_ok_def sample_record_def sample_binding_def binding_ok_def Fleet_Plan.sample_node_def opt_le_def sample_zero)

lemma sample_child_nodes: "child_nodes sample_plan = [Fleet_Plan.sample_node ''a'' ENGINEER [] [''src''],
    Fleet_Plan.sample_node ''b'' ENGINEER [] [''tests/unit'']]"
  by (simp add: child_nodes_def sample_plan_def Fleet_Plan.sample_node_def)

lemma sample_nodes_bound: "nodes_bound sample_graph"
  by (simp add: nodes_bound_def sample_child_nodes sample_record_def sample_binding_def Fleet_Plan.sample_node_def
      sample_zero)

lemma sample_graph_ok: "graph_ok (\<lambda>s. s) (digest graph_effects) sample_graph"
  by (simp add: graph_ok_def graph_fields_ok_def bounded_list_def sample_plan_valid sample_nodes_bound)

lemma sample_graph_checked: "check_graph_row graph_effects sample_db sample_parent (row_of_graph sample_manifest) = Inr ()"
  by (simp add: check_graph_row_def valid_graph_def valid_manifest_def fit_def require_def
      row_of_graph_def sample_manifest_def sample_graph_ok run_hash_def g_task_def plan_sample frozen_identity_def
      initialization_event_def only_row_def sample_initialized_def event_row_of_def clean_def g_event_ok_def json_eq_def)

lemma sample_record_fields [simp]:
  "nr_binding (sample_record k n path) = sample_binding k n" "nr_status (sample_record k n path) = NPending"
  "nr_revision (sample_record k n path) = 0"
  "gb_parent (sample_binding k n) = sample_id ''run'' 0" "gb_node (sample_binding k n) = n"
  "gb_iteration (sample_binding k n) = 0" "gb_child (sample_binding k n) = sample_id ''run'' k"
  "gb_task (sample_binding k n) = sample_id ''task'' k" "gb_plan (sample_binding k n) = sample_hex 64"
  "gb_run_hash (sample_binding k n) = sample_hex 64" "gb_task_hash (sample_binding k n) = sample_hex 64"
  by (simp_all add: sample_record_def sample_binding_def sample_zero)

lemma sample_bindings_ok [simp]: "binding_ok (sample_binding (Suc 0) ''a'')" "binding_ok (sample_binding 2 ''b'')"
  by (simp_all add: sample_binding_def binding_ok_def sample_zero)

lemma sample_child_bound [simp]:
  "g_child graph_effects sample_db (sample_binding (Suc 0) ''a'') sample_parent = Inr (sample_child (Suc 0) ''a'', sample_part (Suc 0) ''src'')"
  "g_child graph_effects sample_db (sample_binding 2 ''b'') sample_parent = Inr (sample_child 2 ''b'', sample_part 2 ''tests/unit'')"
  by (simp_all add: g_child_def g_run_def g_task_def clean_text_def run_hash_def require_def)

lemma sample_nodes_checked [simp]:
  "check_node_row graph_effects sample_db sample_parent sample_graph (row_of_record (sample_record (Suc 0) ''a'' ''src''))
     = Inr (sample_record (Suc 0) ''a'' ''src'')"
  "check_node_row graph_effects sample_db sample_parent sample_graph (row_of_record (sample_record 2 ''b'' ''tests/unit''))
     = Inr (sample_record 2 ''b'' ''tests/unit'')"
  by (simp_all add: check_node_row_def valid_record_def fit_def require_def row_of_record_def Let_def original_record_def)

lemma sample_node_rows: "node_rows sample_db (sample_id ''run'' 0) =
    [row_of_record (sample_record (Suc 0) ''a'' ''src''), row_of_record (sample_record 2 ''b'' ''tests/unit'')]"
  by (simp add: node_rows_def row_of_record_def Let_def sort_by_key_def byte_def)

lemma sample_graph_row: "find_graph sample_db (sample_id ''run'' 0) = Some (row_of_graph sample_manifest)"
  by (simp add: find_graph_def row_lookup_def row_of_graph_def sample_manifest_def)

lemma sample_row_fields: "fg_data (row_of_graph sample_manifest) = sample_graph"
  "fg_manifest (row_of_graph sample_manifest) = sample_manifest" "mf_snapshot sample_manifest = sample_graph"
  by (simp_all add: row_of_graph_def sample_manifest_def)

lemma sample_get: "get_graph graph_effects sample_db (sample_id ''run'' 0) = Inr (Some sample_graph)"
proof -
  have same: "sample_graph\<lparr>gs_nodes := [sample_record (Suc 0) ''a'' ''src'', sample_record 2 ''b'' ''tests/unit'']\<rparr> = sample_graph"
    by (simp add: sample_graph_def new_graph_def)
  show ?thesis using sample_graph_ok
    by (simp add: get_graph_def g_run_def clean_text_def require_def sample_graph_row sample_row_fields Let_def
       sample_graph_checked sample_node_rows claims_agree_def claim_rows_def valid_graph_def fit_def same)
qed

definition sample_claim :: driver_claim where
  "sample_claim = \<lparr>gc_parent = sample_id ''run'' 0, gc_plan = sample_hex 64, gc_id = sample_id ''corr'' 0,
     gc_generation = 1, gc_at = 700\<rparr>"

lemma sample_new_id: "new_id (ge_base graph_effects) 0 = sample_id ''corr'' 0"
  by code_simp

definition sample_driven :: graph where
  "sample_driven = sample_graph\<lparr>gs_claim := Some sample_claim, gs_generation := 1, gs_revision := 1,
     gs_updated := 701, gs_status := GRunning\<rparr>"

lemma sample_driven_ok: "graph_ok (\<lambda>s. s) (digest graph_effects) sample_driven"
  using sample_nodes_bound by (simp add: graph_ok_def graph_fields_ok_def bounded_list_def sample_plan_valid nodes_bound_def
    sample_driven_def sample_claim_def claim_ok_def)

lemma sample_saved:
  "\<exists>db'. save_graph graph_effects 2 sample_driven ''graph.driver_claimed'' (sample_db\<lparr>gd_claims := [row_of_claim sample_claim]\<rparr>)
      = Inr db' \<and> gd_claims db' = [row_of_claim sample_claim] \<and> map fg_data (gd_graphs db') = [sample_driven]"
proof -
  have "the_run (ge_base graph_effects) (store_graph sample_driven (sample_db\<lparr>gd_claims := [row_of_claim sample_claim]\<rparr>))
      (sample_id ''run'' 0) = Inr sample_parent"
    using the_run_sample(1) by (simp add: the_run_def find_run_def store_graph_def)
  moreover have "gs_parent sample_driven = sample_id ''run'' 0" by (simp add: sample_driven_def)
  moreover have "new_id (ge_base graph_effects) 2 \<noteq> ''e''"
    by (simp add: graph_effects_def)
  moreover have "redact (ge_base graph_effects) j = (j, [])" for j by (simp add: graph_effects_def sample_env_def)
  ultimately show ?thesis
    using sample_driven_ok
    by (simp add: save_graph_def valid_graph_def fit_def require_def Let_def g_run_def clean_text_def budget_event_def
        append_row_def row_insert_def store_graph_def event_row_of_def sample_initialized_def row_update_def row_of_graph_def sample_manifest_def)
qed

lemma sample_claimed: "\<exists>db'. claim_driver graph_effects sample_db (sample_id ''run'' 0) 0 = Inr (db', sample_claim)
   \<and> gd_claims db' = [row_of_claim sample_claim] \<and> map fg_data (gd_graphs db') = [sample_driven]"
proof -
  have c: "\<lparr>gc_parent = sample_id ''run'' 0, gc_plan = sample_hex 64, gc_id = new_id (ge_base graph_effects) 0,
     gc_generation = 1, gc_at = clk (ge_base graph_effects) 0\<rparr> = sample_claim"
    by (simp add: sample_new_id sample_claim_def) (simp add: graph_effects_def sample_env_def)
  have g: "sample_graph\<lparr>gs_claim := Some sample_claim, gs_generation := 1,
     gs_revision := 1, gs_updated := clk (ge_base graph_effects) 1, gs_status := GRunning\<rparr> = sample_driven"
    by (simp add: sample_driven_def sample_claim_def graph_effects_def sample_env_def)
  have claim: "claim_ok sample_claim" "gc_generation sample_claim = 1" by (simp_all add: sample_claim_def claim_ok_def)
  show ?thesis using sample_saved
    by (auto simp add: claim_driver_def the_graph_def sample_get require_def g_run_def clean_text_def boundary_def
        TERMINAL_RUNS_def grant_claim_def Let_def c g claim row_insert_def simp del: One_nat_def)
qed

text \<open>The invariant of tables that hold the two pending records and one graph without a claim.\<close>

lemma sample_tables_inv:
  assumes "tn T = map row_of_record (gs_nodes sample_graph)" and "tg T = [R]"
    and "fg_parent R = sample_id ''run'' 0" and "fg_data R = sample_graph\<lparr>gs_generation := k\<rparr>"
    and "distinct (map fc_id (tc T))" and "\<forall>c \<in> set (tc T). claim_row_ok T c"
  shows "tables_inv T"
proof -
  have "rows_of T (sample_id ''run'' 0) = rows_of (tables_of sample_db) (sample_id ''run'' 0)"
    by (simp add: rows_of_def tables_of_def assms(1))
  then have "rows_of T (sample_id ''run'' 0) =
    [row_of_record (sample_record (Suc 0) ''a'' ''src''), row_of_record (sample_record 2 ''b'' ''tests/unit'')]"
    using sample_node_rows by (simp add: node_rows_eq)
  moreover have "nr_started (sample_record k n path) = None"
    "nr_node (sample_record k n path) = Fleet_Plan.sample_node n ENGINEER [] [path]" for k n path
    by (simp_all add: sample_record_def)
  ultimately show ?thesis using assms
    by (simp add: tables_inv_def row_ok_def started_ok_def graph_row_ok_def
     row_of_record_def Let_def running_rows_def node_key_def record_key_def Fleet_Plan.sample_node_def)
qed

lemma sample_generation: "sample_graph\<lparr>gs_generation := 0\<rparr> = sample_graph"
  by (simp add: sample_graph_def new_graph_def)

lemma sample_inv: "graph_inv sample_db"
  unfolding graph_inv_def
  by (rule sample_tables_inv [where R = "row_of_graph sample_manifest" and k = 0])
    (simp_all add: tables_of_def row_of_graph_def sample_manifest_def sample_generation)


definition sample_after :: graph_db where
  "sample_after = (case claim_driver graph_effects sample_db (sample_id ''run'' 0) 0 of
     Inr (db, _) \<Rightarrow> db | Inl _ \<Rightarrow> sample_db)"

lemma sample_after_step: "graph_step sample_db (GClaim graph_effects (sample_id ''run'' 0) 0) = Inr sample_after"
  and sample_after_claims: "gd_claims sample_after = [row_of_claim sample_claim]"
  using sample_claimed by (auto simp: sample_after_def)

definition sample_released :: driver_row where
  "sample_released = (row_of_claim sample_claim)\<lparr>fc_status := ClaimReleased, fc_released := Some 800\<rparr>"

definition sample_closed :: graph_db where
  "sample_closed = sample_db\<lparr>gd_claims := [sample_released],
     gd_graphs := [(row_of_graph sample_manifest)\<lparr>fg_data := sample_graph\<lparr>gs_generation := 1\<rparr>\<rparr>]\<rparr>"

lemma sample_closed_inv: "graph_inv sample_closed"
  unfolding graph_inv_def
  by (rule sample_tables_inv [where k = 1
        and R = "(row_of_graph sample_manifest)\<lparr>fg_data := sample_graph\<lparr>gs_generation := 1\<rparr>\<rparr>"])
    (simp_all add: tables_of_def sample_closed_def row_of_graph_def sample_manifest_def claim_row_ok_def
      sample_released_def row_of_claim_def sample_claim_def row_lookup_def)


section \<open>Witnesses\<close>

theorem graph_transactions_refine_witness:
  "moves (tables_of sample_db) (tables_of sample_after) \<and> tables_of sample_after \<noteq> tables_of sample_db"
  using graph_transactions_refine [OF sample_inv sample_after_step] sample_after_claims
  by (simp add: tables_of_def)


theorem closed_claim_fenced_witness:
  "release_driver graph_effects (after_graph_ops sample_closed [GClaim graph_effects (sample_id ''run'' 0) 0]) sample_claim 1 GReady
     \<noteq> Inr (sample_db, sample_graph)"
proof -
  have "row_lookup fc_id (gc_id sample_claim) (gd_claims sample_closed) = Some sample_released"
    by (simp add: sample_closed_def sample_released_def row_of_claim_def row_lookup_def)
  from closed_claim_fenced [OF sample_closed_inv this] show ?thesis
    by (simp add: sample_released_def)
qed

theorem graph_record_final_witness:
  "\<exists>g'. find_graph (after_graph_ops sample_db [GClaim graph_effects (sample_id ''run'' 0) 0]) (sample_id ''run'' 0) = Some g'
     \<and> gs_plan (fg_data g') = sample_plan"
  using graph_record_final [OF sample_inv sample_graph_row, of "[GClaim graph_effects (sample_id ''run'' 0) 0]"]
  by (auto simp: sample_row_fields)

end
