(* ===== verification/Command_Evidence.thy ===== *)
theory Command_Evidence
  imports Resource_Records Trust_Policy
begin

text \<open>
  \<open>CommandEvidence\<close> of \<open>domain/evidence.py\<close>: what the control plane records about one
  execution of a reviewed command, with its constructor check and the JSON value that is stored.
\<close>

text \<open>\<open>AgentInstance.effective_kind\<close>.\<close>

definition agent_effective_kind :: "agent_instance \<Rightarrow> agent_role res" where
  "agent_effective_kind a = (case agent_kind a of Some k \<Rightarrow> Inr k | None \<Rightarrow> role_of_value (agent_role a))"

datatype evidence_strength = SIMULATED | OBSERVED | INDEPENDENTLY_VERIFIED

primrec strength_value :: "evidence_strength \<Rightarrow> string" where
  "strength_value SIMULATED = ''simulated''"
| "strength_value OBSERVED = ''observed''"
| "strength_value INDEPENDENTLY_VERIFIED = ''independently_verified''"

lemma strength_value_inj: "strength_value a = strength_value b \<longleftrightarrow> a = b"
  by (cases a; cases b) simp_all

record command_evidence =
  ev_id :: string
  ev_run :: string
  ev_task :: string
  ev_agent :: string
  ev_role :: "string option"
  ev_stage :: "workflow_stage option"
  ev_workspace :: "string option"
  ev_sandbox :: "string option"
  ev_command :: string
  ev_command_hash :: "string option"
  ev_executable :: string
  ev_argv :: "string list"
  ev_cwd :: string
  ev_provider :: string
  ev_level :: security_level
  ev_capabilities :: "string option"
  ev_configuration :: "string option"
  ev_requirements :: "string option"
  ev_image :: "string option"
  ev_daemon :: "string option"
  ev_strength :: evidence_strength
  ev_exit :: int
  ev_timed_out :: bool
  ev_truncated :: bool
  ev_transcript :: string
  ev_base :: string
  ev_config :: string
  ev_patch :: "string option"
  ev_workspace_kind :: workspace_kind
  ev_network :: string
  ev_mutated :: bool
  ev_execution :: "string option"
  ev_inspection :: "string option"
  ev_inspection_sha :: "string option"
  ev_started :: int
  ev_completed :: int

definition evidence_ok :: "command_evidence \<Rightarrow> bool" where
  "evidence_ok e \<longleftrightarrow> opaque_ok ''art'' (ev_id e) \<and> opaque_ok ''run'' (ev_run e)
     \<and> opaque_ok ''task'' (ev_task e) \<and> opaque_ok ''agent'' (ev_agent e)
     \<and> opt_all node_id_ok (ev_role e) \<and> opt_all (opaque_ok ''ws'') (ev_workspace e)
     \<and> opt_all (opaque_ok ''sandbox'') (ev_sandbox e) \<and> action_id_ok (ev_command e)
     \<and> list_all (opt_all sha256_ok) [ev_command_hash e, ev_capabilities e, ev_configuration e,
         ev_requirements e, ev_daemon e, ev_patch e, ev_inspection_sha e]
     \<and> opt_all image_identity_ok (ev_image e) \<and> opaque_ok ''art'' (ev_transcript e)
     \<and> sha256_ok (ev_config e) \<and> ev_network e \<in> set network_modes
     \<and> opt_all (opaque_ok ''art'') (ev_inspection e)"

definition evidence_json :: "(int \<Rightarrow> string) \<Rightarrow> command_evidence \<Rightarrow> json" where
  "evidence_json time e = JObj
     [(''evidence_id'', JStr (ev_id e)), (''run_id'', JStr (ev_run e)), (''task_id'', JStr (ev_task e)),
      (''agent_instance_id'', JStr (ev_agent e)), (''principal_role'', opt_str (ev_role e)),
      (''workflow_stage'', opt_str (map_option stage_value (ev_stage e))),
      (''workspace_id'', opt_str (ev_workspace e)), (''sandbox_id'', opt_str (ev_sandbox e)),
      (''command_id'', JStr (ev_command e)), (''command_spec_sha256'', opt_str (ev_command_hash e)),
      (''executable'', JStr (ev_executable e)), (''argv'', JArr (map JStr (ev_argv e))),
      (''cwd'', JStr (ev_cwd e)), (''sandbox_provider'', JStr (ev_provider e)),
      (''sandbox_security_level'', JStr (level_value (ev_level e))),
      (''sandbox_capabilities_sha256'', opt_str (ev_capabilities e)),
      (''sandbox_configuration_sha256'', opt_str (ev_configuration e)),
      (''sandbox_requirements_sha256'', opt_str (ev_requirements e)),
      (''sandbox_image_identity'', opt_str (ev_image e)), (''sandbox_daemon_identity'', opt_str (ev_daemon e)),
      (''strength'', JStr (strength_value (ev_strength e))), (''exit_code'', JInt (ev_exit e)),
      (''timed_out'', JBool (ev_timed_out e)), (''output_truncated'', JBool (ev_truncated e)),
      (''transcript_artifact_id'', JStr (ev_transcript e)), (''workspace_base_revision'', JStr (ev_base e)),
      (''config_snapshot_sha256'', JStr (ev_config e)), (''candidate_patch_sha256'', opt_str (ev_patch e)),
      (''workspace_kind'', JStr (workspace_value (ev_workspace_kind e))),
      (''network_mode'', JStr (ev_network e)),
      (''workspace_mutated_during_execution'', JBool (ev_mutated e)),
      (''execution_id'', opt_str (ev_execution e)),
      (''sandbox_inspection_artifact_id'', opt_str (ev_inspection e)),
      (''sandbox_inspection_sha256'', opt_str (ev_inspection_sha e)),
      (''started_at'', JStr (time (ev_started e))), (''completed_at'', JStr (time (ev_completed e)))]"

end
