(* ===== verification/Completion_Gate.thy ===== *)
theory Completion_Gate
  imports Command_Evidence Graph_Types "HOL-Library.AList"
begin

text \<open>
  The completion gate of \<open>domain/evidence.py\<close>: the resolution of a verifier's criterion results
  against the recorded command executions, the validity of a graph delivery, and the decision whether a
  task is proved complete. A dictionary built from a list is \<open>dict_of\<close>; the texts whose hashes
  the delivery binds (\<open>model_dump_json\<close>) are arguments.
\<close>

section \<open>Records\<close>

record criterion_result =
  cn_id :: string
  cn_verdict :: verdict
  cn_evidence :: "string list"
  cn_commands :: "string list"

record assessment =
  as_id :: string
  as_verdict :: verdict
  as_evidence :: "string list"
  as_explanation :: string

record proof_gap =
  gp_code :: string
  gp_description :: string
  gp_strength :: "evidence_strength option"

record graph_delivery =
  dl_snapshot :: graph
  dl_join :: artifact_ref
  dl_receipts :: "cleanup_receipt list"
  dl_repairs :: int

record evidence_bundle =
  eb_run :: string
  eb_project :: string
  eb_task :: string
  eb_base :: string
  eb_config_artifact :: string
  eb_config :: string
  eb_task_artifact :: string
  eb_task_sha :: string
  eb_plan_artifact :: string
  eb_plan :: string
  eb_strategy :: fleet_strategy
  eb_delivery :: "graph_delivery option"
  eb_required :: "evidence_requirement list"
  eb_provider :: string
  eb_level :: security_level
  eb_configuration :: "string option"
  eb_requirements :: "sandbox_requirements option"
  eb_requirements_sha :: "string option"
  eb_image :: "string option"
  eb_daemon :: "string option"
  eb_capabilities :: sandbox_capabilities
  eb_capabilities_sha :: "string option"
  eb_command_hashes :: "(string \<times> string) list"
  eb_required_commands :: "string list"
  eb_patch_artifact :: "string option"
  eb_patch :: "string option"
  eb_changed :: "string list"
  eb_commands :: "command_evidence list"
  eb_verifier :: "string option"
  eb_verifier_role :: "string option"
  eb_verdict_artifact :: "string option"
  eb_verifier_evidence :: "string list"
  eb_verifier_mutated :: bool
  eb_reported :: "verdict option"
  eb_repairs :: "string list"
  eb_regressions :: "string list"
  eb_cleanup_artifact :: "string option"
  eb_cleanup_sha :: "string option"
  eb_cleanup_complete :: bool
  eb_assessments :: "assessment list"
  eb_results :: "criterion_result list option"
  eb_risks :: "(string \<times> string) list"
  eb_gaps :: "proof_gap list"
  eb_at :: int

record completion_decision =
  cd_verified :: bool
  cd_verdict :: verdict
  cd_reasons :: "string list"

text \<open>The validators of \<open>EvidenceBundle\<close>.\<close>

definition bundle_ok :: "(string \<Rightarrow> string) \<Rightarrow> evidence_bundle \<Rightarrow> bool" where
  "bundle_ok sha b \<longleftrightarrow> opaque_ok ''run'' (eb_run b) \<and> opaque_ok ''prj'' (eb_project b)
     \<and> opaque_ok ''task'' (eb_task b)
     \<and> list_all (opaque_ok ''art'') [eb_config_artifact b, eb_task_artifact b, eb_plan_artifact b]
     \<and> list_all sha256_ok [eb_config b, eb_task_sha b, eb_plan b]
     \<and> bounded_list 1 32 (eb_required b) \<and> distinct (eb_required b)
     \<and> node_id_ok (eb_provider b)
     \<and> list_all (opt_all sha256_ok) [eb_configuration b, eb_requirements_sha b, eb_daemon b,
         eb_capabilities_sha b, eb_patch b, eb_cleanup_sha b]
     \<and> opt_all image_identity_ok (eb_image b)
     \<and> length (eb_command_hashes b) \<le> 32
     \<and> list_all (\<lambda>(c, h). action_id_ok c \<and> sha256_ok h) (eb_command_hashes b)
     \<and> length (eb_required_commands b) \<le> 32 \<and> list_all action_id_ok (eb_required_commands b)
     \<and> distinct (eb_required_commands b)
     \<and> list_all (opt_all (opaque_ok ''art''))
         [eb_patch_artifact b, eb_verdict_artifact b, eb_cleanup_artifact b]
     \<and> list_all evidence_ok (eb_commands b) \<and> opt_all (opaque_ok ''agent'') (eb_verifier b)
     \<and> opt_all node_id_ok (eb_verifier_role b)
     \<and> list_all (opaque_ok ''art'') (eb_verifier_evidence b)
     \<and> bounded_list 1 128 (eb_assessments b)
     \<and> list_all (\<lambda>a. criterion_id_ok (as_id a) \<and> list_all (opaque_ok ''art'') (as_evidence a)) (eb_assessments b)
     \<and> distinct (map as_id (eb_assessments b))
     \<and> opt_all (\<lambda>rs. length rs \<le> 128) (eb_results b)
     \<and> (eb_cleanup_artifact b = None) = (eb_cleanup_sha b = None)
     \<and> \<not> (eb_cleanup_complete b \<and> eb_cleanup_artifact b = None)
     \<and> (eb_requirements b = None) = (eb_requirements_sha b = None)
     \<and> opt_all (\<lambda>q. Some (canonical_json_hash sha (requirements_json q)) = eb_requirements_sha b) (eb_requirements b)"

definition dict_of :: "('k \<times> 'v) list \<Rightarrow> ('k \<times> 'v) list" where
  "dict_of kvs = fold (\<lambda>(k, v). AList.update k v) kvs []"

section \<open>Criterion results\<close>

record review =
  rv_run :: string
  rv_task :: string
  rv_verifier :: "string option"
  rv_role :: string
  rv_base :: string
  rv_config :: string
  rv_patch :: "string option"
  rv_hashes :: "(string \<times> string) list"

text \<open>The executions of the same command by the verifier on the current patch, and the latest of
  them.\<close>

definition matching_runs :: "review \<Rightarrow> command_evidence list \<Rightarrow> string \<Rightarrow> command_evidence list" where
  "matching_runs v commands cid = filter (\<lambda>e. ev_command e = cid \<and> Some (ev_agent e) = rv_verifier v
     \<and> ev_patch e = rv_patch v) commands"

definition latest_of :: "command_evidence list \<Rightarrow> int option" where
  "latest_of es = (case es of [] \<Rightarrow> None | e # rest \<Rightarrow> Some (fold max (map ev_completed rest) (ev_completed e)))"

definition current_proof :: "review \<Rightarrow> command_evidence list \<Rightarrow> command_evidence \<Rightarrow> bool" where
  "current_proof v commands e \<longleftrightarrow> (let runs = matching_runs v commands (ev_command e); latest = latest_of runs in
     ev_run e = rv_run v \<and> ev_task e = rv_task v \<and> Some (ev_agent e) = rv_verifier v
     \<and> ev_role e = Some (rv_role v) \<and> ev_stage e = Some VERIFYING
     \<and> ev_workspace_kind e = VERIFICATION \<and> ev_workspace e \<noteq> None \<and> ev_sandbox e \<noteq> None
     \<and> ev_base e = rv_base v \<and> ev_config e = rv_config v \<and> ev_patch e = rv_patch v
     \<and> ev_command e \<in> fst ` set (rv_hashes v)
     \<and> ev_command_hash e = map_of (rv_hashes v) (ev_command e)
     \<and> ev_strength e = INDEPENDENTLY_VERIFIED \<and> ev_level e = ISOLATED
     \<and> ev_provider e \<notin> {''fake'', ''local-unsafe''}
     \<and> \<not> ev_mutated e \<and> \<not> ev_truncated e \<and> ev_started e \<le> ev_completed e
     \<and> Some (ev_completed e) = latest
     \<and> length (filter (\<lambda>i. Some (ev_completed i) = latest) runs) = 1)"

definition catalog_invalid :: "criterion_result list \<Rightarrow> string list \<Rightarrow> command_evidence list \<Rightarrow> bool" where
  "catalog_invalid results expected commands \<longleftrightarrow> \<not> distinct (map cn_id results)
     \<or> set (map cn_id results) \<noteq> set expected \<or> \<not> distinct (map ev_id commands)"

definition selected_runs :: "command_evidence list \<Rightarrow> criterion_result \<Rightarrow> command_evidence list" where
  "selected_runs commands r = (let catalog = map_of (dict_of (map (\<lambda>e. (ev_id e, e)) commands)) in
     map the (filter (\<lambda>x. x \<noteq> None) (map catalog (cn_evidence r))))"

definition mapping_exact :: "string list \<Rightarrow> criterion_result \<Rightarrow> command_evidence list \<Rightarrow> bool" where
  "mapping_exact declared r selected \<longleftrightarrow> selected \<noteq> [] \<and> length selected = length (cn_evidence r)
     \<and> distinct (cn_evidence r) \<and> distinct (cn_commands r) \<and> length selected = length (cn_commands r)
     \<and> set (map ev_command selected) = set (cn_commands r) \<and> set (cn_evidence r) \<subseteq> set declared"

definition criterion_valid ::
    "review \<Rightarrow> command_evidence list \<Rightarrow> string list \<Rightarrow> bool \<Rightarrow> criterion_result option \<Rightarrow> bool" where
  "criterion_valid v commands declared flawed result = (case result of None \<Rightarrow> False
     | Some r \<Rightarrow> let selected = selected_runs commands r in
         \<not> flawed \<and> mapping_exact declared r selected \<and> list_all (current_proof v commands) selected
         \<and> \<not> 1 < card (set (map (\<lambda>e. (ev_workspace e, ev_sandbox e)) selected)))"

definition command_failed :: "command_evidence \<Rightarrow> bool" where
  "command_failed e \<longleftrightarrow> ev_exit e \<noteq> 0 \<or> ev_timed_out e"

definition resolved_text :: string where
  "resolved_text = ''Exact current independent verifier command records resolve this criterion.''"

definition unresolved_text :: string where
  "unresolved_text = ''The criterion mapping is missing, ambiguous, or unbound.''"

definition mapping_gap_text :: "string \<Rightarrow> string" where
  "mapping_gap_text cid = ''Criterion '' @ cid @ '' lacks an exact current verifier mapping.''"

definition assess_criterion ::
    "review \<Rightarrow> command_evidence list \<Rightarrow> string list \<Rightarrow> bool \<Rightarrow> string \<Rightarrow> criterion_result option \<Rightarrow>
     assessment \<times> proof_gap list" where
  "assess_criterion v commands declared flawed cid result =
     (if criterion_valid v commands declared flawed result
      then let r = the result; selected = selected_runs commands r in
        (\<lparr>as_id = cid, as_verdict = (if list_ex command_failed selected then VFail else cn_verdict r),
          as_evidence = cn_evidence r, as_explanation = resolved_text\<rparr>, [])
      else (\<lparr>as_id = cid, as_verdict = VInconclusive, as_evidence = [], as_explanation = unresolved_text\<rparr>,
        [\<lparr>gp_code = ''STRUCTURED_CRITERION_MAPPING_INVALID'', gp_description = mapping_gap_text cid,
          gp_strength = Some INDEPENDENTLY_VERIFIED\<rparr>]))"

definition assess_criterion_results ::
    "review \<Rightarrow> criterion_result list \<Rightarrow> string list \<Rightarrow> command_evidence list \<Rightarrow> string list \<Rightarrow>
     assessment list \<times> proof_gap list" where
  "assess_criterion_results v results expected commands declared =
     (let flawed = catalog_invalid results expected commands;
          by_criterion = map_of (dict_of (map (\<lambda>r. (cn_id r, r)) results));
          out = map (\<lambda>cid. assess_criterion v commands declared flawed cid (by_criterion cid))
            (sort_strings expected) in
      (map fst out, concat (map snd out)))"

section \<open>Delivery of a graph\<close>

text \<open>
  What the gate takes from outside: the hash of a text, the texts of a plan, a join preparation and a
  cleanup receipt, and the hash of a join preparation (\<open>preparation_sha256\<close>).
\<close>

record gate_env =
  ga_sha :: "string \<Rightarrow> string"
  ga_plan_text :: "fleet_plan \<Rightarrow> string"
  ga_preparation_text :: "join_preparation \<Rightarrow> string"
  ga_receipt_text :: "cleanup_receipt \<Rightarrow> string"
  ga_preparation_sha :: "join_preparation \<Rightarrow> string"

definition identity_bound ::
    "gate_env \<Rightarrow> evidence_bundle \<Rightarrow> string list \<Rightarrow> graph_delivery \<Rightarrow> join_preparation \<Rightarrow> join_completion \<Rightarrow> bool" where
  "identity_bound env b known d p c \<longleftrightarrow> (let g = dl_snapshot d; j = dl_join d in
     \<not> (gs_status g \<noteq> GJoined \<or> gs_claim g \<noteq> None \<or> gs_cancelled_at g \<noteq> None
        \<or> gs_parent g \<noteq> eb_run b \<or> gs_task g \<noteq> eb_task b \<or> gs_project g \<noteq> eb_project b
        \<or> gs_plan_artifact g \<noteq> eb_plan_artifact b \<or> gs_plan_sha g \<noteq> eb_plan b
        \<or> ga_sha env (ga_plan_text env (gs_plan g)) \<noteq> eb_plan b \<or> strategy (gs_plan g) \<noteq> eb_strategy b
        \<or> jp_parent p \<noteq> eb_run b \<or> jp_task p \<noteq> eb_task b \<or> jp_base p \<noteq> eb_base b
        \<or> jp_config p \<noteq> eb_config b \<or> jp_plan p \<noteq> eb_plan b
        \<or> jc_preparation c \<noteq> ga_preparation_sha env p
        \<or> rf_kind j \<noteq> GRAPH_JOIN \<or> rf_run j \<noteq> eb_run b
        \<or> rf_sha j \<noteq> ga_sha env (ga_preparation_text env p)
        \<or> rf_id j \<notin> set known \<or> jc_patch c \<notin> set known))"

definition patch_bound :: "evidence_bundle \<Rightarrow> graph_delivery \<Rightarrow> join_completion \<Rightarrow> bool" where
  "patch_bound b d c \<longleftrightarrow> \<not> (dl_repairs d = 0
     \<and> (Some (jc_patch c) \<noteq> eb_patch_artifact b \<or> Some (jc_patch_sha c) \<noteq> eb_patch b))"

definition receipt_of_run :: "graph_delivery \<Rightarrow> (string \<times> cleanup_receipt) list" where
  "receipt_of_run d = dict_of (map (\<lambda>r. (cr_run r, r)) (dl_receipts d))"

definition receipts_bound :: "graph_delivery \<Rightarrow> bool" where
  "receipts_bound d \<longleftrightarrow> (let children = map (\<lambda>n. gb_child (nr_binding n)) (gs_nodes (dl_snapshot d));
       receipts = receipt_of_run d in
     \<not> (\<not> distinct children \<or> length receipts \<noteq> length (dl_receipts d)
        \<or> fst ` set receipts \<noteq> set children \<or> list_ex (\<lambda>(_, r). \<not> cr_complete r) receipts))"

definition writers_of :: "graph \<Rightarrow> node_record list" where
  "writers_of g = map snd (sort_by_key (map (\<lambda>n. (node_id (nr_node n), n))
     (filter (\<lambda>n. can_write (nr_node n)) (gs_nodes g))))"

definition declared_bound :: "graph \<Rightarrow> bool" where
  "declared_bound g \<longleftrightarrow> (let declared = dict_of (map (\<lambda>n. (node_id n, n)) (child_nodes (gs_plan g))) in
     \<not> (fst ` set declared \<noteq> set (map (\<lambda>n. node_id (nr_node n)) (gs_nodes g))
        \<or> list_ex (\<lambda>n. Some (nr_node n) \<noteq> map_of declared (node_id (nr_node n))) (gs_nodes g)))"

definition delivered_kinds :: "node_record \<Rightarrow> artifact_kind list" where
  "delivered_kinds n = [RESOURCE_CLEANUP, if can_write (nr_node n) then IMPLEMENTATION_REPORT else SPECIALIST_REPORT]
     @ (if can_write (nr_node n) then [PATCH] else [])"

definition output_of :: "artifact_kind \<Rightarrow> node_record \<Rightarrow> artifact_ref option" where
  "output_of k n = find (\<lambda>r. rf_kind r = k) (nr_outputs n)"

definition node_delivered ::
    "gate_env \<Rightarrow> string list \<Rightarrow> (string \<times> cleanup_receipt) list \<Rightarrow> node_record \<Rightarrow> bool" where
  "node_delivered env known receipts n \<longleftrightarrow> (let child = gb_child (nr_binding n); kinds = delivered_kinds n in
     \<not> (nr_status n \<noteq> NSucceeded \<or> set (map rf_kind (nr_outputs n)) \<noteq> set kinds
        \<or> length (nr_outputs n) \<noteq> length kinds
        \<or> list_ex (\<lambda>r. rf_run r \<noteq> child \<or> rf_id r \<notin> set known) (nr_outputs n))
     \<and> (case (output_of RESOURCE_CLEANUP n, map_of receipts child) of
          (Some ref, Some r) \<Rightarrow> rf_sha ref = ga_sha env (ga_receipt_text env r)
        | _ \<Rightarrow> False))"

definition input_bound :: "node_record \<Rightarrow> join_input \<Rightarrow> bool" where
  "input_bound n i \<longleftrightarrow> (case (output_of PATCH n, output_of IMPLEMENTATION_REPORT n) of
       (Some patch, Some report) \<Rightarrow>
         \<not> (ji_run i \<noteq> gb_child (nr_binding n) \<or> ji_task i \<noteq> gb_task (nr_binding n)
            \<or> ji_patch i \<noteq> rf_id patch \<or> ji_patch_sha i \<noteq> rf_sha patch
            \<or> ji_report i \<noteq> rf_id report \<or> ji_report_sha i \<noteq> rf_sha report)
     | _ \<Rightarrow> False)"

definition graph_delivery_is_valid :: "gate_env \<Rightarrow> evidence_bundle \<Rightarrow> string list \<Rightarrow> bool" where
  "graph_delivery_is_valid env b known = (case eb_delivery b of None \<Rightarrow> False
     | Some d \<Rightarrow> let g = dl_snapshot d in (case (gs_preparation g, gs_completion g) of
         (Some p, Some c) \<Rightarrow> identity_bound env b known d p c \<and> patch_bound b d c \<and> receipts_bound d
           \<and> declared_bound g
           \<and> map (\<lambda>n. node_id (nr_node n)) (writers_of g) = map ji_node (jp_inputs p)
           \<and> list_all (node_delivered env known (receipt_of_run d)) (gs_nodes g)
           \<and> list_all (\<lambda>(n, i). input_bound n i) (zip (writers_of g) (jp_inputs p))
       | _ \<Rightarrow> False))"

section \<open>The gate\<close>

text \<open>A reason with the condition under which it is given; the gate collects those that hold, in the
  order of the source.\<close>

definition role_or_verifier :: "string option \<Rightarrow> string" where
  "role_or_verifier r = (case r of None \<Rightarrow> ''verifier'' | Some s \<Rightarrow> if s = [] then ''verifier'' else s)"

definition verifier_commands :: "evidence_bundle \<Rightarrow> command_evidence list" where
  "verifier_commands b = filter (\<lambda>e. Some (ev_agent e) = eb_verifier b) (eb_commands b)"

definition review_of :: "evidence_bundle \<Rightarrow> review" where
  "review_of b = \<lparr>rv_run = eb_run b, rv_task = eb_task b, rv_verifier = eb_verifier b,
     rv_role = role_or_verifier (eb_verifier_role b), rv_base = eb_base b, rv_config = eb_config b,
     rv_patch = eb_patch b, rv_hashes = eb_command_hashes b\<rparr>"

definition mapping_reasons :: "gate_env \<Rightarrow> evidence_bundle \<Rightarrow> string list \<Rightarrow> string list \<Rightarrow> (bool \<times> string) list" where
  "mapping_reasons env b expected known =
     [(eb_strategy b \<in> {PARALLEL_ENGINEERS, RESEARCH_ARCHITECT_ENGINEER_VERIFIER}
         \<and> \<not> graph_delivery_is_valid env b known, ''GRAPH_DELIVERY_UNPROVEN''),
      (case eb_results b of None \<Rightarrow> False
       | Some rs \<Rightarrow> (case assess_criterion_results (review_of b) rs expected (eb_commands b) (eb_verifier_evidence b) of
           (mapped, gaps) \<Rightarrow> gaps \<noteq> []
             \<or> map snd (sort_by_key (map (\<lambda>a. (as_id a, a)) (eb_assessments b))) \<noteq> mapped),
       ''STRUCTURED_CRITERION_MAPPING_INVALID''),
      (eb_results b = None \<and> 1 < card (set expected), ''STRUCTURED_CRITERION_MAPPING_UNAVAILABLE''),
      (\<not> eb_cleanup_complete b \<or> eb_cleanup_artifact b = None \<or> eb_cleanup_sha b = None
         \<or> (case eb_cleanup_artifact b of None \<Rightarrow> True | Some a \<Rightarrow> a \<notin> set known), ''RESOURCE_CLEANUP_UNPROVEN''),
      (expected = [], ''CRITERIA_NOT_DEFINED'')]"

definition sandbox_reasons :: "gate_env \<Rightarrow> evidence_bundle \<Rightarrow> (bool \<times> string) list" where
  "sandbox_reasons env b =
     [(eb_requirements b = None \<or> eb_requirements_sha b = None, ''SANDBOX_REQUIREMENTS_BINDING_MISSING''),
      (sb_provider (eb_capabilities b) \<noteq> eb_provider b \<or> sb_level (eb_capabilities b) \<noteq> eb_level b,
       ''SANDBOX_CAPABILITY_IDENTITY_MISMATCH''),
      (eb_capabilities_sha b = None
         \<or> eb_capabilities_sha b \<noteq> Some (canonical_json_hash (ga_sha env) (capabilities_json (eb_capabilities b))),
       ''SANDBOX_CAPABILITY_BINDING_INVALID''),
      (eb_level b = ISOLATED \<and> eb_configuration b = None, ''SANDBOX_CONFIGURATION_BINDING_MISSING''),
      (eb_level b = ISOLATED \<and> eb_image b = None, ''SANDBOX_IMAGE_BINDING_MISSING''),
      (eb_level b = ISOLATED \<and> eb_daemon b = None, ''SANDBOX_DAEMON_BINDING_MISSING''),
      (\<not> set (eb_required_commands b) \<subseteq> fst ` set (eb_command_hashes b), ''REQUIRED_COMMAND_PROFILE_INVALID''),
      (eb_level b = ISOLATED \<and> eb_command_hashes b = [], ''REVIEWED_COMMAND_PROFILE_MISSING''),
      (\<not> distinct (map ev_id (eb_commands b)), ''COMMAND_EVIDENCE_DUPLICATE'')]"

definition opt_list :: "'a option \<Rightarrow> 'a list" where
  "opt_list x = (case x of None \<Rightarrow> [] | Some v \<Rightarrow> [v])"

definition declared_artifacts :: "evidence_bundle \<Rightarrow> string list" where
  "declared_artifacts b = [eb_config_artifact b, eb_task_artifact b, eb_plan_artifact b]
     @ map ev_id (eb_commands b) @ map ev_transcript (eb_commands b)
     @ concat (map (\<lambda>e. opt_list (ev_inspection e)) (eb_commands b))
     @ opt_list (eb_patch_artifact b) @ opt_list (eb_verdict_artifact b)"

definition requirement_missing :: "evidence_bundle \<Rightarrow> string list \<Rightarrow> evidence_requirement \<Rightarrow> bool" where
  "requirement_missing b known q = (case q of
     CONTROL_PLANE_PLAN \<Rightarrow> eb_plan_artifact b \<notin> set known
   | CANONICAL_PATCH \<Rightarrow> eb_patch_artifact b = None \<or> eb_patch b = None \<or> eb_changed b = []
   | COMMAND_EVIDENCE \<Rightarrow> eb_commands b = []
   | INDEPENDENT_VERIFIER_VERDICT \<Rightarrow> eb_verifier b = None \<or> eb_verdict_artifact b = None
       \<or> eb_reported b = None \<or> verifier_commands b = [] \<or> eb_verifier_evidence b = [])"

definition assessments_by_id :: "evidence_bundle \<Rightarrow> (string \<times> assessment) list" where
  "assessments_by_id b = dict_of (map (\<lambda>a. (as_id a, a)) (eb_assessments b))"

definition criteria_reasons :: "evidence_bundle \<Rightarrow> string list \<Rightarrow> string list \<Rightarrow> (bool \<times> string) list" where
  "criteria_reasons b expected known = (let items = assessments_by_id b;
       bound = map ev_id (eb_commands b) @ opt_list (eb_verdict_artifact b) in
     [(\<not> set (declared_artifacts b) \<subseteq> set known, ''ARTIFACT_REFERENCE_MISSING''),
      (list_ex (requirement_missing b known) (eb_required b), ''REQUIRED_EVIDENCE_MISSING''),
      (length items \<noteq> length (eb_assessments b), ''CRITERIA_EVIDENCE_DUPLICATE''),
      (fst ` set items \<noteq> set expected, ''CRITERIA_EVIDENCE_INCOMPLETE''),
      (list_ex (\<lambda>(_, a). as_verdict a \<noteq> VPass) items, ''CRITERION_NOT_PASSING''),
      (list_ex (\<lambda>(_, a). as_verdict a = VPass \<and> as_evidence a = []) items, ''CRITERION_EVIDENCE_MISSING''),
      (list_ex (\<lambda>(_, a). \<not> set (as_evidence a) \<subseteq> set bound \<or> \<not> set (as_evidence a) \<subseteq> set known) items,
       ''CRITERION_EVIDENCE_UNBOUND''),
      (eb_gaps b \<noteq> [], ''PROOF_GAPS_PRESENT'')])"

definition requires_verifier :: "evidence_bundle \<Rightarrow> bool" where
  "requires_verifier b \<longleftrightarrow> INDEPENDENT_VERIFIER_VERDICT \<in> set (eb_required b)
     \<or> eb_strategy b \<in> {ENGINEER_VERIFIER, RESEARCH_ARCHITECT_ENGINEER_VERIFIER}"

definition verifier_reasons :: "evidence_bundle \<Rightarrow> string list \<Rightarrow> (bool \<times> string) list" where
  "verifier_reasons b known =
     [(eb_strategy b = ENGINEER_VERIFIER \<and> (eb_verifier b = None \<or> eb_verdict_artifact b = None),
       ''INDEPENDENT_VERIFIER_MISSING''),
      (requires_verifier b \<and> verifier_commands b = [], ''INDEPENDENT_VERIFIER_EVIDENCE_MISSING''),
      (eb_verdict_artifact b \<noteq> None \<and> (eb_verifier_evidence b = []
          \<or> set (eb_verifier_evidence b) \<noteq> set (map ev_id (verifier_commands b))
          \<or> \<not> set (eb_verifier_evidence b) \<subseteq> set known), ''VERIFIER_EVIDENCE_BINDING_INVALID''),
      (eb_verifier_mutated b, ''VERIFIER_WORKSPACE_MUTATED''),
      (eb_reported b = Some VPass \<and> eb_repairs b \<noteq> [], ''VERIFIER_PASS_WITH_REQUIRED_REPAIRS''),
      (eb_reported b = Some VPass \<and> eb_regressions b \<noteq> [], ''VERIFIER_PASS_WITH_REGRESSIONS''),
      (eb_reported b = Some VFail, ''VERIFIER_REPORTED_FAIL''),
      ((eb_reported b = None) \<noteq> (eb_verdict_artifact b = None), ''VERIFIER_VERDICT_IDENTITY_INCOMPLETE''),
      (eb_patch_artifact b \<noteq> None \<and> eb_commands b = [], ''COMMAND_EVIDENCE_MISSING''),
      ((eb_patch_artifact b = None) \<noteq> (eb_patch b = None), ''PATCH_IDENTITY_INCOMPLETE''),
      (eb_patch_artifact b = None \<and> eb_changed b \<noteq> [], ''PATCH_IDENTITY_INCOMPLETE'')]"

definition is_auxiliary_approval_evidence :: "evidence_bundle \<Rightarrow> command_evidence \<Rightarrow> bool" where
  "is_auxiliary_approval_evidence b e \<longleftrightarrow>
     eb_provider b = ''fake'' \<and> ev_command e = ''approval-proof'' \<and> ev_strength e = SIMULATED"

definition sandbox_unbound :: "evidence_bundle \<Rightarrow> command_evidence \<Rightarrow> bool" where
  "sandbox_unbound b e \<longleftrightarrow> ev_provider e \<noteq> eb_provider b \<or> ev_level e \<noteq> eb_level b
     \<or> ev_capabilities e \<noteq> eb_capabilities_sha b \<or> ev_configuration e \<noteq> eb_configuration b
     \<or> ev_requirements e \<noteq> eb_requirements_sha b \<or> ev_image e \<noteq> eb_image b \<or> ev_daemon e \<noteq> eb_daemon b"

definition spec_unbound :: "evidence_bundle \<Rightarrow> command_evidence \<Rightarrow> bool" where
  "spec_unbound b e \<longleftrightarrow> (ev_command e \<notin> fst ` set (eb_command_hashes b)
       \<or> ev_command_hash e \<noteq> map_of (eb_command_hashes b) (ev_command e))
     \<and> \<not> is_auxiliary_approval_evidence b e"

definition command_reasons :: "evidence_bundle \<Rightarrow> (bool \<times> string) list" where
  "command_reasons b = (let cs = eb_commands b; required = set (eb_required_commands b) in
     [(list_ex (\<lambda>e. ev_run e \<noteq> eb_run b \<or> ev_task e \<noteq> eb_task b) cs, ''COMMAND_EVIDENCE_IDENTITY_MISMATCH''),
      (eb_command_hashes b \<noteq> [] \<and> list_ex (spec_unbound b) cs, ''COMMAND_SPEC_BINDING_INVALID''),
      (\<not> required \<subseteq> set (map ev_command cs), ''REQUIRED_COMMAND_EVIDENCE_MISSING''),
      (requires_verifier b \<and> \<not> required \<subseteq> set (map ev_command (verifier_commands b)),
       ''VERIFIER_REQUIRED_COMMAND_EVIDENCE_MISSING''),
      (list_ex (sandbox_unbound b) cs, ''SANDBOX_EVIDENCE_BINDING_INVALID''),
      (list_ex (\<lambda>e. ev_level e = ISOLATED \<and> (ev_inspection e = None \<or> ev_inspection_sha e = None)) cs,
       ''SANDBOX_INSPECTION_EVIDENCE_MISSING''),
      (list_ex (\<lambda>e. ev_level e = ISOLATED \<and> ev_execution e = None) cs, ''EXECUTION_IDENTITY_MISSING''),
      (list_ex (\<lambda>e. ev_network e \<notin> set (sb_networks (eb_capabilities b)) \<or> ev_network e \<noteq> ''none'') cs,
       ''COMMAND_NETWORK_EVIDENCE_INVALID''),
      (list_ex command_failed cs, ''COMMAND_EXECUTION_FAILED''),
      (list_ex (\<lambda>e. ev_completed e < ev_started e) cs, ''COMMAND_TIMING_INVALID''),
      (list_ex ev_truncated cs, ''COMMAND_OUTPUT_TRUNCATED''),
      (list_ex (\<lambda>e. ev_strength e = SIMULATED \<or> ev_level e = LevelFake) cs, ''SIMULATED_EVIDENCE_ONLY'')])"

definition claim_unfounded :: "evidence_bundle \<Rightarrow> command_evidence \<Rightarrow> bool" where
  "claim_unfounded b e \<longleftrightarrow> ev_strength e = INDEPENDENTLY_VERIFIED
     \<and> (Some (ev_agent e) \<noteq> eb_verifier b \<or> ev_role e \<noteq> Some (role_or_verifier (eb_verifier_role b))
        \<or> ev_stage e \<noteq> Some VERIFYING \<or> ev_workspace e = None \<or> ev_sandbox e = None
        \<or> ev_level e \<noteq> ISOLATED \<or> ev_workspace_kind e \<noteq> VERIFICATION \<or> ev_mutated e)"

definition provenance_invalid :: "evidence_bundle \<Rightarrow> command_evidence \<Rightarrow> bool" where
  "provenance_invalid b e \<longleftrightarrow> ev_role e \<noteq> Some (role_or_verifier (eb_verifier_role b))
     \<or> ev_stage e \<noteq> Some VERIFYING \<or> ev_workspace e = None \<or> ev_sandbox e = None"

definition strength_insufficient :: "command_evidence \<Rightarrow> bool" where
  "strength_insufficient e \<longleftrightarrow> ev_strength e \<noteq> INDEPENDENTLY_VERIFIED \<or> ev_level e \<noteq> ISOLATED
     \<or> ev_workspace_kind e \<noteq> VERIFICATION \<or> ev_mutated e"

definition strength_reasons :: "evidence_bundle \<Rightarrow> (bool \<times> string) list" where
  "strength_reasons b = (let cs = eb_commands b; vs = verifier_commands b in
     [(list_ex (\<lambda>e. ev_level e = LevelFake \<and> ev_strength e \<noteq> SIMULATED) cs, ''EVIDENCE_STRENGTH_INVALID''),
      (list_ex (claim_unfounded b) cs, ''EVIDENCE_STRENGTH_INVALID''),
      (list_ex ev_mutated vs, ''VERIFIER_COMMAND_MUTATED_WORKSPACE''),
      (list_ex (provenance_invalid b) vs, ''VERIFIER_PROVENANCE_INVALID''),
      (requires_verifier b \<and> list_ex strength_insufficient vs, ''VERIFIER_EVIDENCE_STRENGTH_INSUFFICIENT''),
      (list_ex (\<lambda>e. ev_config e \<noteq> eb_config b) cs, ''CONFIG_EVIDENCE_STALE''),
      (list_ex (\<lambda>e. ev_base e \<noteq> eb_base b) cs, ''BASE_REVISION_EVIDENCE_STALE''),
      (eb_patch b \<noteq> None \<and> \<not> list_ex (\<lambda>e. ev_patch e = eb_patch b) cs, ''PATCH_EVIDENCE_UNBOUND''),
      (requires_verifier b \<and> eb_patch b \<noteq> None
         \<and> (vs = [] \<or> list_ex (\<lambda>e. ev_patch e \<noteq> eb_patch b) vs), ''VERIFIER_PATCH_EVIDENCE_UNBOUND'')])"

definition gate_reasons :: "gate_env \<Rightarrow> evidence_bundle \<Rightarrow> string list \<Rightarrow> string list \<Rightarrow> (bool \<times> string) list" where
  "gate_reasons env b expected known = mapping_reasons env b expected known @ sandbox_reasons env b
     @ criteria_reasons b expected known @ verifier_reasons b known @ command_reasons b @ strength_reasons b"

definition completion_gate :: "gate_env \<Rightarrow> evidence_bundle \<Rightarrow> string list \<Rightarrow> string list \<Rightarrow> completion_decision" where
  "completion_gate env b expected known =
     (let reasons = map snd (filter fst (gate_reasons env b expected known));
          verified = (reasons = [] \<and> eb_reported b \<in> {None, Some VPass}) in
      \<lparr>cd_verified = verified,
       cd_verdict = (if eb_reported b = Some VFail \<or> list_ex command_failed (eb_commands b)
           \<or> list_ex (\<lambda>a. as_verdict a = VFail) (eb_assessments b) then VFail
         else if verified then VPass else VInconclusive),
       cd_reasons = sort_strings reasons\<rparr>)"

end
