(* ===== verification/Evidence_Assembly.thy ===== *)
theory Evidence_Assembly
  imports Completion_Gate Graph_Operations Run_Store
begin

text \<open>
  \<open>EvidenceAssembler.assemble\<close> of \<open>application/evidence.py\<close> and
  \<open>assemble_graph_delivery\<close> of \<open>application/graph_evidence.py\<close>: the control plane reads back every
  record a completion rests on, checks its binding to the run, and hands the bundle to the gate.

  The database is that of the graph store (runs, agents, events, leases, artifacts, graphs). The
  parsers of artifact texts are pydantic's and are arguments, as are the content store and the two
  services of the configuration port.
\<close>

record verifier_verdict =
  vd_verdict :: verdict
  vd_evidence :: "string list"
  vd_regressions :: "string list"
  vd_repairs :: "string list"
  vd_gaps :: "string list"
  vd_structured :: "criterion_result list option"

text \<open>The field constraints of \<open>VerifierVerdict\<close> and \<open>validate_evidence_artifact_ids\<close>.\<close>

definition verifier_verdict_ok :: "verifier_verdict \<Rightarrow> bool" where
  "verifier_verdict_ok v \<longleftrightarrow> length (vd_evidence v) \<le> 256 \<and> list_all (opaque_ok ''art'') (vd_evidence v)
     \<and> list_all (\<lambda>ts. length ts \<le> 128 \<and> list_all (bounded_text 4096) ts)
         [vd_regressions v, vd_repairs v, vd_gaps v]
     \<and> opt_all (\<lambda>rs. length rs \<le> 128) (vd_structured v) \<and> distinct (vd_evidence v)"

record assembly_env =
  ay_graph :: graph_env
  ay_gate :: gate_env
  ay_config :: config_port
  ay_required :: "fleet_spec \<Rightarrow> snapshot_file list \<Rightarrow> string \<Rightarrow> string list \<Rightarrow> change_kind \<Rightarrow> string list res"
  ay_profile :: "fleet_spec \<Rightarrow> snapshot_file list \<Rightarrow> verification_profile res"
  ay_command :: "string \<Rightarrow> command_evidence option"
  ay_inspection :: "string \<Rightarrow> inspection option"
  ay_verdict :: "string \<Rightarrow> verifier_verdict option"
  ay_preparation :: "string \<Rightarrow> join_preparation option"

definition integrity_error :: exn where
  "integrity_error = FleetError ARTIFACT_INTEGRITY_FAILED"

section \<open>Reading\<close>

definition get_artifact :: "graph_db \<Rightarrow> string \<Rightarrow> artifact_metadata res" where
  "get_artifact db aid = bind_res (some_or not_found (row_lookup ax_id aid (gd_artifacts db))) (\<lambda>row. Inr (ax_data row))"

definition list_artifacts :: "graph_db \<Rightarrow> string \<Rightarrow> artifact_metadata list" where
  "list_artifacts db rid = map ax_data (filter (\<lambda>row. ax_run row = Some rid) (gd_artifacts db))"

definition read_text :: "assembly_env \<Rightarrow> graph_db \<Rightarrow> string \<Rightarrow> string res" where
  "read_text env db aid =
     bind_res (get_artifact db aid) (\<lambda>m.
     bind_res (ge_blob (ay_graph env) (am_ref m) (am_sha m)) (\<lambda>content.
     bind_res (require (utf8_ok (map byte content)) ValueError) (\<lambda>_. Inr content)))"

definition read_bound_artifact ::
    "assembly_env \<Rightarrow> graph_db \<Rightarrow> string \<Rightarrow> artifact_kind \<Rightarrow> run \<Rightarrow> task_spec \<Rightarrow> (artifact_metadata \<times> string) res" where
  "read_bound_artifact env db aid kind r t =
     (case get_artifact db aid of
        Inl _ \<Rightarrow> Inl integrity_error
      | Inr m \<Rightarrow>
          bind_res (require (\<not> (am_kind m \<noteq> kind \<or> am_project m \<noteq> run_project r
              \<or> am_run m \<noteq> Some (run_id r) \<or> am_task m \<noteq> Some (task_id t))) integrity_error) (\<lambda>_.
          bind_res (read_text env db aid) (\<lambda>content. Inr (m, content))))"

definition leases_of :: "graph_db \<Rightarrow> string \<Rightarrow> resource_lease list" where
  "leases_of db rid = map lr_data (filter (\<lambda>row. lr_run row = rid) (gd_leases db))"

definition open_leases :: "graph_db \<Rightarrow> string \<Rightarrow> resource_lease list" where
  "open_leases db rid = map lr_data (filter (\<lambda>row. lr_status row \<notin> {LeaseReleased, LeaseRecovered} \<and> lr_run row = rid)
     (gd_leases db))"

definition lease_records :: "resource_lease list \<Rightarrow> (string \<times> lease_kind \<times> string \<times> lease_status) list" where
  "lease_records ls = map (\<lambda>l. (ls_id l, ls_kind l, ls_resource l, ls_status l)) ls"

section \<open>Configuration, task and plan\<close>

definition files_of :: "snapshot_file list \<Rightarrow> (string \<times> string) list" where
  "files_of fs = dict_of (map (\<lambda>f. (sf_path f, sf_content f)) fs)"

text \<open>\<open>_validate_configuration_requirements\<close>: the commands of the task are those of the reviewed
  verification profile.\<close>

definition profile_commands :: "(string \<Rightarrow> string) \<Rightarrow> verification_profile \<Rightarrow> command_spec list res" where
  "profile_commands cf p = validate_all (validate_command cf)
     (map (\<lambda>(cid, c). command_of cid c) (sort_by_key (vp_commands p)))"

definition validate_configuration_requirements ::
    "assembly_env \<Rightarrow> snapshot_file list \<Rightarrow> task_spec \<Rightarrow> unit res" where
  "validate_configuration_requirements env files t =
     bind_res (cp_snapshot (ay_config env) (files_of files)) (\<lambda>(spec, rebuilt).
     bind_res (require (rebuilt = files) integrity_error) (\<lambda>_.
     bind_res (ay_required env spec files (workflow t) (allowed_paths t) (task_change_kind t)) (\<lambda>needed.
     bind_res (require (set (required_verification_command_ids t) = set needed) integrity_error) (\<lambda>_.
     bind_res (ay_profile env spec files) (\<lambda>p.
     bind_res (profile_commands (ge_fold (ay_graph env)) p) (\<lambda>cs.
     require (verification_commands t = cs) integrity_error))))))"

definition bound_configuration :: "assembly_env \<Rightarrow> graph_db \<Rightarrow> run \<Rightarrow> task_spec \<Rightarrow> snapshot_file list res" where
  "bound_configuration env db r t =
     bind_res (some_or integrity_error (run_config_artifact r)) (\<lambda>aid.
     bind_res (some_or integrity_error (run_config_hash r)) (\<lambda>h.
     bind_res (read_bound_artifact env db aid CONFIG_SNAPSHOT r t) (\<lambda>(m, content).
     bind_res (require (\<not> (am_sha m \<noteq> h \<or> ga_sha (ay_gate env) content \<noteq> h \<or> config_snapshot_hash t \<noteq> h))
         integrity_error) (\<lambda>_.
     bind_res (some_or integrity_error (cp_files (ay_config env) content)) (\<lambda>files.
     bind_res (validate_configuration_requirements env files t) (\<lambda>_. Inr files))))))"

definition bound_task :: "assembly_env \<Rightarrow> graph_db \<Rightarrow> run \<Rightarrow> task_spec \<Rightarrow> unit res" where
  "bound_task env db r t =
     bind_res (some_or integrity_error (run_task_artifact r)) (\<lambda>aid.
     bind_res (some_or integrity_error (run_task_hash r)) (\<lambda>h.
     bind_res (read_bound_artifact env db aid TASK_SPEC r t) (\<lambda>(m, content).
     bind_res (require (\<not> (am_sha m \<noteq> h \<or> ga_sha (ay_gate env) content \<noteq> h)) integrity_error) (\<lambda>_.
     bind_res (some_or integrity_error (ge_task (ay_graph env) content)) (\<lambda>parsed.
     require (\<not> parsed \<noteq> t) integrity_error)))))"

definition bound_plan :: "assembly_env \<Rightarrow> graph_db \<Rightarrow> run \<Rightarrow> task_spec \<Rightarrow> fleet_plan res" where
  "bound_plan env db r t =
     bind_res (some_or RuntimeError (run_plan_artifact r)) (\<lambda>aid.
     bind_res (some_or RuntimeError (run_plan_hash r)) (\<lambda>h.
     bind_res (read_bound_artifact env db aid FLEET_PLAN r t) (\<lambda>(m, content).
     bind_res (require (\<not> am_sha m \<noteq> h) integrity_error) (\<lambda>_.
     bind_res (some_or integrity_error (ge_plan (ay_graph env) content)) (\<lambda>parsed.
     bind_res (case validate_plan (ge_fold (ay_graph env)) parsed of Inl _ \<Rightarrow> Inl integrity_error | Inr p \<Rightarrow> Inr p) (\<lambda>p.
     bind_res (require (\<not> (plan_run_id p \<noteq> run_id r \<or> plan_task_id p \<noteq> task_id t)) integrity_error) (\<lambda>_.
     bind_res (validate_fleet_plan (ge_fold (ay_graph env)) p t None) (\<lambda>_. Inr p))))))))"

definition planned_verifier :: "fleet_plan \<Rightarrow> string" where
  "planned_verifier p = (case find independent_verifier (nodes p) of None \<Rightarrow> ''verifier'' | Some n \<Rightarrow> role_id n)"

definition check_plan_roles :: "assembly_env \<Rightarrow> snapshot_file list \<Rightarrow> fleet_plan \<Rightarrow> unit res" where
  "check_plan_roles env files p =
     (if list_ex (\<lambda>n. execution_kind n \<noteq> None) (nodes p) \<or> repair_role_id p \<noteq> None then
        bind_res (cp_snapshot (ay_config env) (files_of files)) (\<lambda>(spec, rebuilt).
        bind_res (require (\<not> rebuilt \<noteq> files) integrity_error) (\<lambda>_.
        bind_res (cp_templates (ay_config env) spec files) (\<lambda>ts.
        validate_role_plan (ge_fold (ay_graph env)) p ts)))
      else Inr ())"

definition check_verifier :: "graph_db \<Rightarrow> run \<Rightarrow> task_spec \<Rightarrow> string \<Rightarrow> unit res" where
  "check_verifier db r t role = (case run_verifier_agent r of
     None \<Rightarrow> Inr ()
   | Some aid \<Rightarrow> if role = ''verifier'' then Inr () else
       bind_res (get_agent_instance db aid) (\<lambda>a.
       bind_res (require (\<not> agent_role a \<noteq> role) integrity_error) (\<lambda>_.
       bind_res (agent_effective_kind a) (\<lambda>k.
       require (\<not> (k \<noteq> VERIFIER \<or> agent_run a \<noteq> run_id r \<or> agent_task a \<noteq> Some (task_id t)))
         integrity_error))))"

text \<open>The cleanup receipt is complete and lists the current leases of the run, none of them open.\<close>

definition cleanup_proved :: "assembly_env \<Rightarrow> graph_db \<Rightarrow> run \<Rightarrow> task_spec \<Rightarrow> bool res" where
  "cleanup_proved env db r t = (case run_cleanup_artifact r of
     None \<Rightarrow> Inr False
   | Some aid \<Rightarrow>
       bind_res (some_or integrity_error (run_cleanup_hash r)) (\<lambda>h.
       bind_res (read_bound_artifact env db aid RESOURCE_CLEANUP r t) (\<lambda>(m, content).
       bind_res (require (\<not> am_sha m \<noteq> h) integrity_error) (\<lambda>_.
       bind_res (some_or integrity_error (ge_cleanup (ay_graph env) content)) (\<lambda>receipt.
       bind_res (require (cleanup_receipt_ok receipt) integrity_error) (\<lambda>_.
       bind_res (require (\<not> (cr_run receipt \<noteq> run_id r \<or> cr_leases receipt \<noteq> lease_records (leases_of db (run_id r))
           \<or> open_leases db (run_id r) \<noteq> [] \<or> \<not> cr_complete receipt)) integrity_error) (\<lambda>_.
       Inr True)))))))"

section \<open>Command executions\<close>

definition opt_default :: "'a \<Rightarrow> 'a option \<Rightarrow> 'a" where
  "opt_default d x = (case x of None \<Rightarrow> d | Some v \<Rightarrow> v)"

definition bound_capabilities ::
    "assembly_env \<Rightarrow> run \<Rightarrow> (sandbox_capabilities \<times> sandbox_requirements) res" where
  "bound_capabilities env r =
     bind_res (some_or integrity_error (run_capabilities r)) (\<lambda>c.
     bind_res (some_or integrity_error (run_capabilities_hash r)) (\<lambda>h.
     bind_res (some_or integrity_error (run_requirements r)) (\<lambda>q.
     bind_res (require (\<not> canonical_json_hash (ga_sha (ay_gate env)) (capabilities_json c) \<noteq> h) integrity_error) (\<lambda>_.
     Inr (c, q)))))"

definition command_hashes :: "assembly_env \<Rightarrow> task_spec \<Rightarrow> (string \<times> string) list" where
  "command_hashes env t = dict_of (map (\<lambda>c. (command_id c,
     canonical_json_hash (ga_sha (ay_gate env)) (command_json c))) (verification_commands t))"

definition inspection_binds ::
    "run \<Rightarrow> sandbox_capabilities \<Rightarrow> sandbox_requirements \<Rightarrow> command_evidence \<Rightarrow> artifact_metadata \<Rightarrow> inspection \<Rightarrow> bool" where
  "inspection_binds r c q e m i \<longleftrightarrow>
     \<not> (Some (am_sha m) \<noteq> ev_inspection_sha e \<or> Some (in_sandbox i) \<noteq> ev_sandbox e
        \<or> in_provider i \<noteq> ev_provider e \<or> in_capabilities i \<noteq> c
        \<or> Some (in_configuration i) \<noteq> run_configuration_hash r \<or> in_image i \<noteq> run_image r
        \<or> in_daemon i \<noteq> run_daemon r \<or> ev_daemon e \<noteq> run_daemon r \<or> in_network i \<noteq> ev_network e
        \<or> \<not> in_ready i \<or> missing_requirements i q \<noteq> [])"

definition bound_inspection ::
    "assembly_env \<Rightarrow> graph_db \<Rightarrow> run \<Rightarrow> task_spec \<Rightarrow> sandbox_capabilities \<Rightarrow> sandbox_requirements \<Rightarrow>
     command_evidence \<Rightarrow> inspection res" where
  "bound_inspection env db r t c q e =
     bind_res (some_or integrity_error (ev_inspection e)) (\<lambda>aid.
     bind_res (some_or integrity_error (ev_inspection_sha e)) (\<lambda>_.
     bind_res (read_bound_artifact env db aid SANDBOX_INSPECTION r t) (\<lambda>(m, content).
     bind_res (some_or integrity_error (ay_inspection env content)) (\<lambda>i.
     bind_res (require (inspection_ok i) integrity_error) (\<lambda>_.
     bind_res (require (inspection_binds r c q e m i) integrity_error) (\<lambda>_. Inr i))))))"

definition reviewed_evidence ::
    "assembly_env \<Rightarrow> run \<Rightarrow> task_spec \<Rightarrow> sandbox_capabilities \<Rightarrow> sandbox_requirements \<Rightarrow> command_evidence \<Rightarrow> unit res" where
  "reviewed_evidence env r t c q e =
     (if run_sandbox_name r = ''fake'' \<and> ev_command e = ''approval-proof'' \<and> ev_strength e = SIMULATED then Inr ()
      else
        let hashes = command_hashes env t; expected = map_of hashes (ev_command e) in
        bind_res (require (\<not> (hashes \<noteq> [] \<and> (expected = None \<or> ev_command_hash e \<noteq> expected))) integrity_error) (\<lambda>_.
        require (\<not> (verification_commands t \<noteq> [] \<and> (ev_provider e \<noteq> run_sandbox_name r \<or> ev_level e \<noteq> sb_level c
          \<or> ev_capabilities e \<noteq> run_capabilities_hash r \<or> ev_configuration e \<noteq> run_configuration_hash r
          \<or> ev_requirements e \<noteq> Some (canonical_json_hash (ga_sha (ay_gate env)) (requirements_json q)))))
          integrity_error))"

definition bound_command ::
    "assembly_env \<Rightarrow> graph_db \<Rightarrow> run \<Rightarrow> task_spec \<Rightarrow> sandbox_capabilities \<Rightarrow> sandbox_requirements \<Rightarrow>
     string \<Rightarrow> command_evidence res" where
  "bound_command env db r t c q aid =
     bind_res (read_bound_artifact env db aid COMMAND_EVIDENCE_ARTIFACT r t) (\<lambda>(_, content).
     bind_res (some_or integrity_error (ay_command env content)) (\<lambda>e.
     bind_res (require (evidence_ok e) integrity_error) (\<lambda>_.
     bind_res (require (\<not> (ev_id e \<noteq> aid \<or> ev_run e \<noteq> run_id r \<or> ev_task e \<noteq> task_id t)) integrity_error) (\<lambda>_.
     bind_res (read_bound_artifact env db (ev_transcript e) COMMAND_TRANSCRIPT r t) (\<lambda>_.
     bind_res (bound_inspection env db r t c q e) (\<lambda>_.
     bind_res (reviewed_evidence env r t c q e) (\<lambda>_. Inr e)))))))"

section \<open>The verdict and the changed paths\<close>

definition bound_verdict ::
    "assembly_env \<Rightarrow> graph_db \<Rightarrow> run \<Rightarrow> task_spec \<Rightarrow> verifier_verdict option res" where
  "bound_verdict env db r t = (case run_verdict_artifact r of
     None \<Rightarrow> Inr None
   | Some aid \<Rightarrow>
       bind_res (read_bound_artifact env db aid VERIFIER_VERDICT r t) (\<lambda>(_, content).
       bind_res (some_or integrity_error (ay_verdict env content)) (\<lambda>v.
       bind_res (require (verifier_verdict_ok v) integrity_error) (\<lambda>_. Inr (Some v)))))"

fun split_commas :: "string \<Rightarrow> string list" where
  "split_commas [] = [[]]"
| "split_commas (c # s) =
     (if c = CHR '','' then [] # split_commas s
      else (case split_commas s of [] \<Rightarrow> [[c]] | w # ws \<Rightarrow> (c # w) # ws))"

fun str_items :: "json list \<Rightarrow> string list option" where
  "str_items [] = Some []"
| "str_items (JStr s # vs) = map_option (\<lambda>ss. s # ss) (str_items vs)"
| "str_items (v # vs) = None"

definition decoded_paths :: "json \<Rightarrow> string list res" where
  "decoded_paths m = (case json_get ''changed_paths'' m of
     None \<Rightarrow> Inr []
   | Some (JArr vs) \<Rightarrow> bind_res (some_or integrity_error (str_items vs)) (\<lambda>ps. Inr (sort_strings ps))
   | Some (JStr s) \<Rightarrow> Inr (map fst (sort_by_key (map (\<lambda>p. (p, ())) (filter (\<lambda>p. p \<noteq> []) (split_commas s)))))
   | Some _ \<Rightarrow> Inl integrity_error)"

definition bound_paths :: "assembly_env \<Rightarrow> graph_db \<Rightarrow> run \<Rightarrow> task_spec \<Rightarrow> string list res" where
  "bound_paths env db r t = (case run_patch_artifact r of
     None \<Rightarrow> Inr []
   | Some aid \<Rightarrow>
       bind_res (read_bound_artifact env db aid PATCH r t) (\<lambda>(m, _).
       bind_res (require (\<not> run_patch_hash r \<noteq> Some (am_sha m)) integrity_error) (\<lambda>_.
       bind_res (decoded_paths (am_metadata m)) (\<lambda>paths.
       bind_res (require (\<not> (paths = [] \<or> list_ex (\<lambda>p. \<not> path_is_within (ge_fold (ay_graph env)) p
           (allowed_paths t) (forbidden_paths t)) paths)) integrity_error) (\<lambda>_. Inr paths)))))"

section \<open>Assessments, gaps and risks\<close>

definition criterion_verdict :: "verdict option \<Rightarrow> command_evidence list \<Rightarrow> nat \<Rightarrow> verdict" where
  "criterion_verdict reported commands n =
     (if reported = Some VFail \<or> list_ex command_failed commands then VFail
      else if n = 1 \<and> reported = Some VPass \<and> commands \<noteq> [] then VPass
      else VInconclusive)"

fun criterion_explanation :: "verdict \<Rightarrow> string" where
  "criterion_explanation VPass =
     ''Control-plane records agree with the reported verdict; strength is gated separately.''"
| "criterion_explanation VFail = ''A command record or verifier verdict reports failure.''"
| "criterion_explanation VInconclusive = ''No authoritative executed evidence establishes this criterion.''"

definition gap :: "string \<Rightarrow> string \<Rightarrow> evidence_strength option \<Rightarrow> proof_gap" where
  "gap code text strength = \<lparr>gp_code = code, gp_description = text, gp_strength = strength\<rparr>"

definition proof_gaps :: "run \<Rightarrow> fleet_strategy \<Rightarrow> command_evidence list \<Rightarrow> string list \<Rightarrow> proof_gap list" where
  "proof_gaps r s commands reported =
     map (\<lambda>text. gap ''VERIFIER_REPORTED_PROOF_GAP'' text (Some INDEPENDENTLY_VERIFIED)) reported
     @ map snd (filter fst
       [(list_ex (\<lambda>e. ev_strength e = SIMULATED) commands, gap ''SIMULATED_EXECUTION''
          ''The selected sandbox recorded simulated output and did not execute the reviewed project command.''
          (Some OBSERVED)),
        (run_patch_hash r \<noteq> None \<and> \<not> list_ex (\<lambda>e. ev_patch e = run_patch_hash r) commands,
         gap ''PATCH_EVIDENCE_UNBOUND'' ''No command evidence is bound to the final candidate patch hash.''
          (Some OBSERVED)),
        (commands = [], gap ''NO_COMMAND_EVIDENCE'' ''No execution evidence exists for this offline run.''
          (Some OBSERVED)),
        (s = SINGLE_ENGINEER, gap ''NO_INDEPENDENT_VERIFIER''
          ''This topology intentionally did not create an independent Verifier.'' (Some INDEPENDENTLY_VERIFIED)),
        (run_workspace_mutated r, gap ''VERIFIER_WORKSPACE_MUTATED'' (''The verifier workspace changed after ''
          @ ''canonical patch reconstruction; verifier-generated changes are untrusted and discarded.'') None)])"

definition unmapped_gap :: proof_gap where
  "unmapped_gap = gap ''STRUCTURED_CRITERION_MAPPING_UNAVAILABLE'' (''The verifier did not provide a complete ''
     @ ''structured evidence mapping for multiple acceptance criteria.'') (Some INDEPENDENTLY_VERIFIED)"

definition remaining_risks :: "run \<Rightarrow> (string \<times> string) list" where
  "remaining_risks r =
     (if run_sandbox_name r = ''fake'' then [(''FAKE_SANDBOX_NO_ISOLATION'',
        ''The fake provider neither executes code nor enforces OS isolation.'')]
      else if run_sandbox_name r = ''local-unsafe'' then [(''LOCAL_UNSAFE_HOST_EXECUTION'',
        ''The explicitly selected local-unsafe provider executes directly on the host without an isolation boundary.'')]
      else [(''CONTAINER_NOT_VM_BOUNDARY'',
         ''Docker containers share the host kernel and are not a VM-strength boundary.''),
       (''WORKSPACE_DISK_QUOTA_NOT_PORTABLE'',
         ''Phase 3 does not claim a portable disk quota for the writable workspace bind.''),
       (''NETWORK_NONE_RETAINS_LOOPBACK'',
         ''Docker network=none removes external interfaces but retains container loopback.'')])"

section \<open>Delivery of a graph\<close>

definition joined_graph :: "assembly_env \<Rightarrow> graph_db \<Rightarrow> run \<Rightarrow> task_spec \<Rightarrow> fleet_plan \<Rightarrow>
     (graph \<times> join_preparation \<times> join_completion) res" where
  "joined_graph env db r t p =
     bind_res (get (ay_graph env) db (run_id r)) (\<lambda>found.
     bind_res (some_or integrity_error found) (\<lambda>g.
     bind_res (require (\<not> (gs_status g \<noteq> GJoined \<or> gs_claim g \<noteq> None \<or> gs_cancelled_at g \<noteq> None
         \<or> gs_plan g \<noteq> p \<or> Some (gs_plan_sha g) \<noteq> run_plan_hash r \<or> gs_task g \<noteq> task_id t)) integrity_error) (\<lambda>_.
     bind_res (some_or integrity_error (gs_preparation g)) (\<lambda>prepared.
     bind_res (some_or integrity_error (gs_completion g)) (\<lambda>completed.
     bind_res (require (\<not> (jp_config prepared \<noteq> config_snapshot_hash t \<or> jp_base prepared \<noteq> run_base_revision r
         \<or> jp_parent prepared \<noteq> run_id r \<or> jp_task prepared \<noteq> task_id t)) integrity_error) (\<lambda>_.
     Inr (g, prepared, completed)))))))"

definition the_join :: "assembly_env \<Rightarrow> graph_db \<Rightarrow> run \<Rightarrow> task_spec \<Rightarrow> join_preparation \<Rightarrow> artifact_metadata res" where
  "the_join env db r t prepared = (case filter (\<lambda>m. am_kind m = GRAPH_JOIN) (list_artifacts db (run_id r)) of
     [j] \<Rightarrow>
       bind_res (require (\<not> (am_task j \<noteq> Some (task_id t) \<or> am_project j \<noteq> run_project r)) integrity_error) (\<lambda>_.
       case read_text env db (am_id j) of
         Inl ValueError \<Rightarrow> Inl integrity_error
       | Inl e \<Rightarrow> Inl e
       | Inr content \<Rightarrow>
           bind_res (some_or integrity_error (ay_preparation env content)) (\<lambda>parsed.
           bind_res (require (preparation_ok parsed \<and> parsed = prepared) integrity_error) (\<lambda>_. Inr j)))
   | _ \<Rightarrow> Inl integrity_error)"

definition joined_patch :: "assembly_env \<Rightarrow> graph_db \<Rightarrow> run \<Rightarrow> task_spec \<Rightarrow> join_completion \<Rightarrow> artifact_metadata res" where
  "joined_patch env db r t completed =
     bind_res (get_artifact db (jc_patch completed)) (\<lambda>m.
     bind_res (require (\<not> (am_kind m \<noteq> PATCH \<or> am_run m \<noteq> Some (run_id r) \<or> am_task m \<noteq> Some (task_id t)
         \<or> am_project m \<noteq> run_project r \<or> am_sha m \<noteq> jc_patch_sha completed)) integrity_error) (\<lambda>_.
     bind_res (read_text env db (am_id m)) (\<lambda>_.
     bind_res (require (\<not> (run_repairs r = 0 \<and> (run_patch_artifact r \<noteq> Some (am_id m)
         \<or> run_patch_hash r \<noteq> Some (am_sha m)))) integrity_error) (\<lambda>_. Inr m))))"

definition repairs_recorded :: "graph_db \<Rightarrow> run \<Rightarrow> bool" where
  "repairs_recorded db r \<longleftrightarrow>
     (let repairs = filter (\<lambda>e. event_type e = ''graph.repair_fallback'') (list_events db (run_id r)) in
      map (\<lambda>e. map_option bools_as_ints (json_get ''iteration'' (event_payload e))) repairs
        = map (\<lambda>i. Some (JInt i)) [1..run_repairs r]
      \<and> list_all (\<lambda>e. json_get ''mode'' (event_payload e) = Some (JStr ''sequential_parent_engineer'')) repairs)"

definition child_delivered :: "assembly_env \<Rightarrow> graph_db \<Rightarrow> node_record \<Rightarrow> run res" where
  "child_delivered env db n = (let b = nr_binding n in
     bind_res (get_run db (gb_child b)) (\<lambda>child.
     bind_res (child_binding_of (ay_graph env) db (run_id child)) (\<lambda>found.
     bind_res (require (\<not> (found \<noteq> Some b \<or> nr_status n \<noteq> NSucceeded \<or> run_status child \<noteq> COMPLETED
         \<or> run_stage child \<noteq> Some PRESENTING \<or> run_task child \<noteq> Some (gb_task b) \<or> run_verified child
         \<or> run_evidence_artifact child \<noteq> None \<or> open_leases db (run_id child) \<noteq> [])) integrity_error) (\<lambda>_.
     Inr child))))"

definition output_delivered :: "assembly_env \<Rightarrow> graph_db \<Rightarrow> run \<Rightarrow> run \<Rightarrow> artifact_ref \<Rightarrow> unit res" where
  "output_delivered env db r child ref =
     bind_res (get_artifact db (rf_id ref)) (\<lambda>m.
     bind_res (require (\<not> (am_run m \<noteq> Some (run_id child) \<or> rf_run ref \<noteq> run_id child
         \<or> am_project m \<noteq> run_project r \<or> am_task m \<noteq> run_task child \<or> am_kind m \<noteq> rf_kind ref
         \<or> am_sha m \<noteq> rf_sha ref)) integrity_error) (\<lambda>_.
     bind_res (read_text env db (rf_id ref)) (\<lambda>_. Inr ())))"

definition child_receipt :: "assembly_env \<Rightarrow> graph_db \<Rightarrow> run \<Rightarrow> node_record \<Rightarrow> cleanup_receipt res" where
  "child_receipt env db r n =
     bind_res (child_delivered env db n) (\<lambda>child.
     case filter (\<lambda>ref. rf_kind ref = RESOURCE_CLEANUP) (nr_outputs n) of
       [ref] \<Rightarrow>
         bind_res (require (\<not> (Some (rf_id ref) \<noteq> run_cleanup_artifact child
             \<or> Some (rf_sha ref) \<noteq> run_cleanup_hash child)) integrity_error) (\<lambda>_.
         bind_res (check_all (output_delivered env db r child) (nr_outputs n)) (\<lambda>_.
         case read_text env db (rf_id ref) of
           Inl ValueError \<Rightarrow> Inl integrity_error
         | Inl e \<Rightarrow> Inl e
         | Inr content \<Rightarrow>
             bind_res (some_or integrity_error (ge_cleanup (ay_graph env) content)) (\<lambda>receipt.
             bind_res (require (cleanup_receipt_ok receipt) integrity_error) (\<lambda>_.
             bind_res (require (\<not> (cr_run receipt \<noteq> run_id child \<or> \<not> cr_complete receipt
                 \<or> cr_leases receipt \<noteq> lease_records (leases_of db (run_id child)))) integrity_error) (\<lambda>_.
             Inr receipt)))))
     | _ \<Rightarrow> Inl integrity_error)"

definition assemble_graph_delivery ::
    "assembly_env \<Rightarrow> graph_db \<Rightarrow> run \<Rightarrow> task_spec \<Rightarrow> fleet_plan \<Rightarrow> (graph_delivery \<times> string list) res" where
  "assemble_graph_delivery env db r t p =
     bind_res (joined_graph env db r t p) (\<lambda>(g, prepared, completed).
     bind_res (the_join env db r t prepared) (\<lambda>j.
     bind_res (joined_patch env db r t completed) (\<lambda>patch.
     bind_res (require (repairs_recorded db r) integrity_error) (\<lambda>_.
     bind_res (map_res (child_receipt env db r) (gs_nodes g)) (\<lambda>receipts.
     bind_res (require (bounded_list 1 16 receipts \<and> 0 \<le> run_repairs r \<and> run_repairs r \<le> 5) ValueError) (\<lambda>_.
     Inr (\<lparr>dl_snapshot = g, dl_join = \<lparr>rf_id = am_id j, rf_sha = am_sha j, rf_run = run_id r, rf_kind = am_kind j\<rparr>,
            dl_receipts = receipts, dl_repairs = run_repairs r\<rparr>,
          am_id j # am_id patch # concat (map (\<lambda>n. map rf_id (nr_outputs n)) (gs_nodes g)))))))))"

section \<open>The bundle\<close>

record collected =
  co_config_artifact :: string
  co_task_artifact :: string
  co_task_sha :: string
  co_plan_artifact :: string
  co_plan_sha :: string
  co_plan :: fleet_plan
  co_role :: string
  co_cleanup :: bool
  co_capabilities :: sandbox_capabilities
  co_requirements :: sandbox_requirements
  co_commands :: "command_evidence list"
  co_verdict :: "verifier_verdict option"
  co_paths :: "string list"

definition collect :: "assembly_env \<Rightarrow> graph_db \<Rightarrow> run \<Rightarrow> task_spec \<Rightarrow> collected res" where
  "collect env db r t =
     bind_res (bound_configuration env db r t) (\<lambda>files.
     bind_res (bound_task env db r t) (\<lambda>_.
     bind_res (bound_plan env db r t) (\<lambda>p.
     bind_res (check_plan_roles env files p) (\<lambda>_.
     bind_res (check_verifier db r t (planned_verifier p)) (\<lambda>_.
     bind_res (cleanup_proved env db r t) (\<lambda>clean.
     bind_res (bound_capabilities env r) (\<lambda>(c, q).
     bind_res (map_res (bound_command env db r t c q) (run_command_evidence r)) (\<lambda>es.
     bind_res (bound_verdict env db r t) (\<lambda>v.
     bind_res (bound_paths env db r t) (\<lambda>paths.
     Inr \<lparr>co_config_artifact = opt_default [] (run_config_artifact r),
       co_task_artifact = opt_default [] (run_task_artifact r), co_task_sha = opt_default [] (run_task_hash r),
       co_plan_artifact = opt_default [] (run_plan_artifact r), co_plan_sha = opt_default [] (run_plan_hash r),
       co_plan = p, co_role = planned_verifier p, co_cleanup = clean, co_capabilities = c, co_requirements = q,
       co_commands = es, co_verdict = v, co_paths = paths\<rparr>))))))))))"

definition task_review :: "assembly_env \<Rightarrow> run \<Rightarrow> task_spec \<Rightarrow> string \<Rightarrow> review" where
  "task_review env r t role = \<lparr>rv_run = run_id r, rv_task = task_id t, rv_verifier = run_verifier_agent r,
     rv_role = role, rv_base = run_base_revision r, rv_config = config_snapshot_hash t,
     rv_patch = run_patch_hash r, rv_hashes = command_hashes env t\<rparr>"

text \<open>The assessments and the proof gaps: from the verifier's structured results when it gave them.\<close>

definition assessed :: "assembly_env \<Rightarrow> run \<Rightarrow> task_spec \<Rightarrow> collected \<Rightarrow> assessment list \<times> proof_gap list" where
  "assessed env r t c =
     (let criteria = map criterion_id (acceptance_criteria t);
          reported = map_option vd_verdict (co_verdict c);
          verdict = criterion_verdict reported (co_commands c) (length criteria);
          cited = run_command_evidence r @ opt_list (run_verdict_artifact r);
          gaps = proof_gaps r (strategy (co_plan c)) (co_commands c)
            (case co_verdict c of None \<Rightarrow> [] | Some v \<Rightarrow> vd_gaps v) in
      case (case co_verdict c of None \<Rightarrow> None | Some v \<Rightarrow> vd_structured v) of
        Some results \<Rightarrow>
          (case assess_criterion_results (task_review env r t (co_role c)) results criteria (co_commands c)
              (case co_verdict c of None \<Rightarrow> [] | Some v \<Rightarrow> vd_evidence v) of
             (items, unresolved) \<Rightarrow> (items, gaps @ unresolved))
      | None \<Rightarrow>
          (map (\<lambda>cid. \<lparr>as_id = cid, as_verdict = verdict, as_evidence = cited,
             as_explanation = criterion_explanation verdict\<rparr>) criteria,
           gaps @ (if 1 < length criteria then [unmapped_gap] else [])))"

definition bundle_of ::
    "assembly_env \<Rightarrow> run \<Rightarrow> task_spec \<Rightarrow> collected \<Rightarrow> graph_delivery option \<Rightarrow> int \<Rightarrow> evidence_bundle" where
  "bundle_of env r t c delivery now =
     (let (items, gaps) = assessed env r t c; q = co_requirements c in
      \<lparr>eb_run = run_id r, eb_project = run_project r, eb_task = task_id t, eb_base = run_base_revision r,
       eb_config_artifact = co_config_artifact c, eb_config = config_snapshot_hash t,
       eb_task_artifact = co_task_artifact c, eb_task_sha = co_task_sha c,
       eb_plan_artifact = co_plan_artifact c, eb_plan = co_plan_sha c, eb_strategy = strategy (co_plan c),
       eb_delivery = delivery, eb_required = plan_required_evidence (co_plan c),
       eb_provider = run_sandbox_name r, eb_level = sb_level (co_capabilities c),
       eb_configuration = run_configuration_hash r, eb_requirements = Some q,
       eb_requirements_sha = Some (canonical_json_hash (ga_sha (ay_gate env)) (requirements_json q)),
       eb_image = run_image r, eb_daemon = run_daemon r, eb_capabilities = co_capabilities c,
       eb_capabilities_sha = run_capabilities_hash r, eb_command_hashes = command_hashes env t,
       eb_required_commands = required_verification_command_ids t,
       eb_patch_artifact = run_patch_artifact r, eb_patch = run_patch_hash r, eb_changed = co_paths c,
       eb_commands = co_commands c, eb_verifier = run_verifier_agent r,
       eb_verifier_role = (if co_role c \<noteq> ''verifier'' then Some (co_role c) else None),
       eb_verdict_artifact = run_verdict_artifact r,
       eb_verifier_evidence = (case co_verdict c of None \<Rightarrow> [] | Some v \<Rightarrow> vd_evidence v),
       eb_verifier_mutated = run_workspace_mutated r, eb_reported = map_option vd_verdict (co_verdict c),
       eb_repairs = (case co_verdict c of None \<Rightarrow> [] | Some v \<Rightarrow> vd_repairs v),
       eb_regressions = (case co_verdict c of None \<Rightarrow> [] | Some v \<Rightarrow> vd_regressions v),
       eb_cleanup_artifact = run_cleanup_artifact r, eb_cleanup_sha = run_cleanup_hash r,
       eb_cleanup_complete = co_cleanup c, eb_assessments = items,
       eb_results = (case co_verdict c of None \<Rightarrow> None | Some v \<Rightarrow> vd_structured v),
       eb_risks = remaining_risks r, eb_gaps = gaps, eb_at = now\<rparr>)"

definition delivery_of ::
    "assembly_env \<Rightarrow> graph_db \<Rightarrow> run \<Rightarrow> task_spec \<Rightarrow> fleet_plan \<Rightarrow> (graph_delivery option \<times> string list) res" where
  "delivery_of env db r t p =
     (if strategy p \<in> {PARALLEL_ENGINEERS, RESEARCH_ARCHITECT_ENGINEER_VERIFIER} then
        bind_res (assemble_graph_delivery env db r t p) (\<lambda>(d, known). Inr (Some d, known))
      else Inr (None, []))"

text \<open>\<open>assemble\<close>: the bundle together with its completion decision.\<close>

definition assemble ::
    "assembly_env \<Rightarrow> graph_db \<Rightarrow> run \<Rightarrow> task_spec \<Rightarrow> int \<Rightarrow> (evidence_bundle \<times> completion_decision) res" where
  "assemble env db r t now =
     bind_res (collect env db r t) (\<lambda>c.
     bind_res (delivery_of env db r t (co_plan c)) (\<lambda>(delivery, known).
     let b = bundle_of env r t c delivery now in
     bind_res (require (bundle_ok (ga_sha (ay_gate env)) b) ValueError) (\<lambda>_.
     Inr (b, completion_gate (ay_gate env) b (map criterion_id (acceptance_criteria t))
       (map am_id (list_artifacts db (run_id r)) @ known)))))"

end
