(* ===== verification/Completion_Properties.thy ===== *)
theory Completion_Properties
  imports Completion_Gate
begin

text \<open>
  What a positive answer of the completion gate guarantees: the recorded executions it rests on, the
  impossibility to cite an earlier success of a command that failed later, and the relation between the
  two parts of the decision.
\<close>

section \<open>Dictionaries\<close>

lemma dict_of_snoc: "dict_of (kvs @ [(k, v)]) = AList.update k v (dict_of kvs)"
  by (simp add: dict_of_def)

lemma map_of_dict_of [simp]: "map_of (dict_of kvs) = map_of (rev kvs)"
proof (induction kvs rule: rev_induct)
  case Nil
  show ?case by (simp add: dict_of_def)
next
  case (snoc x xs)
  obtain k v where x: "x = (k, v)" by (cases x)
  show ?case by (simp add: x dict_of_snoc update_conv snoc fun_eq_iff)
qed

lemma distinct_dict_of [simp]: "distinct (map fst (dict_of kvs))"
proof (induction kvs rule: rev_induct)
  case Nil
  show ?case by (simp add: dict_of_def)
next
  case (snoc x xs)
  then show ?case by (cases x) (simp add: dict_of_snoc distinct_update)
qed

lemma map_of_rev_distinct: "distinct (map fst kvs) \<Longrightarrow> map_of (rev kvs) = map_of kvs"
  by (rule map_of_eqI) (auto simp: rev_map [symmetric] map_of_eq_Some_iff)

lemma dict_of_keys: "fst ` set (dict_of kvs) = fst ` set kvs"
  using dom_map_of_conv_image_fst [of "dict_of kvs"] dom_map_of_conv_image_fst [of "rev kvs"] by simp

lemma length_dict_of: "length (dict_of kvs) = card (fst ` set kvs)"
  using distinct_card [OF distinct_dict_of, of kvs] by (simp add: dict_of_keys)

lemma dict_of_length_set: "length (dict_of kvs) = length kvs \<Longrightarrow> set (dict_of kvs) = set kvs"
proof -
  assume "length (dict_of kvs) = length kvs"
  then have d: "distinct (map fst kvs)"
    by (intro card_distinct) (simp add: length_dict_of)
  have "map_of (dict_of kvs) = map_of kvs" by (simp add: map_of_rev_distinct [OF d])
  then show ?thesis by (simp only: set_map_of_compr [OF d] set_map_of_compr [OF distinct_dict_of])
qed

section \<open>Criterion results\<close>

lemma latest_of_max: "latest_of es = Some t \<Longrightarrow> e \<in> set es \<Longrightarrow> ev_completed e \<le> t"
proof -
  have fold_max: "(x::int) \<le> fold max ts x \<and> (\<forall>t \<in> set ts. t \<le> fold max ts x)" for x ts
  proof (induction ts arbitrary: x)
    case (Cons t ts)
    from Cons[of "max t x"] show ?case by auto
  qed simp
  assume "latest_of es = Some t" and "e \<in> set es"
  then obtain d rest where es: "es = d # rest" and t: "t = fold max (map ev_completed rest) (ev_completed d)"
    by (cases es) (auto simp: latest_of_def)
  show ?thesis using fold_max [of "ev_completed d" "map ev_completed rest"] \<open>e \<in> set es\<close>
    by (auto simp: es t)
qed

lemma one_element: "length (filter p xs) = 1 \<Longrightarrow> p x \<Longrightarrow> p y \<Longrightarrow> x \<in> set xs \<Longrightarrow> y \<in> set xs \<Longrightarrow> x = y"
proof -
  assume len: "length (filter p xs) = 1" and "p x" "p y" "x \<in> set xs" "y \<in> set xs"
  then have "x \<in> set (filter p xs)" "y \<in> set (filter p xs)" by simp_all
  moreover obtain z where "filter p xs = [z]" using len by (auto simp: length_Suc_conv)
  ultimately show ?thesis by simp
qed

text \<open>A current proof is the one latest execution of its command on the patch.\<close>

lemma current_proof_latest:
  assumes "current_proof v commands e" and "e' \<in> set commands"
    and "e \<in> set commands" and "ev_command e' = ev_command e"
    and "Some (ev_agent e') = rv_verifier v" and "ev_patch e' = rv_patch v"
  shows "e' = e \<or> ev_completed e' < ev_completed e"
proof -
  let ?runs = "matching_runs v commands (ev_command e)"
  have latest: "Some (ev_completed e) = latest_of ?runs"
    and one: "length (filter (\<lambda>i. Some (ev_completed i) = latest_of ?runs) ?runs) = 1"
    and own: "Some (ev_agent e) = rv_verifier v" "ev_patch e = rv_patch v"
    using assms(1) by (simp_all add: current_proof_def Let_def)
  have runs: "e \<in> set ?runs" "e' \<in> set ?runs"
    using assms(2-6) own by (simp_all add: matching_runs_def)
  have "ev_completed e' \<le> ev_completed e" using latest_of_max [OF latest [symmetric] runs(2)] .
  moreover have "e' = e" if "ev_completed e' = ev_completed e"
    by (rule one_element [OF one]) (use that latest runs in auto)
  ultimately show ?thesis by fastforce
qed

lemma current_proof_facts:
  assumes "current_proof v commands e"
  shows "Some (ev_agent e) = rv_verifier v" and "ev_patch e = rv_patch v"
    and "ev_command_hash e = map_of (rv_hashes v) (ev_command e)" and "ev_command_hash e \<noteq> None"
    and "ev_strength e = INDEPENDENTLY_VERIFIED" and "ev_level e = ISOLATED" and "\<not> ev_mutated e"
  using assms by (auto simp: current_proof_def Let_def map_of_eq_None_iff)

lemma mem_present: "y \<in> set (map the (filter (\<lambda>x. x \<noteq> None) (map f xs))) \<longleftrightarrow> (\<exists>x \<in> set xs. f x = Some y)"
  by (induction xs) auto

lemma selected_run:
  assumes "distinct (map ev_id commands)"
  shows "e \<in> set (selected_runs commands r) \<longleftrightarrow> e \<in> set commands \<and> ev_id e \<in> set (cn_evidence r)"
proof -
  let ?kvs = "map (\<lambda>e. (ev_id e, e)) commands"
  have d: "distinct (map fst ?kvs)" using assms by (simp add: comp_def)
  have look: "map_of ?kvs k = Some e \<longleftrightarrow> e \<in> set commands \<and> ev_id e = k" for k e
    using d by (auto simp: map_of_eq_Some_iff)
  have "e \<in> set (selected_runs commands r) \<longleftrightarrow> (\<exists>k \<in> set (cn_evidence r). map_of ?kvs k = Some e)"
    unfolding selected_runs_def Let_def mem_present map_of_dict_of map_of_rev_distinct [OF d] ..
  then show ?thesis unfolding look by blast
qed

lemma all_filtered: "length (filter P xs) = length xs \<Longrightarrow> \<forall>x \<in> set xs. P x"
  using length_filter_less [of _ xs P] by fastforce

lemma selected_covers:
  assumes "distinct (map ev_id commands)" and "length (selected_runs commands r) = length (cn_evidence r)"
    and "k \<in> set (cn_evidence r)"
  shows "\<exists>e \<in> set commands. ev_id e = k"
proof -
  let ?cat = "map_of (dict_of (map (\<lambda>e. (ev_id e, e)) commands))"
  have "length (filter (\<lambda>x. x \<noteq> None) (map ?cat (cn_evidence r))) = length (map ?cat (cn_evidence r))"
    using assms(2) by (simp add: selected_runs_def Let_def)
  then have "\<forall>x \<in> set (map ?cat (cn_evidence r)). x \<noteq> None"
    by (rule all_filtered)
  then have "?cat k \<noteq> None" using assms(3) by auto
  then obtain e where "map_of (rev (map (\<lambda>e. (ev_id e, e)) commands)) k = Some e" by auto
  then have "(k, e) \<in> set (rev (map (\<lambda>e. (ev_id e, e)) commands))" by (rule map_of_SomeD)
  then show ?thesis by auto
qed

lemma passing_criterion:
  assumes "assess_criterion_results v results expected commands declared = (items, gaps)"
    and "a \<in> set items" and "as_verdict a = VPass"
  shows "as_id a \<in> set expected \<and> as_evidence a \<noteq> [] \<and>
    (\<forall>k \<in> set (as_evidence a). \<exists>e \<in> set commands. ev_id e = k \<and> current_proof v commands e
      \<and> \<not> command_failed e)"
proof -
  let ?bad = "catalog_invalid results expected commands"
  let ?by = "map_of (dict_of (map (\<lambda>r. (cn_id r, r)) results))"
  obtain cid where cid: "cid \<in> set (sort_strings expected)"
    and a: "a = fst (assess_criterion v commands declared ?bad cid (?by cid))"
    using assms(1,2) by (auto simp: assess_criterion_results_def Let_def)
  have valid: "criterion_valid v commands declared ?bad (?by cid)"
    using assms(3) by (auto simp: a assess_criterion_def split: if_splits)
  then obtain r where r: "?by cid = Some r" by (auto simp: criterion_valid_def split: option.splits)
  let ?sel = "selected_runs commands r"
  have ok: "\<not> ?bad" "mapping_exact declared r ?sel" "list_all (current_proof v commands) ?sel"
    using valid unfolding criterion_valid_def r by (simp_all add: Let_def)
  have ae: "as_evidence a = cn_evidence r" "as_id a = cid" and passed: "\<not> list_ex command_failed ?sel"
    using valid assms(3) unfolding a assess_criterion_def r by (auto simp: Let_def split: if_splits)
  have d: "distinct (map ev_id commands)" using ok(1) by (simp add: catalog_invalid_def)
  have exact: "?sel \<noteq> []" "length ?sel = length (cn_evidence r)"
    using ok(2) by (simp_all add: mapping_exact_def)
  have "\<exists>e \<in> set commands. ev_id e = k \<and> current_proof v commands e \<and> \<not> command_failed e"
    if k: "k \<in> set (cn_evidence r)" for k
  proof -
    obtain e where e: "e \<in> set commands" "ev_id e = k" using selected_covers [OF d exact(2) k] by blast
    then have "e \<in> set ?sel" using k by (simp add: selected_run [OF d])
    then have proof_e: "current_proof v commands e" "\<not> command_failed e"
      using ok(3) passed by (auto simp: list_all_iff list_ex_iff)
    show ?thesis using e proof_e by blast
  qed
  moreover have "cid \<in> set expected" using cid by (auto simp: sort_strings_def)
  ultimately show ?thesis using ae exact by auto
qed

text \<open>
  C34. A criterion passes only on current proof. In every resolution of criterion results, a passing
  criterion cites at least one recorded execution; each cited execution is the verifier's own, isolated,
  unmodified run of a reviewed command on the current patch that exited with 0, and no other run of that
  command by the verifier on this patch is as recent: a success before a later failure cannot be cited.
\<close>

theorem passing_criterion_proved:
  assumes "assess_criterion_results v results expected commands declared = (items, gaps)"
    and "a \<in> set items" and "as_verdict a = VPass"
  shows "as_id a \<in> set expected \<and> as_evidence a \<noteq> [] \<and>
    (\<forall>k \<in> set (as_evidence a). \<exists>e \<in> set commands. ev_id e = k \<and> ev_exit e = 0 \<and> \<not> ev_timed_out e
      \<and> Some (ev_agent e) = rv_verifier v \<and> ev_patch e = rv_patch v
      \<and> ev_command_hash e = map_of (rv_hashes v) (ev_command e) \<and> ev_command_hash e \<noteq> None
      \<and> ev_strength e = INDEPENDENTLY_VERIFIED \<and> ev_level e = ISOLATED \<and> \<not> ev_mutated e
      \<and> (\<forall>e' \<in> set commands. ev_command e' = ev_command e \<and> Some (ev_agent e') = rv_verifier v
           \<and> ev_patch e' = rv_patch v \<longrightarrow> e' = e \<or> ev_completed e' < ev_completed e))"
proof -
  note shown = passing_criterion [OF assms]
  show ?thesis
  proof (intro conjI ballI)
    fix k assume "k \<in> set (as_evidence a)"
    then obtain e where e: "e \<in> set commands" "ev_id e = k" "current_proof v commands e" "\<not> command_failed e"
      using shown by blast
    show "\<exists>e \<in> set commands. ev_id e = k \<and> ev_exit e = 0 \<and> \<not> ev_timed_out e
      \<and> Some (ev_agent e) = rv_verifier v \<and> ev_patch e = rv_patch v
      \<and> ev_command_hash e = map_of (rv_hashes v) (ev_command e) \<and> ev_command_hash e \<noteq> None
      \<and> ev_strength e = INDEPENDENTLY_VERIFIED \<and> ev_level e = ISOLATED \<and> \<not> ev_mutated e
      \<and> (\<forall>e' \<in> set commands. ev_command e' = ev_command e \<and> Some (ev_agent e') = rv_verifier v
           \<and> ev_patch e' = rv_patch v \<longrightarrow> e' = e \<or> ev_completed e' < ev_completed e)"
      using e(1,2,4) current_proof_facts [OF e(3)] current_proof_latest [OF e(3) _ e(1)]
      by (intro bexI [of _ e] conjI ballI impI) (auto simp: command_failed_def)
  qed (use shown in auto)
qed

section \<open>The gate\<close>

lemma gate_verified:
  "cd_verified (completion_gate env b expected known) \<longleftrightarrow>
     list_all (\<lambda>x. \<not> fst x) (gate_reasons env b expected known) \<and> eb_reported b \<in> {None, Some VPass}"
  by (auto simp: completion_gate_def Let_def list_all_iff filter_empty_conv)

lemma verified_groups:
  assumes "cd_verified (completion_gate env b expected known)"
  shows "list_all (\<lambda>x. \<not> fst x) (mapping_reasons env b expected known)"
    and "list_all (\<lambda>x. \<not> fst x) (sandbox_reasons env b)"
    and "list_all (\<lambda>x. \<not> fst x) (criteria_reasons b expected known)"
    and "list_all (\<lambda>x. \<not> fst x) (verifier_reasons b known)"
    and "list_all (\<lambda>x. \<not> fst x) (command_reasons b)"
    and "list_all (\<lambda>x. \<not> fst x) (strength_reasons b)"
  using assms by (simp_all add: gate_verified gate_reasons_def)

lemma verified_commands:
  assumes "cd_verified (completion_gate env b expected known)" and "e \<in> set (eb_commands b)"
  shows "\<not> command_failed e" and "ev_strength e \<noteq> SIMULATED" and "ev_level e \<noteq> LevelFake"
    and "ev_network e = ''none''" and "ev_run e = eb_run b" and "ev_task e = eb_task b"
    and "ev_level e = eb_level b" and "ev_base e = eb_base b" and "ev_config e = eb_config b"
proof -
  have cs: "\<forall>e \<in> set (eb_commands b). ev_run e = eb_run b \<and> ev_task e = eb_task b"
    "\<forall>e \<in> set (eb_commands b). \<not> sandbox_unbound b e"
    "\<forall>e \<in> set (eb_commands b). \<not> command_failed e"
    "\<forall>e \<in> set (eb_commands b). ev_network e = ''none''"
    "\<forall>e \<in> set (eb_commands b). ev_strength e \<noteq> SIMULATED \<and> ev_level e \<noteq> LevelFake"
    using verified_groups(5) [OF assms(1)] by (simp_all add: command_reasons_def Let_def list_ex_iff ball_conj_distrib)
  have ss: "\<forall>e \<in> set (eb_commands b). ev_config e = eb_config b"
    "\<forall>e \<in> set (eb_commands b). ev_base e = eb_base b"
    using verified_groups(6) [OF assms(1)] by (simp_all add: strength_reasons_def Let_def list_ex_iff)
  note here = cs [THEN bspec, OF assms(2)] ss [THEN bspec, OF assms(2)]
  show "\<not> command_failed e" and "ev_strength e \<noteq> SIMULATED" and "ev_level e \<noteq> LevelFake"
    and "ev_network e = ''none''" and "ev_run e = eb_run b" and "ev_task e = eb_task b"
    and "ev_level e = eb_level b" and "ev_base e = eb_base b" and "ev_config e = eb_config b"
    using here by (simp_all add: sandbox_unbound_def)
qed

lemma verified_criteria:
  assumes "cd_verified (completion_gate env b expected known)"
  shows "expected \<noteq> []" and "eb_cleanup_complete b"
    and "cid \<in> set expected \<Longrightarrow> \<exists>a \<in> set (eb_assessments b). as_id a = cid \<and> as_verdict a = VPass
       \<and> as_evidence a \<noteq> [] \<and> set (as_evidence a) \<subseteq> set known"
proof -
  let ?items = "assessments_by_id b"
  have crit: "fst ` set ?items = set expected" "\<forall>x \<in> set ?items. as_verdict (snd x) = VPass"
    "\<forall>x \<in> set ?items. as_evidence (snd x) \<noteq> []" "\<forall>x \<in> set ?items. set (as_evidence (snd x)) \<subseteq> set known"
    using verified_groups(3) [OF assms] by (simp_all add: criteria_reasons_def Let_def list_ex_iff split_def)
  show "expected \<noteq> []" "eb_cleanup_complete b"
    using verified_groups(1) [OF assms] by (auto simp: mapping_reasons_def)
  show "\<exists>a \<in> set (eb_assessments b). as_id a = cid \<and> as_verdict a = VPass \<and> as_evidence a \<noteq> []
       \<and> set (as_evidence a) \<subseteq> set known" if "cid \<in> set expected"
  proof -
    have "cid \<in> fst ` set ?items" using crit(1) that by blast
    then obtain a where a: "(cid, a) \<in> set ?items" by (auto simp: image_iff)
    then have "map_of ?items cid = Some a"
      unfolding assessments_by_id_def by (rule map_of_is_SomeI [OF distinct_dict_of])
    then have "(cid, a) \<in> set (rev (map (\<lambda>a. (as_id a, a)) (eb_assessments b)))"
      unfolding assessments_by_id_def map_of_dict_of by (rule map_of_SomeD)
    then have "a \<in> set (eb_assessments b)" "as_id a = cid" by auto
    then show ?thesis using crit(2-4) a by fastforce
  qed
qed

lemma verified_verifier_runs:
  assumes "cd_verified (completion_gate env b expected known)" and "requires_verifier b"
  shows "verifier_commands b \<noteq> []"
    and "e \<in> set (verifier_commands b) \<Longrightarrow> ev_strength e = INDEPENDENTLY_VERIFIED \<and> ev_level e = ISOLATED
      \<and> ev_workspace_kind e = VERIFICATION \<and> \<not> ev_mutated e \<and> ev_stage e = Some VERIFYING
      \<and> (eb_patch b \<noteq> None \<longrightarrow> ev_patch e = eb_patch b)"
    and "set (eb_required_commands b) \<subseteq> set (map ev_command (verifier_commands b))"
proof -
  show some: "verifier_commands b \<noteq> []"
    using verified_groups(4) [OF assms(1)] assms(2) by (simp add: verifier_reasons_def)
  show "set (eb_required_commands b) \<subseteq> set (map ev_command (verifier_commands b))"
    using verified_groups(5) [OF assms(1)] assms(2) by (simp add: command_reasons_def Let_def)
  have runs: "\<forall>e \<in> set (verifier_commands b). \<not> strength_insufficient e"
    "\<forall>e \<in> set (verifier_commands b). \<not> provenance_invalid b e"
    "eb_patch b = None \<or> (\<forall>e \<in> set (verifier_commands b). ev_patch e = eb_patch b)"
    using verified_groups(6) [OF assms(1)] assms(2) some
    by (simp_all add: strength_reasons_def Let_def list_ex_iff)
  show "ev_strength e = INDEPENDENTLY_VERIFIED \<and> ev_level e = ISOLATED \<and> ev_workspace_kind e = VERIFICATION
      \<and> \<not> ev_mutated e \<and> ev_stage e = Some VERIFYING \<and> (eb_patch b \<noteq> None \<longrightarrow> ev_patch e = eb_patch b)"
    if "e \<in> set (verifier_commands b)"
    using bspec [OF runs(1) that] bspec [OF runs(2) that] runs(3) that
    by (auto simp: strength_insufficient_def provenance_invalid_def)
qed

lemma verified_mapping:
  assumes "cd_verified (completion_gate env b expected known)" and "1 < card (set expected)"
    and "cid \<in> set expected"
  shows "\<exists>a \<in> set (eb_assessments b). as_id a = cid \<and> as_evidence a \<noteq> [] \<and>
    (\<forall>k \<in> set (as_evidence a). \<exists>e \<in> set (eb_commands b). ev_id e = k
      \<and> current_proof (review_of b) (eb_commands b) e \<and> \<not> command_failed e)"
proof -
  obtain rs where rs: "eb_results b = Some rs"
    using verified_groups(1) [OF assms(1)] assms(2) by (auto simp: mapping_reasons_def)
  obtain items gaps where out: "assess_criterion_results (review_of b) rs expected (eb_commands b)
      (eb_verifier_evidence b) = (items, gaps)" by fastforce
  have same: "map snd (sort_by_key (map (\<lambda>a. (as_id a, a)) (eb_assessments b))) = items"
    using verified_groups(1) [OF assms(1)] by (auto simp: mapping_reasons_def rs out)
  obtain a where a: "a \<in> set (eb_assessments b)" "as_id a = cid" "as_verdict a = VPass"
    using verified_criteria(3) [OF assms(1,3)] by blast
  have "a \<in> set items" using a(1) by (simp add: same [symmetric] image_image)
  from passing_criterion [OF out this a(3)] show ?thesis using a(1,2) by blast
qed

text \<open>
  C31. A verified completion rests on recorded proof. When the gate answers that a task is complete, there
  are criteria and each has a passing assessment that cites recorded evidence; every recorded command
  belongs to the task, its base revision and its configuration, succeeded, and was really executed
  without network; with several criteria each one is resolved by current proof; and when the plan asks
  for an independent verifier, every required command was run by the verifier itself, isolated, in an
  unmodified verification workspace, on the exact patch.
\<close>

theorem verified_completion_proved:
  assumes "cd_verified (completion_gate env b expected known)"
  shows "expected \<noteq> [] \<and> eb_cleanup_complete b \<and>
    (\<forall>cid \<in> set expected. \<exists>a \<in> set (eb_assessments b). as_id a = cid \<and> as_verdict a = VPass
       \<and> as_evidence a \<noteq> [] \<and> set (as_evidence a) \<subseteq> set known) \<and>
    (\<forall>e \<in> set (eb_commands b). ev_exit e = 0 \<and> \<not> ev_timed_out e \<and> ev_strength e \<noteq> SIMULATED
       \<and> ev_network e = ''none'' \<and> ev_run e = eb_run b \<and> ev_task e = eb_task b \<and> ev_base e = eb_base b
       \<and> ev_config e = eb_config b) \<and>
    (1 < card (set expected) \<longrightarrow> (\<forall>cid \<in> set expected. \<exists>a \<in> set (eb_assessments b). as_id a = cid
       \<and> (\<forall>k \<in> set (as_evidence a). \<exists>e \<in> set (eb_commands b). ev_id e = k
            \<and> current_proof (review_of b) (eb_commands b) e))) \<and>
    (requires_verifier b \<longrightarrow> (\<forall>c \<in> set (eb_required_commands b). \<exists>e \<in> set (eb_commands b). ev_command e = c
       \<and> Some (ev_agent e) = eb_verifier b \<and> ev_strength e = INDEPENDENTLY_VERIFIED \<and> ev_level e = ISOLATED
       \<and> ev_workspace_kind e = VERIFICATION \<and> \<not> ev_mutated e
       \<and> (eb_patch b \<noteq> None \<longrightarrow> ev_patch e = eb_patch b)))"
proof (intro conjI impI ballI)
  fix c assume "requires_verifier b" and c: "c \<in> set (eb_required_commands b)"
  note runs = verified_verifier_runs [OF assms this(1)]
  obtain e where "e \<in> set (verifier_commands b)" "ev_command e = c" using runs(3) c by auto
  then show "\<exists>e \<in> set (eb_commands b). ev_command e = c \<and> Some (ev_agent e) = eb_verifier b
      \<and> ev_strength e = INDEPENDENTLY_VERIFIED \<and> ev_level e = ISOLATED \<and> ev_workspace_kind e = VERIFICATION
      \<and> \<not> ev_mutated e \<and> (eb_patch b \<noteq> None \<longrightarrow> ev_patch e = eb_patch b)"
    using runs(2) by (intro bexI [of _ e]) (auto simp: verifier_commands_def)
next
  fix cid assume "1 < card (set expected)" and "cid \<in> set expected"
  from verified_mapping [OF assms this] show "\<exists>a \<in> set (eb_assessments b). as_id a = cid
       \<and> (\<forall>k \<in> set (as_evidence a). \<exists>e \<in> set (eb_commands b). ev_id e = k
            \<and> current_proof (review_of b) (eb_commands b) e)" by blast
qed (use verified_criteria [OF assms] verified_commands [OF assms] in \<open>auto simp: command_failed_def\<close>)

text \<open>
  C35. The two parts of a completion decision agree: the effective verdict is a pass exactly when the
  completion is verified, and it is a failure whenever a recorded command failed or the verifier reported
  a failure.
\<close>

theorem pass_iff_verified:
  "(cd_verdict (completion_gate env b expected known) = VPass
      \<longleftrightarrow> cd_verified (completion_gate env b expected known))
   \<and> (eb_reported b = Some VFail \<or> (\<exists>e \<in> set (eb_commands b). ev_exit e \<noteq> 0 \<or> ev_timed_out e)
      \<longrightarrow> cd_verdict (completion_gate env b expected known) = VFail)"
proof -
  let ?d = "completion_gate env b expected known"
  have "\<not> (eb_reported b = Some VFail \<or> list_ex command_failed (eb_commands b)
      \<or> list_ex (\<lambda>a. as_verdict a = VFail) (eb_assessments b))" if v: "cd_verified ?d"
  proof -
    have "length (assessments_by_id b) = length (eb_assessments b)"
      "\<forall>x \<in> set (assessments_by_id b). as_verdict (snd x) = VPass"
      using verified_groups(3) [OF v] by (simp_all add: criteria_reasons_def Let_def list_ex_iff split_def)
    then have "\<forall>a \<in> set (eb_assessments b). as_verdict a = VPass"
      using dict_of_length_set [of "map (\<lambda>a. (as_id a, a)) (eb_assessments b)"]
      by (force simp: assessments_by_id_def)
    moreover have "eb_reported b \<noteq> Some VFail" using v by (auto simp: gate_verified)
    ultimately show ?thesis using verified_commands(1) [OF v] by (auto simp: list_ex_iff)
  qed
  then show ?thesis
    by (auto simp: completion_gate_def Let_def list_ex_iff command_failed_def split: if_splits)
qed

text \<open>
  The fake sandbox proves nothing: a task with a patch, or with any recorded command, is never
  verified when its sandbox is the fake one.
\<close>

theorem fake_never_verified:
  assumes "eb_level b = LevelFake" and "eb_patch_artifact b \<noteq> None \<or> eb_commands b \<noteq> []"
  shows "\<not> cd_verified (completion_gate env b expected known)"
proof
  assume v: "cd_verified (completion_gate env b expected known)"
  have "eb_commands b \<noteq> []"
    using verified_groups(4) [OF v] assms(2) by (auto simp: verifier_reasons_def)
  then obtain e where "e \<in> set (eb_commands b)" by (cases "eb_commands b") auto
  then show False using verified_commands(3,7) [OF v] assms(1) by metis
qed

section \<open>Witnesses\<close>

text \<open>A task with one criterion, proved by one isolated run of its test command by the verifier.\<close>

definition sample_evidence :: command_evidence where
  "sample_evidence = \<lparr>ev_id = ''art_1'', ev_run = ''run_1'', ev_task = ''task_1'', ev_agent = ''agent_1'',
     ev_role = Some ''verifier'', ev_stage = Some VERIFYING, ev_workspace = Some ''ws_1'',
     ev_sandbox = Some ''sandbox_1'', ev_command = ''tests'', ev_command_hash = Some ''h1'',
     ev_executable = ''python'', ev_argv = [], ev_cwd = ''.'', ev_provider = ''docker'', ev_level = ISOLATED,
     ev_capabilities = Some ''digest'', ev_configuration = Some ''c1'', ev_requirements = Some ''digest'',
     ev_image = Some ''i1'', ev_daemon = Some ''d1'', ev_strength = INDEPENDENTLY_VERIFIED, ev_exit = 0,
     ev_timed_out = False, ev_truncated = False, ev_transcript = ''art_2'', ev_base = ''base'',
     ev_config = ''config'', ev_patch = Some ''patch'', ev_workspace_kind = VERIFICATION,
     ev_network = ''none'', ev_mutated = False, ev_execution = Some ''exec_1'', ev_inspection = Some ''art_3'',
     ev_inspection_sha = Some ''s3'', ev_started = 1, ev_completed = 2\<rparr>"

definition sample_result :: criterion_result where
  "sample_result = \<lparr>cn_id = ''works'', cn_verdict = VPass, cn_evidence = [''art_1''], cn_commands = [''tests'']\<rparr>"

definition sample_review :: review where
  "sample_review = \<lparr>rv_run = ''run_1'', rv_task = ''task_1'', rv_verifier = Some ''agent_1'',
     rv_role = ''verifier'', rv_base = ''base'', rv_config = ''config'', rv_patch = Some ''patch'',
     rv_hashes = [(''tests'', ''h1'')]\<rparr>"

definition sample_assessment :: assessment where
  "sample_assessment = \<lparr>as_id = ''works'', as_verdict = VPass, as_evidence = [''art_1''],
     as_explanation = resolved_text\<rparr>"

lemma sample_matching: "matching_runs sample_review [sample_evidence] ''tests'' = [sample_evidence]"
  by (simp add: matching_runs_def sample_evidence_def sample_review_def)

lemma sample_current: "current_proof sample_review [sample_evidence] sample_evidence"
proof -
  have "ev_command sample_evidence = ''tests''" "ev_completed sample_evidence = 2"
    by (simp_all add: sample_evidence_def)
  then show ?thesis
    unfolding current_proof_def Let_def by (simp add: sample_matching latest_of_def)
      (simp add: sample_evidence_def sample_review_def)
qed

lemma sample_selected: "selected_runs [sample_evidence] sample_result = [sample_evidence]"
  by (simp add: selected_runs_def sample_result_def) (simp add: sample_evidence_def)

lemma sample_assessed:
  "assess_criterion_results sample_review [sample_result] [''works''] [sample_evidence] [''art_1''] =
     ([sample_assessment], [])"
proof -
  have "criterion_valid sample_review [sample_evidence] [''art_1''] False (Some sample_result)"
    unfolding criterion_valid_def option.case Let_def sample_selected
    by (simp add: sample_current mapping_exact_def) (simp add: sample_result_def sample_evidence_def)
  moreover have "\<not> catalog_invalid [sample_result] [''works''] [sample_evidence]"
    by (simp add: catalog_invalid_def sample_result_def)
  moreover have "\<not> command_failed sample_evidence" by (simp add: command_failed_def sample_evidence_def)
  moreover have "cn_id sample_result = ''works''" by (simp add: sample_result_def)
  moreover have "sort_strings [''works''] = [''works'']"
    by (simp add: sort_strings_def sort_by_key_def)
  ultimately show ?thesis
    by (simp add: assess_criterion_results_def assess_criterion_def Let_def sample_selected)
      (simp add: sample_assessment_def sample_result_def)
qed

theorem passing_criterion_proved_witness:
  "\<exists>e \<in> set [sample_evidence]. ev_id e = ''art_1'' \<and> ev_exit e = 0
     \<and> ev_strength e = INDEPENDENTLY_VERIFIED \<and> ev_level e = ISOLATED"
proof -
  have "as_verdict sample_assessment = VPass" "as_evidence sample_assessment = [''art_1'']"
    by (simp_all add: sample_assessment_def)
  with passing_criterion_proved [OF sample_assessed, of sample_assessment] show ?thesis by auto
qed

definition sample_capabilities :: sandbox_capabilities where
  "sample_capabilities = \<lparr>sb_provider = ''docker'', sb_level = ISOLATED, sb_isolation = True,
     sb_executes = True, sb_networks = [''none''], sb_resource_limits = True, sb_recovery = True,
     sb_non_root = True, sb_read_only_root = True, sb_no_new_privileges = True, sb_capability_drop = True\<rparr>"

definition sample_bundle :: evidence_bundle where
  "sample_bundle = \<lparr>eb_run = ''run_1'', eb_project = ''prj_1'', eb_task = ''task_1'', eb_base = ''base'',
     eb_config_artifact = ''art_4'', eb_config = ''config'', eb_task_artifact = ''art_5'', eb_task_sha = ''t'',
     eb_plan_artifact = ''art_6'', eb_plan = ''p'', eb_strategy = ENGINEER_VERIFIER, eb_delivery = None,
     eb_required = [INDEPENDENT_VERIFIER_VERDICT], eb_provider = ''docker'', eb_level = ISOLATED,
     eb_configuration = Some ''c1'', eb_requirements = Some default_requirements,
     eb_requirements_sha = Some ''digest'', eb_image = Some ''i1'', eb_daemon = Some ''d1'',
     eb_capabilities = sample_capabilities, eb_capabilities_sha = Some ''digest'',
     eb_command_hashes = [(''tests'', ''h1'')], eb_required_commands = [''tests''],
     eb_patch_artifact = Some ''art_7'', eb_patch = Some ''patch'', eb_changed = [''a.py''],
     eb_commands = [sample_evidence], eb_verifier = Some ''agent_1'', eb_verifier_role = None,
     eb_verdict_artifact = Some ''art_8'', eb_verifier_evidence = [''art_1''], eb_verifier_mutated = False,
     eb_reported = Some VPass, eb_repairs = [], eb_regressions = [], eb_cleanup_artifact = Some ''art_9'',
     eb_cleanup_sha = Some ''r'', eb_cleanup_complete = True, eb_assessments = [sample_assessment],
     eb_results = Some [sample_result], eb_risks = [], eb_gaps = [], eb_at = 3\<rparr>"

definition sample_known :: "string list" where
  "sample_known = [''art_1'', ''art_2'', ''art_3'', ''art_4'', ''art_5'', ''art_6'', ''art_7'', ''art_8'', ''art_9'']"

definition sample_gate :: gate_env where
  "sample_gate = \<lparr>ga_sha = (\<lambda>_. ''digest''), ga_plan_text = (\<lambda>_. []), ga_preparation_text = (\<lambda>_. []),
     ga_receipt_text = (\<lambda>_. []), ga_preparation_sha = (\<lambda>_. [])\<rparr>"

lemma sample_bundle_review: "review_of sample_bundle = sample_review"
  by (simp add: review_of_def sample_bundle_def sample_review_def role_or_verifier_def)

lemma sample_by_id: "assessments_by_id sample_bundle = [(''works'', sample_assessment)]"
  by (simp add: assessments_by_id_def sample_bundle_def sample_assessment_def dict_of_def)

lemma sample_verifier: "verifier_commands sample_bundle = [sample_evidence]"
  by (simp add: verifier_commands_def sample_bundle_def sample_evidence_def)

lemma sample_commands: "eb_commands sample_bundle = [sample_evidence]"
  by (simp add: sample_bundle_def)

lemma sample_evidence_fits:
  "\<not> spec_unbound sample_bundle sample_evidence" "\<not> sandbox_unbound sample_bundle sample_evidence"
  "\<not> command_failed sample_evidence" "\<not> claim_unfounded sample_bundle sample_evidence"
  "\<not> provenance_invalid sample_bundle sample_evidence" "\<not> strength_insufficient sample_evidence"
  by (simp_all add: spec_unbound_def sandbox_unbound_def command_failed_def claim_unfounded_def
      provenance_invalid_def strength_insufficient_def role_or_verifier_def)
    (simp_all add: sample_bundle_def sample_evidence_def)

lemma sample_requirement:
  "list_ex (requirement_missing sample_bundle sample_known) (eb_required sample_bundle) = False"
proof -
  have "\<not> requirement_missing sample_bundle sample_known INDEPENDENT_VERIFIER_VERDICT"
    unfolding requirement_missing_def sample_verifier by (simp add: sample_bundle_def)
  moreover have "eb_required sample_bundle = [INDEPENDENT_VERIFIER_VERDICT]" by (simp add: sample_bundle_def)
  ultimately show ?thesis by simp
qed

lemma sample_verified: "cd_verified (completion_gate sample_gate sample_bundle [''works''] sample_known)"
proof -
  let ?none = "list_all (\<lambda>x::bool \<times> string. \<not> fst x)"
  have "?none (mapping_reasons sample_gate sample_bundle [''works''] sample_known)"
    unfolding mapping_reasons_def sample_bundle_review
    by (simp add: sample_bundle_def sample_assessed sort_by_key_def)
      (simp add: sample_assessment_def sample_known_def)
  moreover have "?none (sandbox_reasons sample_gate sample_bundle)"
    by (simp add: sandbox_reasons_def sample_bundle_def sample_capabilities_def canonical_json_hash_def
        sample_gate_def)
  moreover have "?none (criteria_reasons sample_bundle [''works''] sample_known)"
    unfolding criteria_reasons_def sample_by_id Let_def sample_requirement
    by (simp add: declared_artifacts_def)
      (simp add: sample_bundle_def sample_assessment_def sample_evidence_def sample_known_def opt_list_def)
  moreover have "?none (verifier_reasons sample_bundle sample_known)"
    unfolding verifier_reasons_def sample_verifier
    by (simp add: sample_bundle_def sample_evidence_def sample_known_def)
  moreover have "?none (command_reasons sample_bundle)"
    unfolding command_reasons_def sample_verifier sample_commands Let_def
    by (simp add: sample_evidence_fits)
      (simp add: sample_bundle_def sample_evidence_def sample_capabilities_def)
  moreover have "?none (strength_reasons sample_bundle)"
    unfolding strength_reasons_def sample_verifier sample_commands Let_def
    by (simp add: sample_evidence_fits)
      (simp add: sample_bundle_def sample_evidence_def)
  moreover have "eb_reported sample_bundle = Some VPass" by (simp add: sample_bundle_def)
  ultimately show ?thesis by (simp add: gate_verified gate_reasons_def)
qed

theorem verified_completion_proved_witness:
  "\<exists>a \<in> set (eb_assessments sample_bundle). as_id a = ''works'' \<and> as_verdict a = VPass \<and> as_evidence a \<noteq> []"
  using verified_completion_proved [OF sample_verified] by auto

theorem pass_iff_verified_witness:
  "cd_verdict (completion_gate sample_gate sample_bundle [''works''] sample_known) = VPass
   \<and> cd_verdict (completion_gate sample_gate (sample_bundle\<lparr>eb_reported := Some VFail\<rparr>) [''works''] sample_known) = VFail"
  using pass_iff_verified [of sample_gate sample_bundle "[''works'']" sample_known]
    pass_iff_verified [of sample_gate "sample_bundle\<lparr>eb_reported := Some VFail\<rparr>" "[''works'']" sample_known]
    sample_verified by simp

theorem fake_never_verified_witness:
  "\<not> cd_verified (completion_gate sample_gate (sample_bundle\<lparr>eb_level := LevelFake\<rparr>) [''works''] sample_known)"
  by (rule fake_never_verified) (simp_all add: sample_bundle_def)

end
