(* ===== verification/Evidence_Properties.thy ===== *)
theory Evidence_Properties
  imports Evidence_Assembly Completion_Properties
begin

text \<open>
  What an assembled bundle guarantees: each of its parts was read back from a stored artifact of the
  run, its inspections meet the run's requirements, its changed paths are in scope, and its cleanup
  matches the leases of the database. Together with the gate: what a verified completion of a run rests on.
\<close>

section \<open>Reading back\<close>

lemma map_res_Inr: "map_res f xs = Inr ys \<Longrightarrow> list_all2 (\<lambda>x y. f x = Inr y) xs ys"
proof (induction xs arbitrary: ys)
  case (Cons x xs)
  then show ?case by (auto simp: bind_res_Inr)
qed simp

lemma map_res_member: "map_res f xs = Inr ys \<Longrightarrow> y \<in> set ys \<Longrightarrow> \<exists>x \<in> set xs. f x = Inr y"
  by (drule map_res_Inr) (fastforce simp: in_set_conv_nth list_all2_conv_all_nth)


text \<open>A record of the run: stored under its identifier with the right kind, project, run and task.\<close>

definition bound_record :: "graph_db \<Rightarrow> run \<Rightarrow> task_spec \<Rightarrow> artifact_kind \<Rightarrow> string \<Rightarrow> artifact_metadata \<Rightarrow> bool" where
  "bound_record db r t kind aid m \<longleftrightarrow> get_artifact db aid = Inr m \<and> am_kind m = kind
     \<and> am_project m = run_project r \<and> am_run m = Some (run_id r) \<and> am_task m = Some (task_id t)"

lemma read_bound_Inr:
  "read_bound_artifact env db aid kind r t = Inr (m, s) \<longleftrightarrow>
     bound_record db r t kind aid m \<and> read_text env db aid = Inr s"
  by (auto simp: read_bound_artifact_def bound_record_def bind_res_Inr require_Inr split: sum.splits)

text \<open>Hardening of an inspected sandbox: every measure the requirements name, with the exact network.\<close>

definition hardened :: "sandbox_requirements \<Rightarrow> inspection \<Rightarrow> bool" where
  "hardened q i \<longleftrightarrow> in_ready i \<and> in_network i = sq_network q
     \<and> (sq_isolation q \<longrightarrow> sb_isolation (in_capabilities i))
     \<and> (sq_execution q \<longrightarrow> sb_executes (in_capabilities i))
     \<and> (sq_limits q \<longrightarrow> in_limits i) \<and> (sq_non_root q \<longrightarrow> in_non_root i)
     \<and> (sq_read_only_root q \<longrightarrow> in_read_only_root i)
     \<and> (sq_no_new_privileges q \<longrightarrow> in_no_new_privileges i)
     \<and> (sq_capability_drop q \<longrightarrow> in_dropped i)
     \<and> (sb_level (in_capabilities i) = ISOLATED \<longrightarrow> sb_isolation (in_capabilities i) \<and> in_non_root i
          \<and> in_read_only_root i \<and> in_no_new_privileges i \<and> in_dropped i \<and> in_limits i \<and> in_mounts i
          \<and> in_image i \<noteq> None \<and> in_daemon i \<noteq> None \<and> in_network i = ''none'')"

lemma nothing_missing: "missing_requirements i q = [] \<Longrightarrow> in_ready i \<Longrightarrow> inspection_ok i \<Longrightarrow> hardened q i"
proof -
  assume none: "missing_requirements i q = []" and "in_ready i" and ok: "inspection_ok i"
  have "\<forall>x \<in> set (inspection_checks i q). \<not> (fst (snd x) \<and> \<not> snd (snd x))"
    using none by (auto simp: requirements_met list_all_iff)
  moreover have "sb_level (in_capabilities i) = ISOLATED \<Longrightarrow> sb_isolation (in_capabilities i) \<and> in_non_root i
          \<and> in_read_only_root i \<and> in_no_new_privileges i \<and> in_dropped i \<and> in_limits i \<and> in_mounts i
          \<and> in_image i \<noteq> None \<and> in_daemon i \<noteq> None \<and> in_network i = ''none''"
    using ok \<open>in_ready i\<close> unfolding inspection_ok_def by simp
  ultimately show ?thesis
    using \<open>in_ready i\<close> unfolding hardened_def by (simp add: inspection_checks_def)
qed

lemma bound_inspection_Inr:
  assumes "bound_inspection env db r t c q e = Inr i"
  shows "hardened q i" and "Some (in_sandbox i) = ev_sandbox e" and "in_network i = ev_network e"
    and "in_capabilities i = c" and "in_image i = run_image r" and "in_daemon i = run_daemon r"
    and "\<exists>aid m s. ev_inspection e = Some aid \<and> bound_record db r t SANDBOX_INSPECTION aid m
      \<and> Some (am_sha m) = ev_inspection_sha e \<and> read_text env db aid = Inr s \<and> ay_inspection env s = Some i"
proof -
  obtain aid m s where i: "ev_inspection e = Some aid" "bound_record db r t SANDBOX_INSPECTION aid m"
    "read_text env db aid = Inr s" "ay_inspection env s = Some i" "inspection_ok i" "inspection_binds r c q e m i"
    using assms by (auto simp: bound_inspection_def bind_res_Inr require_Inr some_or_Inr read_bound_Inr split_def)
  show "hardened q i" using i(5,6) by (simp add: nothing_missing inspection_binds_def)
  show "Some (in_sandbox i) = ev_sandbox e" "in_network i = ev_network e" "in_capabilities i = c"
    "in_image i = run_image r" "in_daemon i = run_daemon r"
    using i(6) by (simp_all add: inspection_binds_def)
  show "\<exists>aid m s. ev_inspection e = Some aid \<and> bound_record db r t SANDBOX_INSPECTION aid m
      \<and> Some (am_sha m) = ev_inspection_sha e \<and> read_text env db aid = Inr s \<and> ay_inspection env s = Some i"
    using i(1-4,6) by (auto simp: inspection_binds_def)
qed

text \<open>A recorded execution: stored under its own identifier, and inspected.\<close>

definition recorded_execution ::
    "assembly_env \<Rightarrow> graph_db \<Rightarrow> run \<Rightarrow> task_spec \<Rightarrow> sandbox_requirements \<Rightarrow> command_evidence \<Rightarrow> bool" where
  "recorded_execution env db r t q e \<longleftrightarrow> ev_id e \<in> set (run_command_evidence r)
     \<and> ev_run e = run_id r \<and> ev_task e = task_id t
     \<and> (\<exists>m s. bound_record db r t COMMAND_EVIDENCE_ARTIFACT (ev_id e) m
          \<and> read_text env db (ev_id e) = Inr s \<and> ay_command env s = Some e)
     \<and> (\<exists>m. bound_record db r t COMMAND_TRANSCRIPT (ev_transcript e) m)
     \<and> (\<exists>aid m s i. ev_inspection e = Some aid \<and> bound_record db r t SANDBOX_INSPECTION aid m
          \<and> Some (am_sha m) = ev_inspection_sha e \<and> read_text env db aid = Inr s
          \<and> ay_inspection env s = Some i \<and> hardened q i \<and> Some (in_sandbox i) = ev_sandbox e
          \<and> in_network i = ev_network e \<and> in_image i = run_image r \<and> in_daemon i = run_daemon r
          \<and> run_capabilities r = Some (in_capabilities i))"

lemma bound_command_Inr:
  assumes "bound_command env db r t c q aid = Inr e" and "run_capabilities r = Some c"
    and "aid \<in> set (run_command_evidence r)"
  shows "recorded_execution env db r t q e"
proof -
  obtain m s m' i where e: "bound_record db r t COMMAND_EVIDENCE_ARTIFACT aid m" "read_text env db aid = Inr s"
    "ay_command env s = Some e" "ev_id e = aid" "ev_run e = run_id r" "ev_task e = task_id t"
    "bound_record db r t COMMAND_TRANSCRIPT (ev_transcript e) m'" and i: "bound_inspection env db r t c q e = Inr i"
    using assms(1)
    by (auto simp: bound_command_def bind_res_Inr require_Inr some_or_Inr read_bound_Inr split_def)
  show ?thesis
    unfolding recorded_execution_def using e assms(2,3) bound_inspection_Inr [OF i] by blast
qed

section \<open>The assembled bundle\<close>

lemma collect_Inr:
  assumes "collect env db r t = Inr c"
  shows "bound_configuration env db r t = Inr files \<Longrightarrow> check_plan_roles env files (co_plan c) = Inr ()"
    and "bound_plan env db r t = Inr (co_plan c)" and "bound_task env db r t = Inr ()"
    and "\<exists>files. bound_configuration env db r t = Inr files"
    and "cleanup_proved env db r t = Inr (co_cleanup c)"
    and "bound_capabilities env r = Inr (co_capabilities c, co_requirements c)"
    and "map_res (bound_command env db r t (co_capabilities c) (co_requirements c)) (run_command_evidence r)
      = Inr (co_commands c)"
    and "bound_verdict env db r t = Inr (co_verdict c)" and "bound_paths env db r t = Inr (co_paths c)"
  using assms by (auto simp: collect_def bind_res_Inr split_def)

lemma assemble_Inr:
  assumes "assemble env db r t now = Inr (b, d)"
  obtains c delivery known where "collect env db r t = Inr c"
    and "delivery_of env db r t (co_plan c) = Inr (delivery, known)"
    and "b = bundle_of env r t c delivery now"
    and "d = completion_gate (ay_gate env) b (map criterion_id (acceptance_criteria t))
        (map am_id (list_artifacts db (run_id r)) @ known)"
  using assms that by (auto simp: assemble_def bind_res_Inr Let_def split_def)

lemma bundle_of_fields:
  "eb_commands (bundle_of env r t c delivery now) = co_commands c"
  "eb_changed (bundle_of env r t c delivery now) = co_paths c"
  "eb_cleanup_complete (bundle_of env r t c delivery now) = co_cleanup c"
  "eb_patch_artifact (bundle_of env r t c delivery now) = run_patch_artifact r"
  "eb_patch (bundle_of env r t c delivery now) = run_patch_hash r"
  "eb_requirements (bundle_of env r t c delivery now) = Some (co_requirements c)"
  "eb_run (bundle_of env r t c delivery now) = run_id r"
  "eb_task (bundle_of env r t c delivery now) = task_id t"
  "eb_base (bundle_of env r t c delivery now) = run_base_revision r"
  "eb_config (bundle_of env r t c delivery now) = config_snapshot_hash t"
  "eb_strategy (bundle_of env r t c delivery now) = strategy (co_plan c)"
  "eb_required (bundle_of env r t c delivery now) = plan_required_evidence (co_plan c)"
  "eb_reported (bundle_of env r t c delivery now) = map_option vd_verdict (co_verdict c)"
  by (simp_all add: bundle_of_def split_def Let_def)

lemma cleanup_proved_True:
  "cleanup_proved env db r t = Inr True \<Longrightarrow> open_leases db (run_id r) = []"
  by (auto simp: cleanup_proved_def bind_res_Inr require_Inr split: option.splits)

lemma bound_paths_Inr:
  assumes "bound_paths env db r t = Inr ps" and "p \<in> set ps"
  shows "path_is_within (ge_fold (ay_graph env)) p (allowed_paths t) (forbidden_paths t)"
  using assms by (auto simp: bound_paths_def bind_res_Inr require_Inr list_ex_iff split_def split: option.splits)

lemma bound_paths_nonempty:
  "bound_paths env db r t = Inr ps \<Longrightarrow> run_patch_artifact r \<noteq> None \<Longrightarrow> ps \<noteq> []"
  by (auto simp: bound_paths_def bind_res_Inr require_Inr split_def split: option.splits)

lemma assembled_commands:
  assumes "collect env db r t = Inr c" and "e \<in> set (co_commands c)"
  shows "recorded_execution env db r t (co_requirements c) e"
proof -
  have caps: "run_capabilities r = Some (co_capabilities c)"
    using collect_Inr(6) [OF assms(1)] by (auto simp: bound_capabilities_def bind_res_Inr some_or_Inr require_Inr)
  obtain aid where "aid \<in> set (run_command_evidence r)"
    "bound_command env db r t (co_capabilities c) (co_requirements c) aid = Inr e"
    using map_res_member [OF collect_Inr(7) [OF assms(1)] assms(2)] by blast
  then show ?thesis using bound_command_Inr caps by blast
qed

lemma bound_plan_Inr:
  assumes "bound_plan env db r t = Inr p"
  shows "validate_fleet_plan (ge_fold (ay_graph env)) p t None = Inr ()" and "plan_run_id p = run_id r"
    and "plan_task_id p = task_id t"
  using assms by (auto simp: bound_plan_def bind_res_Inr require_Inr split_def)


section \<open>Verified runs\<close>

text \<open>
  C32. A verified run is proved by what is stored. When the assembled decision of a run says that it is
  complete, then every acceptance criterion of its task passes with evidence; every recorded execution was
  read back from its own artifact of the run with its transcript and with an inspection that shows the
  required hardening of the very sandbox it ran in, and succeeded on the run's base revision and
  configuration; every changed path lies in the task's scope, and no lease of the run is open.
\<close>

theorem verified_run_proved:
  assumes "assemble env db r t now = Inr (b, d)" and "cd_verified d"
  shows "(\<forall>a \<in> set (acceptance_criteria t). \<exists>x \<in> set (eb_assessments b). as_id x = criterion_id a
        \<and> as_verdict x = VPass \<and> as_evidence x \<noteq> [])
    \<and> (\<exists>q. run_requirements r = Some q \<and> (\<forall>e \<in> set (eb_commands b). recorded_execution env db r t q e
        \<and> ev_exit e = 0 \<and> \<not> ev_timed_out e \<and> ev_strength e \<noteq> SIMULATED
        \<and> ev_base e = run_base_revision r \<and> ev_config e = config_snapshot_hash t))
    \<and> (\<forall>p \<in> set (eb_changed b).
        path_is_within (ge_fold (ay_graph env)) p (allowed_paths t) (forbidden_paths t))
    \<and> open_leases db (run_id r) = []"
proof -
  obtain c delivery known where c: "collect env db r t = Inr c" and b: "b = bundle_of env r t c delivery now"
    and d: "d = completion_gate (ay_gate env) b (map criterion_id (acceptance_criteria t))
        (map am_id (list_artifacts db (run_id r)) @ known)"
    using assemble_Inr [OF assms(1)] by metis
  note v = assms(2) [unfolded d]
  have q: "run_requirements r = Some (co_requirements c)"
    using collect_Inr(6) [OF c] by (auto simp: bound_capabilities_def bind_res_Inr some_or_Inr require_Inr)
  have "recorded_execution env db r t (co_requirements c) e \<and> ev_exit e = 0 \<and> \<not> ev_timed_out e
      \<and> ev_strength e \<noteq> SIMULATED \<and> ev_base e = run_base_revision r \<and> ev_config e = config_snapshot_hash t"
    if e: "e \<in> set (eb_commands b)" for e
    using assembled_commands [OF c, of e] e verified_commands [OF v e]
    by (simp add: b bundle_of_fields command_failed_def)
  moreover have "open_leases db (run_id r) = []"
    using verified_criteria(2) [OF v] collect_Inr(5) [OF c] by (simp add: b bundle_of_fields cleanup_proved_True)
  moreover have "path_is_within (ge_fold (ay_graph env)) p (allowed_paths t) (forbidden_paths t)"
    if "p \<in> set (eb_changed b)" for p
    using bound_paths_Inr [OF collect_Inr(9) [OF c]] that by (simp add: b bundle_of_fields)
  moreover have "\<exists>x \<in> set (eb_assessments b). as_id x = criterion_id a \<and> as_verdict x = VPass \<and> as_evidence x \<noteq> []"
    if "a \<in> set (acceptance_criteria t)" for a
  proof -
    have "criterion_id a \<in> set (map criterion_id (acceptance_criteria t))" using that by simp
    from verified_criteria(3) [OF v this] show ?thesis by blast
  qed
  ultimately show ?thesis using q by blast
qed


end
