(* ===== verification/Evidence_Witnesses.thy ===== *)
theory Evidence_Witnesses
  imports Evidence_Properties Budget_Properties Role_Templates
begin

text \<open>
  A completed run, assembled and judged: one engineer, one verifier, one command executed once in an
  isolated container, every record stored and bound to the run.
\<close>

definition done_id :: "string \<Rightarrow> nat \<Rightarrow> string" where
  "done_id pre k = pre @ ''_'' @ replicate 31 (CHR ''0'') @ [char_of (48 + k)]"

definition done_artifact :: "nat \<Rightarrow> artifact_kind \<Rightarrow> string \<Rightarrow> json \<Rightarrow> artifact_row" where
  "done_artifact k kind content labels = \<lparr>ax_id = done_id ''art'' k, ax_project = done_id ''prj'' 0,
     ax_run = Some (done_id ''run'' 0), ax_kind = kind, ax_sha = sample_hex 64,
     ax_data = \<lparr>am_id = done_id ''art'' k, am_kind = kind, am_project = done_id ''prj'' 0,
       am_run = Some (done_id ''run'' 0), am_task = Some (done_id ''task'' 0),
       am_mime = ''text/plain'', am_size = int (length content),
       am_sha = sample_hex 64, am_ref = content, am_producer = ''sample'', am_redacted = False, am_created = 0,
       am_metadata = labels\<rparr>\<rparr>"

definition done_command :: verification_command where
  "done_command = \<lparr>vc_executable = ''python3'', vc_argv = [''-m'', ''pytest''], vc_cwd = ''.'', vc_timeout = 60\<rparr>"

definition done_profile :: verification_profile where
  "done_profile = \<lparr>vp_commands = [(''unit'', done_command)], vp_required = [''unit'']\<rparr>"

definition done_task :: task_spec where
  "done_task = sample_task\<lparr>task_id := done_id ''task'' 0, task_run_id := done_id ''run'' 0,
     verification_commands := [command_of ''unit'' done_command]\<rparr>"

definition done_plan :: fleet_plan where
  "done_plan = \<lparr>plan_id = done_id ''plan'' 0, plan_run_id = done_id ''run'' 0,
     plan_task_id = done_id ''task'' 0, strategy = ENGINEER_VERIFIER,
     nodes = [Fleet_Plan.sample_node ''a'' ENGINEER [] [''src''], Fleet_Plan.sample_node ''verify'' VERIFIER [''a''] [''src'']],
     repair_role_id = None, max_parallel_agents = 1,
     plan_required_evidence = [COMMAND_EVIDENCE, CANONICAL_PATCH, INDEPENDENT_VERIFIER_VERDICT],
     rationale = ''one'', plan_created_at = 0\<rparr>"

definition done_run :: run where
  "done_run = (new_run (done_id ''run'' 0) (done_id ''prj'' 0) (done_id ''corr'' 0) ''fix'' ''main'' (sample_hex 64) 0)
     \<lparr>run_status := RUNNING, run_stage := Some PRESENTING, run_task := Some (done_id ''task'' 0),
      run_sandbox_name := ''docker'', run_configuration_hash := Some (sample_hex 64),
      run_requirements := Some default_requirements, run_capabilities := Some sample_capabilities,
      run_capabilities_hash := Some (sample_hex 64), run_image := Some (''sha256:'' @ sample_hex 64),
      run_daemon := Some (sample_hex 64),
      run_task_artifact := Some (done_id ''art'' 1), run_task_hash := Some (sample_hex 64),
      run_config_artifact := Some (done_id ''art'' 2), run_config_hash := Some (sample_hex 64),
      run_plan_artifact := Some (done_id ''art'' 0), run_plan_hash := Some (sample_hex 64),
      run_patch_artifact := Some (done_id ''art'' 7), run_patch_hash := Some (sample_hex 64),
      run_command_evidence := [done_id ''art'' 3], run_verifier_agent := Some (done_id ''agent'' 0),
      run_verdict_artifact := Some (done_id ''art'' 6),
      run_cleanup_artifact := Some (done_id ''art'' 8), run_cleanup_hash := Some (sample_hex 64)\<rparr>"

definition done_evidence :: command_evidence where
  "done_evidence = \<lparr>ev_id = done_id ''art'' 3, ev_run = done_id ''run'' 0, ev_task = done_id ''task'' 0,
     ev_agent = done_id ''agent'' 0, ev_role = Some ''verifier'', ev_stage = Some VERIFYING,
     ev_workspace = Some (done_id ''ws'' 0), ev_sandbox = Some (done_id ''sandbox'' 0), ev_command = ''unit'',
     ev_command_hash = Some (sample_hex 64), ev_executable = ''python3'', ev_argv = [''-m'', ''pytest''],
     ev_cwd = ''.'', ev_provider = ''docker'', ev_level = ISOLATED, ev_capabilities = Some (sample_hex 64),
     ev_configuration = Some (sample_hex 64), ev_requirements = Some (sample_hex 64),
     ev_image = Some (''sha256:'' @ sample_hex 64), ev_daemon = Some (sample_hex 64),
     ev_strength = INDEPENDENTLY_VERIFIED, ev_exit = 0, ev_timed_out = False, ev_truncated = False,
     ev_transcript = done_id ''art'' 4, ev_base = ''main'', ev_config = sample_hex 64,
     ev_patch = Some (sample_hex 64), ev_workspace_kind = VERIFICATION, ev_network = ''none'', ev_mutated = False,
     ev_execution = Some ''exec'', ev_inspection = Some (done_id ''art'' 5),
     ev_inspection_sha = Some (sample_hex 64), ev_started = 1, ev_completed = 2\<rparr>"

definition done_inspection :: inspection where
  "done_inspection = \<lparr>in_sandbox = done_id ''sandbox'' 0, in_provider = ''docker'', in_ready = True,
     in_capabilities = sample_capabilities, in_configuration = sample_hex 64,
     in_image = Some (''sha256:'' @ sample_hex 64), in_daemon = Some (sample_hex 64), in_network = ''none'',
     in_non_root = True, in_read_only_root = True, in_no_new_privileges = True, in_dropped = True,
     in_limits = True, in_mounts = True, in_at = 1\<rparr>"

definition done_verdict :: verifier_verdict where
  "done_verdict = \<lparr>vd_verdict = VPass, vd_evidence = [done_id ''art'' 3], vd_regressions = [], vd_repairs = [],
     vd_gaps = [], vd_structured = None\<rparr>"

definition done_receipt :: cleanup_receipt where
  "done_receipt = \<lparr>cr_run = done_id ''run'' 0, cr_leases = [], cr_complete = True\<rparr>"

definition done_env :: assembly_env where
  "done_env = \<lparr>ay_graph = \<lparr>ge_base = sample_env 0, ge_fold = (\<lambda>s. s), digest = (\<lambda>_. sample_hex 64),
       ge_unfit = (\<lambda>_. False), ge_admit = (\<lambda>_ _. Inr ()), ge_record_admission = (\<lambda>_ _. Inr ()),
       ge_blob = (\<lambda>ref _. Inr ref), ge_plan = (\<lambda>_. Some done_plan), ge_task = (\<lambda>_. Some done_task),
       ge_implementation = (\<lambda>_. False), ge_specialist = (\<lambda>_. None),
       ge_cleanup = (\<lambda>_. Some done_receipt), ge_config = None\<rparr>,
     ay_gate = \<lparr>ga_sha = (\<lambda>_. sample_hex 64), ga_plan_text = (\<lambda>_. []), ga_preparation_text = (\<lambda>_. []),
       ga_receipt_text = (\<lambda>_. []), ga_preparation_sha = (\<lambda>_. [])\<rparr>,
     ay_config = \<lparr>cp_files = (\<lambda>_. Some []), cp_snapshot = (\<lambda>_. Inr (sample_spec, [])),
       cp_templates = (\<lambda>_ _. Inl ValueError)\<rparr>,
     ay_required = (\<lambda>_ _ _ _ _. Inr [''unit'']), ay_profile = (\<lambda>_ _. Inr done_profile),
     ay_command = (\<lambda>_. Some done_evidence), ay_inspection = (\<lambda>_. Some done_inspection),
     ay_verdict = (\<lambda>_. Some done_verdict), ay_preparation = (\<lambda>_. None)\<rparr>"

definition done_db :: graph_db where
  "done_db = \<lparr>db_runs = [], db_tasks = [], db_agents = [], db_events = [],
     bl_owners = [], bl_runs = [], bl_attempts = [], bl_requests = [], bl_batches = [], bl_simulated = [],
     gd_approvals = [], gd_leases = [],
     gd_artifacts = [done_artifact 0 FLEET_PLAN ''plan'' (JObj []), done_artifact 1 TASK_SPEC ''task'' (JObj []),
       done_artifact 2 CONFIG_SNAPSHOT ''config'' (JObj []),
       done_artifact 3 COMMAND_EVIDENCE_ARTIFACT ''evidence'' (JObj []),
       done_artifact 4 COMMAND_TRANSCRIPT ''out'' (JObj []),
       done_artifact 5 SANDBOX_INSPECTION ''inspection'' (JObj []),
       done_artifact 6 VERIFIER_VERDICT ''verdict'' (JObj []),
       done_artifact 7 PATCH ''patch'' (JObj [(''changed_paths'', JArr [JStr ''src/a.py''])]),
       done_artifact 8 RESOURCE_CLEANUP ''cleanup'' (JObj [])],
     gd_graphs = [], gd_nodes = [], gd_claims = []\<rparr>"

definition done_collected :: collected where
  "done_collected = \<lparr>co_config_artifact = done_id ''art'' 2, co_task_artifact = done_id ''art'' 1,
     co_task_sha = sample_hex 64, co_plan_artifact = done_id ''art'' 0, co_plan_sha = sample_hex 64,
     co_plan = done_plan, co_role = ''verifier'', co_cleanup = True, co_capabilities = sample_capabilities,
     co_requirements = default_requirements, co_commands = [done_evidence], co_verdict = Some done_verdict,
     co_paths = [''src/a.py'']\<rparr>"

definition done_known :: "string list" where
  "done_known = map (done_id ''art'') [0, 1, 2, 3, 4, 5, 6, 7, 8]"

definition done_bundle :: evidence_bundle where
  "done_bundle = bundle_of done_env done_run done_task done_collected None 3"

lemma done_configuration: "bound_configuration done_env done_db done_run done_task = Inr []"
  by code_simp

lemma done_reads_task: "bound_task done_env done_db done_run done_task = Inr ()"
  by code_simp

lemma done_reads_plan: "bound_plan done_env done_db done_run done_task = Inr done_plan"
  by code_simp

lemma done_reads_cleanup: "cleanup_proved done_env done_db done_run done_task = Inr True"
  by code_simp

lemma done_reads_capabilities: "bound_capabilities done_env done_run = Inr (sample_capabilities, default_requirements)"
  by code_simp

lemma done_reads_verdict: "bound_verdict done_env done_db done_run done_task = Inr (Some done_verdict)"
  by code_simp

lemma done_reads_paths: "bound_paths done_env done_db done_run done_task = Inr [''src/a.py'']"
  by code_simp

lemmas done_reads = done_reads_task done_reads_plan done_reads_cleanup done_reads_capabilities done_reads_verdict done_reads_paths

lemma done_execution:
  "bound_command done_env done_db done_run done_task sample_capabilities default_requirements (done_id ''art'' 3)
     = Inr done_evidence"
  by code_simp

lemma done_plan_roles: "check_plan_roles done_env [] done_plan = Inr ()" "planned_verifier done_plan = ''verifier''"
  "strategy done_plan = ENGINEER_VERIFIER"
  by code_simp+

lemma done_run_fields:
  "run_command_evidence done_run = [done_id ''art'' 3]" "run_config_artifact done_run = Some (done_id ''art'' 2)"
  "run_task_artifact done_run = Some (done_id ''art'' 1)" "run_task_hash done_run = Some (sample_hex 64)"
  "run_plan_artifact done_run = Some (done_id ''art'' 0)" "run_plan_hash done_run = Some (sample_hex 64)"
  "run_verifier_agent done_run = Some (done_id ''agent'' 0)"
  by (simp_all add: done_run_def)

lemma done_collect: "collect done_env done_db done_run done_task = Inr done_collected"
  unfolding collect_def
  by (simp add: done_configuration done_reads done_execution done_plan_roles done_run_fields check_verifier_def
      opt_default_def done_collected_def)

lemma done_delivery: "delivery_of done_env done_db done_run done_task (co_plan done_collected) = Inr (None, [])"
  by (simp add: delivery_of_def done_collected_def done_plan_roles)

lemma done_artifacts: "map am_id (list_artifacts done_db (run_id done_run)) = done_known"
  by code_simp

lemma done_gate_bundle_ok: "bundle_ok (ga_sha (ay_gate done_env)) done_bundle"
  by code_simp

lemma done_gate_mapping:
  "list_all (\<lambda>x. \<not> fst x) (mapping_reasons (ay_gate done_env) done_bundle [''c1''] done_known)"
  by code_simp

lemma done_gate_sandbox:
  "list_all (\<lambda>x. \<not> fst x) (sandbox_reasons (ay_gate done_env) done_bundle)"
  by code_simp

lemma done_gate_criteria:
  "list_all (\<lambda>x. \<not> fst x) (criteria_reasons done_bundle [''c1''] done_known)"
  by code_simp

lemma done_gate_verifier:
  "list_all (\<lambda>x. \<not> fst x) (verifier_reasons done_bundle done_known)"
  by code_simp

lemma done_gate_commands:
  "list_all (\<lambda>x. \<not> fst x) (command_reasons done_bundle)"
  by code_simp

lemma done_gate_strength:
  "list_all (\<lambda>x. \<not> fst x) (strength_reasons done_bundle)"
  by code_simp

lemma done_gate_reported: "eb_reported done_bundle = Some VPass"
  by code_simp

lemma done_assembled: "\<exists>b d. assemble done_env done_db done_run done_task 3 = Inr (b, d) \<and> cd_verified d"
proof -
  have "cd_verified (completion_gate (ay_gate done_env) done_bundle [''c1''] done_known)"
    using done_gate_mapping done_gate_sandbox done_gate_criteria done_gate_verifier done_gate_commands done_gate_strength done_gate_reported by (simp add: gate_verified gate_reasons_def)
  moreover have "map criterion_id (acceptance_criteria done_task) = [''c1'']" by code_simp
  ultimately show ?thesis
    using done_gate_bundle_ok unfolding assemble_def
    by (simp add: done_collect done_delivery done_artifacts done_bundle_def [symmetric])
qed

theorem verified_run_proved_witness:
  "\<exists>b d. assemble done_env done_db done_run done_task 3 = Inr (b, d) \<and> open_leases done_db (run_id done_run) = []"
proof -
  obtain b d where bd: "assemble done_env done_db done_run done_task 3 = Inr (b, d)" "cd_verified d"
    using done_assembled by blast
  from verified_run_proved [OF bd] show ?thesis using bd(1) by blast
qed


end
