(* ===== verification/Gateway_Types.thy ===== *)
theory Gateway_Types
  imports State_Machine Permission_Policy Command_Evidence
begin

text \<open>
  The state of one tool gateway (\<open>application/gateway.py\<close>) and the computations on it.

  A computation has the state of the whole machine: the SQLite store, the artifact table, and the world
  outside (files of workspaces, content store, containers), whose type is a parameter. It returns the
  state also when it raises. Every access to the store is one serialized transaction; before the
  \<open>k\<close>-th of them the other callers of the store may have committed any list of operations.
  Clock values, fresh identifiers and texts come from the environment.
\<close>

record 'w gateway =
  gx_tick :: nat
  gx_store :: store
  gx_artifacts :: "artifact_metadata list"
  gx_world :: 'w

type_synonym ('w, 'a) act = "'w gateway \<Rightarrow> 'w gateway \<times> 'a res"

text \<open>
  A provider's execution is a tree: it ends with a result or a failure, and on the way it calls the two
  callbacks of the gateway and goes on with their outcome (\<open>None\<close> or the exception they raised).
  A failure may carry a cleanup proof with its binding (the two attributes the gateway looks for).
\<close>

record failure =
  fl_exn :: exn
  fl_type :: string
  fl_proof :: "json option"
  fl_binding :: "json option"

datatype 'w native =
    Finished 'w "failure + exec_result"
  | Dispatching 'w "exn option \<Rightarrow> 'w native"
  | Creating 'w execution_handle "exn option \<Rightarrow> 'w native"

record recovery_request =
  rq_execution :: string
  rq_sandbox :: string
  rq_run :: string
  rq_project :: "string option"
  rq_provider :: "string option"
  rq_intent :: "string option"
  rq_task :: "string option"
  rq_agent :: "string option"
  rq_stage :: "string option"
  rq_dispatched :: bool

record 'w provider =
  pv_capabilities :: sandbox_capabilities
  pv_exec :: "sandbox_handle \<Rightarrow> exec_request \<Rightarrow> 'w \<Rightarrow> 'w native"
  pv_cleanup :: "execution_handle \<Rightarrow> 'w \<Rightarrow> 'w \<times> cleanup_result res"
  pv_reconcile :: "sandbox_handle \<Rightarrow> recovery_request \<Rightarrow> 'w \<Rightarrow> 'w \<times> cleanup_result res"

text \<open>The port \<open>WorkspaceFileSystem\<close>: paths are those of a workspace and logical ones.\<close>

record 'w workspace_files =
  wf_write :: "string \<Rightarrow> string \<Rightarrow> string \<Rightarrow> 'w \<Rightarrow> 'w \<times> int res"
  wf_list :: "string \<Rightarrow> 'w \<Rightarrow> 'w \<times> string list res"
  wf_read :: "string \<Rightarrow> string \<Rightarrow> 'w \<Rightarrow> 'w \<times> string res"
  wf_search :: "string \<Rightarrow> string \<Rightarrow> string list \<Rightarrow> 'w \<Rightarrow> 'w \<times> json res"
  wf_edit :: "string \<Rightarrow> string \<Rightarrow> string \<Rightarrow> string \<Rightarrow> string \<Rightarrow> int \<Rightarrow> 'w \<Rightarrow> 'w \<times> int res"
  wf_delete :: "string \<Rightarrow> string \<Rightarrow> string \<Rightarrow> 'w \<Rightarrow> 'w \<times> unit res"

record 'w gateway_env =
  gw_checks :: store_checks
  gw_base :: effects
  gw_clock :: "nat \<Rightarrow> nat \<Rightarrow> int"
  gw_new :: "nat \<Rightarrow> nat \<Rightarrow> string"
  gw_others :: "nat \<Rightarrow> store_op list"
  gw_policy :: "nat \<Rightarrow> policy_env"
  gw_file :: "nat \<Rightarrow> trust_policy option"
  gw_fold :: "string \<Rightarrow> string"
  gw_providers :: "string \<Rightarrow> 'w provider option"
  gw_files :: "'w workspace_files"
  gw_patch :: "(workspace \<Rightarrow> 'w \<Rightarrow> 'w \<times> patch_info res) option"
  gw_put :: "string \<Rightarrow> 'w \<Rightarrow> 'w \<times> (string \<times> string \<times> int) res"
  gw_handle_of :: "json \<Rightarrow> execution_handle option"
  gw_cleanup_of :: "json \<Rightarrow> cleanup_result option"
  gw_time :: "int \<Rightarrow> string"
  gw_iso :: "int \<Rightarrow> string"
  gw_class :: "exn \<Rightarrow> string"
  gw_explanation :: "permission_decision \<Rightarrow> string"
  gw_inspection_text :: "inspection \<Rightarrow> string"
  gw_evidence_text :: "command_evidence \<Rightarrow> string"
  gw_transcript :: "sandbox_capabilities \<Rightarrow> command_spec \<Rightarrow> exec_request \<Rightarrow> string \<Rightarrow> exec_result \<Rightarrow> bool \<Rightarrow> string \<Rightarrow> string \<Rightarrow> string"

section \<open>Computations\<close>

definition ret :: "'a \<Rightarrow> ('w, 'a) act" where
  "ret x g = (g, Inr x)"

definition raise_exn :: "exn \<Rightarrow> ('w, 'a) act" where
  "raise_exn e g = (g, Inl e)"

definition lift_res :: "'a res \<Rightarrow> ('w, 'a) act" where
  "lift_res m g = (g, m)"

definition bind_act :: "('w, 'a) act \<Rightarrow> ('a \<Rightarrow> ('w, 'b) act) \<Rightarrow> ('w, 'b) act" where
  "bind_act m f g = (case m g of (g', Inl e) \<Rightarrow> (g', Inl e) | (g', Inr x) \<Rightarrow> f x g')"

definition demand :: "bool \<Rightarrow> error_code \<Rightarrow> ('w, unit) act" where
  "demand ok c = lift_res (require ok (FleetError c))"

definition fx_at :: "'w gateway_env \<Rightarrow> nat \<Rightarrow> effects" where
  "fx_at env k = (gw_base env)\<lparr>clk := gw_clock env k, new_id := gw_new env k\<rparr>"

text \<open>One transaction, after what the other callers have committed meanwhile.\<close>

definition transact :: "'w gateway_env \<Rightarrow> (effects \<Rightarrow> store \<Rightarrow> 'a tx) \<Rightarrow> ('w, 'a) act" where
  "transact env t g =
     (let k = gx_tick g; s = after_ops (gw_checks env) (gx_store g) (gw_others env k) in
      case t (fx_at env k) s of
        Inl e \<Rightarrow> (g\<lparr>gx_tick := Suc k, gx_store := s\<rparr>, Inl e)
      | Inr (s', x) \<Rightarrow> (g\<lparr>gx_tick := Suc k, gx_store := s'\<rparr>, Inr x))"

definition read_only :: "(store \<Rightarrow> 'a res) \<Rightarrow> effects \<Rightarrow> store \<Rightarrow> 'a tx" where
  "read_only q fx s = bind_res (q s) (\<lambda>x. Inr (s, x))"

definition query :: "'w gateway_env \<Rightarrow> (store \<Rightarrow> 'a res) \<Rightarrow> ('w, 'a) act" where
  "query env q = transact env (read_only q)"

definition now_act :: "'w gateway_env \<Rightarrow> ('w, int) act" where
  "now_act env g = (g\<lparr>gx_tick := Suc (gx_tick g)\<rparr>, Inr (gw_clock env (gx_tick g) 0))"

definition fresh_act :: "'w gateway_env \<Rightarrow> ('w, string) act" where
  "fresh_act env g = (g\<lparr>gx_tick := Suc (gx_tick g)\<rparr>, Inr (gw_new env (gx_tick g) 0))"

definition world_act :: "('w \<Rightarrow> 'w \<times> 'a res) \<Rightarrow> ('w, 'a) act" where
  "world_act f g = (case f (gx_world g) of (w, r) \<Rightarrow> (g\<lparr>gx_world := w\<rparr>, r))"

text \<open>The registered-secret tests of the redactor.\<close>

definition secret_data :: "'w gateway_env \<Rightarrow> json \<Rightarrow> bool" where
  "secret_data env v = tainted (gw_base env) v"

definition secret_text :: "'w gateway_env \<Rightarrow> string \<Rightarrow> bool" where
  "secret_text env s = tainted (gw_base env) (JStr s)"

definition cleaned_text :: "'w gateway_env \<Rightarrow> string \<Rightarrow> string \<times> string list" where
  "cleaned_text env s = (case redact (gw_base env) (JStr s) of (JStr t, sm) \<Rightarrow> (t, sm) | (_, sm) \<Rightarrow> (s, sm))"

definition sha_of :: "'w gateway_env \<Rightarrow> string \<Rightarrow> string" where
  "sha_of env s = sha256 (gw_base env) s"

definition hash_of :: "'w gateway_env \<Rightarrow> json \<Rightarrow> string" where
  "hash_of env v = canonical_json_hash (sha256 (gw_base env)) v"

section \<open>Artifacts\<close>

primrec artifact_kind_value :: "artifact_kind \<Rightarrow> string" where
  "artifact_kind_value FLEET_CONFIG_PROPOSAL = ''fleet_config_proposal''"
| "artifact_kind_value FLEET_PATCH = ''fleet_patch''"
| "artifact_kind_value FLEET_PATCH_DIFF = ''fleet_patch_diff''"
| "artifact_kind_value CONFIG_SNAPSHOT = ''config_snapshot''"
| "artifact_kind_value TASK_SPEC = ''task_spec''"
| "artifact_kind_value IMPLEMENTATION_REPORT = ''implementation_report''"
| "artifact_kind_value SPECIALIST_REPORT = ''specialist_report''"
| "artifact_kind_value GRAPH_JOIN = ''graph_join''"
| "artifact_kind_value PATCH = ''patch''"
| "artifact_kind_value TEST_REPORT = ''test_report''"
| "artifact_kind_value VERIFIER_VERDICT = ''verifier_verdict''"
| "artifact_kind_value RUN_SUMMARY = ''run_summary''"
| "artifact_kind_value COMMAND_TRANSCRIPT = ''command_transcript''"
| "artifact_kind_value COMMAND_EVIDENCE_ARTIFACT = ''command_evidence''"
| "artifact_kind_value REPOSITORY_PROFILE = ''repository_profile''"
| "artifact_kind_value PROJECT_KNOWLEDGE = ''project_knowledge''"
| "artifact_kind_value FLEET_PLAN = ''fleet_plan''"
| "artifact_kind_value EVIDENCE_BUNDLE = ''evidence_bundle''"
| "artifact_kind_value ERROR_REPORT = ''error_report''"
| "artifact_kind_value RUNTIME_USAGE = ''runtime_usage''"
| "artifact_kind_value SANDBOX_INSPECTION = ''sandbox_inspection''"
| "artifact_kind_value RESOURCE_CLEANUP = ''resource_cleanup''"
| "artifact_kind_value BOOTSTRAP_REPORT = ''bootstrap_report''"
| "artifact_kind_value COS_RESPONSE = ''cos_response''"

text \<open>\<open>save_artifact\<close>: the row and its event in one transaction.\<close>

definition artifact_event :: "effects \<Rightarrow> run option \<Rightarrow> artifact_metadata \<Rightarrow> fleet_event" where
  "artifact_event fx r a = \<lparr>event_id = new_id fx 1, event_type = ''artifact.created'', event_occurred_at = am_created a,
     event_project = am_project a, event_run = am_run a,
     event_task = (case r of None \<Rightarrow> am_task a
        | Some v \<Rightarrow> if run_task v \<noteq> None \<and> run_task v \<noteq> Some [] then run_task v else am_task a),
     event_agent = None,
     event_correlation = (case r of None \<Rightarrow> new_id fx 0 | Some v \<Rightarrow> run_correlation v), event_sequence = None,
     event_payload = JObj [(''artifact_id'', JStr (am_id a)), (''kind'', JStr (artifact_kind_value (am_kind a))),
        (''sha256'', JStr (am_sha a))],
     event_redactions = []\<rparr>"

definition record_artifact :: "artifact_metadata \<Rightarrow> effects \<Rightarrow> store \<Rightarrow> unit tx" where
  "record_artifact a fx s =
     bind_res (case am_run a of None \<Rightarrow> Inr None
        | Some rid \<Rightarrow> bind_res (require (find_run s rid \<noteq> None) IntegrityError) (\<lambda>_.
            bind_res (get_run s rid) (\<lambda>r. Inr (Some r)))) (\<lambda>r.
     bind_res (insert_event fx (artifact_event fx r a) s) (\<lambda>s'. Inr (s', ())))"

definition save_artifact :: "'w gateway_env \<Rightarrow> artifact_metadata \<Rightarrow> ('w, unit) act" where
  "save_artifact env a g =
     (case transact env (\<lambda>fx s. bind_res (require (am_id a \<notin> am_id ` set (gx_artifacts g)) IntegrityError) (\<lambda>_.
        record_artifact a fx s)) g of
        (g', Inl e) \<Rightarrow> (g', Inl e)
      | (g', Inr x) \<Rightarrow> (g'\<lparr>gx_artifacts := gx_artifacts g' @ [a]\<rparr>, Inr x))"

text \<open>\<open>ArtifactService.create_text\<close> with redaction; the identifier is fresh unless given.\<close>

definition create_text ::
    "'w gateway_env \<Rightarrow> artifact_kind \<Rightarrow> run \<Rightarrow> task_spec \<Rightarrow> string \<Rightarrow> string option \<Rightarrow> string \<Rightarrow> string \<Rightarrow> json \<Rightarrow>
     ('w, artifact_metadata) act" where
  "create_text env kind r t producer given mime content labels =
     (let (text, summary) = cleaned_text env content in
      bind_act (world_act (gw_put env text)) (\<lambda>(ref, digest, size).
      bind_act (case given of Some aid \<Rightarrow> ret aid | None \<Rightarrow> fresh_act env) (\<lambda>aid.
      bind_act (now_act env) (\<lambda>at.
      let a = \<lparr>am_id = aid, am_kind = kind, am_project = run_project r, am_run = Some (run_id r),
          am_task = Some (task_id t), am_mime = mime, am_size = size, am_sha = digest, am_ref = ref,
          am_producer = producer, am_redacted = (summary \<noteq> []), am_created = at, am_metadata = labels\<rparr> in
      bind_act (lift_res (require (artifact_ok a) ValueError)) (\<lambda>_.
      bind_act (save_artifact env a) (\<lambda>_. ret a))))))"

end
