(* ===== verification/Gateway.thy ===== *)
theory Gateway
  imports Gateway_Types
begin

text \<open>
  The admission of one tool call by \<open>ToolGateway.execute\<close> of \<open>application/gateway.py\<close>:
  context, idempotency key, permission, approval, and the dispatch claim.
\<close>

record scripted_action =
  sa_action :: string
  sa_resource :: resource
  sa_parameters :: json
  sa_reason :: string
  sa_side_effect :: bool
  sa_key :: string

definition scripted_json :: "scripted_action \<Rightarrow> json" where
  "scripted_json a = JObj [(''action'', JStr (sa_action a)), (''resource'', resource_json (sa_resource a)),
     (''parameters'', sa_parameters a), (''reason'', JStr (sa_reason a)),
     (''side_effect'', JBool (sa_side_effect a)), (''idempotency_key'', JStr (sa_key a))]"

record tool_call =
  tc_run :: run
  tc_task :: task_spec
  tc_agent :: agent_instance
  tc_workspace :: workspace
  tc_sandbox :: sandbox_handle
  tc_scripted :: scripted_action

datatype admission = Replay json | Begin tool_intent

section \<open>Context\<close>

definition identities_match :: "tool_call \<Rightarrow> bool" where
  "identities_match c \<longleftrightarrow> (let r = tc_run c; t = tc_task c; a = tc_agent c; ws = tc_workspace c; h = tc_sandbox c in
     \<not> (task_run_id t \<noteq> run_id r \<or> run_task r \<noteq> Some (task_id t) \<or> agent_run a \<noteq> run_id r
        \<or> agent_task a \<noteq> Some (task_id t) \<or> ws_run ws \<noteq> run_id r \<or> sh_run h \<noteq> run_id r
        \<or> sh_project h \<noteq> Some (run_project r) \<or> sh_path h \<noteq> ws_path ws \<or> sh_provider h \<noteq> run_sandbox_name r
        \<or> Some (sh_capabilities h) \<noteq> run_capabilities r \<or> sh_configuration h \<noteq> run_configuration_hash r
        \<or> sh_image h \<noteq> run_image r \<or> sh_daemon h \<noteq> run_daemon r))"

definition leases_held :: "tool_call \<Rightarrow> resource_lease list \<Rightarrow> bool" where
  "leases_held c ls \<longleftrightarrow> list_ex (\<lambda>l. ls_kind l = WORKTREE \<and> ls_resource l = ws_id (tc_workspace c)
         \<and> ls_path l = Some (ws_path (tc_workspace c))) ls
     \<and> list_ex (\<lambda>l. ls_kind l = SANDBOX \<and> ls_resource l = sh_id (tc_sandbox c)) ls"

definition workspace_fits :: "agent_role \<Rightarrow> workspace_kind \<Rightarrow> bool" where
  "workspace_fits k w \<longleftrightarrow> \<not> (k \<in> {ENGINEER, RESEARCHER, ARCHITECT} \<and> w \<noteq> CANDIDATE)
     \<and> \<not> (k = VERIFIER \<and> w \<noteq> VERIFICATION)"

definition validate_context :: "'w gateway_env \<Rightarrow> tool_call \<Rightarrow> ('w, unit) act" where
  "validate_context env c =
     bind_act (lift_res (case agent_effective_kind (tc_agent c) of Inl _ \<Rightarrow> Inl (FleetError COMMAND_DENIED)
        | Inr k \<Rightarrow> Inr k)) (\<lambda>k.
     bind_act (if agent_kind (tc_agent c) = None then ret ()
       else bind_act (query env (\<lambda>s. get_agent_instance s (agent_id (tc_agent c)))) (\<lambda>a.
         demand (a = tc_agent c) COMMAND_DENIED)) (\<lambda>_.
     bind_act (demand (identities_match c) COMMAND_DENIED) (\<lambda>_.
     bind_act (query env (\<lambda>s. Inr (active_leases s (Some (run_id (tc_run c)))))) (\<lambda>ls.
     bind_act (demand (leases_held c ls) RECOVERY_REQUIRED) (\<lambda>_.
     demand (workspace_fits k (ws_kind (tc_workspace c))) COMMAND_DENIED)))))"

section \<open>Intent\<close>

definition proposed_intent :: "tool_call \<Rightarrow> stored_intent option \<Rightarrow> string \<Rightarrow> tool_intent" where
  "proposed_intent c existing iid = (let a = tc_scripted c; fixture = (sa_action a = ''fixture.record_side_effect'') in
     \<lparr>ti_id = iid, ti_run = run_id (tc_run c), ti_task = task_id (tc_task c),
      ti_agent = (case existing of Some s \<Rightarrow> ti_agent (si_intent s) | None \<Rightarrow> agent_id (tc_agent c)),
      ti_role = agent_role (tc_agent c), ti_workflow = workflow (tc_task c),
      ti_stage = (case run_stage (tc_run c) of None \<Rightarrow> IMPLEMENTING | Some st \<Rightarrow> st),
      ti_action = sa_action a, ti_resource = sa_resource a, ti_parameters = sa_parameters a,
      ti_reason = (case existing of Some s \<Rightarrow> ti_reason (si_intent s) | None \<Rightarrow> sa_reason a),
      ti_side_effect = sa_side_effect a, ti_key = sa_key a,
      ti_ttl = (if fixture then Some 600 else None), ti_uses = (if fixture then Some 1 else None)\<rparr>)"

definition or_empty :: "json option \<Rightarrow> json" where
  "or_empty v = (case v of None \<Rightarrow> JObj [] | Some j \<Rightarrow> j)"

definition replay_existing :: "stored_intent option \<Rightarrow> string \<Rightarrow> json option res" where
  "replay_existing existing h = (case existing of None \<Rightarrow> Inr None
     | Some s \<Rightarrow>
         if si_hash s \<noteq> h then Inl (FleetError COMMAND_DENIED)
         else if si_status s = EXECUTED then Inr (Some (or_empty (si_result s)))
         else if si_status s = IntentDenied then
           Inl (ApprovalDeniedError (case si_approval s of None \<Rightarrow> ''unknown''
             | Some q \<Rightarrow> if q = [] then ''unknown'' else q))
         else Inr None)"

section \<open>Permission\<close>

fun permission_value :: "permission_outcome \<Rightarrow> string" where
  "permission_value ALLOW = ''allow''"
| "permission_value DENY = ''deny''"
| "permission_value REQUIRE_APPROVAL = ''require_approval''"

definition decision_json :: "'w gateway_env \<Rightarrow> tool_intent \<Rightarrow> permission_decision \<Rightarrow> json" where
  "decision_json env i d = JObj [(''intent_id'', JStr (ti_id i)), (''intent_hash'', JStr (hash_of env (intent_json i))),
     (''action'', JStr (ti_action i)), (''resource'', resource_json (ti_resource i)),
     (''outcome'', JStr (permission_value (pd_outcome d))), (''decision_code'', JStr (pd_code d)),
     (''explanation'', JStr (gw_explanation env d)), (''protected'', JBool (pd_protected d)),
     (''matched_rule_ids'', JArr (map JStr (pd_rules d))),
     (''effective_scope'', case pd_scope d of None \<Rightarrow> JNull | Some x \<Rightarrow> scope_json x),
     (''risk'', JStr (pd_risk d)), (''grant_id'', opt_str (pd_grant d)), (''source_rule_id'', opt_str (pd_source d))]"

definition ask_broker :: "'w gateway_env \<Rightarrow> tool_intent \<Rightarrow> task_spec \<Rightarrow> sandbox_capabilities \<Rightarrow> ('w, permission_decision) act" where
  "ask_broker env i t caps g = query env (\<lambda>s. evaluate_permission (gw_policy env (gx_tick g))
     \<lparr>pw_store = s, pw_file = gw_file env (gx_tick g), pw_backups = []\<rparr> i t caps) g"

definition record_permission_decision :: "'w gateway_env \<Rightarrow> run \<Rightarrow> tool_intent \<Rightarrow> permission_decision \<Rightarrow> ('w, unit) act" where
  "record_permission_decision env r i d =
     (case redact (gw_base env) (decision_json env i d) of (cleaned, summary) \<Rightarrow>
      bind_act (fresh_act env) (\<lambda>eid.
      bind_act (now_act env) (\<lambda>at.
      transact env (\<lambda>fx. append_event fx
        \<lparr>event_id = eid, event_type = ''permission.decision'', event_occurred_at = at,
         event_project = run_project r, event_run = Some (run_id r), event_task = Some (ti_task i),
         event_agent = Some (ti_agent i), event_correlation = run_correlation r, event_sequence = None,
         event_payload = cleaned, event_redactions = summary\<rparr>))))"

definition deny_act :: "'w gateway_env \<Rightarrow> stored_intent option \<Rightarrow> tool_intent \<Rightarrow> string \<Rightarrow> ('w, unit) act" where
  "deny_act env existing i h =
     bind_act (if existing = None then bind_act (transact env (\<lambda>fx. reserve_intent fx i h)) (\<lambda>_. ret ()) else ret ()) (\<lambda>_.
     bind_act (transact env (\<lambda>fx. deny_intent (ti_id i))) (\<lambda>_.
     raise_exn (FleetError COMMAND_DENIED)))"

section \<open>Reservation\<close>

definition resolve_pending :: "'w gateway_env \<Rightarrow> permission_decision \<Rightarrow> stored_intent \<Rightarrow> ('w, stored_intent) act" where
  "resolve_pending env d s =
     (if si_status s \<noteq> PENDING_APPROVAL then ret s
      else case si_approval s of
        None \<Rightarrow> raise_exn (FleetError INTERNAL_ERROR)
      | Some rid \<Rightarrow>
          bind_act (query env (\<lambda>db. get_approval db rid)) (\<lambda>q.
          if ap_status q = ApPending then raise_exn (ApprovalRequiredError (ap_id q))
          else if ap_status q = ApDenied then raise_exn (ApprovalDeniedError (ap_id q))
          else bind_act (demand (pd_outcome d = ALLOW) APPROVAL_INVALID) (\<lambda>_.
            transact env (\<lambda>fx. consume_grant_and_reserve fx (ap_id q) (si_hash s)))))"

definition resume_existing :: "'w gateway_env \<Rightarrow> permission_decision \<Rightarrow> stored_intent \<Rightarrow> ('w, unit) act" where
  "resume_existing env d s =
     bind_act (resolve_pending env d s) (\<lambda>s'.
     bind_act (demand (si_status s' = RESERVED) COMMAND_DENIED) (\<lambda>_.
     bind_act (demand (pd_outcome d = ALLOW) APPROVAL_INVALID) (\<lambda>_.
     demand (\<not> (si_status s = RESERVED \<and> ti_action (si_intent s) = ''command.run'')) COMMAND_OUTCOME_AMBIGUOUS)))"

definition requested_approval ::
    "tool_intent \<Rightarrow> string \<Rightarrow> permission_decision \<Rightarrow> string \<Rightarrow> int \<Rightarrow> approval_request" where
  "requested_approval i h d qid now = \<lparr>ap_id = qid, ap_intent = ti_id i, ap_run = ti_run i, ap_hash = h,
     ap_role = ti_role i, ap_action = ti_action i, ap_resource = ti_resource i, ap_reason = ti_reason i,
     ap_status = ApPending,
     ap_choices = (if pd_choices d = [] then [ChoiceDeny, ALLOW_ONCE] else pd_choices d),
     ap_scope = map_option scope_json (pd_scope d), ap_resolution = None, ap_rule = None,
     ap_created = now, ap_expires = now + minutes 10, ap_resolved = None, ap_denial_reason = None\<rparr>"

definition start_fresh ::
    "'w gateway_env \<Rightarrow> tool_intent \<Rightarrow> string \<Rightarrow> permission_decision \<Rightarrow> ('w, unit) act" where
  "start_fresh env i h d =
     (if pd_outcome d = REQUIRE_APPROVAL then
        bind_act (now_act env) (\<lambda>now.
        bind_act (fresh_act env) (\<lambda>qid.
        bind_act (transact env (\<lambda>fx. create_approval_and_pause fx i h (requested_approval i h d qid now))) (\<lambda>_.
        raise_exn (ApprovalRequiredError qid))))
      else case pd_grant d of
        Some gid \<Rightarrow>
          bind_act (lift_res (some_or (FleetError APPROVAL_INVALID) (pd_scope d))) (\<lambda>x.
          bind_act (transact env (\<lambda>fx. consume_matching_grant_and_reserve fx gid i h (hash_of env (scope_json x)))) (\<lambda>_.
          ret ()))
      | None \<Rightarrow> (case pd_source d of
          Some rule_id \<Rightarrow>
            bind_act (lift_res (some_or (FleetError APPROVAL_INVALID) (pd_scope d))) (\<lambda>x.
            bind_act (transact env (\<lambda>fx. reserve_trust_rule_intent fx i h (hash_of env (scope_json x)) rule_id)) (\<lambda>_.
            ret ()))
        | None \<Rightarrow> bind_act (transact env (\<lambda>fx. reserve_intent fx i h)) (\<lambda>_. ret ())))"

definition claim_dispatch :: "'w gateway_env \<Rightarrow> tool_intent \<Rightarrow> string \<Rightarrow> ('w, admission) act" where
  "claim_dispatch env i h =
     bind_act (transact env (\<lambda>fx. claim_reserved_intent_for_dispatch fx (ti_id i) h)) (\<lambda>won.
     if won then ret (Begin i)
     else bind_act (query env (\<lambda>s. get_intent s (ti_id i))) (\<lambda>s.
       if si_hash s = h \<and> si_status s = EXECUTED then ret (Replay (or_empty (si_result s)))
       else raise_exn (FleetError COMMAND_OUTCOME_AMBIGUOUS)))"

definition the_provider :: "'w gateway_env \<Rightarrow> string \<Rightarrow> 'w provider res" where
  "the_provider env name = some_or (FleetError SANDBOX_UNAVAILABLE) (gw_providers env name)"

definition authorize ::
    "'w gateway_env \<Rightarrow> tool_call \<Rightarrow> stored_intent option \<Rightarrow> tool_intent \<Rightarrow> string \<Rightarrow> ('w, admission) act" where
  "authorize env c existing i h =
     bind_act (lift_res (the_provider env (sh_provider (tc_sandbox c)))) (\<lambda>p.
     bind_act (ask_broker env i (tc_task c) (pv_capabilities p)) (\<lambda>d.
     bind_act (record_permission_decision env (tc_run c) i d) (\<lambda>_.
     bind_act (if pd_outcome d = DENY then deny_act env existing i h
       else case existing of Some s \<Rightarrow> resume_existing env d s | None \<Rightarrow> start_fresh env i h d) (\<lambda>_.
     claim_dispatch env i h))))"

definition admit :: "'w gateway_env \<Rightarrow> tool_call \<Rightarrow> ('w, admission) act" where
  "admit env c =
     bind_act (validate_context env c) (\<lambda>_.
     bind_act (demand (\<not> secret_data env (scripted_json (tc_scripted c))) COMMAND_DENIED) (\<lambda>_.
     bind_act (query env (\<lambda>s. Inr (find_intent s (run_id (tc_run c)) (sa_key (tc_scripted c))))) (\<lambda>existing.
     bind_act (case existing of Some s \<Rightarrow> ret (ti_id (si_intent s)) | None \<Rightarrow> fresh_act env) (\<lambda>iid.
     let i = proposed_intent c existing iid; h = hash_of env (intent_json i) in
     bind_act (lift_res (replay_existing existing h)) (\<lambda>replay.
     case replay of Some v \<Rightarrow> ret (Replay v) | None \<Rightarrow> authorize env c existing i h)))))"

end
