(* ===== verification/Gateway_Execution.thy ===== *)
theory Gateway_Execution
  imports Gateway
begin

text \<open>
  The execution of an admitted intent: \<open>_execute_reserved\<close> with the file tools, the sandboxed
  command with its lease, the recovery of a failed execution, and the command evidence; then
  \<open>execute\<close> as a whole.
\<close>

section \<open>Leases of executions\<close>

definition text_members :: "json \<Rightarrow> string list \<Rightarrow> string list option" where
  "text_members m ks = (let vs = map (text_field m) ks in if None \<in> set vs then None else Some (map the vs))"

definition identity_keys :: "string list" where
  "identity_keys = [''intent_id'', ''project_id'', ''task_id'', ''agent_instance_id'', ''stage'']"

definition expected_labels ::
    "resource_lease \<Rightarrow> sandbox_handle \<Rightarrow> (string \<times> json) list" where
  "expected_labels l h = (let m = ls_metadata l; f = (\<lambda>k. case json_get k m of None \<Rightarrow> JNull | Some v \<Rightarrow> v) in
     [(''agent-fleet.agent'', f ''agent_instance_id''), (''agent-fleet.daemon'', opt_str (sh_daemon h)),
      (''agent-fleet.execution'', JStr (ls_resource l)), (''agent-fleet.installation'', opt_str (sh_scope h)),
      (''agent-fleet.intent'', f ''intent_id''), (''agent-fleet.managed'', JStr ''true''),
      (''agent-fleet.project'', f ''project_id''), (''agent-fleet.run'', JStr (ls_run l)),
      (''agent-fleet.sandbox'', JStr (sh_id h)), (''agent-fleet.stage'', f ''stage''),
      (''agent-fleet.task'', f ''task_id'')])"

definition execution_lease_binding_is_valid :: "resource_lease \<Rightarrow> execution_handle \<Rightarrow> sandbox_handle \<Rightarrow> bool" where
  "execution_lease_binding_is_valid l x h \<longleftrightarrow>
     \<not> (xh_id x \<noteq> ls_resource l \<or> xh_run x \<noteq> ls_run l \<or> sh_run h \<noteq> ls_run l \<or> xh_sandbox x \<noteq> sh_id h
        \<or> xh_provider x \<noteq> sh_provider h \<or> json_get ''provider'' (ls_metadata l) \<noteq> Some (JStr (xh_provider x)))
     \<and> (xh_provider x = ''docker'' \<longrightarrow>
          text_members (ls_metadata l) identity_keys \<noteq> None
          \<and> sh_project h = text_field (ls_metadata l) ''project_id''
          \<and> json_get ''creation_dispatched'' (ls_metadata l) = Some (JBool True)
          \<and> json_eq (labels_json (xh_labels x)) (JObj (expected_labels l h)))"

definition cleanup_proof_binding_is_valid :: "resource_lease \<Rightarrow> sandbox_handle \<Rightarrow> json option \<Rightarrow> bool" where
  "cleanup_proof_binding_is_valid l h binding = (case binding of
     Some (JObj ms) \<Rightarrow> sh_provider h = ''docker'' \<and> text_members (ls_metadata l) identity_keys \<noteq> None
       \<and> sh_project h = text_field (ls_metadata l) ''project_id'' \<and> sh_daemon h \<noteq> None \<and> sh_scope h \<noteq> None
       \<and> py_eq (JObj ms) (JObj (expected_labels l h))
   | _ \<Rightarrow> False)"

definition execution_recovery_request_from_lease :: "resource_lease \<Rightarrow> sandbox_handle \<Rightarrow> recovery_request res" where
  "execution_recovery_request_from_lease l h = (let m = ls_metadata l in
     bind_res (some_or recovery_required (case json_get ''creation_dispatched'' m of Some (JBool b) \<Rightarrow> Some b | _ \<Rightarrow> None)) (\<lambda>b.
     bind_res (require (recovery_request_ok l h) recovery_required) (\<lambda>_.
     bind_res (require (\<not> (ls_kind l \<noteq> EXECUTION \<or> ls_run l \<noteq> sh_run h \<or> text_field m ''project_id'' \<noteq> sh_project h
         \<or> text_field m ''provider'' \<noteq> Some (sh_provider h))) recovery_required) (\<lambda>_.
     Inr \<lparr>rq_execution = ls_resource l, rq_sandbox = sh_id h, rq_run = ls_run l, rq_project = text_field m ''project_id'',
       rq_provider = text_field m ''provider'', rq_intent = text_field m ''intent_id'',
       rq_task = text_field m ''task_id'', rq_agent = text_field m ''agent_instance_id'',
       rq_stage = text_field m ''stage'', rq_dispatched = b\<rparr>))))"

section \<open>Recovery of a failed execution\<close>

definition catch_act :: "('w, 'a) act \<Rightarrow> (exn \<Rightarrow> ('w, 'a) act) \<Rightarrow> ('w, 'a) act" where
  "catch_act m f g = (case m g of (g', Inl e) \<Rightarrow> f e g' | (g', Inr x) \<Rightarrow> (g', Inr x))"

definition cleanup_proof :: "'w gateway_env \<Rightarrow> 'w provider \<Rightarrow> failure \<Rightarrow> cleanup_result option" where
  "cleanup_proof env p f = (case fl_proof f of
     Some (JObj ms) \<Rightarrow> (case gw_cleanup_of env (JObj ms) of
        Some c \<Rightarrow> if cleanup_ok c \<and> cu_provider c = sb_provider (pv_capabilities p) \<and> cu_complete c \<and> cu_reconciled c
          then Some c else None
      | None \<Rightarrow> None)
   | _ \<Rightarrow> None)"

definition lease_sandbox :: "'w gateway_env \<Rightarrow> resource_lease \<Rightarrow> sandbox_handle res" where
  "lease_sandbox env l = (case json_get ''sandbox_handle'' (ls_metadata l) of
     Some (JObj ms) \<Rightarrow>
       bind_res (some_or ValueError (sandbox_of (gw_checks env) (JObj ms))) (\<lambda>h.
       bind_res (require (handle_ok h) ValueError) (\<lambda>_. Inr h))
   | _ \<Rightarrow> Inl recovery_required)"

definition lease_handle :: "'w gateway_env \<Rightarrow> resource_lease \<Rightarrow> execution_handle res" where
  "lease_handle env l = (case json_get ''execution_handle'' (ls_metadata l) of
     Some (JObj ms) \<Rightarrow>
       bind_res (some_or ValueError (gw_handle_of env (JObj ms))) (\<lambda>x.
       validate_execution_handle (sha256 (gw_base env)) x)
   | _ \<Rightarrow> Inl recovery_required)"

definition proved_absent :: "'w gateway_env \<Rightarrow> 'w provider \<Rightarrow> resource_lease \<Rightarrow> failure \<Rightarrow> ('w, cleanup_result) act" where
  "proved_absent env p l f = (case ls_status l of
     LeaseActive \<Rightarrow>
       bind_act (lift_res (lease_handle env l)) (\<lambda>x.
       bind_act (lift_res (lease_sandbox env l)) (\<lambda>h.
       bind_act (demand (execution_lease_binding_is_valid l x h) RECOVERY_REQUIRED) (\<lambda>_.
       bind_act (world_act (pv_cleanup p x)) (\<lambda>cu.
       bind_act (demand (cu_complete cu) SANDBOX_CLEANUP_FAILED) (\<lambda>_. ret cu)))))
   | LeaseCreating \<Rightarrow>
       bind_act (lift_res (lease_sandbox env l)) (\<lambda>h.
       bind_act (case (if cleanup_proof_binding_is_valid l h (fl_binding f) then cleanup_proof env p f else None) of
           Some cu \<Rightarrow> ret cu
         | None \<Rightarrow>
             bind_act (lift_res (execution_recovery_request_from_lease l h)) (\<lambda>rq.
             world_act (pv_reconcile p h rq))) (\<lambda>cu.
       bind_act (demand (cu_complete cu) SANDBOX_CLEANUP_FAILED) (\<lambda>_. ret cu)))
   | _ \<Rightarrow> raise_exn UnboundLocalError)"

definition error_json :: "exn \<Rightarrow> json" where
  "error_json e = (case e of FleetError c \<Rightarrow> JStr (error_value c)
     | ApprovalRequiredError _ \<Rightarrow> JStr (error_value APPROVAL_REQUIRED)
     | ApprovalDeniedError _ \<Rightarrow> JStr (error_value APPROVAL_DENIED)
     | _ \<Rightarrow> JNull)"

definition recovered_metadata :: "'w gateway_env \<Rightarrow> resource_lease \<Rightarrow> failure \<Rightarrow> cleanup_result \<Rightarrow> json" where
  "recovered_metadata env l f cu = json_set ''recovery'' (JObj
       [(''original_error_type'', JStr (fl_type f)), (''original_error_code'', error_json (fl_exn f)),
        (''cleanup_result'', cleanup_json (gw_time env) cu),
        (''cleanup_sha256'', JStr (hash_of env (cleanup_json (gw_time env) cu)))])
     (json_set ''schema_version'' (JInt 3) (ls_metadata l))"

definition recover_failed_execution_lease ::
    "'w gateway_env \<Rightarrow> 'w provider \<Rightarrow> string \<Rightarrow> failure \<Rightarrow> ('w, unit) act" where
  "recover_failed_execution_lease env p lid f =
     bind_act (query env (\<lambda>s. the_lease s lid)) (\<lambda>l.
     if ls_status l \<in> {LeaseReleased, LeaseRecovered} then ret ()
     else catch_act
       (bind_act (proved_absent env p l f) (\<lambda>cu.
        bind_act (transact env (\<lambda>fx. finalize_lease fx lid (lease_status_value LeaseRecovered)
            (recovered_metadata env l f cu))) (\<lambda>_. ret ())))
       (\<lambda>e. bind_act (query env (\<lambda>s. the_lease s lid)) (\<lambda>current.
          bind_act (if ls_status current \<notin> {LeaseFailed, LeaseReleased, LeaseRecovered}
            then transact env (\<lambda>fx. update_lease_status fx lid (lease_status_value LeaseFailed)) else ret ()) (\<lambda>_.
          raise_exn (if e = CancelledError then CancelledError else FleetError SANDBOX_CLEANUP_FAILED)))))"

section \<open>One execution\<close>

record execution_context =
  xc_call :: tool_call
  xc_intent :: tool_intent
  xc_provider :: string
  xc_lease :: string

definition lease_metadata :: "execution_context \<Rightarrow> int \<Rightarrow> bool \<Rightarrow> (string \<times> json) list" where
  "lease_metadata x version sent = (let c = xc_call x; i = xc_intent x in
     [(''schema_version'', JInt version), (''provider'', JStr (xc_provider x)), (''intent_id'', JStr (ti_id i)),
      (''project_id'', JStr (run_project (tc_run c))), (''task_id'', JStr (task_id (tc_task c))),
      (''agent_instance_id'', JStr (ti_agent i)), (''stage'', JStr (stage_value (ti_stage i))),
      (''creation_dispatched'', JBool sent), (''sandbox_handle'', handle_json (tc_sandbox c))])"

definition execution_lease :: "execution_context \<Rightarrow> string \<Rightarrow> int \<Rightarrow> resource_lease" where
  "execution_lease x eid now = \<lparr>ls_id = xc_lease x, ls_run = run_id (tc_run (xc_call x)), ls_kind = EXECUTION,
     ls_resource = eid, ls_path = None, ls_status = LeaseCreating, ls_created = now, ls_updated = now,
     ls_metadata = JObj (lease_metadata x 2 False)\<rparr>"

text \<open>The callbacks: \<open>record_creation_dispatch\<close> and \<open>bind_created_resource\<close>, over the
  two variables they assign.\<close>

definition record_creation_dispatch :: "'w gateway_env \<Rightarrow> execution_context \<Rightarrow> ('w, resource_lease) act" where
  "record_creation_dispatch env x =
     transact env (\<lambda>fx. mark_execution_creation_dispatched fx (gw_checks env) (xc_lease x))"

definition bind_created_resource ::
    "'w gateway_env \<Rightarrow> execution_context \<Rightarrow> resource_lease \<Rightarrow> execution_handle option \<Rightarrow> execution_handle \<Rightarrow>
     ('w, resource_lease) act" where
  "bind_created_resource env x l created h =
     bind_act (demand (\<not> (created \<noteq> None \<or> \<not> execution_lease_binding_is_valid l h (tc_sandbox (xc_call x))))
       SANDBOX_CREATION_FAILED) (\<lambda>_.
     transact env (\<lambda>fx. activate_lease fx (xc_lease x) (JObj (lease_metadata x 2 True
       @ [(''execution_handle'', execution_handle_json h)]))))"

text \<open>The provider runs, with the lease and the created resource the callbacks leave. The second
  callback assigns the resource before it activates the lease.\<close>

primrec run_native ::
    "'w gateway_env \<Rightarrow> execution_context \<Rightarrow> 'w native \<Rightarrow> resource_lease \<Rightarrow> execution_handle option \<Rightarrow> 'w gateway \<Rightarrow>
     'w gateway \<times> execution_handle option \<times> (failure + exec_result)" where
  "run_native env x (Finished w r) l created g = (g\<lparr>gx_world := w\<rparr>, created, r)"
| "run_native env x (Dispatching w k) l created g =
     (case record_creation_dispatch env x (g\<lparr>gx_world := w\<rparr>) of
        (g', Inl e) \<Rightarrow> run_native env x (k (Some e)) l created g'
      | (g', Inr l') \<Rightarrow> run_native env x (k None) l' created g')"
| "run_native env x (Creating w h k) l created g =
     (let bound = (created = None \<and> execution_lease_binding_is_valid l h (tc_sandbox (xc_call x)));
          created' = (if bound then Some h else created) in
      case bind_created_resource env x l created h (g\<lparr>gx_world := w\<rparr>) of
        (g', Inl e) \<Rightarrow> run_native env x (k (Some e)) l created' g'
      | (g', Inr _) \<Rightarrow> run_native env x (k None) l created' g')"

definition plain_failure :: "'w gateway_env \<Rightarrow> exn \<Rightarrow> failure" where
  "plain_failure env e = \<lparr>fl_exn = e, fl_type = gw_class env e, fl_proof = None, fl_binding = None\<rparr>"

definition execution_bound ::
    "'w gateway_env \<Rightarrow> execution_context \<Rightarrow> 'w provider \<Rightarrow> string \<Rightarrow> string \<Rightarrow> sandbox_requirements \<Rightarrow>
     execution_handle option \<Rightarrow> execution_metadata \<Rightarrow> inspection \<Rightarrow> bool" where
  "execution_bound env x p eid net q created em i \<longleftrightarrow> (let h = tc_sandbox (xc_call x); r = tc_run (xc_call x) in
     \<not> (em_id em \<noteq> eid \<or> em_provider em \<noteq> sb_provider (pv_capabilities p)
        \<or> Some (em_configuration em) \<noteq> sh_configuration h
        \<or> em_capabilities em \<noteq> hash_of env (capabilities_json (pv_capabilities p))
        \<or> em_inspection_hash em \<noteq> Some (hash_of env (inspection_json (gw_time env) i))
        \<or> in_sandbox i \<noteq> sh_id h \<or> in_provider i \<noteq> sh_provider h \<or> \<not> in_ready i
        \<or> in_capabilities i \<noteq> sh_capabilities h \<or> Some (in_configuration i) \<noteq> sh_configuration h
        \<or> in_image i \<noteq> sh_image h \<or> in_image i \<noteq> run_image r
        \<or> in_daemon i \<noteq> sh_daemon h \<or> in_daemon i \<noteq> run_daemon r
        \<or> in_network i \<noteq> net \<or> missing_requirements i q \<noteq> []
        \<or> created = None \<or> created \<noteq> Some (em_handle em) \<or> \<not> cu_complete (em_cleanup em)))"

definition checked_execution ::
    "'w gateway_env \<Rightarrow> execution_context \<Rightarrow> 'w provider \<Rightarrow> string \<Rightarrow> string \<Rightarrow> execution_handle option \<Rightarrow> exec_result \<Rightarrow>
     (execution_metadata \<times> inspection \<times> sandbox_requirements) res" where
  "checked_execution env x p eid net created xr =
     (let bad = FleetError SANDBOX_INSPECTION_FAILED in
      bind_res (some_or bad (xr_execution xr)) (\<lambda>em.
      bind_res (some_or bad (em_inspection em)) (\<lambda>i.
      bind_res (some_or bad (run_requirements (tc_run (xc_call x)))) (\<lambda>q.
      bind_res (require (execution_bound env x p eid net q created em i) bad) (\<lambda>_.
      Inr (em, i, q))))))"

definition terminal_metadata ::
    "'w gateway_env \<Rightarrow> execution_context \<Rightarrow> execution_metadata \<Rightarrow> inspection \<Rightarrow> exec_result \<Rightarrow> json" where
  "terminal_metadata env x em i xr = JObj (lease_metadata x 3 True @
     [(''execution_handle'', execution_handle_json (em_handle em)),
      (''execution_metadata_sha256'', JStr (hash_of env (metadata_json (gw_time env) em))),
      (''inspection_sha256'', opt_str (em_inspection_hash em)),
      (''cleanup_sha256'', JStr (hash_of env (cleanup_json (gw_time env) (em_cleanup em)))),
      (''inspection'', inspection_json (gw_time env) i),
      (''cleanup_result'', cleanup_json (gw_time env) (em_cleanup em)),
      (''terminal_result'', JObj [(''exit_code'', JInt (xr_exit xr)), (''timed_out'', JBool (xr_timed_out xr)),
         (''output_truncated'', JBool (xr_truncated xr)), (''started_at'', JStr (gw_iso env (xr_started xr))),
         (''completed_at'', JStr (gw_iso env (xr_completed xr)))]),
      (''result_sha256'', JStr (hash_of env (JObj [(''exit_code'', JInt (xr_exit xr)),
         (''started_at'', JStr (gw_time env (xr_started xr))), (''completed_at'', JStr (gw_time env (xr_completed xr))),
         (''timed_out'', JBool (xr_timed_out xr)), (''output_truncated'', JBool (xr_truncated xr))])))])"

text \<open>The guarded part: run, check, release the lease. Its failure is what the recovery gets.\<close>

definition guarded_execution ::
    "'w gateway_env \<Rightarrow> execution_context \<Rightarrow> 'w provider \<Rightarrow> resource_lease \<Rightarrow> exec_request \<Rightarrow> string \<Rightarrow> string \<Rightarrow> 'w gateway \<Rightarrow>
     'w gateway \<times> (failure + exec_result \<times> execution_metadata \<times> inspection \<times> sandbox_requirements)" where
  "guarded_execution env x p l rq eid net g =
     (case run_native env x (pv_exec p (tc_sandbox (xc_call x)) rq (gx_world g)) l None g of
        (g1, created, Inl f) \<Rightarrow> (g1, Inl f)
      | (g1, created, Inr xr) \<Rightarrow>
          (case checked_execution env x p eid net created xr of
             Inl e \<Rightarrow> (g1, Inl (plain_failure env e))
           | Inr (em, i, q) \<Rightarrow>
               (case transact env (\<lambda>fx. finalize_lease fx (xc_lease x) (lease_status_value LeaseReleased)
                   (terminal_metadata env x em i xr)) g1 of
                  (g2, Inl e) \<Rightarrow> (g2, Inl (plain_failure env e))
                | (g2, Inr _) \<Rightarrow> (g2, Inr (xr, em, i, q)))))"

definition leased_execution ::
    "'w gateway_env \<Rightarrow> execution_context \<Rightarrow> 'w provider \<Rightarrow> resource_lease \<Rightarrow> exec_request \<Rightarrow> string \<Rightarrow> string \<Rightarrow>
     ('w, exec_result \<times> execution_metadata \<times> inspection \<times> sandbox_requirements) act" where
  "leased_execution env x p l rq eid net g =
     (case guarded_execution env x p l rq eid net g of
        (g', Inr v) \<Rightarrow> (g', Inr v)
      | (g', Inl f) \<Rightarrow>
          bind_act (recover_failed_execution_lease env p (xc_lease x) f) (\<lambda>_. raise_exn (fl_exn f)) g')"

end
