(* ===== verification/Gateway_Tools.thy ===== *)
theory Gateway_Tools
  imports Gateway_Execution
begin

text \<open>
  The tools behind an admitted intent: the file tools, the sandboxed command with its evidence
  (\<open>_execute_reserved\<close>), and \<open>ToolGateway.execute\<close> as a whole.
\<close>

section \<open>File tools\<close>

definition text_parameter :: "tool_intent \<Rightarrow> string \<Rightarrow> ('w, string) act" where
  "text_parameter i k = lift_res (some_or (FleetError COMMAND_DENIED) (text_field (ti_parameters i) k))"

definition path_of :: "tool_intent \<Rightarrow> string" where
  "path_of i = res_identifier (ti_resource i)"

definition write_file :: "'w gateway_env \<Rightarrow> workspace \<Rightarrow> tool_intent \<Rightarrow> ('w, json) act" where
  "write_file env ws i =
     bind_act (text_parameter i ''content'') (\<lambda>content.
     bind_act (demand (\<not> secret_text env content) COMMAND_DENIED) (\<lambda>_.
     bind_act (world_act (wf_write (gw_files env) (ws_path ws) (path_of i) content)) (\<lambda>n.
     ret (JObj [(''path'', JStr (path_of i)), (''bytes_written'', JInt n)]))))"

definition visible_paths :: "'w gateway_env \<Rightarrow> task_spec \<Rightarrow> workspace \<Rightarrow> ('w, string list) act" where
  "visible_paths env t ws =
     bind_act (world_act (wf_list (gw_files env) (ws_path ws))) (\<lambda>ps. ret (filter (path_in_task_scope (gw_fold env) t) ps))"

definition list_files :: "'w gateway_env \<Rightarrow> task_spec \<Rightarrow> workspace \<Rightarrow> ('w, json) act" where
  "list_files env t ws = bind_act (visible_paths env t ws) (\<lambda>ps. ret (JObj [(''paths'', JArr (map JStr ps))]))"

definition read_file :: "'w gateway_env \<Rightarrow> task_spec \<Rightarrow> workspace \<Rightarrow> tool_intent \<Rightarrow> ('w, json) act" where
  "read_file env t ws i =
     bind_act (demand (path_in_task_scope (gw_fold env) t (path_of i)) PATH_OUTSIDE_SCOPE) (\<lambda>_.
     bind_act (world_act (wf_read (gw_files env) (ws_path ws) (path_of i))) (\<lambda>content.
     bind_act (demand (\<not> secret_text env content) COMMAND_DENIED) (\<lambda>_.
     ret (JObj [(''path'', JStr (path_of i)), (''content'', JStr content), (''sha256'', JStr (sha_of env content))]))))"

definition search_text :: "'w gateway_env \<Rightarrow> task_spec \<Rightarrow> workspace \<Rightarrow> tool_intent \<Rightarrow> ('w, json) act" where
  "search_text env t ws i =
     bind_act (text_parameter i ''query'') (\<lambda>q.
     bind_act (visible_paths env t ws) (\<lambda>ps.
     bind_act (world_act (wf_search (gw_files env) (ws_path ws) q ps)) (\<lambda>results.
     bind_act (demand (\<not> secret_data env results) COMMAND_DENIED) (\<lambda>_.
     ret (JObj [(''results'', results)])))))"

definition apply_edit :: "'w gateway_env \<Rightarrow> workspace \<Rightarrow> tool_intent \<Rightarrow> ('w, json) act" where
  "apply_edit env ws i =
     bind_act (text_parameter i ''expected_sha256'') (\<lambda>sha.
     bind_act (text_parameter i ''old'') (\<lambda>old.
     bind_act (text_parameter i ''new'') (\<lambda>new.
     bind_act (lift_res (case json_get ''expected_matches'' (ti_parameters i) of
         Some (JInt n) \<Rightarrow> Inr n | _ \<Rightarrow> Inl (FleetError COMMAND_DENIED))) (\<lambda>n.
     bind_act (world_act (wf_edit (gw_files env) (ws_path ws) (path_of i) sha old new n)) (\<lambda>written.
     ret (JObj [(''path'', JStr (path_of i)), (''bytes_written'', JInt written)]))))))"

definition delete_path :: "'w gateway_env \<Rightarrow> workspace \<Rightarrow> tool_intent \<Rightarrow> ('w, json) act" where
  "delete_path env ws i =
     bind_act (text_parameter i ''expected_sha256'') (\<lambda>sha.
     bind_act (world_act (wf_delete (gw_files env) (ws_path ws) (path_of i) sha)) (\<lambda>_.
     ret (JObj [(''path'', JStr (path_of i)), (''deleted'', JBool True)])))"

definition compute_patch :: "'w gateway_env \<Rightarrow> workspace \<Rightarrow> ('w, patch_info) act" where
  "compute_patch env ws = (case gw_patch env of None \<Rightarrow> raise_exn (FleetError INTERNAL_ERROR)
     | Some f \<Rightarrow> world_act (f ws))"

definition get_diff :: "'w gateway_env \<Rightarrow> workspace \<Rightarrow> ('w, json) act" where
  "get_diff env ws =
     bind_act (compute_patch env ws) (\<lambda>p.
     ret (JObj [(''patch'', JStr (pi_content p)), (''patch_sha256'', JStr (pi_sha p)),
       (''changed_paths'', JArr (map JStr (pi_paths p)))]))"

section \<open>Commands\<close>

definition side_effect_command :: command_spec where
  "side_effect_command = \<lparr>command_id = ''approval-proof'', executable = ''agent-fleet-fake-side-effect'',
     argv = [''record'', ''approved-once''], logical_cwd = ''.'', environment = [], timeout_seconds = 60,
     max_output_bytes = 64000, network_requirement = NetNone\<rparr>"

text \<open>The membership test of the network mode hashes the value: a list or a dictionary raises.\<close>

definition network_parameter :: "json option \<Rightarrow> string res" where
  "network_parameter v = (case v of
     Some (JStr s) \<Rightarrow> if s \<in> {''none'', ''approved-unrestricted''} then Inr s else Inl (FleetError COMMAND_DENIED)
   | Some (JArr _) \<Rightarrow> Inl TypeError
   | Some (JObj _) \<Rightarrow> Inl TypeError
   | _ \<Rightarrow> Inl (FleetError COMMAND_DENIED))"

definition resolved_spec :: "'w gateway_env \<Rightarrow> tool_call \<Rightarrow> tool_intent \<Rightarrow> (command_spec \<times> string) res" where
  "resolved_spec env c i =
     bind_res (some_or (FleetError COMMAND_DENIED) (text_field (ti_parameters i) ''command_id'')) (\<lambda>cid.
     bind_res (some_or (FleetError COMMAND_DENIED) (text_field (ti_parameters i) ''command_spec_sha256'')) (\<lambda>h.
     bind_res (network_parameter (json_get ''network_mode'' (ti_parameters i))) (\<lambda>net.
     bind_res (some_or (FleetError COMMAND_NOT_REVIEWED) (task_command (tc_task c) cid (sh_provider (tc_sandbox c)))) (\<lambda>spec.
     bind_res (require (\<not> (hash_of env (command_json spec) \<noteq> h
         \<or> (case run_configuration (tc_run c) of None \<Rightarrow> True | Some cf \<Rightarrow> sc_network cf \<noteq> net)
         \<or> net \<notin> set (sb_networks (sh_capabilities (tc_sandbox c))))) (FleetError COMMAND_NOT_REVIEWED)) (\<lambda>_.
     Inr (spec, net))))))"

definition workspace_patch_sha :: "'w gateway_env \<Rightarrow> run \<Rightarrow> workspace \<Rightarrow> ('w, string option) act" where
  "workspace_patch_sha env r ws = (case gw_patch env of None \<Rightarrow> ret (run_patch_hash r)
     | Some f \<Rightarrow> bind_act (world_act (f ws)) (\<lambda>p. ret (Some (pi_sha p))))"

definition execution_request :: "'w gateway_env \<Rightarrow> tool_call \<Rightarrow> tool_intent \<Rightarrow> string \<Rightarrow> command_spec \<Rightarrow> string \<Rightarrow> exec_request" where
  "execution_request env c i eid spec net = \<lparr>er_execution = Some eid, er_intent = Some (ti_id i),
     er_task = Some (task_id (tc_task c)), er_agent = Some (ti_agent i), er_stage = Some (ti_stage i),
     er_executable = executable spec, er_argv = argv spec, er_cwd = logical_cwd spec,
     er_environment = environment spec, er_timeout = timeout_seconds spec, er_max_output = max_output_bytes spec,
     er_network = net, er_spec_hash = Some (hash_of env (command_json spec))\<rparr>"

text \<open>The strength of the evidence; the kind of a custom principal is read from its record.\<close>

definition verifier_principal :: "'w gateway_env \<Rightarrow> tool_intent \<Rightarrow> ('w, bool) act" where
  "verifier_principal env i =
     (if ti_role i = ''verifier'' then ret True
      else bind_act (query env (\<lambda>s. get_agent_instance s (ti_agent i))) (\<lambda>a.
        bind_act (lift_res (agent_effective_kind a)) (\<lambda>k. ret (k = VERIFIER))))"

definition unchanged_verification :: "tool_call \<Rightarrow> tool_intent \<Rightarrow> string option \<Rightarrow> string option \<Rightarrow> bool" where
  "unchanged_verification c i prior after \<longleftrightarrow> ti_stage i = VERIFYING \<and> ws_kind (tc_workspace c) = VERIFICATION
     \<and> run_patch_hash (tc_run c) \<noteq> None \<and> prior = run_patch_hash (tc_run c) \<and> after = run_patch_hash (tc_run c)
     \<and> \<not> prior \<noteq> after"

definition strength_of ::
    "'w gateway_env \<Rightarrow> tool_call \<Rightarrow> tool_intent \<Rightarrow> sandbox_capabilities \<Rightarrow> string option \<Rightarrow> string option \<Rightarrow>
     ('w, evidence_strength) act" where
  "strength_of env c i sb prior after =
     bind_act (if sb_level sb = ISOLATED \<and> sb_executes sb then verifier_principal env i else ret False) (\<lambda>v.
     ret (if \<not> sb_executes sb then SIMULATED
       else if v \<and> unchanged_verification c i prior after then INDEPENDENTLY_VERIFIED else OBSERVED))"

definition command_record ::
    "'w gateway_env \<Rightarrow> tool_call \<Rightarrow> tool_intent \<Rightarrow> sandbox_capabilities \<Rightarrow> command_spec \<Rightarrow> exec_request \<Rightarrow> string \<Rightarrow> string \<Rightarrow>
     exec_result \<Rightarrow> sandbox_requirements \<Rightarrow> artifact_metadata \<Rightarrow> string \<Rightarrow> string option \<Rightarrow> string option \<Rightarrow>
     evidence_strength \<Rightarrow> command_evidence" where
  "command_record env c i sb spec rq eid evid xr q shown transcript prior after strength =
     \<lparr>ev_id = evid, ev_run = run_id (tc_run c), ev_task = task_id (tc_task c), ev_agent = ti_agent i,
      ev_role = Some (ti_role i), ev_stage = Some (ti_stage i), ev_workspace = Some (ws_id (tc_workspace c)),
      ev_sandbox = Some (sh_id (tc_sandbox c)), ev_command = command_id spec, ev_command_hash = er_spec_hash rq,
      ev_executable = er_executable rq, ev_argv = er_argv rq, ev_cwd = er_cwd rq, ev_provider = sb_provider sb,
      ev_level = sb_level sb, ev_capabilities = Some (hash_of env (capabilities_json sb)),
      ev_configuration = run_configuration_hash (tc_run c),
      ev_requirements = Some (hash_of env (requirements_json q)), ev_image = run_image (tc_run c),
      ev_daemon = run_daemon (tc_run c), ev_strength = strength, ev_exit = xr_exit xr,
      ev_timed_out = xr_timed_out xr, ev_truncated = xr_truncated xr, ev_transcript = transcript,
      ev_base = ws_base (tc_workspace c), ev_config = config_snapshot_hash (tc_task c), ev_patch = after,
      ev_workspace_kind = ws_kind (tc_workspace c), ev_network = er_network rq, ev_mutated = (prior \<noteq> after),
      ev_execution = Some eid, ev_inspection = Some (am_id shown), ev_inspection_sha = Some (am_sha shown),
      ev_started = xr_started xr, ev_completed = xr_completed xr\<rparr>"

text \<open>What is recorded of a finished execution: inspection, transcript, evidence.\<close>

definition recorded_result ::
    "'w gateway_env \<Rightarrow> tool_call \<Rightarrow> tool_intent \<Rightarrow> sandbox_capabilities \<Rightarrow> command_spec \<Rightarrow> exec_request \<Rightarrow> string \<Rightarrow>
     string option \<Rightarrow> exec_result \<times> execution_metadata \<times> inspection \<times> sandbox_requirements \<Rightarrow> ('w, json) act" where
  "recorded_result env c i sb spec rq eid prior v = (case v of (xr, em, shown_inspection, q) \<Rightarrow>
     bind_act (create_text env SANDBOX_INSPECTION (tc_run c) (tc_task c) (sb_provider sb @ ''-sandbox'') None
         ''application/json'' (gw_inspection_text env shown_inspection)
         (JObj [(''execution_id'', JStr eid), (''canonical_sha256'', opt_str (em_inspection_hash em))])) (\<lambda>shown.
     bind_act (workspace_patch_sha env (tc_run c) (tc_workspace c)) (\<lambda>after.
     bind_act (strength_of env c i sb prior after) (\<lambda>strength.
     let (out, s1) = cleaned_text env (xr_stdout xr); (err, s2) = cleaned_text env (xr_stderr xr) in
     bind_act (create_text env COMMAND_TRANSCRIPT (tc_run c) (tc_task c) (sb_provider sb @ ''-sandbox'') None
         ''text/plain'' (gw_transcript env sb spec rq (am_id shown) xr (prior \<noteq> after) out err)
         (JObj [(''redaction_summary'', JArr (map JStr (sort_strings (s1 @ s2))))])) (\<lambda>transcript.
     bind_act (fresh_act env) (\<lambda>evid.
     let e = command_record env c i sb spec rq eid evid xr q shown (am_id transcript) prior after strength in
     bind_act (lift_res (require (evidence_ok e) ValueError)) (\<lambda>_.
     bind_act (create_text env COMMAND_EVIDENCE_ARTIFACT (tc_run c) (tc_task c) ''tool-gateway'' (Some evid)
         ''application/json'' (gw_evidence_text env e)
         (JObj [(''intent_id'', JStr (ti_id i)), (''evidence_id'', JStr evid),
            (''strength'', JStr (strength_value strength))])) (\<lambda>stored.
     ret (JObj [(''exit_code'', JInt (xr_exit xr)), (''timed_out'', JBool (xr_timed_out xr)),
       (''transcript_artifact_id'', JStr (am_id transcript)),
       (''command_evidence_artifact_id'', JStr (am_id stored))])))))))))"

definition run_command :: "'w gateway_env \<Rightarrow> tool_call \<Rightarrow> tool_intent \<Rightarrow> command_spec \<Rightarrow> string \<Rightarrow> ('w, json) act" where
  "run_command env c i spec net =
     bind_act (demand (network_requirement spec = NetNone) COMMAND_DENIED) (\<lambda>_.
     bind_act (workspace_patch_sha env (tc_run c) (tc_workspace c)) (\<lambda>prior.
     bind_act (fresh_act env) (\<lambda>eid.
     bind_act (lift_res (the_provider env (sh_provider (tc_sandbox c)))) (\<lambda>p.
     bind_act (lift_res (validate_exec_request (gw_fold env) (execution_request env c i eid spec net))) (\<lambda>rq.
     bind_act (now_act env) (\<lambda>now.
     bind_act (fresh_act env) (\<lambda>lid.
     let x = \<lparr>xc_call = c, xc_intent = i, xc_provider = sb_provider (pv_capabilities p), xc_lease = lid\<rparr>;
         l = execution_lease x eid now in
     bind_act (lift_res (require (lease_valid l) ValueError)) (\<lambda>_.
     bind_act (transact env (\<lambda>fx. save_lease fx l)) (\<lambda>_.
     bind_act (leased_execution env x p l rq eid net) (\<lambda>v.
     recorded_result env c i (pv_capabilities p) spec rq eid prior v))))))))))"

section \<open>Dispatch\<close>

definition execute_reserved :: "'w gateway_env \<Rightarrow> tool_call \<Rightarrow> tool_intent \<Rightarrow> ('w, json) act" where
  "execute_reserved env c i = (let a = ti_action i; ws = tc_workspace c; t = tc_task c in
     if a = ''workspace.write_file'' then write_file env ws i
     else if a = ''repo.list_files'' then list_files env t ws
     else if a = ''repo.read_file'' then read_file env t ws i
     else if a = ''repo.search_text'' then search_text env t ws i
     else if a = ''workspace.apply_edit'' then apply_edit env ws i
     else if a = ''workspace.delete_path'' then delete_path env ws i
     else if a = ''workspace.get_diff'' then get_diff env ws
     else if a = ''fixture.record_side_effect'' then run_command env c i side_effect_command ''none''
     else if a = ''command.run'' then
       bind_act (lift_res (resolved_spec env c i)) (\<lambda>(spec, net). run_command env c i spec net)
     else raise_exn (FleetError COMMAND_DENIED))"

definition perform :: "'w gateway_env \<Rightarrow> tool_call \<Rightarrow> admission \<Rightarrow> ('w, json) act" where
  "perform env c d = (case d of Replay v \<Rightarrow> ret v
     | Begin i \<Rightarrow>
         bind_act (execute_reserved env c i) (\<lambda>v.
         bind_act (transact env (\<lambda>fx. complete_intent fx (ti_id i) v)) (\<lambda>s.
         ret (or_empty (si_result s)))))"

definition execute :: "'w gateway_env \<Rightarrow> tool_call \<Rightarrow> ('w, json) act" where
  "execute env c = bind_act (admit env c) (perform env c)"

end
