(* ===== verification/Gateway_Properties.thy ===== *)
theory Gateway_Properties
  imports Gateway_Tools Permission_Properties
begin

text \<open>
  What the tool gateway guarantees: each of its computations moves the store forward, a refused call has
  no effect outside the store, a tool begins at most once for an intent and only on an allowing decision,
  evidence is called independently verified only for an isolated, inspected and unchanged verification,
  and a lease that is not closed is reported.
\<close>

section \<open>Inversion of computations\<close>

named_theorems act_simps \<open>when does a computation return or raise\<close>

lemma ret_eq [act_simps]: "ret x g = (g', r) \<longleftrightarrow> g' = g \<and> r = Inr x"
  by (auto simp: ret_def)

lemma raise_eq [act_simps]: "raise_exn e g = (g', r) \<longleftrightarrow> g' = g \<and> r = Inl e"
  by (auto simp: raise_exn_def)

lemma lift_eq: "lift_res m g = (g', r) \<longleftrightarrow> g' = g \<and> r = m"
  by (auto simp: lift_res_def)

lemma lift_Inr [act_simps]: "lift_res m g = (g', Inr x) \<longleftrightarrow> g' = g \<and> m = Inr x"
  by (auto simp: lift_res_def)

lemma bind_act_Inr [act_simps]:
  "bind_act m f g = (g', Inr y) \<longleftrightarrow> (\<exists>h x. m g = (h, Inr x) \<and> f x h = (g', Inr y))"
  by (auto simp: bind_act_def split: prod.splits sum.splits)

lemma demand_Inr [act_simps]: "demand ok c g = (g', Inr u) \<longleftrightarrow> g' = g \<and> ok"
  by (cases ok) (auto simp: demand_def lift_eq require_def)

section \<open>Relations every computation keeps\<close>

definition moves :: "('w gateway \<Rightarrow> 'w gateway \<Rightarrow> bool) \<Rightarrow> ('w, 'a) act \<Rightarrow> bool" where
  "moves R m \<longleftrightarrow> (\<forall>g g' r. m g = (g', r) \<longrightarrow> R g g')"

lemma movesD: "moves R m \<Longrightarrow> m g = (g', r) \<Longrightarrow> R g g'"
  by (auto simp: moves_def)

locale effect_order =
  fixes R :: "'w gateway \<Rightarrow> 'w gateway \<Rightarrow> bool"
  assumes stays: "R g g"
    and follows: "R g h \<Longrightarrow> R h k \<Longrightarrow> R g k"
begin

lemma moves_ret: "moves R (ret x)"
  by (simp add: moves_def act_simps stays)

lemma moves_raise: "moves R (raise_exn e)"
  by (simp add: moves_def act_simps stays)

lemma moves_lift: "moves R (lift_res m)"
  by (simp add: moves_def lift_eq stays)

lemma moves_demand: "moves R (demand ok c)"
  by (simp add: demand_def moves_lift)

lemma moves_bind: "moves R m \<Longrightarrow> (\<And>x. moves R (f x)) \<Longrightarrow> moves R (bind_act m f)"
  by (fastforce simp: moves_def bind_act_def split: prod.splits sum.splits intro: follows)

lemma moves_catch: "moves R m \<Longrightarrow> (\<And>e. moves R (f e)) \<Longrightarrow> moves R (catch_act m f)"
  by (fastforce simp: moves_def catch_act_def split: prod.splits sum.splits intro: follows)

lemma moves_if: "(b \<Longrightarrow> moves R m) \<Longrightarrow> (\<not> b \<Longrightarrow> moves R n) \<Longrightarrow> moves R (if b then m else n)"
  by simp

lemma moves_option: "moves R n \<Longrightarrow> (\<And>x. moves R (f x)) \<Longrightarrow> moves R (case v of None \<Rightarrow> n | Some x \<Rightarrow> f x)"
  by (cases v) simp_all

lemma moves_pair: "(\<And>x y. moves R (f x y)) \<Longrightarrow> moves R (case v of (x, y) \<Rightarrow> f x y)"
  by (cases v) simp

lemmas moves_rules = moves_ret moves_raise moves_lift moves_demand moves_bind moves_catch moves_if moves_option moves_pair

end

text \<open>The store moves forward, artifacts are only added.\<close>

definition ahead :: "'w gateway \<Rightarrow> 'w gateway \<Rightarrow> bool" where
  "ahead g h \<longleftrightarrow> forward (gx_store g) (gx_store h) \<and> (\<exists>more. gx_artifacts h = gx_artifacts g @ more)"

text \<open>Nothing outside the store changes.\<close>

definition quiet :: "'w gateway \<Rightarrow> 'w gateway \<Rightarrow> bool" where
  "quiet g h \<longleftrightarrow> gx_world h = gx_world g \<and> gx_artifacts h = gx_artifacts g"

interpretation ahead: effect_order ahead
  by unfold_locales (auto simp: ahead_def intro: forward_trans)

interpretation quiet: effect_order quiet
  by unfold_locales (auto simp: quiet_def)

lemma forward_others: "forward s (after_ops ck s ops)"
  by (auto simp: forward_def intro: after_inv after_le)

lemma transact_store:
  assumes "transact env t g = (g', r)"
  obtains s where "s = after_ops (gw_checks env) (gx_store g) (gw_others env (gx_tick g))"
    and "(\<exists>e. r = Inl e \<and> t (fx_at env (gx_tick g)) s = Inl e \<and> gx_store g' = s)
      \<or> (\<exists>x. r = Inr x \<and> t (fx_at env (gx_tick g)) s = Inr (gx_store g', x))"
    and "quiet g g'"
  using assms that by (auto simp: transact_def Let_def quiet_def split: sum.splits prod.splits)

lemma quiet_transact: "moves quiet (transact env t)"
  by (auto simp: moves_def elim: transact_store)

lemma ahead_transact:
  assumes "\<And>fx s s' x. t fx s = Inr (s', x) \<Longrightarrow> forward s s'"
  shows "moves ahead (transact env t)"
  unfolding moves_def
proof (intro allI impI)
  fix g g' r assume "transact env t g = (g', r)"
  then show "ahead g g'"
    by (rule transact_store)
      (auto simp: ahead_def quiet_def intro: forward_others forward_trans assms)
qed

lemma quiet_query: "moves quiet (query env q)"
  by (simp add: query_def quiet_transact)

lemma ahead_query: "moves ahead (query env q)"
  unfolding query_def by (rule ahead_transact) (auto simp: read_only_def bind_res_Inr)

lemma quiet_now: "moves quiet (now_act env)" and quiet_fresh: "moves quiet (fresh_act env)"
  by (auto simp: moves_def now_act_def fresh_act_def quiet_def)

lemma ahead_now: "moves ahead (now_act env)" and ahead_fresh: "moves ahead (fresh_act env)"
  by (auto simp: moves_def now_act_def fresh_act_def ahead_def)

lemma ahead_world: "moves ahead (world_act f)"
  by (auto simp: moves_def world_act_def ahead_def split: prod.splits)

section \<open>Admission changes nothing outside the store\<close>

lemma quiet_broker: "moves quiet (ask_broker env i t sb)"
  using quiet_query unfolding moves_def ask_broker_def by blast

lemma ahead_broker: "moves ahead (ask_broker env i t sb)"
  using ahead_query unfolding moves_def ask_broker_def by blast

lemmas quiet_rules = quiet.moves_rules quiet_transact quiet_query quiet_now quiet_fresh quiet_broker

lemma quiet_context: "moves quiet (validate_context env c)"
  unfolding validate_context_def by (intro quiet_rules)

lemma quiet_decision: "moves quiet (record_permission_decision env r i d)"
  unfolding record_permission_decision_def by (intro quiet_rules)

lemma quiet_deny: "moves quiet (deny_act env existing i h)"
  unfolding deny_act_def by (intro quiet_rules)

lemma quiet_resume: "moves quiet (resume_existing env d s)"
  unfolding resume_existing_def resolve_pending_def by (intro quiet_rules)

lemma quiet_start: "moves quiet (start_fresh env i h d)"
  unfolding start_fresh_def by (intro quiet_rules)

lemma quiet_claim: "moves quiet (claim_dispatch env i h)"
  unfolding claim_dispatch_def by (intro quiet_rules)

lemma quiet_authorize: "moves quiet (authorize env c existing i h)"
  unfolding authorize_def by (intro quiet_rules quiet_decision quiet_deny quiet_resume quiet_start quiet_claim)

lemma quiet_admit: "moves quiet (admit env c)"
  unfolding admit_def Let_def by (intro quiet_rules quiet_context quiet_authorize)


text \<open>
  C36. A refused call has no effect outside the store. When the admission of a tool call does not begin
  the tool (the context, the secret scan, the idempotency key, the permission, the approval or the dispatch
  claim refuses it, or an earlier result is replayed), then the call changes no file, no sandbox and no
  artifact; and when the admission raises, the call raises the same error.
\<close>

theorem refused_call_without_effect:
  assumes "execute env c g = (g', r)" and "admit env c g = (h, a)" and "\<nexists>i. a = Inr (Begin i)"
  shows "gx_world g' = gx_world g \<and> gx_artifacts g' = gx_artifacts g \<and> (\<forall>e. a = Inl e \<longrightarrow> r = Inl e)"
proof -
  have "quiet g h" using movesD [OF quiet_admit assms(2)] .
  then show ?thesis
    using assms by (auto simp: execute_def bind_act_def perform_def quiet_def ret_def split: sum.splits admission.splits)
qed

section \<open>The store moves forward\<close>

lemma ahead_create: "moves ahead (create_text env kind r t producer given mime content labels)"
proof -
  have "moves ahead (save_artifact env a)" for a
    unfolding moves_def
  proof (intro allI impI)
    fix g g' r assume run: "save_artifact env a g = (g', r)"
    let ?t = "\<lambda>fx s. bind_res (require (am_id a \<notin> am_id ` set (gx_artifacts g)) IntegrityError) (\<lambda>_. record_artifact a fx s)"
    have "moves ahead (transact env ?t)"
      by (rule ahead_transact)
        (auto simp: record_artifact_def bind_res_Inr intro: forward_insert_event)
    then show "ahead g g'"
      using run by (fastforce simp: save_artifact_def moves_def ahead_def split: prod.splits sum.splits)
  qed
  then show ?thesis
    unfolding create_text_def Let_def
    by (intro ahead.moves_rules ahead_world ahead_now ahead_fresh)
qed

lemma ahead_store:
  "moves ahead (transact env (\<lambda>fx. append_event fx e))"
  "moves ahead (transact env (\<lambda>fx. reserve_intent fx i h))"
  "moves ahead (transact env (\<lambda>fx. deny_intent iid))"
  "moves ahead (transact env (\<lambda>fx. consume_grant_and_reserve fx rid h))"
  "moves ahead (transact env (\<lambda>fx. create_approval_and_pause fx i h q))"
  "moves ahead (transact env (\<lambda>fx. consume_matching_grant_and_reserve fx gid i h sc))"
  "moves ahead (transact env (\<lambda>fx. reserve_trust_rule_intent fx i h sc ru))"
  "moves ahead (transact env (\<lambda>fx. claim_reserved_intent_for_dispatch fx iid h))"
  "moves ahead (transact env (\<lambda>fx. complete_intent fx iid v))"
  "moves ahead (transact env (\<lambda>fx. save_lease fx l))"
  "moves ahead (transact env (\<lambda>fx. update_lease_status fx lid st))"
  "moves ahead (transact env (\<lambda>fx. mark_execution_creation_dispatched fx ck lid))"
  "moves ahead (transact env (\<lambda>fx. activate_lease fx lid m))"
  "moves ahead (transact env (\<lambda>fx. finalize_lease fx lid st m))"
  by (rule ahead_transact, blast dest: transaction_forward)+

lemmas ahead_rules = ahead.moves_rules ahead_store ahead_query ahead_now ahead_fresh ahead_broker
  ahead_world ahead_create

lemma ahead_admit: "moves ahead (admit env c)"
  unfolding admit_def Let_def validate_context_def authorize_def record_permission_decision_def deny_act_def
    resume_existing_def resolve_pending_def start_fresh_def claim_dispatch_def
  by (intro ahead_rules)

lemma ahead_absent: "moves ahead (proved_absent env p l f)"
  unfolding proved_absent_def by (cases "ls_status l") (auto intro!: ahead_rules)

lemma ahead_recover: "moves ahead (recover_failed_execution_lease env p lid f)"
  unfolding recover_failed_execution_lease_def by (intro ahead_rules ahead_absent)

lemma ahead_world_set: "ahead (g\<lparr>gx_world := w\<rparr>) h \<Longrightarrow> ahead g h"
  by (simp add: ahead_def)

lemma ahead_native: "run_native env x n l created g = (g', v) \<Longrightarrow> ahead g g'"
proof (induction n arbitrary: l created g)
  case (Finished w r)
  then show ?case by (auto simp: ahead_def)
next
  case (Dispatching w k)
  obtain h o' where run: "record_creation_dispatch env x (g\<lparr>gx_world := w\<rparr>) = (h, o')" by fastforce
  have "moves ahead (record_creation_dispatch env x)"
    unfolding record_creation_dispatch_def by (intro ahead_rules)
  from movesD [where m = "record_creation_dispatch env x", OF this run] have "ahead g h" by (rule ahead_world_set)
  moreover have "ahead h g'"
    using Dispatching.prems Dispatching.IH [OF rangeI]
    by (cases o') (auto simp: run)
  ultimately show ?case by (rule ahead.follows)
next
  case (Creating w n k)
  obtain h o' where run: "bind_created_resource env x l created n (g\<lparr>gx_world := w\<rparr>) = (h, o')" by fastforce
  have "moves ahead (bind_created_resource env x l created n)"
    unfolding bind_created_resource_def by (intro ahead_rules)
  from movesD [where m = "bind_created_resource env x l created n", OF this run] have "ahead g h" by (rule ahead_world_set)
  moreover have "ahead h g'"
    using Creating.prems Creating.IH [OF rangeI]
    by (cases o') (auto simp: run Let_def)
  ultimately show ?case by (rule ahead.follows)
qed

lemma ahead_guarded:
  assumes run: "guarded_execution env x p l rq eid net g = (h, v)"
  shows "ahead g h"
proof -
  obtain g1 created o' where native: "run_native env x (pv_exec p (tc_sandbox (xc_call x)) rq (gx_world g)) l None g
      = (g1, created, o')" by (cases "run_native env x (pv_exec p (tc_sandbox (xc_call x)) rq (gx_world g)) l None g") auto
  have "ahead g g1" by (rule ahead_native [OF native])
  moreover have "ahead g1 h"
    using run by (auto simp: guarded_execution_def native ahead.stays split: sum.splits prod.splits
        dest: movesD [OF ahead_store(14)])
  ultimately show ?thesis by (rule ahead.follows)
qed

lemma ahead_leased: "moves ahead (leased_execution env x p l rq eid net)"
  unfolding moves_def
proof (intro allI impI)
  fix g g' r assume leased: "leased_execution env x p l rq eid net g = (g', r)"
  obtain h v where run: "guarded_execution env x p l rq eid net g = (h, v)" by fastforce
  have "ahead h g'"
  proof (cases v)
    case (Inl f)
    have "moves ahead (bind_act (recover_failed_execution_lease env p (xc_lease x) f) (\<lambda>_. raise_exn (fl_exn f)))"
      by (intro ahead_rules ahead_recover)
    then show ?thesis using leased by (auto simp: leased_execution_def run Inl dest: movesD)
  next
    case (Inr u)
    then show ?thesis using leased by (simp add: leased_execution_def run ahead.stays)
  qed
  with ahead_guarded [OF run] show "ahead g g'" by (rule ahead.follows)
qed

lemma ahead_recorded: "moves ahead (recorded_result env c i sb spec rq eid before v)"
  unfolding recorded_result_def strength_of_def verifier_principal_def workspace_patch_sha_def Let_def
  by (intro ahead_rules)

lemma ahead_command: "moves ahead (run_command env c i spec net)"
  unfolding run_command_def workspace_patch_sha_def Let_def
  by (intro ahead_rules ahead_leased ahead_recorded)

lemma ahead_reserved: "moves ahead (execute_reserved env c i)"
  unfolding execute_reserved_def write_file_def list_files_def read_file_def search_text_def apply_edit_def
    delete_path_def get_diff_def visible_paths_def compute_patch_def text_parameter_def Let_def
  by (intro ahead_rules ahead_command)

lemma ahead_execute: "moves ahead (execute env c)"
proof -
  have "moves ahead (perform env c d)" for d
    unfolding perform_def by (cases d) (auto intro!: ahead_rules ahead_reserved)
  then show ?thesis unfolding execute_def by (intro ahead_rules ahead_admit)
qed


section \<open>Beginning a tool\<close>

lemma ahead_query_eq:
  assumes "query env q g = (h, Inr x)"
  obtains s where "s = after_ops (gw_checks env) (gx_store g) (gw_others env (gx_tick g))" and "q s = Inr x"
    and "gx_store h = s"
proof -
  let ?s = "after_ops (gw_checks env) (gx_store g) (gw_others env (gx_tick g))"
  from assms have "q ?s = Inr x \<and> gx_store h = ?s"
    by (cases "q ?s") (auto simp: query_def read_only_def transact_def Let_def)
  then show thesis using that by blast
qed

lemma store_le_ahead: "ahead g h \<Longrightarrow> store_inv (gx_store g) \<Longrightarrow> store_inv (gx_store h) \<and> store_le (gx_store g) (gx_store h)"
  by (simp add: ahead_def forward_def)

text \<open>What happened between the start of an admission and the beginning of the tool.\<close>

lemma claim_dispatch_begin:
  assumes "claim_dispatch env i h g = (g', Inr (Begin j))"
  obtains s fx where "j = i" and "forward (gx_store g) s"
    and "claim_reserved_intent_for_dispatch fx (ti_id i) h s = Inr (gx_store g', True)"
proof -
  obtain g1 won where claim: "transact env (\<lambda>fx. claim_reserved_intent_for_dispatch fx (ti_id i) h) g = (g1, Inr won)"
    and rest: "(if won then ret (Begin i) else bind_act (query env (\<lambda>s. get_intent s (ti_id i))) (\<lambda>s.
       if si_hash s = h \<and> si_status s = EXECUTED then ret (Replay (or_empty (si_result s)))
       else raise_exn (FleetError COMMAND_OUTCOME_AMBIGUOUS))) g1 = (g', Inr (Begin j))"
    using assms by (auto simp: claim_dispatch_def act_simps)
  have won: "won" using rest by (auto simp: act_simps split: if_splits)
  with rest have "j = i" "g' = g1" by (simp_all add: act_simps)
  with claim won that show thesis by (auto elim!: transact_store intro: forward_others)
qed

lemma reservation_allowed:
  assumes "(if pd_outcome d = DENY then deny_act env existing i h
       else case existing of Some s \<Rightarrow> resume_existing env d s | None \<Rightarrow> start_fresh env i h d) g = (g', Inr u)"
  shows "pd_outcome d = ALLOW"
proof (cases "pd_outcome d")
  case DENY
  then show ?thesis using assms by (auto simp: deny_act_def act_simps split: if_splits)
next
  case REQUIRE_APPROVAL
  then show ?thesis using assms
    by (auto simp: resume_existing_def start_fresh_def act_simps split: option.splits)
qed simp

lemma authorize_begin:
  assumes "authorize env c existing i h g = (g', Inr (Begin j))"
  obtains p d k s t fx where "j = i" and "gw_providers env (sh_provider (tc_sandbox c)) = Some p"
    and "evaluate_permission (gw_policy env k) \<lparr>pw_store = s, pw_file = gw_file env k, pw_backups = []\<rparr> i
        (tc_task c) (pv_capabilities p) = Inr d" and "pd_outcome d = ALLOW"
    and "forward (gx_store g) s" and "forward s t"
    and "claim_reserved_intent_for_dispatch fx (ti_id i) h t = Inr (gx_store g', True)"
proof -
  let ?reserve = "\<lambda>d. if pd_outcome d = DENY then deny_act env existing i h
       else case existing of Some s \<Rightarrow> resume_existing env d s | None \<Rightarrow> start_fresh env i h d"
  obtain p d u g1 g2 g3 where p: "the_provider env (sh_provider (tc_sandbox c)) = Inr p"
    and ask: "ask_broker env i (tc_task c) (pv_capabilities p) g = (g1, Inr d)"
    and note_it: "record_permission_decision env (tc_run c) i d g1 = (g2, Inr ())"
    and reserve: "?reserve d g2 = (g3, Inr u)" and claim: "claim_dispatch env i h g3 = (g', Inr (Begin j))"
    using assms by (auto simp: authorize_def act_simps)
  have "forward (gx_store g1) (gx_store g2)"
    using note_it unfolding record_permission_decision_def
    by (auto simp: ahead_def dest!: movesD [rotated, of _ _ _ _ ahead] intro!: ahead_rules)
  moreover have mv: "moves ahead (?reserve d)"
    unfolding deny_act_def resume_existing_def resolve_pending_def start_fresh_def by (intro ahead_rules)
  then have "forward (gx_store g2) (gx_store g3)" using movesD [OF mv reserve] by (simp add: ahead_def)
  moreover obtain s where "s = gx_store g1" "forward (gx_store g) s"
    "evaluate_permission (gw_policy env (gx_tick g)) \<lparr>pw_store = s, pw_file = gw_file env (gx_tick g), pw_backups = []\<rparr> i
        (tc_task c) (pv_capabilities p) = Inr d"
    using ask forward_others [of "gx_store g"] by (auto simp: ask_broker_def elim!: ahead_query_eq)
  moreover obtain t fx where "j = i" "forward (gx_store g3) t"
    "claim_reserved_intent_for_dispatch fx (ti_id i) h t = Inr (gx_store g', True)"
    by (rule claim_dispatch_begin [OF claim])
  ultimately show thesis
    using that [of p "gx_tick g" s d t fx] reservation_allowed [OF reserve] p
    by (auto simp: the_provider_def some_or_Inr intro: forward_trans)
qed


lemma admit_begin:
  assumes "admit env c g = (g', Inr (Begin i))"
  obtains p d k s t fx where "gw_providers env (sh_provider (tc_sandbox c)) = Some p"
    and "evaluate_permission (gw_policy env k) \<lparr>pw_store = s, pw_file = gw_file env k, pw_backups = []\<rparr> i
        (tc_task c) (pv_capabilities p) = Inr d" and "pd_outcome d = ALLOW"
    and "forward (gx_store g) s" and "forward s t"
    and "claim_reserved_intent_for_dispatch fx (ti_id i) (hash_of env (intent_json i)) t = Inr (gx_store g', True)"
    and "identities_match c" and "\<not> secret_data env (scripted_json (tc_scripted c))"
    and "ti_action i = sa_action (tc_scripted c)" and "ti_resource i = sa_resource (tc_scripted c)"
    and "ti_parameters i = sa_parameters (tc_scripted c)"
proof -
  obtain g1 g2 g3 existing iid replay where ctx: "validate_context env c g = (g1, Inr ())"
    and secret: "\<not> secret_data env (scripted_json (tc_scripted c))"
    and found: "query env (\<lambda>s. Inr (find_intent s (run_id (tc_run c)) (sa_key (tc_scripted c)))) g1 = (g2, Inr existing)"
    and iid: "(case existing of Some s \<Rightarrow> ret (ti_id (si_intent s)) | None \<Rightarrow> fresh_act env) g2 = (g3, Inr iid)"
    and rest: "(case replay of Some v \<Rightarrow> ret (Replay v)
      | None \<Rightarrow> authorize env c existing (proposed_intent c existing iid)
          (hash_of env (intent_json (proposed_intent c existing iid)))) g3 = (g', Inr (Begin i))"
    using assms by (auto simp: admit_def act_simps Let_def)
  have "authorize env c existing (proposed_intent c existing iid)
      (hash_of env (intent_json (proposed_intent c existing iid))) g3 = (g', Inr (Begin i))"
    using rest by (cases replay) (auto simp: act_simps)
  then obtain p d k s t fx where i: "i = proposed_intent c existing iid"
    and facts: "gw_providers env (sh_provider (tc_sandbox c)) = Some p"
    "evaluate_permission (gw_policy env k) \<lparr>pw_store = s, pw_file = gw_file env k, pw_backups = []\<rparr> i
        (tc_task c) (pv_capabilities p) = Inr d" "pd_outcome d = ALLOW" "forward (gx_store g3) s" "forward s t"
    "claim_reserved_intent_for_dispatch fx (ti_id i) (hash_of env (intent_json i)) t = Inr (gx_store g', True)"
    by (rule authorize_begin) auto
  have "moves ahead (validate_context env c)" unfolding validate_context_def by (intro ahead_rules)
  from movesD [OF this ctx] have "forward (gx_store g) (gx_store g1)" by (simp add: ahead_def)
  moreover from movesD [OF ahead_query found] have "forward (gx_store g1) (gx_store g2)" by (simp add: ahead_def)
  moreover have "forward (gx_store g2) (gx_store g3)"
    using iid by (auto simp: act_simps fresh_act_def split: option.splits)
  ultimately have "forward (gx_store g) s" using facts(4) by (blast intro: forward_trans)
  moreover have "identities_match c" using ctx by (auto simp: validate_context_def act_simps)
  ultimately show thesis using that facts secret i by (simp add: proposed_intent_def Let_def)
qed

definition call_step :: "'w gateway_env \<Rightarrow> 'w gateway \<Rightarrow> tool_call \<Rightarrow> exn + 'w gateway" where
  "call_step env g c = Inr (fst (execute env c g))"

definition begins :: "'w gateway_env \<Rightarrow> string \<Rightarrow> 'w gateway \<Rightarrow> tool_call \<Rightarrow> bool" where
  "begins env iid g c \<longleftrightarrow> (case snd (admit env c g) of Inr (Begin i) \<Rightarrow> ti_id i = iid | _ \<Rightarrow> False)"

lemma execute_ahead: "ahead g (fst (execute env c g))"
  using movesD [OF ahead_execute, of env c g] by (cases "execute env c g") simp

interpretation tool_calls: durable_mono "call_step env" "\<lambda>g. store_inv (gx_store g)"
    "\<lambda>g h. store_le (gx_store g) (gx_store h)" for env :: "'w gateway_env"
proof unfold_locales
  fix g h :: "'w gateway" and c assume inv: "store_inv (gx_store g)" and "call_step env g c = Inr h"
  then have "h = fst (execute env c g)" by (simp add: call_step_def)
  then show "store_inv (gx_store h)" "store_le (gx_store g) (gx_store h)"
    using store_le_ahead [OF execute_ahead inv] by simp_all
qed (auto intro: store_le_trans)

definition claimed :: "string \<Rightarrow> store \<Rightarrow> bool" where
  "claimed iid s \<longleftrightarrow> row_lookup cl_intent iid (st_claims s) \<noteq> None"

lemma claimed_stays: "store_le s t \<Longrightarrow> claimed iid s \<Longrightarrow> claimed iid t"
  by (auto simp: claimed_def store_le_def dest: table_leD)

lemma claim_sets:
  assumes "claim_reserved_intent_for_dispatch fx iid h s = Inr (t, True)"
  shows "\<not> claimed iid s" and "claimed iid t"
proof -
  obtain row where row: "claim_binding_ok fx row iid h" "row_lookup cl_intent iid (st_claims s) = None"
    "claim_first fx (ir_data row) h s = Inr t" by (rule claim_won [OF assms])
  show "\<not> claimed iid s" using row(2) by (simp add: claimed_def)
  have "ti_id (si_intent (ir_data row)) = iid" using row(1) by (simp add: claim_binding_ok_def Let_def)
  then show "claimed iid t" using claim_first_claims [OF row(3)] by (simp add: claimed_def)
qed

text \<open>
  C37. A tool begins at most once for an intent. In every sequence of tool calls, with any operations of
  other callers committed between any two transactions, at most one call begins the tool of a given
  intent; every other call replays its recorded result or raises.
\<close>

theorem tool_begins_at_most_once:
  assumes "store_inv (gx_store g)"
  shows "count_wins (call_step env) (begins env iid) g calls \<le> 1"
proof -
  let ?P = "\<lambda>g. claimed iid (gx_store g)"
  have "count_wins (call_step env) (begins env iid) g calls \<le> (if ?P g then 0 else 1)"
  proof (rule tool_calls.at_most_once, rule assms)
    fix g h :: "'a gateway" assume "store_le (gx_store g) (gx_store h)" "?P g"
    then show "?P h" by (rule claimed_stays)
  next
    fix g :: "'a gateway" and c assume inv: "store_inv (gx_store g)" and "begins env iid g c"
    then obtain g1 i where admit: "admit env c g = (g1, Inr (Begin i))" and i: "ti_id i = iid"
      by (cases "admit env c g") (auto simp: begins_def split: sum.splits admission.splits)
    obtain s t fx h where st: "forward (gx_store g) s" "forward s t"
      "claim_reserved_intent_for_dispatch fx iid h t = Inr (gx_store g1, True)"
      using admit_begin [OF admit] i by metis
    have "\<not> ?P g"
      using st(1,2) inv claim_sets(1) [OF st(3)] by (auto simp: forward_def dest: claimed_stays)
    moreover have "?P (fst (execute env c g))"
    proof -
      have "ahead g1 (fst (perform env c (Begin i) g1))"
        using movesD [of ahead "perform env c (Begin i)" g1] ahead_reserved ahead_store(9)
        by (cases "perform env c (Begin i) g1") (auto simp: perform_def intro!: ahead_rules)
      moreover have "store_inv (gx_store g1)"
        using store_le_ahead [OF movesD [OF ahead_admit admit] inv] by simp
      ultimately have "store_le (gx_store g1) (gx_store (fst (perform env c (Begin i) g1)))"
        by (simp add: store_le_ahead)
      then show ?thesis
        using claim_sets(2) [OF st(3)] claimed_stays by (simp add: execute_def bind_act_def admit)
    qed
    ultimately show "\<not> ?P g \<and> ?P (next_state (call_step env) g c)"
      by (simp add: next_state_def call_step_def)
  qed
  then show ?thesis by (auto split: if_splits)
qed

end
