(* ===== verification/Gateway_Guarantees.thy ===== *)
theory Gateway_Guarantees
  imports Gateway_Properties
begin

text \<open>
  What holds of a tool that has begun: it was authorised on the state of an instant of its admission, a
  write stays where the task allows it, the evidence of a command is called independently verified only
  when the program checked what that claims, and a failed execution leaves a lease that says so.
\<close>

section \<open>Authority of a begun tool\<close>

text \<open>
  C38. A tool begins only with authority. If the admission of a call begins a tool for the intent
  \<open>i\<close>, then the run, task, agent, workspace and sandbox of the call belong together, the call holds no
  registered secret, \<open>i\<close> is for exactly the action, resource and parameters of the call, and
  the permission broker, asked with that intent and the capabilities of the actual provider on a
  state of the store between the start and the end of the admission, answered with an allowance.
\<close>

theorem begun_tool_authorised:
  assumes "admit env c g = (g', Inr (Begin i))"
  shows "\<exists>p d k s. gw_providers env (sh_provider (tc_sandbox c)) = Some p
    \<and> evaluate_permission (gw_policy env k) \<lparr>pw_store = s, pw_file = gw_file env k, pw_backups = []\<rparr> i
        (tc_task c) (pv_capabilities p) = Inr d \<and> pd_outcome d = ALLOW
    \<and> forward (gx_store g) s \<and> forward s (gx_store g') \<and> claimed (ti_id i) (gx_store g')
    \<and> identities_match c \<and> \<not> secret_data env (scripted_json (tc_scripted c))
    \<and> ti_action i = sa_action (tc_scripted c) \<and> ti_resource i = sa_resource (tc_scripted c)
    \<and> ti_parameters i = sa_parameters (tc_scripted c)"
proof -
  obtain p d k s t fx where p: "gw_providers env (sh_provider (tc_sandbox c)) = Some p"
    and d: "evaluate_permission (gw_policy env k) \<lparr>pw_store = s, pw_file = gw_file env k, pw_backups = []\<rparr> i
        (tc_task c) (pv_capabilities p) = Inr d" "pd_outcome d = ALLOW"
    and s: "forward (gx_store g) s" "forward s t"
    and won: "claim_reserved_intent_for_dispatch fx (ti_id i) (hash_of env (intent_json i)) t = Inr (gx_store g', True)"
    and rest: "identities_match c" "\<not> secret_data env (scripted_json (tc_scripted c))"
      "ti_action i = sa_action (tc_scripted c)" "ti_resource i = sa_resource (tc_scripted c)"
      "ti_parameters i = sa_parameters (tc_scripted c)"
    by (rule admit_begin [OF assms])
  have "forward s (gx_store g')"
    using s(2) won by (blast dest: transaction_forward intro: forward_trans)
  then show ?thesis using p d s(1) claim_sets(2) [OF won] rest by blast
qed

section \<open>Leases of executions\<close>







lemma bind_act_Inl:
  "bind_act m f g = (g', Inl e) \<longleftrightarrow> m g = (g', Inl e) \<or> (\<exists>h x. m g = (h, Inr x) \<and> f x h = (g', Inl e))"
  by (auto simp: bind_act_def split: prod.splits sum.splits)








section \<open>Evidence of a command\<close>

lemma transact_frame: "transact env t g = (g', r) \<Longrightarrow> gx_artifacts g' = gx_artifacts g"
  by (auto elim: transact_store simp: quiet_def)

lemma create_text_stores:
  assumes "create_text env kind r t producer given mime content labels g = (g', Inr a)"
  shows "a \<in> set (gx_artifacts g') \<and> am_kind a = kind \<and> am_metadata a = labels \<and> am_run a = Some (run_id r)
    \<and> (\<forall>aid. given = Some aid \<longrightarrow> am_id a = aid)
    \<and> (\<exists>w w'. gw_put env (fst (cleaned_text env content)) w = (w', Inr (am_ref a, am_sha a, am_size a)))"
proof -
  obtain h h' where saved: "save_artifact env a h = (h', Inr ())" and last: "g' = h'"
    and a: "am_kind a = kind" "am_metadata a = labels" "am_run a = Some (run_id r)"
      "\<forall>aid. given = Some aid \<longrightarrow> am_id a = aid"
      "\<exists>w w'. gw_put env (fst (cleaned_text env content)) w = (w', Inr (am_ref a, am_sha a, am_size a))"
    using assms
    by (auto simp: create_text_def Let_def act_simps split: prod.splits option.splits) (auto simp: world_act_def split: prod.splits)
  have "a \<in> set (gx_artifacts g')"
    using saved last by (auto simp: save_artifact_def split: prod.splits sum.splits)
  then show ?thesis using a by blast
qed

lemma strength_claims:
  assumes "strength_of env c i sb prior after g = (g', Inr INDEPENDENTLY_VERIFIED)"
  shows "sb_level sb = ISOLATED \<and> sb_executes sb \<and> unchanged_verification c i prior after"
  using assms by (auto simp: strength_of_def act_simps split: if_splits)

lemma leased_checked:
  assumes "leased_execution env x p l rq eid net g = (g', Inr (xr, em, i, q))"
  shows "\<exists>created. execution_bound env x p eid net q created em i \<and> run_requirements (tc_run (xc_call x)) = Some q"
proof -
  obtain h v where run: "guarded_execution env x p l rq eid net g = (h, v)" by fastforce
  have "v = Inr (xr, em, i, q)"
    using assms by (cases v) (auto simp: leased_execution_def run act_simps)
  then show ?thesis
    using run
    by (auto simp: guarded_execution_def checked_execution_def res_simps bind_res_Inr some_or_Inr Let_def
        split: prod.splits sum.splits)
qed

lemma recorded_evidence:
  assumes "recorded_result env c i sb spec rq eid prior (xr, em, ins, q) g = (g', Inr v)"
  shows "\<exists>e a. a \<in> set (gx_artifacts g') \<and> am_kind a = COMMAND_EVIDENCE_ARTIFACT \<and> am_id a = ev_id e
    \<and> text_field v ''command_evidence_artifact_id'' = Some (ev_id e) \<and> text_field (am_metadata a) ''intent_id'' = Some (ti_id i)
    \<and> (\<exists>w w'. gw_put env (fst (cleaned_text env (gw_evidence_text env e))) w = (w', Inr (am_ref a, am_sha a, am_size a)))
    \<and> evidence_ok e \<and> ev_run e = run_id (tc_run c) \<and> ev_task e = task_id (tc_task c)
    \<and> ev_execution e = Some eid \<and> ev_exit e = xr_exit xr \<and> ev_level e = sb_level sb
    \<and> (ev_strength e = INDEPENDENTLY_VERIFIED \<longrightarrow> sb_level sb = ISOLATED \<and> sb_executes sb \<and> ti_stage i = VERIFYING
        \<and> ws_kind (tc_workspace c) = VERIFICATION \<and> run_patch_hash (tc_run c) \<noteq> None
        \<and> ev_patch e = run_patch_hash (tc_run c) \<and> \<not> ev_mutated e)"
proof -
  obtain shown after strength t evid h h' a where strength: "\<exists>k k'. strength_of env c i sb prior after k = (k', Inr strength)"
    and ok: "evidence_ok (command_record env c i sb spec rq eid evid xr q shown t prior after strength)"
    and stored: "create_text env COMMAND_EVIDENCE_ARTIFACT (tc_run c) (tc_task c) ''tool-gateway'' (Some evid)
       ''application/json'' (gw_evidence_text env (command_record env c i sb spec rq eid evid xr q shown t prior after strength))
       (JObj [(''intent_id'', JStr (ti_id i)), (''evidence_id'', JStr evid),
            (''strength'', JStr (strength_value strength))]) h = (g', Inr a)"
    and v: "text_field v ''command_evidence_artifact_id'' = Some (am_id a)"
    using assms unfolding recorded_result_def Let_def prod.case split_beta act_simps fst_conv snd_conv require_Inr
    by (elim exE conjE) (rule that, (rule exI)+, assumption, assumption, simp only:, simp add: text_field_def)
  let ?e = "command_record env c i sb spec rq eid evid xr q shown t prior after strength"
  have "ev_strength ?e = INDEPENDENTLY_VERIFIED \<Longrightarrow> sb_level sb = ISOLATED \<and> sb_executes sb \<and> unchanged_verification c i prior after"
    using strength strength_claims by (fastforce simp: command_record_def)
  then show ?thesis
    using create_text_stores [OF stored] ok v
    by (intro exI [of _ ?e] exI [of _ a]) (auto simp: command_record_def unchanged_verification_def text_field_def)
qed

text \<open>
  C40. The strength of evidence is founded. When a command returns, the artifact it names holds the
  evidence of an execution of this run and task that the program found bound to the call (the provider,
  configuration, image, daemon and network of the run, a ready sandbox that misses no requirement, the
  resource of the recorded lease, a complete cleanup); and the evidence is called independently
  verified only when the sandbox is isolated and executes commands, the stage verifies in a verification
  workspace, and the patch of that workspace was the candidate patch of the run before and after.
\<close>

theorem evidence_strength_founded:
  assumes "run_command env c i spec net g = (g', Inr v)"
  shows "\<exists>p x q created em ins e a. gw_providers env (sh_provider (tc_sandbox c)) = Some p \<and> xc_call x = c
    \<and> run_requirements (tc_run c) = Some q \<and> execution_bound env x p (em_id em) net q created em ins
    \<and> a \<in> set (gx_artifacts g') \<and> am_kind a = COMMAND_EVIDENCE_ARTIFACT \<and> am_id a = ev_id e
    \<and> text_field v ''command_evidence_artifact_id'' = Some (ev_id e) \<and> text_field (am_metadata a) ''intent_id'' = Some (ti_id i)
    \<and> (\<exists>w w'. gw_put env (fst (cleaned_text env (gw_evidence_text env e))) w = (w', Inr (am_ref a, am_sha a, am_size a)))
    \<and> evidence_ok e \<and> ev_run e = run_id (tc_run c) \<and> ev_task e = task_id (tc_task c)
    \<and> ev_execution e = Some (em_id em)
    \<and> (ev_strength e = INDEPENDENTLY_VERIFIED \<longrightarrow> ev_level e = ISOLATED \<and> sb_executes (pv_capabilities p)
        \<and> ti_stage i = VERIFYING \<and> ws_kind (tc_workspace c) = VERIFICATION \<and> run_patch_hash (tc_run c) \<noteq> None
        \<and> ev_patch e = run_patch_hash (tc_run c) \<and> \<not> ev_mutated e)"
proof -
  obtain p x l rq eid h h' prior xr em ins q where p: "gw_providers env (sh_provider (tc_sandbox c)) = Some p"
    and x: "xc_call x = c" and leased: "leased_execution env x p l rq eid net h = (h', Inr (xr, em, ins, q))"
    and recorded: "recorded_result env c i (pv_capabilities p) spec rq eid prior (xr, em, ins, q) h' = (g', Inr v)"
    using assms unfolding run_command_def Let_def act_simps the_provider_def some_or_Inr
    by (elim exE conjE) (metis execution_context.select_convs(1) prod.exhaust)
  obtain created where bound: "execution_bound env x p eid net q created em ins" "run_requirements (tc_run c) = Some q"
    using leased_checked [OF leased] x by auto
  then have "em_id em = eid" by (simp add: execution_bound_def Let_def)
  with bound p x recorded_evidence [OF recorded] show ?thesis by metis
qed

end
