(* ===== verification/Gateway_Witnesses.thy ===== *)
theory Gateway_Witnesses
  imports Gateway_Guarantees
begin

text \<open>
  The properties of the gateway at work: an engineer's write in a run with a fake sandbox, which begins,
  is recorded and is replayed; a write outside the task, which is refused; and a verifier's command in a
  container, with its lease, its callbacks and its evidence.
\<close>

section \<open>A write\<close>

type_synonym file_log = "(string \<times> string \<times> string) list"

definition write_workspace :: workspace where
  "write_workspace = \<lparr>ws_id = sample_id ''ws'', ws_run = sample_id ''run'', ws_kind = CANDIDATE, ws_path = ''/w'', ws_base = ''b''\<rparr>"

definition write_sandbox :: sandbox_handle where
  "write_sandbox = \<lparr>sh_id = sample_id ''sandbox'', sh_run = sample_id ''run'', sh_project = Some (sample_id ''prj''),
     sh_path = ''/w'', sh_provider = run_sandbox_name sample_run, sh_capabilities = phase1_fake,
     sh_configuration = run_configuration_hash sample_run, sh_image = None, sh_daemon = None, sh_scope = None\<rparr>"

definition held :: "string \<Rightarrow> lease_kind \<Rightarrow> string \<Rightarrow> string option \<Rightarrow> lease_row" where
  "held lid k rid path = row_of_lease \<lparr>ls_id = lid, ls_run = sample_id ''run'', ls_kind = k, ls_resource = rid, ls_path = path,
     ls_status = LeaseActive, ls_created = 0, ls_updated = 0, ls_metadata = JObj []\<rparr>"

definition write_store :: store where
  "write_store = sample_store\<lparr>
     db_agents := [\<lparr>ar_id = ''a'', ar_run = sample_id ''run'', ar_task = Some (sample_id ''task''),
       ar_role = ''engineer'', ar_data = writing_agent\<rparr>],
     st_leases := [held ''l1'' WORKTREE (sample_id ''ws'') (Some ''/w''), held ''l2'' SANDBOX (sample_id ''sandbox'') None]\<rparr>"

definition write_call :: "string \<Rightarrow> string \<Rightarrow> tool_call" where
  "write_call path key = \<lparr>tc_run = sample_run, tc_task = sample_task, tc_agent = writing_agent, tc_workspace = write_workspace,
     tc_sandbox = write_sandbox, tc_scripted = \<lparr>sa_action = ''workspace.write_file'',
       sa_resource = \<lparr>res_kind = ''workspace_path'', res_identifier = path\<rparr>,
       sa_parameters = JObj [(''content'', JStr ''x'')], sa_reason = ''r'', sa_side_effect = True, sa_key = key\<rparr>\<rparr>"

definition log_files :: "file_log workspace_files" where
  "log_files = \<lparr>wf_write = (\<lambda>ws p content w. (w @ [(ws, p, content)], Inr (int (length content)))),
     wf_list = (\<lambda>ws w. (w, Inr [])), wf_read = (\<lambda>ws p w. (w, Inl (FleetError PATH_OUTSIDE_SCOPE))),
     wf_search = (\<lambda>ws q ps w. (w, Inr (JArr []))),
     wf_edit = (\<lambda>ws p sha old new n w. (w, Inl (FleetError PATH_OUTSIDE_SCOPE))),
     wf_delete = (\<lambda>ws p sha w. (w, Inl (FleetError PATH_OUTSIDE_SCOPE)))\<rparr>"

definition fake_provider :: "file_log provider" where
  "fake_provider = \<lparr>pv_capabilities = phase1_fake,
     pv_exec = (\<lambda>h r w. Finished w (Inl \<lparr>fl_exn = FleetError SANDBOX_UNAVAILABLE, fl_type = [], fl_proof = None, fl_binding = None\<rparr>)),
     pv_cleanup = (\<lambda>x w. (w, Inl (FleetError SANDBOX_CLEANUP_FAILED))),
     pv_reconcile = (\<lambda>h q w. (w, Inl (FleetError SANDBOX_CLEANUP_FAILED)))\<rparr>"

definition write_env :: "file_log gateway_env" where
  "write_env = \<lparr>gw_checks = quiet_checks, gw_base = sample_fx, gw_clock = (\<lambda>_ _. 5), gw_new = (\<lambda>k n. replicate (10 * k + n) (CHR ''e'')),
     gw_others = (\<lambda>_. []), gw_policy = (\<lambda>_. sample_env), gw_file = (\<lambda>_. None), gw_fold = (\<lambda>s. s),
     gw_providers = (\<lambda>_. Some fake_provider), gw_files = log_files, gw_patch = None,
     gw_put = (\<lambda>s w. (w, Inr (s, sample_hex 64, int (length s)))), gw_handle_of = (\<lambda>_. None), gw_cleanup_of = (\<lambda>_. None),
     gw_time = (\<lambda>_. []), gw_iso = (\<lambda>_. []), gw_class = (\<lambda>_. []), gw_explanation = (\<lambda>_. []),
     gw_inspection_text = (\<lambda>_. []), gw_evidence_text = (\<lambda>_. []), gw_transcript = (\<lambda>_ _ _ _ _ _ _ _. [])\<rparr>"

definition write_start :: "file_log gateway" where
  "write_start = \<lparr>gx_tick = 1, gx_store = write_store, gx_artifacts = [], gx_world = []\<rparr>"

lemma write_begins: "case snd (admit write_env (write_call ''src/a.py'' ''k'') write_start) of
    Inr (Begin i) \<Rightarrow> ti_id i = replicate 40 (CHR ''e'') | _ \<Rightarrow> False"
  by code_simp

lemma write_refused: "snd (admit write_env (write_call ''docs/a.py'' ''k'') write_start) = Inl (FleetError COMMAND_DENIED)"
  by code_simp


lemma write_store_inv: "store_inv write_store"
proof -
  have "runs_ok write_store" "leases_ok write_store" "intents_ok write_store" "approvals_ok write_store"
    "grants_ok write_store" "authority_ok write_store" "claims_ok write_store" "journal_ok write_store"
    by (simp_all add: runs_ok_def leases_ok_def intents_ok_def approvals_ok_def grants_ok_def authority_ok_def
        claims_ok_def journal_ok_def journal_def write_store_def sample_store_def held_def row_of_lease_def
        sample_run_def new_run_def)
  then show ?thesis by (simp add: store_inv_def)
qed

theorem refused_call_without_effect_witness:
  "gx_world (fst (execute write_env (write_call ''docs/a.py'' ''k'') write_start)) = []
   \<and> snd (execute write_env (write_call ''docs/a.py'' ''k'') write_start) = Inl (FleetError COMMAND_DENIED)"
  using refused_call_without_effect [of write_env "write_call ''docs/a.py'' ''k''" write_start,
      OF prod.collapse [symmetric] prod.collapse [symmetric]] write_refused
  by (simp add: write_start_def)

theorem tool_begins_at_most_once_witness:
  "count_wins (call_step write_env) (begins write_env (replicate 40 (CHR ''e''))) write_start
     [write_call ''src/a.py'' ''k'', write_call ''src/a.py'' ''k''] = 1"
  (is "count_wins _ ?w _ (?c # ?cs) = 1")
proof -
  have "?w write_start ?c" unfolding begins_def using write_begins by (auto split: sum.splits admission.splits)
  then have "1 \<le> count_wins (call_step write_env) ?w write_start (?c # ?cs)" by simp
  moreover have "store_inv (gx_store write_start)" by (simp add: write_start_def write_store_inv)
  ultimately show ?thesis using tool_begins_at_most_once [of write_start write_env _ "?c # ?cs"] by (metis le_antisym)
qed

theorem begun_tool_authorised_witness:
  "claimed (replicate 40 (CHR ''e'')) (gx_store (fst (admit write_env (write_call ''src/a.py'' ''k'') write_start)))"
proof -
  obtain i where "admit write_env (write_call ''src/a.py'' ''k'') write_start =
      (fst (admit write_env (write_call ''src/a.py'' ''k'') write_start), Inr (Begin i))"
    and "ti_id i = replicate 40 (CHR ''e'')"
    using write_begins by (auto simp: prod_eq_iff split: sum.splits admission.splits)
  then show ?thesis using begun_tool_authorised by metis
qed

section \<open>A verification command\<close>

definition container :: sandbox_capabilities where
  "container = \<lparr>sb_provider = ''docker'', sb_level = ISOLATED, sb_isolation = True,
     sb_executes = True, sb_networks = [''none''], sb_resource_limits = True, sb_recovery = True,
     sb_non_root = True, sb_read_only_root = True, sb_no_new_privileges = True, sb_capability_drop = True\<rparr>"

definition verify_run :: run where
  "verify_run = sample_run\<lparr>run_stage := Some VERIFYING, run_sandbox_name := ''docker'',
     run_configuration_hash := Some (sample_hex 64), run_requirements := Some default_requirements,
     run_capabilities := Some container, run_image := Some (''sha256:'' @ sample_hex 64),
     run_daemon := Some (sample_hex 64), run_patch_hash := Some (sample_hex 64)\<rparr>"

definition verify_sandbox :: sandbox_handle where
  "verify_sandbox = \<lparr>sh_id = sample_id ''sandbox'', sh_run = sample_id ''run'', sh_project = Some (sample_id ''prj''),
     sh_path = ''/v'', sh_provider = ''docker'', sh_capabilities = container,
     sh_configuration = Some (sample_hex 64), sh_image = Some (''sha256:'' @ sample_hex 64),
     sh_daemon = Some (sample_hex 64), sh_scope = Some (sample_hex 32)\<rparr>"

definition verify_call :: tool_call where
  "verify_call = \<lparr>tc_run = verify_run, tc_task = sample_task,
     tc_agent = writing_agent\<lparr>agent_id := sample_id ''agent'', agent_role := ''verifier'', agent_kind := Some VERIFIER\<rparr>,
     tc_workspace = \<lparr>ws_id = sample_id ''ws'', ws_run = sample_id ''run'', ws_kind = VERIFICATION, ws_path = ''/v'', ws_base = ''b''\<rparr>,
     tc_sandbox = verify_sandbox, tc_scripted = tc_scripted (write_call [] [])\<rparr>"

definition verify_intent :: tool_intent where
  "verify_intent = sample_write\<lparr>ti_id := sample_id ''intent'', ti_agent := sample_id ''agent'', ti_role := ''verifier'',
     ti_stage := VERIFYING, ti_action := ''command.run''\<rparr>"

definition tool_id :: "nat \<Rightarrow> nat \<Rightarrow> string" where
  "tool_id k n = (if k = 0 then ''exec'' else if k = 2 then ''lease'' else ''art'') @ CHR ''_''
     # replicate 29 (CHR ''0'') @ [char_of (48 + k div 10), char_of (48 + k mod 10), char_of (48 + n)]"

definition verify_handle :: "exec_request \<Rightarrow> execution_handle" where
  "verify_handle r = \<lparr>xh_id = the (er_execution r), xh_sandbox = sample_id ''sandbox'', xh_run = sample_id ''run'',
     xh_provider = ''docker'', xh_native = ''c'',
     xh_labels = [(''agent-fleet.agent'', the (er_agent r)), (''agent-fleet.daemon'', sample_hex 64),
       (''agent-fleet.execution'', the (er_execution r)), (''agent-fleet.installation'', sample_hex 32),
       (''agent-fleet.intent'', the (er_intent r)), (''agent-fleet.managed'', ''true''),
       (''agent-fleet.project'', sample_id ''prj''), (''agent-fleet.run'', sample_id ''run''),
       (''agent-fleet.sandbox'', sample_id ''sandbox''), (''agent-fleet.stage'', ''verifying''),
       (''agent-fleet.task'', the (er_task r))],
     xh_labels_sha = sample_hex 64\<rparr>"

definition verify_inspection :: inspection where
  "verify_inspection = \<lparr>in_sandbox = sample_id ''sandbox'', in_provider = ''docker'', in_ready = True,
     in_capabilities = container, in_configuration = sample_hex 64,
     in_image = Some (''sha256:'' @ sample_hex 64), in_daemon = Some (sample_hex 64), in_network = ''none'',
     in_non_root = True, in_read_only_root = True, in_no_new_privileges = True, in_dropped = True,
     in_limits = True, in_mounts = True, in_at = 1\<rparr>"

definition verify_result :: "exec_request \<Rightarrow> exec_result" where
  "verify_result r = \<lparr>xr_exit = 0, xr_stdout = ''ok'', xr_stderr = [], xr_started = 1, xr_completed = 2,
     xr_timed_out = False, xr_truncated = False,
     xr_execution = Some \<lparr>em_id = the (er_execution r), em_provider = ''docker'', em_resource = sample_hex 64,
       em_configuration = sample_hex 64, em_capabilities = sample_hex 64, em_inspection_hash = Some (sample_hex 64),
       em_inspection = Some verify_inspection, em_handle = verify_handle r,
       em_cleanup = \<lparr>cu_provider = ''docker'', cu_resource = ''c'', cu_found = 1, cu_removed = 1,
         cu_reconciled = True, cu_complete = True, cu_at = 2\<rparr>\<rparr>\<rparr>"

definition docker_provider :: "file_log provider" where
  "docker_provider = fake_provider\<lparr>pv_capabilities := container,
     pv_exec := (\<lambda>h r w. let failed = (\<lambda>e. Finished w (Inl \<lparr>fl_exn = e, fl_type = [], fl_proof = None, fl_binding = None\<rparr>)) in
       Dispatching w (\<lambda>o1. case o1 of Some e \<Rightarrow> failed e
         | None \<Rightarrow> Creating w (verify_handle r) (\<lambda>o2. case o2 of Some e \<Rightarrow> failed e
             | None \<Rightarrow> Finished w (Inr (verify_result r)))))\<rparr>"

definition verify_env :: "file_log gateway_env" where
  "verify_env = write_env\<lparr>gw_checks := quiet_checks\<lparr>sandbox_of := \<lambda>_. Some verify_sandbox\<rparr>, gw_new := tool_id,
     gw_providers := (\<lambda>_. Some docker_provider),
     gw_patch := Some (\<lambda>_ w. (w, Inr \<lparr>pi_content = [], pi_sha = sample_hex 64, pi_paths = []\<rparr>))\<rparr>"

definition verify_start :: "file_log gateway" where
  "verify_start = write_start\<lparr>gx_tick := 0, gx_store := write_store\<lparr>db_runs :=
     [\<lparr>rr_id = run_id verify_run, rr_project = run_project verify_run,
       rr_status = RUNNING, rr_stage = Some VERIFYING, rr_data = verify_run\<rparr>]\<rparr>\<rparr>"

definition verified :: "file_log gateway \<times> json res" where
  "verified = run_command verify_env verify_call verify_intent sample_command ''none'' verify_start"

lemma command_verifies: "case snd verified of Inr v \<Rightarrow>
    text_field v ''command_evidence_artifact_id'' = Some (''art_'' @ replicate 29 (CHR ''0'') @ ''130'') | Inl _ \<Rightarrow> False"
  by code_simp

theorem evidence_strength_founded_witness:
  "\<exists>e a. a \<in> set (gx_artifacts (fst verified)) \<and> am_id a = ev_id e \<and> evidence_ok e
     \<and> ev_id e = ''art_'' @ replicate 29 (CHR ''0'') @ ''130''"
proof -
  obtain v where v: "run_command verify_env verify_call verify_intent sample_command ''none'' verify_start = (fst verified, Inr v)"
    and id: "text_field v ''command_evidence_artifact_id'' = Some (''art_'' @ replicate 29 (CHR ''0'') @ ''130'')"
    using command_verifies by (auto simp: verified_def prod_eq_iff split: sum.splits)
  show ?thesis using evidence_strength_founded [OF v] unfolding id
    by (elim exE conjE) ((rule exI)+, intro conjI, assumption, assumption, assumption, simp)
qed







end
