(* ===== verification/Spec2Isabelle.thy ===== *)
theory Spec2Isabelle
  imports Fleet_Plan Budget_Properties State_Witnesses Role_Templates Trust_Witnesses Graph_Witnesses Evidence_Witnesses
    Gateway_Witnesses
begin

text \<open>
  Agent Fleet Foundry, the control plane of a fleet of coding agents (\<open>src/agent_fleet\<close>).
\<close>

end
